(* ===== verification/Prelude.thy ===== *)
theory Prelude
  imports Main "HOL-Library.AList"
begin

section \<open>Results, loops and life cycles shared by every component\<close>

text \<open>
  A Go function that returns \<open>(T, error)\<close> becomes a function into a sum type: \<open>Inl e\<close> is
  the error that is returned (the zero value beside it is dropped, as every caller drops it),
  \<open>Inr x\<close> is the value with a nil error. A function that returns only \<open>error\<close> returns
  \<open>Inr ()\<close> for nil. The helpers below are the control flow of such functions: sequencing
  after \<open>if err != nil { return err }\<close>, the early return, and the \<open>for range\<close> loops
  that stop at the first error, with or without the local map of keys already seen.
\<close>

named_theorems res_simps \<open>when a validating function returns without an error\<close>

definition bindR :: "'e + 'a \<Rightarrow> ('a \<Rightarrow> 'e + 'b) \<Rightarrow> 'e + 'b" where
  "bindR r f = (case r of Inl e \<Rightarrow> Inl e | Inr x \<Rightarrow> f x)"

definition thenR :: "'e + unit \<Rightarrow> 'e + 'b \<Rightarrow> 'e + 'b" where
  "thenR r k = (case r of Inl e \<Rightarrow> Inl e | Inr _ \<Rightarrow> k)"

definition failIf :: "bool \<Rightarrow> 'e \<Rightarrow> 'e + unit" where
  "failIf b e = (if b then Inl e else Inr ())"

definition withCause :: "'e \<Rightarrow> 'd + 'a \<Rightarrow> 'e + 'a" where
  "withCause e r = (case r of Inl _ \<Rightarrow> Inl e | Inr x \<Rightarrow> Inr x)"

fun eachR :: "('a \<Rightarrow> 'e + unit) \<Rightarrow> 'a list \<Rightarrow> 'e + unit" where
  "eachR f [] = Inr ()"
| "eachR f (x # xs) = thenR (f x) (eachR f xs)"

fun mapR :: "('a \<Rightarrow> 'e + 'b) \<Rightarrow> 'a list \<Rightarrow> 'e + 'b list" where
  "mapR f [] = Inr []"
| "mapR f (x # xs) = bindR (f x) (\<lambda>y. bindR (mapR f xs) (\<lambda>ys. Inr (y # ys)))"

fun foldR :: "('s \<Rightarrow> 'a \<Rightarrow> 'e + 's) \<Rightarrow> 's \<Rightarrow> 'a list \<Rightarrow> 'e + 's" where
  "foldR f s [] = Inr s"
| "foldR f s (x # xs) = bindR (f s x) (\<lambda>s'. foldR f s' xs)"

fun mapAccR :: "('s \<Rightarrow> 'a \<Rightarrow> 'e + 'b \<times> 's) \<Rightarrow> 's \<Rightarrow> 'a list \<Rightarrow> 'e + 'b list \<times> 's" where
  "mapAccR f s [] = Inr ([], s)"
| "mapAccR f s (x # xs) =
     bindR (f s x) (\<lambda>(y, s'). bindR (mapAccR f s' xs) (\<lambda>(ys, s''). Inr (y # ys, s'')))"

text \<open>For evaluation the two are their case distinctions: a branch not taken is not evaluated.\<close>

declare bindR_def [code_unfold] thenR_def [code_unfold]

subsection \<open>When a composed check succeeds\<close>

lemma bindR_simps [simp]: "bindR (Inl e) f = Inl e" "bindR (Inr x) f = f x"
  by (simp_all add: bindR_def)

lemma thenR_simps [simp]: "thenR (Inl e) k = Inl e" "thenR (Inr u) k = k"
  by (simp_all add: thenR_def)

lemma bindR_Inr [res_simps]: "bindR r f = Inr y \<longleftrightarrow> (\<exists>x. r = Inr x \<and> f x = Inr y)"
  by (cases r) auto

lemma thenR_Inr [res_simps]: "thenR r k = Inr y \<longleftrightarrow> r = Inr () \<and> k = Inr y"
  by (cases r) auto

lemma failIf_Inr [res_simps]: "failIf b e = Inr u \<longleftrightarrow> \<not> b"
  by (simp add: failIf_def)

lemma failIf_simps [simp]: "failIf True e = Inl e" "failIf False e = Inr ()"
  by (simp_all add: failIf_def)

lemma if_Inl_Inr [res_simps]: "(if b then Inl e else r) = Inr x \<longleftrightarrow> \<not> b \<and> r = Inr x"
  by simp

lemma if_not_Inl_Inr [res_simps]: "(if b then r else Inl e) = Inr x \<longleftrightarrow> b \<and> r = Inr x"
  by simp

lemma withCause_Inr [res_simps]: "withCause e r = Inr x \<longleftrightarrow> r = Inr x"
  by (cases r) (auto simp: withCause_def)

lemma withCause_simps [simp]: "withCause e (Inl d) = Inl e" "withCause e (Inr x) = Inr x"
  by (simp_all add: withCause_def)

lemma eachR_Inr [res_simps]: "eachR f xs = Inr u \<longleftrightarrow> (\<forall>x \<in> set xs. f x = Inr ())"
  by (induction xs) (auto simp: res_simps)

lemma mapR_Inr [res_simps]: "mapR f xs = Inr ys \<longleftrightarrow> list_all2 (\<lambda>x y. f x = Inr y) xs ys"
  by (induction xs arbitrary: ys) (auto simp: bindR_Inr list_all2_Cons1)

lemma mapR_length: "mapR f xs = Inr ys \<Longrightarrow> length ys = length xs"
  by (auto simp: mapR_Inr dest: list_all2_lengthD)

lemma mapR_idem:
  assumes "\<And>x y. f x = Inr y \<Longrightarrow> f y = Inr y" and "mapR f xs = Inr ys"
  shows "mapR f ys = Inr ys"
  using assms(2) by (induction xs arbitrary: ys) (auto simp: bindR_Inr assms(1))

lemma mapR_set:
  assumes "mapR f xs = Inr ys" and "y \<in> set ys"
  shows "\<exists>x \<in> set xs. f x = Inr y"
  using assms by (induction xs arbitrary: ys) (auto simp: bindR_Inr)

lemma unit_resE: "(r :: 'e + unit) = Inr () \<or> (\<exists>e. r = Inl e)"
  by (cases r) auto

lemma fresh_key: "k \<notin> set (map key seen) \<Longrightarrow> z \<in> set seen \<Longrightarrow> key z \<noteq> k"
  by auto

subsection \<open>Loops over a local map of seen keys\<close>

text \<open>
  Many validators of the program run the same loop: every element is checked (and possibly
  normalised), its key must not be in the local map \<open>seen\<close>, and the key is then added. The
  contract of one iteration is the locale; what the whole loop guarantees is proved once.
\<close>

locale checking_loop =
  fixes step :: "'k list \<Rightarrow> 'a \<Rightarrow> 'e + 'k list"
    and key :: "'a \<Rightarrow> 'k"
    and good :: "'a \<Rightarrow> bool"
  assumes step_Inr: "step seen x = Inr seen' \<longleftrightarrow> good x \<and> key x \<notin> set seen \<and> seen' = key x # seen"
begin

lemma loop_Inr:
  "foldR step seen xs = Inr seen' \<longleftrightarrow>
     (\<forall>x \<in> set xs. good x) \<and> distinct (map key xs) \<and> set (map key xs) \<inter> set seen = {}
     \<and> seen' = rev (map key xs) @ seen"
proof (induction xs arbitrary: seen)
  case Nil
  then show ?case by auto
next
  case (Cons x xs)
  show ?case
  proof -
    have "foldR step seen (x # xs) = Inr seen' \<longleftrightarrow>
        good x \<and> key x \<notin> set seen \<and> foldR step (key x # seen) xs = Inr seen'"
      by (auto simp: bindR_Inr step_Inr)
    then show ?thesis by (auto simp: Cons.IH)
  qed
qed

lemma loop_ok:
  "(\<exists>seen'. foldR step [] xs = Inr seen') \<longleftrightarrow> (\<forall>x \<in> set xs. good x) \<and> distinct (map key xs)"
  by (auto simp: loop_Inr)

end

locale normalising_loop =
  fixes step :: "'k list \<Rightarrow> 'a \<Rightarrow> 'e + 'a \<times> 'k list"
    and key :: "'a \<Rightarrow> 'k"
    and good :: "'a \<Rightarrow> bool"
    and norm :: "'a \<Rightarrow> 'a"
  assumes step_Inr: "step seen x = Inr (y, seen') \<longleftrightarrow>
      y = norm x \<and> good y \<and> key y \<notin> set seen \<and> seen' = key y # seen"
begin

lemma loop_Inr:
  "mapAccR step seen xs = Inr (ys, seen') \<longleftrightarrow>
     ys = map norm xs \<and> (\<forall>y \<in> set ys. good y) \<and> distinct (map key ys)
     \<and> set (map key ys) \<inter> set seen = {} \<and> seen' = rev (map key ys) @ seen"
proof (induction xs arbitrary: seen ys)
  case Nil
  then show ?case by auto
next
  case (Cons x xs)
  have "mapAccR step seen (x # xs) = Inr (ys, seen') \<longleftrightarrow>
      (\<exists>ys'. ys = norm x # ys' \<and> good (norm x) \<and> key (norm x) \<notin> set seen
        \<and> mapAccR step (key (norm x) # seen) xs = Inr (ys', seen'))"
    by (simp add: bindR_Inr step_Inr split_paired_Ex) blast
  then have "mapAccR step seen (x # xs) = Inr (ys, seen') \<longleftrightarrow>
      (\<exists>ys'. ys = norm x # ys' \<and> good (norm x) \<and> key (norm x) \<notin> set seen
        \<and> ys' = map norm xs \<and> (\<forall>y \<in> set ys'. good y) \<and> distinct (map key ys')
        \<and> set (map key ys') \<inter> set (key (norm x) # seen) = {}
        \<and> seen' = rev (map key ys') @ key (norm x) # seen)"
    by (simp only: Cons.IH)
  then show ?case by (cases ys) (simp_all, metis (no_types, lifting))
qed

lemma loop_good:
  "mapAccR step seen xs = Inr (ys, seen') \<Longrightarrow>
     ys = map norm xs \<and> (\<forall>y \<in> set ys. good y) \<and> distinct (map key ys)"
  unfolding loop_Inr by blast

end

locale idempotent_loop = normalising_loop +
  assumes norm_idem: "good (norm x) \<Longrightarrow> norm (norm x) = norm x"
begin

lemma loop_idem:
  "mapAccR step seen xs = Inr (ys, seen') \<Longrightarrow> mapAccR step seen ys = Inr (ys, seen')"
proof -
  assume a: "mapAccR step seen xs = Inr (ys, seen')"
  then have "map norm ys = ys" by (auto simp: loop_Inr norm_idem)
  with a show ?thesis unfolding loop_Inr by metis
qed

end

text \<open>
  The same loop when the whole elements seen so far are kept and the new one must be compatible
  with each of them.
\<close>

locale pairwise_loop =
  fixes step :: "'a list \<Rightarrow> 'a \<Rightarrow> 'e + 'a \<times> 'a list"
    and norm :: "'a \<Rightarrow> 'a"
    and good :: "'a \<Rightarrow> bool"
    and compat :: "'a \<Rightarrow> 'a \<Rightarrow> bool"
  assumes step_good: "step seen x = Inr (y, seen') \<Longrightarrow>
      y = norm x \<and> good y \<and> (\<forall>z \<in> set seen. compat z y) \<and> seen' = y # seen"
begin

lemma loop_good:
  "mapAccR step seen xs = Inr (ys, seen') \<Longrightarrow>
     ys = map norm xs \<and> (\<forall>y \<in> set ys. good y) \<and> sorted_wrt compat ys
     \<and> (\<forall>z \<in> set seen. \<forall>y \<in> set ys. compat z y)"
proof (induction xs arbitrary: seen ys)
  case (Cons x xs)
  then obtain y t zs where st: "step seen x = Inr (y, t)" "mapAccR step t xs = Inr (zs, seen')"
      "ys = y # zs"
    by (auto simp: bindR_Inr)
  from step_good [OF st(1)] have y: "y = norm x" "good y" "\<forall>z \<in> set seen. compat z y" "t = y # seen"
    by auto
  note ih = Cons.IH [OF st(2)]
  then show ?case using y by (auto simp: st(3))
qed simp

lemma distinct_key:
  assumes "mapAccR step seen xs = Inr (ys, seen')" and "\<And>a b. compat a b \<Longrightarrow> key a \<noteq> key b"
  shows "distinct (map key ys)"
proof -
  have "sorted_wrt compat ys" using loop_good [OF assms(1)] by blast
  then show ?thesis using assms(2) by (induction ys) auto
qed

lemma compat_pair:
  assumes "mapAccR step [] xs = Inr (ys, seen')" and "a \<in> set ys" and "b \<in> set ys" and "a \<noteq> b"
  shows "compat a b \<or> compat b a"
proof -
  have "sorted_wrt compat ys" using loop_good [OF assms(1)] by blast
  then show ?thesis using assms(2-4) by (induction ys) auto
qed

end

subsection \<open>Maps filled in a loop\<close>

text \<open>
  \<open>for _, x := range xs { m[key(x)] = x }\<close> on an empty map: a later element replaces an earlier
  one with the same key.
\<close>

definition by_key :: "('a \<Rightarrow> 'k) \<Rightarrow> 'a list \<Rightarrow> 'k \<Rightarrow> 'a option" where
  "by_key key xs = map_of (rev (map (\<lambda>x. (key x, x)) xs))"

lemma by_key_Some: "by_key key xs k = Some x \<Longrightarrow> x \<in> set xs \<and> key x = k"
  unfolding by_key_def by (drule map_of_SomeD) auto

lemma by_key_None: "by_key key xs k = None \<longleftrightarrow> k \<notin> key ` set xs"
  by (force simp: by_key_def map_of_eq_None_iff)

lemma by_key_dom: "dom (by_key key xs) = key ` set xs"
  using by_key_None [of key xs] by (auto simp: dom_def)

lemma by_key_distinct:
  assumes "distinct (map key xs)" and "x \<in> set xs"
  shows "by_key key xs (key x) = Some x"
proof -
  obtain y where "by_key key xs (key x) = Some y"
    using assms(2) by (metis by_key_None image_eqI not_None_eq)
  moreover have "y = x"
    using by_key_Some [OF calculation] assms by (auto simp: distinct_map inj_on_def)
  ultimately show ?thesis by simp
qed

subsection \<open>Life cycles guarded by a transition check\<close>

text \<open>
  The modules guard every status update by a function of the current and the next status that
  returns an error for a forbidden move. The states such a guard lets an object pass through
  are its reflexive transitive closure.
\<close>

inductive moves :: "('s \<Rightarrow> 's \<Rightarrow> 'e + unit) \<Rightarrow> 's \<Rightarrow> 's \<Rightarrow> bool" for g where
  moves_refl: "moves g s s"
| moves_step: "moves g s t \<Longrightarrow> g t u = Inr () \<Longrightarrow> moves g s u"

lemma moves_trans: "moves g t u \<Longrightarrow> moves g s t \<Longrightarrow> moves g s u"
  by (induction rule: moves.induct) (auto intro: moves.intros)

lemma moves_first: "g s t = Inr () \<Longrightarrow> moves g t u \<Longrightarrow> moves g s u"
  by (blast intro: moves_trans moves.intros)

locale lifecycle =
  fixes guard :: "'s \<Rightarrow> 's \<Rightarrow> 'e + unit"
    and closed :: "'s \<Rightarrow> bool"
  assumes closed_step: "closed s \<Longrightarrow> guard s t = Inr () \<Longrightarrow> closed t"
begin

lemma closed_moves: "moves guard s t \<Longrightarrow> closed s \<Longrightarrow> closed t"
  by (induction rule: moves.induct) (auto intro: closed_step)

lemma never_leaves: "closed s \<Longrightarrow> \<not> closed t \<Longrightarrow> \<not> moves guard s t"
  using closed_moves by blast

end

locale ranked_lifecycle =
  fixes guard :: "'s \<Rightarrow> 's \<Rightarrow> 'e + unit"
    and rank :: "'s \<Rightarrow> nat"
  assumes rank_step: "guard s t = Inr () \<Longrightarrow> rank s < rank t"
begin

sublocale above: lifecycle guard "\<lambda>s. r \<le> rank s" for r
  by unfold_locales (auto dest: rank_step)

lemma moves_rank: "moves guard s t \<Longrightarrow> s = t \<or> rank s < rank t"
  by (induction rule: moves.induct) (auto dest: rank_step)

lemma moves_antisym: "moves guard s t \<Longrightarrow> moves guard t s \<Longrightarrow> s = t"
  by (auto dest!: moves_rank)

end

end
