(* ===== verification/PlatformNum.thy ===== *)
theory PlatformNum
  imports Prelude "HOL-Library.Word"
begin

section \<open>Checked narrowing and paging (platform/intx, platform/pagex)\<close>

text \<open>
  Go's \<open>int\<close> and \<open>int64\<close> are \<open>64 word\<close>, \<open>int32\<close> is \<open>32 word\<close>; comparisons read
  them as two's complement (\<open>sint\<close>) and arithmetic wraps. Each narrowing function returns the
  value and the \<open>ok\<close> flag of the source.
\<close>

subsection \<open>intx\<close>

definition Int32 :: "64 word \<Rightarrow> 32 word \<times> bool" where
  "Int32 value =
     (if sint value < - 2147483648 \<or> sint value > 2147483647 then (0, False)
      else (ucast value, True))"

definition Int64ToInt32 :: "64 word \<Rightarrow> 32 word \<times> bool" where
  "Int64ToInt32 value =
     (if sint value < - 2147483648 \<or> sint value > 2147483647 then (0, False)
      else (ucast value, True))"

definition Int64ToInt16 :: "64 word \<Rightarrow> 16 word \<times> bool" where
  "Int64ToInt16 value =
     (if sint value < - 32768 \<or> sint value > 32767 then (0, False)
      else (ucast value, True))"

definition Int16 :: "64 word \<Rightarrow> 16 word \<times> bool" where
  "Int16 value =
     (if sint value < - 32768 \<or> sint value > 32767 then (0, False)
      else (ucast value, True))"

definition Uint32 :: "64 word \<Rightarrow> 32 word \<times> bool" where
  "Uint32 value =
     (if sint value < 0 \<or> uint value > 4294967295 then (0, False)
      else (ucast value, True))"

text \<open>
  Elsewhere an \<open>int64\<close> is kept as the \<open>int\<close> it stands for; an operation that can leave
  the 64 bits is then wrapped by \<open>i64\<close>.
\<close>

definition i64 :: "int \<Rightarrow> int" where "i64 x = signed_take_bit 63 x"

lemma i64_id: "- (2 ^ 63) \<le> x \<Longrightarrow> x < 2 ^ 63 \<Longrightarrow> i64 x = x"
  by (simp add: i64_def signed_take_bit_int_eq_self)

lemma sint_ucast_narrow:
  fixes w :: "64 word"
  assumes "LENGTH('b::len) < 64" and "- (2 ^ (LENGTH('b) - 1)) \<le> sint w" and "sint w < 2 ^ (LENGTH('b) - 1)"
  shows "sint (ucast w :: 'b word) = sint w"
proof -
  have "sint (ucast w :: 'b word) = signed_take_bit (LENGTH('b) - 1) (uint w)"
    using assms(1) by transfer (simp add: signed_take_bit_take_bit min_def)
  also have "\<dots> = signed_take_bit (LENGTH('b) - 1) (sint w)"
  proof -
    have "LENGTH('b) - 1 \<le> 63" "\<not> 64 < LENGTH('b)" using assms(1) by simp_all
    then show ?thesis by transfer (simp add: signed_take_bit_take_bit min_def)
  qed
  also have "\<dots> = sint w"
    using assms(2,3) by (simp add: signed_take_bit_int_eq_self)
  finally show ?thesis .
qed

text \<open>
  The contract the five functions share: the flag says whether the value is in the range of the
  narrower type, and then it is unchanged; otherwise the zero value is returned.
\<close>

locale checked_narrowing =
  fixes narrow :: "64 word \<Rightarrow> 'b::len word \<times> bool"
    and lo hi :: int
    and val :: "'b word \<Rightarrow> int"
  assumes in_range: "lo \<le> sint v \<Longrightarrow> sint v \<le> hi \<Longrightarrow> snd (narrow v) \<and> val (fst (narrow v)) = sint v"
    and out_of_range: "\<not> (lo \<le> sint v \<and> sint v \<le> hi) \<Longrightarrow> narrow v = (0, False)"
begin

lemma ok_iff: "snd (narrow v) \<longleftrightarrow> lo \<le> sint v \<and> sint v \<le> hi"
  using in_range out_of_range by (metis snd_conv)

lemma value_kept: "narrow v = (w, True) \<Longrightarrow> val w = sint v"
  using in_range ok_iff by (metis fst_conv snd_conv)

lemma failed_is_zero: "narrow v = (w, False) \<Longrightarrow> w = 0"
  using in_range out_of_range by (metis fst_conv snd_conv)

end

interpretation int32: checked_narrowing Int32 "- 2147483648" 2147483647 sint
  by unfold_locales (auto simp: Int32_def intro!: sint_ucast_narrow)

interpretation int64_to_int32: checked_narrowing Int64ToInt32 "- 2147483648" 2147483647 sint
  by unfold_locales (auto simp: Int64ToInt32_def intro!: sint_ucast_narrow)

interpretation int64_to_int16: checked_narrowing Int64ToInt16 "- 32768" 32767 sint
  by unfold_locales (auto simp: Int64ToInt16_def intro!: sint_ucast_narrow)

interpretation int16: checked_narrowing Int16 "- 32768" 32767 sint
  by unfold_locales (auto simp: Int16_def intro!: sint_ucast_narrow)

lemma sint_nonneg_uint: "0 \<le> sint (w :: 64 word) \<Longrightarrow> uint w = sint w"
proof -
  assume "0 \<le> sint w"
  moreover have "sint w < 2 ^ 63" using sint_lt [of w] by simp
  ultimately show ?thesis by (simp add: uint_sint take_bit_int_eq_self)
qed

interpretation uint32: checked_narrowing Uint32 0 4294967295 uint
  by unfold_locales (auto simp: Uint32_def sint_nonneg_uint unsigned_ucast_eq take_bit_int_eq_self)

subsection \<open>pagex\<close>

definition defaultPage :: "64 word" where "defaultPage = 1"
definition defaultSize :: "64 word" where "defaultSize = 20"
definition maxSize :: "64 word" where "maxSize = 100"
definition maxPage :: "64 word" where "maxPage = 2147483647 div maxSize"

definition Normalize :: "64 word \<Rightarrow> 64 word \<Rightarrow> 64 word \<times> 64 word" where
  "Normalize page sz =
     (let page = (if sint page \<le> 0 then defaultPage else page);
          sz = (if sint sz \<le> 0 then defaultSize else sz);
          sz = (if sint sz > sint maxSize then maxSize else sz);
          page = (if sint page > sint maxPage then maxPage else page)
      in (page, sz))"

definition MaximumSize :: "64 word" where "MaximumSize = maxSize"

definition PageInt32 :: "64 word \<Rightarrow> 64 word \<Rightarrow> 32 word \<times> 32 word" where
  "PageInt32 page sz =
     (let (page, sz) = Normalize page sz;
          (page32, pageOK) = Int32 page;
          (size32, sizeOK) = Int32 sz
      in if \<not> pageOK \<or> \<not> sizeOK then (0, 0) else (page32, size32))"

definition LimitOffset :: "64 word \<Rightarrow> 64 word \<Rightarrow> 32 word \<times> 32 word" where
  "LimitOffset page sz =
     (let (page, sz) = Normalize page sz;
          offset = (page - 1) * sz;
          (limit32, limitOK) = Int32 sz;
          (offset32, offsetOK) = Int32 offset
      in if \<not> limitOK \<or> \<not> offsetOK then (0, 0) else (limit32, offset32))"

lemma maxPage_value: "maxPage = 21474836" "sint maxPage = 21474836"
  by (simp_all add: maxPage_def maxSize_def)

lemma Normalize_bounds:
  assumes "Normalize page sz = (p, s)"
  shows "1 \<le> sint p \<and> sint p \<le> 21474836 \<and> 1 \<le> sint s \<and> sint s \<le> 100"
  using assms
  by (auto simp: Normalize_def Let_def maxPage_value maxSize_def defaultPage_def defaultSize_def
      split: if_splits)

lemma Normalize_id:
  assumes "1 \<le> sint p" "sint p \<le> 21474836" "1 \<le> sint s" "sint s \<le> 100"
  shows "Normalize p s = (p, s)"
  using assms by (auto simp: Normalize_def Let_def maxPage_value maxSize_def)

lemma offset_exact:
  fixes p s :: "64 word"
  assumes "1 \<le> sint p" "sint p \<le> 21474836" "1 \<le> sint s" "sint s \<le> 100"
  shows "sint ((p - 1) * s) = (sint p - 1) * sint s"
proof -
  have "sint (p - 1) = sint p - 1"
    using assms by (simp add: sint_word_ariths signed_take_bit_int_eq_self)
  moreover have b: "0 \<le> (sint p - 1) * sint s" using assms by simp
  moreover have "(sint p - 1) * sint s \<le> 21474836 * 100"
    using assms by (intro mult_mono) auto
  ultimately show ?thesis
    by (simp add: sint_word_ariths(3) signed_take_bit_int_eq_self)
qed

text \<open>
  Whatever page and size a request carries (negative, zero, or as large as a 64-bit integer),
  the SQL LIMIT is between 1 and 100, the OFFSET is the product of the normalised page index and
  the size, it fits a 32-bit integer without wrapping, and the failure result (0, 0) never occurs.
\<close>

theorem LimitOffset_safe:
  "\<exists>p s. Normalize page sz = (p, s) \<and>
     (let (limit, offset) = LimitOffset page sz in
        sint limit = sint s \<and> 1 \<le> sint limit \<and> sint limit \<le> 100 \<and>
        sint offset = (sint p - 1) * sint s \<and> 0 \<le> sint offset \<and> sint offset \<le> 2147483500)"
proof -
  obtain p s where n: "Normalize page sz = (p, s)" by (cases "Normalize page sz")
  note b = Normalize_bounds [OF n]
  have off: "sint ((p - 1) * s) = (sint p - 1) * sint s" using b by (simp add: offset_exact)
  have nn: "0 \<le> (sint p - 1) * sint s" using b by simp
  have le: "(sint p - 1) * sint s \<le> 21474835 * 100" using b by (intro mult_mono) auto
  obtain l where l: "Int32 s = (l, True)" "sint l = sint s"
    using b int32.ok_iff [of s] int32.value_kept [of s] by (cases "Int32 s") auto
  obtain k where k: "Int32 ((p - 1) * s) = (k, True)" "sint k = (sint p - 1) * sint s"
    using off nn le int32.ok_iff [of "(p - 1) * s"] int32.value_kept [of "(p - 1) * s"]
    by (cases "Int32 ((p - 1) * s)") auto
  have "LimitOffset page sz = (l, k)" by (simp add: LimitOffset_def n l(1) k(1))
  with n l(2) k(2) b nn le show ?thesis by auto
qed

end
