(* ===== verification/GoStrings.thy ===== *)
theory GoStrings
  imports Prelude "HOL-Library.Sublist" "HOL-Library.Char_ord"
begin

section \<open>Go strings\<close>

text \<open>
  A Go string is a sequence of bytes, and so is \<open>string\<close> here (\<open>char\<close> is a byte); \<open>length\<close>
  is \<open>len\<close>. This theory holds the functions of package \<open>strings\<close> that the modelled code
  calls, and the anchored regular expressions of the modules as predicates.
\<close>

subsection \<open>Trimming\<close>

text \<open>
  \<open>strings.TrimSpace\<close> removes the runes of \<open>unicode.IsSpace\<close> at both ends. The list holds
  their UTF-8 encodings. No proper prefix or suffix of one of them is another one, and a lead
  byte is never a continuation byte, so comparing bytes agrees with decoding runes from either end.
\<close>

definition space_runes :: "string list" where
  "space_runes =
     [[CHR 0x20], [CHR 0x09], [CHR 0x0A], [CHR 0x0B], [CHR 0x0C], [CHR 0x0D],
      [CHR 0xC2, CHR 0x85], [CHR 0xC2, CHR 0xA0], [CHR 0xE1, CHR 0x9A, CHR 0x80],
      [CHR 0xE2, CHR 0x80, CHR 0x80], [CHR 0xE2, CHR 0x80, CHR 0x81], [CHR 0xE2, CHR 0x80, CHR 0x82],
      [CHR 0xE2, CHR 0x80, CHR 0x83], [CHR 0xE2, CHR 0x80, CHR 0x84], [CHR 0xE2, CHR 0x80, CHR 0x85],
      [CHR 0xE2, CHR 0x80, CHR 0x86], [CHR 0xE2, CHR 0x80, CHR 0x87], [CHR 0xE2, CHR 0x80, CHR 0x88],
      [CHR 0xE2, CHR 0x80, CHR 0x89], [CHR 0xE2, CHR 0x80, CHR 0x8A], [CHR 0xE2, CHR 0x80, CHR 0xA8],
      [CHR 0xE2, CHR 0x80, CHR 0xA9], [CHR 0xE2, CHR 0x80, CHR 0xAF], [CHR 0xE2, CHR 0x81, CHR 0x9F],
      [CHR 0xE3, CHR 0x80, CHR 0x80]]"

function strip_front :: "string list \<Rightarrow> string \<Rightarrow> string" where
  "strip_front ws s =
     (case find (\<lambda>w. w \<noteq> [] \<and> prefix w s) ws of
        None \<Rightarrow> s
      | Some w \<Rightarrow> strip_front ws (drop (length w) s))"
  by pat_completeness auto
termination
proof (relation "measure (\<lambda>(ws, s). length s)", goal_cases)
  case 1
  show ?case by simp
next
  case (2 ws s w)
  then have "w \<noteq> []" "prefix w s" by (auto simp: find_Some_iff)
  then show ?case by (auto simp: prefix_def)
qed

declare strip_front.simps [simp del]

definition trim_left :: "string \<Rightarrow> string" where
  "trim_left s = strip_front space_runes s"

definition trim_right :: "string \<Rightarrow> string" where
  "trim_right s = rev (strip_front (map rev space_runes) (rev s))"

definition TrimSpace :: "string \<Rightarrow> string" where
  "TrimSpace s = trim_right (trim_left s)"

lemma strip_front_done:
  "(\<forall>w \<in> set ws. w \<noteq> [] \<longrightarrow> \<not> prefix w s) \<Longrightarrow> strip_front ws s = s"
proof -
  assume "\<forall>w \<in> set ws. w \<noteq> [] \<longrightarrow> \<not> prefix w s"
  then have "find (\<lambda>w. w \<noteq> [] \<and> prefix w s) ws = None" by (auto simp: find_None_iff)
  then show ?thesis by (simp add: strip_front.simps [of ws s])
qed

lemma strip_front_fixed:
  "w \<in> set ws \<Longrightarrow> w \<noteq> [] \<Longrightarrow> \<not> prefix w (strip_front ws s)"
proof (induction ws s rule: strip_front.induct)
  case (1 ws s)
  show ?case
  proof (cases "find (\<lambda>w. w \<noteq> [] \<and> prefix w s) ws")
    case None
    then have "strip_front ws s = s" by (simp add: strip_front.simps [of ws s])
    with 1 None show ?thesis by (auto simp: find_None_iff)
  next
    case (Some v)
    with 1 show ?thesis by (simp add: strip_front.simps [of ws s])
  qed
qed

lemma strip_front_suffix: "suffix (strip_front ws s) s"
proof (induction ws s rule: strip_front.induct)
  case (1 ws s)
  show ?case
  proof (cases "find (\<lambda>w. w \<noteq> [] \<and> prefix w s) ws")
    case None
    then show ?thesis by (simp add: strip_front.simps [of ws s])
  next
    case (Some v)
    then have "strip_front ws s = strip_front ws (drop (length v) s)"
      by (simp add: strip_front.simps [of ws s])
    with 1 [OF Some] show ?thesis
      by (metis suffix_drop suffix_order.trans)
  qed
qed

lemma strip_front_idem: "strip_front ws (strip_front ws s) = strip_front ws s"
  by (rule strip_front_done) (auto dest: strip_front_fixed)

lemma trim_right_prefix: "prefix (trim_right s) s"
  by (metis rev_rev_ident strip_front_suffix suffix_to_prefix trim_right_def)

lemma trim_left_suffix: "suffix (trim_left s) s"
  by (simp add: trim_left_def strip_front_suffix)

lemma trim_right_idem: "trim_right (trim_right s) = trim_right s"
  by (simp add: trim_right_def strip_front_idem)

lemma trim_left_TrimSpace: "trim_left (TrimSpace s) = TrimSpace s"
  unfolding trim_left_def
proof (rule strip_front_done, intro ballI impI notI)
  fix w
  assume "w \<in> set space_runes" "w \<noteq> []" and p: "prefix w (TrimSpace s)"
  from p have "prefix w (trim_left s)"
    unfolding TrimSpace_def by (meson trim_right_prefix prefix_order.trans)
  with \<open>w \<in> set space_runes\<close> \<open>w \<noteq> []\<close> show False
    by (simp add: trim_left_def strip_front_fixed)
qed

lemma TrimSpace_idem [simp]: "TrimSpace (TrimSpace s) = TrimSpace s"
  by (metis TrimSpace_def trim_left_TrimSpace trim_right_idem)

text \<open>A text whose first and last byte are printable ASCII is its own trimmed form.\<close>

definition graphic :: "char \<Rightarrow> bool" where
  "graphic c \<longleftrightarrow> CHR 0x21 \<le> c \<and> c \<le> CHR 0x7E"

lemma space_runes_hd: "w \<in> set space_runes \<Longrightarrow> w \<noteq> [] \<and> \<not> graphic (hd w) \<and> \<not> graphic (last w)"
  by (auto simp: space_runes_def graphic_def less_eq_char_def)

lemma TrimSpace_graphic:
  assumes "s \<noteq> []" and "graphic (hd s)" and "graphic (last s)"
  shows "TrimSpace s = s"
proof -
  have l: "trim_left s = s"
    unfolding trim_left_def
  proof (rule strip_front_done, intro ballI impI notI)
    fix w assume "w \<in> set space_runes" "w \<noteq> []" "prefix w s"
    then show False using assms(2) space_runes_hd [of w] by (auto simp: prefix_def)
  qed
  have "strip_front (map rev space_runes) (rev s) = rev s"
  proof (rule strip_front_done, intro ballI impI notI)
    fix w assume w: "w \<in> set (map rev space_runes)" "w \<noteq> []" "prefix w (rev s)"
    then obtain v where v: "v \<in> set space_runes" "w = rev v" by auto
    with w have "hd w = last v" by (simp add: hd_rev)
    moreover from w have "hd w = hd (rev s)" by (metis hd_append2 prefixE)
    then have "hd w = last s" by (simp add: hd_rev)
    ultimately show False using assms(3) space_runes_hd [OF v(1)] by simp
  qed
  with l show ?thesis by (simp add: TrimSpace_def trim_right_def)
qed

lemma TrimSpace_Nil [simp]: "TrimSpace [] = []"
  by (metis TrimSpace_def suffix_bot.extremum_uniqueI trim_left_suffix trim_right_prefix prefix_bot.extremum_uniqueI)

subsection \<open>Prefixes, containment, splitting, joining\<close>

definition HasPrefix :: "string \<Rightarrow> string \<Rightarrow> bool" where
  "HasPrefix s p = prefix p s"

definition Contains :: "string \<Rightarrow> string \<Rightarrow> bool" where
  "Contains s sub = sublist sub s"

definition ContainsAny :: "string \<Rightarrow> string \<Rightarrow> bool" where
  "ContainsAny s cs = list_ex (\<lambda>c. c \<in> set cs) s"

definition TrimPrefix :: "string \<Rightarrow> string \<Rightarrow> string" where
  "TrimPrefix s p = (if prefix p s then drop (length p) s else s)"

definition cons_first :: "char \<Rightarrow> string list \<Rightarrow> string list" where
  "cons_first x ps = (case ps of [] \<Rightarrow> [[x]] | p # q \<Rightarrow> (x # p) # q)"

fun Split :: "string \<Rightarrow> char \<Rightarrow> string list" where
  "Split [] c = [[]]"
| "Split (x # xs) c =
     (if x = c then [] # Split xs c else cons_first x (Split xs c))"

definition SplitN2 :: "string \<Rightarrow> char \<Rightarrow> string list" where
  "SplitN2 s c = (if c \<in> set s then [takeWhile (\<lambda>x. x \<noteq> c) s, tl (dropWhile (\<lambda>x. x \<noteq> c) s)] else [s])"

fun Join :: "string list \<Rightarrow> string \<Rightarrow> string" where
  "Join [] sep = []"
| "Join [x] sep = x"
| "Join (x # xs) sep = x @ sep @ Join xs sep"

lemma cons_first_Cons [simp]: "cons_first x (p # q) = (x # p) # q"
  by (simp add: cons_first_def)

lemma Split_neq_Nil [simp]: "Split s c \<noteq> []"
  by (induction s) (auto simp: cons_first_def split: list.splits)

lemma cons_first_Split [simp]: "cons_first x (Split xs c) = (x # hd (Split xs c)) # tl (Split xs c)"
  by (cases "Split xs c") (auto simp: cons_first_def dest: arg_cong [of _ _ "\<lambda>l. l = []"])

lemma Split_no_sep: "x \<in> set (Split s c) \<Longrightarrow> c \<notin> set x"
proof (induction s arbitrary: x)
  case (Cons a s)
  then show ?case
    by (cases "Split s c") (auto split: if_splits)
qed simp

lemma Join_Cons: "xs \<noteq> [] \<Longrightarrow> Join (x # xs) sep = x @ sep @ Join xs sep"
  by (cases xs) auto

lemma Join_Split: "Join (Split s c) [c] = s"
proof (induction s)
  case (Cons a s)
  then show ?case
    by (cases "Split s c"; cases "tl (Split s c)") (auto simp: Join_Cons)
qed simp

lemma Split_no: "c \<notin> set s \<Longrightarrow> Split s c = [s]"
  by (induction s) auto

lemma Split_append: "c \<notin> set x \<Longrightarrow> Split (x @ c # s) c = x # Split s c"
  by (induction x) auto

lemma Split_Join: "xs \<noteq> [] \<Longrightarrow> \<forall>x \<in> set xs. c \<notin> set x \<Longrightarrow> Split (Join xs [c]) c = xs"
proof (induction xs)
  case (Cons x xs)
  then show ?case by (cases "xs = []") (auto simp: Join_Cons Split_no Split_append)
qed simp

subsection \<open>Letter case\<close>

text \<open>
  The code compares the results of \<open>strings.ToLower\<close>, \<open>strings.ToUpper\<close> and
  \<open>strings.EqualFold\<close> with ASCII words only. Outside ASCII exactly four runes are mapped into
  ASCII by them: U+212A (Kelvin sign) and U+0130 by lowering, U+0131 and U+017F by raising; folding
  identifies U+017F with s and U+212A with k. All other bytes are left as they are: what they
  become in Go is never ASCII.
\<close>

definition ascii_lower :: "char \<Rightarrow> char" where
  "ascii_lower c = (if CHR ''A'' \<le> c \<and> c \<le> CHR ''Z'' then char_of (of_char c + 32 :: nat) else c)"

definition ascii_upper :: "char \<Rightarrow> char" where
  "ascii_upper c = (if CHR ''a'' \<le> c \<and> c \<le> CHR ''z'' then char_of (of_char c - 32 :: nat) else c)"

fun ToLower :: "string \<Rightarrow> string" where
  "ToLower [] = []"
| "ToLower (c # s) =
     (if take 3 (c # s) = [CHR 0xE2, CHR 0x84, CHR 0xAA] then CHR ''k'' # ToLower (drop 2 s)
      else if take 2 (c # s) = [CHR 0xC4, CHR 0xB0] then CHR ''i'' # ToLower (drop 1 s)
      else ascii_lower c # ToLower s)"

fun ToUpper :: "string \<Rightarrow> string" where
  "ToUpper [] = []"
| "ToUpper (c # s) =
     (if take 2 (c # s) = [CHR 0xC4, CHR 0xB1] then CHR ''I'' # ToUpper (drop 1 s)
      else if take 2 (c # s) = [CHR 0xC5, CHR 0xBF] then CHR ''S'' # ToUpper (drop 1 s)
      else ascii_upper c # ToUpper s)"

fun FoldCase :: "string \<Rightarrow> string" where
  "FoldCase [] = []"
| "FoldCase (c # s) =
     (if take 3 (c # s) = [CHR 0xE2, CHR 0x84, CHR 0xAA] then CHR ''k'' # FoldCase (drop 2 s)
      else if take 2 (c # s) = [CHR 0xC5, CHR 0xBF] then CHR ''s'' # FoldCase (drop 1 s)
      else ascii_lower c # FoldCase s)"

definition EqualFold :: "string \<Rightarrow> string \<Rightarrow> bool" where
  "EqualFold s t = (FoldCase s = FoldCase t)"

subsection \<open>Numbers\<close>

fun digits_of :: "nat \<Rightarrow> string" where
  "digits_of n =
     (if n < 10 then [char_of (48 + n)] else digits_of (n div 10) @ [char_of (48 + n mod 10)])"

declare digits_of.simps [simp del]

definition FormatInt :: "int \<Rightarrow> string" where
  "FormatInt i = (if i < 0 then CHR ''-'' # digits_of (nat (- i)) else digits_of (nat i))"

subsection \<open>Anchored patterns\<close>

definition is_lower :: "char \<Rightarrow> bool" where "is_lower c \<longleftrightarrow> CHR ''a'' \<le> c \<and> c \<le> CHR ''z''"
definition is_upper :: "char \<Rightarrow> bool" where "is_upper c \<longleftrightarrow> CHR ''A'' \<le> c \<and> c \<le> CHR ''Z''"
definition is_digit :: "char \<Rightarrow> bool" where "is_digit c \<longleftrightarrow> CHR ''0'' \<le> c \<and> c \<le> CHR ''9''"

definition one_then :: "(char \<Rightarrow> bool) \<Rightarrow> (char \<Rightarrow> bool) \<Rightarrow> nat \<Rightarrow> string \<Rightarrow> bool" where
  "one_then f r n s = (case s of [] \<Rightarrow> False | c # cs \<Rightarrow> f c \<and> length cs \<le> n \<and> list_all r cs)"

definition low_num :: "char \<Rightarrow> bool" where "low_num c \<longleftrightarrow> is_lower c \<or> is_digit c"
definition low_num_dash :: "char \<Rightarrow> bool" where "low_num_dash c \<longleftrightarrow> low_num c \<or> c = CHR ''-''"

end
