(* ===== verification/PlatformIds.thy ===== *)
theory PlatformIds
  imports GoStrings
begin

section \<open>Public identifiers (platform/ids)\<close>

text \<open>
  Identifiers are positive \<open>int64\<close> values inside the backend and canonical decimal strings
  outside. \<open>digits_value\<close> is \<open>strconv.ParseInt\<close> in base 10 on digit strings; it fails
  from \<open>2 ^ 63\<close> on. \<open>MarshalText\<close> and \<open>UnmarshalText\<close> are the methods of the
  same names.
\<close>

definition max_int64 :: int where "max_int64 = 9223372036854775807"

definition digit_val :: "char \<Rightarrow> nat" where "digit_val c = of_char c - 48"

definition digits_value :: "string \<Rightarrow> nat" where
  "digits_value s = foldl (\<lambda>a c. a * 10 + digit_val c) 0 s"

definition Format :: "int \<Rightarrow> string" where "Format i = FormatInt i"

definition Parse :: "string \<Rightarrow> int \<times> bool" where
  "Parse v =
     (if v = [] \<or> hd v < CHR ''1'' \<or> hd v > CHR ''9'' then (0, False)
      else if list_ex (\<lambda>c. c < CHR ''0'' \<or> c > CHR ''9'') v then (0, False)
      else let i = int (digits_value v)
           in if i > max_int64 \<or> i \<le> 0 then (0, False) else (i, True))"

datatype id_error = IdNotPositive | IdNotCanonical

definition MarshalText :: "int \<Rightarrow> id_error + string" where
  "MarshalText i = (if i \<le> 0 then Inl IdNotPositive else Inr (Format i))"

definition UnmarshalText :: "string \<Rightarrow> id_error + int" where
  "UnmarshalText v =
     (case Parse v of (parsed, ok) \<Rightarrow> if \<not> ok then Inl IdNotCanonical else Inr parsed)"

subsection \<open>Decimal digits\<close>

lemma of_char_digit: "n < 10 \<Longrightarrow> of_char (char_of (48 + n) :: char) = (48 + n :: nat)"
  by simp

lemma digit_char [simp]: "n < 10 \<Longrightarrow> digit_val (char_of (48 + n)) = n"
  by (simp add: digit_val_def)

lemma is_digit_nat: "is_digit c \<longleftrightarrow> 48 \<le> (of_char c :: nat) \<and> of_char c \<le> (57 :: nat)"
  by (simp add: is_digit_def less_eq_char_def)

lemma is_digit_char [simp]: "n < 10 \<Longrightarrow> is_digit (char_of (48 + n :: nat))"
  by (simp add: is_digit_nat)

lemma digit_val_char: "is_digit c \<Longrightarrow> char_of (48 + digit_val c) = c \<and> digit_val c < 10"
  by (auto simp: is_digit_nat digit_val_def)

lemma digits_value_snoc: "digits_value (s @ [c]) = digits_value s * 10 + digit_val c"
  by (simp add: digits_value_def)

lemma digits_value_one: "digits_value [c] = digit_val c"
  by (simp add: digits_value_def)

lemma digits_of_small: "n < 10 \<Longrightarrow> digits_of n = [char_of (48 + n)]"
  by (simp add: digits_of.simps [of n])

lemma digits_of_big: "10 \<le> n \<Longrightarrow> digits_of n = digits_of (n div 10) @ [char_of (48 + n mod 10)]"
  by (simp add: digits_of.simps [of n])

lemma digits_value_digits_of: "digits_value (digits_of n) = n"
proof (induction n rule: less_induct)
  case (less n)
  show ?case
  proof (cases "n < 10")
    case True
    then show ?thesis by (simp add: digits_of_small digits_value_one)
  next
    case False
    with less [of "n div 10"] show ?thesis
      by (simp add: digits_of_big digits_value_snoc)
  qed
qed

lemma digits_of_digit: "list_all is_digit (digits_of n)"
proof (induction n rule: less_induct)
  case (less n)
  then show ?case
    by (cases "n < 10") (simp_all add: digits_of_small digits_of_big)
qed

lemma digits_of_neq_Nil [simp]: "digits_of n \<noteq> []"
  by (cases "n < 10") (simp_all add: digits_of_small digits_of_big)

lemma digits_of_hd: "0 < n \<Longrightarrow> 0 < digit_val (hd (digits_of n))"
proof (induction n rule: less_induct)
  case (less n)
  then show ?case
    by (cases "n < 10") (simp_all add: digits_of_small digits_of_big)
qed

lemma digits_value_pos: "s \<noteq> [] \<Longrightarrow> 0 < digit_val (hd s) \<Longrightarrow> 0 < digits_value s"
proof (induction s rule: rev_induct)
  case (snoc c s)
  then show ?case by (cases "s = []") (simp_all add: digits_value_snoc digits_value_one)
qed simp

lemma digits_of_value:
  "s \<noteq> [] \<Longrightarrow> list_all is_digit s \<Longrightarrow> 0 < digit_val (hd s) \<Longrightarrow> digits_of (digits_value s) = s"
proof (induction s rule: rev_induct)
  case (snoc c s)
  then have c: "digit_val c < 10" "char_of (48 + digit_val c) = c"
    using digit_val_char [of c] by simp_all
  show ?case
  proof (cases "s = []")
    case True
    with c show ?thesis by (simp add: digits_value_one digits_of_small)
  next
    case False
    then have "0 < digits_value s" using snoc.prems by (simp add: digits_value_pos)
    then have "digits_of (digits_value (s @ [c])) = digits_of (digits_value s) @ [c]"
      using c by (simp add: digits_of_big digits_value_snoc)
    with False snoc show ?thesis by simp
  qed
qed simp

lemma hd_digit_range:
  "is_digit c \<Longrightarrow> \<not> c < CHR ''1'' \<and> \<not> c > CHR ''9'' \<longleftrightarrow> 0 < digit_val c"
  by (auto simp: is_digit_nat digit_val_def less_char_def)

lemma Parse_iff:
  "Parse v = (i, True) \<longleftrightarrow>
     v \<noteq> [] \<and> list_all is_digit v \<and> 0 < digit_val (hd v) \<and> int (digits_value v) = i \<and> i \<le> max_int64"
proof -
  have d: "\<not> list_ex (\<lambda>c. c < CHR ''0'' \<or> c > CHR ''9'') v \<longleftrightarrow> list_all is_digit v"
    by (auto simp: list_ex_iff list_all_iff is_digit_def not_less)
  show ?thesis
  proof (cases "v \<noteq> [] \<and> list_all is_digit v")
    case True
    then have "is_digit (hd v)" by (cases v) auto
    with True show ?thesis
      using d hd_digit_range [of "hd v"] digits_value_pos [of v]
      by (auto simp: Parse_def Let_def)
  next
    case False
    then show ?thesis using d by (auto simp: Parse_def)
  qed
qed

text \<open>
  \<open>ids.Parse\<close> accepts exactly the canonical decimal strings of positive 64-bit
  identifiers: a string parses to \<open>i\<close> if and only if \<open>i\<close> is a positive int64 and the
  string is what \<open>ids.Format\<close> prints for it, so no two strings denote the same identifier.
\<close>

theorem Parse_canonical:
  "Parse v = (i, True) \<longleftrightarrow> 0 < i \<and> i \<le> max_int64 \<and> v = Format i"
proof
  assume "Parse v = (i, True)"
  then have v: "v \<noteq> []" "list_all is_digit v" "0 < digit_val (hd v)"
      "int (digits_value v) = i" "i \<le> max_int64"
    by (simp_all add: Parse_iff)
  then have "0 < i" using digits_value_pos [of v] by auto
  moreover have "Format i = v"
    using v digits_of_value [of v] by (auto simp: Format_def FormatInt_def)
  ultimately show "0 < i \<and> i \<le> max_int64 \<and> v = Format i" using v by simp
next
  assume a: "0 < i \<and> i \<le> max_int64 \<and> v = Format i"
  then have v: "v = digits_of (nat i)" by (simp add: Format_def FormatInt_def)
  have "0 < nat i" using a by simp
  then show "Parse v = (i, True)"
    unfolding v using a digits_of_hd [of "nat i"]
    by (simp add: Parse_iff digits_of_digit digits_value_digits_of)
qed

lemma Format_inj: "0 < i \<Longrightarrow> i \<le> max_int64 \<Longrightarrow> 0 < j \<Longrightarrow> j \<le> max_int64 \<Longrightarrow> Format i = Format j \<Longrightarrow> i = j"
  by (simp add: Format_def FormatInt_def) (metis digits_value_digits_of eq_nat_nat_iff less_imp_le)

end
