(* ===== verification/Snowflake.thy ===== *)
theory Snowflake
  imports PlatformNum
begin

unbundle bit_operations_syntax

section \<open>Identifier generation (pkg/snowflake)\<close>

text \<open>
  The generator state is \<open>Node\<close>. The wall clock is an environment: a call of
  \<open>Generate\<close> consumes readings of \<open>time.Now().UnixMilli()\<close> from a list, the first one on
  entry and further ones in the waiting loop of \<open>nextMillis\<close>. \<open>None\<close> means that the
  readings given end while the loop still waits. Values are \<open>int\<close>; the one operation that can
  leave 64 bits, the left shift of the timestamp, is wrapped (\<open>i64\<close>). The mutex makes the
  calls of all goroutines a sequence of \<open>Generate\<close> steps.
\<close>

definition epochMillis :: int where "epochMillis = 1735689600000"
definition nodeBits :: nat where "nodeBits = 10"
definition sequenceBits :: nat where "sequenceBits = 12"
definition maxNodeID :: int where "maxNodeID = (- 1) XOR (push_bit nodeBits (- 1))"
definition maxSequence :: int where "maxSequence = (- 1) XOR (push_bit sequenceBits (- 1))"
definition timestampShift :: nat where "timestampShift = nodeBits + sequenceBits"
definition nodeShift :: nat where "nodeShift = sequenceBits"
definition maxLogicalDrift :: int where "maxLogicalDrift = 5"

record Node =
  nodeID :: int
  lastTime :: int
  sequence :: int

datatype node_error = NodeIdOutOfRange

definition NewNode :: "int \<Rightarrow> node_error + Node" where
  "NewNode n =
     (if n < 0 \<or> n > maxNodeID then Inl NodeIdOutOfRange
      else Inr \<lparr>nodeID = n, lastTime = - 1, sequence = 0\<rparr>)"

fun nextMillis :: "int \<Rightarrow> int list \<Rightarrow> (int \<times> int list) option" where
  "nextMillis prev [] = None"
| "nextMillis prev (now # clock) =
     (if now > prev then Some (now, clock)
      else if prev - now > maxLogicalDrift then Some (prev + 1, clock)
      else nextMillis prev clock)"

definition compose_id :: "int \<Rightarrow> int \<Rightarrow> int \<Rightarrow> int" where
  "compose_id now node s =
     i64 ((push_bit timestampShift (now - epochMillis) OR push_bit nodeShift node) OR s)"

fun Generate :: "Node \<Rightarrow> int list \<Rightarrow> (int \<times> Node \<times> int list) option" where
  "Generate n [] = None"
| "Generate n (reading # clock) =
     (let now = (if reading < epochMillis then epochMillis else reading);
          now = (if now < lastTime n then lastTime n else now)
      in if now = lastTime n
         then (let s = (sequence n + 1) AND maxSequence
               in if s = 0
                  then (case nextMillis (lastTime n) clock of
                          None \<Rightarrow> None
                        | Some (now', clock') \<Rightarrow>
                            Some (compose_id now' (nodeID n) s,
                                  n\<lparr>lastTime := now', sequence := s\<rparr>, clock'))
                  else Some (compose_id now (nodeID n) s, n\<lparr>lastTime := now, sequence := s\<rparr>, clock))
         else Some (compose_id now (nodeID n) 0, n\<lparr>lastTime := now, sequence := 0\<rparr>, clock))"

text \<open>A sequence of calls on one generator.\<close>

fun issue :: "('s \<Rightarrow> 'c \<Rightarrow> ('i \<times> 's \<times> 'c) option) \<Rightarrow> nat \<Rightarrow> 's \<Rightarrow> 'c \<Rightarrow> ('i list \<times> 's) option" where
  "issue gen 0 s c = Some ([], s)"
| "issue gen (Suc k) s c =
     (case gen s c of
        None \<Rightarrow> None
      | Some (i, s', c') \<Rightarrow>
          (case issue gen k s' c' of None \<Rightarrow> None | Some (is, s'') \<Rightarrow> Some (i # is, s'')))"

text \<open>
  The contract behind the interface \<open>Generator\<close>: every value is above the bound of the state
  it was drawn from and becomes the bound of the next state, as long as the state is in range.
\<close>

locale id_generator =
  fixes gen :: "'s \<Rightarrow> 'c \<Rightarrow> ('i::linorder \<times> 's \<times> 'c) option"
    and inv ok :: "'s \<Rightarrow> bool"
    and bound :: "'s \<Rightarrow> 'i"
    and tag :: "'i \<Rightarrow> 't"
    and owner :: "'s \<Rightarrow> 't"
  assumes gen_inv: "inv s \<Longrightarrow> gen s c = Some (i, s', c') \<Longrightarrow> inv s'"
    and gen_ok: "inv s \<Longrightarrow> gen s c = Some (i, s', c') \<Longrightarrow> ok s' \<Longrightarrow> ok s"
    and gen_bound: "inv s \<Longrightarrow> gen s c = Some (i, s', c') \<Longrightarrow> ok s' \<Longrightarrow> bound s < i \<and> bound s' = i"
    and gen_owner: "inv s \<Longrightarrow> gen s c = Some (i, s', c') \<Longrightarrow> owner s' = owner s \<and> (ok s' \<longrightarrow> tag i = owner s)"
begin

lemma issue_ok: "inv s \<Longrightarrow> issue gen k s c = Some (is, s') \<Longrightarrow> ok s' \<Longrightarrow> ok s"
proof (induction k arbitrary: s c "is")
  case (Suc k)
  then obtain i t d is' where g: "gen s c = Some (i, t, d)" "issue gen k t d = Some (is', s')"
    by (auto split: option.splits)
  then have "ok t" using Suc gen_inv by blast
  with g(1) Suc.prems(1) show ?case using gen_ok by blast
qed simp

lemma issue_sorted:
  "inv s \<Longrightarrow> issue gen k s c = Some (is, s') \<Longrightarrow> ok s' \<Longrightarrow>
     sorted_wrt (<) is \<and> (\<forall>i \<in> set is. bound s < i)"
proof (induction k arbitrary: s c "is")
  case (Suc k)
  then obtain i t d is' where g: "gen s c = Some (i, t, d)" "issue gen k t d = Some (is', s')"
      "is = i # is'"
    by (auto split: option.splits)
  have t: "inv t" using gen_inv [OF Suc.prems(1) g(1)] .
  have "ok t" using issue_ok [OF t g(2) Suc.prems(3)] .
  then have b: "bound s < i" "bound t = i" using gen_bound [OF Suc.prems(1) g(1)] by auto
  have "sorted_wrt (<) is' \<and> (\<forall>j \<in> set is'. bound t < j)"
    using Suc.IH [OF t g(2) Suc.prems(3)] .
  with b g(3) show ?case by (auto intro: less_trans)
qed simp

lemma issue_distinct:
  "inv s \<Longrightarrow> issue gen k s c = Some (is, s') \<Longrightarrow> ok s' \<Longrightarrow> distinct is"
  by (meson issue_sorted strict_sorted_iff)

lemma issue_tag:
  "inv s \<Longrightarrow> issue gen k s c = Some (is, s') \<Longrightarrow> ok s' \<Longrightarrow> i \<in> set is \<Longrightarrow> tag i = owner s"
proof (induction k arbitrary: s c "is")
  case (Suc k)
  then obtain j t d is' where g: "gen s c = Some (j, t, d)" "issue gen k t d = Some (is', s')"
      "is = j # is'"
    by (auto split: option.splits)
  have t: "inv t" using gen_inv [OF Suc.prems(1) g(1)] .
  have "ok t" using issue_ok [OF t g(2) Suc.prems(3)] .
  then have o: "owner t = owner s" "tag j = owner s" using gen_owner [OF Suc.prems(1) g(1)] by auto
  show ?case
  proof (cases "i = j")
    case False
    then have "i \<in> set is'" using Suc.prems(4) g(3) by simp
    then show ?thesis using Suc.IH [OF t g(2) Suc.prems(3)] o by simp
  qed (simp add: o)
qed simp

end

subsection \<open>Layout of an identifier\<close>

definition node_wf :: "Node \<Rightarrow> bool" where
  "node_wf n \<longleftrightarrow> 0 \<le> nodeID n \<and> nodeID n < 1024 \<and> 0 \<le> sequence n \<and> sequence n < 4096
     \<and> (lastTime n = - 1 \<or> epochMillis \<le> lastTime n)"

definition in_era :: "Node \<Rightarrow> bool" where
  "in_era n \<longleftrightarrow> lastTime n - epochMillis < 2 ^ 41"

definition raw_id :: "int \<Rightarrow> int \<Rightarrow> int \<Rightarrow> int" where
  "raw_id now node s = (now - epochMillis) * 4194304 + node * 4096 + s"

lemma constants: "maxNodeID = 1023" "maxSequence = 4095" "timestampShift = 22" "nodeShift = 12"
  by (simp_all add: maxNodeID_def maxSequence_def timestampShift_def nodeShift_def
      nodeBits_def sequenceBits_def mask_eq_exp_minus_1)

lemma or_below:
  assumes "0 \<le> b" "b < 2 ^ k"
  shows "push_bit k a OR b = push_bit k a + (b :: int)"
proof -
  have b: "b = take_bit k b" using assms by (simp add: take_bit_int_eq_self)
  show ?thesis
    by (subst (1 2) b) (rule disjunctive_add_eq_or [symmetric], rule bit_eqI, simp add: bit_simps)
qed

lemma compose_id_raw:
  assumes "epochMillis \<le> now" "now - epochMillis < 2 ^ 41" "0 \<le> node" "node < 1024" "0 \<le> s" "s < 4096"
  shows "compose_id now node s = raw_id now node s"
proof -
  define d where "d = now - epochMillis"
  have "push_bit 22 d OR push_bit 12 node = push_bit 12 (push_bit 10 d OR node)"
    by (simp add: push_bit_or)
  also have "\<dots> = push_bit 12 (push_bit 10 d + node)"
    using assms by (simp add: or_below)
  finally have "(push_bit 22 d OR push_bit 12 node) OR s = push_bit 12 (push_bit 10 d + node) + s"
    using assms by (simp add: or_below)
  also have "\<dots> = d * 4194304 + node * 4096 + s"
    by (simp add: push_bit_eq_mult)
  finally have eq: "(push_bit 22 d OR push_bit 12 node) OR s = d * 4194304 + node * 4096 + s" .
  have "0 \<le> d" "d < 2199023255552" using assms by (simp_all add: d_def)
  then have "0 \<le> d * 4194304 + node * 4096 + s" "d * 4194304 + node * 4096 + s < 9223372036854775808"
    using assms by simp_all
  then show ?thesis
    by (simp add: compose_id_def raw_id_def constants eq i64_def signed_take_bit_int_eq_self
        flip: d_def)
qed

subsection \<open>One call\<close>

lemma nextMillis_later: "nextMillis prev clock = Some (now, clock') \<Longrightarrow> prev < now"
  by (induction clock) (auto split: if_splits)

lemma nextMillis_returns:
  "t \<in> set clock \<Longrightarrow> prev < t \<or> maxLogicalDrift < prev - t \<Longrightarrow> \<exists>now clock'. nextMillis prev clock = Some (now, clock')"
  by (induction clock) auto

lemma and_maxSequence: "x AND maxSequence = x mod 4096"
  using take_bit_eq_mask [of 12 x] by (simp add: constants mask_eq_exp_minus_1 take_bit_eq_mod)

lemma Generate_step:
  assumes g: "Generate n clock = Some (i, n', clock')" and wf: "node_wf n"
  obtains now s where "n' = n\<lparr>lastTime := now, sequence := s\<rparr>" "i = compose_id now (nodeID n) s"
    "epochMillis \<le> now" "0 \<le> s" "s < 4096"
    "lastTime n < now \<and> s = 0 \<or> now = lastTime n \<and> s = sequence n + 1"
proof -
  obtain reading rest where c: "clock = reading # rest" using g by (cases clock) auto
  define now where "now = max (max epochMillis reading) (lastTime n)"
  have e: "epochMillis \<le> now" "lastTime n \<le> now" by (simp_all add: now_def)
  have G: "Generate n clock =
      (if now = lastTime n
       then (let s = (sequence n + 1) AND maxSequence
             in if s = 0
                then (case nextMillis (lastTime n) rest of
                        None \<Rightarrow> None
                      | Some (now', clock') \<Rightarrow>
                          Some (compose_id now' (nodeID n) s, n\<lparr>lastTime := now', sequence := s\<rparr>, clock'))
                else Some (compose_id now (nodeID n) s, n\<lparr>lastTime := now, sequence := s\<rparr>, rest))
       else Some (compose_id now (nodeID n) 0, n\<lparr>lastTime := now, sequence := 0\<rparr>, rest))"
    unfolding c Generate.simps by (auto simp: now_def Let_def max_def)
  have sq: "0 \<le> sequence n" "sequence n < 4096" using wf by (simp_all add: node_wf_def)
  show ?thesis
  proof (cases "now = lastTime n")
    case False
    then have "n' = n\<lparr>lastTime := now, sequence := 0\<rparr>" "i = compose_id now (nodeID n) 0"
      using g by (simp_all add: G)
    with that [of 0 now] e False show ?thesis by simp
  next
    case now: True
    show ?thesis
    proof (cases "(sequence n + 1) AND maxSequence = 0")
      case True
      then obtain now' where "nextMillis (lastTime n) rest = Some (now', clock')"
          "n' = n\<lparr>lastTime := now', sequence := 0\<rparr>" "i = compose_id now' (nodeID n) 0"
        using g now by (auto simp: G split: option.splits)
      with that [of 0 now'] e now show ?thesis by (auto dest: nextMillis_later)
    next
      case False
      then have s: "(sequence n + 1) AND maxSequence = sequence n + 1"
        using sq by (cases "sequence n = 4095") (simp_all add: and_maxSequence)
      then have "n' = n\<lparr>lastTime := now, sequence := sequence n + 1\<rparr>"
          "i = compose_id now (nodeID n) (sequence n + 1)"
        using g now False by (simp_all add: G Let_def)
      moreover have "sequence n + 1 < 4096"
        using s pos_mod_bound [of 4096 "sequence n + 1"] by (simp add: and_maxSequence)
      ultimately show ?thesis using that [of "sequence n + 1" now] e now sq by simp
    qed
  qed
qed

definition id_bound :: "Node \<Rightarrow> int" where
  "id_bound n = raw_id (lastTime n) (nodeID n) (sequence n)"

definition id_node :: "int \<Rightarrow> int" where
  "id_node i = (i div 4096) mod 1024"

lemma raw_id_node: "0 \<le> node \<Longrightarrow> node < 1024 \<Longrightarrow> 0 \<le> s \<Longrightarrow> s < 4096 \<Longrightarrow> id_node (raw_id now node s) = node"
proof -
  assume a: "0 \<le> node" "node < 1024" "0 \<le> s" "s < 4096"
  define d where "d = now - epochMillis"
  have "raw_id now node s = s + (d * 1024 + node) * 4096"
    by (simp add: raw_id_def d_def)
  then have "raw_id now node s div 4096 = d * 1024 + node" using a by simp
  then show ?thesis using a by (simp add: id_node_def)
qed

interpretation snow: id_generator Generate node_wf in_era id_bound id_node nodeID
proof
  fix n clock i n' clock'
  assume wf: "node_wf n" and g: "Generate n clock = Some (i, n', clock')"
  obtain now s where st: "n' = n\<lparr>lastTime := now, sequence := s\<rparr>" "i = compose_id now (nodeID n) s"
      "epochMillis \<le> now" "0 \<le> s" "s < 4096"
      "lastTime n < now \<and> s = 0 \<or> now = lastTime n \<and> s = sequence n + 1"
    using Generate_step [OF g wf] .
  show "node_wf n'" using wf st by (simp add: node_wf_def)
  show "in_era n" if "in_era n'" using that st by (auto simp: in_era_def)
  have raw: "i = raw_id now (nodeID n) s" if "in_era n'"
    using that st wf by (simp add: compose_id_raw in_era_def node_wf_def)
  show "id_bound n < i \<and> id_bound n' = i" if "in_era n'"
    using raw [OF that] st wf by (auto simp: id_bound_def raw_id_def node_wf_def)
  show "nodeID n' = nodeID n \<and> (in_era n' \<longrightarrow> id_node i = nodeID n)"
    using raw st wf by (auto simp: node_wf_def raw_id_node)
qed

lemma NewNode_wf: "NewNode m = Inr n \<Longrightarrow> node_wf n \<and> nodeID n = m"
  by (auto simp: NewNode_def node_wf_def constants split: if_splits)

text \<open>
  C31: Identifiers are unique across the platform and increase on every node. For any clock
  readings (standing still, jumping, or running backwards) the ids one generator issues are
  strictly increasing and carry its node number, and generators with different node numbers never
  issue the same id, as long as their clocks stay within 2^41 milliseconds of the platform epoch.
\<close>

theorem Generate_unique:
  assumes "NewNode m1 = Inr a" "issue Generate k1 a clock1 = Some (ids1, a')" "in_era a'"
    and "NewNode m2 = Inr b" "issue Generate k2 b clock2 = Some (ids2, b')" "in_era b'"
    and "m1 \<noteq> m2"
  shows "sorted_wrt (<) ids1 \<and> (\<forall>i \<in> set ids1. id_node i = m1) \<and> set ids1 \<inter> set ids2 = {}"
proof -
  note a = NewNode_wf [OF assms(1)] and b = NewNode_wf [OF assms(4)]
  have "sorted_wrt (<) ids1" using snow.issue_sorted [OF _ assms(2,3)] a by blast
  moreover have t1: "\<forall>i \<in> set ids1. id_node i = m1" using snow.issue_tag [OF _ assms(2,3)] a by blast
  moreover have "\<forall>i \<in> set ids2. id_node i = m2" using snow.issue_tag [OF _ assms(5,6)] b by blast
  ultimately show ?thesis using assms(7) by (auto simp: disjoint_iff)
qed

theorem Generate_unique_witness:
  "\<exists>a' b'. issue Generate 3 \<lparr>nodeID = 1, lastTime = - 1, sequence = 0\<rparr> [1735689600005, 1735689600005, 1735689600001]
       = Some ([20975616, 20975617, 20975618], a')
     \<and> issue Generate 1 \<lparr>nodeID = 2, lastTime = - 1, sequence = 0\<rparr> [1735689600005] = Some ([20979712], b')
     \<and> set [20975616, 20975617, 20975618 :: int] \<inter> set [20979712] = {}"
proof -
  have a: "NewNode 1 = Inr \<lparr>nodeID = 1, lastTime = - 1, sequence = 0\<rparr>"
    and b: "NewNode 2 = Inr \<lparr>nodeID = 2, lastTime = - 1, sequence = 0\<rparr>"
    by (simp_all add: NewNode_def constants)
  have i1: "issue Generate 3 \<lparr>nodeID = 1, lastTime = - 1, sequence = 0\<rparr>
      [1735689600005, 1735689600005, 1735689600001]
      = Some ([20975616, 20975617, 20975618], \<lparr>nodeID = 1, lastTime = 1735689600005, sequence = 2\<rparr>)"
    by (simp add: numeral_3_eq_3 epochMillis_def compose_id_def i64_def constants Let_def)
  have i2: "issue Generate 1 \<lparr>nodeID = 2, lastTime = - 1, sequence = 0\<rparr> [1735689600005]
      = Some ([20979712], \<lparr>nodeID = 2, lastTime = 1735689600005, sequence = 0\<rparr>)"
    by (simp add: epochMillis_def compose_id_def i64_def constants Let_def)
  have "in_era \<lparr>nodeID = 1, lastTime = 1735689600005, sequence = 2\<rparr>"
    "in_era \<lparr>nodeID = 2, lastTime = 1735689600005, sequence = 0\<rparr>"
    by (simp_all add: in_era_def epochMillis_def)
  then have "set [20975616, 20975617, 20975618 :: int] \<inter> set [20979712] = {}"
    using Generate_unique [OF a i1 _ b i2] by simp
  with i1 i2 show ?thesis by simp
qed

text \<open>
  C4: A call of \<open>Generate\<close> returns as soon as the clock allows it: if among the readings after
  the first one there is one that is past the last timestamp, or more than the tolerated drift
  behind it, the call returns an identifier.
\<close>

theorem Generate_returns:
  assumes "t \<in> set clock" and "lastTime n < t \<or> maxLogicalDrift < lastTime n - t"
  shows "\<exists>i n' clock'. Generate n (reading # clock) = Some (i, n', clock')"
proof -
  obtain now clock' where "nextMillis (lastTime n) clock = Some (now, clock')"
    using nextMillis_returns assms by blast
  then show ?thesis by (auto simp: Let_def)
qed

theorem Generate_returns_witness:
  "\<exists>i n' clock'. Generate \<lparr>nodeID = 0, lastTime = 1735689600007, sequence = 4095\<rparr>
     [1735689600007, 1735689600006, 1735689600008] = Some (i, n', clock')"
  using Generate_returns [of 1735689600008 "[1735689600006, 1735689600008]"
      "\<lparr>nodeID = 0, lastTime = 1735689600007, sequence = 4095\<rparr>" 1735689600007]
  by simp

end
