(* ===== verification/GoPath.thy ===== *)
theory GoPath
  imports GoStrings
begin

section \<open>Go package path\<close>

text \<open>
  The lexical functions \<open>path.Clean\<close> and \<open>path.Base\<close>. \<open>Clean\<close> keeps a stack of
  path elements (reversed): empty and \<open>.\<close> elements are dropped, \<open>..\<close> removes the
  element before it, is dropped at the root of a rooted path and kept otherwise.
\<close>

definition slash :: char where "slash = CHR ''/''"

definition clean_step :: "bool \<Rightarrow> string \<Rightarrow> string list \<Rightarrow> string list" where
  "clean_step rooted e st =
     (if e = [] \<or> e = ''.'' then st
      else if e = ''..'' then
        (if st \<noteq> [] \<and> hd st \<noteq> ''..'' then tl st else if rooted then st else e # st)
      else e # st)"

definition clean_elems :: "bool \<Rightarrow> string list \<Rightarrow> string list" where
  "clean_elems rooted es = rev (fold (clean_step rooted) es [])"

definition Clean :: "string \<Rightarrow> string" where
  "Clean p =
     (let rooted = HasPrefix p [slash];
          es = clean_elems rooted (Split p slash)
      in if rooted then slash # Join es [slash]
         else if es = [] then ''.'' else Join es [slash])"

definition Base :: "string \<Rightarrow> string" where
  "Base p =
     (if p = [] then ''.''
      else let q = rev (dropWhile (\<lambda>c. c = slash) (rev p))
           in if q = [] then [slash] else last (Split q slash))"

definition IsAbs :: "string \<Rightarrow> bool" where
  "IsAbs p = HasPrefix p [slash]"

text \<open>An element that \<open>Clean\<close> never touches.\<close>

definition plain_elem :: "string \<Rightarrow> bool" where
  "plain_elem e \<longleftrightarrow> e \<noteq> [] \<and> e \<noteq> ''.'' \<and> e \<noteq> ''..''"

lemma fold_clean_plain:
  "\<forall>e \<in> set es. plain_elem e \<Longrightarrow> fold (clean_step r) es st = rev es @ st"
  by (induction es arbitrary: st) (auto simp: clean_step_def plain_elem_def)

lemma clean_elems_plain: "\<forall>e \<in> set es. plain_elem e \<Longrightarrow> clean_elems r es = es"
  by (simp add: clean_elems_def fold_clean_plain)

lemma Clean_plain_relative:
  assumes "\<forall>e \<in> set (Split p slash). plain_elem e"
  shows "Clean p = p"
proof -
  have "\<not> HasPrefix p [slash]"
  proof
    assume "HasPrefix p [slash]"
    then obtain q where "p = slash # q" by (auto simp: HasPrefix_def prefix_def)
    then have "[] \<in> set (Split p slash)" by simp
    with assms show False by (auto simp: plain_elem_def)
  qed
  then show ?thesis
    using assms by (simp add: Clean_def Let_def clean_elems_plain Join_Split)
qed

text \<open>What a cleaned stack looks like: only dot-dot elements below plain ones, none when rooted.\<close>

definition clean_stack :: "bool \<Rightarrow> string list \<Rightarrow> bool" where
  "clean_stack rooted st \<longleftrightarrow>
     (\<exists>ps n. st = ps @ replicate n ''..'' \<and> (\<forall>e \<in> set ps. plain_elem e \<and> slash \<notin> set e)
        \<and> (rooted \<longrightarrow> n = 0))"

lemma clean_step_stack:
  assumes "clean_stack r st" and "slash \<notin> set e"
  shows "clean_stack r (clean_step r e st)"
proof -
  obtain ps n where st: "st = ps @ replicate n ''..''"
      "\<forall>e \<in> set ps. plain_elem e \<and> slash \<notin> set e" "r \<longrightarrow> n = 0"
    using assms(1) unfolding clean_stack_def by blast
  consider "e = [] \<or> e = ''.''" | "e = ''..''" "ps \<noteq> []" | "e = ''..''" "ps = []" "r"
    | "e = ''..''" "ps = []" "\<not> r" | "plain_elem e"
    by (auto simp: plain_elem_def)
  then show ?thesis
  proof cases
    case 1
    then show ?thesis using assms(1) by (auto simp: clean_step_def)
  next
    case 2
    then have "clean_step r e st = tl ps @ replicate n ''..''"
      using st by (cases ps) (auto simp: clean_step_def plain_elem_def)
    moreover have "\<forall>e \<in> set (tl ps). plain_elem e \<and> slash \<notin> set e"
      using st(2) by (meson list.set_sel(2) 2(2))
    ultimately show ?thesis using st(3) unfolding clean_stack_def by blast
  next
    case 3
    then have "clean_step r e st = []" using st by (simp add: clean_step_def)
    then show ?thesis by (simp add: clean_stack_def)
  next
    case 4
    then have "clean_step r e st = [] @ replicate (Suc n) ''..''"
      using st by (cases n) (auto simp: clean_step_def)
    then show ?thesis using 4 unfolding clean_stack_def by fastforce
  next
    case 5
    then have "clean_step r e st = (e # ps) @ replicate n ''..''"
      using st by (simp add: clean_step_def plain_elem_def)
    moreover have "\<forall>x \<in> set (e # ps). plain_elem x \<and> slash \<notin> set x"
      using st(2) 5 assms(2) by simp
    ultimately show ?thesis using st(3) unfolding clean_stack_def by blast
  qed
qed

lemma fold_clean_stack:
  "clean_stack r st \<Longrightarrow> \<forall>e \<in> set es. slash \<notin> set e \<Longrightarrow> clean_stack r (fold (clean_step r) es st)"
  by (induction es arbitrary: st) (auto simp: clean_step_stack)

lemma clean_elems_stack:
  "\<forall>e \<in> set es. slash \<notin> set e \<Longrightarrow> clean_stack r (rev (clean_elems r es))"
proof -
  have "clean_stack r []" by (auto simp: clean_stack_def)
  then show "\<forall>e \<in> set es. slash \<notin> set e \<Longrightarrow> clean_stack r (rev (clean_elems r es))"
    by (simp add: clean_elems_def fold_clean_stack)
qed

lemma rooted_elems:
  assumes "\<forall>e \<in> set es. slash \<notin> set e"
  shows "\<forall>e \<in> set (clean_elems True es). plain_elem e \<and> slash \<notin> set e"
proof -
  from clean_elems_stack [OF assms, of True]
  obtain ps where "rev (clean_elems True es) = ps" "\<forall>e \<in> set ps. plain_elem e \<and> slash \<notin> set e"
    unfolding clean_stack_def by auto
  then show ?thesis by auto
qed

lemma Clean_rooted:
  assumes "HasPrefix p [slash]"
  shows "\<exists>es. Clean p = slash # Join es [slash] \<and> (\<forall>e \<in> set es. plain_elem e \<and> slash \<notin> set e)"
proof -
  have "\<forall>e \<in> set (Split p slash). slash \<notin> set e" by (simp add: Split_no_sep)
  note e = rooted_elems [OF this]
  have "Clean p = slash # Join (clean_elems True (Split p slash)) [slash]"
    using assms by (simp add: Clean_def Let_def)
  with e show ?thesis by blast
qed

lemma Clean_rooted_join:
  assumes "\<forall>e \<in> set es. plain_elem e \<and> slash \<notin> set e"
  shows "Clean (slash # Join es [slash]) = slash # Join es [slash]"
proof -
  have r: "HasPrefix (slash # Join es [slash]) [slash]" by (simp add: HasPrefix_def)
  have s: "Split (slash # Join es [slash]) slash = [] # (if es = [] then [[]] else es)"
    using assms by (simp add: Split_Join)
  have "clean_elems True ([] # (if es = [] then [[]] else es)) = es"
    using assms by (auto simp: clean_elems_def clean_step_def fold_clean_plain)
  then show ?thesis by (simp only: Clean_def Let_def r s if_True)
qed

lemma Clean_rooted_idem: "HasPrefix p [slash] \<Longrightarrow> Clean (Clean p) = Clean p"
  using Clean_rooted [of p] Clean_rooted_join by force

lemma not_HasPrefix_Join:
  assumes "es \<noteq> []" and "\<forall>e \<in> set es. \<not> HasPrefix e [slash] \<and> e \<noteq> []"
  shows "\<not> HasPrefix (Join es [slash]) [slash]"
proof -
  obtain e es' c e' where "es = e # es'" "e = c # e'" "c \<noteq> slash"
    using assms by (cases es; cases "hd es") (auto simp: HasPrefix_def)
  then show ?thesis by (cases es') (auto simp: HasPrefix_def)
qed

lemma Clean_rooted_HasPrefix: "HasPrefix (Clean p) [slash] \<longleftrightarrow> HasPrefix p [slash]"
proof (cases "HasPrefix p [slash]")
  case True
  then show ?thesis using Clean_rooted [OF True] by (auto simp: HasPrefix_def)
next
  case False
  have ns: "\<forall>e \<in> set (Split p slash). slash \<notin> set e" by (simp add: Split_no_sep)
  obtain ps n where st: "rev (clean_elems False (Split p slash)) = ps @ replicate n ''..''"
      "\<forall>e \<in> set ps. plain_elem e \<and> slash \<notin> set e"
    using clean_elems_stack [OF ns, of False] unfolding clean_stack_def by blast
  have "\<forall>e \<in> set (rev (clean_elems False (Split p slash))). \<not> HasPrefix e [slash] \<and> e \<noteq> []"
  proof
    fix e
    assume "e \<in> set (rev (clean_elems False (Split p slash)))"
    then have "e \<in> set ps \<or> e = ''..''" unfolding st(1) by auto
    then show "\<not> HasPrefix e [slash] \<and> e \<noteq> []"
    proof
      assume "e \<in> set ps"
      then have "e \<noteq> []" "slash \<notin> set e" using st(2) by (simp_all add: plain_elem_def)
      then show ?thesis by (cases e) (auto simp: HasPrefix_def)
    next
      assume "e = ''..''"
      then show ?thesis by (simp add: HasPrefix_def slash_def)
    qed
  qed
  then have "\<not> HasPrefix (Join (clean_elems False (Split p slash)) [slash]) [slash]"
    if "clean_elems False (Split p slash) \<noteq> []"
    using that by (simp add: not_HasPrefix_Join)
  with False show ?thesis
    by (simp add: Clean_def Let_def) (simp add: HasPrefix_def slash_def)
qed

end
