(* ===== verification/Workload.thy ===== *)
theory Workload
  imports GoPath
begin

section \<open>Declared workloads (platform/workload)\<close>

text \<open>
  The structures of \<open>workload/spec.go\<close> as records (a Go map with string keys is an association
  list with distinct keys, a pointer an \<open>option\<close>, an \<open>int32\<close> or \<open>int64\<close> that is only
  compared an \<open>int\<close>), the argv checks of \<open>command.go\<close> and the reserved path of
  \<open>workspace_archive.go\<close>.
\<close>

text \<open>A decoded JSON value of an \<open>any\<close>; numbers keep their text.\<close>

datatype json =
    JNull | JBool bool | JNum string | JStr string | JArr "json list" | JObj "(string \<times> json) list"

type_synonym strmap = "(string \<times> string) list"

definition mapGet :: "strmap \<Rightarrow> string \<Rightarrow> string" where
  "mapGet m k = (case map_of m k of None \<Rightarrow> [] | Some v \<Rightarrow> v)"

record EnvVarSpec =
  envName :: string
  envValue :: string

record SecretEnvVarSpec =
  senvName :: string
  senvSecretName :: string
  senvSecretKey :: string

record PortSpec =
  portName :: string
  containerPort :: int
  servicePort :: int
  portProtocol :: string

record ResourceSpec =
  requests :: strmap
  limits :: strmap

record ProbeSpec =
  probeType :: string
  probePath :: string
  probePort :: string
  probeCommand :: "string list"
  periodSeconds :: int
  failureThreshold :: int

record EphemeralMountSpec =
  emName :: string
  emMountPath :: string

record ComponentSpec =
  cName :: string
  cImageURL :: string
  cCommand :: "string list"
  cArgs :: "string list"
  cEnv :: "EnvVarSpec list"
  cSecretEnv :: "SecretEnvVarSpec list"
  cPorts :: "PortSpec list"
  cResources :: ResourceSpec
  cReadinessProbe :: ProbeSpec
  cLivenessProbe :: ProbeSpec
  cWorkdir :: string
  cReadOnlyRootFilesystem :: "bool option"
  cLabels :: strmap
  cMountWorkspace :: "bool option"
  cMountDomains :: "string list"
  cWritableMountDomains :: "string list"
  cEphemeralMounts :: "EphemeralMountSpec list"
  cPrepullCommand :: "string list"
  cPrepullHold :: bool
  cRunAsUser :: "int option"
  cRunAsGroup :: "int option"

record PodSpec =
  podName :: string
  podLabels :: strmap
  podInitContainers :: "ComponentSpec list"
  podContainers :: "ComponentSpec list"

record NetworkPortRef =
  refName :: string
  refPort :: int

record NetworkRuleSpec =
  ruleName :: string
  ruleFrom :: string
  ruleTo :: string
  rulePorts :: "NetworkPortRef list"

record ServicePortSpec =
  spName :: string
  spPort :: int
  spTargetPort :: string
  spProtocol :: string

record ServiceSpec =
  svcName :: string
  svcComponent :: string
  svcPorts :: "ServicePortSpec list"

record RouteSpec =
  routePathPrefix :: string
  routeService :: string
  routePort :: string

subsection \<open>Zero values\<close>

text \<open>The value of a structure literal whose fields are omitted.\<close>

definition zeroResources :: ResourceSpec where
  "zeroResources = \<lparr>requests = [], limits = []\<rparr>"

definition zeroProbe :: ProbeSpec where
  "zeroProbe = \<lparr>probeType = [], probePath = [], probePort = [], probeCommand = [],
     periodSeconds = 0, failureThreshold = 0\<rparr>"

definition zeroComponent :: ComponentSpec where
  "zeroComponent = \<lparr>cName = [], cImageURL = [], cCommand = [], cArgs = [], cEnv = [], cSecretEnv = [],
     cPorts = [], cResources = zeroResources, cReadinessProbe = zeroProbe, cLivenessProbe = zeroProbe,
     cWorkdir = [], cReadOnlyRootFilesystem = None, cLabels = [], cMountWorkspace = None,
     cMountDomains = [], cWritableMountDomains = [], cEphemeralMounts = [], cPrepullCommand = [],
     cPrepullHold = False, cRunAsUser = None, cRunAsGroup = None\<rparr>"

subsection \<open>Commands\<close>

definition shellExecutables :: "string list" where
  "shellExecutables =
     [''sh'', ''bash'', ''dash'', ''ash'', ''zsh'', ''ksh'', ''csh'',
      ''cmd'', ''cmd.exe'', ''powershell'', ''powershell.exe'', ''pwsh'', ''pwsh.exe'']"

definition ValidCommand :: "string list \<Rightarrow> bool" where
  "ValidCommand command \<longleftrightarrow>
     command \<noteq> [] \<and>
     list_all (\<lambda>argument. \<not> (TrimSpace argument = [] \<or>
        ContainsAny argument [CHR 0x00, CHR 0x0D, CHR 0x0A])) command"

definition ValidNonShellCommand :: "string list \<Rightarrow> bool" where
  "ValidNonShellCommand command \<longleftrightarrow>
     ValidCommand command \<and>
     (let executable = ToLower (Base (TrimSpace (hd command)))
      in executable \<notin> set shellExecutables)"

lemma ValidNonShell_Valid: "ValidNonShellCommand c \<Longrightarrow> ValidCommand c"
  by (simp add: ValidNonShellCommand_def)

lemma ValidCommand_neq_Nil: "ValidCommand c \<Longrightarrow> c \<noteq> []"
  by (simp add: ValidCommand_def)

lemma ContainsAny_TrimSpace: "ContainsAny (TrimSpace s) cs \<Longrightarrow> ContainsAny s cs"
  unfolding ContainsAny_def list_ex_iff TrimSpace_def
  by (meson set_mono_prefix set_mono_suffix subsetD trim_left_suffix trim_right_prefix)

lemma ValidCommand_trim: "ValidCommand c \<Longrightarrow> ValidCommand (map TrimSpace c)"
  by (auto simp: ValidCommand_def list_all_iff dest: ContainsAny_TrimSpace)

lemma ValidNonShellCommand_trim: "ValidNonShellCommand c \<Longrightarrow> ValidNonShellCommand (map TrimSpace c)"
  by (cases c) (auto simp: ValidNonShellCommand_def ValidCommand_trim dest: ValidCommand_trim)

subsection \<open>The platform's reserved workspace entry\<close>

definition initScriptCopy :: string where "initScriptCopy = ''.chaimir-init-script''"

definition IsPrivateWorkspacePath :: "string \<Rightarrow> bool" where
  "IsPrivateWorkspacePath name =
     (let name = Clean name
      in name = initScriptCopy \<or> HasPrefix name (initScriptCopy @ ''/''))"

end
