(* ===== verification/SandboxModel.thy ===== *)
theory SandboxModel
  imports Workload
begin

section \<open>Sandbox engine: data (modules/sandbox)\<close>

text \<open>
  Errors, constants and structures of the sandbox module that the rules below work on:
  \<open>model.go\<close>, \<open>enum.go\<close> (with the values of \<open>contracts/engine_sandbox.go\<close>), the
  composition contract of \<open>contracts/engine_composition.go\<close> and the part of
  \<open>config.SandboxConfig\<close> the rules read. Errors are the application error templates of
  \<open>pkg/apperr\<close>; \<open>WithCause\<close> keeps the template (\<open>errors.Is\<close> compares its code) and
  the attached cause is for the log only, so an error is its template here.
  \<open>PanicIndexOutOfRange\<close> is no returned error: it is the Go runtime panic of an index expression.
\<close>

datatype sandbox_error =
    ErrSandboxCreateRequestInvalid | ErrSandboxOwnerInvalid | ErrSandboxRuntimeCreateInvalid
  | ErrSandboxAdapterSpecInvalid | ErrSandboxCapabilityUnavailable | ErrSandboxToolCreateInvalid
  | ErrSandboxContainerSpecInvalid | ErrSandboxQuotaInvalid | ErrSandboxQuotaExceeded
  | ErrSandboxKeepaliveQuotaExceeded | ErrSandboxSnapshotQuotaExceeded
  | ErrSandboxResourceQuotaExceeded | ErrSandboxStateInvalid | ErrSandboxFileInvalid
  | ErrSandboxInitAssetConfigInvalid | ErrSandboxPodTopologyInvalid
  | ErrSandboxPrivateDomainInvalid | ErrSandboxNetworkPolicyInvalid | ErrSandboxToolIncompatible
  | ErrSandboxVolumeDomainInvalid | ErrSandboxSidecarImageInvalid
  | ErrSandboxImageAttestationInvalid | ErrSandboxWorkspaceOpsInvalid
  | ErrSandboxCapabilityCommandInvalid | ErrSandboxProbeSpecInvalid | ErrSandboxRuntimeEnvInvalid
  | ErrSandboxRuntimeSecretEnvInvalid
  | ErrSandboxInitObjectRefInvalid
  | PanicIndexOutOfRange

subsection \<open>Constants\<close>

definition SandboxStatusCreating :: int where "SandboxStatusCreating = 1"
definition SandboxStatusRunning :: int where "SandboxStatusRunning = 2"
definition SandboxStatusPaused :: int where "SandboxStatusPaused = 3"
definition SandboxStatusRecycling :: int where "SandboxStatusRecycling = 4"
definition SandboxStatusDestroyed :: int where "SandboxStatusDestroyed = 5"
definition SandboxStatusFailed :: int where "SandboxStatusFailed = 6"
definition SandboxStatusReady :: int where "SandboxStatusReady = 7"
definition SandboxStatusIdle :: int where "SandboxStatusIdle = 8"

definition SandboxToolKindBuiltin :: int where "SandboxToolKindBuiltin = 1"
definition SandboxToolKindTerminal :: int where "SandboxToolKindTerminal = 2"
definition SandboxToolKindWebEmbed :: int where "SandboxToolKindWebEmbed = 3"
definition SandboxToolKindCommand :: int where "SandboxToolKindCommand = 4"
definition SandboxToolKindInfra :: int where "SandboxToolKindInfra = 5"

definition RuntimeAdapterLevelHosted :: int where "RuntimeAdapterLevelHosted = 1"
definition RuntimeAdapterLevelStandard :: int where "RuntimeAdapterLevelStandard = 2"
definition RuntimeAdapterLevelPlugin :: int where "RuntimeAdapterLevelPlugin = 3"

definition RuntimeStatusAvailable :: int where "RuntimeStatusAvailable = 1"
definition RuntimeStatusOnboarding :: int where "RuntimeStatusOnboarding = 2"
definition RuntimeStatusDisabled :: int where "RuntimeStatusDisabled = 3"

definition ToolStatusAvailable :: int where "ToolStatusAvailable = 1"
definition ToolStatusDisabled :: int where "ToolStatusDisabled = 2"

definition InitAssetApplyPhaseInit :: string where "InitAssetApplyPhaseInit = ''init''"
definition InitAssetApplyPhasePersonalization :: string where
  "InitAssetApplyPhasePersonalization = ''personalization''"

definition VolumeDomainWorkspace :: string where "VolumeDomainWorkspace = ''workspace''"
definition VolumeDomainPublicAssets :: string where "VolumeDomainPublicAssets = ''public-assets''"
definition VolumeDomainRuntimeState :: string where "VolumeDomainRuntimeState = ''runtime-state''"
definition VolumeDomainJudgePrivate :: string where "VolumeDomainJudgePrivate = ''judge-private''"

definition VolumeAccessNone :: string where "VolumeAccessNone = ''none''"
definition VolumeAccessReadOnly :: string where "VolumeAccessReadOnly = ''read_only''"
definition VolumeAccessReadWrite :: string where "VolumeAccessReadWrite = ''read_write''"

definition VolumePersistenceObjectStorageCode :: string where
  "VolumePersistenceObjectStorageCode = ''object_storage_code''"
definition VolumePersistenceEphemeral :: string where "VolumePersistenceEphemeral = ''ephemeral''"
definition VolumePersistenceSnapshot :: string where "VolumePersistenceSnapshot = ''snapshot''"

definition VolumeSnapshotNever :: string where "VolumeSnapshotNever = ''never''"
definition VolumeSnapshotAlways :: string where "VolumeSnapshotAlways = ''always''"
definition VolumeSnapshotEnabled :: string where "VolumeSnapshotEnabled = ''snapshot_enabled''"

lemma volume_domain_names:
  "distinct [VolumeDomainWorkspace, VolumeDomainPublicAssets, VolumeDomainRuntimeState, VolumeDomainJudgePrivate]"
  by (simp add: VolumeDomainWorkspace_def VolumeDomainPublicAssets_def VolumeDomainRuntimeState_def
      VolumeDomainJudgePrivate_def)

lemma volume_access_names:
  "distinct [VolumeAccessNone, VolumeAccessReadOnly, VolumeAccessReadWrite]"
  by (simp add: VolumeAccessNone_def VolumeAccessReadOnly_def VolumeAccessReadWrite_def)

lemmas status_defs = SandboxStatusCreating_def SandboxStatusRunning_def SandboxStatusPaused_def
  SandboxStatusRecycling_def SandboxStatusDestroyed_def SandboxStatusFailed_def
  SandboxStatusReady_def SandboxStatusIdle_def

subsection \<open>Adapter specification of a runtime\<close>

record VolumeDomainSpec =
  vdName :: string
  vdMountPath :: string
  vdStudentAccess :: string
  vdPersistence :: string
  vdSnapshotScope :: string

record InitAssetSpec =
  iaName :: string
  iaSourceRef :: string
  iaTargetDomain :: string
  iaExpectedSHA256 :: string
  iaApplyPhase :: string

record WorkspaceOps =
  woExecTarget :: string
  woScriptExecTarget :: string
  woCleanWorkspace :: "string list"
  woReadFile :: "string list"
  woWriteFile :: "string list"
  woListFiles :: "string list"
  woPackTar :: "string list"
  woUnpackTar :: "string list"
  woRunScript :: "string list"
  woTerminal :: "string list"
  woSelftest :: "string list"

record PrivateArchiveOps =
  paExecTarget :: string
  paUnpackTar :: "string list"

record CapabilityConstraints =
  cnProvides :: "string list"
  cnRequires :: "string list"
  cnConflicts :: "string list"
  cnCardinality :: string
  cnPlacement :: string
  cnConfigSchema :: "(string \<times> json) list"
  cnStudentAccess :: string

record CapabilityCommandSpec =
  ccExecTarget :: string
  ccCommand :: "string list"
  ccTimeoutSeconds :: int

record CapabilityCommandSet =
  capDeploy :: CapabilityCommandSpec
  capTx :: CapabilityCommandSpec
  capQuery :: CapabilityCommandSpec
  capReset :: CapabilityCommandSpec
  capResetStrategy :: string

record AdapterSpec =
  asDisabledReason :: string
  asWorkspaceDir :: string
  asVolumeDomains :: "VolumeDomainSpec list"
  asRuntimeContainer :: ComponentSpec
  asInfraSidecars :: "ComponentSpec list"
  asPods :: "PodSpec list"
  asServices :: "ServiceSpec list"
  asRoutes :: "RouteSpec list"
  asNetworkRules :: "NetworkRuleSpec list"
  asInitAssets :: "InitAssetSpec list"
  asCapabilities :: CapabilityConstraints
  asSelftest :: "(string \<times> json) list"
  asWorkspaceOps :: WorkspaceOps
  asPrivateArchiveOps :: PrivateArchiveOps
  asInitAssetOps :: PrivateArchiveOps
  asCapabilityCommands :: CapabilityCommandSet
  asStartupOrder :: "string list"

subsection \<open>Tools\<close>

record CommandToolPolicy =
  cpAllowedArgv :: "string list list"
  cpDefaultTimeoutSeconds :: int
  cpMaxTimeoutSeconds :: int

record ComponentBinding =
  cbName :: string
  cbCapability :: string
  cbSourceComponent :: string
  cbSourceEndpoint :: string
  cbEndpoint :: string
  cbProtocol :: string
  cbRequiredAtStart :: bool
  cbConfigBinding :: string

record ToolResourceSpec =
  trDisabledReason :: string
  trBuiltinEndpoint :: string
  trComponents :: "ComponentSpec list"
  trServices :: "ServiceSpec list"
  trRoutes :: "RouteSpec list"
  trNetworkRules :: "NetworkRuleSpec list"
  trCommandPolicy :: CommandToolPolicy
  trPrepullCommand :: "string list"
  trBindings :: "ComponentBinding list"
  trCapabilities :: CapabilityConstraints

record Tool =
  toolID :: int
  toolCode :: string
  toolName :: string
  toolCategory :: string
  toolKind :: int
  toolEcoTags :: "string list"
  toolResourceSpec :: ToolResourceSpec
  toolStatus :: int

text \<open>A raw JSON message is its text, a time its Unix nanoseconds.\<close>

record Runtime =
  rtID :: int
  rtCode :: string
  rtName :: string
  rtEco :: string
  rtAdapterLevel :: int
  rtAdapterSpec :: AdapterSpec
  rtCapabilityImpl :: string
  rtPluginRef :: string
  rtSelftestStatus :: int
  rtSelftestDetail :: string
  rtStatus :: int

record RuntimeImage =
  riID :: int
  riRuntimeID :: int
  riImageURL :: string
  riVersion :: string
  riStatus :: int
  riGenesisBaked :: bool

record Sandbox =
  sbID :: int
  sbTenantID :: int
  sbNamespace :: string
  sbSourceRef :: string
  sbScopeRef :: string
  sbCompositionDigest :: string
  sbCompositionSnapshot :: string
  sbAccessProfile :: string
  sbOwnerAccountID :: int
  sbSharedAccountIDs :: "int list"
  sbPhase :: int
  sbStatus :: int
  sbKeepAlive :: bool
  sbSnapshotEnabled :: bool
  sbCodeStorageKey :: string
  sbCodeHash :: string
  sbWorkspaceRevision :: int
  sbInitCodeRef :: string
  sbInitScriptRef :: string
  sbSnapshotRef :: string
  sbSnapshotDomains :: "string list"
  sbSnapshotCreatedAt :: int
  sbSnapshotExpireAt :: int
  sbKeepAliveUntil :: int
  sbLastActiveAt :: int
  sbExpireAt :: int
  sbCreatedAt :: int
  sbUpdatedAt :: int

definition zeroSandbox :: Sandbox where
  "zeroSandbox = \<lparr>sbID = 0, sbTenantID = 0, sbNamespace = [], sbSourceRef = [], sbScopeRef = [],
     sbCompositionDigest = [], sbCompositionSnapshot = [], sbAccessProfile = [], sbOwnerAccountID = 0,
     sbSharedAccountIDs = [], sbPhase = 0, sbStatus = 0, sbKeepAlive = False, sbSnapshotEnabled = False,
     sbCodeStorageKey = [], sbCodeHash = [], sbWorkspaceRevision = 0, sbInitCodeRef = [],
     sbInitScriptRef = [], sbSnapshotRef = [], sbSnapshotDomains = [], sbSnapshotCreatedAt = 0,
     sbSnapshotExpireAt = 0, sbKeepAliveUntil = 0, sbLastActiveAt = 0, sbExpireAt = 0,
     sbCreatedAt = 0, sbUpdatedAt = 0\<rparr>"

record TenantQuota =
  tqTenantID :: int
  tqMaxConcurrentSandbox :: int
  tqMaxCPU :: int
  tqMaxMemoryMB :: int
  tqIdleTimeoutMin :: int
  tqMaxLifetimeMin :: int
  tqMaxKeepaliveMin :: int
  tqMaxSnapshotRetentionMin :: int

subsection \<open>Zero values of the adapter structures\<close>

definition zeroOps :: PrivateArchiveOps where
  "zeroOps = \<lparr>paExecTarget = [], paUnpackTar = []\<rparr>"

definition zeroWorkspaceOps :: WorkspaceOps where
  "zeroWorkspaceOps = \<lparr>woExecTarget = [], woScriptExecTarget = [], woCleanWorkspace = [], woReadFile = [],
     woWriteFile = [], woListFiles = [], woPackTar = [], woUnpackTar = [], woRunScript = [],
     woTerminal = [], woSelftest = []\<rparr>"

definition zeroCapability :: CapabilityCommandSpec where
  "zeroCapability = \<lparr>ccExecTarget = [], ccCommand = [], ccTimeoutSeconds = 0\<rparr>"

definition zeroCapabilities :: CapabilityCommandSet where
  "zeroCapabilities = \<lparr>capDeploy = zeroCapability, capTx = zeroCapability, capQuery = zeroCapability,
     capReset = zeroCapability, capResetStrategy = []\<rparr>"

definition zeroConstraints :: CapabilityConstraints where
  "zeroConstraints = \<lparr>cnProvides = [], cnRequires = [], cnConflicts = [], cnCardinality = [],
     cnPlacement = [], cnConfigSchema = [], cnStudentAccess = []\<rparr>"

definition zeroAdapter :: AdapterSpec where
  "zeroAdapter = \<lparr>asDisabledReason = [], asWorkspaceDir = [], asVolumeDomains = [],
     asRuntimeContainer = zeroComponent, asInfraSidecars = [], asPods = [], asServices = [],
     asRoutes = [], asNetworkRules = [], asInitAssets = [], asCapabilities = zeroConstraints,
     asSelftest = [], asWorkspaceOps = zeroWorkspaceOps, asPrivateArchiveOps = zeroOps,
     asInitAssetOps = zeroOps, asCapabilityCommands = zeroCapabilities, asStartupOrder = []\<rparr>"

definition zeroToolSpec :: ToolResourceSpec where
  "zeroToolSpec = \<lparr>trDisabledReason = [], trBuiltinEndpoint = [], trComponents = [], trServices = [],
     trRoutes = [], trNetworkRules = [],
     trCommandPolicy = \<lparr>cpAllowedArgv = [], cpDefaultTimeoutSeconds = 0, cpMaxTimeoutSeconds = 0\<rparr>,
     trPrepullCommand = [], trBindings = [], trCapabilities = zeroConstraints\<rparr>"

subsection \<open>Composition snapshot and creation request\<close>

record CompositionComponentRef =
  ccrCode :: string
  ccrSelection :: string
  ccrParams :: "(string \<times> json) list"

record CompositionRuntimeRef =
  crInstanceCode :: string
  crCode :: string
  crImageVersion :: string
  crParams :: "(string \<times> json) list"

record CompositionLink =
  clSourceComponent :: string
  clSourceEndpoint :: string
  clTargetComponent :: string
  clTargetEndpoint :: string
  clProtocol :: string
  clRequiredAtStart :: bool
  clAccessScope :: string
  clConfigBinding :: string

record CompositionInitAsset =
  caName :: string
  caSourceRef :: string
  caTargetRuntimeInstance :: string
  caTargetDomain :: string
  caExpectedSHA256 :: string
  caApplyPhase :: string

record SandboxCompositionSpec =
  scID :: string
  scRuntimes :: "CompositionRuntimeRef list"
  scWorkspaceRuntimeInstance :: string
  scInfra :: "CompositionComponentRef list"
  scTools :: "CompositionComponentRef list"
  scLinks :: "CompositionLink list"
  scAccessProfile :: string
  scResourceProfile :: strmap
  scNetworkProfile :: "(string \<times> json) list"
  scInitAssets :: "CompositionInitAsset list"
  scInitCodeRef :: string
  scInitScriptRef :: string

record ImageClosureMount =
  icmName :: string
  icmMountPath :: string

record ImageClosureItem =
  icCategory :: string
  icCode :: string
  icImageURL :: string
  icVersion :: string
  icPrepullCommand :: "string list"
  icPrepullHold :: bool
  icEphemeralMounts :: "ImageClosureMount list"

record CompiledRuntimeSnapshot =
  rsInstanceCode :: string
  rsRuntimeID :: int
  rsImageID :: int
  rsCode :: string
  rsEco :: string
  rsAdapterLevel :: int
  rsCapabilityImpl :: string
  rsPluginRef :: string
  rsAdapterSpec :: string
  rsImageURL :: string
  rsImageVersion :: string

record CompiledComponentSnapshot =
  csComponentID :: int
  csCategory :: string
  csCode :: string
  csKind :: int
  csResourceSpec :: string

record SandboxPrivateSidecarSpec =
  psName :: string
  psImageURL :: string
  psCommand :: "string list"
  psArgs :: "string list"
  psPrepullCommand :: "string list"
  psPrepullHold :: bool
  psEnv :: "EnvVarSpec list"
  psResources :: ResourceSpec
  psWorkdir :: string
  psReadOnlyRootFilesystem :: "bool option"
  psLabels :: strmap
  psMountWorkspace :: "bool option"
  psMountDomains :: "string list"
  psEphemeralMounts :: "EphemeralMountSpec list"

record SandboxCompositionSnapshot =
  snDigest :: string
  snSpec :: SandboxCompositionSpec
  snRuntimes :: "CompiledRuntimeSnapshot list"
  snComponents :: "CompiledComponentSnapshot list"
  snPrivateSidecars :: "SandboxPrivateSidecarSpec list"
  snImageClosure :: "ImageClosureItem list"

record CreateSandboxInputModel =
  ciTenantID :: int
  ciCompositionSnapshot :: SandboxCompositionSnapshot
  ciInitCodeRef :: string
  ciInitScriptRef :: string
  ciOwnerAccountID :: int
  ciAuthorizedAccountIDs :: "int list"
  ciSourceRef :: string
  ciScopeRef :: string
  ciKeepAlive :: bool
  ciSnapshotEnabled :: bool
  ciKeepAliveMinutes :: int
  ciSnapshotRetentionMinutes :: int
  ciPrivateSidecars :: "ComponentSpec list"

definition zeroSpec :: SandboxCompositionSpec where
  "zeroSpec = \<lparr>scID = [], scRuntimes = [], scWorkspaceRuntimeInstance = [], scInfra = [], scTools = [],
     scLinks = [], scAccessProfile = [], scResourceProfile = [], scNetworkProfile = [],
     scInitAssets = [], scInitCodeRef = [], scInitScriptRef = []\<rparr>"

definition zeroSnapshot :: SandboxCompositionSnapshot where
  "zeroSnapshot = \<lparr>snDigest = [], snSpec = zeroSpec, snRuntimes = [], snComponents = [],
     snPrivateSidecars = [], snImageClosure = []\<rparr>"

subsection \<open>Configuration\<close>

text \<open>The fields of the configuration that the rules read.\<close>

record PlatformImageAttestation =
  piImageURL :: string
  piDigest :: string
  piTrivyStatus :: string
  piCosignVerified :: bool

record SandboxConfig =
  cfgImageRegistry :: string
  cfgPlatformImageAttestations :: "PlatformImageAttestation list"
  cfgDefaultCPU :: string
  cfgDefaultMemory :: string
  cfgDefaultReqCPU :: string
  cfgDefaultReqMemory :: string
  cfgMaxCPU :: string
  cfgMaxMemory :: string
  cfgMaxPods :: string
  cfgChainRPCTimeoutSeconds :: int
  cfgProbeDefaultPeriodSeconds :: int
  cfgProbeDefaultFailureThreshold :: int

subsection \<open>Patterns\<close>

definition codePattern :: "string \<Rightarrow> bool" where
  "codePattern s \<longleftrightarrow>
     3 \<le> length s \<and> length s \<le> 64 \<and> low_num (hd s) \<and> low_num (last s) \<and> list_all low_num_dash s"

definition envNamePattern :: "string \<Rightarrow> bool" where
  "envNamePattern s =
     one_then (\<lambda>c. is_upper c \<or> c = CHR ''_'') (\<lambda>c. is_upper c \<or> is_digit c \<or> c = CHR ''_'') 63 s"

definition bindingNamePattern :: "string \<Rightarrow> bool" where
  "bindingNamePattern s =
     one_then is_lower (\<lambda>c. low_num_dash c \<or> c = CHR ''_'') 62 s"

definition mountNamePattern :: "string \<Rightarrow> bool" where
  "mountNamePattern s = one_then low_num low_num_dash 62 s"

definition portNamePattern :: "string \<Rightarrow> bool" where
  "portNamePattern s = one_then is_lower low_num_dash 14 s"

lemma low_num_dash_graphic: "low_num_dash c \<Longrightarrow> graphic c"
  by (auto simp: low_num_dash_def low_num_def is_lower_def is_digit_def graphic_def less_eq_char_def)

lemma mountName_chars: "mountNamePattern s \<Longrightarrow> s \<noteq> [] \<and> list_all low_num_dash s"
  by (auto simp: mountNamePattern_def one_then_def low_num_dash_def split: list.splits)

lemma low_num_dash_TrimSpace: "s \<noteq> [] \<Longrightarrow> list_all low_num_dash s \<Longrightarrow> TrimSpace s = s"
  by (rule TrimSpace_graphic) (auto simp: list_all_iff intro: low_num_dash_graphic)

lemma mountName_TrimSpace: "mountNamePattern s \<Longrightarrow> TrimSpace s = s"
  using mountName_chars low_num_dash_TrimSpace by blast

lemma mountName_no_slash: "mountNamePattern s \<Longrightarrow> slash \<notin> set s"
  using mountName_chars [of s]
  by (auto simp: list_all_iff slash_def low_num_dash_def low_num_def is_lower_def is_digit_def
      less_eq_char_def)

end
