(* ===== verification/SandboxLifecycle.thy ===== *)
theory SandboxLifecycle
  imports SandboxModel
begin

section \<open>Sandbox engine: life cycle, members and workspace paths\<close>

text \<open>
  \<open>validateStateTransition\<close>, the shared members of a sandbox and the path rules for files of
  the student workspace (\<open>rules.go\<close>).
\<close>

subsection \<open>Status transitions\<close>

definition allowedTransitions :: "(int \<times> int list) list" where
  "allowedTransitions =
     [(SandboxStatusCreating, [SandboxStatusReady, SandboxStatusRecycling, SandboxStatusFailed]),
      (SandboxStatusReady, [SandboxStatusRunning, SandboxStatusPaused, SandboxStatusRecycling, SandboxStatusFailed]),
      (SandboxStatusRunning, [SandboxStatusIdle, SandboxStatusPaused, SandboxStatusRecycling, SandboxStatusFailed]),
      (SandboxStatusIdle, [SandboxStatusRunning, SandboxStatusPaused, SandboxStatusRecycling, SandboxStatusFailed]),
      (SandboxStatusPaused, [SandboxStatusRunning, SandboxStatusRecycling]),
      (SandboxStatusFailed, [SandboxStatusRecycling]),
      (SandboxStatusRecycling, [SandboxStatusDestroyed, SandboxStatusFailed])]"

definition validateStateTransition :: "int \<Rightarrow> int \<Rightarrow> sandbox_error + unit" where
  "validateStateTransition from to =
     (if from = to then Inr ()
      else if (case map_of allowedTransitions from of None \<Rightarrow> False | Some next \<Rightarrow> to \<in> set next)
      then Inr () else Inl ErrSandboxStateInvalid)"

definition sandbox_statuses :: "int set" where
  "sandbox_statuses =
     {SandboxStatusCreating, SandboxStatusReady, SandboxStatusRunning, SandboxStatusIdle,
      SandboxStatusPaused, SandboxStatusFailed, SandboxStatusRecycling, SandboxStatusDestroyed}"

definition released :: "int \<Rightarrow> bool" where
  "released s \<longleftrightarrow> s = SandboxStatusFailed \<or> s = SandboxStatusRecycling \<or> s = SandboxStatusDestroyed"

lemma transition_Inr:
  "validateStateTransition s t = Inr u \<longleftrightarrow>
     s = t \<or> (\<exists>next. map_of allowedTransitions s = Some next \<and> t \<in> set next)"
  by (auto simp: validateStateTransition_def split: option.splits if_splits)

interpretation sandbox_release: lifecycle validateStateTransition released
  by unfold_locales
    (auto simp: transition_Inr released_def allowedTransitions_def status_defs split: if_splits)

interpretation sandbox_destroyed: lifecycle validateStateTransition "\<lambda>s. s = SandboxStatusDestroyed"
  by unfold_locales
    (auto simp: transition_Inr allowedTransitions_def status_defs split: if_splits)

interpretation sandbox_known: lifecycle validateStateTransition "\<lambda>s. s \<in> sandbox_statuses"
  by unfold_locales
    (auto simp: transition_Inr sandbox_statuses_def allowedTransitions_def split: if_splits)

interpretation sandbox_created: lifecycle validateStateTransition "\<lambda>s. s \<noteq> SandboxStatusCreating"
  by unfold_locales
    (auto simp: transition_Inr allowedTransitions_def status_defs split: if_splits)

lemma one_move: "validateStateTransition s t = Inr () \<Longrightarrow> moves validateStateTransition s t"
  by (rule moves_step [OF moves_refl])

lemma to_recycling:
  "s \<in> sandbox_statuses \<Longrightarrow> s \<noteq> SandboxStatusDestroyed \<Longrightarrow>
     validateStateTransition s SandboxStatusRecycling = Inr ()"
  by (auto simp: sandbox_statuses_def transition_Inr allowedTransitions_def status_defs)



text \<open>
  Resources can always be released: from every known status there is a sequence of permitted
  updates to destroyed, through recycling.
\<close>

theorem sandbox_always_releasable:
  assumes "s \<in> sandbox_statuses"
  shows "moves validateStateTransition s SandboxStatusDestroyed"
proof (cases "s = SandboxStatusDestroyed")
  case False
  have "validateStateTransition SandboxStatusRecycling SandboxStatusDestroyed = Inr ()"
    by (auto simp: transition_Inr allowedTransitions_def status_defs)
  then show ?thesis
    using one_move [OF to_recycling [OF assms False]] by (rule moves_step [rotated])
qed (simp add: moves_refl)

theorem sandbox_always_releasable_witness:
  "SandboxStatusRunning \<in> sandbox_statuses
     \<and> moves validateStateTransition SandboxStatusRunning SandboxStatusDestroyed"
  using sandbox_always_releasable [of SandboxStatusRunning] by (simp add: sandbox_statuses_def)

subsection \<open>Members\<close>

definition share_step :: "int list \<times> int list \<Rightarrow> int \<Rightarrow> sandbox_error + int list \<times> int list" where
  "share_step st accountID =
     (let (seen, out) = st
      in if accountID \<le> 0 then Inl ErrSandboxOwnerInvalid
         else if accountID \<in> set seen then Inr (seen, out)
         else Inr (accountID # seen, out @ [accountID]))"

definition normalizeSandboxSharedAccountIDs :: "int \<Rightarrow> int list \<Rightarrow> sandbox_error + int list" where
  "normalizeSandboxSharedAccountIDs ownerAccountID authorizedAccountIDs =
     (if ownerAccountID \<le> 0 then Inl ErrSandboxOwnerInvalid
      else bindR (foldR share_step ([ownerAccountID], []) authorizedAccountIDs)
             (\<lambda>(seen, out). Inr out))"

definition sandboxAccountAuthorized :: "Sandbox \<Rightarrow> int \<Rightarrow> bool" where
  "sandboxAccountAuthorized sb accountID =
     (if accountID \<le> 0 then False
      else if sbOwnerAccountID sb = accountID then True
      else list_ex (\<lambda>sharedAccountID. sharedAccountID = accountID) (sbSharedAccountIDs sb))"

lemma foldR_share_step:
  "set seen = insert o' (set out) \<Longrightarrow> distinct out \<Longrightarrow> o' \<notin> set out \<Longrightarrow>
     foldR share_step (seen, out) xs = Inr (seen', out') \<Longrightarrow>
     distinct out' \<and> o' \<notin> set out' \<and> set out' = set out \<union> (set xs - {o'}) \<and> (\<forall>x \<in> set xs. 0 < x)"
proof (induction xs arbitrary: seen out)
  case (Cons x xs)
  from Cons.prems(4) have x: "0 < x"
    and step: "foldR share_step (if x \<in> set seen then (seen, out) else (x # seen, out @ [x])) xs
      = Inr (seen', out')"
    by (auto simp: share_step_def [of "(seen, out)" x] bindR_Inr split: if_splits)
  show ?case
  proof (cases "x \<in> set seen")
    case True
    with step Cons.prems Cons.IH [of seen out] x show ?thesis by auto
  next
    case False
    with step Cons.prems Cons.IH [of "x # seen" "out @ [x]"] x show ?thesis by auto
  qed
qed simp

lemma normalized_members_positive:
  assumes "normalizeSandboxSharedAccountIDs owner ids = Inr out" and "a \<in> set ids"
  shows "0 < a"
proof -
  from assms(1) obtain seen where "foldR share_step ([owner], []) ids = Inr (seen, out)"
    by (auto simp: normalizeSandboxSharedAccountIDs_def bindR_Inr split: if_splits)
  with foldR_share_step [of "[owner]" owner "[]" ids seen out] show ?thesis using assms(2) by simp
qed

text \<open>
  Sharing is exactly what was requested: when the creation of a sandbox accepts a member
  list, the stored members are the requested accounts without the owner, each once, and afterwards
  precisely the owner and the requested accounts may enter the sandbox.
\<close>

theorem shared_accounts_exact:
  assumes "normalizeSandboxSharedAccountIDs owner ids = Inr out"
    and "sbOwnerAccountID sb = owner" and "sbSharedAccountIDs sb = out"
  shows "distinct out \<and> set out = set ids - {owner} \<and>
    (\<forall>a. sandboxAccountAuthorized sb a \<longleftrightarrow> a = owner \<or> a \<in> set ids)"
proof -
  from assms(1) obtain seen where f: "foldR share_step ([owner], []) ids = Inr (seen, out)"
    and o: "0 < owner"
    by (auto simp: normalizeSandboxSharedAccountIDs_def bindR_Inr split: if_splits)
  have "distinct out \<and> owner \<notin> set out \<and> set out = set [] \<union> (set ids - {owner}) \<and> (\<forall>x \<in> set ids. 0 < x)"
    by (rule foldR_share_step [OF _ _ _ f]) auto
  with o assms(2,3) show ?thesis
    by (auto simp: sandboxAccountAuthorized_def list_ex_iff)
qed

theorem shared_accounts_exact_witness:
  "normalizeSandboxSharedAccountIDs 7 [9, 7, 8, 9] = Inr [9, 8]
     \<and> sandboxAccountAuthorized (zeroSandbox\<lparr>sbOwnerAccountID := 7, sbSharedAccountIDs := [9, 8]\<rparr>) 8
     \<and> \<not> sandboxAccountAuthorized (zeroSandbox\<lparr>sbOwnerAccountID := 7, sbSharedAccountIDs := [9, 8]\<rparr>) 5"
proof -
  have e: "normalizeSandboxSharedAccountIDs 7 [9, 7, 8, 9] = Inr [9, 8]"
    by (simp add: normalizeSandboxSharedAccountIDs_def share_step_def)
  show ?thesis
    using e shared_accounts_exact [OF e, of "(zeroSandbox\<lparr>sbOwnerAccountID := 7, sbSharedAccountIDs := [9, 8]\<rparr>)"] by simp
qed

subsection \<open>Workspace paths\<close>

definition validateWorkspacePath :: "string \<Rightarrow> sandbox_error + string" where
  "validateWorkspacePath relativePath =
     (let cleanInput = TrimSpace relativePath
      in if cleanInput = [] then Inl ErrSandboxFileInvalid
         else if IsAbs cleanInput \<or> Contains cleanInput [CHR 0x5C] then Inl ErrSandboxFileInvalid
         else if list_ex (\<lambda>segment. segment = [] \<or> segment = ''.'' \<or> segment = ''..'') (Split cleanInput slash)
         then Inl ErrSandboxFileInvalid
         else let out = Clean cleanInput
              in if out = ''.'' \<or> out = ''..'' \<or> HasPrefix out ''../'' \<or> Contains out ''/../''
                    \<or> IsPrivateWorkspacePath out
                 then Inl ErrSandboxFileInvalid
                 else Inr out)"

definition validateWorkspaceListPath :: "string \<Rightarrow> sandbox_error + string" where
  "validateWorkspaceListPath relativePath =
     (if TrimSpace relativePath = [] \<or> TrimSpace relativePath = ''.'' then Inr ''.''
      else validateWorkspacePath relativePath)"

text \<open>An absolute path lies in a directory when cleaning it leaves a path below that directory.\<close>

definition below :: "string \<Rightarrow> string \<Rightarrow> bool" where
  "below p d \<longleftrightarrow> HasPrefix (Clean p) (Clean d @ ''/'')"

lemma workspacePath_elems:
  assumes "validateWorkspacePath p = Inr q"
  shows "q = TrimSpace p \<and> (\<forall>e \<in> set (Split q slash). plain_elem e) \<and> \<not> IsPrivateWorkspacePath q"
proof -
  have e: "\<forall>e \<in> set (Split (TrimSpace p) slash). plain_elem e"
    and q: "q = Clean (TrimSpace p)" "\<not> IsPrivateWorkspacePath q"
    using assms unfolding validateWorkspacePath_def Let_def if_Inl_Inr list_ex_iff plain_elem_def
    by blast+
  from e have "Clean (TrimSpace p) = TrimSpace p" by (rule Clean_plain_relative)
  with e q show ?thesis by simp
qed


lemma Join_append:
  "es \<noteq> [] \<Longrightarrow> fs \<noteq> [] \<Longrightarrow> Join (es @ fs) sep = Join es sep @ sep @ Join fs sep"
proof (induction es)
  case (Cons e es)
  then show ?case by (cases "es = []") (simp_all add: Join_Cons)
qed simp

lemma Clean_below:
  assumes abs: "IsAbs d" and nr: "Clean d \<noteq> ''/''"
    and plain: "\<forall>e \<in> set (Split q slash). plain_elem e"
  shows "Clean (Clean d @ ''/'' @ q) = Clean d @ ''/'' @ q"
proof -
  obtain es where es: "Clean d = slash # Join es [slash]" "\<forall>e \<in> set es. plain_elem e \<and> slash \<notin> set e"
    using Clean_rooted abs by (auto simp: IsAbs_def)
  have ne: "es \<noteq> []" using nr es(1) by (auto simp: slash_def)
  have q: "q = Join (Split q slash) [slash]" by (simp add: Join_Split)
  have "\<forall>e \<in> set (es @ Split q slash). plain_elem e \<and> slash \<notin> set e"
    using es(2) plain by (auto dest: Split_no_sep)
  from Clean_rooted_join [OF this] have
    "Clean (slash # Join (es @ Split q slash) [slash]) = slash # Join (es @ Split q slash) [slash]" .
  then show ?thesis using es(1) ne by (simp add: Join_append Join_Split slash_def)
qed

text \<open>
  C34: A path the file interface accepts cannot leave the student workspace or reach the
  platform's private copy: it is the trimmed input, none of its elements is empty, dot or dot-dot,
  and appended to any absolute workspace directory below the root the cleaned result is that
  directory followed by the path itself.
\<close>

theorem workspacePath_contained:
  assumes "validateWorkspacePath p = Inr q" and "IsAbs d" and "Clean d \<noteq> ''/''"
  shows "q = TrimSpace p \<and> \<not> IsPrivateWorkspacePath q \<and> \<not> IsAbs q
    \<and> Clean (Clean d @ ''/'' @ q) = Clean d @ ''/'' @ q \<and> below (Clean d @ ''/'' @ q) d"
proof -
  note e = workspacePath_elems [OF assms(1)]
  then have c: "Clean (Clean d @ ''/'' @ q) = Clean d @ ''/'' @ q"
    using Clean_below assms(2,3) by blast
  have "\<not> IsAbs q"
  proof
    assume "IsAbs q"
    then obtain r where "q = slash # r" by (auto simp: IsAbs_def HasPrefix_def prefix_def)
    then have "[] \<in> set (Split q slash)" by simp
    with e have "plain_elem []" by blast
    then show False by (simp add: plain_elem_def)
  qed
  moreover have "below (Clean d @ ''/'' @ q) d"
    unfolding below_def c by (simp add: HasPrefix_def)
  ultimately show ?thesis using e c by blast
qed

theorem workspacePath_contained_witness:
  "validateWorkspacePath '' src/a.sol '' = Inr ''src/a.sol'' \<and> below ''/workspace/src/a.sol'' ''/workspace/''"
proof -
  have v: "validateWorkspacePath '' src/a.sol '' = Inr ''src/a.sol''" by code_simp
  have c: "Clean ''/workspace/'' = ''/workspace''" by code_simp
  have a: "IsAbs ''/workspace/''" by code_simp
  have n: "Clean ''/workspace/'' \<noteq> ''/''" by (simp add: c)
  have "below (Clean ''/workspace/'' @ ''/'' @ ''src/a.sol'') ''/workspace/''"
    using workspacePath_contained [OF v a n] by blast
  then have "below ''/workspace/src/a.sol'' ''/workspace/''" by (simp only: c append.simps)
  with v show ?thesis by blast
qed

end
