(* ===== verification/SandboxVolumes.thy ===== *)
theory SandboxVolumes
  imports SandboxLifecycle
begin

section \<open>Sandbox engine: volume domains and mounts\<close>

text \<open>
  The volume security domains of a runtime (student workspace, public assets, runtime state,
  private judge data) and which container may mount what: \<open>rules.go\<close>, with
  \<open>studentAccessibleContainer\<close> and \<open>volumeDomainByName\<close>.
\<close>

definition studentAccessLabel :: string where "studentAccessLabel = ''chaimir.io/student-access''"

definition studentAccessibleContainer :: "ComponentSpec \<Rightarrow> bool" where
  "studentAccessibleContainer spec =
     EqualFold (TrimSpace (mapGet (cLabels spec) studentAccessLabel)) ''true''"

definition shouldMountWorkspace :: "ComponentSpec \<Rightarrow> bool" where
  "shouldMountWorkspace spec \<longleftrightarrow> cMountWorkspace spec = Some True"

subsection \<open>Domain declarations\<close>

definition validVolumeAccess :: "string \<Rightarrow> bool" where
  "validVolumeAccess access \<longleftrightarrow>
     access = VolumeAccessNone \<or> access = VolumeAccessReadOnly \<or> access = VolumeAccessReadWrite"

definition validVolumePersistence :: "string \<Rightarrow> bool" where
  "validVolumePersistence p \<longleftrightarrow>
     p = VolumePersistenceObjectStorageCode \<or> p = VolumePersistenceEphemeral \<or> p = VolumePersistenceSnapshot"

definition validVolumeSnapshotScope :: "string \<Rightarrow> bool" where
  "validVolumeSnapshotScope s \<longleftrightarrow>
     s = VolumeSnapshotNever \<or> s = VolumeSnapshotAlways \<or> s = VolumeSnapshotEnabled"

definition volumePathOverlaps :: "string \<Rightarrow> string \<Rightarrow> bool" where
  "volumePathOverlaps left right =
     (let left = Clean left; right = Clean right
      in left = right \<or> HasPrefix left (right @ ''/'') \<or> HasPrefix right (left @ ''/''))"

definition hasVolumeDomain :: "AdapterSpec \<Rightarrow> string \<Rightarrow> bool" where
  "hasVolumeDomain spec name = list_ex (\<lambda>domain. vdName domain = name) (asVolumeDomains spec)"

definition volumeDomainByName :: "AdapterSpec \<Rightarrow> string \<Rightarrow> VolumeDomainSpec option" where
  "volumeDomainByName spec name = find (\<lambda>domain. vdName domain = TrimSpace name) (asVolumeDomains spec)"

definition defaultVolumeDomains :: "string \<Rightarrow> VolumeDomainSpec list" where
  "defaultVolumeDomains workspaceDir =
     [\<lparr>vdName = VolumeDomainWorkspace, vdMountPath = workspaceDir, vdStudentAccess = VolumeAccessReadWrite,
       vdPersistence = VolumePersistenceObjectStorageCode, vdSnapshotScope = VolumeSnapshotAlways\<rparr>,
      \<lparr>vdName = VolumeDomainRuntimeState, vdMountPath = ''/runtime-state'', vdStudentAccess = VolumeAccessNone,
       vdPersistence = VolumePersistenceEphemeral, vdSnapshotScope = VolumeSnapshotEnabled\<rparr>]"

definition trimDomain :: "VolumeDomainSpec \<Rightarrow> VolumeDomainSpec" where
  "trimDomain d =
     \<lparr>vdName = TrimSpace (vdName d), vdMountPath = Clean (TrimSpace (vdMountPath d)),
      vdStudentAccess = TrimSpace (vdStudentAccess d), vdPersistence = TrimSpace (vdPersistence d),
      vdSnapshotScope = TrimSpace (vdSnapshotScope d)\<rparr>"

definition volume_step ::
  "string \<Rightarrow> VolumeDomainSpec list \<Rightarrow> VolumeDomainSpec \<Rightarrow>
     sandbox_error + VolumeDomainSpec \<times> VolumeDomainSpec list" where
  "volume_step workspaceDir seen d =
     (let domain = trimDomain d
      in if vdName domain = [] \<or> \<not> HasPrefix (vdMountPath domain) ''/'' \<or> vdMountPath domain = ''/''
         then Inl ErrSandboxVolumeDomainInvalid
         else if vdName domain \<in> set (map vdName seen) then Inl ErrSandboxVolumeDomainInvalid
         else if \<not> validVolumeAccess (vdStudentAccess domain) \<or> \<not> validVolumePersistence (vdPersistence domain)
                  \<or> \<not> validVolumeSnapshotScope (vdSnapshotScope domain)
         then Inl ErrSandboxVolumeDomainInvalid
         else if vdName domain = VolumeDomainWorkspace \<and>
                 (vdMountPath domain \<noteq> Clean workspaceDir \<or> vdStudentAccess domain \<noteq> VolumeAccessReadWrite
                  \<or> vdPersistence domain \<noteq> VolumePersistenceObjectStorageCode)
         then Inl ErrSandboxVolumeDomainInvalid
         else if vdName domain = VolumeDomainRuntimeState \<and> vdStudentAccess domain \<noteq> VolumeAccessNone
         then Inl ErrSandboxVolumeDomainInvalid
         else if vdName domain = VolumeDomainPublicAssets \<and> vdStudentAccess domain \<noteq> VolumeAccessReadOnly
         then Inl ErrSandboxVolumeDomainInvalid
         else if vdName domain = VolumeDomainJudgePrivate \<and>
                 (vdStudentAccess domain \<noteq> VolumeAccessNone \<or> vdSnapshotScope domain \<noteq> VolumeSnapshotNever)
         then Inl ErrSandboxPrivateDomainInvalid
         else if list_ex (\<lambda>existing. volumePathOverlaps (vdMountPath domain) (vdMountPath existing)) seen
         then Inl ErrSandboxVolumeDomainInvalid
         else Inr (domain, domain # seen))"

definition normalizeAndValidateVolumeDomains :: "AdapterSpec \<Rightarrow> sandbox_error + AdapterSpec" where
  "normalizeAndValidateVolumeDomains spec =
     (let declared = (if asVolumeDomains spec = [] then defaultVolumeDomains (asWorkspaceDir spec)
                      else asVolumeDomains spec)
      in bindR (mapAccR (volume_step (asWorkspaceDir spec)) [] declared) (\<lambda>(domains, seen).
           if \<not> list_ex (\<lambda>domain. vdName domain = VolumeDomainWorkspace) domains
           then Inl ErrSandboxVolumeDomainInvalid
           else Inr (spec\<lparr>asVolumeDomains := domains\<rparr>)))"

text \<open>What every accepted declaration satisfies, and every accepted pair.\<close>

definition domain_wf :: "string \<Rightarrow> VolumeDomainSpec \<Rightarrow> bool" where
  "domain_wf workspaceDir d \<longleftrightarrow>
     vdName d \<noteq> [] \<and> HasPrefix (vdMountPath d) ''/'' \<and> vdMountPath d \<noteq> ''/'' \<and>
     Clean (vdMountPath d) = vdMountPath d \<and>
     validVolumeAccess (vdStudentAccess d) \<and>
     (vdName d = VolumeDomainWorkspace \<longrightarrow>
        vdMountPath d = Clean workspaceDir \<and> vdStudentAccess d = VolumeAccessReadWrite) \<and>
     (vdName d = VolumeDomainRuntimeState \<longrightarrow> vdStudentAccess d = VolumeAccessNone) \<and>
     (vdName d = VolumeDomainPublicAssets \<longrightarrow> vdStudentAccess d = VolumeAccessReadOnly) \<and>
     (vdName d = VolumeDomainJudgePrivate \<longrightarrow>
        vdStudentAccess d = VolumeAccessNone \<and> vdSnapshotScope d = VolumeSnapshotNever)"

definition domains_apart :: "VolumeDomainSpec \<Rightarrow> VolumeDomainSpec \<Rightarrow> bool" where
  "domains_apart a b \<longleftrightarrow> vdName a \<noteq> vdName b \<and> \<not> volumePathOverlaps (vdMountPath b) (vdMountPath a)"

lemma slash_text: "''/'' = [slash]"
  by (simp add: slash_def)

interpretation volumes: pairwise_loop "volume_step workspaceDir" trimDomain "domain_wf workspaceDir" domains_apart
  for workspaceDir
proof
  fix seen x y seen'
  assume "volume_step workspaceDir seen x = Inr (y, seen')"
  then have y: "y = trimDomain x" "seen' = y # seen" and
    checks: "vdName y \<noteq> []" "HasPrefix (vdMountPath y) ''/''" "vdMountPath y \<noteq> ''/''"
      "vdName y \<notin> set (map vdName seen)" "validVolumeAccess (vdStudentAccess y)"
      "\<not> (vdName y = VolumeDomainWorkspace \<and> (vdMountPath y \<noteq> Clean workspaceDir
          \<or> vdStudentAccess y \<noteq> VolumeAccessReadWrite \<or> vdPersistence y \<noteq> VolumePersistenceObjectStorageCode))"
      "\<not> (vdName y = VolumeDomainRuntimeState \<and> vdStudentAccess y \<noteq> VolumeAccessNone)"
      "\<not> (vdName y = VolumeDomainPublicAssets \<and> vdStudentAccess y \<noteq> VolumeAccessReadOnly)"
      "\<not> (vdName y = VolumeDomainJudgePrivate \<and> (vdStudentAccess y \<noteq> VolumeAccessNone
          \<or> vdSnapshotScope y \<noteq> VolumeSnapshotNever))"
      "\<not> list_ex (\<lambda>e. volumePathOverlaps (vdMountPath y) (vdMountPath e)) seen"
    unfolding volume_step_def Let_def if_Inl_Inr by blast+
  have "HasPrefix (Clean (TrimSpace (vdMountPath x))) ''/''"
    using checks(2) y(1) by (simp add: trimDomain_def)
  then have "Clean (vdMountPath y) = vdMountPath y"
    using y(1) Clean_rooted_idem [of "TrimSpace (vdMountPath x)"]
      Clean_rooted_HasPrefix [of "TrimSpace (vdMountPath x)"]
    by (simp add: trimDomain_def slash_text)
  with checks have "domain_wf workspaceDir y" unfolding domain_wf_def by blast
  moreover have "\<forall>z \<in> set seen. domains_apart z y"
    using checks(4,10) by (simp add: domains_apart_def list_ex_iff) (metis image_eqI)
  ultimately show "y = trimDomain x \<and> domain_wf workspaceDir y \<and> (\<forall>z \<in> set seen. domains_apart z y)
      \<and> seen' = y # seen"
    using y by blast
qed

lemma volumeDomains_accepted:
  assumes "normalizeAndValidateVolumeDomains spec = Inr spec'"
  obtains seen declared where
    "mapAccR (volume_step (asWorkspaceDir spec)) [] declared = Inr (asVolumeDomains spec', seen)"
    "spec' = spec\<lparr>asVolumeDomains := asVolumeDomains spec'\<rparr>"
    "\<exists>d \<in> set (asVolumeDomains spec'). vdName d = VolumeDomainWorkspace"
proof -
  define declared where
    "declared = (if asVolumeDomains spec = [] then defaultVolumeDomains (asWorkspaceDir spec)
                 else asVolumeDomains spec)"
  from assms obtain ds seen where m: "mapAccR (volume_step (asWorkspaceDir spec)) [] declared = Inr (ds, seen)"
    and "list_ex (\<lambda>d. vdName d = VolumeDomainWorkspace) ds" and s: "spec' = spec\<lparr>asVolumeDomains := ds\<rparr>"
    unfolding normalizeAndValidateVolumeDomains_def Let_def bindR_Inr declared_def [symmetric]
    by (auto simp: if_Inl_Inr)
  then show ?thesis using that [of declared seen] by (simp add: s list_ex_iff)
qed

lemma volumeDomains_wf:
  "normalizeAndValidateVolumeDomains spec = Inr spec' \<Longrightarrow> d \<in> set (asVolumeDomains spec') \<Longrightarrow>
     domain_wf (asWorkspaceDir spec) d"
  by (metis volumeDomains_accepted volumes.loop_good)

text \<open>A path belongs to a domain when it is the mount path or lies below it.\<close>

definition in_domain :: "string \<Rightarrow> VolumeDomainSpec \<Rightarrow> bool" where
  "in_domain p d \<longleftrightarrow> p = vdMountPath d \<or> HasPrefix p (vdMountPath d @ ''/'')"

lemma common_path_overlaps:
  assumes "in_domain p a" and "in_domain p b"
    and "Clean (vdMountPath a) = vdMountPath a" and "Clean (vdMountPath b) = vdMountPath b"
  shows "volumePathOverlaps (vdMountPath a) (vdMountPath b)"
proof -
  let ?a = "vdMountPath a" and ?b = "vdMountPath b"
  have "prefix (?a @ ''/'') (p @ ''/'')" "prefix (?b @ ''/'') (p @ ''/'')"
    using assms(1,2) by (auto simp: in_domain_def HasPrefix_def intro: prefix_prefix)
  then consider "prefix (?a @ ''/'') (?b @ ''/'')" | "prefix (?b @ ''/'') (?a @ ''/'')"
    using prefix_same_cases by blast
  then show ?thesis
    using assms(3,4)
    by cases (auto simp: volumePathOverlaps_def HasPrefix_def Let_def)
qed

lemma volumePathOverlaps_sym: "volumePathOverlaps a b \<longleftrightarrow> volumePathOverlaps b a"
  by (auto simp: volumePathOverlaps_def Let_def)

text \<open>
  C36: Accepted volume domains isolate their contents: no path belongs to two different domains
  of a runtime, the student workspace is present at the declared directory, and no path of the
  private judge domain is in a domain students can read or write.
\<close>

theorem volumeDomains_isolated:
  assumes "normalizeAndValidateVolumeDomains spec = Inr spec'"
  shows "(\<forall>a \<in> set (asVolumeDomains spec'). \<forall>b \<in> set (asVolumeDomains spec').
           \<forall>p. in_domain p a \<and> in_domain p b \<longrightarrow> a = b) \<and>
    (\<exists>w \<in> set (asVolumeDomains spec'). vdName w = VolumeDomainWorkspace
           \<and> vdMountPath w = Clean (asWorkspaceDir spec)) \<and>
    (\<forall>j \<in> set (asVolumeDomains spec'). \<forall>b \<in> set (asVolumeDomains spec'). \<forall>p.
           vdName j = VolumeDomainJudgePrivate \<and> in_domain p j \<and> in_domain p b \<longrightarrow>
           vdStudentAccess b = VolumeAccessNone)"
proof -
  let ?ds = "asVolumeDomains spec'"
  obtain seen declared where l: "mapAccR (volume_step (asWorkspaceDir spec)) [] declared = Inr (?ds, seen)"
    and w: "\<exists>d \<in> set ?ds. vdName d = VolumeDomainWorkspace"
    using volumeDomains_accepted [OF assms] by metis
  have wf: "\<forall>d \<in> set ?ds. domain_wf (asWorkspaceDir spec) d"
    using volumeDomains_wf [OF assms] by blast
  have one: "a = b" if "a \<in> set ?ds" "b \<in> set ?ds" "in_domain p a" "in_domain p b" for a b p
  proof (rule ccontr)
    assume "a \<noteq> b"
    then have "domains_apart a b \<or> domains_apart b a"
      using volumes.compat_pair [OF l that(1,2)] by blast
    then have "\<not> volumePathOverlaps (vdMountPath a) (vdMountPath b)"
      using volumePathOverlaps_sym by (auto simp: domains_apart_def)
    moreover have "volumePathOverlaps (vdMountPath a) (vdMountPath b)"
      using common_path_overlaps [OF that(3,4)] wf that(1,2) by (auto simp: domain_wf_def)
    ultimately show False by blast
  qed
  moreover have "\<exists>d \<in> set ?ds. vdName d = VolumeDomainWorkspace \<and> vdMountPath d = Clean (asWorkspaceDir spec)"
    using w wf by (auto simp: domain_wf_def)
  moreover have "vdStudentAccess j = VolumeAccessNone"
    if "j \<in> set ?ds" "vdName j = VolumeDomainJudgePrivate" for j
    using wf that by (auto simp: domain_wf_def)
  ultimately show ?thesis by metis
qed

lemma volumeDomains_isolated_witness:
  "\<exists>spec'. normalizeAndValidateVolumeDomains (zeroAdapter\<lparr>asWorkspaceDir := ''/workspace''\<rparr>) = Inr spec'
     \<and> (\<exists>w \<in> set (asVolumeDomains spec'). vdName w = VolumeDomainWorkspace \<and> vdMountPath w = Clean ''/workspace'')"
proof -
  have "normalizeAndValidateVolumeDomains (zeroAdapter\<lparr>asWorkspaceDir := ''/workspace''\<rparr>)
      = Inr (zeroAdapter\<lparr>asWorkspaceDir := ''/workspace'', asVolumeDomains := defaultVolumeDomains ''/workspace''\<rparr>)"
    by code_simp
  from volumeDomains_isolated [OF this] this show ?thesis
    by (auto simp: zeroAdapter_def)
qed

end
