(* ===== verification/SandboxContainers.thy ===== *)
theory SandboxContainers
  imports SandboxVolumes
begin

section \<open>Sandbox engine: container declarations\<close>

text \<open>
  The checks every declared container passes before it may become part of a pod (\<open>rules.go\<close>):
  mounts, environment, identity, resources, ports, probes and command, and the admission of its
  image. A check that normalises the declaration it points to returns the normalised value.
  \<open>resource.ParseQuantity\<close> is a library function and a parameter of the model: it maps a text to
  the quantity's \<open>MilliValue()\<close> and \<open>Value()\<close>, or to an error.
\<close>

record Quantity =
  MilliValue :: int
  QuantityValue :: int

type_synonym quantities = "string \<Rightarrow> Quantity option"

subsection \<open>Mounted domains\<close>

definition mount_step :: "ComponentSpec \<Rightarrow> string list \<Rightarrow> string \<Rightarrow> sandbox_error + string list" where
  "mount_step spec seen raw =
     (let domain = TrimSpace raw
      in if \<not> mountNamePattern domain \<or> domain = VolumeDomainWorkspace
            \<or> (domain = VolumeDomainJudgePrivate \<and> studentAccessibleContainer spec)
         then Inl ErrSandboxToolCreateInvalid
         else if domain \<in> set seen then Inl ErrSandboxToolCreateInvalid
         else Inr (domain # seen))"

definition writable_check :: "ComponentSpec \<Rightarrow> string list \<Rightarrow> string \<Rightarrow> sandbox_error + unit" where
  "writable_check spec seen raw =
     (let domain = TrimSpace raw
      in if \<not> mountNamePattern domain
            \<or> (domain = VolumeDomainJudgePrivate \<and> studentAccessibleContainer spec)
         then Inl ErrSandboxToolCreateInvalid
         else failIf (domain \<notin> set seen) ErrSandboxToolCreateInvalid)"

definition validateComponentMountDomains :: "ComponentSpec \<Rightarrow> sandbox_error + unit" where
  "validateComponentMountDomains spec =
     bindR (foldR (mount_step spec) [] (cMountDomains spec))
       (\<lambda>seen. eachR (writable_check spec seen) (cWritableMountDomains spec))"

definition mount_good :: "ComponentSpec \<Rightarrow> string \<Rightarrow> bool" where
  "mount_good spec raw \<longleftrightarrow> mountNamePattern (TrimSpace raw) \<and> TrimSpace raw \<noteq> VolumeDomainWorkspace \<and>
     \<not> (TrimSpace raw = VolumeDomainJudgePrivate \<and> studentAccessibleContainer spec)"

interpretation mounts: checking_loop "mount_step spec" TrimSpace "mount_good spec" for spec
  by unfold_locales (auto simp: mount_step_def mount_good_def Let_def)

lemma mountDomains_accepted:
  "validateComponentMountDomains spec = Inr () \<longleftrightarrow>
     (\<forall>m \<in> set (cMountDomains spec). mount_good spec m) \<and> distinct (map TrimSpace (cMountDomains spec)) \<and>
     (\<forall>w \<in> set (cWritableMountDomains spec). TrimSpace w \<in> TrimSpace ` set (cMountDomains spec))"
  unfolding validateComponentMountDomains_def bindR_Inr mounts.loop_Inr
  by (auto simp: eachR_Inr writable_check_def mount_good_def Let_def if_Inl_Inr failIf_Inr)

subsection \<open>Environment, identity and resources\<close>

definition secret_words :: "string list" where
  "secret_words = [''SECRET'', ''TOKEN'', ''PASSWORD'', ''PRIVATE_KEY'']"

definition literal_env_check :: "EnvVarSpec \<Rightarrow> sandbox_error + unit" where
  "literal_env_check item =
     (let name = TrimSpace (envName item)
      in if \<not> envNamePattern name then Inl ErrSandboxRuntimeEnvInvalid
         else let upper = ToUpper name
              in failIf (list_ex (Contains upper) secret_words) ErrSandboxRuntimeSecretEnvInvalid)"

definition validateLiteralEnv :: "EnvVarSpec list \<Rightarrow> sandbox_error + unit" where
  "validateLiteralEnv env = eachR literal_env_check env"

definition validateContainerIdentity :: "ComponentSpec \<Rightarrow> sandbox_error + unit" where
  "validateContainerIdentity spec =
     (case (cRunAsUser spec, cRunAsGroup spec) of
        (None, None) \<Rightarrow> Inr ()
      | (Some uid, Some gid) \<Rightarrow>
          failIf ((uid \<noteq> 1000 \<and> uid \<noteq> 1001) \<or> gid \<noteq> uid) ErrSandboxContainerSpecInvalid
      | _ \<Rightarrow> Inl ErrSandboxContainerSpecInvalid)"

definition resource_map_check :: "quantities \<Rightarrow> strmap \<Rightarrow> sandbox_error + unit" where
  "resource_map_check parseQuantity resources =
     (if TrimSpace (mapGet resources ''cpu'') = [] \<or> TrimSpace (mapGet resources ''memory'') = []
      then Inl ErrSandboxContainerSpecInvalid
      else if parseQuantity (mapGet resources ''cpu'') = None then Inl ErrSandboxContainerSpecInvalid
      else failIf (parseQuantity (mapGet resources ''memory'') = None) ErrSandboxContainerSpecInvalid)"

definition validateResourceSpec :: "quantities \<Rightarrow> ResourceSpec \<Rightarrow> sandbox_error + unit" where
  "validateResourceSpec parseQuantity spec =
     (if requests spec = [] \<and> limits spec = [] then Inr ()
      else eachR (resource_map_check parseQuantity) [requests spec, limits spec])"

subsection \<open>Ports\<close>

definition normPort :: "PortSpec \<Rightarrow> PortSpec" where
  "normPort p =
     (let protocol = ToUpper (TrimSpace (portProtocol p))
      in p\<lparr>portName := TrimSpace (portName p),
           portProtocol := (if protocol = [] then ''TCP'' else protocol)\<rparr>)"

definition port_good :: "PortSpec \<Rightarrow> bool" where
  "port_good p \<longleftrightarrow> portNamePattern (portName p) \<and> 0 < containerPort p \<and> containerPort p \<le> 65535 \<and>
     0 \<le> servicePort p \<and> servicePort p \<le> 65535 \<and> (portProtocol p = ''TCP'' \<or> portProtocol p = ''UDP'')"

definition port_step :: "string list \<Rightarrow> PortSpec \<Rightarrow> sandbox_error + PortSpec \<times> string list" where
  "port_step seen p =
     (let port = normPort p
      in if \<not> portNamePattern (portName port) \<or> containerPort port \<le> 0 \<or> 65535 < containerPort port
            \<or> servicePort port < 0 \<or> 65535 < servicePort port
            \<or> (portProtocol port \<noteq> ''TCP'' \<and> portProtocol port \<noteq> ''UDP'')
         then Inl ErrSandboxContainerSpecInvalid
         else if portName port \<in> set seen then Inl ErrSandboxContainerSpecInvalid
         else Inr (port, portName port # seen))"

definition validatePortSpecs :: "PortSpec list \<Rightarrow> sandbox_error + PortSpec list" where
  "validatePortSpecs ports = bindR (mapAccR port_step [] ports) (\<lambda>(ports, seen). Inr ports)"

definition declaredPortNames :: "PortSpec list \<Rightarrow> string list" where
  "declaredPortNames ports = map portName ports"

lemma normPort_id:
  assumes "TrimSpace (portName q) = portName q" and "portProtocol q = ''TCP'' \<or> portProtocol q = ''UDP''"
  shows "normPort q = q"
proof -
  have "ToUpper (TrimSpace ''TCP'') = ''TCP''" "ToUpper (TrimSpace ''UDP'') = ''UDP''"
    by code_simp+
  then have "ToUpper (TrimSpace (portProtocol q)) = portProtocol q" "portProtocol q \<noteq> []"
    using assms(2) by auto
  then show ?thesis by (cases q) (use assms(1) in \<open>simp add: normPort_def\<close>)
qed

lemma normPort_fixed: "port_good (normPort p) \<Longrightarrow> normPort (normPort p) = normPort p"
proof (rule normPort_id)
  show "TrimSpace (portName (normPort p)) = portName (normPort p)"
    by (simp add: normPort_def Let_def)
qed (simp only: port_good_def)

interpretation port_loop: idempotent_loop port_step portName port_good normPort
proof
  show "port_step seen x = Inr (y, seen') \<longleftrightarrow>
      y = normPort x \<and> port_good y \<and> portName y \<notin> set seen \<and> seen' = portName y # seen" for seen x y seen'
    unfolding port_step_def port_good_def Let_def if_Inl_Inr not_le not_less de_Morgan_disj
      de_Morgan_conj not_not sum.inject prod.inject
    by blast
  show "port_good (normPort x) \<Longrightarrow> normPort (normPort x) = normPort x" for x
    by (rule normPort_fixed)
qed

lemma portSpecs_accepted:
  "validatePortSpecs ports = Inr ports' \<longleftrightarrow>
     ports' = map normPort ports \<and> (\<forall>p \<in> set ports'. port_good p) \<and> distinct (map portName ports')"
proof -
  have "validatePortSpecs ports = Inr ports' \<longleftrightarrow> (\<exists>seen. mapAccR port_step [] ports = Inr (ports', seen))"
    by (auto simp: validatePortSpecs_def bindR_Inr)
  then show ?thesis unfolding port_loop.loop_Inr by auto
qed

lemma portSpecs_idem: "validatePortSpecs ports = Inr ports' \<Longrightarrow> validatePortSpecs ports' = Inr ports'"
  by (auto simp: validatePortSpecs_def bindR_Inr dest: port_loop.loop_idem)

subsection \<open>Probes\<close>

definition normalizeProbe :: "SandboxConfig \<Rightarrow> ProbeSpec \<Rightarrow> ProbeSpec" where
  "normalizeProbe cfg probe =
     (let probe = (if periodSeconds probe \<le> 0
                   then probe\<lparr>periodSeconds := cfgProbeDefaultPeriodSeconds cfg\<rparr> else probe)
      in if failureThreshold probe \<le> 0
         then probe\<lparr>failureThreshold := cfgProbeDefaultFailureThreshold cfg\<rparr> else probe)"

definition validateProbeSpec :: "string list \<Rightarrow> ProbeSpec \<Rightarrow> sandbox_error + ProbeSpec" where
  "validateProbeSpec portNames probe =
     (if TrimSpace (probeType probe) = [] then Inr probe
      else let probe = probe\<lparr>probeType := ToLower (TrimSpace (probeType probe)),
                              probePort := TrimSpace (probePort probe),
                              probePath := TrimSpace (probePath probe)\<rparr>
           in if probeType probe = ''tcp''
              then (if probePort probe \<notin> set portNames then Inl ErrSandboxProbeSpecInvalid else Inr probe)
              else if probeType probe = ''http''
              then (if probePort probe \<notin> set portNames \<or> \<not> HasPrefix (probePath probe) ''/''
                    then Inl ErrSandboxProbeSpecInvalid else Inr probe)
              else if probeType probe = ''exec''
              then (if \<not> ValidNonShellCommand (probeCommand probe)
                    then Inl ErrSandboxProbeSpecInvalid else Inr probe)
              else Inl ErrSandboxProbeSpecInvalid)"

text \<open>The loop over the two probes, after both received their defaults.\<close>

definition validateProbes :: "SandboxConfig \<Rightarrow> string list \<Rightarrow> ComponentSpec \<Rightarrow> sandbox_error + ComponentSpec" where
  "validateProbes cfg portNames spec =
     bindR (validateProbeSpec portNames (normalizeProbe cfg (cReadinessProbe spec))) (\<lambda>readiness.
     bindR (validateProbeSpec portNames (normalizeProbe cfg (cLivenessProbe spec))) (\<lambda>liveness.
       Inr (spec\<lparr>cReadinessProbe := readiness, cLivenessProbe := liveness\<rparr>)))"

definition probe_ok :: "string list \<Rightarrow> ProbeSpec \<Rightarrow> bool" where
  "probe_ok portNames p \<longleftrightarrow> TrimSpace (probeType p) = [] \<or>
     probeType p = ''tcp'' \<and> probePort p \<in> set portNames \<or>
     probeType p = ''http'' \<and> probePort p \<in> set portNames \<and> HasPrefix (probePath p) ''/'' \<or>
     probeType p = ''exec'' \<and> ValidNonShellCommand (probeCommand p)"

lemma probe_accepted: "validateProbeSpec ns p = Inr p' \<Longrightarrow> probe_ok ns p'"
  unfolding validateProbeSpec_def probe_ok_def Let_def by (auto simp only: if_Inl_Inr split: if_splits)

lemma probe_type_fixed:
  "t = ''tcp'' \<or> t = ''http'' \<or> t = ''exec'' \<Longrightarrow> ToLower (TrimSpace t) = t"
proof -
  have "ToLower (TrimSpace ''tcp'') = ''tcp''" "ToLower (TrimSpace ''http'') = ''http''"
    "ToLower (TrimSpace ''exec'') = ''exec''"
    by code_simp+
  then show "t = ''tcp'' \<or> t = ''http'' \<or> t = ''exec'' \<Longrightarrow> ToLower (TrimSpace t) = t" by metis
qed

lemma normalizeProbe_idem [simp]: "normalizeProbe cfg (normalizeProbe cfg p) = normalizeProbe cfg p"
  by (cases p) (auto simp: normalizeProbe_def Let_def)

lemma probe_idem:
  assumes "validateProbeSpec ns (normalizeProbe cfg p) = Inr p'"
  shows "validateProbeSpec ns (normalizeProbe cfg p') = Inr p'"
proof (cases "TrimSpace (probeType (normalizeProbe cfg p)) = []")
  case True
  then have "p' = normalizeProbe cfg p" using assms by (simp add: validateProbeSpec_def)
  with True show ?thesis by (simp add: validateProbeSpec_def)
next
  case False
  let ?q = "normalizeProbe cfg p"
  let ?r = "?q\<lparr>probeType := ToLower (TrimSpace (probeType ?q)), probePort := TrimSpace (probePort ?q),
               probePath := TrimSpace (probePath ?q)\<rparr>"
  from assms False have r: "p' = ?r" and ok: "probe_ok ns ?r"
    and t: "probeType ?r = ''tcp'' \<or> probeType ?r = ''http'' \<or> probeType ?r = ''exec''"
    using probe_accepted [OF assms] unfolding validateProbeSpec_def Let_def
    by (auto simp only: if_False if_Inl_Inr split: if_splits)
  have tr: "ToLower (TrimSpace (probeType ?r)) = probeType ?r" by (rule probe_type_fixed [OF t])
  have n: "normalizeProbe cfg ?r = ?r"
    by (cases p) (auto simp: normalizeProbe_def Let_def)
  have same: "?r\<lparr>probeType := ToLower (TrimSpace (probeType ?r)), probePort := TrimSpace (probePort ?r),
      probePath := TrimSpace (probePath ?r)\<rparr> = ?r"
    using tr by simp
  have "validateProbeSpec ns ?r = Inr ?r"
    using ok t unfolding validateProbeSpec_def [of ns ?r] same Let_def probe_ok_def
    by (auto simp only: if_True if_False split: if_splits)
  then show ?thesis by (simp only: r n)
qed

subsection \<open>Whole containers\<close>

definition validateRuntimeContainerSpec ::
  "quantities \<Rightarrow> SandboxConfig \<Rightarrow> bool \<Rightarrow> ComponentSpec \<Rightarrow> sandbox_error + ComponentSpec" where
  "validateRuntimeContainerSpec parseQuantity cfg requirePort spec =
     (let spec = spec\<lparr>cName := TrimSpace (cName spec)\<rparr>
      in if \<not> mountNamePattern (cName spec) \<or> (requirePort \<and> cPorts spec = [])
         then Inl ErrSandboxContainerSpecInvalid
         else thenR (validateComponentMountDomains spec)
             (thenR (validateLiteralEnv (cEnv spec))
             (thenR (validateContainerIdentity spec)
             (thenR (validateResourceSpec parseQuantity (cResources spec))
             (bindR (if cPorts spec = [] then Inr [] else validatePortSpecs (cPorts spec)) (\<lambda>ports.
              bindR (validateProbes cfg (declaredPortNames ports) (spec\<lparr>cPorts := ports\<rparr>)) (\<lambda>spec.
                if cCommand spec \<noteq> [] \<and> \<not> ValidNonShellCommand (cCommand spec)
                then Inl ErrSandboxContainerSpecInvalid else Inr spec)))))))"

definition validateContainerSpec ::
  "quantities \<Rightarrow> SandboxConfig \<Rightarrow> ComponentSpec \<Rightarrow> sandbox_error + ComponentSpec" where
  "validateContainerSpec parseQuantity cfg spec =
     (let spec = spec\<lparr>cName := TrimSpace (cName spec)\<rparr>
      in if \<not> mountNamePattern (cName spec) \<or> cPorts spec = [] then Inl ErrSandboxContainerSpecInvalid
         else thenR (validateComponentMountDomains spec)
             (thenR (validateLiteralEnv (cEnv spec))
             (thenR (validateResourceSpec parseQuantity (cResources spec))
             (bindR (validatePortSpecs (cPorts spec)) (\<lambda>ports.
                validateProbes cfg (declaredPortNames ports) (spec\<lparr>cPorts := ports\<rparr>))))))"

text \<open>What an accepted container satisfies.\<close>

definition secret_free :: "EnvVarSpec \<Rightarrow> bool" where
  "secret_free e \<longleftrightarrow> envNamePattern (TrimSpace (envName e)) \<and>
     (\<forall>w \<in> set secret_words. \<not> Contains (ToUpper (TrimSpace (envName e))) w)"

definition resources_ok :: "quantities \<Rightarrow> ResourceSpec \<Rightarrow> bool" where
  "resources_ok parseQuantity r \<longleftrightarrow> requests r = [] \<and> limits r = [] \<or>
     (\<forall>m \<in> {requests r, limits r}. \<forall>k \<in> {''cpu'', ''memory''}. parseQuantity (mapGet m k) \<noteq> None)"

definition container_wf :: "quantities \<Rightarrow> ComponentSpec \<Rightarrow> bool" where
  "container_wf parseQuantity c \<longleftrightarrow> mountNamePattern (cName c) \<and>
     validateComponentMountDomains c = Inr () \<and>
     (\<forall>e \<in> set (cEnv c). secret_free e) \<and>
     resources_ok parseQuantity (cResources c) \<and>
     (\<forall>p \<in> set (cPorts c). port_good p) \<and> distinct (map portName (cPorts c)) \<and>
     probe_ok (map portName (cPorts c)) (cReadinessProbe c) \<and>
     probe_ok (map portName (cPorts c)) (cLivenessProbe c)"

definition unprivileged :: "ComponentSpec \<Rightarrow> bool" where
  "unprivileged c \<longleftrightarrow> cRunAsUser c = cRunAsGroup c \<and> cRunAsUser c \<in> {None, Some 1000, Some 1001}"

lemma literalEnv_accepted: "validateLiteralEnv env = Inr () \<longleftrightarrow> (\<forall>e \<in> set env. secret_free e)"
  unfolding validateLiteralEnv_def eachR_Inr literal_env_check_def Let_def if_Inl_Inr failIf_Inr
    secret_free_def list_ex_iff by blast

lemma resource_map_accepted:
  "resource_map_check pq m = Inr () \<longleftrightarrow>
     (\<forall>k \<in> {''cpu'', ''memory''}. TrimSpace (mapGet m k) \<noteq> [] \<and> pq (mapGet m k) \<noteq> None)"
  unfolding resource_map_check_def if_Inl_Inr failIf_Inr by blast

lemma resourceSpec_accepted: "validateResourceSpec pq r = Inr () \<Longrightarrow> resources_ok pq r"
  by (auto simp: validateResourceSpec_def eachR_Inr resource_map_accepted resources_ok_def
      thenR_Inr split: if_splits)

lemma identity_accepted: "validateContainerIdentity c = Inr () \<longleftrightarrow> unprivileged c"
  by (auto simp: validateContainerIdentity_def unprivileged_def failIf_Inr split: option.splits)

lemma mount_check_same:
  "cMountDomains d = cMountDomains c \<Longrightarrow> cWritableMountDomains d = cWritableMountDomains c \<Longrightarrow>
     cLabels d = cLabels c \<Longrightarrow>
     validateComponentMountDomains d = Inr () \<longleftrightarrow> validateComponentMountDomains c = Inr ()"
  by (simp add: mountDomains_accepted mount_good_def studentAccessibleContainer_def)

lemma validateProbes_Inr:
  "validateProbes cfg ns c = Inr c' \<longleftrightarrow>
     (\<exists>r l. validateProbeSpec ns (normalizeProbe cfg (cReadinessProbe c)) = Inr r \<and>
            validateProbeSpec ns (normalizeProbe cfg (cLivenessProbe c)) = Inr l \<and>
            c' = c\<lparr>cReadinessProbe := r, cLivenessProbe := l\<rparr>)"
  by (auto simp: validateProbes_def bindR_Inr)

lemma runtimeContainer_accepted:
  "validateRuntimeContainerSpec pq cfg requirePort c = Inr c' \<longleftrightarrow>
     mountNamePattern (TrimSpace (cName c)) \<and> \<not> (requirePort \<and> cPorts c = []) \<and>
     validateComponentMountDomains c = Inr () \<and> validateLiteralEnv (cEnv c) = Inr () \<and>
     validateContainerIdentity c = Inr () \<and> validateResourceSpec pq (cResources c) = Inr () \<and>
     (cCommand c = [] \<or> ValidNonShellCommand (cCommand c)) \<and>
     (\<exists>ports r l. validatePortSpecs (cPorts c) = Inr ports \<and>
        validateProbeSpec (declaredPortNames ports) (normalizeProbe cfg (cReadinessProbe c)) = Inr r \<and>
        validateProbeSpec (declaredPortNames ports) (normalizeProbe cfg (cLivenessProbe c)) = Inr l \<and>
        c' = c\<lparr>cName := TrimSpace (cName c), cPorts := ports, cReadinessProbe := r, cLivenessProbe := l\<rparr>)"
proof -
  have ports: "(if ps = [] then Inr [] else validatePortSpecs ps) = validatePortSpecs ps" for ps
    by (simp add: validatePortSpecs_def)
  have m: "validateComponentMountDomains (c\<lparr>cName := n\<rparr>) = Inr () \<longleftrightarrow> validateComponentMountDomains c = Inr ()" for n
    by (rule mount_check_same) simp_all
  have i: "validateContainerIdentity (c\<lparr>cName := n\<rparr>) = validateContainerIdentity c" for n
    by (simp add: validateContainerIdentity_def)
  show ?thesis
    unfolding validateRuntimeContainerSpec_def Let_def if_Inl_Inr thenR_Inr bindR_Inr ports m i
    by (auto simp: validateProbes_Inr ports)
qed

lemma containerSpec_accepted:
  "validateContainerSpec pq cfg c = Inr c' \<longleftrightarrow>
     mountNamePattern (TrimSpace (cName c)) \<and> cPorts c \<noteq> [] \<and>
     validateComponentMountDomains c = Inr () \<and> validateLiteralEnv (cEnv c) = Inr () \<and>
     validateResourceSpec pq (cResources c) = Inr () \<and>
     (\<exists>ports r l. validatePortSpecs (cPorts c) = Inr ports \<and>
        validateProbeSpec (declaredPortNames ports) (normalizeProbe cfg (cReadinessProbe c)) = Inr r \<and>
        validateProbeSpec (declaredPortNames ports) (normalizeProbe cfg (cLivenessProbe c)) = Inr l \<and>
        c' = c\<lparr>cName := TrimSpace (cName c), cPorts := ports, cReadinessProbe := r, cLivenessProbe := l\<rparr>)"
proof -
  have m: "validateComponentMountDomains (c\<lparr>cName := n\<rparr>) = Inr () \<longleftrightarrow> validateComponentMountDomains c = Inr ()" for n
    by (rule mount_check_same) simp_all
  show ?thesis
    unfolding validateContainerSpec_def Let_def if_Inl_Inr thenR_Inr bindR_Inr m
    by (auto simp: validateProbes_Inr)
qed

text \<open>The rest of an accepted container is well-formed: shared by both kinds of container.\<close>

lemma container_wfI:
  assumes "mountNamePattern (TrimSpace (cName c))" and "validateComponentMountDomains c = Inr ()"
    and "validateLiteralEnv (cEnv c) = Inr ()" and "validateResourceSpec pq (cResources c) = Inr ()"
    and p: "validatePortSpecs (cPorts c) = Inr ports"
    and r: "validateProbeSpec (declaredPortNames ports) (normalizeProbe cfg (cReadinessProbe c)) = Inr r"
    and l: "validateProbeSpec (declaredPortNames ports) (normalizeProbe cfg (cLivenessProbe c)) = Inr l"
    and c': "c' = c\<lparr>cName := TrimSpace (cName c), cPorts := ports, cReadinessProbe := r, cLivenessProbe := l\<rparr>"
  shows "container_wf pq c'"
proof -
  have "validateComponentMountDomains c' = Inr ()"
    using assms(2) mount_check_same [of c' c] by (simp add: c')
  moreover have "(\<forall>p \<in> set ports. port_good p) \<and> distinct (map portName ports)"
    using p unfolding portSpecs_accepted by blast
  ultimately show ?thesis
    using assms(1,3) probe_accepted [OF r] probe_accepted [OF l] resourceSpec_accepted [OF assms(4)]
    by (simp add: container_wf_def c' literalEnv_accepted declaredPortNames_def)
qed

lemma runtimeContainer_same_mounts:
  "validateRuntimeContainerSpec pq cfg requirePort c = Inr c' \<Longrightarrow>
     cName c' = TrimSpace (cName c) \<and> cMountDomains c' = cMountDomains c \<and>
     cWritableMountDomains c' = cWritableMountDomains c \<and> cLabels c' = cLabels c \<and>
     cImageURL c' = cImageURL c \<and> cResources c' = cResources c"
  by (auto simp: runtimeContainer_accepted)

text \<open>
  An accepted runtime container or sidecar is safe to start: it has a DNS-style name and valid,
  uniquely named ports, its probes only refer to its own ports or run a command that is no shell, no
  environment variable carries a secret in clear text, its identity is one of the two unprivileged
  accounts, its own command is no shell, every writable mount is mounted, the student workspace is not mounted as a domain, and a container students can enter does not mount the private judge
  domain.
\<close>

theorem runtimeContainer_secure:
  assumes "validateRuntimeContainerSpec pq cfg requirePort c = Inr c'"
  shows "container_wf pq c' \<and> unprivileged c' \<and> (requirePort \<longrightarrow> cPorts c' \<noteq> []) \<and>
    (cCommand c' = [] \<or> ValidNonShellCommand (cCommand c')) \<and>
    (\<forall>w \<in> set (cWritableMountDomains c'). TrimSpace w \<in> TrimSpace ` set (cMountDomains c')) \<and>
    (\<forall>m \<in> set (cMountDomains c'). TrimSpace m \<noteq> VolumeDomainWorkspace) \<and>
    (studentAccessibleContainer c' \<longrightarrow> VolumeDomainJudgePrivate \<notin> TrimSpace ` set (cMountDomains c'))"
proof -
  from assms obtain ports r l where acc:
    "mountNamePattern (TrimSpace (cName c))" "\<not> (requirePort \<and> cPorts c = [])"
    "validateComponentMountDomains c = Inr ()" "validateLiteralEnv (cEnv c) = Inr ()"
    "validateContainerIdentity c = Inr ()" "validateResourceSpec pq (cResources c) = Inr ()"
    "cCommand c = [] \<or> ValidNonShellCommand (cCommand c)"
    and p: "validatePortSpecs (cPorts c) = Inr ports"
    and pr: "validateProbeSpec (declaredPortNames ports) (normalizeProbe cfg (cReadinessProbe c)) = Inr r"
      "validateProbeSpec (declaredPortNames ports) (normalizeProbe cfg (cLivenessProbe c)) = Inr l"
    and c': "c' = c\<lparr>cName := TrimSpace (cName c), cPorts := ports, cReadinessProbe := r, cLivenessProbe := l\<rparr>"
    by (auto simp: runtimeContainer_accepted)
  have wf: "container_wf pq c'" by (rule container_wfI [OF acc(1,3,4,6) p pr c'])
  then have "validateComponentMountDomains c' = Inr ()" by (simp add: container_wf_def)
  then have m: "\<forall>m \<in> set (cMountDomains c'). mount_good c' m"
    "\<forall>w \<in> set (cWritableMountDomains c'). TrimSpace w \<in> TrimSpace ` set (cMountDomains c')"
    by (simp_all add: mountDomains_accepted)
  have "unprivileged c'" using acc(5) by (auto simp: identity_accepted unprivileged_def c')
  moreover have "requirePort \<longrightarrow> cPorts c' \<noteq> []" using acc(2) p by (auto simp: c' portSpecs_accepted)
  moreover have "cCommand c' = [] \<or> ValidNonShellCommand (cCommand c')" using acc(7) by (simp add: c')
  moreover have "VolumeDomainJudgePrivate \<notin> TrimSpace ` set (cMountDomains c')"
    if "studentAccessibleContainer c'"
    using m(1) that by (auto simp: mount_good_def)
  moreover have "\<forall>m \<in> set (cMountDomains c'). TrimSpace m \<noteq> VolumeDomainWorkspace"
    using m(1) by (simp add: mount_good_def)
  ultimately show ?thesis using wf m(2) by blast
qed

text \<open>
  Concrete parameters for the instances below: a quantity parser for plain decimal integers, and a
  configuration with one attested image.
\<close>

definition decimalQuantity :: quantities where
  "decimalQuantity q =
     (if q \<noteq> [] \<and> list_all is_digit q
      then (let n = foldl (\<lambda>n c. 10 * n + int (of_char c) - 48) 0 q
            in Some \<lparr>MilliValue = 1000 * n, QuantityValue = n\<rparr>)
      else None)"

definition sampleImage :: string where
  "sampleImage = ''registry.local/node@sha256:0123''"

definition sampleConfig :: SandboxConfig where
  "sampleConfig = \<lparr>cfgImageRegistry = ''https://registry.local'',
     cfgPlatformImageAttestations = [\<lparr>piImageURL = sampleImage, piDigest = ''sha256:0123'',
       piTrivyStatus = ''passed'', piCosignVerified = True\<rparr>],
     cfgDefaultCPU = ''1'', cfgDefaultMemory = ''512'', cfgDefaultReqCPU = ''1'',
     cfgDefaultReqMemory = ''256'', cfgMaxCPU = ''8'', cfgMaxMemory = ''4096'', cfgMaxPods = ''10'',
     cfgChainRPCTimeoutSeconds = 30, cfgProbeDefaultPeriodSeconds = 5,
     cfgProbeDefaultFailureThreshold = 3\<rparr>"

definition sampleRuntimeContainer :: ComponentSpec where
  "sampleRuntimeContainer = zeroComponent\<lparr>cName := ''node '', cCommand := [''/usr/bin/geth'', ''--dev''],
     cEnv := [\<lparr>envName = ''CHAIN_ID'', envValue = ''1337''\<rparr>],
     cPorts := [\<lparr>portName = ''rpc'', containerPort = 8545, servicePort = 8545, portProtocol = ''tcp''\<rparr>],
     cResources := \<lparr>requests = [(''cpu'', ''1''), (''memory'', ''256'')],
                     limits = [(''cpu'', ''2''), (''memory'', ''512'')]\<rparr>,
     cReadinessProbe := zeroProbe\<lparr>probeType := ''TCP'', probePort := ''rpc''\<rparr>,
     cMountDomains := [''judge-private''], cRunAsUser := Some 1000, cRunAsGroup := Some 1000\<rparr>"

definition sampleRuntimeAccepted :: ComponentSpec where
  "sampleRuntimeAccepted = sampleRuntimeContainer\<lparr>cName := ''node'',
     cPorts := [\<lparr>portName = ''rpc'', containerPort = 8545, servicePort = 8545, portProtocol = ''TCP''\<rparr>],
     cReadinessProbe := \<lparr>probeType = ''tcp'', probePath = [], probePort = ''rpc'', probeCommand = [],
       periodSeconds = 5, failureThreshold = 3\<rparr>,
     cLivenessProbe := zeroProbe\<lparr>periodSeconds := 5, failureThreshold := 3\<rparr>\<rparr>"

theorem runtimeContainer_secure_witness:
  "validateRuntimeContainerSpec decimalQuantity sampleConfig True sampleRuntimeContainer
     = Inr sampleRuntimeAccepted \<and> unprivileged sampleRuntimeAccepted"
proof -
  have "validateRuntimeContainerSpec decimalQuantity sampleConfig True sampleRuntimeContainer
      = Inr sampleRuntimeAccepted"
    by code_simp
  with runtimeContainer_secure [OF this] show ?thesis by blast
qed

text \<open>
  Validation is a normal form: validating an accepted runtime container again accepts it
  unchanged.
\<close>

theorem runtimeContainer_idempotent:
  assumes "validateRuntimeContainerSpec pq cfg requirePort c = Inr c'"
  shows "validateRuntimeContainerSpec pq cfg requirePort c' = Inr c'"
proof -
  from assms obtain ports r l where acc:
    "mountNamePattern (TrimSpace (cName c))" "\<not> (requirePort \<and> cPorts c = [])"
    "validateComponentMountDomains c = Inr ()" "validateLiteralEnv (cEnv c) = Inr ()"
    "validateContainerIdentity c = Inr ()" "validateResourceSpec pq (cResources c) = Inr ()"
    "cCommand c = [] \<or> ValidNonShellCommand (cCommand c)"
    and p: "validatePortSpecs (cPorts c) = Inr ports"
    and pr: "validateProbeSpec (declaredPortNames ports) (normalizeProbe cfg (cReadinessProbe c)) = Inr r"
      "validateProbeSpec (declaredPortNames ports) (normalizeProbe cfg (cLivenessProbe c)) = Inr l"
    and c': "c' = c\<lparr>cName := TrimSpace (cName c), cPorts := ports, cReadinessProbe := r, cLivenessProbe := l\<rparr>"
    by (auto simp: runtimeContainer_accepted)
  have "validateComponentMountDomains c' = Inr ()"
    using acc(3) mount_check_same [of c' c] by (simp add: c')
  moreover have "validateContainerIdentity c' = Inr ()"
    using acc(5) by (auto simp: identity_accepted unprivileged_def c')
  moreover have "requirePort \<longrightarrow> ports \<noteq> []"
    using acc(2) p by (auto simp: portSpecs_accepted)
  ultimately show ?thesis
    using acc(1,4,6,7) portSpecs_idem [OF p] probe_idem [OF pr(1)] probe_idem [OF pr(2)]
    by (simp add: runtimeContainer_accepted c')
qed

theorem runtimeContainer_idempotent_witness:
  "validateRuntimeContainerSpec decimalQuantity sampleConfig True sampleRuntimeAccepted
     = Inr sampleRuntimeAccepted"
proof (rule runtimeContainer_idempotent)
  show "validateRuntimeContainerSpec decimalQuantity sampleConfig True sampleRuntimeContainer
      = Inr sampleRuntimeAccepted"
    by code_simp
qed

end
