(* ===== verification/SandboxImages.thy ===== *)
theory SandboxImages
  imports SandboxContainers
begin

section \<open>Sandbox engine: image admission and private sidecars\<close>

text \<open>
  Which images a sandbox may start (\<open>rules.go\<close>): references pinned by digest, below the
  platform's registry and on the configured list of attested images; the containers of a runtime
  that may be referred to; the private sidecars of the judge. \<open>podContainerImage\<close> and
  \<open>initContainerImage\<close> are the image choice of \<open>podFromSpec\<close>
  (\<open>service_k8s_orchestrator.go\<close>).
\<close>

definition digestFromImageURL :: "string \<Rightarrow> string" where
  "digestFromImageURL imageURL =
     (let parts = Split (TrimSpace imageURL) (CHR ''@'')
      in if length parts \<noteq> 2 \<or> \<not> HasPrefix (parts ! 1) ''sha256:'' then [] else parts ! 1)"

definition stripScheme :: "string \<Rightarrow> string" where
  "stripScheme s = TrimSpace (TrimPrefix (TrimPrefix s ''https://'') ''http://'')"

definition imageUnderRegistry :: "string \<Rightarrow> string \<Rightarrow> bool" where
  "imageUnderRegistry imageURL registry =
     (let registry = stripScheme registry; imageURL = stripScheme imageURL
      in registry \<noteq> [] \<and> HasPrefix imageURL (registry @ ''/''))"

definition imageAttested :: "SandboxConfig \<Rightarrow> string \<Rightarrow> string \<Rightarrow> bool" where
  "imageAttested cfg imageURL digest =
     (let imageURL = TrimSpace imageURL; digest = TrimSpace digest
      in if \<not> imageUnderRegistry imageURL (cfgImageRegistry cfg) \<or> digestFromImageURL imageURL \<noteq> digest
         then False
         else list_ex (\<lambda>item. piImageURL item = imageURL \<and> piDigest item = digest \<and>
                piCosignVerified item \<and> EqualFold (piTrivyStatus item) ''passed'')
                (cfgPlatformImageAttestations cfg))"

definition imageRefAttested :: "SandboxConfig \<Rightarrow> string \<Rightarrow> bool" where
  "imageRefAttested cfg imageURL =
     (let imageURL = TrimSpace imageURL; digest = digestFromImageURL imageURL
      in imageURL \<noteq> [] \<and> digest \<noteq> [] \<and> imageAttested cfg imageURL digest)"

definition validateInfraSidecarImage :: "SandboxConfig \<Rightarrow> ComponentSpec \<Rightarrow> sandbox_error + unit" where
  "validateInfraSidecarImage cfg spec =
     failIf (\<not> imageRefAttested cfg (cImageURL spec)) ErrSandboxSidecarImageInvalid"

text \<open>What admission of an image reference means.\<close>

definition admitted_image :: "SandboxConfig \<Rightarrow> string \<Rightarrow> bool" where
  "admitted_image cfg url \<longleftrightarrow>
     (\<exists>item \<in> set (cfgPlatformImageAttestations cfg). piImageURL item = TrimSpace url \<and>
        piCosignVerified item \<and> EqualFold (piTrivyStatus item) ''passed'' \<and>
        HasPrefix (piDigest item) ''sha256:'' \<and>
        Split (TrimSpace url) (CHR ''@'') = [hd (Split (TrimSpace url) (CHR ''@'')), piDigest item] \<and>
        imageUnderRegistry (TrimSpace url) (cfgImageRegistry cfg))"

lemma digest_shape:
  "digestFromImageURL url = d \<Longrightarrow> d \<noteq> [] \<Longrightarrow>
     HasPrefix d ''sha256:'' \<and> Split (TrimSpace url) (CHR ''@'') = [hd (Split (TrimSpace url) (CHR ''@'')), d]"
  unfolding digestFromImageURL_def Let_def
  by (auto simp: length_Suc_conv numeral_2_eq_2 split: if_splits)

lemma trim_digest:
  "HasPrefix d ''sha256:'' \<Longrightarrow> Split (TrimSpace url) c = [h, d] \<Longrightarrow> digestFromImageURL url = d \<Longrightarrow>
     digestFromImageURL (TrimSpace url) = d"
  by (simp add: digestFromImageURL_def)

lemma imageRefAttested_admitted: "imageRefAttested cfg url \<Longrightarrow> admitted_image cfg url"
proof -
  let ?u = "TrimSpace url" and ?d = "digestFromImageURL (TrimSpace url)"
  assume a: "imageRefAttested cfg url"
  then have d: "?d \<noteq> []" and under: "imageUnderRegistry ?u (cfgImageRegistry cfg)"
    and same: "?d = TrimSpace ?d" and
    item: "\<exists>item \<in> set (cfgPlatformImageAttestations cfg). piImageURL item = ?u \<and>
        piDigest item = TrimSpace ?d \<and> piCosignVerified item \<and> EqualFold (piTrivyStatus item) ''passed''"
    unfolding imageRefAttested_def imageAttested_def Let_def
    by (simp_all add: list_ex_iff split: if_splits)
  then show ?thesis
    using digest_shape [OF refl d] unfolding admitted_image_def by (metis TrimSpace_idem)
qed

subsection \<open>Declared and referenced containers\<close>

definition declaredContainerMap :: "AdapterSpec \<Rightarrow> string \<Rightarrow> ComponentSpec option" where
  "declaredContainerMap spec =
     by_key cName (asRuntimeContainer spec # asInfraSidecars spec)"

definition podContainerIsReferenceOnly :: "ComponentSpec \<Rightarrow> bool" where
  "podContainerIsReferenceOnly spec \<longleftrightarrow>
     cName spec \<noteq> [] \<and> TrimSpace (cImageURL spec) = [] \<and> cCommand spec = [] \<and> cArgs spec = [] \<and>
     cEnv spec = [] \<and> cPorts spec = [] \<and> requests (cResources spec) = [] \<and> limits (cResources spec) = [] \<and>
     TrimSpace (probeType (cReadinessProbe spec)) = [] \<and> TrimSpace (probeType (cLivenessProbe spec)) = [] \<and>
     TrimSpace (cWorkdir spec) = [] \<and> cReadOnlyRootFilesystem spec = None \<and> cLabels spec = [] \<and>
     cMountWorkspace spec = None \<and> cMountDomains spec = [] \<and> cEphemeralMounts spec = [] \<and>
     cRunAsUser spec = None \<and> cRunAsGroup spec = None"

lemma declaredContainerMap_dom:
  "dom (declaredContainerMap spec) = cName ` (insert (asRuntimeContainer spec) (set (asInfraSidecars spec)))"
  by (simp add: declaredContainerMap_def by_key_dom)

lemma declaredContainerMap_name:
  "declaredContainerMap spec n = Some c \<Longrightarrow>
     cName c = n \<and> c \<in> insert (asRuntimeContainer spec) (set (asInfraSidecars spec))"
  by (auto simp: declaredContainerMap_def dest: by_key_Some)

subsection \<open>Private sidecars\<close>

text \<open>
  The local map \<open>seen\<close> starts with the declared containers and collects the accepted items; only
  its keys are read, so it is the list of its values.
\<close>

definition private_step ::
  "quantities \<Rightarrow> SandboxConfig \<Rightarrow> ComponentSpec list \<Rightarrow> ComponentSpec \<Rightarrow>
     sandbox_error + ComponentSpec \<times> ComponentSpec list" where
  "private_step parseQuantity cfg seen item =
     bindR (validateRuntimeContainerSpec parseQuantity cfg False item) (\<lambda>item.
       if studentAccessibleContainer item then Inl ErrSandboxPrivateDomainInvalid
       else if list_ex (\<lambda>raw. TrimSpace raw \<noteq> VolumeDomainJudgePrivate) (cMountDomains item)
       then Inl ErrSandboxPrivateDomainInvalid
       else if cWritableMountDomains item \<noteq> [] then Inl ErrSandboxPrivateDomainInvalid
       else if cName item \<in> set (map cName seen) then Inl ErrSandboxContainerSpecInvalid
       else thenR (validateInfraSidecarImage cfg item) (Inr (item, item # seen)))"

definition validatePrivateSidecars ::
  "quantities \<Rightarrow> SandboxConfig \<Rightarrow> AdapterSpec \<Rightarrow> ComponentSpec list \<Rightarrow> sandbox_error + ComponentSpec list" where
  "validatePrivateSidecars parseQuantity cfg adapter items =
     bindR (mapAccR (private_step parseQuantity cfg) (asRuntimeContainer adapter # asInfraSidecars adapter) items)
       (\<lambda>(items, seen). Inr items)"

definition private_good :: "quantities \<Rightarrow> SandboxConfig \<Rightarrow> ComponentSpec \<Rightarrow> bool" where
  "private_good parseQuantity cfg c \<longleftrightarrow> container_wf parseQuantity c \<and> unprivileged c \<and>
     \<not> studentAccessibleContainer c \<and> (\<forall>m \<in> set (cMountDomains c). TrimSpace m = VolumeDomainJudgePrivate) \<and>
     cWritableMountDomains c = [] \<and> admitted_image cfg (cImageURL c)"

definition accepted_form :: "quantities \<Rightarrow> SandboxConfig \<Rightarrow> ComponentSpec \<Rightarrow> ComponentSpec" where
  "accepted_form parseQuantity cfg c =
     (case validateRuntimeContainerSpec parseQuantity cfg False c of Inl _ \<Rightarrow> c | Inr c' \<Rightarrow> c')"

lemma container_checked:
  assumes "validateRuntimeContainerSpec pq cfg requirePort c = Inr c'"
  shows "container_wf pq c' \<and> unprivileged c'"
proof -
  from assms obtain ports r l where
    "mountNamePattern (TrimSpace (cName c))" "validateComponentMountDomains c = Inr ()"
    "validateLiteralEnv (cEnv c) = Inr ()" "validateResourceSpec pq (cResources c) = Inr ()"
    "validatePortSpecs (cPorts c) = Inr ports"
    "validateProbeSpec (declaredPortNames ports) (normalizeProbe cfg (cReadinessProbe c)) = Inr r"
    "validateProbeSpec (declaredPortNames ports) (normalizeProbe cfg (cLivenessProbe c)) = Inr l"
    "c' = c\<lparr>cName := TrimSpace (cName c), cPorts := ports, cReadinessProbe := r, cLivenessProbe := l\<rparr>"
    and i: "validateContainerIdentity c = Inr ()"
    by (auto simp: runtimeContainer_accepted)
  then have "container_wf pq c'" and e: "cRunAsUser c' = cRunAsUser c" "cRunAsGroup c' = cRunAsGroup c"
    by (auto intro: container_wfI)
  then show ?thesis using i unfolding identity_accepted unprivileged_def by metis
qed

interpretation private_loop: pairwise_loop "private_step pq cfg" "accepted_form pq cfg"
  "private_good pq cfg" "\<lambda>a b. cName a \<noteq> cName b" for pq cfg
proof
  fix seen x y seen'
  assume "private_step pq cfg seen x = Inr (y, seen')"
  then have v: "validateRuntimeContainerSpec pq cfg False x = Inr y" and s: "seen' = y # seen"
    and checks: "\<not> studentAccessibleContainer y"
      "\<not> list_ex (\<lambda>raw. TrimSpace raw \<noteq> VolumeDomainJudgePrivate) (cMountDomains y)"
      "cWritableMountDomains y = []" "cName y \<notin> set (map cName seen)"
      "validateInfraSidecarImage cfg y = Inr ()"
    unfolding private_step_def bindR_Inr if_Inl_Inr thenR_Inr by auto
  have "imageRefAttested cfg (cImageURL y)"
    using checks(5) by (simp add: validateInfraSidecarImage_def failIf_Inr)
  then have "private_good pq cfg y"
    using container_checked [OF v] checks imageRefAttested_admitted
    unfolding private_good_def list_ex_iff by blast
  then show "y = accepted_form pq cfg x \<and> private_good pq cfg y \<and> (\<forall>z \<in> set seen. cName z \<noteq> cName y)
      \<and> seen' = y # seen"
    using checks(4) by (auto simp: s accepted_form_def v) (metis image_eqI)
qed

lemma privateSidecars_loop:
  "validatePrivateSidecars pq cfg adapter items = Inr items' \<longleftrightarrow>
     (\<exists>seen. mapAccR (private_step pq cfg) (asRuntimeContainer adapter # asInfraSidecars adapter) items
        = Inr (items', seen))"
  by (auto simp: validatePrivateSidecars_def bindR_Inr)


definition sampleSidecar :: ComponentSpec where
  "sampleSidecar = zeroComponent\<lparr>cName := ''judge-runner'', cImageURL := sampleImage,
     cMountDomains := [''judge-private'']\<rparr>"


subsection \<open>Admission of every image of a plan\<close>

definition podContainerImage :: "AdapterSpec \<Rightarrow> RuntimeImage \<Rightarrow> ComponentSpec \<Rightarrow> string" where
  "podContainerImage adapter img container =
     (if cName container = cName (asRuntimeContainer adapter) \<and> cImageURL container = []
      then riImageURL img else cImageURL container)"

definition plan_image_check :: "SandboxConfig \<Rightarrow> ComponentSpec \<Rightarrow> sandbox_error + unit" where
  "plan_image_check cfg component =
     failIf (\<not> imageRefAttested cfg (cImageURL component)) ErrSandboxImageAttestationInvalid"

definition plan_pod_check :: "SandboxConfig \<Rightarrow> AdapterSpec \<Rightarrow> ComponentSpec \<Rightarrow> sandbox_error + unit" where
  "plan_pod_check cfg adapter component =
     (if cImageURL component = [] \<or> cName component = cName (asRuntimeContainer adapter) then Inr ()
      else validateInfraSidecarImage cfg component)"

definition validatePlanImagesCurrentlyAdmitted ::
  "SandboxConfig \<Rightarrow> Runtime \<Rightarrow> RuntimeImage \<Rightarrow> Tool list \<Rightarrow> ComponentSpec list \<Rightarrow> sandbox_error + unit" where
  "validatePlanImagesCurrentlyAdmitted cfg runtime img tools privateSidecars =
     thenR (failIf (\<not> imageRefAttested cfg (riImageURL img)) ErrSandboxImageAttestationInvalid)
    (thenR (eachR (validateInfraSidecarImage cfg) (asInfraSidecars (rtAdapterSpec runtime)))
    (thenR (eachR (\<lambda>pod. eachR (plan_pod_check cfg (rtAdapterSpec runtime)) (podContainers pod))
              (asPods (rtAdapterSpec runtime)))
    (thenR (eachR (\<lambda>tool. eachR (plan_image_check cfg) (trComponents (toolResourceSpec tool))) tools)
    (eachR (plan_image_check cfg) privateSidecars))))"

text \<open>
  Admission before a start covers the images of a plan: when the check passes, the image of the
  runtime version, of every sidecar, tool component and private sidecar, and the image chosen for
  every pod container, are pinned, attested and below the platform's registry; the main container
  is covered when it does not bring an image reference of its own.
\<close>

theorem plan_images_admitted:
  assumes "validatePlanImagesCurrentlyAdmitted cfg runtime img tools privateSidecars = Inr ()"
  shows "admitted_image cfg (riImageURL img) \<and>
    (\<forall>c \<in> set (asInfraSidecars (rtAdapterSpec runtime)). admitted_image cfg (cImageURL c)) \<and>
    (\<forall>pod \<in> set (asPods (rtAdapterSpec runtime)). \<forall>c \<in> set (podContainers pod).
       podContainerImage (rtAdapterSpec runtime) img c \<noteq> [] \<and>
       (cName c = cName (asRuntimeContainer (rtAdapterSpec runtime)) \<longrightarrow> cImageURL c = []) \<longrightarrow>
       admitted_image cfg (podContainerImage (rtAdapterSpec runtime) img c)) \<and>
    (\<forall>tool \<in> set tools. \<forall>c \<in> set (trComponents (toolResourceSpec tool)). admitted_image cfg (cImageURL c)) \<and>
    (\<forall>c \<in> set privateSidecars. admitted_image cfg (cImageURL c))"
  using assms
  unfolding validatePlanImagesCurrentlyAdmitted_def thenR_Inr eachR_Inr failIf_Inr not_not
    validateInfraSidecarImage_def podContainerImage_def plan_image_check_def plan_pod_check_def
  by (auto intro: imageRefAttested_admitted simp: failIf_Inr split: if_splits)

definition sampleRuntime :: Runtime where
  "sampleRuntime = \<lparr>rtID = 1, rtCode = ''evm'', rtName = ''EVM'', rtEco = ''evm'', rtAdapterLevel = 1,
     rtAdapterSpec = zeroAdapter\<lparr>asRuntimeContainer := sampleRuntimeAccepted,
       asInfraSidecars := [sampleSidecar]\<rparr>,
     rtCapabilityImpl = [], rtPluginRef = [], rtSelftestStatus = 1, rtSelftestDetail = [], rtStatus = RuntimeStatusAvailable\<rparr>"

definition sampleVersion :: RuntimeImage where
  "sampleVersion = \<lparr>riID = 1, riRuntimeID = 1, riImageURL = sampleImage, riVersion = ''1'',
     riStatus = 1, riGenesisBaked = True\<rparr>"

theorem plan_images_admitted_witness:
  "admitted_image sampleConfig (riImageURL sampleVersion) \<and> admitted_image sampleConfig (cImageURL sampleSidecar)"
proof -
  have "validatePlanImagesCurrentlyAdmitted sampleConfig sampleRuntime sampleVersion [] [sampleSidecar] = Inr ()"
    by code_simp
  from plan_images_admitted [OF this] show ?thesis by simp
qed

text \<open>
  The main container's own reference is outside: a plan passes whose main container starts another,
  unattested image.
\<close>

lemma own_image_not_checked:
  "validatePlanImagesCurrentlyAdmitted sampleConfig
     (sampleRuntime\<lparr>rtAdapterSpec := (rtAdapterSpec sampleRuntime)
        \<lparr>asRuntimeContainer := sampleRuntimeAccepted\<lparr>cImageURL := ''docker.io/x''\<rparr>,
         asPods := [\<lparr>podName = ''main'', podLabels = [], podInitContainers = [],
           podContainers = [sampleRuntimeAccepted\<lparr>cImageURL := ''docker.io/x''\<rparr>]\<rparr>]\<rparr>\<rparr>)
     sampleVersion [] [] = Inr () \<and>
   podContainerImage (zeroAdapter\<lparr>asRuntimeContainer := sampleRuntimeAccepted\<lparr>cImageURL := ''docker.io/x''\<rparr>\<rparr>)
     sampleVersion (sampleRuntimeAccepted\<lparr>cImageURL := ''docker.io/x''\<rparr>) = ''docker.io/x'' \<and>
   \<not> imageRefAttested sampleConfig ''docker.io/x''"
  by code_simp

end
