(* ===== verification/SandboxTopology.thy ===== *)
theory SandboxTopology
  imports SandboxImages
begin

section \<open>Sandbox engine: pods, ports and network rules\<close>

text \<open>
  The pods an adapter describes (explicit groups that refer to declared containers, or one pod with
  all of them), their port tables and the network rules between them (\<open>rules.go\<close>).
  \<open>podTopologyForAdapter\<close> also writes the resolved definitions into the shared \<open>Containers\<close>
  arrays; the model returns the resolved pods, which are what its callers read.
\<close>

subsection \<open>Topology\<close>

definition resolve_container :: "(string \<Rightarrow> ComponentSpec option) \<Rightarrow> ComponentSpec \<Rightarrow> ComponentSpec" where
  "resolve_container declared container =
     (case declared (cName container) of
        None \<Rightarrow> container
      | Some def \<Rightarrow> (if podContainerIsReferenceOnly container then def else container))"

definition has_container :: "string \<Rightarrow> PodSpec \<Rightarrow> bool" where
  "has_container name pod = list_ex (\<lambda>container. cName container = name) (podContainers pod)"

fun append_to_first :: "(PodSpec \<Rightarrow> bool) \<Rightarrow> ComponentSpec \<Rightarrow> PodSpec list \<Rightarrow> PodSpec list" where
  "append_to_first P container [] = []"
| "append_to_first P container (pod # pods) =
     (if P pod then pod\<lparr>podContainers := podContainers pod @ [container]\<rparr> # pods
      else pod # append_to_first P container pods)"

definition attach_sidecar ::
  "string \<Rightarrow> PodSpec list \<times> string list \<Rightarrow> ComponentSpec \<Rightarrow> PodSpec list \<times> string list" where
  "attach_sidecar runtimeName st sidecar =
     (let (pods, seen) = st
      in if cName sidecar \<in> set seen then (pods, seen)
         else if list_ex (has_container runtimeName) pods
         then (append_to_first (has_container runtimeName) sidecar pods, cName sidecar # seen)
         else (pods, seen))"

definition podTopologyForAdapter :: "AdapterSpec \<Rightarrow> PodSpec list" where
  "podTopologyForAdapter spec =
     (if asPods spec \<noteq> [] then
        let declared = declaredContainerMap spec;
            pods = map (\<lambda>pod. pod\<lparr>podContainers := map (resolve_container declared) (podContainers pod)\<rparr>)
                     (asPods spec);
            seen = concat (map (\<lambda>pod. map cName (podContainers pod)) pods)
        in fst (foldl (attach_sidecar (cName (asRuntimeContainer spec))) (pods, seen) (asInfraSidecars spec))
      else [\<lparr>podName = ''sandbox'', podLabels = [], podInitContainers = [],
             podContainers = asRuntimeContainer spec # asInfraSidecars spec\<rparr>])"

subsection \<open>Port conflicts\<close>

definition claim_port :: "int list \<Rightarrow> PortSpec \<Rightarrow> sandbox_error + int list" where
  "claim_port seen port =
     (if containerPort port \<in> set seen then Inl ErrSandboxPodTopologyInvalid
      else Inr (containerPort port # seen))"

definition pod_ports :: "PodSpec \<Rightarrow> PortSpec list" where
  "pod_ports pod = concat (map cPorts (podContainers pod))"

definition pod_conflict_check :: "PodSpec \<Rightarrow> sandbox_error + unit" where
  "pod_conflict_check pod = bindR (foldR claim_port [] (pod_ports pod)) (\<lambda>ports. Inr ())"

definition validatePodPortConflicts :: "PodSpec list \<Rightarrow> sandbox_error + unit" where
  "validatePodPortConflicts pods = eachR pod_conflict_check pods"

interpretation claims: checking_loop claim_port containerPort "\<lambda>_. True"
  by unfold_locales (auto simp: claim_port_def)

lemma podPortConflicts_accepted:
  "validatePodPortConflicts pods = Inr () \<longleftrightarrow>
     (\<forall>pod \<in> set pods. distinct (map containerPort (pod_ports pod)))"
  by (simp add: validatePodPortConflicts_def eachR_Inr pod_conflict_check_def bindR_Inr claims.loop_ok)

subsection \<open>Explicit pod groups\<close>

definition pod_container_step ::
  "AdapterSpec \<Rightarrow> string list \<times> int list \<Rightarrow> ComponentSpec \<Rightarrow>
     sandbox_error + ComponentSpec \<times> string list \<times> int list" where
  "pod_container_step spec st container =
     (let (containerNames, ports) = st; container = container\<lparr>cName := TrimSpace (cName container)\<rparr>
      in if \<not> podContainerIsReferenceOnly container then Inl ErrSandboxPodTopologyInvalid
         else case declaredContainerMap spec (cName container) of
           None \<Rightarrow> Inl ErrSandboxPodTopologyInvalid
         | Some declared \<Rightarrow>
             if cName declared = cName (asRuntimeContainer spec)
                \<and> hasVolumeDomain spec VolumeDomainJudgePrivate \<and> studentAccessibleContainer declared
             then Inl ErrSandboxPrivateDomainInvalid
             else if cName declared \<in> set containerNames then Inl ErrSandboxPodTopologyInvalid
             else bindR (foldR claim_port ports (cPorts declared)) (\<lambda>ports.
                    Inr (declared, cName declared # containerNames, ports)))"

definition pod_step :: "AdapterSpec \<Rightarrow> PodSpec list \<Rightarrow> PodSpec \<Rightarrow> sandbox_error + PodSpec \<times> PodSpec list" where
  "pod_step spec seenPods pod =
     (let pod = pod\<lparr>podName := TrimSpace (podName pod)\<rparr>
      in if \<not> mountNamePattern (podName pod) \<or> podContainers pod = [] then Inl ErrSandboxPodTopologyInvalid
         else if podName pod \<in> set (map podName seenPods) then Inl ErrSandboxPodTopologyInvalid
         else bindR (mapAccR (pod_container_step spec) ([], []) (podContainers pod)) (\<lambda>(containers, seen).
                Inr (pod\<lparr>podContainers := containers\<rparr>, pod\<lparr>podContainers := containers\<rparr> # seenPods)))"

definition validatePodTopology :: "AdapterSpec \<Rightarrow> sandbox_error + AdapterSpec" where
  "validatePodTopology spec =
     (if asPods spec = [] then Inr spec
      else bindR (mapAccR (pod_step spec) [] (asPods spec)) (\<lambda>(pods, seenPods).
             if \<not> list_ex (has_container (cName (asRuntimeContainer spec))) pods
             then Inl ErrSandboxPodTopologyInvalid
             else Inr (spec\<lparr>asPods := pods\<rparr>)))"

text \<open>What an accepted pod satisfies.\<close>

definition declared_container :: "AdapterSpec \<Rightarrow> ComponentSpec \<Rightarrow> bool" where
  "declared_container spec c \<longleftrightarrow> c = asRuntimeContainer spec \<or> c \<in> set (asInfraSidecars spec)"

definition pod_wf :: "AdapterSpec \<Rightarrow> PodSpec \<Rightarrow> bool" where
  "pod_wf spec pod \<longleftrightarrow> mountNamePattern (podName pod) \<and> podContainers pod \<noteq> [] \<and>
     (\<forall>c \<in> set (podContainers pod). declared_container spec c \<and>
        \<not> (cName c = cName (asRuntimeContainer spec) \<and> hasVolumeDomain spec VolumeDomainJudgePrivate
           \<and> studentAccessibleContainer c)) \<and>
     distinct (map cName (podContainers pod)) \<and> distinct (map containerPort (pod_ports pod))"

lemma pod_containers_loop:
  "mapAccR (pod_container_step spec) (names, ports) cs = Inr (ds, st) \<Longrightarrow>
     length ds = length cs \<and>
     (\<forall>c \<in> set ds. declared_container spec c \<and>
        \<not> (cName c = cName (asRuntimeContainer spec) \<and> hasVolumeDomain spec VolumeDomainJudgePrivate
           \<and> studentAccessibleContainer c)) \<and>
     distinct (map cName ds) \<and> set (map cName ds) \<inter> set names = {} \<and>
     distinct (map containerPort (concat (map cPorts ds))) \<and>
     set (map containerPort (concat (map cPorts ds))) \<inter> set ports = {}"
proof (induction cs arbitrary: names ports ds)
  case (Cons c cs)
  then obtain d names' ports' es where
    step: "pod_container_step spec (names, ports) c = Inr (d, names', ports')"
    and rest: "mapAccR (pod_container_step spec) (names', ports') cs = Inr (es, st)"
    and ds: "ds = d # es"
    by (auto simp: bindR_Inr)
  from step obtain n where d: "declaredContainerMap spec n = Some d"
    and guard: "\<not> (cName d = cName (asRuntimeContainer spec) \<and> hasVolumeDomain spec VolumeDomainJudgePrivate
           \<and> studentAccessibleContainer d)"
    and fresh: "cName d \<notin> set names" and claim: "foldR claim_port ports (cPorts d) = Inr ports'"
    and names': "names' = cName d # names"
    unfolding pod_container_step_def Let_def prod.case if_Inl_Inr
    by (auto simp: bindR_Inr split: option.splits if_splits)
  have dd: "declared_container spec d"
    using declaredContainerMap_name [OF d] by (auto simp: declared_container_def)
  note ih = Cons.IH [OF rest]
  define p q where "p = map containerPort (cPorts d)"
    and "q = map containerPort (concat (map cPorts es))"
  have pq: "map containerPort (concat (map cPorts ds)) = p @ q"
    by (simp add: ds p_def q_def)
  have "distinct p" "set p \<inter> set ports = {}" "set ports' = set p \<union> set ports"
    using claim unfolding claims.loop_Inr p_def by (blast, blast, simp)
  moreover have "distinct q" "set q \<inter> set ports' = {}" using ih by (simp_all only: q_def)
  ultimately have "distinct (p @ q) \<and> set (p @ q) \<inter> set ports = {}" by auto
  moreover have "distinct (map cName ds) \<and> set (map cName ds) \<inter> set names = {}"
    using ih fresh by (auto simp: ds names')
  moreover have "length ds = length (c # cs)" using ih by (simp add: ds)
  ultimately show ?case using ih dd guard unfolding pq by (simp add: ds)
qed simp

definition bare_pod :: "AdapterSpec \<Rightarrow> PodSpec \<Rightarrow> PodSpec" where
  "bare_pod spec pod = (case pod_step spec [] pod of Inl _ \<Rightarrow> pod | Inr (pod', _) \<Rightarrow> pod')"

interpretation pods_loop: pairwise_loop "pod_step spec" "bare_pod spec" "pod_wf spec"
  "\<lambda>a b. podName a \<noteq> podName b" for spec
proof
  fix seen x y seen'
  assume a: "pod_step spec seen x = Inr (y, seen')"
  then obtain ds st where n: "mountNamePattern (TrimSpace (podName x))" "podContainers x \<noteq> []"
      "TrimSpace (podName x) \<notin> set (map podName seen)"
    and m: "mapAccR (pod_container_step spec) ([], []) (podContainers x) = Inr (ds, st)"
    and y: "y = x\<lparr>podName := TrimSpace (podName x), podContainers := ds\<rparr>" "seen' = y # seen"
    unfolding pod_step_def Let_def if_Inl_Inr by (auto simp: bindR_Inr)
  have e: "pod_step spec [] x = Inr (y, [y])"
    using n(1,2) m y(1) by (simp add: pod_step_def Let_def)
  have "ds \<noteq> []" using pod_containers_loop [OF m] n(2) by auto
  then have "pod_wf spec y"
    using pod_containers_loop [OF m] n(1) by (simp add: pod_wf_def y(1) pod_ports_def)
  moreover have "\<forall>z \<in> set seen. podName z \<noteq> podName y" using fresh_key [OF n(3)] by (simp add: y(1))
  ultimately show "y = bare_pod spec x \<and> pod_wf spec y \<and> (\<forall>z \<in> set seen. podName z \<noteq> podName y)
      \<and> seen' = y # seen"
    using y(2) by (simp add: bare_pod_def e)
qed

lemma podTopology_accepted:
  assumes "validatePodTopology spec = Inr spec'"
  shows "spec' = spec\<lparr>asPods := asPods spec'\<rparr> \<and> (\<forall>pod \<in> set (asPods spec'). pod_wf spec pod) \<and>
    distinct (map podName (asPods spec')) \<and>
    (asPods spec \<noteq> [] \<longrightarrow> (\<exists>pod \<in> set (asPods spec'). asRuntimeContainer spec \<in> set (podContainers pod) \<or>
       (\<exists>c \<in> set (podContainers pod). cName c = cName (asRuntimeContainer spec)))) \<and>
    (asPods spec' = [] \<longleftrightarrow> asPods spec = [])"
proof (cases "asPods spec = []")
  case True
  then show ?thesis using assms by (simp add: validatePodTopology_def)
next
  case False
  with assms obtain pods seen where
    m: "mapAccR (pod_step spec) [] (asPods spec) = Inr (pods, seen)" and s: "spec' = spec\<lparr>asPods := pods\<rparr>"
    and r: "list_ex (has_container (cName (asRuntimeContainer spec))) pods"
    by (auto simp: validatePodTopology_def bindR_Inr if_Inl_Inr)
  have d: "distinct (map podName pods)" by (rule pods_loop.distinct_key [OF m])
  have "pods \<noteq> []" using r by auto
  then show ?thesis
    using pods_loop.loop_good [OF m] d r False by (auto simp: s list_ex_iff has_container_def)
qed

subsection \<open>Port tables\<close>

type_synonym port_table = "(string \<times> int) list"

definition add_port :: "PortSpec \<Rightarrow> port_table \<Rightarrow> port_table" where
  "add_port port ports = AList.update (portName port) (containerPort port) ports"

definition port_table :: "PortSpec list \<Rightarrow> port_table" where
  "port_table ports = fold add_port ports []"

definition podPortMap :: "PodSpec list \<Rightarrow> (string \<times> port_table) list" where
  "podPortMap pods = fold (\<lambda>pod. AList.update (podName pod) (port_table (pod_ports pod))) pods []"

definition componentPortMap :: "ComponentSpec list \<Rightarrow> (string \<times> port_table) list" where
  "componentPortMap components =
     fold (\<lambda>component. AList.update (cName component) (port_table (cPorts component))) components []"

definition networkPortDeclared :: "port_table \<Rightarrow> int \<Rightarrow> bool" where
  "networkPortDeclared ports port = list_ex (\<lambda>(name, declared). declared = port) ports"

lemma fold_update_set:
  "set (fold (\<lambda>x. AList.update (k x) (v x)) xs m) \<subseteq> set m \<union> (\<lambda>x. (k x, v x)) ` set xs"
proof (induction xs arbitrary: m)
  case (Cons x xs)
  have "set (AList.update (k x) (v x) m) \<subseteq> insert (k x, v x) (set m)"
    by (induction m) auto
  with Cons [of "AList.update (k x) (v x) m"] show ?case by auto
qed simp

lemma port_table_set: "(n, p) \<in> set (port_table ports) \<Longrightarrow>
     \<exists>port \<in> set ports. portName port = n \<and> containerPort port = p"
  using fold_update_set [of portName containerPort ports "[]"]
  by (auto simp: port_table_def add_port_def [abs_def])

lemma podPortMap_set: "(n, t) \<in> set (podPortMap pods) \<Longrightarrow>
     \<exists>pod \<in> set pods. podName pod = n \<and> t = port_table (pod_ports pod)"
  using fold_update_set [of podName "\<lambda>pod. port_table (pod_ports pod)" pods "[]"]
  by (auto simp: podPortMap_def)

lemma componentPortMap_set: "(n, t) \<in> set (componentPortMap cs) \<Longrightarrow>
     \<exists>c \<in> set cs. cName c = n \<and> t = port_table (cPorts c)"
  using fold_update_set [of cName "\<lambda>c. port_table (cPorts c)" cs "[]"]
  by (auto simp: componentPortMap_def)

lemma networkPort_in_table: "networkPortDeclared ports p \<Longrightarrow> \<exists>n. (n, p) \<in> set ports"
  by (auto simp: networkPortDeclared_def list_ex_iff)

subsection \<open>Network rules of a runtime\<close>

definition normRef :: "port_table \<Rightarrow> NetworkPortRef \<Rightarrow> NetworkPortRef" where
  "normRef targetPorts ref =
     (let ref = ref\<lparr>refName := TrimSpace (refName ref)\<rparr>
      in if refName ref \<noteq> []
         then (case map_of targetPorts (refName ref) of None \<Rightarrow> ref | Some resolved \<Rightarrow> ref\<lparr>refPort := resolved\<rparr>)
         else ref)"

definition ref_step :: "port_table \<Rightarrow> int list \<Rightarrow> NetworkPortRef \<Rightarrow> sandbox_error + NetworkPortRef \<times> int list" where
  "ref_step targetPorts seenPorts ref =
     (if TrimSpace (refName ref) \<noteq> [] \<and> map_of targetPorts (TrimSpace (refName ref)) = None
      then Inl ErrSandboxNetworkPolicyInvalid
      else let ref = normRef targetPorts ref
           in if refPort ref \<le> 0 then Inl ErrSandboxNetworkPolicyInvalid
              else if \<not> networkPortDeclared targetPorts (refPort ref) then Inl ErrSandboxNetworkPolicyInvalid
              else if refPort ref \<in> set seenPorts then Inl ErrSandboxNetworkPolicyInvalid
              else Inr (ref, refPort ref # seenPorts))"

definition trimRule :: "NetworkRuleSpec \<Rightarrow> NetworkRuleSpec" where
  "trimRule rule = rule\<lparr>ruleName := TrimSpace (ruleName rule), ruleFrom := TrimSpace (ruleFrom rule),
     ruleTo := TrimSpace (ruleTo rule)\<rparr>"

definition rule_step ::
  "(string \<times> port_table) list \<Rightarrow> string list \<Rightarrow> NetworkRuleSpec \<Rightarrow>
     sandbox_error + NetworkRuleSpec \<times> string list" where
  "rule_step podPorts seenRules rule =
     (let rule = trimRule rule
      in if \<not> mountNamePattern (ruleName rule) \<or> ruleFrom rule = [] \<or> ruleTo rule = [] \<or> rulePorts rule = []
         then Inl ErrSandboxNetworkPolicyInvalid
         else if ruleName rule \<in> set seenRules then Inl ErrSandboxNetworkPolicyInvalid
         else if map_of podPorts (ruleFrom rule) = None then Inl ErrSandboxNetworkPolicyInvalid
         else case map_of podPorts (ruleTo rule) of
           None \<Rightarrow> Inl ErrSandboxNetworkPolicyInvalid
         | Some targetPorts \<Rightarrow>
             bindR (mapAccR (ref_step targetPorts) [] (rulePorts rule)) (\<lambda>(ports, seenPorts).
               Inr (rule\<lparr>rulePorts := ports\<rparr>, ruleName rule # seenRules)))"

definition validateNetworkRules :: "AdapterSpec \<Rightarrow> sandbox_error + AdapterSpec" where
  "validateNetworkRules spec =
     (if asNetworkRules spec = [] then Inr spec
      else bindR (mapAccR (rule_step (podPortMap (podTopologyForAdapter spec))) [] (asNetworkRules spec))
             (\<lambda>(rules, seen). Inr (spec\<lparr>asNetworkRules := rules\<rparr>)))"

definition ref_good :: "port_table \<Rightarrow> NetworkPortRef \<Rightarrow> bool" where
  "ref_good targetPorts ref \<longleftrightarrow> 0 < refPort ref \<and> networkPortDeclared targetPorts (refPort ref) \<and>
     (refName ref \<noteq> [] \<longrightarrow> map_of targetPorts (refName ref) = Some (refPort ref))"

lemma normRef_name [simp]: "refName (normRef t r) = TrimSpace (refName r)"
  by (simp add: normRef_def Let_def split: option.splits)

lemma normRef_fixed: "ref_good t (normRef t r) \<Longrightarrow> normRef t (normRef t r) = normRef t r"
  unfolding ref_good_def by (subst normRef_def) (auto simp: Let_def)

interpretation refs: idempotent_loop "ref_step t" refPort "ref_good t" "normRef t" for t
proof
  show "ref_step t seen x = Inr (y, seen') \<longleftrightarrow>
      y = normRef t x \<and> ref_good t y \<and> refPort y \<notin> set seen \<and> seen' = refPort y # seen" for seen x y seen'
  proof -
    have "TrimSpace (refName x) \<noteq> [] \<Longrightarrow>
        (map_of t (TrimSpace (refName x)) = Some (refPort (normRef t x))) \<longleftrightarrow>
        \<not> map_of t (TrimSpace (refName x)) = None"
      by (auto simp: normRef_def Let_def)
    then show ?thesis
      unfolding ref_step_def ref_good_def Let_def if_Inl_Inr by auto
  qed
  show "ref_good t (normRef t x) \<Longrightarrow> normRef t (normRef t x) = normRef t x" for x
    by (rule normRef_fixed)
qed

definition target_table :: "(string \<times> port_table) list \<Rightarrow> NetworkRuleSpec \<Rightarrow> port_table" where
  "target_table podPorts rule = (case map_of podPorts (ruleTo rule) of None \<Rightarrow> [] | Some t \<Rightarrow> t)"

definition normRule :: "(string \<times> port_table) list \<Rightarrow> NetworkRuleSpec \<Rightarrow> NetworkRuleSpec" where
  "normRule podPorts rule =
     (trimRule rule)\<lparr>rulePorts := map (normRef (target_table podPorts (trimRule rule))) (rulePorts rule)\<rparr>"

definition rule_good :: "(string \<times> port_table) list \<Rightarrow> NetworkRuleSpec \<Rightarrow> bool" where
  "rule_good podPorts rule \<longleftrightarrow> mountNamePattern (ruleName rule) \<and> ruleFrom rule \<noteq> [] \<and> ruleTo rule \<noteq> [] \<and>
     rulePorts rule \<noteq> [] \<and> map_of podPorts (ruleFrom rule) \<noteq> None \<and> map_of podPorts (ruleTo rule) \<noteq> None \<and>
     (\<forall>ref \<in> set (rulePorts rule). ref_good (target_table podPorts rule) ref) \<and>
     distinct (map refPort (rulePorts rule))"

lemma trimRule_simps [simp]:
  "ruleName (trimRule r) = TrimSpace (ruleName r)" "ruleFrom (trimRule r) = TrimSpace (ruleFrom r)"
  "ruleTo (trimRule r) = TrimSpace (ruleTo r)" "rulePorts (trimRule r) = rulePorts r"
  by (simp_all add: trimRule_def)

lemma target_table_to: "ruleTo a = ruleTo b \<Longrightarrow> target_table m a = target_table m b"
  by (simp add: target_table_def)

lemma normRule_simps [simp]:
  "ruleName (normRule m r) = TrimSpace (ruleName r)" "ruleFrom (normRule m r) = TrimSpace (ruleFrom r)"
  "ruleTo (normRule m r) = TrimSpace (ruleTo r)"
  "rulePorts (normRule m r) = map (normRef (target_table m (trimRule r))) (rulePorts r)"
  by (simp_all add: normRule_def)

lemma normRule_fix:
  assumes "trimRule r = r" and "\<forall>p \<in> set (rulePorts r). normRef (target_table m r) p = p"
  shows "normRule m r = r"
proof -
  have "map (normRef (target_table m r)) (rulePorts r) = rulePorts r" using assms(2) by (simp add: map_idI)
  then show ?thesis by (simp add: normRule_def assms(1))
qed

interpretation rules: idempotent_loop "rule_step m" ruleName "rule_good m" "normRule m" for m
proof
  show "rule_step m seen x = Inr (y, seen') \<longleftrightarrow>
      y = normRule m x \<and> rule_good m y \<and> ruleName y \<notin> set seen \<and> seen' = ruleName y # seen" for seen x y seen'
  proof (cases "map_of m (TrimSpace (ruleTo x))")
    case None
    then show ?thesis by (auto simp: rule_step_def rule_good_def Let_def if_Inl_Inr)
  next
    case (Some t)
    have t: "target_table m (trimRule x) = t" "target_table m (normRule m x) = t"
      by (simp_all add: target_table_def Some)
    have loop: "(\<exists>seenPorts. mapAccR (ref_step t) [] (rulePorts x) = Inr (ports, seenPorts)) \<longleftrightarrow>
        ports = map (normRef t) (rulePorts x) \<and> (\<forall>r \<in> set ports. ref_good t r) \<and> distinct (map refPort ports)"
      for ports
      unfolding refs.loop_Inr by auto
    have "rule_step m seen x = Inr (y, seen') \<longleftrightarrow>
        mountNamePattern (TrimSpace (ruleName x)) \<and> TrimSpace (ruleFrom x) \<noteq> [] \<and> TrimSpace (ruleTo x) \<noteq> [] \<and>
        rulePorts x \<noteq> [] \<and> TrimSpace (ruleName x) \<notin> set seen \<and> map_of m (TrimSpace (ruleFrom x)) \<noteq> None \<and>
        (\<exists>ports. (\<exists>seenPorts. mapAccR (ref_step t) [] (rulePorts x) = Inr (ports, seenPorts)) \<and>
           y = (trimRule x)\<lparr>rulePorts := ports\<rparr> \<and> seen' = TrimSpace (ruleName x) # seen)"
      by (auto simp: rule_step_def Let_def if_Inl_Inr Some bindR_Inr)
    then have "rule_step m seen x = Inr (y, seen') \<longleftrightarrow> y = normRule m x \<and>
        mountNamePattern (TrimSpace (ruleName x)) \<and> TrimSpace (ruleFrom x) \<noteq> [] \<and> TrimSpace (ruleTo x) \<noteq> [] \<and>
        rulePorts x \<noteq> [] \<and> TrimSpace (ruleName x) \<notin> set seen \<and> map_of m (TrimSpace (ruleFrom x)) \<noteq> None \<and>
        (\<forall>r \<in> set (map (normRef t) (rulePorts x)). ref_good t r) \<and>
        distinct (map refPort (map (normRef t) (rulePorts x))) \<and> seen' = TrimSpace (ruleName x) # seen"
      unfolding loop normRule_def t by blast
    then show ?thesis by (cases "y = normRule m x") (simp_all add: rule_good_def t Some, blast)
  qed
  show "normRule m (normRule m x) = normRule m x" if "rule_good m (normRule m x)" for x
  proof -
    let ?t = "target_table m (trimRule x)"
    have tt: "target_table m (trimRule (normRule m x)) = ?t" "target_table m (normRule m x) = ?t"
      by (simp_all add: target_table_def)
    have "\<forall>r \<in> set (rulePorts x). normRef ?t (normRef ?t r) = normRef ?t r"
      using that by (auto simp: rule_good_def tt intro: normRef_fixed)
    moreover have "trimRule (normRule m x) = normRule m x"
      by (simp add: normRule_def trimRule_def)
    ultimately show ?thesis
      by (intro normRule_fix) (auto simp: tt)
  qed
qed

lemma networkRules_loop:
  "validateNetworkRules spec = Inr spec' \<longleftrightarrow>
     (\<exists>rules seen. mapAccR (rule_step (podPortMap (podTopologyForAdapter spec))) [] (asNetworkRules spec)
        = Inr (rules, seen) \<and> spec' = spec\<lparr>asNetworkRules := rules\<rparr>)"
  by (cases "asNetworkRules spec = []") (auto simp: validateNetworkRules_def bindR_Inr)

lemma target_in_pods:
  "map_of (podPortMap pods) n = Some t \<Longrightarrow> \<exists>pod \<in> set pods. podName pod = n \<and> t = port_table (pod_ports pod)"
  by (auto dest: map_of_SomeD podPortMap_set)

lemma declared_in_pod:
  assumes "ref_good (port_table (pod_ports pod)) ref"
  shows "\<exists>c \<in> set (podContainers pod). \<exists>port \<in> set (cPorts c). containerPort port = refPort ref \<and>
    (refName ref \<noteq> [] \<longrightarrow> portName port = refName ref)"
proof -
  obtain n where n: "(n, refPort ref) \<in> set (port_table (pod_ports pod))"
      "refName ref \<noteq> [] \<Longrightarrow> n = refName ref"
    using assms networkPort_in_table by (metis map_of_SomeD ref_good_def)
  obtain port where port: "port \<in> set (pod_ports pod)" "portName port = n" "containerPort port = refPort ref"
    using port_table_set [OF n(1)] by blast
  then obtain c where "c \<in> set (podContainers pod)" "port \<in> set (cPorts c)"
    by (auto simp: pod_ports_def)
  then show ?thesis using port n(2) by blast
qed

text \<open>
  Network rules only open declared ports between existing pods: in an accepted adapter every
  rule leads from a pod of the topology to a pod of the topology, names at least one port, and each
  port it opens is a container port that a container of the target pod declares (under the name
  the rule uses, if it uses one); no two rules share a name and no rule opens a port twice.
\<close>

theorem networkRules_declared:
  assumes "validateNetworkRules spec = Inr spec'"
  shows "(\<forall>rule \<in> set (asNetworkRules spec').
      rulePorts rule \<noteq> [] \<and> distinct (map refPort (rulePorts rule)) \<and>
      (\<exists>pod \<in> set (podTopologyForAdapter spec). podName pod = ruleFrom rule) \<and>
      (\<exists>pod \<in> set (podTopologyForAdapter spec). podName pod = ruleTo rule \<and>
        (\<forall>ref \<in> set (rulePorts rule). \<exists>c \<in> set (podContainers pod). \<exists>port \<in> set (cPorts c).
           containerPort port = refPort ref \<and> (refName ref \<noteq> [] \<longrightarrow> portName port = refName ref)))) \<and>
    distinct (map ruleName (asNetworkRules spec'))"
proof -
  let ?m = "podPortMap (podTopologyForAdapter spec)"
  from assms obtain seen where l: "mapAccR (rule_step ?m) [] (asNetworkRules spec)
      = Inr (asNetworkRules spec', seen)"
    by (auto simp: networkRules_loop)
  have "rulePorts rule \<noteq> [] \<and> distinct (map refPort (rulePorts rule)) \<and>
      (\<exists>pod \<in> set (podTopologyForAdapter spec). podName pod = ruleFrom rule) \<and>
      (\<exists>pod \<in> set (podTopologyForAdapter spec). podName pod = ruleTo rule \<and>
        (\<forall>ref \<in> set (rulePorts rule). \<exists>c \<in> set (podContainers pod). \<exists>port \<in> set (cPorts c).
           containerPort port = refPort ref \<and> (refName ref \<noteq> [] \<longrightarrow> portName port = refName ref)))"
    if "rule \<in> set (asNetworkRules spec')" for rule
  proof -
    have g: "rule_good ?m rule" using rules.loop_good [OF l] that by blast
    then obtain f t where ft: "map_of ?m (ruleFrom rule) = Some f" "map_of ?m (ruleTo rule) = Some t"
      by (auto simp: rule_good_def)
    obtain pod where pod: "pod \<in> set (podTopologyForAdapter spec)" "podName pod = ruleTo rule"
        "t = port_table (pod_ports pod)"
      using target_in_pods [OF ft(2)] by blast
    have "\<forall>ref \<in> set (rulePorts rule). ref_good (port_table (pod_ports pod)) ref"
      using g by (simp add: rule_good_def target_table_def ft pod(3) [symmetric])
    then show ?thesis
      using g target_in_pods [OF ft(1)] pod(1,2) declared_in_pod unfolding rule_good_def by blast
  qed
  then show ?thesis using rules.loop_good [OF l] by blast
qed

definition sampleRules :: AdapterSpec where
  "sampleRules = zeroAdapter\<lparr>asRuntimeContainer := sampleRuntimeAccepted,
     asNetworkRules := [\<lparr>ruleName = ''self'', ruleFrom = ''sandbox'', ruleTo = '' sandbox'',
       rulePorts = [\<lparr>refName = ''rpc'', refPort = 0\<rparr>]\<rparr>]\<rparr>"

theorem networkRules_declared_witness:
  "\<exists>spec'. validateNetworkRules sampleRules = Inr spec' \<and>
     (\<forall>rule \<in> set (asNetworkRules spec'). rulePorts rule \<noteq> [])"
proof -
  have "validateNetworkRules sampleRules = Inr (sampleRules\<lparr>asNetworkRules :=
      [\<lparr>ruleName = ''self'', ruleFrom = ''sandbox'', ruleTo = ''sandbox'',
        rulePorts = [\<lparr>refName = ''rpc'', refPort = 8545\<rparr>]\<rparr>]\<rparr>)"
    by code_simp
  with networkRules_declared [OF this] show ?thesis by blast
qed

end
