(* ===== verification/SandboxAdapter.thy ===== *)
theory SandboxAdapter
  imports SandboxTopology PlatformNum
begin

section \<open>Sandbox engine: runtime adapters\<close>

text \<open>
  The declarative adapter of a runtime as a whole (\<open>rules.go\<close>, with the execution targets of
  \<open>service_files.go\<close>, \<open>service_init.go\<close> and \<open>service_k8s_orchestrator.go\<close>): controlled
  commands and the containers they enter, initial assets, mounted domains, and
  \<open>normalizeAndValidateAdapterSpec\<close>, which composes every check and returns the normalised
  adapter.
\<close>

subsection \<open>Execution targets\<close>

definition splitExecTarget :: "string \<Rightarrow> string \<times> string" where
  "splitExecTarget target =
     (let parts = Split (TrimSpace target) slash
      in if length parts = 2 \<and> TrimSpace (parts ! 0) \<noteq> [] \<and> TrimSpace (parts ! 1) \<noteq> []
         then (TrimSpace (parts ! 0), TrimSpace (parts ! 1))
         else (''sandbox'', TrimSpace target))"

definition safeExecTarget :: "string \<Rightarrow> bool" where
  "safeExecTarget target =
     (let (podName, containerName) = splitExecTarget target
      in mountNamePattern podName \<and> mountNamePattern containerName)"

definition explicitExecTarget :: "string \<Rightarrow> bool" where
  "explicitExecTarget target =
     (let target = TrimSpace target in count_list target slash = 1 \<and> safeExecTarget target)"

definition execContainers :: "AdapterSpec \<Rightarrow> (string \<times> ComponentSpec) list" where
  "execContainers spec =
     concat (map (\<lambda>pod. map (\<lambda>container. (podName pod @ ''/'' @ cName container, container)) (podContainers pod))
       (podTopologyForAdapter spec))"

definition execContainer :: "AdapterSpec \<Rightarrow> string \<Rightarrow> ComponentSpec option" where
  "execContainer spec target = map_option snd (by_key fst (execContainers spec) (TrimSpace target))"

subsection \<open>Controlled commands\<close>

definition validateWorkspaceOps :: "WorkspaceOps \<Rightarrow> sandbox_error + unit" where
  "validateWorkspaceOps ops =
     (if \<not> explicitExecTarget (woExecTarget ops) \<or> \<not> explicitExecTarget (woScriptExecTarget ops)
      then Inl ErrSandboxWorkspaceOpsInvalid
      else let helperCommands = [woCleanWorkspace ops, woReadFile ops, woWriteFile ops, woListFiles ops,
                                 woPackTar ops, woUnpackTar ops, woRunScript ops, woSelftest ops]
           in if \<not> list_all ValidNonShellCommand helperCommands then Inl ErrSandboxWorkspaceOpsInvalid
              else failIf (\<not> ValidCommand (woTerminal ops)) ErrSandboxWorkspaceOpsInvalid)"

definition validatePrivateArchiveOps :: "PrivateArchiveOps \<Rightarrow> sandbox_error + unit" where
  "validatePrivateArchiveOps ops =
     failIf (\<not> explicitExecTarget (paExecTarget ops) \<or> \<not> ValidNonShellCommand (paUnpackTar ops))
       ErrSandboxPrivateDomainInvalid"

definition recreate_runtime :: string where "recreate_runtime = ''recreate_runtime''"

definition hasCapabilityCommands :: "CapabilityCommandSet \<Rightarrow> bool" where
  "hasCapabilityCommands commands \<longleftrightarrow>
     ccCommand (capDeploy commands) \<noteq> [] \<and> ccCommand (capTx commands) \<noteq> [] \<and>
     ccCommand (capQuery commands) \<noteq> [] \<and>
     (TrimSpace (capResetStrategy commands) = recreate_runtime \<or> ccCommand (capReset commands) \<noteq> [])"

definition capability_check :: "SandboxConfig \<Rightarrow> CapabilityCommandSpec \<Rightarrow> sandbox_error + CapabilityCommandSpec" where
  "capability_check cfg command =
     (if \<not> explicitExecTarget (ccExecTarget command) then Inl ErrSandboxCapabilityCommandInvalid
      else if \<not> ValidNonShellCommand (ccCommand command) then Inl ErrSandboxCapabilityCommandInvalid
      else if ccTimeoutSeconds command < 0 then Inl ErrSandboxCapabilityCommandInvalid
      else if ccTimeoutSeconds command = 0 then
        (case Int32 (word_of_int (cfgChainRPCTimeoutSeconds cfg)) of
           (defaultTimeout, ok) \<Rightarrow>
             if \<not> ok \<or> sint defaultTimeout \<le> 0 then Inl ErrSandboxCapabilityCommandInvalid
             else Inr (command\<lparr>ccTimeoutSeconds := sint defaultTimeout\<rparr>))
      else Inr command)"

definition validateCapabilityCommands :: "SandboxConfig \<Rightarrow> AdapterSpec \<Rightarrow> sandbox_error + AdapterSpec" where
  "validateCapabilityCommands cfg spec =
     (let cmds = asCapabilityCommands spec
      in if \<not> hasCapabilityCommands cmds then Inr spec
         else bindR (capability_check cfg (capDeploy cmds)) (\<lambda>deploy.
              bindR (capability_check cfg (capTx cmds)) (\<lambda>tx.
              bindR (capability_check cfg (capQuery cmds)) (\<lambda>query.
                let cmds = cmds\<lparr>capDeploy := deploy, capTx := tx, capQuery := query\<rparr>;
                    strategy = TrimSpace (capResetStrategy cmds)
                in if strategy = recreate_runtime
                   then (if ccCommand (capReset cmds) \<noteq> [] then Inl ErrSandboxCapabilityCommandInvalid
                         else Inr (spec\<lparr>asCapabilityCommands := cmds\<rparr>))
                   else if strategy \<noteq> [] then Inl ErrSandboxCapabilityCommandInvalid
                   else bindR (capability_check cfg (capReset cmds)) (\<lambda>reset.
                          Inr (spec\<lparr>asCapabilityCommands := cmds\<lparr>capReset := reset\<rparr>\<rparr>))))))"

definition tmpDir :: string where "tmpDir = ''/tmp''"

definition script_container_check :: "ComponentSpec \<Rightarrow> bool" where
  "script_container_check component \<longleftrightarrow>
     \<not> (studentAccessibleContainer component \<or> \<not> shouldMountWorkspace component
        \<or> cSecretEnv component \<noteq> [] \<or> cWritableMountDomains component \<noteq> []) \<and>
     list_all (\<lambda>domain. TrimSpace domain = VolumeDomainPublicAssets) (cMountDomains component) \<and>
     list_ex (\<lambda>mount. Clean (emMountPath mount) = tmpDir) (cEphemeralMounts component)"

text \<open>The loops stop at the first container with the target's name, so only that one is judged.\<close>

definition initScriptExecTarget :: "AdapterSpec \<Rightarrow> sandbox_error + string" where
  "initScriptExecTarget adapter =
     (let target = TrimSpace (woScriptExecTarget (asWorkspaceOps adapter))
      in if \<not> explicitExecTarget target \<or> target = TrimSpace (woExecTarget (asWorkspaceOps adapter))
         then Inl ErrSandboxWorkspaceOpsInvalid
         else if \<not> ValidNonShellCommand (woRunScript (asWorkspaceOps adapter))
                 \<or> \<not> ValidNonShellCommand (woCleanWorkspace (asWorkspaceOps adapter))
         then Inl ErrSandboxWorkspaceOpsInvalid
         else case find (\<lambda>(name, component). name = target) (execContainers adapter) of
           None \<Rightarrow> Inl ErrSandboxWorkspaceOpsInvalid
         | Some (name, component) \<Rightarrow>
             if script_container_check component then Inr target else Inl ErrSandboxWorkspaceOpsInvalid)"

definition capability_target_check :: "AdapterSpec \<Rightarrow> CapabilityCommandSpec \<Rightarrow> sandbox_error + unit" where
  "capability_target_check spec command =
     (if ccCommand command = [] then Inr ()
      else case execContainer spec (ccExecTarget command) of
        None \<Rightarrow> Inl ErrSandboxCapabilityCommandInvalid
      | Some container \<Rightarrow> failIf (studentAccessibleContainer container) ErrSandboxCapabilityCommandInvalid)"

definition private_target_check :: "AdapterSpec \<Rightarrow> string \<Rightarrow> sandbox_error \<Rightarrow> sandbox_error + unit" where
  "private_target_check spec target e =
     (case execContainer spec target of
        None \<Rightarrow> Inl e
      | Some container \<Rightarrow> failIf (studentAccessibleContainer container) e)"

definition validateAdapterExecTargets :: "AdapterSpec \<Rightarrow> sandbox_error + unit" where
  "validateAdapterExecTargets spec =
     (let cmds = asCapabilityCommands spec
      in case execContainer spec (woExecTarget (asWorkspaceOps spec)) of
        None \<Rightarrow> Inl ErrSandboxWorkspaceOpsInvalid
      | Some workspaceContainer \<Rightarrow>
          if \<not> studentAccessibleContainer workspaceContainer \<or> \<not> shouldMountWorkspace workspaceContainer
          then Inl ErrSandboxWorkspaceOpsInvalid
          else bindR (initScriptExecTarget spec) (\<lambda>target.
               thenR (eachR (capability_target_check spec) [capDeploy cmds, capTx cmds, capQuery cmds, capReset cmds])
              (thenR (private_target_check spec (paExecTarget (asPrivateArchiveOps spec)) ErrSandboxPrivateDomainInvalid)
                 (if asInitAssets spec \<noteq> []
                  then private_target_check spec (paExecTarget (asInitAssetOps spec)) ErrSandboxInitAssetConfigInvalid
                  else Inr ()))))"

subsection \<open>Mounted domains and initial assets\<close>

definition adapterMountComponents :: "AdapterSpec \<Rightarrow> ComponentSpec list" where
  "adapterMountComponents spec =
     asRuntimeContainer spec # asInfraSidecars spec @
     concat (map (\<lambda>pod. podInitContainers pod @
       filter (\<lambda>component. \<not> podContainerIsReferenceOnly component) (podContainers pod)) (asPods spec))"

definition mounted_domain_check ::
  "(string \<Rightarrow> VolumeDomainSpec option) \<Rightarrow> ComponentSpec \<Rightarrow> string \<Rightarrow> sandbox_error + unit" where
  "mounted_domain_check declared component raw =
     (case declared (TrimSpace raw) of
        None \<Rightarrow> Inl ErrSandboxVolumeDomainInvalid
      | Some domain \<Rightarrow>
          failIf (vdName domain = VolumeDomainWorkspace
                  \<or> (vdName domain = VolumeDomainJudgePrivate \<and> studentAccessibleContainer component))
            ErrSandboxVolumeDomainInvalid)"

definition writable_domain_check ::
  "(string \<Rightarrow> VolumeDomainSpec option) \<Rightarrow> ComponentSpec \<Rightarrow> string \<Rightarrow> sandbox_error + unit" where
  "writable_domain_check declared component raw =
     (case declared (TrimSpace raw) of
        None \<Rightarrow> Inl ErrSandboxPrivateDomainInvalid
      | Some domain \<Rightarrow>
          if vdName domain = VolumeDomainWorkspace
             \<or> (vdName domain = VolumeDomainJudgePrivate \<and> studentAccessibleContainer component)
             \<or> vdStudentAccess domain = VolumeAccessReadWrite
          then Inl ErrSandboxPrivateDomainInvalid
          else failIf (TrimSpace raw \<notin> TrimSpace ` set (cMountDomains component)) ErrSandboxVolumeDomainInvalid)"

definition component_mount_check ::
  "(string \<Rightarrow> VolumeDomainSpec option) \<Rightarrow> ComponentSpec \<Rightarrow> sandbox_error + unit" where
  "component_mount_check declared component =
     thenR (eachR (mounted_domain_check declared component) (cMountDomains component))
       (eachR (writable_domain_check declared component) (cWritableMountDomains component))"

definition validateAdapterComponentMountDomains :: "AdapterSpec \<Rightarrow> sandbox_error + unit" where
  "validateAdapterComponentMountDomains spec =
     eachR (component_mount_check (by_key (\<lambda>domain. TrimSpace (vdName domain)) (asVolumeDomains spec)))
       (adapterMountComponents spec)"

definition componentCanWriteDomain :: "AdapterSpec \<Rightarrow> string \<Rightarrow> string \<Rightarrow> bool" where
  "componentCanWriteDomain adapter target domainName =
     (let parts = SplitN2 (TrimSpace target) slash
      in length parts = 2 \<and>
         list_ex (\<lambda>pod. podName pod = TrimSpace (parts ! 0) \<and>
           list_ex (\<lambda>component. cName component = TrimSpace (parts ! 1) \<and> \<not> studentAccessibleContainer component \<and>
             list_ex (\<lambda>raw. TrimSpace raw = TrimSpace domainName) (cWritableMountDomains component))
             (podContainers pod))
           (podTopologyForAdapter adapter))"

definition hexDigit :: "char \<Rightarrow> bool" where
  "hexDigit c \<longleftrightarrow> is_digit c \<or> CHR ''a'' \<le> c \<and> c \<le> CHR ''f'' \<or> CHR ''A'' \<le> c \<and> c \<le> CHR ''F''"

definition init_asset_step :: "AdapterSpec \<Rightarrow> string list \<Rightarrow> InitAssetSpec \<Rightarrow> sandbox_error + string list" where
  "init_asset_step spec seen asset =
     (let name = TrimSpace (iaName asset); hash = TrimSpace (iaExpectedSHA256 asset);
          phase = TrimSpace (iaApplyPhase asset)
      in if name = [] \<or> TrimSpace (iaSourceRef asset) = [] \<or> TrimSpace (iaTargetDomain asset) = []
         then Inl ErrSandboxInitAssetConfigInvalid
         else if name \<in> set seen then Inl ErrSandboxInitAssetConfigInvalid
         else case volumeDomainByName spec (iaTargetDomain asset) of
           None \<Rightarrow> Inl ErrSandboxInitAssetConfigInvalid
         | Some domain \<Rightarrow>
             if (vdName domain \<noteq> VolumeDomainRuntimeState \<and> vdName domain \<noteq> VolumeDomainPublicAssets)
                \<or> vdStudentAccess domain = VolumeAccessReadWrite
             then Inl ErrSandboxInitAssetConfigInvalid
             else if hash \<noteq> [] \<and> (length hash \<noteq> 64 \<or> \<not> list_all hexDigit hash)
             then Inl ErrSandboxInitAssetConfigInvalid
             else if phase \<noteq> [] \<and> \<not> EqualFold phase InitAssetApplyPhaseInit
                     \<and> \<not> EqualFold phase InitAssetApplyPhasePersonalization
             then Inl ErrSandboxInitAssetConfigInvalid
             else if \<not> componentCanWriteDomain spec (paExecTarget (asInitAssetOps spec)) (vdName domain)
             then Inl ErrSandboxInitAssetConfigInvalid
             else Inr (name # seen))"

definition validateInitAssets :: "AdapterSpec \<Rightarrow> sandbox_error + unit" where
  "validateInitAssets spec =
     (if asInitAssets spec = [] then Inr ()
      else bindR (foldR (init_asset_step spec) [] (asInitAssets spec)) (\<lambda>seen. Inr ()))"

subsection \<open>The whole adapter\<close>

definition validatePrepullCommand :: "string list \<Rightarrow> sandbox_error + string list" where
  "validatePrepullCommand command =
     (if command = [] then Inr []
      else if \<not> ValidCommand command then Inl ErrSandboxToolCreateInvalid
      else Inr (map TrimSpace command))"

definition claim_port_name :: "string list \<Rightarrow> PortSpec \<Rightarrow> sandbox_error + string list" where
  "claim_port_name seen port =
     (if portName port \<in> set seen then Inl ErrSandboxContainerSpecInvalid else Inr (portName port # seen))"

definition sidecar_step ::
  "quantities \<Rightarrow> SandboxConfig \<Rightarrow> string list \<Rightarrow> ComponentSpec \<Rightarrow>
     sandbox_error + ComponentSpec \<times> string list" where
  "sidecar_step parseQuantity cfg ports sidecar =
     bindR (validateRuntimeContainerSpec parseQuantity cfg False sidecar) (\<lambda>sidecar.
     thenR (validateInfraSidecarImage cfg sidecar)
    (bindR (withCause ErrSandboxAdapterSpecInvalid (validatePrepullCommand (cPrepullCommand sidecar))) (\<lambda>command.
       if command = [] then Inl ErrSandboxAdapterSpecInvalid
       else bindR (foldR claim_port_name ports (cPorts sidecar)) (\<lambda>ports.
              Inr (sidecar\<lparr>cPrepullCommand := command\<rparr>, ports)))))"

definition validateRuntimePrepullHold :: "ComponentSpec list \<Rightarrow> sandbox_error + unit" where
  "validateRuntimePrepullHold sidecars =
     failIf (length (filter cPrepullHold sidecars) \<noteq> 1) ErrSandboxAdapterSpecInvalid"

definition container_name_step :: "string list \<Rightarrow> ComponentSpec \<Rightarrow> sandbox_error + string list" where
  "container_name_step seen container =
     (if \<not> mountNamePattern (cName container) then Inl ErrSandboxContainerSpecInvalid
      else if cName container \<in> set seen then Inl ErrSandboxContainerSpecInvalid
      else Inr (cName container # seen))"

definition validateRuntimeContainerNames :: "AdapterSpec \<Rightarrow> sandbox_error + unit" where
  "validateRuntimeContainerNames spec =
     bindR (foldR container_name_step [] (asRuntimeContainer spec # asInfraSidecars spec)) (\<lambda>seen. Inr ())"

definition validateAdapterContainers ::
  "quantities \<Rightarrow> SandboxConfig \<Rightarrow> AdapterSpec \<Rightarrow> sandbox_error + AdapterSpec" where
  "validateAdapterContainers parseQuantity cfg spec =
     bindR (validateRuntimeContainerSpec parseQuantity cfg True (asRuntimeContainer spec)) (\<lambda>runtime.
     bindR (foldR claim_port_name [] (cPorts runtime)) (\<lambda>ports.
     bindR (mapAccR (sidecar_step parseQuantity cfg) ports (asInfraSidecars spec)) (\<lambda>(sidecars, ports).
       let spec = spec\<lparr>asRuntimeContainer := runtime, asInfraSidecars := sidecars\<rparr>
       in thenR (validateRuntimePrepullHold sidecars)
         (thenR (validateRuntimeContainerNames spec) (Inr spec)))))"

definition normalizeAndValidateAdapterSpec ::
  "quantities \<Rightarrow> SandboxConfig \<Rightarrow> AdapterSpec \<Rightarrow> sandbox_error + AdapterSpec" where
  "normalizeAndValidateAdapterSpec parseQuantity cfg spec =
     (if TrimSpace (asWorkspaceDir spec) = [] \<or> \<not> HasPrefix (asWorkspaceDir spec) ''/''
      then Inl ErrSandboxAdapterSpecInvalid
      else bindR (normalizeAndValidateVolumeDomains spec) (\<lambda>spec.
           thenR (validateWorkspaceOps (asWorkspaceOps spec))
          (thenR (validatePrivateArchiveOps (asPrivateArchiveOps spec))
          (thenR (if asInitAssets spec \<noteq> []
                  then withCause ErrSandboxInitAssetConfigInvalid (validatePrivateArchiveOps (asInitAssetOps spec))
                  else Inr ())
          (bindR (validateCapabilityCommands cfg spec) (\<lambda>spec.
           thenR (validateAdapterComponentMountDomains spec)
          (bindR (validateAdapterContainers parseQuantity cfg spec) (\<lambda>spec.
           thenR (if asPods spec = [] then validatePodPortConflicts (podTopologyForAdapter spec) else Inr ())
          (bindR (validatePodTopology spec) (\<lambda>spec.
           thenR (validateAdapterExecTargets spec)
          (thenR (validateInitAssets spec) (validateNetworkRules spec))))))))))))"

interpretation port_names: checking_loop claim_port_name portName "\<lambda>_. True"
  by unfold_locales (auto simp: claim_port_name_def)

interpretation container_names: checking_loop container_name_step cName "\<lambda>c. mountNamePattern (cName c)"
  by unfold_locales (auto simp: container_name_step_def)

definition sidecar_good :: "quantities \<Rightarrow> SandboxConfig \<Rightarrow> ComponentSpec \<Rightarrow> bool" where
  "sidecar_good parseQuantity cfg c \<longleftrightarrow> container_wf parseQuantity c \<and> unprivileged c \<and>
     admitted_image cfg (cImageURL c) \<and> ValidCommand (cPrepullCommand c)"

lemma sidecar_step_good:
  assumes "sidecar_step pq cfg ports c = Inr (d, ports')"
  shows "sidecar_good pq cfg d"
proof -
  from assms obtain e cmd where v: "validateRuntimeContainerSpec pq cfg False c = Inr e"
    and img: "validateInfraSidecarImage cfg e = Inr ()"
    and cmd: "validatePrepullCommand (cPrepullCommand e) = Inr cmd" "cmd \<noteq> []"
    and d: "d = e\<lparr>cPrepullCommand := cmd\<rparr>"
    unfolding sidecar_step_def bindR_Inr thenR_Inr withCause_Inr if_Inl_Inr by auto
  have "container_wf pq e \<and> unprivileged e" by (rule container_checked [OF v])
  moreover have "validateComponentMountDomains d = Inr () \<longleftrightarrow> validateComponentMountDomains e = Inr ()"
    by (rule mount_check_same) (simp_all add: d)
  ultimately have "container_wf pq d" "unprivileged d"
    by (auto simp: container_wf_def unprivileged_def d)
  moreover have "ValidCommand cmd"
    using cmd ValidCommand_trim by (auto simp: validatePrepullCommand_def split: if_splits)
  moreover have "admitted_image cfg (cImageURL d)"
    using img imageRefAttested_admitted by (simp add: validateInfraSidecarImage_def failIf_Inr d)
  ultimately show ?thesis by (simp add: sidecar_good_def d)
qed

lemma sidecars_good:
  "mapAccR (sidecar_step pq cfg) ports cs = Inr (ds, ports') \<Longrightarrow> \<forall>d \<in> set ds. sidecar_good pq cfg d"
proof (induction cs arbitrary: ports ds)
  case (Cons c cs)
  then show ?case
    by (auto simp: bindR_Inr dest: sidecar_step_good)
qed simp

lemma adapterContainers_accepted:
  assumes "validateAdapterContainers pq cfg spec = Inr spec'"
  shows "spec' = spec\<lparr>asRuntimeContainer := asRuntimeContainer spec', asInfraSidecars := asInfraSidecars spec'\<rparr> \<and>
    validateRuntimeContainerSpec pq cfg True (asRuntimeContainer spec) = Inr (asRuntimeContainer spec') \<and>
    (\<forall>c \<in> set (asInfraSidecars spec'). sidecar_good pq cfg c) \<and>
    distinct (map cName (asRuntimeContainer spec' # asInfraSidecars spec')) \<and>
    length (filter cPrepullHold (asInfraSidecars spec')) = 1"
proof -
  from assms obtain runtime ports sidecars ports' where
    r: "validateRuntimeContainerSpec pq cfg True (asRuntimeContainer spec) = Inr runtime" and
    m: "mapAccR (sidecar_step pq cfg) ports (asInfraSidecars spec) = Inr (sidecars, ports')" and
    h: "validateRuntimePrepullHold sidecars = Inr ()" and
    n: "validateRuntimeContainerNames spec' = Inr ()" and
    s: "spec' = spec\<lparr>asRuntimeContainer := runtime, asInfraSidecars := sidecars\<rparr>"
    unfolding validateAdapterContainers_def bindR_Inr Let_def by (auto simp: thenR_Inr)
  have "distinct (map cName (runtime # sidecars))"
    using n unfolding validateRuntimeContainerNames_def bindR_Inr by (simp add: s container_names.loop_ok del: foldR.simps)
  with r sidecars_good [OF m] h show ?thesis
    by (simp add: s validateRuntimePrepullHold_def failIf_Inr)
qed

text \<open>The containers of the topology are the declared ones.\<close>

lemma resolve_declared:
  "declared_container spec c \<Longrightarrow> declared_container spec (resolve_container (declaredContainerMap spec) c)"
proof (cases "declaredContainerMap spec (cName c)")
  case (Some d)
  then have "declared_container spec d"
    using declaredContainerMap_name [OF Some] by (auto simp: declared_container_def)
  then show "declared_container spec c \<Longrightarrow> ?thesis" by (simp add: resolve_container_def Some)
qed (simp add: resolve_container_def)

lemma append_to_first_containers:
  "pod \<in> set (append_to_first P c pods) \<Longrightarrow> x \<in> set (podContainers pod) \<Longrightarrow>
     x = c \<or> (\<exists>pod \<in> set pods. x \<in> set (podContainers pod))"
  by (induction pods) (auto split: if_splits)

lemma attach_sidecars_containers:
  "pod \<in> set (fst (foldl (attach_sidecar n) st cs)) \<Longrightarrow> x \<in> set (podContainers pod) \<Longrightarrow>
     x \<in> set cs \<or> (\<exists>pod \<in> set (fst st). x \<in> set (podContainers pod))"
proof (induction cs arbitrary: st)
  case (Cons c cs)
  have "x \<in> set cs \<or> (\<exists>pod \<in> set (fst (attach_sidecar n st c)). x \<in> set (podContainers pod))"
    using Cons.IH [of "attach_sidecar n st c"] Cons.prems by simp
  then show ?case
    by (cases st) (auto simp: attach_sidecar_def dest: append_to_first_containers split: if_splits)
qed auto

lemma topology_declared:
  assumes "\<forall>pod \<in> set (asPods spec). \<forall>c \<in> set (podContainers pod). declared_container spec c"
    and "pod \<in> set (podTopologyForAdapter spec)" and "c \<in> set (podContainers pod)"
  shows "declared_container spec c"
proof (cases "asPods spec = []")
  case True
  then show ?thesis using assms(2,3) by (auto simp: podTopologyForAdapter_def declared_container_def)
next
  case False
  have "c \<in> set (asInfraSidecars spec) \<or>
      (\<exists>p \<in> set (asPods spec). c \<in> set (map (resolve_container (declaredContainerMap spec)) (podContainers p)))"
    using assms(2,3) False unfolding podTopologyForAdapter_def Let_def
    by (auto dest!: attach_sidecars_containers)
  then show ?thesis
  proof
    assume "c \<in> set (asInfraSidecars spec)"
    then show ?thesis by (simp add: declared_container_def)
  next
    assume "\<exists>p \<in> set (asPods spec). c \<in> set (map (resolve_container (declaredContainerMap spec)) (podContainers p))"
    then obtain p x where "p \<in> set (asPods spec)" "x \<in> set (podContainers p)"
      "c = resolve_container (declaredContainerMap spec) x"
      by auto
    then show ?thesis using assms(1) resolve_declared by blast
  qed
qed

lemma topology_rules: "podTopologyForAdapter (spec\<lparr>asNetworkRules := r\<rparr>) = podTopologyForAdapter spec"
  by (simp add: podTopologyForAdapter_def declaredContainerMap_def)

lemma exec_rules: "execContainer (spec\<lparr>asNetworkRules := r\<rparr>) t = execContainer spec t"
  by (simp add: execContainer_def execContainers_def topology_rules)

lemma exec_in_topology:
  "execContainer spec t = Some c \<Longrightarrow>
     \<exists>pod \<in> set (podTopologyForAdapter spec). c \<in> set (podContainers pod)
        \<and> TrimSpace t = podName pod @ ''/'' @ cName c"
  by (auto simp: execContainer_def execContainers_def dest!: by_key_Some)

lemma capability_cases:
  assumes "validateCapabilityCommands cfg spec = Inr spec'"
  shows "spec' = spec \<or> (\<exists>x. spec' = spec\<lparr>asCapabilityCommands := x\<rparr>)"
proof (cases "hasCapabilityCommands (asCapabilityCommands spec)")
  case False
  then show ?thesis using assms by (simp add: validateCapabilityCommands_def Let_def)
next
  case True
  then obtain d t q where
    "(let cmds = (asCapabilityCommands spec)\<lparr>capDeploy := d, capTx := t, capQuery := q\<rparr>;
          strategy = TrimSpace (capResetStrategy cmds)
      in if strategy = recreate_runtime
         then (if ccCommand (capReset cmds) \<noteq> [] then Inl ErrSandboxCapabilityCommandInvalid
               else Inr (spec\<lparr>asCapabilityCommands := cmds\<rparr>))
         else if strategy \<noteq> [] then Inl ErrSandboxCapabilityCommandInvalid
         else bindR (capability_check cfg (capReset cmds)) (\<lambda>reset.
                Inr (spec\<lparr>asCapabilityCommands := cmds\<lparr>capReset := reset\<rparr>\<rparr>))) = Inr spec'"
    using assms by (simp add: validateCapabilityCommands_def Let_def [of "asCapabilityCommands spec"] bindR_Inr)
      blast
  then show ?thesis unfolding Let_def by (simp add: bindR_Inr split: if_split_asm) blast+
qed

lemma capability_same:
  assumes "validateCapabilityCommands cfg spec = Inr spec'"
  shows "spec' = spec\<lparr>asCapabilityCommands := asCapabilityCommands spec'\<rparr>"
  using capability_cases [OF assms] by auto

lemma adapter_stages:
  assumes "normalizeAndValidateAdapterSpec pq cfg spec = Inr spec'"
  obtains s1 s2 s3 s4 where
    "normalizeAndValidateVolumeDomains spec = Inr s1"
    "validateWorkspaceOps (asWorkspaceOps s1) = Inr ()"
    "validatePrivateArchiveOps (asPrivateArchiveOps s1) = Inr ()"
    "validateCapabilityCommands cfg s1 = Inr s2"
    "validateAdapterComponentMountDomains s2 = Inr ()"
    "validateAdapterContainers pq cfg s2 = Inr s3"
    "asPods s3 = [] \<Longrightarrow> validatePodPortConflicts (podTopologyForAdapter s3) = Inr ()"
    "validatePodTopology s3 = Inr s4"
    "validateAdapterExecTargets s4 = Inr ()"
    "validateInitAssets s4 = Inr ()"
    "validateNetworkRules s4 = Inr spec'"
proof -
  have "\<exists>s1 s2 s3 s4. normalizeAndValidateVolumeDomains spec = Inr s1 \<and>
    validateWorkspaceOps (asWorkspaceOps s1) = Inr () \<and>
    validatePrivateArchiveOps (asPrivateArchiveOps s1) = Inr () \<and>
    validateCapabilityCommands cfg s1 = Inr s2 \<and>
    validateAdapterComponentMountDomains s2 = Inr () \<and>
    validateAdapterContainers pq cfg s2 = Inr s3 \<and>
    (if asPods s3 = [] then validatePodPortConflicts (podTopologyForAdapter s3) else Inr ()) = Inr () \<and>
    validatePodTopology s3 = Inr s4 \<and> validateAdapterExecTargets s4 = Inr () \<and>
    validateInitAssets s4 = Inr () \<and> validateNetworkRules s4 = Inr spec'"
    using assms unfolding normalizeAndValidateAdapterSpec_def if_Inl_Inr bindR_Inr thenR_Inr by blast
  then show thesis by (elim exE conjE) (rule that, assumption+, simp, assumption+)
qed

text \<open>The parts of the accepted adapter the properties speak about.\<close>

lemma adapter_accepted:
  assumes "normalizeAndValidateAdapterSpec pq cfg spec = Inr spec'"
  shows "\<exists>s3 s4. validateRuntimeContainerSpec pq cfg True (asRuntimeContainer spec) = Inr (asRuntimeContainer spec') \<and>
    (\<forall>c \<in> set (asInfraSidecars spec'). sidecar_good pq cfg c) \<and>
    distinct (map cName (asRuntimeContainer spec' # asInfraSidecars spec')) \<and>
    (\<forall>pod \<in> set (asPods spec'). pod_wf spec' pod) \<and>
    (asPods spec' = [] \<longrightarrow> validatePodPortConflicts (podTopologyForAdapter spec') = Inr ()) \<and>
    asVolumeDomains s3 = asVolumeDomains spec' \<and>
    validateAdapterExecTargets s4 = Inr () \<and> validateInitAssets s4 = Inr () \<and>
    validateNetworkRules s4 = Inr spec' \<and> spec' = s4\<lparr>asNetworkRules := asNetworkRules spec'\<rparr> \<and>
    normalizeAndValidateVolumeDomains spec = Inr s3"
proof -
  from adapter_stages [OF assms] obtain s1 s2 s3 s4 where st:
    "normalizeAndValidateVolumeDomains spec = Inr s1"
    "validateCapabilityCommands cfg s1 = Inr s2"
    "validateAdapterContainers pq cfg s2 = Inr s3"
    "asPods s3 = [] \<Longrightarrow> validatePodPortConflicts (podTopologyForAdapter s3) = Inr ()"
    "validatePodTopology s3 = Inr s4"
    "validateAdapterExecTargets s4 = Inr ()" "validateInitAssets s4 = Inr ()"
    "validateNetworkRules s4 = Inr spec'"
    by metis
  from st(1) have e1: "s1 = spec\<lparr>asVolumeDomains := asVolumeDomains s1\<rparr>"
    by (metis volumeDomains_accepted)
  note e2 = capability_same [OF st(2)]
  note c3 = adapterContainers_accepted [OF st(3)]
  note c4 = podTopology_accepted [OF st(5)]
  have e5: "spec' = s4\<lparr>asNetworkRules := asNetworkRules spec'\<rparr>"
    using st(8) by (auto simp: networkRules_loop)
  have e3: "s3 = s2\<lparr>asRuntimeContainer := asRuntimeContainer s3, asInfraSidecars := asInfraSidecars s3\<rparr>"
    using c3 by blast
  have e4: "s4 = s3\<lparr>asPods := asPods s4\<rparr>" using c4 by blast
  have rt2: "asRuntimeContainer s2 = asRuntimeContainer spec"
    by (subst e2, subst e1) simp
  have same4: "asRuntimeContainer s4 = asRuntimeContainer s3" "asInfraSidecars s4 = asInfraSidecars s3"
    "asVolumeDomains s4 = asVolumeDomains s3"
    by (subst e4, simp)+
  have vd: "asVolumeDomains s3 = asVolumeDomains s1"
    by (subst e3, simp, subst e2, simp)
  have same5: "asRuntimeContainer spec' = asRuntimeContainer s3" "asInfraSidecars spec' = asInfraSidecars s3"
    "asVolumeDomains spec' = asVolumeDomains s1" "asPods spec' = asPods s4"
    using same4 vd by (subst e5, simp)+
  have "\<forall>pod \<in> set (asPods spec'). pod_wf spec' pod"
    using c4 same5 vd by (simp add: pod_wf_def declared_container_def hasVolumeDomain_def)
  moreover have "validatePodPortConflicts (podTopologyForAdapter spec') = Inr ()" if "asPods spec' = []"
  proof -
    have "asPods s3 = []" "s4 = s3" using that same5(4) c4 e4 by auto
    then show ?thesis using st(4) by (subst e5) (simp add: topology_rules)
  qed
  ultimately show ?thesis
    using c3 st(1,6,7,8) e5 by (auto simp: same5 rt2)
qed

text \<open>
  The pods of an accepted runtime keep judge data away from students: every container of the
  topology passed the container checks and runs unprivileged, a container students may enter mounts
  no private judge domain, and every container other than the main one starts an admitted image.
\<close>

theorem adapter_isolates_judge:
  assumes "normalizeAndValidateAdapterSpec pq cfg spec = Inr spec'"
  shows "\<forall>pod \<in> set (podTopologyForAdapter spec'). \<forall>c \<in> set (podContainers pod).
    container_wf pq c \<and> unprivileged c \<and>
    (studentAccessibleContainer c \<longrightarrow> VolumeDomainJudgePrivate \<notin> TrimSpace ` set (cMountDomains c)) \<and>
    (cName c \<noteq> cName (asRuntimeContainer spec') \<longrightarrow> admitted_image cfg (cImageURL c))"
proof (intro ballI)
  fix pod c
  assume "pod \<in> set (podTopologyForAdapter spec')" "c \<in> set (podContainers pod)"
  then have "declared_container spec' c"
    using adapter_accepted [OF assms] topology_declared by (metis pod_wf_def)
  then have c: "c = asRuntimeContainer spec' \<or> sidecar_good pq cfg c"
    using adapter_accepted [OF assms] by (auto simp: declared_container_def)
  have "container_wf pq (asRuntimeContainer spec') \<and> unprivileged (asRuntimeContainer spec')"
    using adapter_accepted [OF assms] container_checked by blast
  with c have wf: "container_wf pq c" "unprivileged c" by (auto simp: sidecar_good_def)
  then have "\<forall>m \<in> set (cMountDomains c). mount_good c m"
    by (simp add: container_wf_def mountDomains_accepted)
  with wf c show "container_wf pq c \<and> unprivileged c \<and>
    (studentAccessibleContainer c \<longrightarrow> VolumeDomainJudgePrivate \<notin> TrimSpace ` set (cMountDomains c)) \<and>
    (cName c \<noteq> cName (asRuntimeContainer spec') \<longrightarrow> admitted_image cfg (cImageURL c))"
    by (auto simp: mount_good_def sidecar_good_def)
qed

definition sampleIde :: ComponentSpec where
  "sampleIde = zeroComponent\<lparr>cName := ''ide'', cImageURL := sampleImage,
     cLabels := [(''chaimir.io/student-access'', ''true'')], cMountWorkspace := Some True,
     cPrepullCommand := [''true''], cPrepullHold := True\<rparr>"

definition sampleHelper :: ComponentSpec where
  "sampleHelper = zeroComponent\<lparr>cName := ''helper'', cImageURL := sampleImage, cMountWorkspace := Some True,
     cEphemeralMounts := [\<lparr>emName = ''tmp'', emMountPath = ''/tmp''\<rparr>], cPrepullCommand := [''true'']\<rparr>"

definition sampleLoader :: ComponentSpec where
  "sampleLoader = zeroComponent\<lparr>cName := ''loader'', cImageURL := sampleImage,
     cMountDomains := [''runtime-state''], cWritableMountDomains := [''runtime-state''],
     cPrepullCommand := [''true'']\<rparr>"

definition sampleAdapter :: AdapterSpec where
  "sampleAdapter = zeroAdapter\<lparr>asWorkspaceDir := ''/workspace'',
     asVolumeDomains := [
       \<lparr>vdName = ''workspace'', vdMountPath = ''/workspace'', vdStudentAccess = ''read_write'',
         vdPersistence = ''object_storage_code'', vdSnapshotScope = ''always''\<rparr>,
       \<lparr>vdName = ''judge-private'', vdMountPath = ''/judge-private'', vdStudentAccess = ''none'',
         vdPersistence = ''ephemeral'', vdSnapshotScope = ''never''\<rparr>,
       \<lparr>vdName = ''runtime-state'', vdMountPath = ''/runtime-state'', vdStudentAccess = ''none'',
         vdPersistence = ''ephemeral'', vdSnapshotScope = ''snapshot_enabled''\<rparr>],
     asRuntimeContainer := sampleRuntimeContainer, asInfraSidecars := [sampleIde, sampleHelper, sampleLoader],
     asInitAssets := [\<lparr>iaName = ''genesis'', iaSourceRef = ''assets/genesis'', iaTargetDomain = ''runtime-state'',
       iaExpectedSHA256 = [], iaApplyPhase = ''init''\<rparr>],
     asInitAssetOps := \<lparr>paExecTarget = ''sandbox/loader'', paUnpackTar = [''unpack'']\<rparr>,
     asWorkspaceOps := zeroWorkspaceOps\<lparr>woExecTarget := ''sandbox/ide'', woScriptExecTarget := ''sandbox/helper'',
       woCleanWorkspace := [''clean''], woReadFile := [''read''], woWriteFile := [''write''],
       woListFiles := [''list''], woPackTar := [''pack''], woUnpackTar := [''unpack''],
       woRunScript := [''run''], woTerminal := [''bash''], woSelftest := [''selftest'']\<rparr>,
     asPrivateArchiveOps := \<lparr>paExecTarget = ''sandbox/node'', paUnpackTar = [''unpack'']\<rparr>\<rparr>"

lemma sampleAdapter_accepted:
  obtains spec' where "normalizeAndValidateAdapterSpec decimalQuantity sampleConfig sampleAdapter = Inr spec'"
proof -
  have "\<not> isl (normalizeAndValidateAdapterSpec decimalQuantity sampleConfig sampleAdapter)"
    by code_simp
  then show thesis
    using that by (cases "normalizeAndValidateAdapterSpec decimalQuantity sampleConfig sampleAdapter") simp_all
qed

theorem adapter_isolates_judge_witness:
  "\<exists>spec'. normalizeAndValidateAdapterSpec decimalQuantity sampleConfig sampleAdapter = Inr spec' \<and>
     (\<forall>pod \<in> set (podTopologyForAdapter spec'). \<forall>c \<in> set (podContainers pod). unprivileged c)"
proof -
  obtain spec' where "normalizeAndValidateAdapterSpec decimalQuantity sampleConfig sampleAdapter = Inr spec'"
    by (rule sampleAdapter_accepted)
  with adapter_isolates_judge [OF this] show ?thesis by blast
qed

lemma private_target_accepted:
  "private_target_check spec target e = Inr u \<longleftrightarrow>
     (\<exists>c. execContainer spec target = Some c \<and> \<not> studentAccessibleContainer c)"
  by (auto simp: private_target_check_def failIf_Inr split: option.splits)

lemma capability_target_accepted:
  "capability_target_check spec cmd = Inr u \<longleftrightarrow> ccCommand cmd = [] \<or>
     (\<exists>c. execContainer spec (ccExecTarget cmd) = Some c \<and> \<not> studentAccessibleContainer c)"
  by (auto simp: capability_target_check_def failIf_Inr split: option.splits)

lemma scriptTarget_accepted:
  assumes "initScriptExecTarget spec = Inr target"
  shows "target = TrimSpace (woScriptExecTarget (asWorkspaceOps spec)) \<and>
    target \<noteq> TrimSpace (woExecTarget (asWorkspaceOps spec)) \<and>
    (\<exists>c. (target, c) \<in> set (execContainers spec) \<and> script_container_check c)"
proof -
  from assms obtain name c where
    f: "find (\<lambda>(name, component). name = target) (execContainers spec) = Some (name, c)"
    and t: "target = TrimSpace (woScriptExecTarget (asWorkspaceOps spec))"
      "target \<noteq> TrimSpace (woExecTarget (asWorkspaceOps spec))" "script_container_check c"
    unfolding initScriptExecTarget_def Let_def if_Inl_Inr
    by (auto simp: if_not_Inl_Inr split: option.splits if_splits)
  then show ?thesis using t by (auto simp: find_Some_iff in_set_conv_nth)
qed

lemma execTargets_accepted:
  "validateAdapterExecTargets spec = Inr () \<longleftrightarrow>
     (\<exists>c. execContainer spec (woExecTarget (asWorkspaceOps spec)) = Some c \<and>
        studentAccessibleContainer c \<and> shouldMountWorkspace c) \<and>
     (\<exists>target. initScriptExecTarget spec = Inr target) \<and>
     (\<forall>cmd \<in> {capDeploy (asCapabilityCommands spec), capTx (asCapabilityCommands spec),
                capQuery (asCapabilityCommands spec), capReset (asCapabilityCommands spec)}.
        capability_target_check spec cmd = Inr ()) \<and>
     private_target_check spec (paExecTarget (asPrivateArchiveOps spec)) ErrSandboxPrivateDomainInvalid = Inr () \<and>
     (asInitAssets spec \<noteq> [] \<longrightarrow>
        private_target_check spec (paExecTarget (asInitAssetOps spec)) ErrSandboxInitAssetConfigInvalid = Inr ())"
  by (auto simp: validateAdapterExecTargets_def Let_def if_Inl_Inr bindR_Inr thenR_Inr eachR_Inr
      simp del: eachR.simps split: option.splits if_splits)

text \<open>
  Controlled commands enter the right containers of an accepted runtime: files and terminal
  go to a container students may enter that mounts the workspace, the private script and cleanup
  target is a different container that students cannot enter, that holds no secret and can write
  no shared domain, and the hidden archive, the chain commands and the initial assets go to
  containers students cannot enter.
\<close>

theorem adapter_targets:
  assumes "normalizeAndValidateAdapterSpec pq cfg spec = Inr spec'"
  shows "(\<exists>c. execContainer spec' (woExecTarget (asWorkspaceOps spec')) = Some c \<and>
        studentAccessibleContainer c \<and> shouldMountWorkspace c) \<and>
     TrimSpace (woScriptExecTarget (asWorkspaceOps spec')) \<noteq> TrimSpace (woExecTarget (asWorkspaceOps spec')) \<and>
     (\<exists>c. (TrimSpace (woScriptExecTarget (asWorkspaceOps spec')), c) \<in> set (execContainers spec') \<and>
        \<not> studentAccessibleContainer c \<and> cSecretEnv c = [] \<and> cWritableMountDomains c = []) \<and>
     (\<exists>c. execContainer spec' (paExecTarget (asPrivateArchiveOps spec')) = Some c \<and>
        \<not> studentAccessibleContainer c) \<and>
     (\<forall>cmd \<in> {capDeploy (asCapabilityCommands spec'), capTx (asCapabilityCommands spec'),
                capQuery (asCapabilityCommands spec'), capReset (asCapabilityCommands spec')}.
        ccCommand cmd \<noteq> [] \<longrightarrow> (\<exists>c. execContainer spec' (ccExecTarget cmd) = Some c \<and>
           \<not> studentAccessibleContainer c)) \<and>
     (asInitAssets spec' \<noteq> [] \<longrightarrow> (\<exists>c. execContainer spec' (paExecTarget (asInitAssetOps spec')) = Some c \<and>
        \<not> studentAccessibleContainer c))"
proof -
  obtain s4 where s4: "validateAdapterExecTargets s4 = Inr ()"
    and e: "spec' = s4\<lparr>asNetworkRules := asNetworkRules spec'\<rparr>"
    using adapter_accepted [OF assms] by blast
  have x: "execContainer spec' = execContainer s4" by (rule ext, subst e, rule exec_rules)
  have xs: "execContainers spec' = execContainers s4"
    by (subst e) (simp add: execContainers_def topology_rules)
  have f: "asWorkspaceOps spec' = asWorkspaceOps s4" "asPrivateArchiveOps spec' = asPrivateArchiveOps s4"
    "asCapabilityCommands spec' = asCapabilityCommands s4" "asInitAssets spec' = asInitAssets s4"
    "asInitAssetOps spec' = asInitAssetOps s4"
    by (subst e, simp)+
  obtain target where "initScriptExecTarget s4 = Inr target"
    using s4 unfolding execTargets_accepted by blast
  note script = scriptTarget_accepted [OF this]
  show ?thesis
    using s4 script unfolding execTargets_accepted private_target_accepted capability_target_accepted
      script_container_check_def x xs f by blast
qed

theorem adapter_targets_witness:
  "\<exists>spec'. normalizeAndValidateAdapterSpec decimalQuantity sampleConfig sampleAdapter = Inr spec' \<and>
     (\<exists>c. execContainer spec' (paExecTarget (asPrivateArchiveOps spec')) = Some c \<and>
        \<not> studentAccessibleContainer c)"
proof -
  obtain spec' where "normalizeAndValidateAdapterSpec decimalQuantity sampleConfig sampleAdapter = Inr spec'"
    by (rule sampleAdapter_accepted)
  with adapter_targets [OF this] show ?thesis by blast
qed

text \<open>The reviewed initial assets of an adapter.\<close>

definition asset_good :: "AdapterSpec \<Rightarrow> InitAssetSpec \<Rightarrow> bool" where
  "asset_good spec a \<longleftrightarrow> TrimSpace (iaName a) \<noteq> [] \<and> TrimSpace (iaSourceRef a) \<noteq> [] \<and>
     TrimSpace (iaTargetDomain a) \<noteq> [] \<and>
     (\<exists>domain. volumeDomainByName spec (iaTargetDomain a) = Some domain \<and>
        vdName domain \<in> {VolumeDomainRuntimeState, VolumeDomainPublicAssets} \<and>
        vdStudentAccess domain \<noteq> VolumeAccessReadWrite \<and>
        componentCanWriteDomain spec (paExecTarget (asInitAssetOps spec)) (vdName domain)) \<and>
     (TrimSpace (iaExpectedSHA256 a) \<noteq> [] \<longrightarrow>
        length (TrimSpace (iaExpectedSHA256 a)) = 64 \<and> list_all hexDigit (TrimSpace (iaExpectedSHA256 a))) \<and>
     (TrimSpace (iaApplyPhase a) \<noteq> [] \<longrightarrow> EqualFold (TrimSpace (iaApplyPhase a)) InitAssetApplyPhaseInit \<or>
        EqualFold (TrimSpace (iaApplyPhase a)) InitAssetApplyPhasePersonalization)"

interpretation assets: checking_loop "init_asset_step spec" "\<lambda>a. TrimSpace (iaName a)" "asset_good spec" for spec
proof
  show "init_asset_step spec seen x = Inr seen' \<longleftrightarrow>
      asset_good spec x \<and> TrimSpace (iaName x) \<notin> set seen \<and> seen' = TrimSpace (iaName x) # seen" for seen x seen'
    unfolding init_asset_step_def asset_good_def Let_def if_Inl_Inr
    by (cases "volumeDomainByName spec (iaTargetDomain x)") (simp_all add: if_Inl_Inr, blast)
qed

lemma initAssets_accepted:
  "validateInitAssets spec = Inr () \<longleftrightarrow>
     (\<forall>a \<in> set (asInitAssets spec). asset_good spec a) \<and>
     distinct (map (\<lambda>a. TrimSpace (iaName a)) (asInitAssets spec))"
  by (cases "asInitAssets spec = []")
    (auto simp: validateInitAssets_def bindR_Inr assets.loop_Inr simp del: foldR.simps)

text \<open>
  Initial assets are controlled: in an accepted adapter their names are distinct, each is
  written only into the runtime state or the public assets, never into a domain students can write,
  through a container that declared that write, and a declared hash has the form of a SHA-256.
\<close>

theorem adapter_assets_controlled:
  assumes "normalizeAndValidateAdapterSpec pq cfg spec = Inr spec'"
  shows "distinct (map (\<lambda>a. TrimSpace (iaName a)) (asInitAssets spec')) \<and>
    (\<forall>a \<in> set (asInitAssets spec').
      (\<exists>domain \<in> set (asVolumeDomains spec'). vdName domain = TrimSpace (iaTargetDomain a) \<and>
        vdName domain \<in> {VolumeDomainRuntimeState, VolumeDomainPublicAssets} \<and>
        vdStudentAccess domain \<noteq> VolumeAccessReadWrite \<and>
        componentCanWriteDomain spec' (paExecTarget (asInitAssetOps spec')) (vdName domain)) \<and>
      (TrimSpace (iaExpectedSHA256 a) \<noteq> [] \<longrightarrow> length (TrimSpace (iaExpectedSHA256 a)) = 64))"
proof -
  obtain s4 where s4: "validateInitAssets s4 = Inr ()" and e: "spec' = s4\<lparr>asNetworkRules := asNetworkRules spec'\<rparr>"
    using adapter_accepted [OF assms] by blast
  have f: "asInitAssets spec' = asInitAssets s4" "asInitAssetOps spec' = asInitAssetOps s4"
    "asVolumeDomains spec' = asVolumeDomains s4"
    by (subst e, simp)+
  have w: "componentCanWriteDomain spec' = componentCanWriteDomain s4"
    by (intro ext, subst e) (simp add: componentCanWriteDomain_def topology_rules)
  have d: "volumeDomainByName s4 n = Some domain \<Longrightarrow>
      domain \<in> set (asVolumeDomains s4) \<and> vdName domain = TrimSpace n" for n domain
    by (auto simp: volumeDomainByName_def find_Some_iff)
  show ?thesis
    using s4 unfolding initAssets_accepted asset_good_def f w by (meson d)
qed

theorem adapter_assets_controlled_witness:
  "\<exists>spec'. normalizeAndValidateAdapterSpec decimalQuantity sampleConfig sampleAdapter = Inr spec' \<and>
     distinct (map (\<lambda>a. TrimSpace (iaName a)) (asInitAssets spec'))"
proof -
  obtain spec' where "normalizeAndValidateAdapterSpec decimalQuantity sampleConfig sampleAdapter = Inr spec'"
    by (rule sampleAdapter_accepted)
  with adapter_assets_controlled [OF this] show ?thesis by blast
qed

end
