(* ===== verification/SandboxTools.thy ===== *)
theory SandboxTools
  imports SandboxAdapter
begin

section \<open>Sandbox engine: tools\<close>

text \<open>
  Tool and runtime registration (\<open>rules.go\<close>): the legal combinations of a tool's kind with its
  components, services, routes, network rules and command policy, and the container checks of web
  and command tools. The JSON decoder \<open>jsonx.DecodeStrictKnownFields\<close> (reflection over
  \<open>encoding/json\<close>) is a parameter \<open>decode\<close>, \<open>None\<close> being its error.
\<close>

record ToolRequest =
  tqrCode :: string
  tqrName :: string
  tqrKind :: int
  tqrEcoTags :: "string list"
  tqrResourceSpec :: string
  tqrStatus :: int

record RuntimeRequest =
  rqCode :: string
  rqName :: string
  rqEco :: string
  rqAdapterLevel :: int
  rqAdapterSpec :: string
  rqCapabilityImpl :: string
  rqPluginRef :: string
  rqStatus :: int

subsection \<open>Ephemeral mounts\<close>

definition blockedMounts :: "string list" where
  "blockedMounts = [''/workspace'', ''/runtime-state'', ''/judge-private'', ''/var/run'', ''/etc'',
     ''/proc'', ''/sys'', ''/dev'']"

definition trimMount :: "EphemeralMountSpec \<Rightarrow> EphemeralMountSpec" where
  "trimMount m = \<lparr>emName = TrimSpace (emName m), emMountPath = Clean (TrimSpace (emMountPath m))\<rparr>"

text \<open>The local maps of names and paths are the list of the mounts seen, with normalised fields.\<close>

definition tool_mount_step ::
  "EphemeralMountSpec list \<Rightarrow> EphemeralMountSpec \<Rightarrow>
     sandbox_error + EphemeralMountSpec \<times> EphemeralMountSpec list" where
  "tool_mount_step seen raw =
     (let mount = trimMount raw
      in if \<not> mountNamePattern (emName mount) \<or> \<not> HasPrefix (emMountPath mount) ''/'' \<or> emMountPath mount = ''/''
         then Inl ErrSandboxToolCreateInvalid
         else if emName mount \<in> set (map emName seen) then Inl ErrSandboxToolCreateInvalid
         else if list_ex (volumePathOverlaps (emMountPath mount)) blockedMounts then Inl ErrSandboxToolCreateInvalid
         else if list_ex (\<lambda>existing. volumePathOverlaps (emMountPath mount) (emMountPath existing)) seen
         then Inl ErrSandboxToolCreateInvalid
         else Inr (mount, mount # seen))"

definition validateToolEphemeralMounts :: "EphemeralMountSpec list \<Rightarrow> sandbox_error + unit" where
  "validateToolEphemeralMounts mounts = bindR (mapAccR tool_mount_step [] mounts) (\<lambda>r. Inr ())"

definition mount_safe :: "EphemeralMountSpec \<Rightarrow> bool" where
  "mount_safe m \<longleftrightarrow> mountNamePattern (emName m) \<and> HasPrefix (emMountPath m) ''/'' \<and> emMountPath m \<noteq> ''/'' \<and>
     (\<forall>b \<in> set blockedMounts. \<not> volumePathOverlaps (emMountPath m) b)"

interpretation tool_mounts: pairwise_loop tool_mount_step trimMount mount_safe
  "\<lambda>a b. emName a \<noteq> emName b \<and> \<not> volumePathOverlaps (emMountPath b) (emMountPath a)"
proof
  fix seen x y seen'
  assume "tool_mount_step seen x = Inr (y, seen')"
  then have y: "y = trimMount x" "seen' = y # seen" and
    checks: "mountNamePattern (emName y)" "HasPrefix (emMountPath y) ''/''" "emMountPath y \<noteq> ''/''"
      "emName y \<notin> set (map emName seen)" "\<not> list_ex (volumePathOverlaps (emMountPath y)) blockedMounts"
      "\<not> list_ex (\<lambda>e. volumePathOverlaps (emMountPath y) (emMountPath e)) seen"
    unfolding tool_mount_step_def Let_def if_Inl_Inr by blast+
  have "mount_safe y" using checks unfolding mount_safe_def list_ex_iff by blast
  moreover have "emName z \<noteq> emName y \<and> \<not> volumePathOverlaps (emMountPath y) (emMountPath z)"
    if "z \<in> set seen" for z
    using fresh_key [OF checks(4) that] checks(6) that unfolding list_ex_iff by blast
  ultimately show "y = trimMount x \<and> mount_safe y \<and>
      (\<forall>z \<in> set seen. emName z \<noteq> emName y \<and> \<not> volumePathOverlaps (emMountPath y) (emMountPath z)) \<and>
      seen' = y # seen"
    using y by blast
qed

lemma toolMounts_accepted:
  assumes "validateToolEphemeralMounts mounts = Inr ()"
  shows "(\<forall>m \<in> set mounts. mount_safe (trimMount m)) \<and> distinct (map (\<lambda>m. TrimSpace (emName m)) mounts)"
proof -
  from assms obtain ys seen where l: "mapAccR tool_mount_step [] mounts = Inr (ys, seen)"
    unfolding validateToolEphemeralMounts_def bindR_Inr by auto
  have "distinct (map emName ys)" by (rule tool_mounts.distinct_key [OF l]) blast
  then show ?thesis using tool_mounts.loop_good [OF l] by (simp add: trimMount_def comp_def)
qed

subsection \<open>Command policy\<close>

definition argvKey :: "string list \<Rightarrow> string" where
  "argvKey argv = Join argv [CHR 0x00]"

definition argv_step ::
  "string list list \<Rightarrow> string list \<Rightarrow> sandbox_error + string list \<times> string list list" where
  "argv_step seen argv =
     (if \<not> ValidNonShellCommand argv then Inl ErrSandboxToolCreateInvalid
      else let argv = map TrimSpace argv
           in if argvKey argv \<in> set (map argvKey seen) then Inl ErrSandboxToolCreateInvalid
              else Inr (argv, argv # seen))"

definition validateCommandToolPolicy :: "CommandToolPolicy \<Rightarrow> sandbox_error + CommandToolPolicy" where
  "validateCommandToolPolicy policy =
     (if cpAllowedArgv policy = [] \<or> cpDefaultTimeoutSeconds policy \<le> 0 \<or> cpMaxTimeoutSeconds policy \<le> 0
         \<or> cpDefaultTimeoutSeconds policy > cpMaxTimeoutSeconds policy
      then Inl ErrSandboxToolCreateInvalid
      else bindR (mapAccR argv_step [] (cpAllowedArgv policy)) (\<lambda>(argvs, seen).
             Inr (policy\<lparr>cpAllowedArgv := argvs\<rparr>)))"

definition commandPolicyConfigured :: "CommandToolPolicy \<Rightarrow> bool" where
  "commandPolicyConfigured policy \<longleftrightarrow> cpAllowedArgv policy \<noteq> [] \<or> cpDefaultTimeoutSeconds policy \<noteq> 0
     \<or> cpMaxTimeoutSeconds policy \<noteq> 0"

lemma trimmed_nonshell: "ValidNonShellCommand argv \<Longrightarrow> ValidNonShellCommand (map TrimSpace argv) \<and>
     map TrimSpace (map TrimSpace argv) = map TrimSpace argv"
  by (simp add: ValidNonShellCommand_trim)

interpretation argvs: pairwise_loop argv_step "map TrimSpace"
  "\<lambda>argv. ValidNonShellCommand argv \<and> map TrimSpace argv = argv" "\<lambda>a b. argvKey a \<noteq> argvKey b"
proof
  fix seen x y seen'
  assume "argv_step seen x = Inr (y, seen')"
  then have v: "ValidNonShellCommand x" and y: "y = map TrimSpace x" "seen' = y # seen"
    and n: "argvKey y \<notin> set (map argvKey seen)"
    unfolding argv_step_def Let_def if_Inl_Inr by blast+
  show "y = map TrimSpace x \<and> (ValidNonShellCommand y \<and> map TrimSpace y = y)
      \<and> (\<forall>z \<in> set seen. argvKey z \<noteq> argvKey y) \<and> seen' = y # seen"
    using trimmed_nonshell [OF v] fresh_key [OF n] unfolding y by blast
qed

text \<open>
  A command tool runs only what was listed: in an accepted policy every permitted argument
  vector is non-empty, trimmed, without control characters and not a shell, no vector is listed
  twice, and the default timeout is positive and at most the maximum.
\<close>

theorem commandPolicy_accepted:
  assumes "validateCommandToolPolicy policy = Inr policy'"
  shows "cpAllowedArgv policy' \<noteq> [] \<and> distinct (cpAllowedArgv policy') \<and>
    (\<forall>argv \<in> set (cpAllowedArgv policy'). ValidNonShellCommand argv \<and> map TrimSpace argv = argv) \<and>
    0 < cpDefaultTimeoutSeconds policy' \<and> cpDefaultTimeoutSeconds policy' \<le> cpMaxTimeoutSeconds policy'"
proof -
  from assms obtain argvs seen where l: "mapAccR argv_step [] (cpAllowedArgv policy) = Inr (argvs, seen)"
    and p: "policy' = policy\<lparr>cpAllowedArgv := argvs\<rparr>" "cpAllowedArgv policy \<noteq> []"
      "0 < cpDefaultTimeoutSeconds policy" "cpDefaultTimeoutSeconds policy \<le> cpMaxTimeoutSeconds policy"
    unfolding validateCommandToolPolicy_def by (auto simp: if_Inl_Inr bindR_Inr)
  have "distinct (map argvKey argvs)" by (rule argvs.distinct_key [OF l])
  then have "distinct argvs" by (rule distinct_map [THEN iffD1, THEN conjunct1])
  moreover have "argvs \<noteq> []" using argvs.loop_good [OF l] p(2) by simp
  moreover have f: "cpAllowedArgv policy' = argvs" "cpDefaultTimeoutSeconds policy' = cpDefaultTimeoutSeconds policy"
    "cpMaxTimeoutSeconds policy' = cpMaxTimeoutSeconds policy"
    by (simp_all add: p(1))
  ultimately show ?thesis using argvs.loop_good [OF l] p(3,4) unfolding f by blast
qed

theorem commandPolicy_accepted_witness:
  "\<exists>p. validateCommandToolPolicy \<lparr>cpAllowedArgv = [[''forge'', '' build''], [''slither'']],
       cpDefaultTimeoutSeconds = 30, cpMaxTimeoutSeconds = 60\<rparr> = Inr p \<and> distinct (cpAllowedArgv p)"
proof -
  have "validateCommandToolPolicy \<lparr>cpAllowedArgv = [[''forge'', '' build''], [''slither'']],
       cpDefaultTimeoutSeconds = 30, cpMaxTimeoutSeconds = 60\<rparr>
     = Inr \<lparr>cpAllowedArgv = [[''forge'', ''build''], [''slither'']],
       cpDefaultTimeoutSeconds = 30, cpMaxTimeoutSeconds = 60\<rparr>"
    by code_simp
  with commandPolicy_accepted [OF this] show ?thesis by blast
qed

subsection \<open>Bindings\<close>

definition component_name_step :: "string list \<Rightarrow> ComponentSpec \<Rightarrow> sandbox_error + string list" where
  "component_name_step seen component =
     (let name = TrimSpace (cName component)
      in if name = [] \<or> \<not> mountNamePattern name then Inl ErrSandboxToolCreateInvalid
         else if name \<in> set seen then Inl ErrSandboxToolCreateInvalid
         else Inr (name # seen))"

definition bindingProtocols :: "string list" where
  "bindingProtocols = [''TCP'', ''HTTP'', ''HTTPS'', ''WS'', ''WSS'', ''GRPC'']"

definition binding_step :: "string list \<Rightarrow> string list \<Rightarrow> ComponentBinding \<Rightarrow> sandbox_error + string list" where
  "binding_step componentNames seen binding =
     (let name = TrimSpace (cbName binding); sourceComponent = TrimSpace (cbSourceComponent binding);
          source = TrimSpace (cbSourceEndpoint binding);
          parts = SplitN2 (TrimSpace (cbConfigBinding binding)) (CHR '':'')
      in if name = [] \<or> \<not> bindingNamePattern name \<or> sourceComponent = [] \<or> \<not> mountNamePattern sourceComponent
            \<or> TrimSpace (cbCapability binding) = [] \<or> TrimSpace (cbEndpoint binding) = []
         then Inl ErrSandboxToolCreateInvalid
         else if sourceComponent \<notin> set componentNames then Inl ErrSandboxToolCreateInvalid
         else if source \<noteq> [] \<and> source \<noteq> ''component'' then Inl ErrSandboxToolCreateInvalid
         else if cbProtocol binding \<notin> set bindingProtocols then Inl ErrSandboxToolCreateInvalid
         else if name \<in> set seen then Inl ErrSandboxToolCreateInvalid
         else if length parts \<noteq> 2 \<or> parts ! 0 \<noteq> ''env'' \<or> \<not> envNamePattern (parts ! 1)
         then Inl ErrSandboxToolCreateInvalid
         else Inr (name # seen))"

definition validateComponentBindings ::
  "ComponentBinding list \<Rightarrow> ComponentSpec list \<Rightarrow> sandbox_error + unit" where
  "validateComponentBindings bindings components =
     bindR (foldR component_name_step [] components) (\<lambda>componentNames.
     bindR (foldR (binding_step componentNames) [] bindings) (\<lambda>seen. Inr ()))"

interpretation component_names: checking_loop component_name_step "\<lambda>c. TrimSpace (cName c)"
  "\<lambda>c. mountNamePattern (TrimSpace (cName c))"
proof
  have "mountNamePattern n \<Longrightarrow> n \<noteq> []" for n using mountName_chars by blast
  then show "component_name_step seen x = Inr seen' \<longleftrightarrow> mountNamePattern (TrimSpace (cName x)) \<and>
      TrimSpace (cName x) \<notin> set seen \<and> seen' = TrimSpace (cName x) # seen" for seen x seen'
    by (auto simp: component_name_step_def Let_def)
qed

subsection \<open>Services and routes\<close>

definition normServicePort :: "ServicePortSpec \<Rightarrow> ServicePortSpec" where
  "normServicePort p =
     (let protocol = ToUpper (TrimSpace (spProtocol p))
      in p\<lparr>spName := TrimSpace (spName p), spTargetPort := TrimSpace (spTargetPort p),
           spProtocol := (if protocol = [] then ''TCP'' else protocol)\<rparr>)"

definition servicePortKey :: "ServicePortSpec \<Rightarrow> string" where
  "servicePortKey p = FormatInt (spPort p) @ ''/'' @ spProtocol p"

definition service_port_step ::
  "port_table \<Rightarrow> ServicePortSpec list \<Rightarrow> ServicePortSpec \<Rightarrow>
     sandbox_error + ServicePortSpec \<times> ServicePortSpec list" where
  "service_port_step ports seen raw =
     (let port = normServicePort raw
      in if \<not> portNamePattern (spName port) \<or> spPort port \<le> 0 \<or> 65535 < spPort port \<or> spTargetPort port = []
            \<or> (spProtocol port \<noteq> ''TCP'' \<and> spProtocol port \<noteq> ''UDP'')
         then Inl ErrSandboxToolCreateInvalid
         else if map_of ports (spTargetPort port) = None then Inl ErrSandboxToolCreateInvalid
         else if spName port \<in> set (map spName seen) then Inl ErrSandboxToolCreateInvalid
         else if servicePortKey port \<in> set (map servicePortKey seen) then Inl ErrSandboxToolCreateInvalid
         else Inr (port, port # seen))"

definition service_step ::
  "(string \<times> port_table) list \<Rightarrow> ServiceSpec list \<Rightarrow> ServiceSpec \<Rightarrow> sandbox_error + ServiceSpec \<times> ServiceSpec list" where
  "service_step componentPorts seen raw =
     (let service = raw\<lparr>svcName := TrimSpace (svcName raw), svcComponent := TrimSpace (svcComponent raw)\<rparr>
      in if \<not> mountNamePattern (svcName service) \<or> svcPorts service = [] then Inl ErrSandboxToolCreateInvalid
         else case map_of componentPorts (svcComponent service) of
           None \<Rightarrow> Inl ErrSandboxToolCreateInvalid
         | Some ports \<Rightarrow>
             bindR (mapAccR (service_port_step ports) [] (svcPorts service)) (\<lambda>(servicePorts, declared).
               if svcName service \<in> set (map svcName seen) then Inl ErrSandboxToolCreateInvalid
               else Inr (service\<lparr>svcPorts := servicePorts\<rparr>, service\<lparr>svcPorts := servicePorts\<rparr> # seen)))"

definition validToolRoutePrefix :: "string \<Rightarrow> bool" where
  "validToolRoutePrefix pre \<longleftrightarrow>
     \<not> (pre = [] \<or> \<not> HasPrefix pre ''/'' \<or> Contains pre [CHR 0x5C]) \<and>
     Clean pre = pre \<and> \<not> Contains pre ''/../''"

definition route_check :: "ServiceSpec list \<Rightarrow> RouteSpec \<Rightarrow> sandbox_error + RouteSpec" where
  "route_check services raw =
     (let route = raw\<lparr>routePathPrefix := TrimSpace (routePathPrefix raw), routeService := TrimSpace (routeService raw),
                      routePort := TrimSpace (routePort raw)\<rparr>
      in if \<not> validToolRoutePrefix (routePathPrefix route) then Inl ErrSandboxToolCreateInvalid
         else case find (\<lambda>service. svcName service = routeService route) services of
           None \<Rightarrow> Inl ErrSandboxToolCreateInvalid
         | Some service \<Rightarrow>
             if routePort route \<notin> set (map spName (svcPorts service)) then Inl ErrSandboxToolCreateInvalid
             else Inr route)"

definition validateToolServicesAndRoutes :: "ToolResourceSpec \<Rightarrow> sandbox_error + ToolResourceSpec" where
  "validateToolServicesAndRoutes spec =
     (if trComponents spec = []
      then (if trServices spec \<noteq> [] \<or> trRoutes spec \<noteq> [] then Inl ErrSandboxToolCreateInvalid else Inr spec)
      else bindR (mapAccR (service_step (componentPortMap (trComponents spec))) [] (trServices spec)) (\<lambda>(services, seen).
           bindR (mapR (route_check services) (trRoutes spec)) (\<lambda>routes.
             Inr (spec\<lparr>trServices := services, trRoutes := routes\<rparr>))))"

subsection \<open>Network rules of a tool\<close>

definition tool_ref_check :: "NetworkPortRef \<Rightarrow> sandbox_error + NetworkPortRef" where
  "tool_ref_check raw =
     (let ref = raw\<lparr>refName := TrimSpace (refName raw)\<rparr>
      in if refName ref = [] \<and> refPort ref \<le> 0 then Inl ErrSandboxToolCreateInvalid else Inr ref)"

definition tool_rule_step ::
  "(string \<times> port_table) list \<Rightarrow> string list \<Rightarrow> NetworkRuleSpec \<Rightarrow>
     sandbox_error + NetworkRuleSpec \<times> string list" where
  "tool_rule_step componentPorts seen raw =
     (let rule = trimRule raw
      in if \<not> mountNamePattern (ruleName rule) \<or> ruleFrom rule = [] \<or> ruleTo rule = [] \<or> rulePorts rule = []
         then Inl ErrSandboxToolCreateInvalid
         else if ruleName rule \<in> set seen then Inl ErrSandboxToolCreateInvalid
         else if map_of componentPorts (ruleFrom rule) = None then Inl ErrSandboxToolCreateInvalid
         else bindR (mapR tool_ref_check (rulePorts rule)) (\<lambda>ports.
                Inr (rule\<lparr>rulePorts := ports\<rparr>, ruleName rule # seen)))"

definition validateToolNetworkRules :: "ToolResourceSpec \<Rightarrow> sandbox_error + ToolResourceSpec" where
  "validateToolNetworkRules spec =
     bindR (mapAccR (tool_rule_step (componentPortMap (trComponents spec))) [] (trNetworkRules spec))
       (\<lambda>(rules, seen). Inr (spec\<lparr>trNetworkRules := rules\<rparr>))"

text \<open>At creation the rules are resolved against the pods of a runtime and the tool's own components.\<close>

definition resolve_ref :: "port_table \<Rightarrow> NetworkPortRef \<Rightarrow> sandbox_error + NetworkPortRef" where
  "resolve_ref targetPorts ref =
     bindR (if refName ref \<noteq> []
            then (case map_of targetPorts (refName ref) of
                    None \<Rightarrow> Inl ErrSandboxToolIncompatible
                  | Some resolved \<Rightarrow> Inr (ref\<lparr>refPort := resolved\<rparr>))
            else Inr ref)
       (\<lambda>ref. if \<not> networkPortDeclared targetPorts (refPort ref) then Inl ErrSandboxToolIncompatible else Inr ref)"

definition rule_targets ::
  "(string \<times> port_table) list \<Rightarrow> (string \<times> port_table) list \<Rightarrow> string \<Rightarrow> port_table option" where
  "rule_targets podPorts componentPorts to =
     (case map_of podPorts to of Some t \<Rightarrow> Some t | None \<Rightarrow> map_of componentPorts to)"

definition resolve_rule ::
  "(string \<times> port_table) list \<Rightarrow> (string \<times> port_table) list \<Rightarrow> NetworkRuleSpec \<Rightarrow> sandbox_error + NetworkRuleSpec" where
  "resolve_rule podPorts componentPorts rule =
     (case rule_targets podPorts componentPorts (ruleTo rule) of
        None \<Rightarrow> Inl ErrSandboxToolIncompatible
      | Some targetPorts \<Rightarrow>
          bindR (mapR (resolve_ref targetPorts) (rulePorts rule)) (\<lambda>ports. Inr (rule\<lparr>rulePorts := ports\<rparr>)))"

definition validateToolNetworkRulesForRuntime :: "Tool \<Rightarrow> AdapterSpec \<Rightarrow> sandbox_error + Tool" where
  "validateToolNetworkRulesForRuntime tool adapter =
     bindR (mapR (resolve_rule (podPortMap (podTopologyForAdapter adapter))
                               (componentPortMap (trComponents (toolResourceSpec tool))))
             (trNetworkRules (toolResourceSpec tool)))
       (\<lambda>rules. Inr (tool\<lparr>toolResourceSpec := (toolResourceSpec tool)\<lparr>trNetworkRules := rules\<rparr>\<rparr>))"

definition validateToolForRuntime :: "Tool \<Rightarrow> AdapterSpec list \<Rightarrow> sandbox_error + Tool" where
  "validateToolForRuntime tool adapters =
     (if toolStatus tool \<noteq> ToolStatusAvailable then Inl ErrSandboxToolIncompatible
      else foldR validateToolNetworkRulesForRuntime tool adapters)"

subsection \<open>The legal combinations\<close>

definition toolHasContainerSpec :: "ToolResourceSpec \<Rightarrow> bool" where
  "toolHasContainerSpec spec \<longleftrightarrow> trComponents spec \<noteq> [] \<or> trServices spec \<noteq> [] \<or> trRoutes spec \<noteq> []"

definition builtinEndpointPrefix :: string where
  "builtinEndpointPrefix = ''/api/v1/sandbox/sandboxes/{sandbox_id}''"

definition validBuiltinEndpointTemplate :: "string \<Rightarrow> bool" where
  "validBuiltinEndpointTemplate endpoint =
     (let endpoint = TrimSpace endpoint
      in \<not> (endpoint = [] \<or> Contains endpoint ''://'' \<or> Contains endpoint [CHR 0x5C]) \<and>
         Contains endpoint ''{sandbox_id}'' \<and> HasPrefix endpoint builtinEndpointPrefix)"

definition kind_check :: "int \<Rightarrow> ToolResourceSpec \<Rightarrow> sandbox_error + ToolResourceSpec" where
  "kind_check kind spec =
     (if kind = SandboxToolKindInfra then
        (if commandPolicyConfigured (trCommandPolicy spec) \<or> trComponents spec = [] \<or> trRoutes spec \<noteq> []
            \<or> TrimSpace (trBuiltinEndpoint spec) \<noteq> []
         then Inl ErrSandboxToolCreateInvalid else Inr spec)
      else if kind = SandboxToolKindWebEmbed then
        (if commandPolicyConfigured (trCommandPolicy spec) \<or> trComponents spec = [] \<or> trServices spec = []
            \<or> trRoutes spec = []
         then Inl ErrSandboxToolCreateInvalid else Inr spec)
      else if kind = SandboxToolKindCommand then
        (if length (trComponents spec) \<noteq> 1 \<or> trServices spec \<noteq> [] \<or> trRoutes spec \<noteq> [] \<or> trNetworkRules spec \<noteq> []
         then Inl ErrSandboxToolCreateInvalid
         else bindR (validateCommandToolPolicy (trCommandPolicy spec)) (\<lambda>policy.
                Inr (spec\<lparr>trCommandPolicy := policy\<rparr>)))
      else if kind = SandboxToolKindBuiltin then
        (if commandPolicyConfigured (trCommandPolicy spec) \<or> toolHasContainerSpec spec \<or> trNetworkRules spec \<noteq> []
            \<or> \<not> validBuiltinEndpointTemplate (trBuiltinEndpoint spec)
         then Inl ErrSandboxToolCreateInvalid else Inr spec)
      else if kind = SandboxToolKindTerminal then
        (if commandPolicyConfigured (trCommandPolicy spec) \<or> toolHasContainerSpec spec \<or> trNetworkRules spec \<noteq> []
            \<or> TrimSpace (trBuiltinEndpoint spec) \<noteq> []
         then Inl ErrSandboxToolCreateInvalid else Inr spec)
      else Inl ErrSandboxToolCreateInvalid)"

text \<open>
  The last loop of the shape check: the command of a component is trimmed in place, the tool's own
  command, used when a component has none, was trimmed before.
\<close>

definition tool_component_check ::
  "int \<Rightarrow> string list \<Rightarrow> ComponentSpec \<Rightarrow> sandbox_error + ComponentSpec" where
  "tool_component_check kind toolCommand component =
     (if kind \<noteq> SandboxToolKindInfra \<and> cWritableMountDomains component \<noteq> []
      then Inl ErrSandboxToolCreateInvalid
      else thenR (validateComponentMountDomains component)
        (if cPrepullHold component then Inl ErrSandboxToolCreateInvalid
         else let command = (if cPrepullCommand component = [] then toolCommand else cPrepullCommand component)
              in if command = [] then Inl ErrSandboxToolCreateInvalid
                 else bindR (withCause ErrSandboxToolCreateInvalid (validatePrepullCommand command)) (\<lambda>command.
                        Inr (if cPrepullCommand component = [] then component
                             else component\<lparr>cPrepullCommand := command\<rparr>))))"

definition validateToolResourceSpecShape :: "int \<Rightarrow> ToolResourceSpec \<Rightarrow> sandbox_error + ToolResourceSpec" where
  "validateToolResourceSpecShape kind spec =
     (if TrimSpace (trDisabledReason spec) \<noteq> [] then
        (if trComponents spec \<noteq> [] \<or> trServices spec \<noteq> [] \<or> trRoutes spec \<noteq> [] \<or> trNetworkRules spec \<noteq> []
            \<or> commandPolicyConfigured (trCommandPolicy spec) \<or> TrimSpace (trBuiltinEndpoint spec) \<noteq> []
            \<or> trPrepullCommand spec \<noteq> []
         then Inl ErrSandboxToolCreateInvalid else Inr spec)
      else bindR (kind_check kind spec) (\<lambda>spec.
           bindR (validateToolServicesAndRoutes spec) (\<lambda>spec.
           bindR (validateToolNetworkRules spec) (\<lambda>spec.
           thenR (validateComponentBindings (trBindings spec) (trComponents spec))
          (bindR (validatePrepullCommand (trPrepullCommand spec)) (\<lambda>command.
           bindR (mapR (tool_component_check kind command) (trComponents spec)) (\<lambda>components.
             Inr (spec\<lparr>trPrepullCommand := command, trComponents := components\<rparr>))))))))"

definition ValidateToolResourceSpecDefinition ::
  "(string \<Rightarrow> ToolResourceSpec option) \<Rightarrow> string \<Rightarrow> int \<Rightarrow> sandbox_error + unit" where
  "ValidateToolResourceSpecDefinition decode raw kind =
     (case (if raw = [] then Some zeroToolSpec else decode raw) of
        None \<Rightarrow> Inl ErrSandboxToolCreateInvalid
      | Some spec \<Rightarrow> bindR (validateToolResourceSpecShape kind spec) (\<lambda>spec. Inr ()))"

subsection \<open>Registration\<close>

definition validateCommandContainerSpec ::
  "quantities \<Rightarrow> SandboxConfig \<Rightarrow> ComponentSpec \<Rightarrow> sandbox_error + ComponentSpec" where
  "validateCommandContainerSpec parseQuantity cfg spec =
     (let spec = spec\<lparr>cName := TrimSpace (cName spec)\<rparr>
      in if \<not> mountNamePattern (cName spec) \<or> cPorts spec \<noteq> [] then Inl ErrSandboxContainerSpecInvalid
         else if TrimSpace (cImageURL spec) = [] \<or> digestFromImageURL (cImageURL spec) = []
         then Inl ErrSandboxContainerSpecInvalid
         else if \<not> imageAttested cfg (cImageURL spec) (digestFromImageURL (cImageURL spec))
         then Inl ErrSandboxToolCreateInvalid
         else thenR (validateLiteralEnv (cEnv spec))
             (thenR (validateResourceSpec parseQuantity (cResources spec))
             (bindR (validateProbes cfg [] spec) (\<lambda>spec.
                if \<not> ValidNonShellCommand (cCommand spec) then Inl ErrSandboxContainerSpecInvalid
                else if cMountWorkspace spec = None then Inl ErrSandboxContainerSpecInvalid
                else thenR (validateToolEphemeralMounts (cEphemeralMounts spec)) (Inr spec)))))"

definition validateCommandToolRuntimeSpec ::
  "quantities \<Rightarrow> SandboxConfig \<Rightarrow> ToolResourceSpec \<Rightarrow> sandbox_error + ToolResourceSpec" where
  "validateCommandToolRuntimeSpec parseQuantity cfg spec =
     (case trComponents spec of
        [] \<Rightarrow> Inl PanicIndexOutOfRange
      | component # rest \<Rightarrow>
          bindR (withCause ErrSandboxToolCreateInvalid (validateCommandContainerSpec parseQuantity cfg component))
            (\<lambda>component. Inr (spec\<lparr>trComponents := component # rest\<rparr>)))"

definition web_component_check ::
  "quantities \<Rightarrow> SandboxConfig \<Rightarrow> ComponentSpec \<Rightarrow> sandbox_error + ComponentSpec" where
  "web_component_check parseQuantity cfg component =
     bindR (withCause ErrSandboxToolCreateInvalid (validateContainerSpec parseQuantity cfg component)) (\<lambda>component.
     thenR (validateToolEphemeralMounts (cEphemeralMounts component))
       (if \<not> imageAttested cfg (cImageURL component) (digestFromImageURL (cImageURL component))
        then Inl ErrSandboxToolCreateInvalid
        else if cMountWorkspace component = None then Inl ErrSandboxToolCreateInvalid
        else if cCommand component \<noteq> [] \<and> \<not> ValidNonShellCommand (cCommand component)
        then Inl ErrSandboxToolCreateInvalid
        else Inr component))"

definition validateToolRequest ::
  "(string \<Rightarrow> ToolResourceSpec option) \<Rightarrow> quantities \<Rightarrow> SandboxConfig \<Rightarrow> ToolRequest \<Rightarrow>
     sandbox_error + ToolResourceSpec" where
  "validateToolRequest decode parseQuantity cfg req =
     (if \<not> codePattern (tqrCode req) \<or> TrimSpace (tqrName req) = [] then Inl ErrSandboxToolCreateInvalid
      else if tqrKind req < SandboxToolKindBuiltin \<or> SandboxToolKindCommand < tqrKind req
      then Inl ErrSandboxToolCreateInvalid
      else if tqrStatus req \<noteq> 0 \<and> tqrStatus req \<noteq> ToolStatusAvailable \<and> tqrStatus req \<noteq> ToolStatusDisabled
      then Inl ErrSandboxToolCreateInvalid
      else case (if tqrResourceSpec req = [] then Some zeroToolSpec else decode (tqrResourceSpec req)) of
        None \<Rightarrow> Inl ErrSandboxToolCreateInvalid
      | Some spec \<Rightarrow>
          bindR (validateToolResourceSpecShape (tqrKind req) spec) (\<lambda>spec.
          bindR (if tqrKind req = SandboxToolKindWebEmbed
                 then bindR (mapR (web_component_check parseQuantity cfg) (trComponents spec))
                        (\<lambda>components. Inr (spec\<lparr>trComponents := components\<rparr>))
                 else Inr spec) (\<lambda>spec.
            if tqrKind req = SandboxToolKindCommand
            then validateCommandToolRuntimeSpec parseQuantity cfg spec else Inr spec)))"

definition validateRuntimeRequest ::
  "(string \<Rightarrow> AdapterSpec option) \<Rightarrow> quantities \<Rightarrow> SandboxConfig \<Rightarrow> RuntimeRequest \<Rightarrow>
     sandbox_error + AdapterSpec" where
  "validateRuntimeRequest decode parseQuantity cfg req =
     (if \<not> codePattern (rqCode req) \<or> TrimSpace (rqName req) = [] \<or> TrimSpace (rqEco req) = []
      then Inl ErrSandboxRuntimeCreateInvalid
      else if rqAdapterLevel req < RuntimeAdapterLevelHosted \<or> RuntimeAdapterLevelPlugin < rqAdapterLevel req
              \<or> rqAdapterSpec req = []
      then Inl ErrSandboxAdapterSpecInvalid
      else if rqStatus req \<noteq> 0 \<and> rqStatus req \<noteq> RuntimeStatusOnboarding \<and> rqStatus req \<noteq> RuntimeStatusDisabled
      then Inl ErrSandboxRuntimeCreateInvalid
      else case decode (rqAdapterSpec req) of
        None \<Rightarrow> Inl ErrSandboxAdapterSpecInvalid
      | Some spec \<Rightarrow>
          if TrimSpace (asDisabledReason spec) \<noteq> [] then
            (if asWorkspaceDir spec \<noteq> [] \<or> asVolumeDomains spec \<noteq> [] \<or> cName (asRuntimeContainer spec) \<noteq> []
                \<or> asInfraSidecars spec \<noteq> [] \<or> asPods spec \<noteq> [] \<or> asServices spec \<noteq> [] \<or> asRoutes spec \<noteq> []
                \<or> asNetworkRules spec \<noteq> [] \<or> asInitAssets spec \<noteq> []
                \<or> woReadFile (asWorkspaceOps spec) \<noteq> []
                \<or> ccCommand (capDeploy (asCapabilityCommands spec)) \<noteq> []
             then Inl ErrSandboxRuntimeCreateInvalid else Inr spec)
          else bindR (normalizeAndValidateAdapterSpec parseQuantity cfg spec) (\<lambda>spec.
                 if RuntimeAdapterLevelStandard \<le> rqAdapterLevel req \<and> TrimSpace (rqCapabilityImpl req) = []
                    \<and> TrimSpace (rqPluginRef req) = [] \<and> \<not> hasCapabilityCommands (asCapabilityCommands spec)
                 then Inl ErrSandboxCapabilityUnavailable else Inr spec))"

text \<open>What the container of an accepted web or command tool satisfies.\<close>

definition attested_entry :: "SandboxConfig \<Rightarrow> string \<Rightarrow> bool" where
  "attested_entry cfg url \<longleftrightarrow> (\<exists>item \<in> set (cfgPlatformImageAttestations cfg). piImageURL item = TrimSpace url \<and>
     piCosignVerified item \<and> EqualFold (piTrivyStatus item) ''passed'')"

definition tool_component_safe :: "SandboxConfig \<Rightarrow> ComponentSpec \<Rightarrow> bool" where
  "tool_component_safe cfg c \<longleftrightarrow> mountNamePattern (cName c) \<and> (\<forall>e \<in> set (cEnv c). secret_free e) \<and>
     attested_entry cfg (cImageURL c) \<and> cMountWorkspace c \<noteq> None \<and>
     (cCommand c \<noteq> [] \<longrightarrow> ValidNonShellCommand (cCommand c)) \<and>
     (\<forall>m \<in> set (cEphemeralMounts c). mount_safe (trimMount m))"

lemma imageAttested_entry: "imageAttested cfg url d \<Longrightarrow> attested_entry cfg url"
  unfolding imageAttested_def attested_entry_def Let_def list_ex_iff by (auto split: if_splits)

lemma web_component_safe:
  assumes "web_component_check pq cfg c = Inr c'"
  shows "tool_component_safe cfg c' \<and> container_wf pq c'"
proof -
  from assms have v: "validateContainerSpec pq cfg c = Inr c'"
    and m: "validateToolEphemeralMounts (cEphemeralMounts c') = Inr ()"
    and rest: "imageAttested cfg (cImageURL c') (digestFromImageURL (cImageURL c'))" "cMountWorkspace c' \<noteq> None"
      "\<not> (cCommand c' \<noteq> [] \<and> \<not> ValidNonShellCommand (cCommand c'))"
    unfolding web_component_check_def bindR_Inr thenR_Inr withCause_Inr if_Inl_Inr by auto
  from v have wf: "container_wf pq c'"
    unfolding containerSpec_accepted by (elim conjE exE) (rule container_wfI)
  then show ?thesis
    using toolMounts_accepted [OF m] rest imageAttested_entry
    unfolding tool_component_safe_def container_wf_def by blast
qed

lemma command_component_safe:
  assumes "validateCommandContainerSpec pq cfg c = Inr c'"
  shows "tool_component_safe cfg c' \<and> cPorts c' = [] \<and> ValidNonShellCommand (cCommand c') \<and>
    digestFromImageURL (cImageURL c') \<noteq> []"
proof -
  define s where "s = c\<lparr>cName := TrimSpace (cName c)\<rparr>"
  from assms have a: "mountNamePattern (cName s)" "cPorts s = []" "digestFromImageURL (cImageURL s) \<noteq> []"
    "imageAttested cfg (cImageURL s) (digestFromImageURL (cImageURL s))" "validateLiteralEnv (cEnv s) = Inr ()"
    and p: "validateProbes cfg [] s = Inr c'"
    and m: "validateToolEphemeralMounts (cEphemeralMounts c') = Inr ()"
    and rest: "cMountWorkspace c' \<noteq> None" "ValidNonShellCommand (cCommand c')"
    unfolding validateCommandContainerSpec_def Let_def s_def [symmetric] bindR_Inr thenR_Inr if_Inl_Inr by auto
  have "cName c' = cName s" "cPorts c' = cPorts s" "cImageURL c' = cImageURL s" "cEnv c' = cEnv s"
    using p by (auto simp: validateProbes_Inr)
  then show ?thesis
    using a rest toolMounts_accepted [OF m] imageAttested_entry literalEnv_accepted [of "cEnv s"]
    unfolding tool_component_safe_def by metis
qed

lemma services_keep: "validateToolServicesAndRoutes spec = Inr spec' \<Longrightarrow>
     trComponents spec' = trComponents spec"
  by (cases "trComponents spec = []")
    (auto simp: validateToolServicesAndRoutes_def bindR_Inr if_Inl_Inr)

lemma tool_rules_keep: "validateToolNetworkRules spec = Inr spec' \<Longrightarrow>
     trComponents spec' = trComponents spec"
  by (auto simp: validateToolNetworkRules_def bindR_Inr)

lemma kind_check_keep:
  assumes "kind_check kind spec = Inr spec'"
  shows "trComponents spec' = trComponents spec \<and>
    (kind = SandboxToolKindCommand \<longrightarrow> length (trComponents spec) = 1 \<and>
       validateCommandToolPolicy (trCommandPolicy spec) = Inr (trCommandPolicy spec'))"
proof -
  have k: "distinct [SandboxToolKindBuiltin, SandboxToolKindTerminal, SandboxToolKindWebEmbed,
      SandboxToolKindCommand, SandboxToolKindInfra]"
    by (simp add: SandboxToolKindBuiltin_def SandboxToolKindTerminal_def SandboxToolKindWebEmbed_def
        SandboxToolKindCommand_def SandboxToolKindInfra_def)
  show ?thesis
    using assms k unfolding kind_check_def
    by (auto simp: bindR_Inr if_Inl_Inr split: if_split_asm)
qed

lemma shape_accepted:
  assumes "validateToolResourceSpecShape kind spec = Inr spec'"
  shows "(TrimSpace (trDisabledReason spec) \<noteq> [] \<and> trComponents spec' = []) \<or>
    (\<exists>s1. kind_check kind spec = Inr s1 \<and> length (trComponents spec') = length (trComponents spec) \<and>
       mapR (tool_component_check kind (trPrepullCommand spec')) (trComponents spec) = Inr (trComponents spec'))"
proof (cases "TrimSpace (trDisabledReason spec) = []")
  case False
  then show ?thesis using assms by (auto simp: validateToolResourceSpecShape_def if_Inl_Inr)
next
  case True
  with assms obtain s1 s2 s3 command components where
    "kind_check kind spec = Inr s1" "validateToolServicesAndRoutes s1 = Inr s2"
    "validateToolNetworkRules s2 = Inr s3" and
    m: "mapR (tool_component_check kind command) (trComponents s3) = Inr components" and
    s: "spec' = s3\<lparr>trPrepullCommand := command, trComponents := components\<rparr>"
    by (auto simp: validateToolResourceSpecShape_def bindR_Inr thenR_Inr)
  moreover have "trComponents s3 = trComponents spec"
    using calculation kind_check_keep services_keep tool_rules_keep by metis
  ultimately show ?thesis using mapR_length [OF m] by (auto simp: s)
qed

lemma tool_request_stages:
  assumes "validateToolRequest decode pq cfg req = Inr spec"
  obtains raw s1 where "validateToolResourceSpecShape (tqrKind req) raw = Inr s1"
    "tqrKind req = SandboxToolKindWebEmbed \<Longrightarrow>
       mapR (web_component_check pq cfg) (trComponents s1) = Inr (trComponents spec)"
    "tqrKind req = SandboxToolKindCommand \<Longrightarrow> validateCommandToolRuntimeSpec pq cfg s1 = Inr spec"
proof -
  have d: "SandboxToolKindWebEmbed \<noteq> SandboxToolKindCommand"
    by (simp add: SandboxToolKindWebEmbed_def SandboxToolKindCommand_def)
  from assms obtain raw s1 where a: "validateToolResourceSpecShape (tqrKind req) raw = Inr s1" and
    b: "bindR (if tqrKind req = SandboxToolKindWebEmbed
                 then bindR (mapR (web_component_check pq cfg) (trComponents s1))
                        (\<lambda>components. Inr (s1\<lparr>trComponents := components\<rparr>))
                 else Inr s1) (\<lambda>spec.
            if tqrKind req = SandboxToolKindCommand
            then validateCommandToolRuntimeSpec pq cfg spec else Inr spec) = Inr spec"
    unfolding validateToolRequest_def if_Inl_Inr by (auto simp: bindR_Inr split: option.splits)
  show thesis
  proof (rule that [OF a])
    show "mapR (web_component_check pq cfg) (trComponents s1) = Inr (trComponents spec)"
      if "tqrKind req = SandboxToolKindWebEmbed"
      using b d that by (auto simp: bindR_Inr)
    show "validateCommandToolRuntimeSpec pq cfg s1 = Inr spec" if "tqrKind req = SandboxToolKindCommand"
      using b d that by simp
  qed
qed

text \<open>
  A registered tool can only run what was checked: every component of an accepted web tool passed
  the container checks, every component of an accepted web or command tool starts an image with a
  passed attestation, states whether it mounts the workspace, carries no secret in its environment,
  runs no shell and mounts no scratch directory over the workspace or a system directory; a command
  tool has exactly one component, without ports, pinned by digest.
\<close>

theorem tool_request_safe:
  assumes "validateToolRequest decode pq cfg req = Inr spec"
    and "tqrKind req = SandboxToolKindWebEmbed \<or> tqrKind req = SandboxToolKindCommand"
  shows "(\<forall>c \<in> set (trComponents spec). tool_component_safe cfg c \<and>
      (tqrKind req = SandboxToolKindWebEmbed \<longrightarrow> container_wf pq c)) \<and>
    (tqrKind req = SandboxToolKindCommand \<longrightarrow> (\<exists>c. trComponents spec = [c] \<and> cPorts c = [] \<and>
       ValidNonShellCommand (cCommand c) \<and> digestFromImageURL (cImageURL c) \<noteq> []))"
proof -
  obtain raw s1 where shape: "validateToolResourceSpecShape (tqrKind req) raw = Inr s1"
    and web: "tqrKind req = SandboxToolKindWebEmbed \<Longrightarrow>
       mapR (web_component_check pq cfg) (trComponents s1) = Inr (trComponents spec)"
    and cmd: "tqrKind req = SandboxToolKindCommand \<Longrightarrow> validateCommandToolRuntimeSpec pq cfg s1 = Inr spec"
    by (rule tool_request_stages [OF assms(1)], rule that) blast+
  show ?thesis
  proof (cases "tqrKind req = SandboxToolKindCommand")
    case True
    from cmd [OF True] obtain c c' rest where c: "trComponents s1 = c # rest"
      "validateCommandContainerSpec pq cfg c = Inr c'" "trComponents spec = c' # rest"
      by (auto simp: validateCommandToolRuntimeSpec_def bindR_Inr withCause_Inr split: list.splits)
    then have "length (trComponents s1) = 1"
      using shape_accepted [OF shape] kind_check_keep True by (metis list.distinct(1))
    then have "rest = []" using c(1) by simp
    moreover have "SandboxToolKindWebEmbed \<noteq> SandboxToolKindCommand"
      by (simp add: SandboxToolKindWebEmbed_def SandboxToolKindCommand_def)
    ultimately show ?thesis using c(3) command_component_safe [OF c(2)] True by simp
  next
    case False
    then have k: "tqrKind req = SandboxToolKindWebEmbed" using assms(2) by blast
    have "tool_component_safe cfg c \<and> container_wf pq c" if "c \<in> set (trComponents spec)" for c
      using mapR_set [OF web [OF k] that] web_component_safe by blast
    with False show ?thesis by blast
  qed
qed

definition sampleCommandTool :: ToolResourceSpec where
  "sampleCommandTool = zeroToolSpec\<lparr>
     trComponents := [zeroComponent\<lparr>cName := ''slither'', cImageURL := sampleImage, cCommand := [''sleep'', ''3600''],
       cMountWorkspace := Some True, cPrepullCommand := [''slither'', ''--version'']\<rparr>],
     trCommandPolicy := \<lparr>cpAllowedArgv = [[''slither'', ''.'']], cpDefaultTimeoutSeconds = 30,
       cpMaxTimeoutSeconds = 60\<rparr>\<rparr>"

definition sampleToolRequest :: ToolRequest where
  "sampleToolRequest = \<lparr>tqrCode = ''slither'', tqrName = ''Slither'', tqrKind = 4, tqrEcoTags = [''evm''],
     tqrResourceSpec = ''spec'', tqrStatus = 0\<rparr>"

theorem tool_request_safe_witness:
  "\<exists>spec. validateToolRequest (\<lambda>raw. if raw = ''spec'' then Some sampleCommandTool else None) decimalQuantity
      sampleConfig sampleToolRequest = Inr spec \<and> (\<forall>c \<in> set (trComponents spec). tool_component_safe sampleConfig c)"
proof -
  let ?r = "validateToolRequest (\<lambda>raw. if raw = ''spec'' then Some sampleCommandTool else None) decimalQuantity
      sampleConfig sampleToolRequest"
  have "\<not> isl ?r" by code_simp
  then obtain spec where s: "?r = Inr spec" by (cases ?r) simp_all
  have "tqrKind sampleToolRequest = SandboxToolKindCommand"
    by (simp add: sampleToolRequest_def SandboxToolKindCommand_def)
  with tool_request_safe [OF s] s show ?thesis by blast
qed

text \<open>
  The index expression of \<open>validateCommandToolRuntimeSpec\<close>: a command tool that is registered as
  disabled has no component (the shape check demands it), and the expression panics.
\<close>

lemma disabled_command_tool_panics:
  "validateToolRequest (\<lambda>raw. Some (zeroToolSpec\<lparr>trDisabledReason := ''not adapted''\<rparr>)) pq cfg sampleToolRequest
     = Inl PanicIndexOutOfRange"
proof -
  have "validateToolResourceSpecShape 4 (zeroToolSpec\<lparr>trDisabledReason := ''not adapted''\<rparr>)
      = Inr (zeroToolSpec\<lparr>trDisabledReason := ''not adapted''\<rparr>)"
    by code_simp
  moreover have "codePattern ''slither''" "TrimSpace ''Slither'' \<noteq> []" by code_simp+
  ultimately show ?thesis
    by (simp add: validateToolRequest_def sampleToolRequest_def SandboxToolKindBuiltin_def
        SandboxToolKindCommand_def SandboxToolKindWebEmbed_def validateCommandToolRuntimeSpec_def zeroToolSpec_def)
qed

subsection \<open>Where the routes and rules of a tool lead\<close>

interpretation service_ports: pairwise_loop "service_port_step ports" normServicePort
  "\<lambda>p. portNamePattern (spName p) \<and> 0 < spPort p \<and> spPort p \<le> 65535 \<and>
       map_of ports (spTargetPort p) \<noteq> None"
  "\<lambda>a b. spName a \<noteq> spName b \<and> servicePortKey a \<noteq> servicePortKey b" for ports
proof
  fix seen x y seen'
  assume "service_port_step ports seen x = Inr (y, seen')"
  then have "y = normServicePort x" "seen' = y # seen" "portNamePattern (spName y)"
    "\<not> spPort y \<le> 0" "\<not> 65535 < spPort y" "map_of ports (spTargetPort y) \<noteq> None"
    and n: "spName y \<notin> set (map spName seen)" "servicePortKey y \<notin> set (map servicePortKey seen)"
    unfolding service_port_step_def Let_def if_Inl_Inr by blast+
  moreover have "spName z \<noteq> spName y \<and> servicePortKey z \<noteq> servicePortKey y" if "z \<in> set seen" for z
    using fresh_key [OF n(1) that] fresh_key [OF n(2) that] by blast
  ultimately show "y = normServicePort x \<and>
      (portNamePattern (spName y) \<and> 0 < spPort y \<and> spPort y \<le> 65535 \<and> map_of ports (spTargetPort y) \<noteq> None) \<and>
      (\<forall>z \<in> set seen. spName z \<noteq> spName y \<and> servicePortKey z \<noteq> servicePortKey y) \<and> seen' = y # seen"
    by (simp add: not_le)
qed

definition service_wf :: "(string \<times> port_table) list \<Rightarrow> ServiceSpec \<Rightarrow> bool" where
  "service_wf componentPorts service \<longleftrightarrow> mountNamePattern (svcName service) \<and> distinct (map spName (svcPorts service)) \<and>
     (\<exists>ports. map_of componentPorts (svcComponent service) = Some ports \<and>
        (\<forall>p \<in> set (svcPorts service). map_of ports (spTargetPort p) \<noteq> None))"

definition normService :: "ServiceSpec \<Rightarrow> ServiceSpec" where
  "normService s = s\<lparr>svcName := TrimSpace (svcName s), svcComponent := TrimSpace (svcComponent s),
     svcPorts := map normServicePort (svcPorts s)\<rparr>"

interpretation services: pairwise_loop "service_step m" normService "service_wf m"
  "\<lambda>a b. svcName a \<noteq> svcName b" for m
proof
  fix seen x y seen'
  assume "service_step m seen x = Inr (y, seen')"
  then obtain ports sp declared where p: "mountNamePattern (TrimSpace (svcName x))"
      "map_of m (TrimSpace (svcComponent x)) = Some ports"
    and l: "mapAccR (service_port_step ports) [] (svcPorts x) = Inr (sp, declared)"
    and n: "TrimSpace (svcName x) \<notin> set (map svcName seen)"
    and y: "y = x\<lparr>svcName := TrimSpace (svcName x), svcComponent := TrimSpace (svcComponent x), svcPorts := sp\<rparr>"
      "seen' = y # seen"
    unfolding service_step_def Let_def if_Inl_Inr by (auto simp: bindR_Inr if_Inl_Inr split: option.splits)
  note g = service_ports.loop_good [OF l] and d = service_ports.distinct_key [OF l, of spName]
  have "distinct (map spName sp)" by (rule d) blast
  then have "service_wf m y" using p g by (auto simp: service_wf_def y(1))
  moreover have "y = normService x" using g by (simp add: normService_def y(1))
  moreover have "\<forall>z \<in> set seen. svcName z \<noteq> svcName y" using fresh_key [OF n] by (simp add: y(1))
  ultimately show "y = normService x \<and> service_wf m y \<and> (\<forall>z \<in> set seen. svcName z \<noteq> svcName y) \<and> seen' = y # seen"
    using y(2) by blast
qed

lemma port_table_Some: "map_of (port_table ports) n = Some p \<Longrightarrow>
     \<exists>port \<in> set ports. portName port = n \<and> containerPort port = p"
  by (rule port_table_set) (rule map_of_SomeD)

lemma componentPortMap_Some: "map_of (componentPortMap cs) n = Some t \<Longrightarrow>
     \<exists>c \<in> set cs. cName c = n \<and> t = port_table (cPorts c)"
  by (rule componentPortMap_set) (rule map_of_SomeD)

lemma service_target:
  assumes "service_wf (componentPortMap cs) service" and "p \<in> set (svcPorts service)"
  shows "\<exists>c \<in> set cs. cName c = svcComponent service \<and> (\<exists>port \<in> set (cPorts c). portName port = spTargetPort p)"
proof -
  obtain t where t: "map_of (componentPortMap cs) (svcComponent service) = Some t"
    "map_of t (spTargetPort p) \<noteq> None"
    using assms by (auto simp: service_wf_def)
  obtain c where "c \<in> set cs" "cName c = svcComponent service" "t = port_table (cPorts c)"
    using componentPortMap_Some [OF t(1)] by blast
  then show ?thesis using t(2) port_table_Some by blast
qed

text \<open>
  A proxied route of a tool leads to a port its own components declare: in an accepted tool
  every route has a clean absolute prefix without traversal and names a declared service and one
  of its ports, whose target is a declared port of the component the service stands for; service
  names are distinct.
\<close>

theorem tool_routes_declared:
  assumes "validateToolServicesAndRoutes spec = Inr spec'"
  shows "(\<forall>route \<in> set (trRoutes spec'). validToolRoutePrefix (routePathPrefix route) \<and>
      (\<exists>service \<in> set (trServices spec'). svcName service = routeService route \<and>
        (\<exists>p \<in> set (svcPorts service). spName p = routePort route \<and>
          (\<exists>c \<in> set (trComponents spec'). cName c = svcComponent service \<and>
            (\<exists>port \<in> set (cPorts c). portName port = spTargetPort p))))) \<and>
    distinct (map svcName (trServices spec'))"
proof (cases "trComponents spec = []")
  case True
  then show ?thesis using assms by (auto simp: validateToolServicesAndRoutes_def if_Inl_Inr)
next
  case False
  let ?m = "componentPortMap (trComponents spec)"
  from assms False obtain services seen routes where
    l: "mapAccR (service_step ?m) [] (trServices spec) = Inr (services, seen)" and
    r: "mapR (route_check services) (trRoutes spec) = Inr routes" and
    s: "spec' = spec\<lparr>trServices := services, trRoutes := routes\<rparr>"
    by (auto simp: validateToolServicesAndRoutes_def bindR_Inr)
  have d: "distinct (map svcName services)" by (rule services.distinct_key [OF l])
  have "validToolRoutePrefix (routePathPrefix route) \<and>
      (\<exists>service \<in> set services. svcName service = routeService route \<and>
        (\<exists>p \<in> set (svcPorts service). spName p = routePort route \<and>
          (\<exists>c \<in> set (trComponents spec). cName c = svcComponent service \<and>
            (\<exists>port \<in> set (cPorts c). portName port = spTargetPort p))))"
    if "route \<in> set routes" for route
  proof -
    from mapR_set [OF r that] obtain raw where "route_check services raw = Inr route" by blast
    then obtain service where v: "validToolRoutePrefix (routePathPrefix route)" and
      f: "find (\<lambda>service. svcName service = routeService route) services = Some service" and
      p: "routePort route \<in> set (map spName (svcPorts service))"
      unfolding route_check_def Let_def if_Inl_Inr by (auto simp: if_Inl_Inr split: option.splits)
    have "service \<in> set services" "svcName service = routeService route"
      using f by (auto simp: find_Some_iff)
    moreover obtain q where "q \<in> set (svcPorts service)" "spName q = routePort route" using p by auto
    moreover have "service_wf ?m service" using services.loop_good [OF l] calculation(1) by blast
    ultimately show ?thesis using v service_target by blast
  qed
  then show ?thesis using d by (simp add: s)
qed

theorem tool_routes_declared_witness:
  "\<exists>spec'. validateToolServicesAndRoutes (zeroToolSpec\<lparr>
      trComponents := [zeroComponent\<lparr>cName := ''ide'', cPorts := [\<lparr>portName = ''http'', containerPort = 8080,
         servicePort = 80, portProtocol = ''TCP''\<rparr>]\<rparr>],
      trServices := [\<lparr>svcName = ''ide'', svcComponent = ''ide'',
         svcPorts = [\<lparr>spName = ''web'', spPort = 80, spTargetPort = ''http'', spProtocol = ''tcp''\<rparr>]\<rparr>],
      trRoutes := [\<lparr>routePathPrefix = ''/ide'', routeService = ''ide'', routePort = ''web''\<rparr>]\<rparr>) = Inr spec'
    \<and> distinct (map svcName (trServices spec'))"
proof -
  let ?r = "validateToolServicesAndRoutes (zeroToolSpec\<lparr>
      trComponents := [zeroComponent\<lparr>cName := ''ide'', cPorts := [\<lparr>portName = ''http'', containerPort = 8080,
         servicePort = 80, portProtocol = ''TCP''\<rparr>]\<rparr>],
      trServices := [\<lparr>svcName = ''ide'', svcComponent = ''ide'',
         svcPorts = [\<lparr>spName = ''web'', spPort = 80, spTargetPort = ''http'', spProtocol = ''tcp''\<rparr>]\<rparr>],
      trRoutes := [\<lparr>routePathPrefix = ''/ide'', routeService = ''ide'', routePort = ''web''\<rparr>]\<rparr>)"
  have "\<not> isl ?r" by code_simp
  then obtain spec' where s: "?r = Inr spec'" by (cases ?r) simp_all
  with tool_routes_declared [OF s] show ?thesis by blast
qed

text \<open>
  Installing a tool opens no undeclared port: when its network rules are accepted for a
  runtime, every rule leads to a pod of that runtime or to one of the tool's own components, and
  every port it opens is a container port declared there.
\<close>

theorem tool_rules_resolved:
  assumes "validateToolNetworkRulesForRuntime tool adapter = Inr tool'"
  shows "\<forall>rule \<in> set (trNetworkRules (toolResourceSpec tool')).
    (\<exists>pod \<in> set (podTopologyForAdapter adapter). podName pod = ruleTo rule \<and>
       (\<forall>ref \<in> set (rulePorts rule). \<exists>port \<in> set (pod_ports pod). containerPort port = refPort ref)) \<or>
    (\<exists>c \<in> set (trComponents (toolResourceSpec tool)). cName c = ruleTo rule \<and>
       (\<forall>ref \<in> set (rulePorts rule). \<exists>port \<in> set (cPorts c). containerPort port = refPort ref))"
proof
  let ?p = "podPortMap (podTopologyForAdapter adapter)"
  let ?c = "componentPortMap (trComponents (toolResourceSpec tool))"
  fix rule
  assume a: "rule \<in> set (trNetworkRules (toolResourceSpec tool'))"
  from assms obtain rules where
    "mapR (resolve_rule ?p ?c) (trNetworkRules (toolResourceSpec tool)) = Inr rules"
    "tool' = tool\<lparr>toolResourceSpec := (toolResourceSpec tool)\<lparr>trNetworkRules := rules\<rparr>\<rparr>"
    unfolding validateToolNetworkRulesForRuntime_def bindR_Inr by auto
  with a obtain raw where raw: "resolve_rule ?p ?c raw = Inr rule" by (auto dest: mapR_set)
  then obtain t ports where t: "rule_targets ?p ?c (ruleTo raw) = Some t"
    and m: "mapR (resolve_ref t) (rulePorts raw) = Inr ports" and r: "rule = raw\<lparr>rulePorts := ports\<rparr>"
    unfolding resolve_rule_def by (auto simp: bindR_Inr split: option.splits)
  have table: "\<exists>n. (n, refPort ref) \<in> set t" if "ref \<in> set (rulePorts rule)" for ref
  proof -
    have "ref \<in> set ports" using that by (simp add: r)
    then obtain x where "resolve_ref t x = Inr ref" using mapR_set [OF m] by blast
    then have "networkPortDeclared t (refPort ref)"
      unfolding resolve_ref_def bindR_Inr if_Inl_Inr by auto
    then show ?thesis by (rule networkPort_in_table)
  qed
  from t consider "map_of ?p (ruleTo rule) = Some t" | "map_of ?c (ruleTo rule) = Some t"
    by (auto simp: rule_targets_def r split: option.splits)
  then show "(\<exists>pod \<in> set (podTopologyForAdapter adapter). podName pod = ruleTo rule \<and>
       (\<forall>ref \<in> set (rulePorts rule). \<exists>port \<in> set (pod_ports pod). containerPort port = refPort ref)) \<or>
    (\<exists>c \<in> set (trComponents (toolResourceSpec tool)). cName c = ruleTo rule \<and>
       (\<forall>ref \<in> set (rulePorts rule). \<exists>port \<in> set (cPorts c). containerPort port = refPort ref))"
  proof cases
    case 1
    obtain pod where "pod \<in> set (podTopologyForAdapter adapter)" "podName pod = ruleTo rule"
      and e: "t = port_table (pod_ports pod)"
      using target_in_pods [OF 1] by blast
    moreover have "\<forall>ref \<in> set (rulePorts rule). \<exists>port \<in> set (pod_ports pod). containerPort port = refPort ref"
      using table port_table_set unfolding e by fast
    ultimately show ?thesis by blast
  next
    case 2
    obtain c where "c \<in> set (trComponents (toolResourceSpec tool))" "cName c = ruleTo rule"
      and e: "t = port_table (cPorts c)"
      using componentPortMap_Some [OF 2] by blast
    moreover have "\<forall>ref \<in> set (rulePorts rule). \<exists>port \<in> set (cPorts c). containerPort port = refPort ref"
      using table port_table_set unfolding e by fast
    ultimately show ?thesis by blast
  qed
qed

definition sampleRuleTool :: Tool where
  "sampleRuleTool = \<lparr>toolID = 1, toolCode = ''explorer'', toolName = ''Explorer'', toolCategory = ''tool'',
     toolKind = 3, toolEcoTags = [], toolResourceSpec = zeroToolSpec\<lparr>trNetworkRules :=
       [\<lparr>ruleName = ''to-node'', ruleFrom = ''explorer'', ruleTo = ''sandbox'',
         rulePorts = [\<lparr>refName = ''rpc'', refPort = 0\<rparr>]\<rparr>]\<rparr>, toolStatus = 1\<rparr>"

theorem tool_rules_resolved_witness:
  "\<exists>tool'. validateToolNetworkRulesForRuntime sampleRuleTool sampleRules = Inr tool' \<and>
     trNetworkRules (toolResourceSpec tool') = [\<lparr>ruleName = ''to-node'', ruleFrom = ''explorer'', ruleTo = ''sandbox'',
         rulePorts = [\<lparr>refName = ''rpc'', refPort = 8545\<rparr>]\<rparr>] \<and>
     (\<exists>pod \<in> set (podTopologyForAdapter sampleRules). podName pod = ''sandbox'')"
proof -
  let ?rules = "[\<lparr>ruleName = ''to-node'', ruleFrom = ''explorer'', ruleTo = ''sandbox'',
         rulePorts = [\<lparr>refName = ''rpc'', refPort = 8545\<rparr>]\<rparr>]"
  let ?t = "sampleRuleTool\<lparr>toolResourceSpec := (toolResourceSpec sampleRuleTool)\<lparr>trNetworkRules := ?rules\<rparr>\<rparr>"
  have s: "validateToolNetworkRulesForRuntime sampleRuleTool sampleRules = Inr ?t" by code_simp
  have "trComponents (toolResourceSpec sampleRuleTool) = []" by code_simp
  then show ?thesis using tool_rules_resolved [OF s] s by auto
qed

end
