(* ===== verification/SandboxQuota.thy ===== *)
theory SandboxQuota
  imports SandboxTools PlatformIds
begin

section \<open>Sandbox engine: creation requests and quotas\<close>

text \<open>
  Admission of a sandbox (\<open>rules.go\<close>, the aggregation of \<open>service.go\<close>, the reference patterns
  of \<open>platform/auth/middleware.go\<close>): the creation request against its compiled composition, the
  tenant's quota and the declared resources. Sums and products of \<open>int64\<close> wrap (\<open>i64\<close>).
\<close>

subsection \<open>Source and scope references\<close>

definition ref_char :: "char \<Rightarrow> bool" where
  "ref_char c \<longleftrightarrow> is_digit c \<or> is_upper c \<or> is_lower c \<or> c = CHR ''_'' \<or> c = CHR ''-''"

definition four_segments :: "string list \<Rightarrow> bool" where
  "four_segments parts \<longleftrightarrow> 4 \<le> length parts \<and>
     parts ! 0 \<noteq> [] \<and> list_all is_lower (parts ! 0) \<and>
     length (parts ! 1) = 4 \<and> list_all is_digit (parts ! 1) \<and>
     parts ! 2 \<noteq> [] \<and> is_lower (hd (parts ! 2)) \<and>
     list_all (\<lambda>c. low_num_dash c \<or> c = CHR ''_'') (parts ! 2) \<and>
     parts ! 3 \<noteq> [] \<and> list_all ref_char (parts ! 3)"

definition ValidSourceRef :: "string \<Rightarrow> bool" where
  "ValidSourceRef sourceRef =
     (let parts = Split (TrimSpace sourceRef) (CHR '':'') in length parts = 4 \<and> four_segments parts)"

definition ValidScopeRef :: "string \<Rightarrow> bool" where
  "ValidScopeRef scopeRef =
     (let parts = Split (TrimSpace scopeRef) (CHR '':'')
      in four_segments parts \<and> list_all (\<lambda>p. p \<noteq> [] \<and> list_all ref_char p) (drop 4 parts))"

definition validSourceRef :: "string \<Rightarrow> bool" where
  "validSourceRef sourceRef = ValidSourceRef sourceRef"

subsection \<open>Creation request\<close>

definition spec_runtime_check :: "CompositionRuntimeRef \<Rightarrow> sandbox_error + unit" where
  "spec_runtime_check runtime =
     failIf (TrimSpace (crInstanceCode runtime) = [] \<or> TrimSpace (crCode runtime) = []
             \<or> TrimSpace (crImageVersion runtime) = []) ErrSandboxCreateRequestInvalid"

definition compiled_runtime_check ::
  "(string \<Rightarrow> CompositionRuntimeRef option) \<Rightarrow> CompiledRuntimeSnapshot \<Rightarrow> sandbox_error + unit" where
  "compiled_runtime_check specRuntimes runtime =
     (case specRuntimes (rsInstanceCode runtime) of
        None \<Rightarrow> Inl ErrSandboxCreateRequestInvalid
      | Some declared \<Rightarrow>
          failIf (rsRuntimeID runtime \<le> 0 \<or> rsImageID runtime \<le> 0 \<or> rsCode runtime \<noteq> crCode declared
                  \<or> rsImageVersion runtime \<noteq> crImageVersion declared \<or> rsAdapterSpec runtime = [])
            ErrSandboxCreateRequestInvalid)"

definition compiled_component_check :: "CompiledComponentSnapshot \<Rightarrow> sandbox_error + unit" where
  "compiled_component_check component =
     failIf (csComponentID component \<le> 0 \<or> TrimSpace (csCode component) = []
             \<or> (csCategory component \<noteq> ''infra'' \<and> csCategory component \<noteq> ''tool'')
             \<or> csResourceSpec component = []) ErrSandboxCreateRequestInvalid"

definition validateCreateRequest :: "CreateSandboxInputModel \<Rightarrow> sandbox_error + unit" where
  "validateCreateRequest req =
     (let snapshot = ciCompositionSnapshot req; declared = scRuntimes (snSpec snapshot);
          specRuntimes = by_key crInstanceCode declared
      in if ciTenantID req \<le> 0 \<or> TrimSpace (snDigest snapshot) = [] \<or> snRuntimes snapshot = [] \<or> declared = []
            \<or> TrimSpace (ciSourceRef req) = [] \<or> TrimSpace (ciScopeRef req) = []
         then Inl ErrSandboxCreateRequestInvalid
         else thenR (eachR spec_runtime_check declared)
             (if length (remdups (map crInstanceCode declared)) \<noteq> length declared
                 \<or> length (remdups (map crInstanceCode declared)) \<noteq> length (snRuntimes snapshot)
              then Inl ErrSandboxCreateRequestInvalid
              else thenR (eachR (compiled_runtime_check specRuntimes) (snRuntimes snapshot))
                  (thenR (eachR compiled_component_check (snComponents snapshot))
                  (if ciOwnerAccountID req \<le> 0 then Inl ErrSandboxOwnerInvalid
                   else bindR (normalizeSandboxSharedAccountIDs (ciOwnerAccountID req) (ciAuthorizedAccountIDs req)) (\<lambda>ids.
                     if \<not> validSourceRef (ciSourceRef req) then Inl ErrSandboxCreateRequestInvalid
                     else if \<not> ValidScopeRef (ciScopeRef req) then Inl ErrSandboxCreateRequestInvalid
                     else if ciKeepAliveMinutes req < 0 \<or> ciSnapshotRetentionMinutes req < 0
                     then Inl ErrSandboxCreateRequestInvalid
                     else if \<not> ciKeepAlive req \<and> 0 < ciKeepAliveMinutes req
                     then Inl ErrSandboxCreateRequestInvalid
                     else if \<not> ciSnapshotEnabled req \<and> 0 < ciSnapshotRetentionMinutes req
                     then Inl ErrSandboxCreateRequestInvalid
                     else Inr ())))))"

definition validateInitObjectRef :: "int \<Rightarrow> string \<Rightarrow> string \<Rightarrow> string \<Rightarrow> string \<Rightarrow> sandbox_error + unit" where
  "validateInitObjectRef tenantID refBucket refKey codeBucket attachBucket =
     (if tenantID \<le> 0 then Inl ErrSandboxInitObjectRefInvalid
      else if refBucket \<noteq> codeBucket \<and> refBucket \<noteq> attachBucket then Inl ErrSandboxInitObjectRefInvalid
      else failIf (\<not> HasPrefix refKey (Format tenantID @ ''/'')) ErrSandboxInitObjectRefInvalid)"

subsection \<open>Quotas\<close>

definition validateQuota :: "TenantQuota \<Rightarrow> sandbox_error + unit" where
  "validateQuota q =
     failIf (tqTenantID q \<le> 0 \<or> tqMaxConcurrentSandbox q \<le> 0 \<or> tqMaxCPU q \<le> 0 \<or> tqMaxMemoryMB q \<le> 0
             \<or> tqIdleTimeoutMin q \<le> 0 \<or> tqMaxLifetimeMin q \<le> 0 \<or> tqMaxKeepaliveMin q < 0
             \<or> tqMaxSnapshotRetentionMin q < 0) ErrSandboxQuotaInvalid"

record declaredResourceUsage =
  RequestCPUMilli :: int
  LimitCPUMilli :: int
  RequestMemoryBytes :: int
  LimitMemoryBytes :: int
  PodCount :: int

definition valueOrDefault :: "string \<Rightarrow> string \<Rightarrow> string" where
  "valueOrDefault v def = (if TrimSpace v = [] then def else v)"

text \<open>A parse error is passed up; every caller replaces it by \<open>ErrSandboxQuotaInvalid\<close>.\<close>

definition quantity :: "quantities \<Rightarrow> string \<Rightarrow> sandbox_error + Quantity" where
  "quantity parseQuantity s =
     (case parseQuantity s of None \<Rightarrow> Inl ErrSandboxQuotaInvalid | Some q \<Rightarrow> Inr q)"

definition addDeclaredContainerResources ::
  "quantities \<Rightarrow> SandboxConfig \<Rightarrow> declaredResourceUsage \<Rightarrow> ResourceSpec \<Rightarrow> sandbox_error + declaredResourceUsage" where
  "addDeclaredContainerResources parseQuantity cfg usage spec =
     bindR (quantity parseQuantity (valueOrDefault (mapGet (requests spec) ''cpu'') (cfgDefaultReqCPU cfg))) (\<lambda>reqCPU.
     bindR (quantity parseQuantity (valueOrDefault (mapGet (requests spec) ''memory'') (cfgDefaultReqMemory cfg))) (\<lambda>reqMemory.
     bindR (quantity parseQuantity (valueOrDefault (mapGet (limits spec) ''cpu'') (cfgDefaultCPU cfg))) (\<lambda>limitCPU.
     bindR (quantity parseQuantity (valueOrDefault (mapGet (limits spec) ''memory'') (cfgDefaultMemory cfg))) (\<lambda>limitMemory.
       Inr (usage\<lparr>RequestCPUMilli := i64 (RequestCPUMilli usage + MilliValue reqCPU),
                  RequestMemoryBytes := i64 (RequestMemoryBytes usage + QuantityValue reqMemory),
                  LimitCPUMilli := i64 (LimitCPUMilli usage + MilliValue limitCPU),
                  LimitMemoryBytes := i64 (LimitMemoryBytes usage + QuantityValue limitMemory)\<rparr>)))))"

definition add_containers ::
  "quantities \<Rightarrow> SandboxConfig \<Rightarrow> declaredResourceUsage \<Rightarrow> ComponentSpec list \<Rightarrow> sandbox_error + declaredResourceUsage" where
  "add_containers parseQuantity cfg usage containers =
     foldR (\<lambda>usage container. addDeclaredContainerResources parseQuantity cfg usage (cResources container)) usage containers"

definition add_tool ::
  "quantities \<Rightarrow> SandboxConfig \<Rightarrow> declaredResourceUsage \<Rightarrow> Tool \<Rightarrow> sandbox_error + declaredResourceUsage" where
  "add_tool parseQuantity cfg usage tool =
     (if toolCategory tool \<noteq> ''infra'' \<and> toolKind tool \<noteq> SandboxToolKindWebEmbed \<and> toolKind tool \<noteq> SandboxToolKindCommand
      then Inr usage
      else let components = trComponents (toolResourceSpec tool)
           in add_containers parseQuantity cfg
                (usage\<lparr>PodCount := i64 (PodCount usage + int (length components))\<rparr>) components)"

definition sandboxDeclaredResourceUsage ::
  "quantities \<Rightarrow> SandboxConfig \<Rightarrow> AdapterSpec \<Rightarrow> Tool list \<Rightarrow> ComponentSpec list \<Rightarrow>
     sandbox_error + declaredResourceUsage" where
  "sandboxDeclaredResourceUsage parseQuantity cfg adapter tools privateSidecars =
     (let usage = \<lparr>RequestCPUMilli = 0, LimitCPUMilli = 0, RequestMemoryBytes = 0, LimitMemoryBytes = 0,
                   PodCount = int (length (podTopologyForAdapter adapter))\<rparr>
      in bindR (add_containers parseQuantity cfg usage (concat (map podContainers (podTopologyForAdapter adapter)))) (\<lambda>usage.
         bindR (foldR (add_tool parseQuantity cfg) usage tools) (\<lambda>usage.
           add_containers parseQuantity cfg usage privateSidecars)))"

definition validateSingleSandboxResourceLimit ::
  "quantities \<Rightarrow> SandboxConfig \<Rightarrow> AdapterSpec \<Rightarrow> Tool list \<Rightarrow> ComponentSpec list \<Rightarrow> sandbox_error + unit" where
  "validateSingleSandboxResourceLimit parseQuantity cfg adapter tools privateSidecars =
     bindR (withCause ErrSandboxQuotaInvalid
       (sandboxDeclaredResourceUsage parseQuantity cfg adapter tools privateSidecars)) (\<lambda>usage.
     bindR (quantity parseQuantity (cfgMaxCPU cfg)) (\<lambda>maxCPU.
     bindR (quantity parseQuantity (cfgMaxMemory cfg)) (\<lambda>maxMemory.
     bindR (quantity parseQuantity (cfgMaxPods cfg)) (\<lambda>maxPods.
       if MilliValue maxCPU < RequestCPUMilli usage \<or> MilliValue maxCPU < LimitCPUMilli usage
       then Inl ErrSandboxResourceQuotaExceeded
       else if QuantityValue maxMemory < RequestMemoryBytes usage \<or> QuantityValue maxMemory < LimitMemoryBytes usage
       then Inl ErrSandboxResourceQuotaExceeded
       else failIf (QuantityValue maxPods < PodCount usage) ErrSandboxResourceQuotaExceeded))))"

text \<open>Go's integer division truncates towards zero.\<close>

definition quot64 :: "int \<Rightarrow> int \<Rightarrow> int" where
  "quot64 a b = sgn a * sgn b * (\<bar>a\<bar> div \<bar>b\<bar>)"

definition validateTenantResourceCapacity ::
  "quantities \<Rightarrow> SandboxConfig \<Rightarrow> TenantQuota \<Rightarrow> int \<Rightarrow> sandbox_error + unit" where
  "validateTenantResourceCapacity parseQuantity cfg quota sandboxCount =
     bindR (quantity parseQuantity (cfgMaxCPU cfg)) (\<lambda>cpu.
     bindR (quantity parseQuantity (cfgMaxMemory cfg)) (\<lambda>memory.
       if i64 (tqMaxCPU quota * 1000) < i64 (MilliValue cpu * sandboxCount)
       then Inl ErrSandboxResourceQuotaExceeded
       else let memoryMiB = quot64 (QuantityValue memory) (1024 * 1024)
            in failIf (tqMaxMemoryMB quota < i64 (memoryMiB * sandboxCount)) ErrSandboxResourceQuotaExceeded))"

definition validateQuotaForCreate ::
  "quantities \<Rightarrow> SandboxConfig \<Rightarrow> CreateSandboxInputModel \<Rightarrow> TenantQuota \<Rightarrow> int \<Rightarrow> AdapterSpec \<Rightarrow> Tool list \<Rightarrow>
     sandbox_error + unit" where
  "validateQuotaForCreate parseQuantity cfg req quota active adapter tools =
     (if tqMaxConcurrentSandbox quota \<le> active then Inl ErrSandboxQuotaExceeded
      else thenR (validateSingleSandboxResourceLimit parseQuantity cfg adapter tools (ciPrivateSidecars req))
          (thenR (validateTenantResourceCapacity parseQuantity cfg quota (active + 1))
          (if ciKeepAlive req \<and> (tqMaxKeepaliveMin quota \<le> 0 \<or> ciKeepAliveMinutes req \<le> 0
               \<or> tqMaxKeepaliveMin quota < ciKeepAliveMinutes req)
           then Inl ErrSandboxKeepaliveQuotaExceeded
           else if ciSnapshotEnabled req \<and> (tqMaxSnapshotRetentionMin quota \<le> 0 \<or> ciSnapshotRetentionMinutes req \<le> 0
                    \<or> tqMaxSnapshotRetentionMin quota < ciSnapshotRetentionMinutes req)
           then Inl ErrSandboxSnapshotQuotaExceeded
           else Inr ())))"

subsection \<open>Plans of several runtimes\<close>

record RuntimePlan =
  rpInstanceCode :: string
  rpRuntime :: Runtime
  rpImage :: RuntimeImage

text \<open>
  \<open>aggregateRuntimeAdapterSpecs\<close> collects the adapters in a map by instance code and folds over
  it in Go's unspecified map order: the model is the set of the results of all orders.
\<close>

definition aggregateRuntimeAdapterSpecsByMap :: "AdapterSpec list \<Rightarrow> AdapterSpec" where
  "aggregateRuntimeAdapterSpecsByMap items =
     foldl (\<lambda>out item. out\<lparr>asVolumeDomains := asVolumeDomains out @ asVolumeDomains item,
                             asNetworkRules := asNetworkRules out @ asNetworkRules item\<rparr>) zeroAdapter items"

definition aggregateRuntimeAdapterSpecs :: "RuntimePlan list \<Rightarrow> AdapterSpec set" where
  "aggregateRuntimeAdapterSpecs plans =
     {aggregateRuntimeAdapterSpecsByMap (map (\<lambda>code. rtAdapterSpec (rpRuntime (the (by_key rpInstanceCode plans code)))) codes)
      | codes. distinct codes \<and> set codes = rpInstanceCode ` set plans}"

definition adapterSpecForPrivateSidecarValidation :: "RuntimePlan list \<Rightarrow> AdapterSpec" where
  "adapterSpecForPrivateSidecarValidation plans =
     zeroAdapter\<lparr>asInfraSidecars := concat (map (\<lambda>plan.
        let adapter = rtAdapterSpec (rpRuntime plan)
        in asRuntimeContainer adapter # asInfraSidecars adapter @ concat (map podContainers (asPods adapter))) plans)\<rparr>"

lemma aggregate_fields:
  "asRuntimeContainer (aggregateRuntimeAdapterSpecsByMap items) = zeroComponent \<and>
   asInfraSidecars (aggregateRuntimeAdapterSpecsByMap items) = [] \<and>
   asPods (aggregateRuntimeAdapterSpecsByMap items) = []"
proof -
  have "asRuntimeContainer (foldl f out items) = asRuntimeContainer out \<and>
      asInfraSidecars (foldl f out items) = asInfraSidecars out \<and> asPods (foldl f out items) = asPods out"
    if "f = (\<lambda>out item. out\<lparr>asVolumeDomains := asVolumeDomains out @ asVolumeDomains item,
                             asNetworkRules := asNetworkRules out @ asNetworkRules item\<rparr>)" for f out
    unfolding that by (induction items arbitrary: out) simp_all
  from this [OF refl, of zeroAdapter] show ?thesis
    by (simp add: aggregateRuntimeAdapterSpecsByMap_def zeroAdapter_def)
qed

text \<open>
  C38: The declared-resource check of a creation never sees the runtimes: whatever their containers
  ask for, the usage computed from the aggregated adapter is the usage of the tools and private
  sidecars plus one pod with one container at the default sizes.
\<close>

theorem runtime_resources_not_counted:
  assumes "adapter \<in> aggregateRuntimeAdapterSpecs plans"
  shows "sandboxDeclaredResourceUsage pq cfg adapter tools privateSidecars
     = sandboxDeclaredResourceUsage pq cfg zeroAdapter tools privateSidecars \<and>
   podTopologyForAdapter adapter
     = [\<lparr>podName = ''sandbox'', podLabels = [], podInitContainers = [], podContainers = [zeroComponent]\<rparr>]"
proof -
  obtain items where "adapter = aggregateRuntimeAdapterSpecsByMap items"
    using assms by (auto simp: aggregateRuntimeAdapterSpecs_def)
  then have "podTopologyForAdapter adapter
     = [\<lparr>podName = ''sandbox'', podLabels = [], podInitContainers = [], podContainers = [zeroComponent]\<rparr>]"
    using aggregate_fields [of items] by (simp add: podTopologyForAdapter_def)
  moreover have "podTopologyForAdapter zeroAdapter
     = [\<lparr>podName = ''sandbox'', podLabels = [], podInitContainers = [], podContainers = [zeroComponent]\<rparr>]"
    by (simp add: podTopologyForAdapter_def zeroAdapter_def)
  ultimately show ?thesis by (simp add: sandboxDeclaredResourceUsage_def)
qed

definition greedyRuntime :: RuntimePlan where
  "greedyRuntime = \<lparr>rpInstanceCode = ''main'',
     rpRuntime = sampleRuntime\<lparr>rtAdapterSpec := zeroAdapter\<lparr>asRuntimeContainer := sampleRuntimeContainer
       \<lparr>cResources := \<lparr>requests = [(''cpu'', ''4000''), (''memory'', ''1'')], limits = [(''cpu'', ''4000''), (''memory'', ''1'')]\<rparr>\<rparr>\<rparr>\<rparr>,
     rpImage = sampleVersion\<rparr>"

theorem runtime_resources_not_counted_witness:
  "\<exists>adapter \<in> aggregateRuntimeAdapterSpecs [greedyRuntime].
     validateSingleSandboxResourceLimit decimalQuantity sampleConfig adapter [] [] = Inr () \<and>
     validateSingleSandboxResourceLimit decimalQuantity sampleConfig (rtAdapterSpec (rpRuntime greedyRuntime)) [] []
       = Inl ErrSandboxResourceQuotaExceeded"
proof -
  let ?codes = "[''main'']"
  let ?a = "aggregateRuntimeAdapterSpecsByMap
    (map (\<lambda>code. rtAdapterSpec (rpRuntime (the (by_key rpInstanceCode [greedyRuntime] code)))) ?codes)"
  have m: "?a \<in> aggregateRuntimeAdapterSpecs [greedyRuntime]"
    unfolding aggregateRuntimeAdapterSpecs_def by (intro CollectI exI [of _ ?codes]) (simp add: greedyRuntime_def)
  have "validateSingleSandboxResourceLimit decimalQuantity sampleConfig zeroAdapter [] [] = Inr ()"
    by code_simp
  then have "validateSingleSandboxResourceLimit decimalQuantity sampleConfig ?a [] [] = Inr ()"
    using runtime_resources_not_counted [OF m, of decimalQuantity sampleConfig "[]" "[]"]
    by (simp add: validateSingleSandboxResourceLimit_def)
  moreover have "validateSingleSandboxResourceLimit decimalQuantity sampleConfig
      (rtAdapterSpec (rpRuntime greedyRuntime)) [] [] = Inl ErrSandboxResourceQuotaExceeded"
    by code_simp
  ultimately show ?thesis using m by blast
qed

subsection \<open>What an admitted creation satisfies\<close>

lemma quantity_Inr: "quantity pq s = Inr q \<longleftrightarrow> pq s = Some q"
  by (simp add: quantity_def split: option.splits)

text \<open>
  C39: Admission respects the quota: when the quota check of a creation passes, the tenant has fewer
  sandboxes than allowed, the declared usage is within the namespace limits, all its sandboxes
  including the new one at the namespace CPU limit fit the tenant's CPU quota (when the product
  fits 64 bits), and a requested keep-alive or snapshot lies within its limit.
\<close>

theorem quota_respected:
  assumes "validateQuotaForCreate pq cfg req quota active adapter tools = Inr ()"
    and "0 \<le> active" and "0 \<le> tqMaxCPU quota" and "tqMaxCPU quota < 2 ^ 31"
  shows "active < tqMaxConcurrentSandbox quota \<and>
    (\<exists>usage maxCPU maxMemory maxPods.
       sandboxDeclaredResourceUsage pq cfg adapter tools (ciPrivateSidecars req) = Inr usage \<and>
       pq (cfgMaxCPU cfg) = Some maxCPU \<and> pq (cfgMaxMemory cfg) = Some maxMemory \<and> pq (cfgMaxPods cfg) = Some maxPods \<and>
       RequestCPUMilli usage \<le> MilliValue maxCPU \<and> LimitCPUMilli usage \<le> MilliValue maxCPU \<and>
       RequestMemoryBytes usage \<le> QuantityValue maxMemory \<and> LimitMemoryBytes usage \<le> QuantityValue maxMemory \<and>
       PodCount usage \<le> QuantityValue maxPods \<and>
       (0 \<le> MilliValue maxCPU \<and> MilliValue maxCPU * (active + 1) < 2 ^ 63 \<longrightarrow>
          MilliValue maxCPU * (active + 1) \<le> tqMaxCPU quota * 1000)) \<and>
    (ciKeepAlive req \<longrightarrow> 0 < ciKeepAliveMinutes req \<and> ciKeepAliveMinutes req \<le> tqMaxKeepaliveMin quota) \<and>
    (ciSnapshotEnabled req \<longrightarrow> 0 < ciSnapshotRetentionMinutes req \<and>
       ciSnapshotRetentionMinutes req \<le> tqMaxSnapshotRetentionMin quota)"
proof -
  have a: "active < tqMaxConcurrentSandbox quota"
    "validateSingleSandboxResourceLimit pq cfg adapter tools (ciPrivateSidecars req) = Inr ()"
    "validateTenantResourceCapacity pq cfg quota (active + 1) = Inr ()"
    "\<not> (ciKeepAlive req \<and> (tqMaxKeepaliveMin quota \<le> 0 \<or> ciKeepAliveMinutes req \<le> 0
        \<or> tqMaxKeepaliveMin quota < ciKeepAliveMinutes req))"
    "\<not> (ciSnapshotEnabled req \<and> (tqMaxSnapshotRetentionMin quota \<le> 0 \<or> ciSnapshotRetentionMinutes req \<le> 0
        \<or> tqMaxSnapshotRetentionMin quota < ciSnapshotRetentionMinutes req))"
    using assms(1) unfolding validateQuotaForCreate_def if_Inl_Inr thenR_Inr by auto
  from a(2) obtain usage cpu memory pods where u:
    "sandboxDeclaredResourceUsage pq cfg adapter tools (ciPrivateSidecars req) = Inr usage"
    "pq (cfgMaxCPU cfg) = Some cpu" "pq (cfgMaxMemory cfg) = Some memory" "pq (cfgMaxPods cfg) = Some pods"
    "RequestCPUMilli usage \<le> MilliValue cpu" "LimitCPUMilli usage \<le> MilliValue cpu"
    "RequestMemoryBytes usage \<le> QuantityValue memory" "LimitMemoryBytes usage \<le> QuantityValue memory"
    "PodCount usage \<le> QuantityValue pods"
    unfolding validateSingleSandboxResourceLimit_def bindR_Inr withCause_Inr quantity_Inr if_Inl_Inr failIf_Inr
    by (auto simp: not_less)
  have "MilliValue cpu * (active + 1) \<le> tqMaxCPU quota * 1000"
    if "0 \<le> MilliValue cpu" "MilliValue cpu * (active + 1) < 2 ^ 63"
  proof -
    have "i64 (MilliValue cpu * (active + 1)) \<le> i64 (tqMaxCPU quota * 1000)"
      using a(3) u(2) unfolding validateTenantResourceCapacity_def bindR_Inr quantity_Inr if_Inl_Inr
      by (auto simp: not_less)
    moreover have "i64 (MilliValue cpu * (active + 1)) = MilliValue cpu * (active + 1)"
    proof (rule i64_id)
      have "0 \<le> MilliValue cpu * (active + 1)" using that(1) assms(2) by simp
      moreover have "- (2 ^ 63) \<le> (0 :: int)" by simp
      ultimately show "- (2 ^ 63) \<le> MilliValue cpu * (active + 1)" by (rule order_trans [rotated])
    qed (rule that(2))
    moreover have "i64 (tqMaxCPU quota * 1000) = tqMaxCPU quota * 1000"
      using assms(3,4) by (intro i64_id) simp_all
    ultimately show ?thesis by simp
  qed
  then show ?thesis using a u by (auto simp: not_le not_less)
qed

definition sampleRequest :: CreateSandboxInputModel where
  "sampleRequest = \<lparr>ciTenantID = 3,
     ciCompositionSnapshot = zeroSnapshot\<lparr>snDigest := ''sha256:ab'',
       snSpec := zeroSpec\<lparr>scRuntimes := [\<lparr>crInstanceCode = ''main'', crCode = ''evm'', crImageVersion = ''1'', crParams = []\<rparr>]\<rparr>,
       snRuntimes := [\<lparr>rsInstanceCode = ''main'', rsRuntimeID = 1, rsImageID = 2, rsCode = ''evm'', rsEco = ''evm'',
         rsAdapterLevel = 1, rsCapabilityImpl = [], rsPluginRef = [], rsAdapterSpec = ''{}'',
         rsImageURL = sampleImage, rsImageVersion = ''1''\<rparr>]\<rparr>,
     ciInitCodeRef = [], ciInitScriptRef = [], ciOwnerAccountID = 7, ciAuthorizedAccountIDs = [8],
     ciSourceRef = ''experiment:2025:lab:42'', ciScopeRef = ''experiment:2025:lab:42:stage1'',
     ciKeepAlive = True, ciSnapshotEnabled = False, ciKeepAliveMinutes = 30, ciSnapshotRetentionMinutes = 0,
     ciPrivateSidecars = []\<rparr>"

definition sampleQuota :: TenantQuota where
  "sampleQuota = \<lparr>tqTenantID = 3, tqMaxConcurrentSandbox = 4, tqMaxCPU = 100, tqMaxMemoryMB = 100000,
     tqIdleTimeoutMin = 30, tqMaxLifetimeMin = 120, tqMaxKeepaliveMin = 60, tqMaxSnapshotRetentionMin = 0\<rparr>"

theorem quota_respected_witness:
  "validateQuotaForCreate decimalQuantity sampleConfig sampleRequest sampleQuota 2 zeroAdapter [] = Inr ()
     \<and> ciKeepAliveMinutes sampleRequest \<le> tqMaxKeepaliveMin sampleQuota"
proof -
  have v: "validateQuotaForCreate decimalQuantity sampleConfig sampleRequest sampleQuota 2 zeroAdapter [] = Inr ()"
    by code_simp
  have "0 \<le> tqMaxCPU sampleQuota" "tqMaxCPU sampleQuota < 2 ^ 31" "ciKeepAlive sampleRequest"
    by (simp_all add: sampleQuota_def sampleRequest_def)
  with quota_respected [OF v] v show ?thesis by auto
qed

text \<open>
  A creation request that is accepted is consistent with its compiled composition: tenant and
  owner are set, the members are positive accounts, the instance codes of the declared runtimes are
  distinct and as many as the compiled runtimes, every compiled runtime is frozen from a declared
  one with the same code and version, and minutes are only given with the switch they belong to.
\<close>

theorem create_request_consistent:
  assumes "validateCreateRequest req = Inr ()"
  shows "0 < ciTenantID req \<and> 0 < ciOwnerAccountID req \<and>
    (\<forall>a \<in> set (ciAuthorizedAccountIDs req). 0 < a) \<and>
    distinct (map crInstanceCode (scRuntimes (snSpec (ciCompositionSnapshot req)))) \<and>
    length (snRuntimes (ciCompositionSnapshot req)) = length (scRuntimes (snSpec (ciCompositionSnapshot req))) \<and>
    (\<forall>r \<in> set (snRuntimes (ciCompositionSnapshot req)).
       \<exists>d \<in> set (scRuntimes (snSpec (ciCompositionSnapshot req))). crInstanceCode d = rsInstanceCode r \<and>
         crCode d = rsCode r \<and> crImageVersion d = rsImageVersion r \<and> 0 < rsRuntimeID r \<and> 0 < rsImageID r) \<and>
    ValidSourceRef (ciSourceRef req) \<and> ValidScopeRef (ciScopeRef req) \<and>
    (\<not> ciKeepAlive req \<longrightarrow> ciKeepAliveMinutes req = 0) \<and>
    (\<not> ciSnapshotEnabled req \<longrightarrow> ciSnapshotRetentionMinutes req = 0)"
proof -
  let ?s = "ciCompositionSnapshot req"
  have a: "0 < ciTenantID req"
    "length (remdups (map crInstanceCode (scRuntimes (snSpec ?s)))) = length (scRuntimes (snSpec ?s))"
    "length (remdups (map crInstanceCode (scRuntimes (snSpec ?s)))) = length (snRuntimes ?s)"
    "\<forall>r \<in> set (snRuntimes ?s). compiled_runtime_check (by_key crInstanceCode (scRuntimes (snSpec ?s))) r = Inr ()"
    "0 < ciOwnerAccountID req"
    "\<exists>ids. normalizeSandboxSharedAccountIDs (ciOwnerAccountID req) (ciAuthorizedAccountIDs req) = Inr ids"
    "validSourceRef (ciSourceRef req)" "ValidScopeRef (ciScopeRef req)"
    "\<not> (ciKeepAliveMinutes req < 0 \<or> ciSnapshotRetentionMinutes req < 0)"
    "\<not> (\<not> ciKeepAlive req \<and> 0 < ciKeepAliveMinutes req)"
    "\<not> (\<not> ciSnapshotEnabled req \<and> 0 < ciSnapshotRetentionMinutes req)"
    using assms unfolding validateCreateRequest_def Let_def if_Inl_Inr thenR_Inr bindR_Inr eachR_Inr
    by (auto simp: not_le)
  have d: "distinct (map crInstanceCode (scRuntimes (snSpec ?s)))"
    using a(2) by (metis length_map length_remdups_eq distinct_remdups_id distinct_remdups)
  have "\<exists>d \<in> set (scRuntimes (snSpec ?s)). crInstanceCode d = rsInstanceCode r \<and>
         crCode d = rsCode r \<and> crImageVersion d = rsImageVersion r \<and> 0 < rsRuntimeID r \<and> 0 < rsImageID r"
    if "r \<in> set (snRuntimes ?s)" for r
  proof -
    have "compiled_runtime_check (by_key crInstanceCode (scRuntimes (snSpec ?s))) r = Inr ()"
      using a(4) that by blast
    then obtain d where "by_key crInstanceCode (scRuntimes (snSpec ?s)) (rsInstanceCode r) = Some d"
      "crCode d = rsCode r" "crImageVersion d = rsImageVersion r" "0 < rsRuntimeID r" "0 < rsImageID r"
      by (auto simp: compiled_runtime_check_def failIf_Inr not_le split: option.splits)
    then show ?thesis using by_key_Some by metis
  qed
  moreover have "\<forall>x \<in> set (ciAuthorizedAccountIDs req). 0 < x"
    using a(5,6) by (auto simp: normalized_members_positive)
  ultimately show ?thesis
    using a d by (auto simp: validSourceRef_def)
qed

theorem create_request_consistent_witness:
  "validateCreateRequest sampleRequest = Inr () \<and> ValidScopeRef (ciScopeRef sampleRequest)"
proof -
  have v: "validateCreateRequest sampleRequest = Inr ()" by code_simp
  with create_request_consistent [OF v] show ?thesis by blast
qed

end
