(* ===== verification/GoTime.thy ===== *)
theory GoTime
  imports PlatformNum GoStrings
begin

section \<open>Instants, durations and formatted years\<close>

text \<open>
  A \<open>time.Time\<close> is its number of nanoseconds since January 1, year 1 UTC, so Go's zero time
  is 0 and \<open>Before\<close>, \<open>After\<close> compare numbers; every clock value of the program is made by
  \<open>timex.Now\<close>, in UTC. A \<open>time.Duration\<close> is an \<open>int64\<close> number of nanoseconds whose
  products wrap. \<open>YearOf\<close> is the proleptic Gregorian year, \<open>pad04\<close> is the verb \<open>%04d\<close>.
\<close>

definition IsZero :: "int \<Rightarrow> bool" where "IsZero t \<longleftrightarrow> t = 0"

definition minuteNs :: int where "minuteNs = 60000000000"

definition millisecondNs :: int where "millisecondNs = 1000000"

definition dayNs :: int where "dayNs = 86400000000000"

definition YearOf :: "int \<Rightarrow> int" where
  "YearOf t =
     (let d = t div dayNs; n400 = d div 146097; r400 = d mod 146097;
          n100 = min 3 (r400 div 36524); r100 = r400 - 36524 * n100;
          n4 = r100 div 1461; r4 = r100 mod 1461
      in 400 * n400 + 100 * n100 + 4 * n4 + min 3 (r4 div 365) + 1)"

definition pad04 :: "int \<Rightarrow> string" where
  "pad04 y =
     (let s = digits_of (nat \<bar>y\<bar>)
      in if y < 0 then CHR ''-'' # replicate (3 - length s) (CHR ''0'') @ s
         else replicate (4 - length s) (CHR ''0'') @ s)"

lemma year_range:
  assumes "0 \<le> t" and "t < 3652059 * dayNs"
  shows "1 \<le> YearOf t \<and> YearOf t \<le> 9999"
proof -
  define d where "d = t div dayNs"
  have "d \<le> (3652059 * dayNs - 1) div dayNs"
    using assms(2) unfolding d_def by (intro zdiv_mono1) (auto simp: dayNs_def)
  then have d: "0 \<le> d" "d < 3652059" using assms(1) by (auto simp: d_def dayNs_def pos_imp_zdiv_nonneg_iff)
  define r where "r = d mod 146097"
  have r: "0 \<le> r" "r < 146097" unfolding r_def by simp_all
  define n where "n = d div 146097"
  have dn: "d = 146097 * n + r" unfolding n_def r_def by simp
  define n100 where "n100 = min 3 (r div 36524)"
  have n100: "0 \<le> n100" "n100 \<le> 3" "36524 * n100 \<le> r" unfolding n100_def using r by (auto simp: min_def)
  define r100 where "r100 = r - 36524 * n100"
  have r100: "0 \<le> r100" "r100 < 36525" using r n100 unfolding r100_def n100_def by (auto simp: min_def)
  define n4 where "n4 = r100 div 1461"
  have n4: "0 \<le> n4" "n4 \<le> 24" unfolding n4_def using r100 by auto
  define n1 where "n1 = min 3 (r100 mod 1461 div 365)"
  have n1: "0 \<le> n1" "n1 \<le> 3" unfolding n1_def by (auto simp: min_def)
  have y: "YearOf t = 400 * n + 100 * n100 + 4 * n4 + n1 + 1"
    unfolding YearOf_def Let_def n_def n100_def n4_def n1_def r100_def r_def d_def by simp
  have "n \<le> 24" using d dn r by linarith
  moreover have "400 * n + 100 * n100 + 4 * n4 + n1 + 1 \<le> 9999"
  proof (cases "n = 24")
    case True
    then have "r < 145731" using d dn by linarith
    show ?thesis
    proof (rule ccontr)
      assume "\<not> ?thesis"
      with True n100 n4 n1 have "n100 = 3" "n4 = 24" "n1 = 3" by auto
      then have "r100 mod 1461 = r100 - 35064" and "r100 < 36159"
        using \<open>r < 145731\<close> minus_div_mult_eq_mod [of r100 1461] unfolding n4_def r100_def by auto
      then have "r100 mod 1461 < 1095" by simp
      then show False using \<open>n1 = 3\<close> unfolding n1_def by (auto simp: min_def split: if_splits)
    qed
  next
    case False
    with \<open>n \<le> 24\<close> have "n \<le> 23" by simp
    with n100 n4 n1 show ?thesis by linarith
  qed
  moreover have "0 \<le> n" using d unfolding n_def by simp
  ultimately show ?thesis using n100 n4 n1 unfolding y by linarith
qed

end
