(* ===== verification/ContestModel.thy ===== *)
theory ContestModel
  imports SandboxModel GoTime PlatformIds Prelude
begin

section \<open>Contest module: data\<close>

text \<open>
  The enumerations of \<open>contest/enum.go\<close>, the records of \<open>contest/model.go\<close>, \<open>problem_config.go\<close>
  and the requests of \<open>dto.go\<close>. An \<open>int16\<close>, \<open>int32\<close> or \<open>int64\<close> field is an integer;
  where an operation can leave its range the model says so with \<open>i64\<close>. A Go map that may be nil is
  an option. Ladder scores are \<open>float64\<close> in the code and are not modelled.
\<close>

datatype contest_error =
    ErrContestInvalid | ErrContestProblemInvalid | ErrContestStateInvalid | ErrForbidden
  | ErrContestSignupClosed | ErrContestTeamInvalid | ErrContestTeamNotFound
  | ErrContestTeamAccessDenied | ErrContestBattleEntryInvalid | ErrContestBattleMatchFailed
  | ErrContestSubmissionInvalid | ErrContestVulnProblemInvalid | ErrContestNotFound
  | ErrContestContentUnavailable | ErrContestSandboxUnavailable | ErrContestEventPayloadInvalid
  | ErrContestJudgeUnavailable | ErrContestEventSourceMismatch | ErrContestSubmissionNotFound
  | ErrContestNotifyFailed | ErrContestSubmitRateLimited | ErrContestBattleMatchNotFound | ErrContestReplayUnavailable
  | ErrSandboxToolProxyUnavailable | ErrUnauthorized

definition ContestModeSolve :: int where "ContestModeSolve = 1"
definition ContestModeBattle :: int where "ContestModeBattle = 2"
definition MatchModeRoundRobin :: int where "MatchModeRoundRobin = 1"
definition MatchModeELO :: int where "MatchModeELO = 2"
definition TeamModeSolo :: int where "TeamModeSolo = 1"
definition TeamModeGroup :: int where "TeamModeGroup = 2"
definition ContestStatusDraft :: int where "ContestStatusDraft = 1"
definition ContestStatusSignup :: int where "ContestStatusSignup = 2"
definition ContestStatusRunning :: int where "ContestStatusRunning = 3"
definition ContestStatusFrozen :: int where "ContestStatusFrozen = 4"
definition ContestStatusEnded :: int where "ContestStatusEnded = 5"
definition ContestStatusArchived :: int where "ContestStatusArchived = 6"
definition TeamStatusBuilding :: int where "TeamStatusBuilding = 1"
definition TeamStatusLocked :: int where "TeamStatusLocked = 2"
definition BattleRuleAttackDefense :: int where "BattleRuleAttackDefense = 1"
definition BattleRuleGame :: int where "BattleRuleGame = 2"
definition BattleRoleStrategy :: int where "BattleRoleStrategy = 0"
definition BattleRoleDefense :: int where "BattleRoleDefense = 1"
definition BattleRoleAttack :: int where "BattleRoleAttack = 2"
definition BattleMatchStatusPending :: int where "BattleMatchStatusPending = 1"
definition BattleMatchStatusRunning :: int where "BattleMatchStatusRunning = 2"
definition BattleMatchStatusDone :: int where "BattleMatchStatusDone = 3"
definition BattleMatchStatusFailed :: int where "BattleMatchStatusFailed = 4"
definition BattleResultAWin :: int where "BattleResultAWin = 1"
definition BattleResultBWin :: int where "BattleResultBWin = 2"
definition BattleResultDraw :: int where "BattleResultDraw = 3"
definition VulnLevelA :: int where "VulnLevelA = 1"
definition VulnLevelB :: int where "VulnLevelB = 2"
definition VulnLevelC :: int where "VulnLevelC = 3"
definition VulnRuntimeIsolated :: int where "VulnRuntimeIsolated = 1"
definition VulnRuntimeForked :: int where "VulnRuntimeForked = 2"
definition contentTypeContestProblem :: int where "contentTypeContestProblem = 2"
definition contentTypeTheoryQuestion :: int where "contentTypeTheoryQuestion = 3"
definition contestAccessGrantActive :: int where "contestAccessGrantActive = 1"
definition contestAccessGrantRevoked :: int where "contestAccessGrantRevoked = 2"

lemmas contest_status_defs =
  ContestStatusDraft_def ContestStatusSignup_def ContestStatusRunning_def ContestStatusFrozen_def
  ContestStatusEnded_def ContestStatusArchived_def

lemmas battle_role_defs =
  BattleRoleStrategy_def BattleRoleDefense_def BattleRoleAttack_def BattleRuleAttackDefense_def
  BattleRuleGame_def

lemmas battle_result_defs = BattleResultAWin_def BattleResultBWin_def BattleResultDraw_def

record DynamicScoreConfig =
  MinScore :: int
  DecayPerSolve :: int

record BattleRuntimeConfig =
  ExecutionProfile :: string
  EntryRoles :: "int list"
  ReplayProfile :: "(string \<times> json) list"

record Contest =
  ctID :: int
  ctTenantID :: int
  ctOrganizerID :: int
  ctName :: string
  ctMode :: int
  ctMatchMode :: int
  ctTeamMode :: int
  ctSignupStart :: int
  ctSignupEnd :: int
  ctStartAt :: int
  ctEndAt :: int
  ctFreezeMinutes :: int
  ctRules :: "(string \<times> json) list option"
  ctStatus :: int
  ctCreatedAt :: int
  ctUpdatedAt :: int

record ContestProblem =
  cpID :: int
  cpTenantID :: int
  cpContestID :: int
  cpItemCode :: string
  cpItemVersion :: string
  cpScore :: int
  cpDynamicScore :: "DynamicScoreConfig option"
  cpBattleConfig :: "BattleRuntimeConfig option"
  cpBattleRule :: int
  cpSeq :: int
  cpCompositionDigest :: string
  cpCompositionSnapshot :: "SandboxCompositionSnapshot option"

record TeamMember =
  tmID :: int
  tmTenantID :: int
  tmTeamID :: int
  tmAccountID :: int
  tmMemberTenantID :: int
  tmIsLeader :: bool
  tmJoinedAt :: int

record Team =
  teID :: int
  teTenantID :: int
  teContestID :: int
  teName :: string
  teInviteCode :: string
  teStatus :: int
  teCreatedAt :: int
  teMembers :: "TeamMember list"

record ContestAccessGrant =
  cgID :: int
  cgTenantID :: int
  cgContestID :: int
  cgTeamID :: int
  cgSandboxID :: int
  cgMemberTenantID :: int
  cgMemberAccountID :: int
  cgCapabilities :: "string list"
  cgSourceRef :: string
  cgGrantVersion :: int
  cgStatus :: int
  cgExpiresAt :: int
  cgCreatedAt :: int
  cgUpdatedAt :: int

record ContestRequest =
  cqName :: string
  cqMode :: int
  cqMatchMode :: int
  cqTeamMode :: int
  cqSignupStart :: int
  cqSignupEnd :: int
  cqStartAt :: int
  cqEndAt :: int
  cqFreezeMinutes :: int
  cqRules :: "(string \<times> json) list option"

record ProblemRequest =
  prItemCode :: string
  prItemVersion :: string
  prScore :: int
  prDynamicScore :: "DynamicScoreConfig option"
  prBattleConfig :: "BattleRuntimeConfig option"
  prBattleRule :: int
  prSeq :: int

record BattleEntryRequest =
  beProblemID :: int
  beSandboxID :: int
  beRole :: int

record SubmitRequest =
  sbContentRef :: "(string \<times> json) list option"
  sbSandboxRef :: string

record PrevalidateRequest =
  pvComposition :: SandboxCompositionSpec
  pvInitCodeRef :: string
  pvInitScriptRef :: string

record ImportVulnProblemRequest =
  ivSourceID :: int
  ivExternalRef :: string
  ivTitle :: string
  ivLevel :: int
  ivRuntimeMode :: int
  ivDraftBody :: "(string \<times> json) list"

record JudgeResultDetail =
  jdCase :: string
  jdPassed :: bool
  jdExpectedLabel :: string
  jdActual :: string
  jdHint :: string

record JudgeReplayAction =
  jaSeq :: int
  jaOp :: string
  jaPayload :: "(string \<times> json) list"
  jaOutput :: "(string \<times> json) list"

record JudgeReplayTrace =
  jrActions :: "JudgeReplayAction list"

record JudgeTaskResult =
  jtPassed :: bool
  jtScore :: int
  jtMaxScore :: int
  jtDetails :: "JudgeResultDetail list"
  jtResultRef :: string
  jtReplay :: JudgeReplayTrace

record JudgeTaskInfo =
  jiTaskID :: int
  jiTenantID :: int
  jiSubmitterTenantID :: int
  jiSourceRef :: string
  jiSubmitterID :: int
  jiStatus :: int
  jiResult :: JudgeTaskResult

record JudgeCompletedEvent =
  jcTenantID :: int
  jcTraceID :: string
  jcTaskID :: int
  jcSourceRef :: string
  jcStatus :: int
  jcScore :: int
  jcPassed :: bool
  jcFinishedAt :: int

record JudgeFailedEvent =
  jfTenantID :: int
  jfTraceID :: string
  jfTaskID :: int
  jfSourceRef :: string
  jfReason :: string
  jfFailedAt :: int

definition JudgeTaskStatusQueued :: int where "JudgeTaskStatusQueued = 1"
definition JudgeTaskStatusRunning :: int where "JudgeTaskStatusRunning = 2"
definition JudgeTaskStatusDone :: int where "JudgeTaskStatusDone = 3"
definition JudgeTaskStatusFailed :: int where "JudgeTaskStatusFailed = 4"
definition JudgeTaskStatusCanceled :: int where "JudgeTaskStatusCanceled = 5"

definition SandboxAccessExperiment :: string where "SandboxAccessExperiment = ''experiment''"
definition SandboxAccessContestSolve :: string where "SandboxAccessContestSolve = ''contest-solve''"
definition SandboxAccessContestBattle :: string where "SandboxAccessContestBattle = ''contest-battle''"
definition SandboxAccessVulnerabilityPrevalidate :: string where
  "SandboxAccessVulnerabilityPrevalidate = ''vulnerability-prevalidate''"
definition SandboxAccessJudgePrivate :: string where "SandboxAccessJudgePrivate = ''judge-private''"

definition SandboxPhaseAllocating :: int where "SandboxPhaseAllocating = 1"
definition SandboxPhaseReady :: int where "SandboxPhaseReady = 2"
definition SandboxPhaseInitializing :: int where "SandboxPhaseInitializing = 3"
definition SandboxPhaseFullyReady :: int where "SandboxPhaseFullyReady = 4"

end
