(* ===== verification/ContestRules.thy ===== *)
theory ContestRules
  imports ContestModel SandboxQuota
begin

section \<open>Contest module: rules\<close>

text \<open>
  The rules of \<open>contest/rules.go\<close> and the pure decisions of the contest services: request
  validation, the life cycle and its time windows, access, source references, battle roles and
  results, and scores.
\<close>

subsection \<open>Requests\<close>

definition registeredContestMode :: "int \<Rightarrow> bool" where
  "registeredContestMode mode \<longleftrightarrow> mode \<in> {ContestModeSolve, ContestModeBattle}"

definition registeredBattleRule :: "int \<Rightarrow> bool" where
  "registeredBattleRule rule \<longleftrightarrow> rule \<in> {BattleRuleAttackDefense, BattleRuleGame}"

definition validateContestRequest :: "ContestRequest \<Rightarrow> contest_error + ContestRequest" where
  "validateContestRequest req0 =
     (let req1 = req0\<lparr>cqName := TrimSpace (cqName req0)\<rparr>
      in if cqName req1 = [] \<or> 255 < length (cqName req1) then Inl ErrContestInvalid
         else let req = (if cqRules req1 = None then req1\<lparr>cqRules := Some []\<rparr> else req1)
         in if \<not> registeredContestMode (cqMode req) then Inl ErrContestInvalid
         else if cqTeamMode req \<noteq> TeamModeSolo \<and> cqTeamMode req \<noteq> TeamModeGroup then Inl ErrContestInvalid
         else if cqMode req = ContestModeBattle \<and> cqMatchMode req \<noteq> MatchModeRoundRobin \<and> cqMatchMode req \<noteq> MatchModeELO
         then Inl ErrContestInvalid
         else let req = (if cqMode req = ContestModeSolve then req\<lparr>cqMatchMode := 0\<rparr> else req)
         in if IsZero (cqSignupStart req) \<or> IsZero (cqSignupEnd req) \<or> IsZero (cqStartAt req) \<or> IsZero (cqEndAt req)
               \<or> \<not> cqSignupStart req < cqSignupEnd req \<or> cqStartAt req < cqSignupEnd req \<or> \<not> cqStartAt req < cqEndAt req
         then Inl ErrContestInvalid
         else if cqFreezeMinutes req < 0 then Inl ErrContestInvalid
         else Inr req)"

definition BattleRuntimeConfig_Validate :: "BattleRuntimeConfig \<Rightarrow> contest_error + unit" where
  "BattleRuntimeConfig_Validate cfg =
     failIf (ExecutionProfile cfg \<noteq> SandboxAccessContestBattle \<or> EntryRoles cfg = [] \<or> ReplayProfile cfg = [])
       ErrContestProblemInvalid"

definition validateBattleConfig :: "BattleRuntimeConfig option \<Rightarrow> contest_error + BattleRuntimeConfig option" where
  "validateBattleConfig cfg =
     (case cfg of
        None \<Rightarrow> Inl ErrContestProblemInvalid
      | Some c \<Rightarrow>
          let normalized = \<lparr>ExecutionProfile = TrimSpace (ExecutionProfile c), EntryRoles = EntryRoles c,
                            ReplayProfile = ReplayProfile c\<rparr>
          in thenR (withCause ErrContestProblemInvalid (BattleRuntimeConfig_Validate normalized)) (Inr (Some normalized)))"

definition dynamic_check :: "ProblemRequest \<Rightarrow> contest_error + unit" where
  "dynamic_check req =
     (case prDynamicScore req of
        None \<Rightarrow> Inr ()
      | Some d \<Rightarrow> failIf (MinScore d \<le> 0 \<or> prScore req < MinScore d \<or> DecayPerSolve d \<le> 0) ErrContestProblemInvalid)"

definition validateProblemRequest :: "ProblemRequest \<Rightarrow> int \<Rightarrow> contest_error + ProblemRequest" where
  "validateProblemRequest req0 mode =
     (let req = req0\<lparr>prItemCode := TrimSpace (prItemCode req0), prItemVersion := TrimSpace (prItemVersion req0)\<rparr>
      in if prItemCode req = [] \<or> prItemVersion req = [] \<or> prScore req \<le> 0 then Inl ErrContestProblemInvalid
         else thenR (dynamic_check req)
           (if mode = ContestModeBattle
            then if \<not> registeredBattleRule (prBattleRule req) then Inl ErrContestProblemInvalid
                 else bindR (validateBattleConfig (prBattleConfig req)) (\<lambda>cfg. Inr (req\<lparr>prBattleConfig := cfg\<rparr>))
            else if prBattleRule req \<noteq> 0 \<or> prBattleConfig req \<noteq> None then Inl ErrContestProblemInvalid
            else Inr (req\<lparr>prBattleRule := 0, prBattleConfig := None\<rparr>)))"

definition contestContentTypeAllowed :: "int \<Rightarrow> int \<Rightarrow> bool" where
  "contestContentTypeAllowed mode contentType =
     (if mode = ContestModeSolve then contentType = contentTypeContestProblem \<or> contentType = contentTypeTheoryQuestion
      else if mode = ContestModeBattle then contentType = contentTypeContestProblem
      else False)"

definition sandboxProfileForContestMode :: "int \<Rightarrow> contest_error + string" where
  "sandboxProfileForContestMode mode =
     (if mode = ContestModeSolve then Inr SandboxAccessContestSolve
      else if mode = ContestModeBattle then Inr SandboxAccessContestBattle
      else Inl ErrContestProblemInvalid)"

definition composition_runtime_check :: "CompositionRuntimeRef \<Rightarrow> contest_error + unit" where
  "composition_runtime_check runtime =
     failIf (TrimSpace (crInstanceCode runtime) = [] \<or> TrimSpace (crCode runtime) = []
             \<or> TrimSpace (crImageVersion runtime) = []) ErrContestProblemInvalid"

text \<open>The text errors of \<open>normalizeContestComposition\<close> are the cause its only caller wraps.\<close>

definition normalizeContestComposition :: "SandboxCompositionSpec \<Rightarrow> string \<Rightarrow> contest_error + SandboxCompositionSpec" where
  "normalizeContestComposition spec0 profile =
     (let spec = spec0\<lparr>scID := TrimSpace (scID spec0)\<rparr>
      in if scID spec = [] \<or> scRuntimes spec = [] \<or> TrimSpace (scWorkspaceRuntimeInstance spec) = []
         then Inl ErrContestProblemInvalid
         else thenR (eachR composition_runtime_check (scRuntimes spec))
           (if scAccessProfile spec \<noteq> [] \<and> scAccessProfile spec \<noteq> profile then Inl ErrContestProblemInvalid
            else Inr (spec\<lparr>scAccessProfile := profile\<rparr>)))"

definition validateTeamName :: "string \<Rightarrow> contest_error + string" where
  "validateTeamName name0 =
     (let name = TrimSpace name0
      in if name = [] \<or> 128 < length name then Inl ErrContestTeamInvalid else Inr name)"

definition json_string :: "json option \<Rightarrow> string" where
  "json_string v = (case v of Some (JStr s) \<Rightarrow> s | _ \<Rightarrow> [])"

definition validateContestSolveRequest :: "SubmitRequest \<Rightarrow> string \<Rightarrow> bool \<Rightarrow> contest_error + unit" where
  "validateContestSolveRequest req submitKey codeTask =
     (case sbContentRef req of
        None \<Rightarrow> Inl ErrContestSubmissionInvalid
      | Some ref \<Rightarrow>
          if codeTask
          then failIf (TrimSpace (sbSandboxRef req) = [] \<or> length ref \<noteq> 0) ErrContestSubmissionInvalid
          else failIf (submitKey = [] \<or> TrimSpace (sbSandboxRef req) \<noteq> [] \<or> length ref \<noteq> 1
                       \<or> TrimSpace (json_string (map_of ref submitKey)) = []) ErrContestSubmissionInvalid)"

definition JudgeSandboxModeFresh :: string where "JudgeSandboxModeFresh = ''fresh''"
definition JudgeSandboxModeReuse :: string where "JudgeSandboxModeReuse = ''reuse''"

definition sandboxModeForSolve :: "SubmitRequest \<Rightarrow> string" where
  "sandboxModeForSolve req =
     (if TrimSpace (sbSandboxRef req) \<noteq> [] then JudgeSandboxModeReuse else JudgeSandboxModeFresh)"

definition prevalidate_step :: "CompositionRuntimeRef \<Rightarrow> contest_error + CompositionRuntimeRef" where
  "prevalidate_step runtime0 =
     (let runtime = runtime0\<lparr>crInstanceCode := TrimSpace (crInstanceCode runtime0), crCode := TrimSpace (crCode runtime0),
                             crImageVersion := TrimSpace (crImageVersion runtime0)\<rparr>
      in if crInstanceCode runtime = [] \<or> crCode runtime = [] \<or> crImageVersion runtime = []
         then Inl ErrContestVulnProblemInvalid else Inr runtime)"

definition validatePrevalidateRequest :: "PrevalidateRequest \<Rightarrow> contest_error + PrevalidateRequest" where
  "validatePrevalidateRequest req =
     (let composition = (pvComposition req)\<lparr>scID := TrimSpace (scID (pvComposition req))\<rparr>
      in if scID composition = [] \<or> scRuntimes composition = [] then Inl ErrContestVulnProblemInvalid
         else bindR (mapR prevalidate_step (scRuntimes composition)) (\<lambda>runtimes.
           Inr \<lparr>pvComposition = composition\<lparr>scRuntimes := runtimes, scAccessProfile := SandboxAccessVulnerabilityPrevalidate\<rparr>,
                pvInitCodeRef = TrimSpace (pvInitCodeRef req), pvInitScriptRef = TrimSpace (pvInitScriptRef req)\<rparr>))"

subsection \<open>Life cycle\<close>

definition validateContestTransition :: "int \<Rightarrow> int \<Rightarrow> contest_error + unit" where
  "validateContestTransition current next =
     (if next = ContestStatusSignup \<and> current = ContestStatusDraft then Inr ()
      else if next = ContestStatusRunning \<and> current = ContestStatusSignup then Inr ()
      else if next = ContestStatusEnded \<and> (current = ContestStatusRunning \<or> current = ContestStatusFrozen) then Inr ()
      else if next = ContestStatusArchived \<and> current = ContestStatusEnded then Inr ()
      else if next = ContestStatusFrozen \<and> current = ContestStatusRunning then Inr ()
      else Inl ErrContestStateInvalid)"

definition validateCheatReviewContestStatus :: "int \<Rightarrow> contest_error + unit" where
  "validateCheatReviewContestStatus status =
     failIf (status = ContestStatusDraft \<or> status = ContestStatusArchived) ErrContestStateInvalid"

text \<open>\<open>item.EndAt.Add(-time.Duration(item.FreezeMinutes) * time.Minute)\<close>: the product wraps.\<close>

definition freezeStart :: "Contest \<Rightarrow> int" where
  "freezeStart item = ctEndAt item + i64 (- ctFreezeMinutes item * minuteNs)"

definition transition_window :: "Contest \<Rightarrow> int \<Rightarrow> int \<Rightarrow> contest_error + unit" where
  "transition_window item next now =
     (if next = ContestStatusSignup then failIf (ctSignupEnd item < now) ErrContestStateInvalid
      else if next = ContestStatusRunning
      then failIf (now < ctStartAt item \<or> \<not> now < ctEndAt item) ErrContestStateInvalid
      else if next = ContestStatusFrozen
      then if ctFreezeMinutes item \<le> 0 then Inl ErrContestStateInvalid
           else failIf (now < freezeStart item \<or> \<not> now < ctEndAt item) ErrContestStateInvalid
      else if next = ContestStatusEnded then failIf (now < ctEndAt item) ErrContestStateInvalid
      else Inr ())"

definition validateContestTransitionWindow :: "Contest \<Rightarrow> int \<Rightarrow> int \<Rightarrow> contest_error + unit" where
  "validateContestTransitionWindow item next now =
     thenR (validateContestTransition (ctStatus item) next) (transition_window item next now)"

definition canManageContest :: "int \<Rightarrow> bool \<Rightarrow> Contest \<Rightarrow> contest_error + unit" where
  "canManageContest accountID isSchoolAdmin item =
     (if isSchoolAdmin \<or> ctOrganizerID item = accountID then Inr () else Inl ErrForbidden)"

definition validateSignupWindow :: "Contest \<Rightarrow> int \<Rightarrow> contest_error + unit" where
  "validateSignupWindow item now =
     failIf (ctStatus item \<noteq> ContestStatusSignup \<or> now < ctSignupStart item \<or> ctSignupEnd item < now)
       ErrContestSignupClosed"

definition validateContestRunning :: "Contest \<Rightarrow> contest_error + unit" where
  "validateContestRunning item =
     failIf (ctStatus item \<noteq> ContestStatusRunning \<and> ctStatus item \<noteq> ContestStatusFrozen) ErrContestStateInvalid"

definition contestReadAccessAllowed :: "int \<Rightarrow> int \<Rightarrow> bool \<Rightarrow> bool" where
  "contestReadAccessAllowed idTenantID organizerTenantID teamMember \<longleftrightarrow>
     idTenantID = organizerTenantID \<or> teamMember"

subsection \<open>Source references\<close>

definition contestRef :: "string \<Rightarrow> int \<Rightarrow> int \<Rightarrow> string" where
  "contestRef kind i now = ''contest:'' @ pad04 (YearOf now) @ '':'' @ kind @ '':'' @ Format i"

definition contestSourceRef :: "int \<Rightarrow> int \<Rightarrow> string" where
  "contestSourceRef contestID now = contestRef ''contest'' contestID now"

definition submissionSourceRef :: "int \<Rightarrow> int \<Rightarrow> string" where
  "submissionSourceRef i now = contestRef ''submission'' i now"

definition battleSourceRef :: "int \<Rightarrow> int \<Rightarrow> string" where
  "battleSourceRef i now = contestRef ''battle'' i now"

definition validContestSourceRef :: "string \<Rightarrow> bool" where
  "validContestSourceRef sourceRef \<longleftrightarrow> ValidSourceRef sourceRef \<and> HasPrefix (TrimSpace sourceRef) ''contest:''"

definition contestEnvSourceRefPrefix :: "int \<Rightarrow> int \<Rightarrow> int \<Rightarrow> string" where
  "contestEnvSourceRefPrefix year problemID teamID =
     ''contest:'' @ pad04 year @ '':solve-env:'' @ Format problemID @ ''-'' @ Format teamID @ ''-''"

definition archive_ref_step :: "string list \<Rightarrow> string \<Rightarrow> string list" where
  "archive_ref_step refs ref0 =
     (let sourceRef = TrimSpace ref0
      in if sourceRef = [] \<or> sourceRef \<in> set refs then refs else refs @ [sourceRef])"

text \<open>The map \<open>seen\<close> of the code holds exactly the elements of \<open>refs\<close>.\<close>

definition contestArchiveSourceRefs :: "int \<Rightarrow> int \<Rightarrow> string list \<Rightarrow> string list" where
  "contestArchiveSourceRefs contestID contestCreatedAt battleRefs =
     foldl archive_ref_step [contestSourceRef contestID contestCreatedAt] battleRefs"

subsection \<open>Teams and sandbox grants\<close>

definition is_member :: "int \<Rightarrow> int \<Rightarrow> TeamMember \<Rightarrow> bool" where
  "is_member memberTenantID accountID member \<longleftrightarrow>
     tmMemberTenantID member = memberTenantID \<and> tmAccountID member = accountID"

definition ensureTeamAccess :: "int \<Rightarrow> int \<Rightarrow> Team \<Rightarrow> contest_error + unit" where
  "ensureTeamAccess memberTenantID accountID team =
     (if list_ex (is_member memberTenantID accountID) (teMembers team) then Inr () else Inl ErrContestTeamAccessDenied)"

definition isTeamLeader :: "int \<Rightarrow> int \<Rightarrow> Team \<Rightarrow> bool" where
  "isTeamLeader memberTenantID accountID team =
     list_ex (\<lambda>member. is_member memberTenantID accountID member \<and> tmIsLeader member) (teMembers team)"

definition teamLeaderID :: "Team \<Rightarrow> contest_error + int" where
  "teamLeaderID team =
     (case find tmIsLeader (teMembers team) of
        Some member \<Rightarrow> Inr (tmAccountID member)
      | None \<Rightarrow> (case teMembers team of [] \<Rightarrow> Inl ErrContestTeamInvalid | m # _ \<Rightarrow> Inr (tmAccountID m)))"

definition grantAllows :: "ContestAccessGrant \<Rightarrow> string \<Rightarrow> bool" where
  "grantAllows grant required = list_ex (\<lambda>capability. capability = required) (cgCapabilities grant)"

definition hex_char :: "char \<Rightarrow> bool" where
  "hex_char c \<longleftrightarrow> is_digit c \<or> (CHR ''a'' \<le> c \<and> c \<le> CHR ''f'') \<or> (CHR ''A'' \<le> c \<and> c \<le> CHR ''F'')"

definition contestSandboxGrantScopeMatches ::
  "ContestAccessGrant \<Rightarrow> Contest \<Rightarrow> ContestProblem \<Rightarrow> Team \<Rightarrow> int \<Rightarrow> int \<Rightarrow> int \<Rightarrow> bool" where
  "contestSandboxGrantScopeMatches grant contest problem team sandboxID memberTenantID accountID =
     (if ctID contest \<le> 0 \<or> ctTenantID contest \<noteq> cgTenantID grant \<or> cpID problem \<le> 0
         \<or> cpTenantID problem \<noteq> ctTenantID contest \<or> cpContestID problem \<noteq> ctID contest \<or> teID team \<le> 0
         \<or> teTenantID team \<noteq> ctTenantID contest \<or> teContestID team \<noteq> ctID contest
         \<or> cgTenantID grant \<noteq> ctTenantID contest \<or> cgContestID grant \<noteq> ctID contest \<or> cgTeamID grant \<noteq> teID team
         \<or> cgSandboxID grant \<noteq> sandboxID \<or> cgMemberTenantID grant \<noteq> memberTenantID
         \<or> cgMemberAccountID grant \<noteq> accountID
      then False
      else let pre = contestEnvSourceRefPrefix (YearOf (ctCreatedAt contest)) (cpID problem) (teID team)
           in if \<not> HasPrefix (cgSourceRef grant) pre then False
              else let digest = TrimPrefix (cgSourceRef grant) pre
                   in length digest = 16 \<and> list_all hex_char digest)"

definition contestSubmissionSandboxReady :: "int \<Rightarrow> int \<Rightarrow> bool" where
  "contestSubmissionSandboxReady infoStatus infoPhase =
     (let statusReady = infoStatus = SandboxStatusReady \<or> infoStatus = SandboxStatusRunning \<or> infoStatus = SandboxStatusIdle;
          phaseReady = infoPhase = SandboxPhaseReady \<or> infoPhase = SandboxPhaseFullyReady
      in statusReady \<and> phaseReady)"

subsection \<open>Battles\<close>

definition validateBattleEntryRequest :: "BattleEntryRequest \<Rightarrow> contest_error + BattleEntryRequest" where
  "validateBattleEntryRequest req =
     (if beProblemID req \<le> 0 \<or> beSandboxID req \<le> 0 then Inl ErrContestBattleEntryInvalid
      else if beRole req \<noteq> BattleRoleStrategy \<and> beRole req \<noteq> BattleRoleDefense \<and> beRole req \<noteq> BattleRoleAttack
      then Inl ErrContestBattleEntryInvalid
      else Inr req)"

definition validateBattleEntryRole :: "int \<Rightarrow> int \<Rightarrow> contest_error + unit" where
  "validateBattleEntryRole rule role =
     (if rule = BattleRuleAttackDefense \<and> (role = BattleRoleAttack \<or> role = BattleRoleDefense) then Inr ()
      else if rule = BattleRuleGame \<and> role = BattleRoleStrategy then Inr ()
      else Inl ErrContestBattleEntryInvalid)"

definition battleArtifactDirectories :: "int \<Rightarrow> int \<Rightarrow> contest_error + string \<times> string" where
  "battleArtifactDirectories roleA roleB =
     (if roleA = BattleRoleAttack \<and> roleB = BattleRoleDefense then Inr (''battle/attack'', ''battle/defense'')
      else if roleA = BattleRoleDefense \<and> roleB = BattleRoleAttack then Inr (''battle/defense'', ''battle/attack'')
      else if roleA = BattleRoleStrategy \<and> roleB = BattleRoleStrategy then Inr (''battle/entry_a'', ''battle/entry_b'')
      else Inl ErrContestBattleEntryInvalid)"

definition battleRolesCompatible :: "int \<Rightarrow> int \<Rightarrow> int \<Rightarrow> bool" where
  "battleRolesCompatible rule a b =
     (if rule = BattleRuleGame then a = BattleRoleStrategy \<and> b = BattleRoleStrategy
      else (a = BattleRoleAttack \<and> b = BattleRoleDefense) \<or> (a = BattleRoleDefense \<and> b = BattleRoleAttack))"

fun game_result :: "JudgeResultDetail list \<Rightarrow> contest_error + int" where
  "game_result [] = Inl ErrContestBattleMatchFailed"
| "game_result (detail # rest) =
     (let v = ToLower (TrimSpace (jdActual detail))
      in if v = ''a_win'' \<or> v = ''a'' then Inr BattleResultAWin
         else if v = ''b_win'' \<or> v = ''b'' then Inr BattleResultBWin
         else if v = ''draw'' \<or> v = ''tie'' then Inr BattleResultDraw
         else game_result rest)"

definition battleResultFromTask :: "JudgeTaskResult \<Rightarrow> int \<Rightarrow> int \<Rightarrow> int \<Rightarrow> contest_error + int" where
  "battleResultFromTask result rule roleA roleB =
     (if rule = BattleRuleAttackDefense
      then if roleA = BattleRoleAttack \<and> roleB = BattleRoleDefense
           then if jtPassed result then Inr BattleResultAWin else Inr BattleResultBWin
           else if roleA = BattleRoleDefense \<and> roleB = BattleRoleAttack
           then if jtPassed result then Inr BattleResultBWin else Inr BattleResultAWin
           else Inl ErrContestBattleMatchFailed
      else if rule = BattleRuleGame \<and> roleA = BattleRoleStrategy \<and> roleB = BattleRoleStrategy
      then game_result (jtDetails result)
      else Inl ErrContestBattleMatchFailed)"

subsection \<open>Scores\<close>

definition min_int32 :: int where "min_int32 = - 2147483648"
definition max_int32 :: int where "max_int32 = 2147483647"

definition scaledContestScore :: "int \<Rightarrow> int \<Rightarrow> int \<Rightarrow> int" where
  "scaledContestScore maxScore score judgeMax =
     (if judgeMax \<le> 0 then if maxScore < score then maxScore else score
      else let scaled = quot64 (i64 (score * maxScore + quot64 judgeMax 2)) judgeMax
           in if scaled < min_int32 then min_int32 else if max_int32 < scaled then max_int32 else scaled)"

definition absInt32 :: "int \<Rightarrow> int" where
  "absInt32 v = (if v = min_int32 then 2147483648 else if v < 0 then - v else v)"

text \<open>\<open>solved\<close> is the result of \<open>CountProblemSolvedTeams\<close>, read only for a dynamic score.\<close>

definition dynamicSolveScore :: "contest_error + int \<Rightarrow> ContestProblem \<Rightarrow> contest_error + int" where
  "dynamicSolveScore count problem =
     (case cpDynamicScore problem of
        None \<Rightarrow> Inr (cpScore problem)
      | Some d \<Rightarrow> bindR count (\<lambda>solved.
          let minScore = MinScore d; decay = DecayPerSolve d
          in if solved < 0 \<or> decay \<noteq> 0 \<and> quot64 max_int64 (absInt32 decay) < solved then Inl ErrContestProblemInvalid
             else let score64 = i64 (cpScore problem - i64 (solved * decay))
             in if score64 < min_int32 \<or> max_int32 < score64 then Inl ErrContestProblemInvalid
             else let score = if score64 < minScore then minScore else score64
             in if score \<le> 0 then Inl ErrContestProblemInvalid else Inr score))"

end
