(* ===== verification/ContestProps.thy ===== *)
theory ContestProps
  imports ContestRules
begin

section \<open>Contest module: what the rules guarantee\<close>

text \<open>
  Lemmas and properties of the definitions of \<open>ContestRules\<close>: the timeline of an accepted
  contest, its life cycle, source references and grants, battle results and scores.
\<close>

subsection \<open>Requests\<close>

lemma validateContestRequest_Inr:
  "validateContestRequest r = Inr q \<longleftrightarrow>
     TrimSpace (cqName r) \<noteq> [] \<and> length (TrimSpace (cqName r)) \<le> 255 \<and> registeredContestMode (cqMode r) \<and>
     (cqTeamMode r = TeamModeSolo \<or> cqTeamMode r = TeamModeGroup) \<and>
     (cqMode r = ContestModeBattle \<longrightarrow> cqMatchMode r = MatchModeRoundRobin \<or> cqMatchMode r = MatchModeELO) \<and>
     cqSignupStart r \<noteq> 0 \<and> cqSignupEnd r \<noteq> 0 \<and> cqStartAt r \<noteq> 0 \<and> cqEndAt r \<noteq> 0 \<and>
     cqSignupStart r < cqSignupEnd r \<and> cqSignupEnd r \<le> cqStartAt r \<and> cqStartAt r < cqEndAt r \<and>
     0 \<le> cqFreezeMinutes r \<and>
     q = r\<lparr>cqName := TrimSpace (cqName r), cqRules := Some (case cqRules r of None \<Rightarrow> [] | Some m \<Rightarrow> m),
           cqMatchMode := (if cqMode r = ContestModeSolve then 0 else cqMatchMode r)\<rparr>"
  by (cases "cqRules r"; cases "cqMode r = ContestModeSolve")
     (auto simp: validateContestRequest_def Let_def if_Inl_Inr IsZero_def)

text \<open>
  C30: An accepted contest definition is well formed and stable: its name is trimmed, non-empty and at
  most 255 bytes, its mode, team mode and match mode are registered, its times are in order, and
  validating it again changes nothing.
\<close>

theorem contest_request_stable:
  assumes "validateContestRequest r = Inr q"
  shows "TrimSpace (cqName q) = cqName q \<and> cqName q \<noteq> [] \<and> length (cqName q) \<le> 255 \<and>
    cqSignupStart q < cqSignupEnd q \<and> cqSignupEnd q \<le> cqStartAt q \<and> cqStartAt q < cqEndAt q \<and>
    0 \<le> cqFreezeMinutes q \<and> cqTeamMode q \<in> {TeamModeSolo, TeamModeGroup} \<and>
    (cqMode q = ContestModeSolve \<and> cqMatchMode q = 0 \<or>
     cqMode q = ContestModeBattle \<and> cqMatchMode q \<in> {MatchModeRoundRobin, MatchModeELO}) \<and>
    validateContestRequest q = Inr q"
  using assms unfolding validateContestRequest_Inr
  by (auto simp: registeredContestMode_def ContestModeSolve_def ContestModeBattle_def)

definition sampleContestRequest :: ContestRequest where
  "sampleContestRequest = \<lparr>cqName = '' cup'', cqMode = 1, cqMatchMode = 1, cqTeamMode = 2, cqSignupStart = 10,
     cqSignupEnd = 20, cqStartAt = 20, cqEndAt = 60, cqFreezeMinutes = 0, cqRules = None\<rparr>"

theorem contest_request_stable_witness:
  "\<exists>q. validateContestRequest sampleContestRequest = Inr q \<and> cqMatchMode q = 0 \<and> validateContestRequest q = Inr q"
proof -
  have e: "\<not> isl (validateContestRequest sampleContestRequest)" by code_simp
  then obtain q where q: "validateContestRequest sampleContestRequest = Inr q"
    by (cases "validateContestRequest sampleContestRequest") auto
  moreover have "cqMode q = ContestModeSolve"
    using q unfolding validateContestRequest_Inr by (auto simp: sampleContestRequest_def ContestModeSolve_def)
  ultimately show ?thesis using contest_request_stable [OF q]
    by (auto simp: ContestModeSolve_def ContestModeBattle_def)
qed

subsection \<open>Life cycle\<close>

lemma validateContestTransition_Inr:
  "validateContestTransition s t = Inr () \<longleftrightarrow>
     (s, t) \<in> {(1, 2), (2, 3), (3, 4), (3, 5), (4, 5), (5, 6)}"
  by (auto simp: validateContestTransition_def contest_status_defs)

interpretation contest_cycle: ranked_lifecycle validateContestTransition nat
  by unfold_locales (auto simp: validateContestTransition_Inr)

lemma contest_reach:
  assumes "moves validateContestTransition s t" and "s \<noteq> t"
  shows "s < t \<and> 1 \<le> s \<and> t \<le> 6"
  using assms
proof (induction rule: moves.induct)
  case (moves_step s t u)
  then show ?case by (cases "s = t") (auto simp: validateContestTransition_Inr)
qed simp


subsection \<open>Time windows\<close>

definition maxFreezeMinutes :: int where "maxFreezeMinutes = 153722867"

lemma freezeStart_exact:
  assumes "0 \<le> ctFreezeMinutes item" and "ctFreezeMinutes item \<le> maxFreezeMinutes"
  shows "freezeStart item = ctEndAt item - ctFreezeMinutes item * minuteNs"
proof -
  have "i64 (- ctFreezeMinutes item * minuteNs) = - ctFreezeMinutes item * minuteNs"
    using assms by (intro i64_id) (auto simp: minuteNs_def maxFreezeMinutes_def)
  then show ?thesis by (simp add: freezeStart_def)
qed

lemma window_Inr:
  "validateContestTransitionWindow item next now = Inr () \<longleftrightarrow>
     validateContestTransition (ctStatus item) next = Inr () \<and> transition_window item next now = Inr ()"
  by (simp add: validateContestTransitionWindow_def thenR_Inr)

text \<open>
  C27: A manual transition is accepted only inside the contest's time window: it opens signup before
  signup ends, starts between start and end, freezes a contest with a freeze period only in its
  last \<open>FreezeMinutes\<close> minutes and ends it only after its end, for every freeze period up to 153
  million minutes; archiving needs no window.
\<close>

theorem transition_in_window:
  assumes "ctFreezeMinutes item \<le> maxFreezeMinutes"
  shows "validateContestTransitionWindow item next now = Inr () \<longleftrightarrow>
    (ctStatus item, next) = (ContestStatusDraft, ContestStatusSignup) \<and> now \<le> ctSignupEnd item \<or>
    (ctStatus item, next) = (ContestStatusSignup, ContestStatusRunning) \<and> ctStartAt item \<le> now \<and> now < ctEndAt item \<or>
    (ctStatus item, next) = (ContestStatusRunning, ContestStatusFrozen) \<and> 0 < ctFreezeMinutes item
      \<and> ctEndAt item - ctFreezeMinutes item * minuteNs \<le> now \<and> now < ctEndAt item \<or>
    ctStatus item \<in> {ContestStatusRunning, ContestStatusFrozen} \<and> next = ContestStatusEnded \<and> ctEndAt item \<le> now \<or>
    (ctStatus item, next) = (ContestStatusEnded, ContestStatusArchived)"
  using freezeStart_exact [OF _ assms] unfolding window_Inr validateContestTransition_Inr
  by (auto simp: transition_window_def failIf_Inr contest_status_defs split: if_splits)

definition sampleContest :: Contest where
  "sampleContest = \<lparr>ctID = 1, ctTenantID = 1, ctOrganizerID = 2, ctName = ''cup'', ctMode = 1, ctMatchMode = 0,
     ctTeamMode = 2, ctSignupStart = 1, ctSignupEnd = 2, ctStartAt = 3, ctEndAt = 600000000000, ctFreezeMinutes = 5,
     ctRules = Some [], ctStatus = 3, ctCreatedAt = 0, ctUpdatedAt = 0\<rparr>"

theorem transition_in_window_witness:
  "ctFreezeMinutes sampleContest \<le> maxFreezeMinutes \<and>
   validateContestTransitionWindow sampleContest ContestStatusFrozen 300000000000 = Inr () \<and>
   validateContestTransitionWindow sampleContest ContestStatusFrozen 299999999999 \<noteq> Inr ()"
proof -
  have b: "ctFreezeMinutes sampleContest \<le> maxFreezeMinutes"
    by (simp add: sampleContest_def maxFreezeMinutes_def)
  show ?thesis
    using b transition_in_window [OF b, of ContestStatusFrozen 300000000000]
      transition_in_window [OF b, of ContestStatusFrozen 299999999999]
    by (simp add: sampleContest_def contest_status_defs minuteNs_def)
qed

text \<open>
  Beyond that bound the product wraps and the window is no longer the last minutes of the contest:
  a validated freeze period of 200 million minutes can never be entered.
\<close>

lemma freeze_overflow:
  assumes "ctFreezeMinutes item = 200000000"
  shows "validateContestTransitionWindow item ContestStatusFrozen now \<noteq> Inr ()"
proof -
  have "freezeStart item = ctEndAt item + 6446744073709551616"
    unfolding freezeStart_def assms minuteNs_def by (simp add: i64_def)
  then show ?thesis unfolding window_Inr
    by (auto simp: transition_window_def failIf_Inr contest_status_defs split: if_splits)
qed

subsection \<open>Source references\<close>

lemma digits_of_length: "n < 10 ^ Suc k \<Longrightarrow> length (digits_of n) \<le> Suc k"
proof (induction k arbitrary: n)
  case 0
  then show ?case by (simp add: digits_of_small)
next
  case (Suc k)
  show ?case
  proof (cases "n < 10")
    case True
    then show ?thesis by (simp add: digits_of_small)
  next
    case False
    moreover have "n div 10 < 10 ^ Suc k" using Suc.prems by (simp add: less_mult_imp_div_less mult.commute)
    ultimately show ?thesis using Suc.IH by (simp add: digits_of_big)
  qed
qed

lemma pad04_year:
  assumes "0 \<le> y" and "y \<le> 9999"
  shows "length (pad04 y) = 4 \<and> list_all is_digit (pad04 y)"
  using assms digits_of_length [of "nat y" 3] digits_of_digit [of "nat y"]
  by (auto simp: pad04_def Let_def list_all_iff is_digit_def)

lemma digits_value_zeros: "digits_value (replicate n (CHR ''0'') @ s) = digits_value s"
  by (induction n) (auto simp: digits_value_def digit_val_def)

lemma pad04_inj: "0 \<le> y \<Longrightarrow> 0 \<le> z \<Longrightarrow> pad04 y = pad04 z \<Longrightarrow> y = z"
  by (drule arg_cong [where f = digits_value])
     (simp add: pad04_def Let_def digits_value_zeros digits_value_digits_of)

lemma digit_not: "is_digit c \<Longrightarrow> c \<noteq> CHR '':'' \<and> c \<noteq> CHR ''-''"
  by (auto simp: is_digit_def)

lemma Format_digits: "0 \<le> i \<Longrightarrow> Format i = digits_of (nat i)"
  by (simp add: Format_def FormatInt_def)

lemma Format_eq: "0 \<le> i \<Longrightarrow> 0 \<le> j \<Longrightarrow> Format i = Format j \<longleftrightarrow> i = j"
  by (simp add: Format_digits) (metis digits_value_digits_of eq_nat_nat_iff)

lemma digits_no: "list_all is_digit s \<Longrightarrow> CHR '':'' \<notin> set s \<and> CHR ''-'' \<notin> set s"
  using digit_not by (auto simp: list_all_iff)

lemma Format_no: "0 \<le> i \<Longrightarrow> CHR '':'' \<notin> set (Format i) \<and> CHR ''-'' \<notin> set (Format i)"
  by (simp add: Format_digits digits_no digits_of_digit)

lemma contestRef_split:
  assumes "CHR '':'' \<notin> set kind" and "0 \<le> i" and "0 \<le> YearOf t" "YearOf t \<le> 9999"
  shows "Split (contestRef kind i t) (CHR '':'') = [''contest'', pad04 (YearOf t), kind, Format i]"
proof -
  have "CHR '':'' \<notin> set (pad04 (YearOf t))" using pad04_year [OF assms(3,4)] digits_no by blast
  then have "Split (Join [''contest'', pad04 (YearOf t), kind, Format i] [CHR '':'']) (CHR '':'')
      = [''contest'', pad04 (YearOf t), kind, Format i]"
    using assms(1) Format_no [OF assms(2)] by (intro Split_Join) auto
  then show ?thesis by (simp add: contestRef_def)
qed

lemma contestRef_trim: "0 \<le> i \<Longrightarrow> TrimSpace (contestRef kind i t) = contestRef kind i t"
proof (rule TrimSpace_graphic)
  assume i: "0 \<le> i"
  have "is_digit (last (Format i))"
    using digits_of_digit [of "nat i"] by (simp add: Format_digits [OF i] list_all_iff)
  moreover have "Format i \<noteq> []" by (simp add: Format_digits [OF i])
  ultimately show "graphic (last (contestRef kind i t))"
    by (simp add: contestRef_def graphic_def is_digit_def less_eq_char_def)
  show "graphic (hd (contestRef kind i t))" "contestRef kind i t \<noteq> []"
    by (simp_all add: contestRef_def graphic_def less_eq_char_def)
qed

lemma contestRef_valid:
  assumes "kind \<noteq> []" and "list_all is_lower kind" and "0 \<le> i" and "0 \<le> YearOf t" "YearOf t \<le> 9999"
  shows "validContestSourceRef (contestRef kind i t)"
proof -
  have "CHR '':'' \<notin> set kind" using assms(2) by (auto simp: list_all_iff is_lower_def)
  note sp = contestRef_split [OF this assms(3-5)]
  have "list_all ref_char (Format i)"
    using digits_of_digit [of "nat i"] by (simp add: Format_digits [OF assms(3)] list_all_iff ref_char_def)
  moreover have "list_all (\<lambda>c. low_num_dash c \<or> c = CHR ''_'') kind" "is_lower (hd kind)"
    using assms(1,2) by (auto simp: list_all_iff low_num_dash_def low_num_def)
  ultimately have "ValidSourceRef (contestRef kind i t)"
    using assms(1) pad04_year [OF assms(4,5)]
    by (simp add: ValidSourceRef_def contestRef_trim [OF assms(3)] sp four_segments_def Format_digits [OF assms(3)]
        is_lower_def)
  moreover have "HasPrefix (contestRef kind i t) ''contest:''"
    by (simp add: HasPrefix_def contestRef_def)
  ultimately show ?thesis by (simp add: validContestSourceRef_def contestRef_trim [OF assms(3)])
qed

lemma contestRef_eq:
  assumes "CHR '':'' \<notin> set kind" "CHR '':'' \<notin> set kind'" and "0 \<le> i" "0 \<le> j"
    and "0 \<le> YearOf t" "YearOf t \<le> 9999" "0 \<le> YearOf u" "YearOf u \<le> 9999"
  shows "contestRef kind i t = contestRef kind' j u \<longleftrightarrow> kind = kind' \<and> i = j \<and> YearOf t = YearOf u"
proof
  assume e: "contestRef kind i t = contestRef kind' j u"
  then have "[''contest'', pad04 (YearOf t), kind, Format i] = [''contest'', pad04 (YearOf u), kind', Format j]"
    using contestRef_split [OF assms(1,3,5,6)] contestRef_split [OF assms(2,4,7,8)] by metis
  then show "kind = kind' \<and> i = j \<and> YearOf t = YearOf u"
    using pad04_inj [OF assms(5,7)] Format_eq [OF assms(3,4)] by simp
qed (auto simp: contestRef_def)

text \<open>
  The references the module stamps on sandboxes and judge tasks are its own and never collide:
  in every year up to 9999 they pass the platform's reference pattern and the module's event filter,
  and two of them are equal only for the same kind of object, the same identifier and the same year.
\<close>

theorem source_refs_unambiguous:
  assumes "0 < i" "0 < j" and "0 \<le> t" "t < 3652059 * dayNs" "0 \<le> u" "u < 3652059 * dayNs"
  shows "validContestSourceRef (contestSourceRef i t) \<and> validContestSourceRef (submissionSourceRef i t) \<and>
    validContestSourceRef (battleSourceRef i t) \<and>
    (battleSourceRef i t = battleSourceRef j u \<longleftrightarrow> i = j \<and> YearOf t = YearOf u) \<and>
    (submissionSourceRef i t = submissionSourceRef j u \<longleftrightarrow> i = j \<and> YearOf t = YearOf u) \<and>
    battleSourceRef i t \<noteq> submissionSourceRef j u \<and> battleSourceRef i t \<noteq> contestSourceRef j u \<and>
    submissionSourceRef i t \<noteq> contestSourceRef j u"
proof -
  have y: "0 \<le> YearOf t" "YearOf t \<le> 9999" "0 \<le> YearOf u" "YearOf u \<le> 9999"
    using year_range [OF assms(3,4)] year_range [OF assms(5,6)] by auto
  have p: "0 \<le> i" "0 \<le> j" using assms(1,2) by auto
  note eqs = contestRef_eq [OF _ _ p y]
  show ?thesis
    unfolding contestSourceRef_def submissionSourceRef_def battleSourceRef_def
    using contestRef_valid [OF _ _ p(1) y(1,2)]
    by (auto simp: eqs is_lower_def)
qed

theorem source_refs_unambiguous_witness:
  "battleSourceRef 42 (739500 * dayNs) = ''contest:2025:battle:42'' \<and>
   validContestSourceRef ''contest:2025:battle:42'' \<and>
   battleSourceRef 42 (739500 * dayNs) \<noteq> battleSourceRef 42 (740000 * dayNs)"
proof -
  have a: "battleSourceRef 42 (739500 * dayNs) = ''contest:2025:battle:42''" by code_simp
  have b: "YearOf (739500 * dayNs) \<noteq> YearOf (740000 * dayNs)" by code_simp
  show ?thesis
    using a b source_refs_unambiguous [of 42 42 "739500 * dayNs" "740000 * dayNs"] by (simp add: dayNs_def)
qed

lemma archive_fold:
  assumes "distinct refs"
  shows "distinct (foldl archive_ref_step refs xs) \<and> prefix refs (foldl archive_ref_step refs xs) \<and>
    set (foldl archive_ref_step refs xs) = set refs \<union> (TrimSpace ` set xs - {[]})"
  using assms
proof (induction xs arbitrary: refs)
  case (Cons x xs)
  define r where "r = archive_ref_step refs x"
  have r: "distinct r" "prefix refs r" "set r = set refs \<union> ({TrimSpace x} - {[]})"
    using Cons.prems by (auto simp: r_def archive_ref_step_def Let_def)
  have "prefix refs (foldl archive_ref_step r xs)"
    using r(2) Cons.IH [OF r(1)] by (meson prefix_order.trans)
  then show ?case using Cons.IH [OF r(1)] r(3) by (auto simp: r_def)
qed simp

text \<open>
  Archiving a contest recycles exactly its own sandboxes and those of its battles: the reference of
  the contest comes first, no reference is recycled twice, and a reference is in the list iff it is
  the contest's or a non-blank one of the listed battles.
\<close>

theorem archive_refs_exact:
  "distinct (contestArchiveSourceRefs i t refs) \<and>
   hd (contestArchiveSourceRefs i t refs) = contestSourceRef i t \<and>
   set (contestArchiveSourceRefs i t refs) = insert (contestSourceRef i t) (TrimSpace ` set refs - {[]})"
proof -
  have a: "distinct (contestArchiveSourceRefs i t refs)"
      "prefix [contestSourceRef i t] (contestArchiveSourceRefs i t refs)"
      "set (contestArchiveSourceRefs i t refs) = insert (contestSourceRef i t) (TrimSpace ` set refs - {[]})"
    using archive_fold [of "[contestSourceRef i t]" refs] by (simp_all add: contestArchiveSourceRefs_def)
  then show ?thesis by (auto simp: prefix_def)
qed

subsection \<open>Sandbox grants\<close>

lemma hex_no_dash: "list_all hex_char s \<Longrightarrow> CHR ''-'' \<notin> set s"
  by (auto simp: list_all_iff hex_char_def is_digit_def)

lemma grant_ref_shape:
  assumes "contestSandboxGrantScopeMatches g c p te s m a"
  shows "\<exists>digest. cgSourceRef g = contestEnvSourceRefPrefix (YearOf (ctCreatedAt c)) (cpID p) (teID te) @ digest
      \<and> length digest = 16 \<and> list_all hex_char digest"
  using assms unfolding contestSandboxGrantScopeMatches_def Let_def
  by (auto simp: HasPrefix_def TrimPrefix_def prefix_def split: if_splits)

lemma env_prefix_inj:
  assumes "contestEnvSourceRefPrefix y p te = contestEnvSourceRefPrefix y q tf"
    and "0 \<le> p" "0 \<le> q" "0 \<le> te" "0 \<le> tf"
  shows "p = q \<and> te = tf"
proof -
  have "Format p @ CHR ''-'' # Format te = Format q @ CHR ''-'' # Format tf"
    using assms(1) by (simp add: contestEnvSourceRefPrefix_def)
  then have "Split (Format p @ CHR ''-'' # Format te) (CHR ''-'') = Split (Format q @ CHR ''-'' # Format tf) (CHR ''-'')"
    by (rule arg_cong)
  then show ?thesis
    using assms(2-5) by (simp add: Split_append Split_no Format_no Format_eq)
qed

text \<open>
  A sandbox grant is bound to one place: when the same grant passes the scope check twice in a
  contest, then for the same problem, team, sandbox and member, and these are the grant's own.
\<close>

theorem grant_bound_to_one_scope:
  assumes "contestSandboxGrantScopeMatches g c p te s m a"
    and "contestSandboxGrantScopeMatches g c q tf s' m' a'"
  shows "cpID p = cpID q \<and> teID te = teID tf \<and> s = s' \<and> m = m' \<and> a = a' \<and>
    cgContestID g = ctID c \<and> cgTenantID g = ctTenantID c \<and> cgTeamID g = teID te \<and>
    cgSandboxID g = s \<and> cgMemberTenantID g = m \<and> cgMemberAccountID g = a"
proof -
  have f: "0 < cpID p \<and> 0 < teID te \<and> cgContestID g = ctID c \<and> cgTenantID g = ctTenantID c \<and> cgTeamID g = teID te
      \<and> cgSandboxID g = s \<and> cgMemberTenantID g = m \<and> cgMemberAccountID g = a"
    if "contestSandboxGrantScopeMatches g c p te s m a" for p te s m a
    using that unfolding contestSandboxGrantScopeMatches_def by (auto split: if_splits)
  obtain d e where "cgSourceRef g = contestEnvSourceRefPrefix (YearOf (ctCreatedAt c)) (cpID p) (teID te) @ d"
      "cgSourceRef g = contestEnvSourceRefPrefix (YearOf (ctCreatedAt c)) (cpID q) (teID tf) @ e"
      "length d = length e"
    using grant_ref_shape [OF assms(1)] grant_ref_shape [OF assms(2)] by auto
  then have "contestEnvSourceRefPrefix (YearOf (ctCreatedAt c)) (cpID p) (teID te)
      = contestEnvSourceRefPrefix (YearOf (ctCreatedAt c)) (cpID q) (teID tf)" by simp
  then show ?thesis
    using f [OF assms(1)] f [OF assms(2)] env_prefix_inj [of "YearOf (ctCreatedAt c)" "cpID p" "teID te" "cpID q" "teID tf"]
    by auto
qed

definition sampleGrant :: ContestAccessGrant where
  "sampleGrant = \<lparr>cgID = 9, cgTenantID = 1, cgContestID = 1, cgTeamID = 4, cgSandboxID = 7, cgMemberTenantID = 3,
     cgMemberAccountID = 8, cgCapabilities = [''workspace.write''],
     cgSourceRef = ''contest:0001:solve-env:5-4-0123456789abcdef'', cgGrantVersion = 1, cgStatus = 1, cgExpiresAt = 0,
     cgCreatedAt = 0, cgUpdatedAt = 0\<rparr>"

definition sampleProblem :: ContestProblem where
  "sampleProblem = \<lparr>cpID = 5, cpTenantID = 1, cpContestID = 1, cpItemCode = ''p'', cpItemVersion = ''1'', cpScore = 100,
     cpDynamicScore = Some \<lparr>MinScore = 10, DecayPerSolve = 20\<rparr>, cpBattleConfig = None, cpBattleRule = 0, cpSeq = 1,
     cpCompositionDigest = [], cpCompositionSnapshot = None\<rparr>"

definition sampleTeam :: Team where
  "sampleTeam = \<lparr>teID = 4, teTenantID = 1, teContestID = 1, teName = ''red'', teInviteCode = ''A'', teStatus = 1,
     teCreatedAt = 0, teMembers = []\<rparr>"

theorem grant_bound_to_one_scope_witness:
  "contestSandboxGrantScopeMatches sampleGrant sampleContest sampleProblem sampleTeam 7 3 8 \<and>
   \<not> contestSandboxGrantScopeMatches sampleGrant sampleContest (sampleProblem\<lparr>cpID := 54\<rparr>) sampleTeam 7 3 8"
proof -
  have a: "contestSandboxGrantScopeMatches sampleGrant sampleContest sampleProblem sampleTeam 7 3 8" by code_simp
  show ?thesis
    using a grant_bound_to_one_scope [OF a, of "sampleProblem\<lparr>cpID := 54\<rparr>" sampleTeam 7 3 8]
    by (auto simp: sampleProblem_def)
qed

subsection \<open>Battles\<close>

lemma battle_cases:
  "validateBattleEntryRole rule role = Inr () \<longleftrightarrow>
     rule = BattleRuleAttackDefense \<and> role \<in> {BattleRoleAttack, BattleRoleDefense} \<or>
     rule = BattleRuleGame \<and> role = BattleRoleStrategy"
  by (auto simp: validateBattleEntryRole_def)

text \<open>
  For the registered battle rules an entry's role is accepted iff the matchmaker can ever pair it,
  and every pair it makes is played and decided consistently: the two artifacts get different
  directories, an attack-defense match is won by the attacker iff the judge passed, and exchanging
  the sides exchanges the directories and the winner.
\<close>

theorem battle_roles_consistent:
  assumes "registeredBattleRule rule"
  shows "(validateBattleEntryRole rule a = Inr () \<longleftrightarrow> (\<exists>b. battleRolesCompatible rule a b)) \<and>
    battleRolesCompatible rule a b = battleRolesCompatible rule b a \<and>
    (battleRolesCompatible rule a b \<longrightarrow>
       validateBattleEntryRole rule a = Inr () \<and> validateBattleEntryRole rule b = Inr () \<and>
       (\<exists>dirA dirB. battleArtifactDirectories a b = Inr (dirA, dirB) \<and> dirA \<noteq> dirB \<and>
          (rule = BattleRuleAttackDefense \<longrightarrow> battleArtifactDirectories b a = Inr (dirB, dirA))) \<and>
       (rule = BattleRuleAttackDefense \<longrightarrow>
          battleResultFromTask result rule a b
            = Inr (if jtPassed result = (a = BattleRoleAttack) then BattleResultAWin else BattleResultBWin) \<and>
          battleResultFromTask result rule b a
            = Inr (if jtPassed result = (a = BattleRoleAttack) then BattleResultBWin else BattleResultAWin)))"
proof -
  consider "rule = BattleRuleAttackDefense" | "rule = BattleRuleGame"
    using assms by (auto simp: registeredBattleRule_def)
  then show ?thesis
  proof cases
    case 1
    then show ?thesis
      by (auto simp: battle_cases battleRolesCompatible_def battleArtifactDirectories_def battleResultFromTask_def
          battle_role_defs)
  next
    case 2
    then show ?thesis
      by (auto simp: battle_cases battleRolesCompatible_def battleArtifactDirectories_def battle_role_defs)
  qed
qed

definition sampleVerdict :: JudgeTaskResult where
  "sampleVerdict = \<lparr>jtPassed = True, jtScore = 1, jtMaxScore = 1, jtDetails = [], jtResultRef = [],
     jtReplay = \<lparr>jrActions = []\<rparr>\<rparr>"

theorem battle_roles_consistent_witness:
  "registeredBattleRule BattleRuleAttackDefense \<and>
   battleResultFromTask sampleVerdict BattleRuleAttackDefense BattleRoleDefense BattleRoleAttack = Inr BattleResultBWin"
proof -
  have r: "registeredBattleRule BattleRuleAttackDefense" by (simp add: registeredBattleRule_def)
  have "battleRolesCompatible BattleRuleAttackDefense BattleRoleAttack BattleRoleDefense"
    by (simp add: battleRolesCompatible_def battle_role_defs)
  then show ?thesis
    using r battle_roles_consistent [OF r, of BattleRoleAttack BattleRoleDefense sampleVerdict]
    by (simp add: sampleVerdict_def)
qed

subsection \<open>Scores\<close>

lemma quot64_div: "0 \<le> a \<Longrightarrow> 0 < b \<Longrightarrow> quot64 a b = a div b"
  by (cases "a = 0") (auto simp: quot64_def sgn_if)

lemma zdiv_less_iff:
  assumes "0 < (d::int)"
  shows "m div d < s \<longleftrightarrow> m < s * d"
proof -
  have e: "m = (m div d) * d + m mod d" and r: "0 \<le> m mod d" "m mod d < d" using assms by simp_all
  show ?thesis
  proof
    assume "m div d < s"
    then have "(m div d + 1) * d \<le> s * d" using assms by (intro mult_right_mono) auto
    then have "(m div d) * d + d \<le> s * d" by (simp add: distrib_right)
    then show "m < s * d" using e r by linarith
  next
    assume "m < s * d"
    show "m div d < s"
    proof (rule ccontr)
      assume "\<not> m div d < s"
      then have "s * d \<le> (m div d) * d" using assms by (intro mult_right_mono) auto
      then show False using \<open>m < s * d\<close> e r by linarith
    qed
  qed
qed

lemma round_half:
  fixes A B n r h J :: int
  assumes "A = n - r" "0 \<le> r" "r < J" "n - B = h" "J \<le> 2 * h + 1" "2 * h \<le> J"
  shows "\<bar>2 * (A - B)\<bar> \<le> J"
proof -
  have "A - B = h - r" using assms by simp
  then show ?thesis using assms(2,3,5,6) unfolding abs_le_iff by auto
qed

lemma int32_product:
  assumes "0 \<le> (a::int)" "a \<le> 2147483647" "0 \<le> b" "b \<le> 2147483647"
  shows "0 \<le> a * b \<and> a * b \<le> 4611686014132420609"
proof -
  have "a * b \<le> 2147483647 * 2147483647" using assms by (intro mult_mono) auto
  then show ?thesis using assms by simp
qed

lemma scaled_div:
  assumes "0 \<le> score" "score \<le> judgeMax" "0 < judgeMax" "judgeMax \<le> max_int32" "0 \<le> maxScore" "maxScore \<le> max_int32"
  shows "scaledContestScore maxScore score judgeMax = (score * maxScore + judgeMax div 2) div judgeMax"
proof -
  have p: "0 \<le> score * maxScore \<and> score * maxScore \<le> 4611686014132420609"
    using assms by (intro int32_product) (auto simp: max_int32_def)
  have i: "i64 (score * maxScore + judgeMax div 2) = score * maxScore + judgeMax div 2"
  proof (rule i64_id)
    have "0 \<le> judgeMax div 2" "judgeMax div 2 \<le> 2147483647" using assms by (auto simp: max_int32_def)
    then show "- (2 ^ 63) \<le> score * maxScore + judgeMax div 2" "score * maxScore + judgeMax div 2 < 2 ^ 63"
      using p by auto
  qed
  have "score * maxScore \<le> judgeMax * maxScore" using assms by (intro mult_right_mono) auto
  then have "score * maxScore + judgeMax div 2 < judgeMax * (maxScore + 1)"
    using assms(3) by (simp add: distrib_left)
  then have u: "(score * maxScore + judgeMax div 2) div judgeMax \<le> maxScore"
    using zdiv_less_iff [OF assms(3), of "score * maxScore + judgeMax div 2" "maxScore + 1"] by (simp add: mult.commute)
  have l: "0 \<le> (score * maxScore + judgeMax div 2) div judgeMax"
    using p assms(3) by (intro pos_imp_zdiv_nonneg_iff [THEN iffD2]) auto
  show ?thesis
    using i u l p assms by (simp add: scaledContestScore_def quot64_div min_int32_def max_int32_def Let_def)
qed

text \<open>
  A judge score is scaled to the contest problem without overflow and fairly: for a score between
  0 and the judge's maximum the result lies between 0 and the problem's score, a full mark gives
  the full score, more points never give less, and the rounding error is at most one half.
\<close>

theorem scaled_score_fair:
  assumes "0 \<le> score" "score \<le> better" "better \<le> judgeMax" "0 < judgeMax" "judgeMax \<le> max_int32"
    and "0 \<le> maxScore" "maxScore \<le> max_int32"
  shows "0 \<le> scaledContestScore maxScore score judgeMax \<and>
    scaledContestScore maxScore score judgeMax \<le> scaledContestScore maxScore better judgeMax \<and>
    scaledContestScore maxScore better judgeMax \<le> maxScore \<and>
    scaledContestScore maxScore judgeMax judgeMax = maxScore \<and>
    \<bar>2 * (judgeMax * scaledContestScore maxScore score judgeMax - score * maxScore)\<bar> \<le> judgeMax"
proof -
  define q where "q s = (s * maxScore + judgeMax div 2) div judgeMax" for s
  have sc: "scaledContestScore maxScore s judgeMax = q s" if "0 \<le> s" "s \<le> judgeMax" for s
    using scaled_div [OF that assms(4-7)] by (simp add: q_def)
  have mono: "q s \<le> q t" if "s \<le> t" for s t
    unfolding q_def using that assms(4,6) by (intro zdiv_mono1 add_right_mono mult_right_mono) auto
  have full: "q judgeMax = maxScore"
    using assms(4) by (simp add: q_def add.commute)
  have "q 0 = 0" using assms(4) by (simp add: q_def)
  then have "0 \<le> q score" using mono [OF assms(1)] by simp
  moreover have "q better \<le> maxScore" using mono [OF assms(3)] full by simp
  moreover have "\<bar>2 * (judgeMax * q score - score * maxScore)\<bar> \<le> judgeMax"
  proof -
    define n where "n = score * maxScore + judgeMax div 2"
    have "judgeMax * q score = n - n mod judgeMax"
      by (simp add: q_def n_def minus_mod_eq_mult_div)
    moreover have "0 \<le> n mod judgeMax" "n mod judgeMax < judgeMax" using assms(4) by simp_all
    moreover have "n - score * maxScore = judgeMax div 2" by (simp add: n_def)
    moreover have "judgeMax \<le> 2 * (judgeMax div 2) + 1" "2 * (judgeMax div 2) \<le> judgeMax" by simp_all
    ultimately show ?thesis by (rule round_half)
  qed
  ultimately show ?thesis
    using sc [of score] sc [of better] sc [of judgeMax] mono [OF assms(2)] full assms by auto
qed

theorem scaled_score_fair_witness:
  "scaledContestScore 100 1 3 = 33 \<and> scaledContestScore 100 2 3 = 67 \<and> scaledContestScore 100 3 3 = 100"
proof -
  have a: "scaledContestScore 100 1 3 = 33" by code_simp
  have b: "scaledContestScore 100 2 3 = 67" by code_simp
  show ?thesis using a b scaled_score_fair [of 1 2 3 100] by (simp add: max_int32_def)
qed

lemma absInt32_pos: "0 < d \<Longrightarrow> absInt32 d = d"
  by (simp add: absInt32_def min_int32_def)

lemma dynamicSolveScore_eq:
  assumes "0 \<le> solved" "solved \<le> max_int64" "cpDynamicScore p = Some d" "0 < DecayPerSolve d" "0 < MinScore d"
    "0 < cpScore p" "cpScore p \<le> max_int32" "MinScore d \<le> cpScore p"
  shows "dynamicSolveScore (Inr solved) p =
    (if cpScore p - solved * DecayPerSolve d < min_int32 then Inl ErrContestProblemInvalid
     else Inr (max (MinScore d) (cpScore p - solved * DecayPerSolve d)))"
proof (cases "max_int64 div DecayPerSolve d < solved")
  case True
  then have "max_int64 < solved * DecayPerSolve d"
    using assms(4) by (simp add: zdiv_less_iff)
  then have "cpScore p - solved * DecayPerSolve d < min_int32"
    using assms(7) by (simp add: max_int64_def max_int32_def min_int32_def)
  then show ?thesis
    using True assms by (simp add: dynamicSolveScore_def absInt32_pos quot64_div max_int64_def Let_def)
next
  case False
  then have le: "solved * DecayPerSolve d \<le> max_int64"
    using assms(4) by (simp add: zdiv_less_iff)
  have nn: "0 \<le> solved * DecayPerSolve d" using assms(1,4) by simp
  have i1: "i64 (solved * DecayPerSolve d) = solved * DecayPerSolve d"
    using le nn by (intro i64_id) (auto simp: max_int64_def)
  have i2: "i64 (cpScore p - solved * DecayPerSolve d) = cpScore p - solved * DecayPerSolve d"
    using le nn assms(6,7) by (intro i64_id) (auto simp: max_int64_def max_int32_def)
  have up: "cpScore p - solved * DecayPerSolve d \<le> max_int32" using nn assms(7) by linarith
  show ?thesis
    using False assms i1 i2 up
    by (simp add: dynamicSolveScore_def absInt32_pos quot64_div max_int64_def Let_def max_def)
qed

text \<open>
  C33: Dynamic scoring of an accepted problem: with \<open>solved\<close> teams ahead the score decays by the
  configured amount per team, never below the configured minimum nor above the problem's score -
  as long as the decayed value fits an \<open>int32\<close>; below that the submission is refused instead of
  getting the minimum.
\<close>

theorem dynamic_score_exact:
  assumes "validateProblemRequest r mode = Inr q" and "prDynamicScore q = Some d"
    and "cpScore p = prScore q" "cpDynamicScore p = Some d"
    and "prScore q \<le> max_int32" "0 \<le> solved" "solved \<le> max_int64"
  shows "(min_int32 \<le> cpScore p - solved * DecayPerSolve d \<longrightarrow>
      dynamicSolveScore (Inr solved) p = Inr (max (MinScore d) (cpScore p - solved * DecayPerSolve d))) \<and>
    (cpScore p - solved * DecayPerSolve d < min_int32 \<longrightarrow>
      dynamicSolveScore (Inr solved) p = Inl ErrContestProblemInvalid) \<and>
    0 < MinScore d \<and> max (MinScore d) (cpScore p - solved * DecayPerSolve d) \<le> cpScore p"
proof -
  have d: "0 < prScore q" "0 < MinScore d" "MinScore d \<le> prScore q" "0 < DecayPerSolve d"
    using assms(1,2) unfolding validateProblemRequest_def Let_def
    by (auto simp: if_Inl_Inr thenR_Inr bindR_Inr dynamic_check_def failIf_Inr split: if_splits)
  have "0 \<le> solved * DecayPerSolve d" using assms(6) d(4) by simp
  then show ?thesis
    using dynamicSolveScore_eq [OF assms(6,7,4)] d assms(3,5) by auto
qed

definition sampleProblemRequest :: ProblemRequest where
  "sampleProblemRequest = \<lparr>prItemCode = ''p'', prItemVersion = ''1'', prScore = 100,
     prDynamicScore = Some \<lparr>MinScore = 10, DecayPerSolve = 1000000000\<rparr>, prBattleConfig = None, prBattleRule = 0, prSeq = 1\<rparr>"

theorem dynamic_score_exact_witness:
  "validateProblemRequest sampleProblemRequest ContestModeSolve = Inr sampleProblemRequest \<and>
   dynamicSolveScore (Inr 2) (sampleProblem\<lparr>cpDynamicScore := prDynamicScore sampleProblemRequest\<rparr>) = Inr 10 \<and>
   dynamicSolveScore (Inr 3) (sampleProblem\<lparr>cpDynamicScore := prDynamicScore sampleProblemRequest\<rparr>)
     = Inl ErrContestProblemInvalid"
proof -
  let ?d = "\<lparr>MinScore = 10, DecayPerSolve = 1000000000\<rparr>"
  let ?p = "sampleProblem\<lparr>cpDynamicScore := Some ?d\<rparr>"
  have v: "validateProblemRequest sampleProblemRequest ContestModeSolve = Inr sampleProblemRequest"
  proof -
    have "TrimSpace ''p'' = ''p''" "TrimSpace ''1'' = ''1''" by code_simp+
    then show ?thesis
      by (simp add: validateProblemRequest_def dynamic_check_def sampleProblemRequest_def ContestModeSolve_def
          ContestModeBattle_def)
  qed
  show ?thesis
    using v dynamic_score_exact [OF v, of ?d ?p 2] dynamic_score_exact [OF v, of ?d ?p 3]
    by (simp add: sampleProblemRequest_def sampleProblem_def max_int32_def min_int32_def max_int64_def max_def)
qed

end
