(* ===== verification/Tables.thy ===== *)
theory Tables
  imports Prelude
begin

section \<open>Tables\<close>

text \<open>
  A table is the list of its rows in insertion order. \<open>UPDATE \<dots> SET f WHERE p\<close> rewrites the
  rows that meet the condition, a query for one row finds the first one or fails.
\<close>

definition upd_rows :: "('a \<Rightarrow> bool) \<Rightarrow> ('a \<Rightarrow> 'a) \<Rightarrow> 'a list \<Rightarrow> 'a list" where
  "upd_rows p f rows = map (\<lambda>r. if p r then f r else r) rows"

definition one_row :: "'e \<Rightarrow> 'a option \<Rightarrow> 'e + 'a" where
  "one_row e r = (case r of None \<Rightarrow> Inl e | Some x \<Rightarrow> Inr x)"

lemma upd_rows_Nil [simp]: "upd_rows p f [] = []" and
  upd_rows_Cons [simp]: "upd_rows p f (r # rs) = (if p r then f r else r) # upd_rows p f rs"
  by (simp_all add: upd_rows_def)

lemma upd_rows_map: "(\<And>r. k (f r) = k r) \<Longrightarrow> map k (upd_rows p f rs) = map k rs"
  by (induction rs) auto

lemma upd_rows_set: "r \<in> set (upd_rows p f rs) \<Longrightarrow> \<exists>s \<in> set rs. r = (if p s then f s else s)"
  by (auto simp: upd_rows_def)

lemma upd_rows_filter_same:
  assumes "\<And>r. p r \<Longrightarrow> \<not> q r \<and> \<not> q (f r)"
  shows "filter q (upd_rows p f rs) = filter q rs"
  using assms by (induction rs) auto

lemma find_SomeD: "find p xs = Some x \<Longrightarrow> p x \<and> x \<in> set xs"
  by (auto simp: find_Some_iff)

lemma one_row_Inr: "one_row e r = Inr x \<longleftrightarrow> r = Some x"
  by (simp add: one_row_def split: option.splits)

lemma upd_rows_mem: "r \<in> set rs \<Longrightarrow> (if p r then f r else r) \<in> set (upd_rows p f rs)"
  by (auto simp: upd_rows_def)

end
