(* ===== verification/ContestStore.thy ===== *)
theory ContestStore
  imports ContestProps Tables "HOL-Library.Product_Lexorder"
begin

section \<open>Contest module: the store\<close>

text \<open>
  The tables of the contest module as lists of rows in insertion order, and the queries of
  \<open>contest/repo.go\<close> (SQL text in \<open>internal/sqlcgen/contest.sql.go\<close>) as functions of the tables. A query
  runs alone in its transaction and the database answers: connection failures are not modelled,
  a missing row, a unique key that is taken and a condition that no row meets are. \<open>now\<close> is the
  database clock. Ladder scores of solve contests are whole numbers.
\<close>

record SolveSubmission =
  ssID :: int
  ssTenantID :: int
  ssContestID :: int
  ssProblemID :: int
  ssTeamID :: int
  ssSubmitterTenantID :: int
  ssSubmitterID :: int
  ssContentRef :: "(string \<times> json) list option"
  ssSourceRef :: string
  ssScopeRef :: string
  ssJudgeTaskRef :: string
  ssPassed :: bool
  ssScore :: int
  ssSandboxRef :: string
  ssSubmittedAt :: int

record LadderRank =
  lrID :: int
  lrTenantID :: int
  lrContestID :: int
  lrTeamID :: int
  lrScore :: int
  lrSolvedCount :: int
  lrLastSolveAt :: int
  lrRank :: int
  lrUpdatedAt :: int

record LadderSnapshotEntry =
  seTeamID :: int
  seScore :: int
  seSolvedCount :: int
  seLastSolveAt :: "int option"
  seRank :: int
  seUpdatedAt :: int

record LadderSnapshot =
  lsID :: int
  lsTenantID :: int
  lsContestID :: int
  lsSnapshotStatus :: int
  lsRanking :: "LadderSnapshotEntry list"
  lsGeneratedAt :: int

record CheatRecord =
  crdID :: int
  crdTenantID :: int
  crdContestID :: int
  crdTeamID :: int
  crdType :: int
  crdEvidence :: "(string \<times> json) list"
  crdAction :: int
  crdOperatorID :: int
  crdCreatedAt :: int

definition CheatActionDisqualify :: int where "CheatActionDisqualify = 3"

record contest_store =
  dbContests :: "Contest list"
  dbProblems :: "ContestProblem list"
  dbTeams :: "Team list"
  dbMembers :: "TeamMember list"
  dbGrants :: "ContestAccessGrant list"
  dbSubmissions :: "SolveSubmission list"
  dbLadder :: "LadderRank list"
  dbSnapshots :: "LadderSnapshot list"
  dbCheats :: "CheatRecord list"

definition contest_key :: "int \<Rightarrow> int \<Rightarrow> Contest \<Rightarrow> bool" where
  "contest_key tenantID i c \<longleftrightarrow> ctTenantID c = tenantID \<and> ctID c = i"

definition team_key :: "int \<Rightarrow> int \<Rightarrow> Team \<Rightarrow> bool" where
  "team_key tenantID i t \<longleftrightarrow> teTenantID t = tenantID \<and> teID t = i"

subsection \<open>Contests and problems\<close>

definition GetContest :: "contest_store \<Rightarrow> int \<Rightarrow> int \<Rightarrow> contest_error + Contest" where
  "GetContest db tenantID i = one_row ErrContestNotFound (find (contest_key tenantID i) (dbContests db))"

definition FindPublishedContestTenant :: "contest_store \<Rightarrow> int \<Rightarrow> contest_error + int" where
  "FindPublishedContestTenant db i =
     (case find (\<lambda>c. ctID c = i \<and> 2 \<le> ctStatus c \<and> ctStatus c \<le> 6) (dbContests db) of
        None \<Rightarrow> Inl ErrContestNotFound | Some c \<Rightarrow> Inr (ctTenantID c))"

definition insertContest :: "int \<Rightarrow> contest_store \<Rightarrow> Contest \<Rightarrow> contest_error + Contest \<times> contest_store" where
  "insertContest now db item =
     (let row = item\<lparr>ctStatus := 1, ctCreatedAt := now, ctUpdatedAt := now\<rparr>
      in if ctID row \<in> ctID ` set (dbContests db) then Inl ErrContestInvalid
         else Inr (row, db\<lparr>dbContests := dbContests db @ [row]\<rparr>))"

definition contest_fields :: "Contest \<Rightarrow> int \<Rightarrow> Contest \<Rightarrow> Contest" where
  "contest_fields item now c =
     c\<lparr>ctName := ctName item, ctMode := ctMode item, ctMatchMode := ctMatchMode item, ctTeamMode := ctTeamMode item,
       ctSignupStart := ctSignupStart item, ctSignupEnd := ctSignupEnd item, ctStartAt := ctStartAt item,
       ctEndAt := ctEndAt item, ctFreezeMinutes := ctFreezeMinutes item, ctRules := ctRules item, ctUpdatedAt := now\<rparr>"

definition updateContestRow :: "int \<Rightarrow> contest_store \<Rightarrow> Contest \<Rightarrow> contest_error + Contest \<times> contest_store" where
  "updateContestRow now db item =
     (let p = (\<lambda>c. contest_key (ctTenantID item) (ctID item) c \<and> ctStatus c \<in> {1, 2})
      in case find p (dbContests db) of
           None \<Rightarrow> Inl ErrContestStateInvalid
         | Some c \<Rightarrow> Inr (contest_fields item now c,
             db\<lparr>dbContests := upd_rows p (contest_fields item now) (dbContests db)\<rparr>))"

definition set_status :: "int \<Rightarrow> int \<Rightarrow> Contest \<Rightarrow> Contest" where
  "set_status status now c = c\<lparr>ctStatus := status, ctUpdatedAt := now\<rparr>"

definition SetContestStatus ::
  "int \<Rightarrow> contest_store \<Rightarrow> int \<Rightarrow> int \<Rightarrow> int \<Rightarrow> contest_error + Contest \<times> contest_store" where
  "SetContestStatus now db tenantID i status =
     (case find (contest_key tenantID i) (dbContests db) of
        None \<Rightarrow> Inl ErrContestStateInvalid
      | Some c \<Rightarrow> Inr (set_status status now c,
          db\<lparr>dbContests := upd_rows (contest_key tenantID i) (set_status status now) (dbContests db)\<rparr>))"

definition ListContestsDueToEnd :: "contest_store \<Rightarrow> int \<Rightarrow> Contest list" where
  "ListContestsDueToEnd db now =
     sort_key (\<lambda>c. (ctEndAt c, ctID c)) (filter (\<lambda>c. ctStatus c \<in> {2, 3, 4} \<and> ctEndAt c \<le> now) (dbContests db))"

definition ListContestsDueToRun :: "contest_store \<Rightarrow> int \<Rightarrow> Contest list" where
  "ListContestsDueToRun db now =
     sort_key (\<lambda>c. (ctStartAt c, ctID c))
       (filter (\<lambda>c. ctStatus c = 2 \<and> ctStartAt c \<le> now \<and> now < ctEndAt c) (dbContests db))"

definition ListContestsDueToFreeze :: "contest_store \<Rightarrow> int \<Rightarrow> Contest list" where
  "ListContestsDueToFreeze db now =
     sort_key (\<lambda>c. (ctEndAt c, ctID c))
       (filter (\<lambda>c. ctStatus c = 3 \<and> 0 < ctFreezeMinutes c \<and> now < ctEndAt c
                    \<and> ctEndAt c - ctFreezeMinutes c * minuteNs \<le> now) (dbContests db))"

definition GetContestProblem :: "contest_store \<Rightarrow> int \<Rightarrow> int \<Rightarrow> contest_error + ContestProblem" where
  "GetContestProblem db tenantID i =
     one_row ErrContestProblemInvalid (find (\<lambda>p. cpTenantID p = tenantID \<and> cpID p = i) (dbProblems db))"

definition ListContestProblems :: "contest_store \<Rightarrow> int \<Rightarrow> int \<Rightarrow> ContestProblem list" where
  "ListContestProblems db tenantID contestID =
     sort_key (\<lambda>p. (cpSeq p, cpID p)) (filter (\<lambda>p. cpTenantID p = tenantID \<and> cpContestID p = contestID) (dbProblems db))"

definition problem_key :: "ContestProblem \<Rightarrow> ContestProblem \<Rightarrow> bool" where
  "problem_key item p \<longleftrightarrow> cpTenantID p = cpTenantID item \<and> cpContestID p = cpContestID item
     \<and> cpItemCode p = cpItemCode item \<and> cpItemVersion p = cpItemVersion item"

definition problem_fields :: "ContestProblem \<Rightarrow> ContestProblem \<Rightarrow> ContestProblem" where
  "problem_fields item p = item\<lparr>cpID := cpID p\<rparr>"

definition UpsertContestProblem ::
  "contest_store \<Rightarrow> ContestProblem \<Rightarrow> contest_error + ContestProblem \<times> contest_store" where
  "UpsertContestProblem db item =
     (case find (problem_key item) (dbProblems db) of
        Some p \<Rightarrow> Inr (problem_fields item p,
          db\<lparr>dbProblems := upd_rows (problem_key item) (problem_fields item) (dbProblems db)\<rparr>)
      | None \<Rightarrow> if cpID item \<in> cpID ` set (dbProblems db) then Inl ErrContestProblemInvalid
                else Inr (item, db\<lparr>dbProblems := dbProblems db @ [item]\<rparr>))"

subsection \<open>Teams\<close>

definition member_order :: "TeamMember \<Rightarrow> int \<times> int \<times> int" where
  "member_order m = (if tmIsLeader m then 0 else 1, tmJoinedAt m, tmID m)"

definition ListTeamMembers :: "contest_store \<Rightarrow> int \<Rightarrow> int \<Rightarrow> TeamMember list" where
  "ListTeamMembers db tenantID teamID =
     sort_key member_order (filter (\<lambda>m. tmTenantID m = tenantID \<and> tmTeamID m = teamID) (dbMembers db))"

definition GetTeam :: "contest_store \<Rightarrow> int \<Rightarrow> int \<Rightarrow> contest_error + Team" where
  "GetTeam db tenantID i =
     (case find (team_key tenantID i) (dbTeams db) of
        None \<Rightarrow> Inl ErrContestTeamNotFound
      | Some t \<Rightarrow> Inr (t\<lparr>teMembers := ListTeamMembers db tenantID i\<rparr>))"

definition belongs :: "contest_store \<Rightarrow> int \<Rightarrow> int \<Rightarrow> int \<Rightarrow> int \<Rightarrow> Team \<Rightarrow> bool" where
  "belongs db tenantID contestID memberTenantID accountID t \<longleftrightarrow>
     teTenantID t = tenantID \<and> teContestID t = contestID \<and>
     list_ex (\<lambda>m. tmTenantID m = tenantID \<and> tmTeamID m = teID t \<and> is_member memberTenantID accountID m) (dbMembers db)"

definition GetTeamForAccount :: "contest_store \<Rightarrow> int \<Rightarrow> int \<Rightarrow> int \<Rightarrow> int \<Rightarrow> Team option" where
  "GetTeamForAccount db tenantID contestID memberTenantID accountID =
     (case sort_key (\<lambda>t. (- teCreatedAt t, - teID t))
             (filter (belongs db tenantID contestID memberTenantID accountID) (dbTeams db)) of
        [] \<Rightarrow> None | t # _ \<Rightarrow> Some t)"

definition AccountTeamIDs :: "contest_store \<Rightarrow> int \<Rightarrow> int \<Rightarrow> int \<Rightarrow> int \<Rightarrow> int list" where
  "AccountTeamIDs db tenantID contestID memberTenantID accountID =
     map teID (filter (belongs db tenantID contestID memberTenantID accountID) (dbTeams db))"

definition GetTeamByInviteCode :: "contest_store \<Rightarrow> int \<Rightarrow> string \<Rightarrow> contest_error + Team" where
  "GetTeamByInviteCode db tenantID inviteCode =
     one_row ErrContestTeamNotFound
       (find (\<lambda>t. teTenantID t = tenantID \<and> teInviteCode t = inviteCode) (dbTeams db))"

text \<open>An empty invite code is stored as NULL, which is unequal to every code.\<close>

definition CreateTeam :: "int \<Rightarrow> contest_store \<Rightarrow> Team \<Rightarrow> contest_error + Team \<times> contest_store" where
  "CreateTeam now db item =
     (let row = item\<lparr>teStatus := 1, teCreatedAt := now, teMembers := []\<rparr>
      in if teID row \<in> teID ` set (dbTeams db)
            \<or> (teInviteCode row \<noteq> [] \<and> list_ex (\<lambda>t. teTenantID t = teTenantID row \<and> teContestID t = teContestID row
                  \<and> teInviteCode t = teInviteCode row) (dbTeams db))
         then Inl ErrContestTeamInvalid
         else Inr (row, db\<lparr>dbTeams := dbTeams db @ [row]\<rparr>))"

definition member_key :: "TeamMember \<Rightarrow> TeamMember \<Rightarrow> bool" where
  "member_key item m \<longleftrightarrow> tmTenantID m = tmTenantID item \<and> tmTeamID m = tmTeamID item
     \<and> tmMemberTenantID m = tmMemberTenantID item \<and> tmAccountID m = tmAccountID item"

definition AddTeamMember :: "int \<Rightarrow> contest_store \<Rightarrow> TeamMember \<Rightarrow> contest_error + contest_store" where
  "AddTeamMember now db item =
     (if list_ex (member_key item) (dbMembers db)
      then Inr (db\<lparr>dbMembers := upd_rows (member_key item)
                  (\<lambda>m. m\<lparr>tmIsLeader := tmIsLeader m \<or> tmIsLeader item\<rparr>) (dbMembers db)\<rparr>)
      else if tmID item \<in> tmID ` set (dbMembers db) then Inl ErrContestTeamInvalid
      else Inr (db\<lparr>dbMembers := dbMembers db @ [item\<lparr>tmJoinedAt := now\<rparr>]\<rparr>))"

definition lock_row :: "Team \<Rightarrow> Team" where "lock_row t = t\<lparr>teStatus := 2\<rparr>"

definition LockTeamRow :: "contest_store \<Rightarrow> int \<Rightarrow> int \<Rightarrow> contest_error + Team \<times> contest_store" where
  "LockTeamRow db tenantID i =
     (case find (team_key tenantID i) (dbTeams db) of
        None \<Rightarrow> Inl ErrContestTeamInvalid
      | Some t \<Rightarrow> Inr (lock_row t, db\<lparr>dbTeams := upd_rows (team_key tenantID i) lock_row (dbTeams db)\<rparr>))"

definition LockContestTeams :: "contest_store \<Rightarrow> int \<Rightarrow> int \<Rightarrow> contest_store" where
  "LockContestTeams db tenantID contestID =
     db\<lparr>dbTeams := upd_rows (\<lambda>t. teTenantID t = tenantID \<and> teContestID t = contestID \<and> teStatus t = 1) lock_row (dbTeams db)\<rparr>"

subsection \<open>Sandbox grants\<close>

definition grant_key :: "ContestAccessGrant \<Rightarrow> ContestAccessGrant \<Rightarrow> bool" where
  "grant_key item g \<longleftrightarrow> cgTenantID g = cgTenantID item \<and> cgSandboxID g = cgSandboxID item
     \<and> cgMemberTenantID g = cgMemberTenantID item \<and> cgMemberAccountID g = cgMemberAccountID item"

definition regrant :: "int \<Rightarrow> ContestAccessGrant \<Rightarrow> ContestAccessGrant \<Rightarrow> ContestAccessGrant" where
  "regrant now item g =
     (let changed = (cgCapabilities g, cgSourceRef g, cgStatus g, cgExpiresAt g)
                      \<noteq> (cgCapabilities item, cgSourceRef item, 1, cgExpiresAt item)
      in g\<lparr>cgCapabilities := cgCapabilities item, cgSourceRef := cgSourceRef item,
           cgGrantVersion := (if changed then cgGrantVersion g + 1 else cgGrantVersion g), cgStatus := 1,
           cgExpiresAt := cgExpiresAt item, cgUpdatedAt := now\<rparr>)"

definition UpsertContestAccessGrant :: "int \<Rightarrow> contest_store \<Rightarrow> ContestAccessGrant \<Rightarrow> contest_error + contest_store" where
  "UpsertContestAccessGrant now db item =
     (if list_ex (grant_key item) (dbGrants db)
      then Inr (db\<lparr>dbGrants := upd_rows (grant_key item) (regrant now item) (dbGrants db)\<rparr>)
      else if cgID item \<in> cgID ` set (dbGrants db) then Inl ErrContestTeamAccessDenied
      else Inr (db\<lparr>dbGrants := dbGrants db @
             [item\<lparr>cgGrantVersion := 1, cgStatus := 1, cgCreatedAt := now, cgUpdatedAt := now\<rparr>]\<rparr>))"

definition revoke_row :: "int \<Rightarrow> ContestAccessGrant \<Rightarrow> ContestAccessGrant" where
  "revoke_row now g = g\<lparr>cgStatus := 2, cgGrantVersion := cgGrantVersion g + 1, cgUpdatedAt := now\<rparr>"

definition RevokeContestAccessGrantsForSandbox :: "int \<Rightarrow> contest_store \<Rightarrow> int \<Rightarrow> int \<Rightarrow> contest_store" where
  "RevokeContestAccessGrantsForSandbox now db tenantID sandboxID =
     db\<lparr>dbGrants := upd_rows (\<lambda>g. cgTenantID g = tenantID \<and> cgSandboxID g = sandboxID \<and> cgStatus g = 1)
                     (revoke_row now) (dbGrants db)\<rparr>"

definition ListContestAccessGrantsForContest :: "contest_store \<Rightarrow> int \<Rightarrow> int \<Rightarrow> ContestAccessGrant list" where
  "ListContestAccessGrantsForContest db tenantID contestID =
     sort_key (\<lambda>g. (cgSandboxID g, cgID g))
       (filter (\<lambda>g. cgTenantID g = tenantID \<and> cgContestID g = contestID \<and> cgStatus g = 1) (dbGrants db))"

definition FindContestAccessGrantForSubject ::
  "contest_store \<Rightarrow> int \<Rightarrow> int \<Rightarrow> int \<Rightarrow> contest_error + ContestAccessGrant" where
  "FindContestAccessGrantForSubject db sandboxID memberTenantID memberAccountID =
     one_row ErrContestTeamAccessDenied (find (\<lambda>g. cgSandboxID g = sandboxID \<and> cgMemberTenantID g = memberTenantID
       \<and> cgMemberAccountID g = memberAccountID) (dbGrants db))"

subsection \<open>Submissions\<close>

definition CreateSolveSubmission :: "int \<Rightarrow> contest_store \<Rightarrow> SolveSubmission \<Rightarrow> contest_error + SolveSubmission \<times> contest_store" where
  "CreateSolveSubmission now db item =
     (let row = item\<lparr>ssPassed := False, ssScore := 0, ssSubmittedAt := now\<rparr>
      in if list_ex (\<lambda>r. ssID r = ssID row \<or> (ssTenantID r = ssTenantID row \<and>
              (ssSourceRef r = ssSourceRef row \<or> ssScopeRef r = ssScopeRef row))) (dbSubmissions db)
         then Inl ErrContestSubmissionInvalid
         else Inr (row, db\<lparr>dbSubmissions := dbSubmissions db @ [row]\<rparr>))"

definition GetSolveSubmissionByJudgeTask :: "contest_store \<Rightarrow> int \<Rightarrow> string \<Rightarrow> SolveSubmission option" where
  "GetSolveSubmissionByJudgeTask db tenantID judgeTaskRef =
     find (\<lambda>r. ssTenantID r = tenantID \<and> ssJudgeTaskRef r = judgeTaskRef) (dbSubmissions db)"

definition submission_key :: "int \<Rightarrow> int \<Rightarrow> SolveSubmission \<Rightarrow> bool" where
  "submission_key tenantID i r \<longleftrightarrow> ssTenantID r = tenantID \<and> ssID r = i"

definition set_result :: "bool \<Rightarrow> int \<Rightarrow> SolveSubmission \<Rightarrow> SolveSubmission" where
  "set_result passed score r = r\<lparr>ssPassed := passed, ssScore := score\<rparr>"

text \<open>The column accepts no negative score (\<open>CHECK (score >= 0)\<close>).\<close>

definition UpdateSolveSubmissionResult ::
  "contest_store \<Rightarrow> int \<Rightarrow> int \<Rightarrow> bool \<Rightarrow> int \<Rightarrow> contest_error + SolveSubmission \<times> contest_store" where
  "UpdateSolveSubmissionResult db tenantID i passed score =
     (case find (submission_key tenantID i) (dbSubmissions db) of
        None \<Rightarrow> Inl ErrContestSubmissionInvalid
      | Some r \<Rightarrow> if score < 0 then Inl ErrContestSubmissionInvalid
          else Inr (set_result passed score r,
            db\<lparr>dbSubmissions := upd_rows (submission_key tenantID i) (set_result passed score) (dbSubmissions db)\<rparr>))"

definition passed_for :: "int \<Rightarrow> int \<Rightarrow> int \<Rightarrow> SolveSubmission \<Rightarrow> bool" where
  "passed_for tenantID contestID teamID r \<longleftrightarrow>
     ssTenantID r = tenantID \<and> ssContestID r = contestID \<and> ssTeamID r = teamID \<and> ssPassed r"

definition CountProblemSolvedTeams :: "contest_store \<Rightarrow> int \<Rightarrow> int \<Rightarrow> int \<Rightarrow> int" where
  "CountProblemSolvedTeams db tenantID contestID problemID =
     int (length (remdups (map ssTeamID (filter (\<lambda>r. ssTenantID r = tenantID \<and> ssContestID r = contestID
       \<and> ssProblemID r = problemID \<and> ssPassed r) (dbSubmissions db)))))"

text \<open>\<open>DISTINCT ON (problem_id) ... ORDER BY problem_id, score DESC, submitted_at ASC\<close>\<close>

definition best_order :: "SolveSubmission \<Rightarrow> int \<times> int" where
  "best_order r = (- ssScore r, ssSubmittedAt r)"

definition best_rows :: "SolveSubmission list \<Rightarrow> SolveSubmission list" where
  "best_rows rows =
     map (\<lambda>problemID. hd (sort_key best_order (filter (\<lambda>r. ssProblemID r = problemID) rows)))
       (sort (remdups (map ssProblemID rows)))"

definition SumTeamSolvedScore :: "contest_store \<Rightarrow> int \<Rightarrow> int \<Rightarrow> int \<Rightarrow> LadderRank" where
  "SumTeamSolvedScore db tenantID contestID teamID =
     (let best = best_rows (filter (passed_for tenantID contestID teamID) (dbSubmissions db))
      in \<lparr>lrID = 0, lrTenantID = tenantID, lrContestID = contestID, lrTeamID = teamID,
          lrScore = sum_list (map ssScore best), lrSolvedCount = int (length best),
          lrLastSolveAt = (if best = [] then 0 else Max (set (map ssSubmittedAt best))),
          lrRank = 0, lrUpdatedAt = 0\<rparr>)"

subsection \<open>Ladder\<close>

definition ladder_key :: "int \<Rightarrow> int \<Rightarrow> int \<Rightarrow> LadderRank \<Rightarrow> bool" where
  "ladder_key tenantID contestID teamID r \<longleftrightarrow>
     lrTenantID r = tenantID \<and> lrContestID r = contestID \<and> lrTeamID r = teamID"

definition ladder_fields :: "LadderRank \<Rightarrow> int \<Rightarrow> LadderRank \<Rightarrow> LadderRank" where
  "ladder_fields item now r =
     r\<lparr>lrScore := lrScore item, lrSolvedCount := lrSolvedCount item, lrLastSolveAt := lrLastSolveAt item, lrUpdatedAt := now\<rparr>"

definition UpsertLadder :: "int \<Rightarrow> contest_store \<Rightarrow> LadderRank \<Rightarrow> contest_error + contest_store" where
  "UpsertLadder now db item =
     (let key = ladder_key (lrTenantID item) (lrContestID item) (lrTeamID item)
      in if list_ex key (dbLadder db)
         then Inr (db\<lparr>dbLadder := upd_rows key (ladder_fields item now) (dbLadder db)\<rparr>)
         else if lrID item \<in> lrID ` set (dbLadder db) then Inl ErrContestSubmissionInvalid
         else Inr (db\<lparr>dbLadder := dbLadder db @ [item\<lparr>lrRank := 0, lrUpdatedAt := now\<rparr>]\<rparr>))"

definition disqualified :: "contest_store \<Rightarrow> LadderRank \<Rightarrow> bool" where
  "disqualified db r =
     list_ex (\<lambda>c. crdTenantID c = lrTenantID r \<and> crdContestID c = lrContestID r \<and> crdTeamID c = lrTeamID r
                  \<and> crdAction c = CheatActionDisqualify) (dbCheats db)"

definition eligible :: "contest_store \<Rightarrow> int \<Rightarrow> int \<Rightarrow> LadderRank list" where
  "eligible db tenantID contestID =
     filter (\<lambda>r. lrTenantID r = tenantID \<and> lrContestID r = contestID
               \<and> list_ex (contest_key tenantID contestID) (dbContests db) \<and> \<not> disqualified db r) (dbLadder db)"

definition contest_mode_of :: "contest_store \<Rightarrow> int \<Rightarrow> int \<Rightarrow> int" where
  "contest_mode_of db tenantID contestID =
     (case find (contest_key tenantID contestID) (dbContests db) of None \<Rightarrow> 0 | Some c \<Rightarrow> ctMode c)"

text \<open>\<open>ORDER BY score DESC, solved_count DESC, last_solve_at ASC NULLS LAST, team_id ASC\<close>; the two in the
  middle are NULL outside solve contests. A missing time is the zero time.\<close>

definition rank_order :: "int \<Rightarrow> LadderRank \<Rightarrow> int \<times> int \<times> int \<times> int \<times> int" where
  "rank_order mode r =
     (- lrScore r,
      if mode = 1 then - lrSolvedCount r else 0,
      if mode = 1 \<and> lrLastSolveAt r = 0 then 1 else 0,
      if mode = 1 then lrLastSolveAt r else 0,
      lrTeamID r)"

definition row_number :: "('a \<Rightarrow> 'k::linorder) \<Rightarrow> 'a list \<Rightarrow> 'a \<Rightarrow> int" where
  "row_number key rows r = 1 + int (length (filter (\<lambda>s. key s < key r) rows))"

definition RefreshContestRanks :: "int \<Rightarrow> contest_store \<Rightarrow> int \<Rightarrow> int \<Rightarrow> contest_store" where
  "RefreshContestRanks now db tenantID contestID =
     (let rows = eligible db tenantID contestID; key = rank_order (contest_mode_of db tenantID contestID)
      in db\<lparr>dbLadder := upd_rows (\<lambda>r. lrID r \<in> lrID ` set rows)
              (\<lambda>r. r\<lparr>lrRank := row_number key rows r, lrUpdatedAt := now\<rparr>) (dbLadder db)\<rparr>)"

text \<open>\<open>ListLadder\<close> numbers the eligible rows itself; the model is the list of all its pages.\<close>

definition ListLadder :: "contest_store \<Rightarrow> int \<Rightarrow> int \<Rightarrow> LadderRank list" where
  "ListLadder db tenantID contestID =
     (let rows = eligible db tenantID contestID; mode = contest_mode_of db tenantID contestID
      in map (\<lambda>r. r\<lparr>lrSolvedCount := (if mode = 1 then lrSolvedCount r else 0),
                   lrLastSolveAt := (if mode = 1 then lrLastSolveAt r else 0),
                   lrRank := row_number (rank_order mode) rows r\<rparr>)
           (sort_key (rank_order mode) rows))"

definition snapshot_key :: "LadderSnapshot \<Rightarrow> LadderSnapshot \<Rightarrow> bool" where
  "snapshot_key item r \<longleftrightarrow> lsTenantID r = lsTenantID item \<and> lsContestID r = lsContestID item
     \<and> lsSnapshotStatus r = lsSnapshotStatus item"

definition UpsertLadderSnapshot :: "int \<Rightarrow> contest_store \<Rightarrow> LadderSnapshot \<Rightarrow> contest_error + contest_store" where
  "UpsertLadderSnapshot now db item =
     (if list_ex (snapshot_key item) (dbSnapshots db)
      then Inr (db\<lparr>dbSnapshots := upd_rows (snapshot_key item)
             (\<lambda>r. r\<lparr>lsRanking := lsRanking item, lsGeneratedAt := now\<rparr>) (dbSnapshots db)\<rparr>)
      else if lsID item \<in> lsID ` set (dbSnapshots db) then Inl ErrContestInvalid
      else Inr (db\<lparr>dbSnapshots := dbSnapshots db @ [item\<lparr>lsGeneratedAt := now\<rparr>]\<rparr>))"

definition GetLadderSnapshot :: "contest_store \<Rightarrow> int \<Rightarrow> int \<Rightarrow> int \<Rightarrow> contest_error + LadderSnapshot" where
  "GetLadderSnapshot db tenantID contestID snapshotStatus =
     one_row ErrContestNotFound (find (\<lambda>r. lsTenantID r = tenantID \<and> lsContestID r = contestID
       \<and> lsSnapshotStatus r = snapshotStatus) (dbSnapshots db))"

end
