(* ===== verification/EventBus.thy ===== *)
theory EventBus
  imports PlatformIds Workload Prelude
begin

section \<open>Event bus\<close>

text \<open>
  The durable delivery of cross-module events (\<open>platform/eventbus\<close>): subjects, the metadata every
  event carries, and the handling of one delivery. The broker (NATS JetStream) is not part of the
  program: a step of it delivers a message that is not yet acknowledged once more and counts the
  deliveries, which is what its consumer configuration (\<open>MaxDeliver: -1\<close>, explicit acks) promises.
\<close>

subsection \<open>Subjects\<close>

definition concreteSubject :: "string \<Rightarrow> bool" where
  "concreteSubject subject \<longleftrightarrow>
     \<not> (subject = [] \<or> HasPrefix subject ''$'' \<or> ContainsAny subject [CHR '' '', CHR 0x09, CHR 0x0D, CHR 0x0A, CHR ''*'', CHR ''>''])
     \<and> list_all (\<lambda>token. token \<noteq> []) (Split subject (CHR ''.''))"

datatype bus_error =
    BusSubjectInvalid | BusQueueMissing | BusClosed | BusSerializeFailed | BusPublishFailed | BusConsumerFailed

subsection \<open>Event metadata\<close>

definition ParseInt64 :: "string \<Rightarrow> int option" where
  "ParseInt64 s =
     (let neg = (s \<noteq> [] \<and> hd s = CHR ''-''); ds = (if s \<noteq> [] \<and> hd s \<in> {CHR ''-'', CHR ''+''} then tl s else s);
          v = (if neg then - int (digits_value ds) else int (digits_value ds))
      in if ds = [] \<or> \<not> list_all is_digit ds \<or> v < - (2 ^ 63) \<or> 2 ^ 63 \<le> v then None else Some v)"

text \<open>
  Payloads are decoded with \<open>UseNumber\<close>, so a number arrives as its text. A missing field is
  \<open>None\<close>, for which the type switch takes its default branch.
\<close>

definition numericTenantID :: "json option \<Rightarrow> int option" where
  "numericTenantID v =
     (case v of Some (JNum n) \<Rightarrow> ParseInt64 n | Some (JStr n) \<Rightarrow> ParseInt64 n | _ \<Rightarrow> None)"

definition textField :: "json option \<Rightarrow> string" where
  "textField v = (case v of Some (JStr s) \<Rightarrow> s | _ \<Rightarrow> [])"

definition setField :: "string \<Rightarrow> json \<Rightarrow> (string \<times> json) list \<Rightarrow> (string \<times> json) list" where
  "setField k v obj = AList.update k v obj"

definition marshalEventPayload :: "string \<Rightarrow> json option \<Rightarrow> (string \<times> json) list option" where
  "marshalEventPayload contextTrace payload =
     (case payload of
        Some (JObj obj) \<Rightarrow>
          if map_of obj ''tenant_id'' = None then None
          else (case numericTenantID (map_of obj ''tenant_id'') of
                  None \<Rightarrow> None
                | Some tenantID \<Rightarrow>
                    if tenantID < 0 then None
                    else let traceID = textField (map_of obj ''trace_id'');
                             traceID = (if traceID = [] then contextTrace else traceID)
                         in if traceID = [] then None else Some (setField ''trace_id'' (JStr traceID) obj))
      | _ \<Rightarrow> None)"

record eventMetadata =
  mdTenantID :: int
  mdTraceID :: string

definition extractEventMetadata :: "json option \<Rightarrow> eventMetadata option" where
  "extractEventMetadata data =
     (case data of
        Some (JObj obj) \<Rightarrow>
          (case numericTenantID (map_of obj ''tenant_id'') of
             None \<Rightarrow> None
           | Some tenantID \<Rightarrow>
               let traceID = textField (map_of obj ''trace_id'')
               in if traceID = [] then None else Some \<lparr>mdTenantID = tenantID, mdTraceID = traceID\<rparr>)
      | _ \<Rightarrow> None)"

text \<open>\<open>accepted\<close> is the stream's acknowledgement of the write.\<close>

definition Publish ::
  "string \<Rightarrow> string \<Rightarrow> string \<Rightarrow> json option \<Rightarrow> bool \<Rightarrow> bus_error + string \<times> (string \<times> json) list" where
  "Publish deadPrefix contextTrace subject0 payload accepted =
     (let subject = TrimSpace subject0
      in if \<not> concreteSubject subject \<or> subject = deadPrefix \<or> HasPrefix subject (deadPrefix @ ''.'')
         then Inl BusSubjectInvalid
         else (case marshalEventPayload contextTrace payload of
                 None \<Rightarrow> Inl BusSerializeFailed
               | Some data \<Rightarrow> if \<not> accepted then Inl BusPublishFailed else Inr (subject, data)))"

subsection \<open>One delivery\<close>

record deliveryConfig =
  retryMax :: int
  deadPrefix :: string
  streamName :: string

text \<open>What the surroundings answer during one delivery.\<close>

record delivery_env =
  metadataOK :: bool
  cancelledBefore :: bool
  handlerOK :: bool
  cancelledAfter :: bool
  deadStored :: bool
  nakSent :: bool
  ackSent :: bool

datatype delivery_action = Handled bool | Nak bool | DeadLettered bool | Acked bool

definition uint64 :: "int \<Rightarrow> int" where "uint64 i = i mod 2 ^ 64"

definition retryDelivery :: "delivery_env \<Rightarrow> delivery_action list" where
  "retryDelivery env = [Nak (nakSent env)]"

definition settle_failed :: "deliveryConfig \<Rightarrow> int \<Rightarrow> delivery_env \<Rightarrow> delivery_action list" where
  "settle_failed cfg numDelivered env =
     (if numDelivered < uint64 (retryMax cfg) then retryDelivery env
      else if \<not> deadStored env then DeadLettered False # retryDelivery env
      else [DeadLettered True, Acked (ackSent env)])"

definition handleMessage :: "deliveryConfig \<Rightarrow> int \<Rightarrow> json option \<Rightarrow> delivery_env \<Rightarrow> delivery_action list" where
  "handleMessage cfg numDelivered data env =
     (let metaMissing = (extractEventMetadata data = None)
      in if \<not> metadataOK env then retryDelivery env
         else if cancelledBefore env then []
         else let runs = (\<not> metaMissing \<and> numDelivered \<le> uint64 (retryMax cfg));
                  failed = (if runs then \<not> handlerOK env else True);
                  handled = (if runs then [Handled (handlerOK env)] else [])
              in handled @
                 (if cancelledAfter env then []
                  else if failed then settle_failed cfg numDelivered env
                  else [Acked (ackSent env)]))"

subsection \<open>The life of one message\<close>

text \<open>
  The broker redelivers while it has not received an acknowledgement. An acknowledgement whose
  reply is lost (\<open>Acked False\<close>) may or may not have reached it.
\<close>

record message_state =
  numDeliveries :: int
  acknowledged :: bool
  history :: "delivery_action list"

definition fresh_message :: message_state where
  "fresh_message = \<lparr>numDeliveries = 0, acknowledged = False, history = []\<rparr>"

inductive delivery_step :: "deliveryConfig \<Rightarrow> json option \<Rightarrow> message_state \<Rightarrow> message_state \<Rightarrow> bool" for cfg data where
  deliver: "\<not> acknowledged m \<Longrightarrow> actions = handleMessage cfg (numDeliveries m + 1) data env \<Longrightarrow>
     (acked \<longrightarrow> Acked True \<in> set actions \<or> Acked False \<in> set actions) \<Longrightarrow> (Acked True \<in> set actions \<longrightarrow> acked) \<Longrightarrow>
     delivery_step cfg data m
       \<lparr>numDeliveries = numDeliveries m + 1, acknowledged = acked, history = history m @ actions\<rparr>"

inductive delivered :: "deliveryConfig \<Rightarrow> json option \<Rightarrow> message_state \<Rightarrow> bool" for cfg data where
  delivered_fresh: "delivered cfg data fresh_message"
| delivered_again: "delivered cfg data m \<Longrightarrow> delivery_step cfg data m m' \<Longrightarrow> delivered cfg data m'"

definition handler_runs :: "delivery_action list \<Rightarrow> nat" where
  "handler_runs h = length (filter (\<lambda>a. a = Handled True \<or> a = Handled False) h)"

lemmas delivery_defs = handleMessage_def settle_failed_def retryDelivery_def Let_def

lemma handler_runs_append [simp]: "handler_runs (h @ k) = handler_runs h + handler_runs k"
  by (simp add: handler_runs_def)

lemma runs_once: "handler_runs (handleMessage cfg n data env) \<le> (if n \<le> uint64 (retryMax cfg) then 1 else 0)"
  by (simp add: delivery_defs handler_runs_def)

lemma settled_before_ack:
  "Acked b \<in> set (handleMessage cfg n data env) \<Longrightarrow>
     Handled True \<in> set (handleMessage cfg n data env) \<or> DeadLettered True \<in> set (handleMessage cfg n data env)"
  by (auto simp: delivery_defs split: if_splits)

lemma dead_after_retries:
  "DeadLettered b \<in> set (handleMessage cfg n data env) \<Longrightarrow> uint64 (retryMax cfg) \<le> n"
  by (auto simp: delivery_defs split: if_splits)

inductive_cases delivery_stepE: "delivery_step cfg data m m'"

lemma delivered_invariant:
  assumes "delivered cfg data m" and "0 \<le> retryMax cfg" and "retryMax cfg < 2 ^ 63"
  shows "0 \<le> numDeliveries m \<and> int (handler_runs (history m)) \<le> min (numDeliveries m) (retryMax cfg) \<and>
    (acknowledged m \<longrightarrow> Handled True \<in> set (history m) \<or> DeadLettered True \<in> set (history m)) \<and>
    (DeadLettered True \<in> set (history m) \<longrightarrow> retryMax cfg \<le> numDeliveries m)"
  using assms(1)
proof (induction rule: delivered.induct)
  case delivered_fresh
  then show ?case using assms(2) by (simp add: fresh_message_def handler_runs_def)
next
  case (delivered_again m m')
  from delivered_again.hyps(2) obtain env acked where e: "\<not> acknowledged m"
      "acked \<longrightarrow> (\<exists>b. Acked b \<in> set (handleMessage cfg (numDeliveries m + 1) data env))"
      "m' = \<lparr>numDeliveries = numDeliveries m + 1, acknowledged = acked,
             history = history m @ handleMessage cfg (numDeliveries m + 1) data env\<rparr>"
    by (elim delivery_stepE) auto
  have u: "uint64 (retryMax cfg) = retryMax cfg" using assms(2,3) by (simp add: uint64_def)
  show ?case
    using delivered_again.IH e(2) runs_once [of cfg "numDeliveries m + 1" data env]
      settled_before_ack [of _ cfg "numDeliveries m + 1" data env]
      dead_after_retries [of True cfg "numDeliveries m + 1" data env]
    unfolding u e(3) by (auto split: if_splits)
qed

text \<open>
  C17: No event is lost and no handler runs forever: in every life of a message on a bus with a valid
  retry limit, the broker is told to forget it only after a handler has succeeded or a dead letter
  has been stored, dead letters are written only once the limit is reached, and the handler has run
  at most as often as the limit and as the deliveries.
\<close>

theorem event_never_lost:
  assumes "delivered cfg data m" and "0 < retryMax cfg" and "retryMax cfg < 2 ^ 63"
  shows "(acknowledged m \<longrightarrow> Handled True \<in> set (history m) \<or> DeadLettered True \<in> set (history m)) \<and>
    (DeadLettered True \<in> set (history m) \<longrightarrow> retryMax cfg \<le> numDeliveries m) \<and>
    int (handler_runs (history m)) \<le> min (numDeliveries m) (retryMax cfg)"
  using delivered_invariant [OF assms(1) _ assms(3)] assms(2) by simp

definition sampleBus :: deliveryConfig where
  "sampleBus = \<lparr>retryMax = 2, deadPrefix = ''dead'', streamName = ''EVENTS''\<rparr>"

definition sampleEvent :: "(string \<times> json) list" where
  "sampleEvent = [(''tenant_id'', JNum ''7''), (''trace_id'', JStr ''t'')]"

definition sampleEnv :: delivery_env where
  "sampleEnv = \<lparr>metadataOK = True, cancelledBefore = False, handlerOK = True, cancelledAfter = False,
     deadStored = True, nakSent = True, ackSent = True\<rparr>"

lemma deliver_fresh:
  assumes "acked = (Acked True \<in> set (handleMessage cfg 1 data env))"
  shows "delivered cfg data \<lparr>numDeliveries = 1, acknowledged = acked, history = handleMessage cfg 1 data env\<rparr>"
  using delivered_again [OF delivered_fresh deliver [of fresh_message, OF _ refl, of acked cfg data env]] assms
  by (auto simp: fresh_message_def)

lemma sample_handled: "handleMessage sampleBus 1 (Some (JObj sampleEvent)) sampleEnv = [Handled True, Acked True]"
  by code_simp

theorem event_never_lost_witness:
  "delivered sampleBus (Some (JObj sampleEvent))
     \<lparr>numDeliveries = 1, acknowledged = True, history = [Handled True, Acked True]\<rparr> \<and>
   \<not> delivered sampleBus (Some (JObj sampleEvent)) \<lparr>numDeliveries = 1, acknowledged = True, history = []\<rparr>"
proof -
  have v: "0 < retryMax sampleBus" "retryMax sampleBus < 2 ^ 63" by (simp_all add: sampleBus_def)
  show ?thesis
    using deliver_fresh [of True sampleBus "Some (JObj sampleEvent)" sampleEnv]
      event_never_lost [OF _ v, of "Some (JObj sampleEvent)" "\<lparr>numDeliveries = 1, acknowledged = True, history = []\<rparr>"]
    by (auto simp: sample_handled)
qed

text \<open>
  C35: What is published can be consumed: an event that \<open>Publish\<close> accepts goes to a concrete subject
  outside the dead-letter subjects, passes the consumer's metadata check with the tenant of the
  payload and a non-empty trace - its own or the publisher's - and keeps every other field.
\<close>

theorem published_event_readable:
  assumes "Publish dead ctxTrace subject (Some (JObj obj)) accepted = Inr (subj, data)"
  shows "concreteSubject subj \<and> subj \<noteq> dead \<and> \<not> HasPrefix subj (dead @ ''.'') \<and>
    (\<exists>meta. extractEventMetadata (Some (JObj data)) = Some meta \<and> 0 \<le> mdTenantID meta \<and>
       numericTenantID (map_of obj ''tenant_id'') = Some (mdTenantID meta) \<and>
       mdTraceID meta = (if textField (map_of obj ''trace_id'') = [] then ctxTrace else textField (map_of obj ''trace_id''))) \<and>
    (\<forall>k. k = ''trace_id'' \<or> map_of data k = map_of obj k)"
proof -
  have p: "marshalEventPayload ctxTrace (Some (JObj obj)) = Some data" "concreteSubject subj" "subj \<noteq> dead"
      "\<not> HasPrefix subj (dead @ ''.'')"
    using assms by (auto simp: Publish_def Let_def split: if_splits option.splits)
  define tr where "tr = (if textField (map_of obj ''trace_id'') = [] then ctxTrace else textField (map_of obj ''trace_id''))"
  obtain t where t: "numericTenantID (map_of obj ''tenant_id'') = Some t" "0 \<le> t" "tr \<noteq> []"
      "data = setField ''trace_id'' (JStr tr) obj"
    using p(1) unfolding marshalEventPayload_def Let_def tr_def
    by (auto split: if_splits option.splits)
  have look: "map_of data k = (if k = ''trace_id'' then Some (JStr tr) else map_of obj k)" for k
    by (simp add: t(4) setField_def update_conv')
  have "extractEventMetadata (Some (JObj data)) = Some \<lparr>mdTenantID = t, mdTraceID = tr\<rparr>"
    using t(1,3) by (simp add: extractEventMetadata_def look textField_def)
  then show ?thesis using p t look by (auto simp: tr_def)
qed

theorem published_event_readable_witness:
  "\<exists>data. Publish ''dead'' ''t1'' '' judge.completed '' (Some (JObj [(''tenant_id'', JNum ''7'')])) True
      = Inr (''judge.completed'', data) \<and> map_of data ''tenant_id'' = Some (JNum ''7'')"
proof -
  have e: "Publish ''dead'' ''t1'' '' judge.completed '' (Some (JObj [(''tenant_id'', JNum ''7'')])) True
      = Inr (''judge.completed'', [(''tenant_id'', JNum ''7''), (''trace_id'', JStr ''t1'')])"
    by code_simp
  have "map_of [(''tenant_id'', JNum ''7''), (''trace_id'', JStr ''t1'')] ''tenant_id'' = Some (JNum ''7'')"
    using published_event_readable [OF e] by simp
  with e show ?thesis by blast
qed

text \<open>Delivery is at least once: a handler that succeeded runs again when its acknowledgement is lost.\<close>

lemma handled_twice:
  assumes "extractEventMetadata data \<noteq> None" and "2 \<le> retryMax cfg" "retryMax cfg < 2 ^ 63"
  shows "\<exists>m. delivered cfg data m \<and> history m = [Handled True, Acked False, Handled True, Acked True]"
proof -
  define e1 where "e1 = sampleEnv\<lparr>ackSent := False\<rparr>"
  have u: "uint64 (retryMax cfg) = retryMax cfg" using assms(2,3) by (simp add: uint64_def)
  have h1: "handleMessage cfg 1 data e1 = [Handled True, Acked False]"
    using assms by (auto simp: handleMessage_def e1_def sampleEnv_def u)
  have h2: "handleMessage cfg 2 data sampleEnv = [Handled True, Acked True]"
    using assms by (auto simp: handleMessage_def sampleEnv_def u)
  have d1: "delivered cfg data \<lparr>numDeliveries = 1, acknowledged = False, history = [Handled True, Acked False]\<rparr>"
    using deliver_fresh [of False cfg data e1] h1 by simp
  have "delivery_step cfg data \<lparr>numDeliveries = 1, acknowledged = False, history = [Handled True, Acked False]\<rparr>
      \<lparr>numDeliveries = 2, acknowledged = True, history = [Handled True, Acked False, Handled True, Acked True]\<rparr>"
    using deliver [of "\<lparr>numDeliveries = 1, acknowledged = False, history = [Handled True, Acked False]\<rparr>"
        "[Handled True, Acked True]" cfg data sampleEnv True] h2 by simp
  then show ?thesis using delivered_again [OF d1] by force
qed

end
