(* ===== verification/ContestScoring.thy ===== *)
theory ContestScoring
  imports ContestProps ContestStore EventBus "HOL-Library.Multiset"
begin

section \<open>Contest module: verdicts and the ladder\<close>

text \<open>
  The consumers of the judge's events for solve submissions, the commit of a submission and the
  publication of the ladder (\<open>contest/service_solve.go\<close>, \<open>events.go\<close>). A handler takes the store and
  returns the store it leaves together with its error: a failed transaction leaves the store as it
  was, an error after the commit does not undo it. The judge's answer, the clock, the fresh
  identifier and the bus are arguments.
\<close>

subsection \<open>Handlers\<close>

definition refreshTeamRank ::
  "int \<Rightarrow> int \<Rightarrow> contest_store \<Rightarrow> int \<Rightarrow> int \<Rightarrow> int \<Rightarrow> contest_error + contest_store" where
  "refreshTeamRank now newID db tenantID contestID teamID =
     (let rank = (SumTeamSolvedScore db tenantID contestID teamID)\<lparr>lrID := newID\<rparr>
      in bindR (UpsertLadder now db rank) (\<lambda>db. Inr (RefreshContestRanks now db tenantID contestID)))"

text \<open>The pushed leaderboard, if any: the first fifty rows, and only while the contest is running.\<close>

definition pushLeaderboard ::
  "contest_store \<Rightarrow> int \<Rightarrow> int \<Rightarrow> bool \<Rightarrow> (contest_error + unit) \<times> LadderRank list option" where
  "pushLeaderboard db tenantID contestID busOK =
     (case GetContest db tenantID contestID of
        Inl e \<Rightarrow> (Inl e, None)
      | Inr contest \<Rightarrow>
          if ctStatus contest \<noteq> ContestStatusRunning then (Inr (), None)
          else let ranks = take 50 (ListLadder db tenantID contestID)
               in if busOK then (Inr (), Some ranks) else (Inl ErrContestNotifyFailed, None))"

definition solve_verdict ::
  "int \<Rightarrow> int \<Rightarrow> contest_store \<Rightarrow> JudgeCompletedEvent \<Rightarrow> JudgeTaskResult \<Rightarrow>
     contest_error + SolveSubmission \<times> contest_store" where
  "solve_verdict now newID db event result =
     (case GetSolveSubmissionByJudgeTask db (jcTenantID event) (Format (jcTaskID event)) of
        None \<Rightarrow> Inl ErrContestSubmissionNotFound
      | Some sub \<Rightarrow>
          if ssSourceRef sub \<noteq> jcSourceRef event then Inl ErrContestEventSourceMismatch
          else bindR (GetContestProblem db (jcTenantID event) (ssProblemID sub)) (\<lambda>problem.
               bindR (if jtPassed result
                      then dynamicSolveScore (Inr (CountProblemSolvedTeams db (jcTenantID event) (ssContestID sub) (ssProblemID sub))) problem
                      else Inr (scaledContestScore (cpScore problem) (jtScore result) (jtMaxScore result))) (\<lambda>score.
               bindR (UpdateSolveSubmissionResult db (jcTenantID event) (ssID sub) (jtPassed result) score) (\<lambda>(updated, db).
                 if ssPassed updated
                 then bindR (refreshTeamRank now newID db (jcTenantID event) (ssContestID updated) (ssTeamID updated)) (\<lambda>db.
                        Inr (updated, db))
                 else Inr (updated, db)))))"

definition HandleSolveJudgeCompleted ::
  "int \<Rightarrow> int \<Rightarrow> bool \<Rightarrow> JudgeCompletedEvent \<Rightarrow> contest_error + JudgeTaskInfo \<Rightarrow> contest_store \<Rightarrow>
     contest_store \<times> (contest_error + unit) \<times> LadderRank list option" where
  "HandleSolveJudgeCompleted now newID busOK event judge db =
     (if jcTenantID event \<le> 0 \<or> jcTaskID event \<le> 0 \<or> \<not> validContestSourceRef (jcSourceRef event)
      then (db, Inl ErrContestEventPayloadInvalid, None)
      else (case judge of
        Inl _ \<Rightarrow> (db, Inl ErrContestJudgeUnavailable, None)
      | Inr task \<Rightarrow>
          if jiSourceRef task \<noteq> jcSourceRef event then (db, Inl ErrContestEventSourceMismatch, None)
          else (case solve_verdict now newID db event (jiResult task) of
              Inl e \<Rightarrow> (db, Inl e, None)
            | Inr (updated, db') \<Rightarrow>
                if ssPassed updated then (db', pushLeaderboard db' (ssTenantID updated) (ssContestID updated) busOK)
                else (db', Inr (), None))))"

definition HandleSolveJudgeFailed :: "JudgeFailedEvent \<Rightarrow> contest_store \<Rightarrow> contest_store \<times> (contest_error + unit)" where
  "HandleSolveJudgeFailed event db =
     (if jfTenantID event \<le> 0 \<or> jfTaskID event \<le> 0 \<or> \<not> validContestSourceRef (jfSourceRef event)
      then (db, Inl ErrContestEventPayloadInvalid)
      else (case GetSolveSubmissionByJudgeTask db (jfTenantID event) (Format (jfTaskID event)) of
        None \<Rightarrow> (db, Inl ErrContestSubmissionNotFound)
      | Some sub \<Rightarrow>
          if ssSourceRef sub \<noteq> jfSourceRef event then (db, Inl ErrContestEventSourceMismatch)
          else (case UpdateSolveSubmissionResult db (jfTenantID event) (ssID sub) False 0 of
                  Inl e \<Rightarrow> (db, Inl e) | Inr (_, db') \<Rightarrow> (db', Inr ()))))"

text \<open>
  The last transaction of \<open>SubmitSolve\<close>: \<open>item\<close> carries the judge's verdict when the task was
  already done at submission, and is replaced by the row that the insert returns.
\<close>

definition commit_submission ::
  "int \<Rightarrow> int \<Rightarrow> contest_store \<Rightarrow> ContestProblem \<Rightarrow> SolveSubmission \<Rightarrow> contest_error + SolveSubmission \<times> contest_store" where
  "commit_submission now newID db problem item =
     bindR (if ssPassed item
            then bindR (dynamicSolveScore
                   (Inr (CountProblemSolvedTeams db (ssTenantID item) (ssContestID item) (ssProblemID item))) problem)
                   (\<lambda>score. Inr (item\<lparr>ssScore := score\<rparr>))
            else Inr item) (\<lambda>item.
     bindR (CreateSolveSubmission now db item) (\<lambda>(item, db).
       if ssPassed item
       then bindR (UpdateSolveSubmissionResult db (ssTenantID item) (ssID item) True (ssScore item)) (\<lambda>(item, db).
            bindR (refreshTeamRank now newID db (ssTenantID item) (ssContestID item) (ssTeamID item)) (\<lambda>db.
              Inr (item, db)))
       else Inr (item, db)))"

subsection \<open>What students see\<close>

definition ladder_entry :: "LadderRank \<Rightarrow> LadderSnapshotEntry" where
  "ladder_entry rank = \<lparr>seTeamID = lrTeamID rank, seScore = lrScore rank, seSolvedCount = lrSolvedCount rank,
     seLastSolveAt = (if lrLastSolveAt rank = 0 then None else Some (lrLastSolveAt rank)), seRank = lrRank rank,
     seUpdatedAt = lrUpdatedAt rank\<rparr>"

definition saveLadderSnapshot ::
  "int \<Rightarrow> int \<Rightarrow> contest_store \<Rightarrow> int \<Rightarrow> int \<Rightarrow> int \<Rightarrow> LadderRank list \<Rightarrow> contest_error + contest_store" where
  "saveLadderSnapshot now newID db tenantID contestID snapshotStatus ranks =
     (if snapshotStatus \<noteq> ContestStatusFrozen \<and> snapshotStatus \<noteq> ContestStatusArchived then Inl ErrContestInvalid
      else UpsertLadderSnapshot now db \<lparr>lsID = newID, lsTenantID = tenantID, lsContestID = contestID,
             lsSnapshotStatus = snapshotStatus, lsRanking = map ladder_entry ranks, lsGeneratedAt = 0\<rparr>)"

definition loadContestForRead :: "contest_store \<Rightarrow> int \<Rightarrow> int \<Rightarrow> bool \<Rightarrow> int \<Rightarrow> contest_error + Contest" where
  "loadContestForRead db tenantID accountID isSchoolAdmin contestID =
     bindR (GetContest db tenantID contestID) (\<lambda>item.
       if ctStatus item \<noteq> ContestStatusDraft then Inr item
       else thenR (canManageContest accountID isSchoolAdmin item) (Inr item))"

text \<open>\<open>ListLadder\<close> of the service before it is cut into pages, as entries.\<close>

definition visible_ladder ::
  "contest_store \<Rightarrow> int \<Rightarrow> int \<Rightarrow> bool \<Rightarrow> int \<Rightarrow> contest_error + LadderSnapshotEntry list" where
  "visible_ladder db tenantID accountID isSchoolAdmin contestID =
     bindR (loadContestForRead db tenantID accountID isSchoolAdmin contestID) (\<lambda>contest.
       if ctStatus contest = ContestStatusFrozen \<or> ctStatus contest = ContestStatusArchived
       then bindR (GetLadderSnapshot db tenantID contestID (ctStatus contest)) (\<lambda>snapshot. Inr (lsRanking snapshot))
       else Inr (map ladder_entry (ListLadder db tenantID contestID)))"

subsection \<open>Rows\<close>

subsection \<open>Row numbers\<close>

lemma filter_less_nth:
  fixes key :: "'a \<Rightarrow> 'k::linorder"
  assumes "sorted_wrt (<) (map key ys)" and "i < length ys"
  shows "length (filter (\<lambda>s. key s < key (ys ! i)) ys) = i"
  using assms
proof (induction ys arbitrary: i)
  case (Cons y ys)
  show ?case
  proof (cases i)
    case 0
    then have "filter (\<lambda>s. key s < key y) ys = []"
      using Cons.prems(1) by (auto simp: filter_empty_conv dest: less_asym)
    then show ?thesis using 0 by simp
  next
    case (Suc j)
    then have "key y < key (ys ! j)" using Cons.prems by simp
    then show ?thesis using Suc Cons by simp
  qed
qed simp

lemma row_number_sorted:
  assumes "distinct (map key rows)"
  shows "map (row_number key rows) (sort_key key rows) = map (\<lambda>i. 1 + int i) [0..<length rows]"
proof (rule nth_equalityI)
  fix i assume "i < length (map (row_number key rows) (sort_key key rows))"
  then have i: "i < length (sort_key key rows)" by simp
  have d: "distinct (map key (sort_key key rows))"
    using assms by (metis mset_map mset_eq_imp_distinct_iff mset_sort)
  then have "sorted_wrt (<) (map key (sort_key key rows))"
    using sorted_sort_key [of key rows] by (simp add: strict_sorted_iff)
  note n = filter_less_nth [OF this i]
  have "length (filter (\<lambda>s. key s < key (sort_key key rows ! i)) rows)
      = length (filter (\<lambda>s. key s < key (sort_key key rows ! i)) (sort_key key rows))"
    by (metis mset_filter mset_sort size_mset)
  then show "map (row_number key rows) (sort_key key rows) ! i = map (\<lambda>i. 1 + int i) [0..<length rows] ! i"
    using i n by (simp add: row_number_def)
qed simp

lemma row_number_less:
  assumes "r \<in> set rows" and "s \<in> set rows"
  shows "row_number key rows r < row_number key rows s \<longleftrightarrow> key r < key s"
proof -
  have le: "row_number key rows a \<le> row_number key rows b" if "key a \<le> key b" for a b
  proof -
    have "set (filter (\<lambda>s. key s < key a) rows) \<subseteq> set (filter (\<lambda>s. key s < key b) rows)" using that by auto
    have "length (filter (\<lambda>s. key s < key a) rows) = length (filter (\<lambda>s. key s < key a) (filter (\<lambda>s. key s < key b) rows))"
      using that by (auto intro!: arg_cong [where f = length] filter_cong)
    also have "\<dots> \<le> length (filter (\<lambda>s. key s < key b) rows)" by (rule length_filter_le)
    finally show ?thesis by (simp add: row_number_def)
  qed
  show ?thesis
  proof
    assume "key r < key s"
    have "length (filter (\<lambda>x. key x < key r) rows) = length (filter (\<lambda>x. key x < key r) (filter (\<lambda>x. key x < key s) rows))"
      using \<open>key r < key s\<close> by (auto intro!: arg_cong [where f = length] filter_cong)
    also have "\<dots> < length (filter (\<lambda>x. key x < key s) rows)"
      using assms(1) \<open>key r < key s\<close> by (intro length_filter_less [of r]) auto
    finally show "row_number key rows r < row_number key rows s" by (simp add: row_number_def)
  next
    assume "row_number key rows r < row_number key rows s"
    then show "key r < key s" using le [of s r] by (meson leD not_le_imp_less)
  qed
qed

subsection \<open>Ranks\<close>

definition ladder_unique :: "LadderRank \<Rightarrow> int \<times> int \<times> int" where
  "ladder_unique r = (lrTenantID r, lrContestID r, lrTeamID r)"

text \<open>The keys of the table: identifiers, and one row per team.\<close>

definition ladder_wf :: "contest_store \<Rightarrow> bool" where
  "ladder_wf db \<longleftrightarrow> distinct (map lrID (dbLadder db)) \<and> distinct (map ladder_unique (dbLadder db))"

definition ranked_row :: "int \<Rightarrow> contest_store \<Rightarrow> int \<Rightarrow> int \<Rightarrow> LadderRank \<Rightarrow> LadderRank" where
  "ranked_row now db tenantID contestID r =
     r\<lparr>lrRank := row_number (rank_order (contest_mode_of db tenantID contestID)) (eligible db tenantID contestID) r,
       lrUpdatedAt := now\<rparr>"

lemma eligible_set: "r \<in> set (eligible db t c) \<Longrightarrow> r \<in> set (dbLadder db) \<and> lrTenantID r = t \<and> lrContestID r = c \<and> \<not> disqualified db r"
  by (simp add: eligible_def)

lemma eligible_teams:
  assumes "ladder_wf db"
  shows "distinct (map lrTeamID (eligible db t c))"
proof -
  have "inj_on lrTeamID (set (eligible db t c))"
    using assms by (auto simp: inj_on_def ladder_wf_def ladder_unique_def distinct_map dest!: eligible_set)
  moreover have "distinct (eligible db t c)"
    using assms by (auto simp: eligible_def ladder_wf_def distinct_map)
  ultimately show ?thesis by (simp add: distinct_map)
qed

lemma rank_order_distinct:
  assumes "ladder_wf db"
  shows "distinct (map (rank_order mode) (eligible db t c))"
proof -
  have "distinct (map (\<lambda>r. snd (snd (snd (snd (rank_order mode r))))) (eligible db t c))"
    using eligible_teams [OF assms] by (simp add: rank_order_def)
  then show ?thesis by (auto simp: distinct_map inj_on_def)
qed

lemma Refresh_ladder:
  assumes "ladder_wf db"
  shows "dbLadder (RefreshContestRanks now db t c)
    = map (\<lambda>r. if r \<in> set (eligible db t c) then ranked_row now db t c r else r) (dbLadder db)"
proof -
  have inj: "inj_on lrID (set (dbLadder db))" using assms by (simp add: ladder_wf_def distinct_map)
  have "lrID r \<in> lrID ` set (eligible db t c) \<longleftrightarrow> r \<in> set (eligible db t c)" if "r \<in> set (dbLadder db)" for r
    using that inj eligible_set [of _ db t c] by (auto dest: inj_onD)
  then show ?thesis
    by (simp add: RefreshContestRanks_def Let_def upd_rows_def ranked_row_def)
qed

lemma Refresh_other [simp]:
  "dbContests (RefreshContestRanks now db t c) = dbContests db"
  "dbCheats (RefreshContestRanks now db t c) = dbCheats db"
  "dbSubmissions (RefreshContestRanks now db t c) = dbSubmissions db"
  "dbSnapshots (RefreshContestRanks now db t c) = dbSnapshots db"
  "dbProblems (RefreshContestRanks now db t c) = dbProblems db"
  "dbTeams (RefreshContestRanks now db t c) = dbTeams db"
  "dbMembers (RefreshContestRanks now db t c) = dbMembers db"
  "dbGrants (RefreshContestRanks now db t c) = dbGrants db"
  by (simp_all add: RefreshContestRanks_def Let_def)

lemma ranked_row_fields [simp]:
  "lrID (ranked_row now db t c r) = lrID r" "lrTenantID (ranked_row now db t c r) = lrTenantID r"
  "lrContestID (ranked_row now db t c r) = lrContestID r" "lrTeamID (ranked_row now db t c r) = lrTeamID r"
  "lrScore (ranked_row now db t c r) = lrScore r" "lrSolvedCount (ranked_row now db t c r) = lrSolvedCount r"
  "lrLastSolveAt (ranked_row now db t c r) = lrLastSolveAt r"
  by (simp_all add: ranked_row_def)

lemma Refresh_eligible:
  assumes "ladder_wf db"
  shows "eligible (RefreshContestRanks now db t c) t c = map (ranked_row now db t c) (eligible db t c)"
proof -
  define g where "g r = (if r \<in> set (eligible db t c) then ranked_row now db t c r else r)" for r
  define p where "p d r \<longleftrightarrow> lrTenantID r = t \<and> lrContestID r = c
      \<and> list_ex (contest_key t c) (dbContests d) \<and> \<not> disqualified d r" for d r
  have e: "eligible d t c = filter (p d) (dbLadder d)" for d
    unfolding eligible_def by (rule filter_cong) (simp_all add: p_def)
  have q: "p (RefreshContestRanks now db t c) (g r) = p db r" for r
    by (simp add: p_def disqualified_def g_def)
  have "eligible (RefreshContestRanks now db t c) t c
      = filter (p (RefreshContestRanks now db t c)) (map g (dbLadder db))"
    unfolding e [of "RefreshContestRanks now db t c"] Refresh_ladder [OF assms] g_def [abs_def] ..
  also have "\<dots> = map g (eligible db t c)" by (simp add: filter_map o_def q e)
  also have "\<dots> = map (ranked_row now db t c) (eligible db t c)" by (simp add: g_def)
  finally show ?thesis .
qed


subsection \<open>The ladder is the sum of the verdicts\<close>

definition ladder_sum :: "SolveSubmission list \<Rightarrow> int \<Rightarrow> int \<Rightarrow> int \<Rightarrow> int \<times> int \<times> int" where
  "ladder_sum subs tenantID contestID teamID =
     (let best = best_rows (filter (passed_for tenantID contestID teamID) subs)
      in (sum_list (map ssScore best), int (length best), if best = [] then 0 else Max (set (map ssSubmittedAt best))))"

definition row_current :: "SolveSubmission list \<Rightarrow> LadderRank \<Rightarrow> bool" where
  "row_current subs r \<longleftrightarrow>
     (lrScore r, lrSolvedCount r, lrLastSolveAt r) = ladder_sum subs (lrTenantID r) (lrContestID r) (lrTeamID r)"

text \<open>Every row holds the sum of its team's best passed submissions, and every team with one has a row.\<close>

definition ladder_current :: "contest_store \<Rightarrow> bool" where
  "ladder_current db \<longleftrightarrow>
     (\<forall>r \<in> set (dbLadder db). row_current (dbSubmissions db) r) \<and>
     (\<forall>s \<in> set (dbSubmissions db). ssPassed s \<longrightarrow>
        (\<exists>r \<in> set (dbLadder db). ladder_key (ssTenantID s) (ssContestID s) (ssTeamID s) r)) \<and>
     distinct (map ssID (dbSubmissions db))"

lemma Sum_fields:
  "(lrScore (SumTeamSolvedScore db t c te), lrSolvedCount (SumTeamSolvedScore db t c te),
    lrLastSolveAt (SumTeamSolvedScore db t c te)) = ladder_sum (dbSubmissions db) t c te"
  "lrTenantID (SumTeamSolvedScore db t c te) = t" "lrContestID (SumTeamSolvedScore db t c te) = c"
  "lrTeamID (SumTeamSolvedScore db t c te) = te"
  by (simp_all add: SumTeamSolvedScore_def ladder_sum_def Let_def)

lemma Refresh_rows:
  "r \<in> set (dbLadder (RefreshContestRanks now db t c)) \<Longrightarrow>
     \<exists>s \<in> set (dbLadder db). (lrScore r, lrSolvedCount r, lrLastSolveAt r) = (lrScore s, lrSolvedCount s, lrLastSolveAt s)
        \<and> lrTenantID r = lrTenantID s \<and> lrContestID r = lrContestID s \<and> lrTeamID r = lrTeamID s"
  unfolding RefreshContestRanks_def Let_def by (auto dest!: upd_rows_set split: if_splits)

lemma Refresh_keys:
  "(\<exists>r \<in> set (dbLadder (RefreshContestRanks now db t c)). ladder_key t' c' te r) \<longleftrightarrow>
     (\<exists>r \<in> set (dbLadder db). ladder_key t' c' te r)"
proof -
  have "map ladder_unique (dbLadder (RefreshContestRanks now db t c)) = map ladder_unique (dbLadder db)"
    unfolding RefreshContestRanks_def Let_def by (simp add: upd_rows_map ladder_unique_def)
  then have "ladder_unique ` set (dbLadder (RefreshContestRanks now db t c)) = ladder_unique ` set (dbLadder db)"
    by (metis set_map)
  moreover have "(\<exists>r \<in> S. ladder_key t' c' te r) \<longleftrightarrow> (t', c', te) \<in> ladder_unique ` S" for S
    by (force simp: ladder_key_def ladder_unique_def)
  ultimately show ?thesis by simp
qed

lemma refresh_current:
  assumes "refreshTeamRank now newID db t c te = Inr db'"
    and "\<forall>r \<in> set (dbLadder db). \<not> ladder_key t c te r \<longrightarrow> row_current (dbSubmissions db) r"
    and "\<forall>s \<in> set (dbSubmissions db). ssPassed s \<and> (ssTenantID s, ssContestID s, ssTeamID s) \<noteq> (t, c, te) \<longrightarrow>
        (\<exists>r \<in> set (dbLadder db). ladder_key (ssTenantID s) (ssContestID s) (ssTeamID s) r)"
    and "distinct (map ssID (dbSubmissions db))"
  shows "ladder_current db'"
proof -
  define rank where "rank = (SumTeamSolvedScore db t c te)\<lparr>lrID := newID\<rparr>"
  obtain d where d: "UpsertLadder now db rank = Inr d" "db' = RefreshContestRanks now d t c"
    using assms(1) by (auto simp: refreshTeamRank_def Let_def bindR_Inr rank_def)
  have key: "lrTenantID rank = t" "lrContestID rank = c" "lrTeamID rank = te"
    by (simp_all add: rank_def Sum_fields)
  have vals: "(lrScore rank, lrSolvedCount rank, lrLastSolveAt rank) = ladder_sum (dbSubmissions db) t c te"
    by (simp add: rank_def Sum_fields(1) flip: Sum_fields(1))
  have subs: "dbSubmissions d = dbSubmissions db"
    using d(1) by (auto simp: UpsertLadder_def Let_def split: if_splits)
  have cur: "row_current (dbSubmissions db) r" if "r \<in> set (dbLadder d)" for r
    using d(1) that assms(2) vals key
    by (auto simp: UpsertLadder_def Let_def row_current_def ladder_fields_def ladder_key_def list_ex_iff
        split: if_splits dest!: upd_rows_set)
  have has: "\<exists>r \<in> set (dbLadder d). ladder_key t c te r"
  proof (cases "list_ex (ladder_key t c te) (dbLadder db)")
    case True
    then obtain x where x: "x \<in> set (dbLadder db)" "ladder_key t c te x" by (auto simp: list_ex_iff)
    have "dbLadder d = upd_rows (ladder_key t c te) (ladder_fields rank now) (dbLadder db)"
      using d(1) True key by (auto simp: UpsertLadder_def Let_def split: if_splits)
    then have "ladder_fields rank now x \<in> set (dbLadder d)" using x by (force simp: upd_rows_def)
    then show ?thesis by (rule bexI [rotated]) (use x in \<open>simp add: ladder_fields_def ladder_key_def\<close>)
  next
    case False
    then show ?thesis using d(1) key
      by (auto simp: UpsertLadder_def Let_def ladder_fields_def ladder_key_def split: if_splits)
  qed
  have keep: "\<exists>r \<in> set (dbLadder d). ladder_key t' c' te' r" if "\<exists>r \<in> set (dbLadder db). ladder_key t' c' te' r" for t' c' te'
  proof -
    from that obtain x where x: "x \<in> set (dbLadder db)" "ladder_key t' c' te' x" by blast
    have "dbLadder d = upd_rows (ladder_key t c te) (ladder_fields rank now) (dbLadder db)
        \<or> set (dbLadder db) \<subseteq> set (dbLadder d)"
      using d(1) key by (auto simp: UpsertLadder_def Let_def split: if_splits)
    then show ?thesis
    proof
      assume u: "dbLadder d = upd_rows (ladder_key t c te) (ladder_fields rank now) (dbLadder db)"
      have "(if ladder_key t c te x then ladder_fields rank now x else x) \<in> set (dbLadder d)"
        unfolding u upd_rows_def using x(1) by auto
      then show ?thesis by (rule bexI [rotated]) (use x(2) in \<open>simp add: ladder_fields_def ladder_key_def\<close>)
    qed (use x in blast)
  qed
  have "row_current (dbSubmissions db) r" if "r \<in> set (dbLadder db')" for r
    using Refresh_rows [OF that [unfolded d(2)]] cur by (auto simp: row_current_def)
  moreover have "\<exists>r \<in> set (dbLadder db'). ladder_key (ssTenantID s) (ssContestID s) (ssTeamID s) r"
    if "s \<in> set (dbSubmissions db)" "ssPassed s" for s
    unfolding d(2) Refresh_keys using that has keep assms(3) by (cases "(ssTenantID s, ssContestID s, ssTeamID s) = (t, c, te)") auto
  ultimately show ?thesis using subs assms(4) by (simp add: ladder_current_def d(2))
qed

lemma filter_passed_upd:
  assumes "distinct (map ssID subs)" and "find (submission_key t i) subs = Some sub"
    and "(t', c', te') \<noteq> (ssTenantID sub, ssContestID sub, ssTeamID sub) \<or> (\<not> ssPassed sub \<and> \<not> p)"
  shows "filter (passed_for t' c' te') (upd_rows (submission_key t i) (set_result p sc) subs) = filter (passed_for t' c' te') subs"
proof -
  have only: "r = sub" if "r \<in> set subs" "submission_key t i r" for r
    using that assms(1) find_SomeD [OF assms(2)] by (auto simp: distinct_map inj_on_def submission_key_def)
  have "filter (passed_for t' c' te') (upd_rows (submission_key t i) (set_result p sc) xs) = filter (passed_for t' c' te') xs"
    if "set xs \<subseteq> set subs" for xs
    using that
  proof (induction xs)
    case (Cons x xs)
    then show ?case using only [of x] assms(3) by (auto simp: passed_for_def set_result_def)
  qed simp
  then show ?thesis by blast
qed

lemma ladder_sum_upd:
  assumes "filter (passed_for t c te) subs' = filter (passed_for t c te) subs"
  shows "ladder_sum subs' t c te = ladder_sum subs t c te"
  using assms by (simp add: ladder_sum_def)

text \<open>A negative verdict may only meet a submission that has not passed yet.\<close>

definition not_passed_yet :: "contest_store \<Rightarrow> int \<Rightarrow> int \<Rightarrow> bool" where
  "not_passed_yet db tenantID taskID \<longleftrightarrow>
     (case GetSolveSubmissionByJudgeTask db tenantID (Format taskID) of None \<Rightarrow> True | Some sub \<Rightarrow> \<not> ssPassed sub)"

inductive solve_step :: "contest_store \<Rightarrow> contest_store \<Rightarrow> bool" where
  submit: "commit_submission now newID db problem item = Inr (row, db') \<Longrightarrow> solve_step db db'"
| judged: "HandleSolveJudgeCompleted now newID busOK event (Inr task) db = (db', res, board) \<Longrightarrow>
     jtPassed (jiResult task) \<or> not_passed_yet db (jcTenantID event) (jcTaskID event) \<Longrightarrow> solve_step db db'"
| judge_failed: "HandleSolveJudgeFailed event db = (db', res) \<Longrightarrow>
     not_passed_yet db (jfTenantID event) (jfTaskID event) \<Longrightarrow> solve_step db db'"

lemma find_task_key:
  assumes "GetSolveSubmissionByJudgeTask db t ref = Some sub" and "distinct (map ssID (dbSubmissions db))"
  shows "ssTenantID sub = t \<and> find (submission_key t (ssID sub)) (dbSubmissions db) = Some sub"
proof -
  have s: "sub \<in> set (dbSubmissions db)" "ssTenantID sub = t"
    using find_SomeD [OF assms(1) [unfolded GetSolveSubmissionByJudgeTask_def]] by auto
  then have "find (submission_key t (ssID sub)) (dbSubmissions db) \<noteq> None"
    by (auto simp: find_None_iff submission_key_def)
  then obtain r where r: "find (submission_key t (ssID sub)) (dbSubmissions db) = Some r" by auto
  then have "r = sub"
    using find_SomeD [OF r] s assms(2) by (auto simp: distinct_map inj_on_def submission_key_def)
  with r s show ?thesis by simp
qed

lemma update_unpassed_current:
  assumes "ladder_current db" and "find (submission_key t i) (dbSubmissions db) = Some sub" and "\<not> ssPassed sub"
    and "UpdateSolveSubmissionResult db t i False sc = Inr (u, db')"
  shows "ladder_current db'"
proof -
  have d: "distinct (map ssID (dbSubmissions db))" using assms(1) by (simp add: ladder_current_def)
  have db': "db' = db\<lparr>dbSubmissions := upd_rows (submission_key t i) (set_result False sc) (dbSubmissions db)\<rparr>"
    using assms(2,4) by (auto simp: UpdateSolveSubmissionResult_def split: if_splits)
  have f: "ladder_sum (dbSubmissions db') t' c' te' = ladder_sum (dbSubmissions db) t' c' te'" for t' c' te'
    by (rule ladder_sum_upd) (use filter_passed_upd [OF d assms(2), of t' c' te' False sc] assms(3) in \<open>simp add: db'\<close>)
  have ids: "map ssID (dbSubmissions db') = map ssID (dbSubmissions db)"
    unfolding db' by (simp add: upd_rows_map set_result_def)
  have l: "dbLadder db' = dbLadder db" by (simp add: db')
  have "\<exists>r \<in> set (dbLadder db). ladder_key (ssTenantID s) (ssContestID s) (ssTeamID s) r"
    if s: "s \<in> set (dbSubmissions db')" "ssPassed s" for s
  proof -
    have "s \<in> set (upd_rows (submission_key t i) (set_result False sc) (dbSubmissions db))"
      using s(1) by (simp add: db')
    from upd_rows_set [OF this] obtain s0 where s0: "s0 \<in> set (dbSubmissions db)"
        "s = (if submission_key t i s0 then set_result False sc s0 else s0)" by (elim bexE)
    then have "s0 = s" using s(2) by (auto simp: set_result_def split: if_splits)
    then show ?thesis using s0(1) s(2) assms(1) by (simp add: ladder_current_def)
  qed
  moreover have "\<forall>r \<in> set (dbLadder db). row_current (dbSubmissions db') r"
    using assms(1) by (simp add: ladder_current_def row_current_def f)
  ultimately show ?thesis unfolding ladder_current_def l ids using d by blast
qed

lemma verdict_passed_current:
  assumes "ladder_current db" and "find (submission_key t i) (dbSubmissions db) = Some sub" and "ssTenantID sub = t"
    and "UpdateSolveSubmissionResult db t i True sc = Inr (u, d)"
    and "refreshTeamRank now newID d t (ssContestID u) (ssTeamID u) = Inr db'"
  shows "ladder_current db'"
proof -
  have dist: "distinct (map ssID (dbSubmissions db))" using assms(1) by (simp add: ladder_current_def)
  have d: "d = db\<lparr>dbSubmissions := upd_rows (submission_key t i) (set_result True sc) (dbSubmissions db)\<rparr>"
    and u: "u = set_result True sc sub"
    using assms(2,4) by (auto simp: UpdateSolveSubmissionResult_def split: if_splits)
  have uk: "ssContestID u = ssContestID sub" "ssTeamID u = ssTeamID sub" by (simp_all add: u set_result_def)
  show ?thesis
  proof (rule refresh_current [OF assms(5)], intro ballI impI)
    fix r assume r: "r \<in> set (dbLadder d)" "\<not> ladder_key t (ssContestID u) (ssTeamID u) r"
    then have "ladder_sum (dbSubmissions d) (lrTenantID r) (lrContestID r) (lrTeamID r)
        = ladder_sum (dbSubmissions db) (lrTenantID r) (lrContestID r) (lrTeamID r)"
      by (intro ladder_sum_upd) (use filter_passed_upd [OF dist assms(2), of _ _ _ True sc] assms(3) uk
          in \<open>auto simp: d ladder_key_def\<close>)
    then show "row_current (dbSubmissions d) r"
      using r(1) assms(1) by (simp add: d row_current_def ladder_current_def)
  next
    have only: "r = sub" if "r \<in> set (dbSubmissions db)" "submission_key t i r" for r
      using that dist find_SomeD [OF assms(2)] by (auto simp: distinct_map inj_on_def submission_key_def)
    show "\<forall>s \<in> set (dbSubmissions d). ssPassed s \<and> (ssTenantID s, ssContestID s, ssTeamID s)
         \<noteq> (t, ssContestID u, ssTeamID u) \<longrightarrow>
        (\<exists>r \<in> set (dbLadder d). ladder_key (ssTenantID s) (ssContestID s) (ssTeamID s) r)"
    proof (intro ballI impI)
      fix s assume s: "s \<in> set (dbSubmissions d)" "ssPassed s \<and> (ssTenantID s, ssContestID s, ssTeamID s)
          \<noteq> (t, ssContestID u, ssTeamID u)"
      have "s \<in> set (upd_rows (submission_key t i) (set_result True sc) (dbSubmissions db))"
        using s(1) by (simp add: d)
      from upd_rows_set [OF this] obtain s0 where s0: "s0 \<in> set (dbSubmissions db)"
          "s = (if submission_key t i s0 then set_result True sc s0 else s0)" by (elim bexE)
      then have "\<not> submission_key t i s0" using s(2) only [of s0] assms(3) uk by (auto simp: set_result_def)
      then show "\<exists>r \<in> set (dbLadder d). ladder_key (ssTenantID s) (ssContestID s) (ssTeamID s) r"
        using s s0 assms(1) by (simp add: d ladder_current_def)
    qed
    show "distinct (map ssID (dbSubmissions d))"
      using dist by (simp add: d upd_rows_map set_result_def)
  qed
qed

lemma commit_submission_row:
  assumes "commit_submission now newID db problem item = Inr (row, db')"
  shows "\<not> ssPassed row \<and> ssScore row = 0 \<and> ssID row \<notin> ssID ` set (dbSubmissions db) \<and>
    db' = db\<lparr>dbSubmissions := dbSubmissions db @ [row]\<rparr>"
proof -
  obtain it where "bindR (CreateSolveSubmission now db it) (\<lambda>(item, db).
       if ssPassed item
       then bindR (UpdateSolveSubmissionResult db (ssTenantID item) (ssID item) True (ssScore item)) (\<lambda>(item, db).
            bindR (refreshTeamRank now newID db (ssTenantID item) (ssContestID item) (ssTeamID item)) (\<lambda>db.
              Inr (item, db)))
       else Inr (item, db)) = Inr (row, db')"
    using assms unfolding commit_submission_def bindR_Inr by blast
  then show ?thesis
    by (auto simp: bindR_Inr CreateSolveSubmission_def Let_def list_ex_iff split: if_splits)
qed

lemma solve_verdict_Inr:
  assumes "solve_verdict now newID db event result = Inr (u, db')"
  obtains sub score d where
    "GetSolveSubmissionByJudgeTask db (jcTenantID event) (Format (jcTaskID event)) = Some sub"
    "UpdateSolveSubmissionResult db (jcTenantID event) (ssID sub) (jtPassed result) score = Inr (u, d)"
    "if ssPassed u then refreshTeamRank now newID d (jcTenantID event) (ssContestID u) (ssTeamID u) = Inr db' else db' = d"
  using assms unfolding solve_verdict_def by (auto simp: bindR_Inr split: option.splits if_splits)

definition same_tables :: "contest_store \<Rightarrow> contest_store \<Rightarrow> bool" where
  "same_tables d db \<longleftrightarrow> dbContests d = dbContests db \<and> dbSnapshots d = dbSnapshots db \<and> dbTeams d = dbTeams db \<and>
     dbMembers d = dbMembers db \<and> dbGrants d = dbGrants db"

lemma updated_row:
  "UpdateSolveSubmissionResult db t i p sc = Inr (u, d) \<Longrightarrow> ssPassed u = p \<and> same_tables d db \<and>
     dbLadder d = dbLadder db"
  by (auto simp: UpdateSolveSubmissionResult_def set_result_def same_tables_def split: option.splits if_splits)

lemma completed_store:
  assumes "HandleSolveJudgeCompleted now newID busOK event (Inr task) db = (db', res, board)"
  shows "db' = db \<or> (\<exists>u. solve_verdict now newID db event (jiResult task) = Inr (u, db'))"
  using assms by (auto simp: HandleSolveJudgeCompleted_def split: if_splits sum.splits)

lemma failed_store:
  assumes "HandleSolveJudgeFailed event db = (db', res)"
  shows "db' = db \<or> (\<exists>sub u. GetSolveSubmissionByJudgeTask db (jfTenantID event) (Format (jfTaskID event)) = Some sub \<and>
     UpdateSolveSubmissionResult db (jfTenantID event) (ssID sub) False 0 = Inr (u, db'))"
  using assms by (auto simp: HandleSolveJudgeFailed_def split: if_splits sum.splits option.splits)

lemma commit_current:
  assumes "ladder_current db" and "commit_submission now newID db problem item = Inr (row, db')"
  shows "ladder_current db'"
proof -
  have r: "\<not> ssPassed row" "ssID row \<notin> ssID ` set (dbSubmissions db)"
      "db' = db\<lparr>dbSubmissions := dbSubmissions db @ [row]\<rparr>"
    using commit_submission_row [OF assms(2)] by auto
  have f: "ladder_sum (dbSubmissions db @ [row]) t c te = ladder_sum (dbSubmissions db) t c te" for t c te
    by (rule ladder_sum_upd) (simp add: passed_for_def r(1))
  show ?thesis using assms(1) r by (auto simp: ladder_current_def row_current_def f)
qed

lemma solve_step_current:
  assumes "solve_step db db'" and "ladder_current db"
  shows "ladder_current db'"
  using assms(1)
proof cases
  case (submit now newID problem item row)
  then show ?thesis using commit_current assms(2) by blast
next
  case (judged now newID busOK event task res board)
  show ?thesis
  proof (rule disjE [OF completed_store [OF judged(1)]], goal_cases)
    case 2
    then obtain u where "solve_verdict now newID db event (jiResult task) = Inr (u, db')" ..
    then obtain sub score d where v:
        "GetSolveSubmissionByJudgeTask db (jcTenantID event) (Format (jcTaskID event)) = Some sub"
        "UpdateSolveSubmissionResult db (jcTenantID event) (ssID sub) (jtPassed (jiResult task)) score = Inr (u, d)"
        "if ssPassed u then refreshTeamRank now newID d (jcTenantID event) (ssContestID u) (ssTeamID u) = Inr db' else db' = d"
      by (rule solve_verdict_Inr)
    note k = find_task_key [OF v(1)]
    have dist: "distinct (map ssID (dbSubmissions db))" using assms(2) by (simp add: ladder_current_def)
    show ?case
    proof (cases "jtPassed (jiResult task)")
      case True
      then have p: "jtPassed (jiResult task) = True" by simp
      from v(3) updated_row [OF v(2)] p
      have "refreshTeamRank now newID d (jcTenantID event) (ssContestID u) (ssTeamID u) = Inr db'" by simp
      with verdict_passed_current [OF assms(2) _ _ v(2) [unfolded p]] k [OF dist] show ?thesis by simp
    next
      case False
      moreover have "\<not> ssPassed sub" using judged(2) False v(1) by (simp add: not_passed_yet_def)
      moreover have "db' = d" using v(3) updated_row [OF v(2)] False by simp
      ultimately show ?thesis using update_unpassed_current [OF assms(2) conjunct2 [OF k [OF dist]]] v(2) by simp
    qed
  qed (use assms(2) in simp)
next
  case (judge_failed event res)
  show ?thesis
  proof (rule disjE [OF failed_store [OF judge_failed(1)]], goal_cases)
    case 2
    then obtain sub u where v: "GetSolveSubmissionByJudgeTask db (jfTenantID event) (Format (jfTaskID event)) = Some sub"
        "UpdateSolveSubmissionResult db (jfTenantID event) (ssID sub) False 0 = Inr (u, db')" by blast
    moreover have "distinct (map ssID (dbSubmissions db))" using assms(2) by (simp add: ladder_current_def)
    moreover have "\<not> ssPassed sub" using judge_failed(2) v(1) by (simp add: not_passed_yet_def)
    ultimately show ?case using update_unpassed_current [OF assms(2)] find_task_key by blast
  qed (use assms(2) in simp)
qed


lemma solve_step_views:
  assumes "solve_step db db'"
  shows "same_tables db' db"
  using assms
proof cases
  case (submit now newID problem item row)
  then show ?thesis using commit_submission_row [OF submit] by (simp add: same_tables_def)
next
  case (judged now newID busOK event task res board)
  have ref: "same_tables d' db"
    if "refreshTeamRank now newID d t c te = Inr d'" "same_tables d db" for now newID d t c te d'
    using that by (auto simp: refreshTeamRank_def Let_def bindR_Inr UpsertLadder_def same_tables_def split: if_splits)
  have same: "same_tables db db" by (simp add: same_tables_def)
  from completed_store [OF judged(1)] same show ?thesis
    by (auto elim!: solve_verdict_Inr dest!: updated_row dest: ref split: if_splits)
next
  case (judge_failed event res)
  from failed_store [OF judge_failed(1)] show ?thesis by (auto dest!: updated_row simp: same_tables_def)
qed

lemma pushed_board:
  assumes "HandleSolveJudgeCompleted now newID busOK event judge db = (d, res, Some board)"
  shows "\<exists>u :: SolveSubmission. pushLeaderboard d (ssTenantID u) (ssContestID u) busOK = (res, Some board)"
proof -
  have *: "(case r of Inl e \<Rightarrow> (db, Inl e, None)
            | Inr (updated, db') \<Rightarrow>
                if ssPassed updated then (db', pushLeaderboard db' (ssTenantID updated) (ssContestID updated) busOK)
                else (db', Inr (), None)) = (d, res, Some board) \<Longrightarrow>
      \<exists>u. r = Inr (u, d) \<and> pushLeaderboard d (ssTenantID u) (ssContestID u) busOK = (res, Some board)"
    for r :: "contest_error + SolveSubmission \<times> contest_store"
    by (cases r) (auto split: if_splits prod.splits)
  show ?thesis
    using assms by (auto simp: HandleSolveJudgeCompleted_def split: if_splits sum.splits dest!: *)
qed


subsection \<open>Witnesses\<close>

definition sampleSubmission :: SolveSubmission where
  "sampleSubmission = \<lparr>ssID = 21, ssTenantID = 1, ssContestID = 1, ssProblemID = 5, ssTeamID = 4, ssSubmitterTenantID = 3,
     ssSubmitterID = 8, ssContentRef = None, ssSourceRef = ''contest:0001:solve:21'', ssScopeRef = ''contest:0001:solve:21'',
     ssJudgeTaskRef = ''11'', ssPassed = False, ssScore = 0, ssSandboxRef = [], ssSubmittedAt = 0\<rparr>"

definition boardStore :: "int \<Rightarrow> contest_store" where
  "boardStore status = \<lparr>dbContests = [sampleContest\<lparr>ctStatus := status\<rparr>], dbProblems = [sampleProblem],
     dbTeams = [sampleTeam], dbMembers = [], dbGrants = [], dbSubmissions = [], dbLadder = [],
     dbSnapshots = [\<lparr>lsID = 1, lsTenantID = 1, lsContestID = 1, lsSnapshotStatus = 4, lsRanking = [], lsGeneratedAt = 40\<rparr>],
     dbCheats = []\<rparr>"

definition sampleVerdict :: JudgeCompletedEvent where
  "sampleVerdict = \<lparr>jcTenantID = 1, jcTraceID = [], jcTaskID = 11, jcSourceRef = ''contest:0001:solve:21'', jcStatus = 3, jcScore = 0,
     jcPassed = False, jcFinishedAt = 0\<rparr>"

definition sampleTask :: "bool \<Rightarrow> JudgeTaskInfo" where
  "sampleTask passed = \<lparr>jiTaskID = 11, jiTenantID = 1, jiSubmitterTenantID = 3, jiSourceRef = ''contest:0001:solve:21'', jiSubmitterID = 8,
     jiStatus = 3, jiResult = \<lparr>jtPassed = passed, jtScore = 100, jtMaxScore = 100, jtDetails = [], jtResultRef = [],
       jtReplay = \<lparr>jrActions = []\<rparr>\<rparr>\<rparr>"

definition submitted :: "int \<Rightarrow> contest_store" where
  "submitted status = (boardStore status)\<lparr>dbSubmissions := [sampleSubmission\<lparr>ssSubmittedAt := 50\<rparr>]\<rparr>"

definition verdict_store :: "bool \<Rightarrow> contest_store \<Rightarrow> contest_store" where
  "verdict_store passed db = fst (HandleSolveJudgeCompleted 60 31 True sampleVerdict (Inr (sampleTask passed)) db)"

lemma fst_snd3: "x = (fst x, fst (snd x), snd (snd x))" by simp

lemma sample_submit: "solve_step (boardStore status) (submitted status)"
  by (rule solve_step.submit [of 50 0 _ sampleProblem sampleSubmission])
    (simp add: commit_submission_def sampleSubmission_def CreateSolveSubmission_def boardStore_def submitted_def Let_def)

lemma sample_verdict: "solve_step db (verdict_store True db)"
  unfolding verdict_store_def
  by (rule solve_step.judged, rule fst_snd3) (simp add: sampleTask_def)

lemma sample_run: "solve_step\<^sup>*\<^sup>* (boardStore status) (verdict_store True (submitted status))"
  using sample_submit sample_verdict by (rule converse_rtranclp_into_rtranclp [OF _ r_into_rtranclp])




subsection \<open>Where the ladder may go wrong\<close>

text \<open>
  A re-judged submission that no longer passes: the handler does not refresh the ladder, which keeps
  the points of the old verdict.
\<close>

lemma stale_after_rejudge:
  "let db = verdict_store True (submitted 3); db' = verdict_store False db
   in \<not> list_ex ssPassed (dbSubmissions db') \<and> map lrScore (dbLadder db') = [100]
      \<and> lrScore (SumTeamSolvedScore db' 1 1 4) = 0"
  by code_simp

text \<open>
  The completed event of a dynamic problem delivered twice: the second time the team's own solution
  counts as a previous one, and the team loses points.
\<close>

lemma redelivery_lowers_score:
  "let db = verdict_store True (submitted 3) in
   map lrScore (dbLadder db) = [100] \<and> map lrScore (dbLadder (verdict_store True db)) = [80]"
  by code_simp

text \<open>
  A judge task already done at submission: the verdict in \<open>item\<close> is lost with the row the insert
  returns, whatever it was.
\<close>

lemma immediate_verdict_dropped:
  assumes "commit_submission now newID db problem (item\<lparr>ssPassed := True\<rparr>) = Inr (row, db')"
  shows "\<not> ssPassed row \<and> ssScore row = 0 \<and> dbLadder db' = dbLadder db"
  using commit_submission_row [OF assms] by simp

end
