(* ===== verification/ContestService.thy ===== *)
theory ContestService
  imports ContestScoring
begin

section \<open>Contest module: services over the store\<close>

text \<open>
  The handlers of \<open>contest/service_contest.go\<close>, \<open>service_team.go\<close>, \<open>service_solve.go\<close> and
  \<open>service_sandbox.go\<close> that change contests, problems, teams and sandbox grants. Every database
  transaction is a function of the store it finds; a handler that spans two transactions around a
  call to another module is two functions. The identity of the request, the clock, fresh
  identifiers, random codes and the answers of other modules are arguments.
\<close>

subsection \<open>Identity, tenants and access\<close>

record Identity =
  idTenantID :: int
  idAccountID :: int

definition currentIdentity :: "Identity option \<Rightarrow> contest_error + Identity" where
  "currentIdentity ctx =
     (case ctx of None \<Rightarrow> Inl ErrUnauthorized
      | Some i \<Rightarrow> if idTenantID i \<le> 0 \<or> idAccountID i \<le> 0 then Inl ErrUnauthorized else Inr i)"

definition resolvePublishedContestTenant :: "contest_store \<Rightarrow> int \<Rightarrow> contest_error + int" where
  "resolvePublishedContestTenant db contestID =
     (if contestID \<le> 0 then Inl ErrContestNotFound
      else bindR (FindPublishedContestTenant db contestID) (\<lambda>t. if t \<le> 0 then Inl ErrContestNotFound else Inr t))"

definition FindTeamTenant :: "contest_store \<Rightarrow> int \<Rightarrow> contest_error + int" where
  "FindTeamTenant db teamID =
     (case find (\<lambda>t. teID t = teamID) (dbTeams db) of None \<Rightarrow> Inl ErrContestTeamNotFound | Some t \<Rightarrow> Inr (teTenantID t))"

definition resolveTeamTenant :: "contest_store \<Rightarrow> int \<Rightarrow> contest_error + int" where
  "resolveTeamTenant db teamID =
     (if teamID \<le> 0 then Inl ErrContestTeamNotFound
      else bindR (FindTeamTenant db teamID) (\<lambda>t. if t \<le> 0 then Inl ErrContestTeamNotFound else Inr t))"

text \<open>\<open>roles\<close> is the answer of the role service: whether the account is a school administrator.\<close>

definition isSchoolAdmin :: "contest_error + bool \<Rightarrow> contest_error + bool" where
  "isSchoolAdmin roles = withCause ErrForbidden roles"

definition loadContestForManage :: "contest_error + bool \<Rightarrow> contest_store \<Rightarrow> int \<Rightarrow> int \<Rightarrow> int \<Rightarrow> contest_error + Contest" where
  "loadContestForManage roles db tenantID accountID contestID =
     bindR (GetContest db tenantID contestID) (\<lambda>item.
     bindR (isSchoolAdmin roles) (\<lambda>admin.
     thenR (canManageContest accountID admin item) (Inr item)))"

text \<open>The same reads under a row lock; a transaction is atomic here, so the lock adds nothing.\<close>

definition lockContestForManage :: "contest_error + bool \<Rightarrow> contest_store \<Rightarrow> int \<Rightarrow> int \<Rightarrow> int \<Rightarrow> contest_error + Contest" where
  "lockContestForManage roles db tenantID accountID contestID =
     bindR (GetContest db tenantID contestID) (\<lambda>item.
     bindR (isSchoolAdmin roles) (\<lambda>admin.
     thenR (canManageContest accountID admin item) (Inr item)))"

definition ensurePublishedContestReadAccess :: "contest_store \<Rightarrow> int \<Rightarrow> int \<Rightarrow> Identity \<Rightarrow> contest_error + unit" where
  "ensurePublishedContestReadAccess db organizerTenantID contestID i =
     (if contestReadAccessAllowed (idTenantID i) organizerTenantID False then Inr ()
      else case GetTeamForAccount db organizerTenantID contestID (idTenantID i) (idAccountID i) of
             None \<Rightarrow> Inl ErrContestNotFound | Some _ \<Rightarrow> Inr ())"

subsection \<open>Contests and problems\<close>

definition contest_of :: "Identity \<Rightarrow> int \<Rightarrow> ContestRequest \<Rightarrow> Contest" where
  "contest_of i newID req =
     \<lparr>ctID = newID, ctTenantID = idTenantID i, ctOrganizerID = idAccountID i, ctName = cqName req, ctMode = cqMode req,
      ctMatchMode = cqMatchMode req, ctTeamMode = cqTeamMode req, ctSignupStart = cqSignupStart req,
      ctSignupEnd = cqSignupEnd req, ctStartAt = cqStartAt req, ctEndAt = cqEndAt req,
      ctFreezeMinutes = cqFreezeMinutes req, ctRules = cqRules req, ctStatus = 0, ctCreatedAt = 0, ctUpdatedAt = 0\<rparr>"

definition CreateContest ::
  "int \<Rightarrow> int \<Rightarrow> Identity option \<Rightarrow> ContestRequest \<Rightarrow> contest_store \<Rightarrow> contest_error + Contest \<times> contest_store" where
  "CreateContest now newID ctx req db =
     bindR (currentIdentity ctx) (\<lambda>i.
     bindR (validateContestRequest req) (\<lambda>req.
     insertContest now db (contest_of i newID req)))"

definition UpdateContest ::
  "int \<Rightarrow> contest_error + bool \<Rightarrow> Identity option \<Rightarrow> int \<Rightarrow> ContestRequest \<Rightarrow> contest_store \<Rightarrow>
     contest_error + Contest \<times> contest_store" where
  "UpdateContest now roles ctx contestID req db =
     bindR (currentIdentity ctx) (\<lambda>i.
     bindR (validateContestRequest req) (\<lambda>req.
     bindR (loadContestForManage roles db (idTenantID i) (idAccountID i) contestID) (\<lambda>current.
     updateContestRow now db
       (current\<lparr>ctName := cqName req, ctMode := cqMode req, ctMatchMode := cqMatchMode req,
          ctTeamMode := cqTeamMode req, ctSignupStart := cqSignupStart req, ctSignupEnd := cqSignupEnd req,
          ctStartAt := cqStartAt req, ctEndAt := cqEndAt req, ctFreezeMinutes := cqFreezeMinutes req,
          ctRules := cqRules req\<rparr>))))"

text \<open>
  What \<open>AddProblem\<close> does before it writes. The content module answers with the type of the item and
  with the compiled composition, if the item declares one; the judge says whether the item can be
  judged in a reused sandbox.
\<close>

record content_full =
  cfType :: int
  cfComposition :: "(contest_error + SandboxCompositionSnapshot) option"

definition AddProblem_prepare ::
  "contest_error + bool \<Rightarrow> contest_error + content_full \<Rightarrow> contest_error + unit \<Rightarrow> Identity option \<Rightarrow> int \<Rightarrow> ProblemRequest \<Rightarrow>
     contest_store \<Rightarrow> contest_error + Contest \<times> ProblemRequest \<times> SandboxCompositionSnapshot option" where
  "AddProblem_prepare roles content judgeMode ctx contestID req db =
     bindR (currentIdentity ctx) (\<lambda>i.
     bindR (loadContestForManage roles db (idTenantID i) (idAccountID i) contestID) (\<lambda>contest.
     thenR (failIf (ctStatus contest \<noteq> ContestStatusDraft) ErrContestStateInvalid)
     (bindR (validateProblemRequest req (ctMode contest)) (\<lambda>req.
     bindR (withCause ErrContestContentUnavailable content) (\<lambda>full.
     thenR (failIf (\<not> contestContentTypeAllowed (ctMode contest) (cfType full)) ErrContestProblemInvalid)
     (bindR (case cfComposition full of
               Some compiled \<Rightarrow>
                 bindR (sandboxProfileForContestMode (ctMode contest)) (\<lambda>_.
                 bindR (withCause ErrContestProblemInvalid compiled) (\<lambda>snapshot. Inr (Some snapshot)))
             | None \<Rightarrow> if ctMode contest = ContestModeBattle then Inl ErrContestProblemInvalid else Inr None) (\<lambda>snapshot.
      thenR (if ctMode contest = ContestModeBattle then withCause ErrContestProblemInvalid judgeMode else Inr ())
        (Inr (contest, req, snapshot)))))))))"

definition problem_of :: "int \<Rightarrow> int \<Rightarrow> int \<Rightarrow> ProblemRequest \<Rightarrow> SandboxCompositionSnapshot option \<Rightarrow> ContestProblem" where
  "problem_of newID tenantID contestID req snapshot =
     \<lparr>cpID = newID, cpTenantID = tenantID, cpContestID = contestID, cpItemCode = prItemCode req,
      cpItemVersion = prItemVersion req, cpScore = prScore req, cpDynamicScore = prDynamicScore req,
      cpBattleConfig = prBattleConfig req, cpBattleRule = prBattleRule req, cpSeq = prSeq req,
      cpCompositionDigest = (case snapshot of None \<Rightarrow> [] | Some s \<Rightarrow> snDigest s), cpCompositionSnapshot = snapshot\<rparr>"

definition AddProblem_commit ::
  "contest_error + bool \<Rightarrow> int \<Rightarrow> Identity \<Rightarrow> int \<Rightarrow> Contest \<Rightarrow> ProblemRequest \<Rightarrow> SandboxCompositionSnapshot option \<Rightarrow> contest_store \<Rightarrow>
     contest_error + ContestProblem \<times> contest_store" where
  "AddProblem_commit roles newID i contestID contest req snapshot db =
     bindR (lockContestForManage roles db (idTenantID i) (idAccountID i) contestID) (\<lambda>current.
     thenR (failIf (ctStatus current \<noteq> ContestStatusDraft \<or> ctMode current \<noteq> ctMode contest) ErrContestStateInvalid)
     (thenR (failIf (list_ex (\<lambda>existing. cpItemCode existing = prItemCode req \<and> cpItemVersion existing = prItemVersion req
                        \<and> cpSeq existing \<noteq> prSeq req) (ListContestProblems db (idTenantID i) contestID)) ErrContestProblemInvalid)
       (UpsertContestProblem db (problem_of newID (idTenantID i) contestID req snapshot))))"

subsection \<open>Life cycle\<close>

text \<open>
  All pages of the ladder, with the page size of the configuration. \<open>rows\<close> is the ladder the pages
  are cut from and \<open>counted\<close> its count query. The loop ends: a page that adds nothing is an error.
\<close>

definition ladder_page :: "LadderRank list \<Rightarrow> nat \<Rightarrow> nat \<Rightarrow> LadderRank list" where
  "ladder_page rows page pageSize = take pageSize (drop ((page - 1) * pageSize) rows)"

function ladder_pages :: "LadderRank list \<Rightarrow> nat \<Rightarrow> nat \<Rightarrow> nat \<Rightarrow> LadderRank list \<Rightarrow> contest_error + LadderRank list" where
  "ladder_pages rows counted pageSize page ranks =
     (let batch = ladder_page rows page pageSize; ranks' = ranks @ batch
      in if counted \<le> length ranks' then Inr ranks'
         else if batch = [] then Inl ErrContestStateInvalid
         else ladder_pages rows counted pageSize (page + 1) ranks')"
  by pat_completeness auto

termination
  by (relation "measure (\<lambda>(rows, counted, pageSize, page, ranks). counted - length ranks)") (auto simp: Let_def simp flip: length_greater_0_conv)

definition CountLadder :: "contest_store \<Rightarrow> int \<Rightarrow> int \<Rightarrow> nat" where
  "CountLadder db tenantID contestID =
     length (filter (\<lambda>r. lrTenantID r = tenantID \<and> lrContestID r = contestID \<and> \<not> disqualified db r) (dbLadder db))"

definition listAllContestLadder :: "int \<Rightarrow> contest_store \<Rightarrow> int \<Rightarrow> int \<Rightarrow> contest_error + LadderRank list" where
  "listAllContestLadder pageSize db tenantID contestID =
     (if pageSize \<le> 0 then Inl ErrContestStateInvalid
      else ladder_pages (ListLadder db tenantID contestID) (CountLadder db tenantID contestID) (nat pageSize) 1 [])"

definition revokeContestSandboxGrants ::
  "int \<Rightarrow> contest_store \<Rightarrow> int \<Rightarrow> int \<Rightarrow> ContestAccessGrant list \<times> contest_store" where
  "revokeContestSandboxGrants now db tenantID contestID =
     (let grants = ListContestAccessGrantsForContest db tenantID contestID
      in (grants, foldl (\<lambda>db sandboxID. RevokeContestAccessGrantsForSandbox now db tenantID sandboxID) db
                   (remdups (map cgSandboxID grants))))"

text \<open>
  The first transaction of a manual transition. \<open>digest\<close> is the canonical digest of a snapshot (or
  its error).
\<close>

definition snapshot_check ::
  "(SandboxCompositionSnapshot \<Rightarrow> contest_error + string) \<Rightarrow> int \<Rightarrow> ContestProblem \<Rightarrow> contest_error + unit" where
  "snapshot_check digest mode problem =
     (case cpCompositionSnapshot problem of
        None \<Rightarrow> failIf (mode = ContestModeBattle) ErrContestProblemInvalid
      | Some snapshot \<Rightarrow>
          if cpCompositionDigest problem = [] then failIf (mode = ContestModeBattle) ErrContestProblemInvalid
          else failIf (digest snapshot \<noteq> Inr (cpCompositionDigest problem)) ErrContestProblemInvalid)"

definition transition_prepare ::
  "int \<Rightarrow> contest_error + bool \<Rightarrow> (SandboxCompositionSnapshot \<Rightarrow> contest_error + string) \<Rightarrow> Identity \<Rightarrow> int \<Rightarrow> int \<Rightarrow> bool \<Rightarrow>
     contest_store \<Rightarrow> contest_error + Contest \<times> ContestProblem list" where
  "transition_prepare now roles digest i contestID next requireProblems db =
     bindR (loadContestForManage roles db (idTenantID i) (idAccountID i) contestID) (\<lambda>current.
     thenR (validateContestTransitionWindow current next now)
     (let problems = ListContestProblems db (idTenantID i) contestID
      in thenR (failIf (requireProblems \<and> problems = []) ErrContestProblemInvalid)
         (thenR (if requireProblems then eachR (snapshot_check digest (ctMode current)) problems else Inr ())
            (Inr (current, problems)))))"

text \<open>The second transaction, after the content references were registered; it reads everything again.\<close>

definition enter_status ::
  "int \<Rightarrow> int \<Rightarrow> int \<Rightarrow> int \<Rightarrow> int \<Rightarrow> int \<Rightarrow> contest_store \<Rightarrow> contest_error + ContestAccessGrant list \<times> contest_store" where
  "enter_status now newID pageSize tenantID contestID next db =
     (let db = (if next = ContestStatusRunning then LockContestTeams db tenantID contestID else db)
      in bindR (if next = ContestStatusFrozen
                then bindR (listAllContestLadder pageSize db tenantID contestID) (\<lambda>ranks.
                       saveLadderSnapshot now newID db tenantID contestID ContestStatusFrozen ranks)
                else Inr db) (\<lambda>db.
           Inr (if next = ContestStatusEnded then revokeContestSandboxGrants now db tenantID contestID else ([], db))))"

definition transition_commit ::
  "int \<Rightarrow> int \<Rightarrow> int \<Rightarrow> contest_error + bool \<Rightarrow> Identity \<Rightarrow> int \<Rightarrow> int \<Rightarrow> bool \<Rightarrow> Contest \<Rightarrow> ContestProblem list \<Rightarrow> contest_store \<Rightarrow>
     contest_error + (Contest \<times> ContestAccessGrant list) \<times> contest_store" where
  "transition_commit now newID pageSize roles i contestID next requireProblems item problems db =
     bindR (lockContestForManage roles db (idTenantID i) (idAccountID i) contestID) (\<lambda>current.
     thenR (validateContestTransitionWindow current next now)
     (thenR (failIf (requireProblems \<and> (ctMode current \<noteq> ctMode item
                     \<or> problems \<noteq> ListContestProblems db (idTenantID i) contestID)) ErrContestStateInvalid)
     (bindR (enter_status now newID pageSize (idTenantID i) contestID next db) (\<lambda>(revoked, db).
      bindR (SetContestStatus now db (idTenantID i) contestID next) (\<lambda>(item, db).
       Inr ((item, revoked), db))))))"

record contest_move =
  mvItem :: Contest
  mvNextStatus :: int
  mvRevoked :: "ContestAccessGrant list"

definition end_due :: "int \<Rightarrow> contest_move list \<times> contest_store \<Rightarrow> Contest \<Rightarrow> contest_error + contest_move list \<times> contest_store" where
  "end_due now st contest =
     (let (moved, db) = st; (grants, db) = revokeContestSandboxGrants now db (ctTenantID contest) (ctID contest)
      in bindR (SetContestStatus now db (ctTenantID contest) (ctID contest) ContestStatusEnded) (\<lambda>(updated, db).
           Inr (moved @ [\<lparr>mvItem = updated, mvNextStatus = ContestStatusEnded, mvRevoked = grants\<rparr>], db)))"

definition run_due :: "int \<Rightarrow> contest_move list \<times> contest_store \<Rightarrow> Contest \<Rightarrow> contest_error + contest_move list \<times> contest_store" where
  "run_due now st contest =
     (let (moved, db) = st; db = LockContestTeams db (ctTenantID contest) (ctID contest)
      in bindR (SetContestStatus now db (ctTenantID contest) (ctID contest) ContestStatusRunning) (\<lambda>(updated, db).
           Inr (moved @ [\<lparr>mvItem = updated, mvNextStatus = ContestStatusRunning, mvRevoked = []\<rparr>], db)))"

definition freeze_due ::
  "int \<Rightarrow> int \<Rightarrow> (Contest \<Rightarrow> int) \<Rightarrow> contest_move list \<times> contest_store \<Rightarrow> Contest \<Rightarrow> contest_error + contest_move list \<times> contest_store" where
  "freeze_due now pageSize newID st contest =
     (let (moved, db) = st
      in bindR (listAllContestLadder pageSize db (ctTenantID contest) (ctID contest)) (\<lambda>ranks.
         bindR (saveLadderSnapshot now (newID contest) db (ctTenantID contest) (ctID contest) ContestStatusFrozen ranks) (\<lambda>db.
         bindR (SetContestStatus now db (ctTenantID contest) (ctID contest) ContestStatusFrozen) (\<lambda>(updated, db).
           Inr (moved @ [\<lparr>mvItem = updated, mvNextStatus = ContestStatusFrozen, mvRevoked = []\<rparr>], db)))))"

text \<open>One privileged transaction: the first error aborts it as a whole.\<close>

definition AdvanceContestStatusesOnce ::
  "int \<Rightarrow> int \<Rightarrow> (Contest \<Rightarrow> int) \<Rightarrow> contest_store \<Rightarrow> contest_error + contest_move list \<times> contest_store" where
  "AdvanceContestStatusesOnce now pageSize newID db =
     bindR (foldR (end_due now) ([], db) (ListContestsDueToEnd db now)) (\<lambda>st.
     bindR (foldR (run_due now) st (ListContestsDueToRun (snd st) now)) (\<lambda>st.
     foldR (freeze_due now pageSize newID) st (ListContestsDueToFreeze (snd st) now)))"

subsection \<open>Teams\<close>

text \<open>\<open>strings.ToUpper\<close> on ASCII, with the two runes above it whose capital is an ASCII letter; an invite code is ASCII.\<close>

fun ToUpper :: "string \<Rightarrow> string" where
  "ToUpper [] = []"
| "ToUpper [c] = [if CHR ''a'' \<le> c \<and> c \<le> CHR ''z'' then char_of (of_char c - 32 :: nat) else c]"
| "ToUpper (c # d # s) =
     (if c = CHR 0xC4 \<and> d = CHR 0xB1 then CHR ''I'' # ToUpper s
      else if c = CHR 0xC5 \<and> d = CHR 0xBF then CHR ''S'' # ToUpper s
      else (if CHR ''a'' \<le> c \<and> c \<le> CHR ''z'' then char_of (of_char c - 32 :: nat) else c) # ToUpper (d # s))"

text \<open>The team name of a solo contest, in UTF-8.\<close>

definition soloTeamName :: string where
  "soloTeamName = [CHR 0xE4, CHR 0xB8, CHR 0xAA, CHR 0xE4, CHR 0xBA, CHR 0xBA, CHR 0xE5, CHR 0x8F, CHR 0x82,
                   CHR 0xE8, CHR 0xB5, CHR 0x9B]"

definition new_member :: "int \<Rightarrow> int \<Rightarrow> int \<Rightarrow> Identity \<Rightarrow> bool \<Rightarrow> TeamMember" where
  "new_member newID tenantID teamID i leader =
     \<lparr>tmID = newID, tmTenantID = tenantID, tmTeamID = teamID, tmAccountID = idAccountID i,
      tmMemberTenantID = idTenantID i, tmIsLeader = leader, tmJoinedAt = 0\<rparr>"

definition Signup_tx ::
  "int \<Rightarrow> int \<Rightarrow> int \<Rightarrow> contest_error + string \<Rightarrow> Identity \<Rightarrow> int \<Rightarrow> int \<Rightarrow> string \<Rightarrow> contest_store \<Rightarrow>
     contest_error + Team \<times> contest_store" where
  "Signup_tx now teamID memberID newCode i organizerTenantID contestID teamName db =
     bindR (GetContest db organizerTenantID contestID) (\<lambda>contest.
     thenR (validateSignupWindow contest now)
     (case GetTeamForAccount db organizerTenantID contestID (idTenantID i) (idAccountID i) of
        Some existing \<Rightarrow> bindR (GetTeam db organizerTenantID (teID existing)) (\<lambda>team. Inr (team, db))
      | None \<Rightarrow>
          bindR (validateTeamName (if ctTeamMode contest = TeamModeSolo then soloTeamName else TrimSpace teamName)) (\<lambda>name.
          bindR (withCause ErrContestTeamInvalid newCode) (\<lambda>code.
          let inviteCode = (if ctTeamMode contest = TeamModeSolo then [] else code)
          in bindR (CreateTeam now db \<lparr>teID = teamID, teTenantID = organizerTenantID, teContestID = contestID, teName = name,
                      teInviteCode = inviteCode, teStatus = 0, teCreatedAt = 0, teMembers = []\<rparr>) (\<lambda>(team, db).
             bindR (AddTeamMember now db (new_member memberID organizerTenantID (teID team) i True)) (\<lambda>db.
             bindR (GetTeam db organizerTenantID (teID team)) (\<lambda>team. Inr (team, db))))))))"

definition Signup ::
  "int \<Rightarrow> int \<Rightarrow> int \<Rightarrow> contest_error + string \<Rightarrow> Identity option \<Rightarrow> int \<Rightarrow> string \<Rightarrow> contest_store \<Rightarrow>
     contest_error + Team \<times> contest_store" where
  "Signup now teamID memberID newCode ctx contestID teamName db =
     bindR (currentIdentity ctx) (\<lambda>i.
     bindR (resolvePublishedContestTenant db contestID) (\<lambda>organizerTenantID.
     Signup_tx now teamID memberID newCode i organizerTenantID contestID teamName db))"

definition JoinTeam ::
  "int \<Rightarrow> int \<Rightarrow> Identity option \<Rightarrow> int \<Rightarrow> string \<Rightarrow> contest_store \<Rightarrow> contest_error + Team \<times> contest_store" where
  "JoinTeam now memberID ctx contestID inviteCode db =
     bindR (currentIdentity ctx) (\<lambda>i.
     let code = ToUpper (TrimSpace inviteCode)
     in if code = [] then Inl ErrContestTeamInvalid
        else bindR (resolvePublishedContestTenant db contestID) (\<lambda>organizerTenantID.
             bindR (GetContest db organizerTenantID contestID) (\<lambda>contest.
             thenR (failIf (ctTeamMode contest \<noteq> TeamModeGroup) ErrContestTeamInvalid)
             (thenR (validateSignupWindow contest now)
             (thenR (failIf (AccountTeamIDs db organizerTenantID contestID (idTenantID i) (idAccountID i) \<noteq> []) ErrContestTeamInvalid)
             (bindR (GetTeamByInviteCode db organizerTenantID code) (\<lambda>team.
             thenR (failIf (teContestID team \<noteq> contestID \<or> teStatus team \<noteq> 1) ErrContestTeamInvalid)
             (bindR (AddTeamMember now db (new_member memberID organizerTenantID (teID team) i False)) (\<lambda>db.
              bindR (GetTeam db organizerTenantID (teID team)) (\<lambda>team. Inr (team, db)))))))))))"

definition LockTeam :: "Identity option \<Rightarrow> int \<Rightarrow> contest_store \<Rightarrow> contest_error + Team \<times> contest_store" where
  "LockTeam ctx teamID db =
     bindR (currentIdentity ctx) (\<lambda>i.
     bindR (resolveTeamTenant db teamID) (\<lambda>organizerTenantID.
     bindR (GetTeam db organizerTenantID teamID) (\<lambda>current.
     thenR (failIf (\<not> isTeamLeader (idTenantID i) (idAccountID i) current) ErrContestTeamAccessDenied)
     (bindR (LockTeamRow db organizerTenantID teamID) (\<lambda>(team, db).
       Inr (team\<lparr>teMembers := ListTeamMembers db organizerTenantID teamID\<rparr>, db))))))"

definition currentAccountTeam :: "contest_store \<Rightarrow> int \<Rightarrow> int \<Rightarrow> int \<Rightarrow> int \<Rightarrow> contest_error + Team" where
  "currentAccountTeam db organizerTenantID memberTenantID contestID accountID =
     (case GetTeamForAccount db organizerTenantID contestID memberTenantID accountID of
        None \<Rightarrow> Inl ErrContestTeamNotFound | Some team \<Rightarrow> GetTeam db organizerTenantID (teID team))"

subsection \<open>Environments and their grants\<close>

record contestEnvContext =
  envOrganizerTenantID :: int
  envMemberTenantID :: int
  envMemberAccountID :: int
  envContest :: Contest
  envProblem :: ContestProblem
  envTeam :: Team
  envSourceRef :: string

text \<open>\<open>hash8\<close> renders the first eight bytes of the SHA-256 of the request reference.\<close>

definition resolveContestEnvContext ::
  "(string \<Rightarrow> string) \<Rightarrow> Identity option \<Rightarrow> int \<Rightarrow> int \<Rightarrow> string \<Rightarrow> contest_store \<Rightarrow> contest_error + contestEnvContext" where
  "resolveContestEnvContext hash8 ctx contestID problemID requestRef0 db =
     bindR (currentIdentity ctx) (\<lambda>i.
     bindR (resolvePublishedContestTenant db contestID) (\<lambda>organizerTenantID.
     let requestRef = TrimSpace requestRef0
     in if requestRef = [] \<or> 128 < length requestRef then Inl ErrContestSandboxUnavailable
        else bindR (GetContest db organizerTenantID contestID) (\<lambda>contest.
             thenR (validateContestRunning contest)
             (bindR (GetContestProblem db organizerTenantID problemID) (\<lambda>problem.
              thenR (failIf (cpContestID problem \<noteq> contestID) ErrContestProblemInvalid)
              (bindR (currentAccountTeam db organizerTenantID (idTenantID i) contestID (idAccountID i)) (\<lambda>team.
               Inr \<lparr>envOrganizerTenantID = organizerTenantID, envMemberTenantID = idTenantID i,
                    envMemberAccountID = idAccountID i, envContest = contest, envProblem = problem, envTeam = team,
                    envSourceRef = contestEnvSourceRefPrefix (YearOf (ctCreatedAt contest)) problemID (teID team)
                                   @ hash8 requestRef\<rparr>)))))))"

text \<open>The grants of a created sandbox, one for every member the team had when the context was read.\<close>

definition env_grant :: "contestEnvContext \<Rightarrow> int \<Rightarrow> string \<Rightarrow> string list \<Rightarrow> (TeamMember \<Rightarrow> int) \<Rightarrow> TeamMember \<Rightarrow> ContestAccessGrant" where
  "env_grant env sandboxID sourceRef capabilities newID member =
     \<lparr>cgID = newID member, cgTenantID = envOrganizerTenantID env, cgContestID = ctID (envContest env),
      cgTeamID = teID (envTeam env), cgSandboxID = sandboxID, cgMemberTenantID = tmMemberTenantID member,
      cgMemberAccountID = tmAccountID member, cgCapabilities = capabilities, cgSourceRef = sourceRef,
      cgGrantVersion = 0, cgStatus = 1, cgExpiresAt = ctEndAt (envContest env), cgCreatedAt = 0, cgUpdatedAt = 0\<rparr>"

definition CreateEnv_commit ::
  "int \<Rightarrow> (TeamMember \<Rightarrow> int) \<Rightarrow> contestEnvContext \<Rightarrow> int \<Rightarrow> string \<Rightarrow> string list \<Rightarrow> contest_store \<Rightarrow> contest_error + contest_store" where
  "CreateEnv_commit now newID env sandboxID sourceRef capabilities db =
     withCause ErrContestSandboxUnavailable
       (foldR (\<lambda>db member. UpsertContestAccessGrant now db (env_grant env sandboxID sourceRef capabilities newID member))
          db (teMembers (envTeam env)))"

text \<open>The transaction of \<open>recycleFailedContestEnv\<close>, with the sandbox found failed by the sandbox module.\<close>

definition recycleFailedContestEnv ::
  "int \<Rightarrow> contestEnvContext \<Rightarrow> int \<Rightarrow> contest_store \<Rightarrow> ContestAccessGrant list \<times> contest_store" where
  "recycleFailedContestEnv now env sandboxID db =
     (filter (\<lambda>g. cgSandboxID g = sandboxID) (ListContestAccessGrantsForContest db (envOrganizerTenantID env) (ctID (envContest env))),
      RevokeContestAccessGrantsForSandbox now db (envOrganizerTenantID env) sandboxID)"

record sandbox_principal =
  spTenantID :: int
  spSandboxID :: int
  spSourceRef :: string
  spAuthorizationID :: int
  spAuthorizationRevision :: int
  spSubjectTenantID :: int
  spSubjectAccountID :: int

definition resolveContestSandboxAccess ::
  "int \<Rightarrow> Identity option \<Rightarrow> int \<Rightarrow> string \<Rightarrow> contest_store \<Rightarrow> contest_error + ContestAccessGrant \<times> sandbox_principal" where
  "resolveContestSandboxAccess now ctx sandboxID requiredCapability db =
     bindR (currentIdentity ctx) (\<lambda>i.
     thenR (failIf (sandboxID \<le> 0 \<or> TrimSpace requiredCapability = []) ErrContestTeamAccessDenied)
     (bindR (FindContestAccessGrantForSubject db sandboxID (idTenantID i) (idAccountID i)) (\<lambda>grant.
      thenR (failIf (cgStatus grant \<noteq> 1 \<or> \<not> now < cgExpiresAt grant \<or> \<not> grantAllows grant requiredCapability)
              ErrContestTeamAccessDenied)
        (Inr (grant, \<lparr>spTenantID = cgTenantID grant, spSandboxID = cgSandboxID grant, spSourceRef = cgSourceRef grant,
               spAuthorizationID = cgID grant, spAuthorizationRevision = cgGrantVersion grant,
               spSubjectTenantID = idTenantID i, spSubjectAccountID = idAccountID i\<rparr>)))))"

end
