(* ===== verification/ContestSystem.thy ===== *)
theory ContestSystem
  imports ContestService
begin

section \<open>Contest module: the running system\<close>

text \<open>
  Every handler of the contest services as a step of one system: the store, the clock and the
  environment contexts that a request has read and not used yet (\<open>CreateEnv\<close> calls the sandbox
  module between its two transactions, and everything may happen in between). Each transaction is
  atomic. \<open>sandbox_ref\<close> gives the source reference a sandbox was created for: the sandbox module
  returns for a reference the sandbox that was created for it.
\<close>

record contest_system =
  sysDB :: contest_store
  sysNow :: int
  sysEnvs :: "contestEnvContext list"

inductive contest_step :: "(string \<Rightarrow> string) \<Rightarrow> (int \<Rightarrow> string) \<Rightarrow> contest_system \<Rightarrow> contest_system \<Rightarrow> bool"
  for hash8 sandbox_ref where
  clock: "sysNow s \<le> now \<Longrightarrow> contest_step hash8 sandbox_ref s (s\<lparr>sysNow := now\<rparr>)"
| create: "CreateContest (sysNow s) newID ctx req (sysDB s) = Inr (c, db) \<Longrightarrow>
     contest_step hash8 sandbox_ref s (s\<lparr>sysDB := db\<rparr>)"
| update: "UpdateContest (sysNow s) roles ctx contestID req (sysDB s) = Inr (c, db) \<Longrightarrow>
     contest_step hash8 sandbox_ref s (s\<lparr>sysDB := db\<rparr>)"
| problem: "AddProblem_commit roles newID i contestID contest preq snapshot (sysDB s) = Inr (p, db) \<Longrightarrow>
     contest_step hash8 sandbox_ref s (s\<lparr>sysDB := db\<rparr>)"
| transition: "next \<noteq> ContestStatusArchived \<Longrightarrow>
     transition_commit (sysNow s) newID pageSize roles i contestID next requireProblems item problems (sysDB s) = Inr (moved, db) \<Longrightarrow>
     contest_step hash8 sandbox_ref s (s\<lparr>sysDB := db\<rparr>)"
| advance: "AdvanceContestStatusesOnce (sysNow s) pageSize newIDs (sysDB s) = Inr (advanced, db) \<Longrightarrow>
     contest_step hash8 sandbox_ref s (s\<lparr>sysDB := db\<rparr>)"
| signup: "0 < teamID \<Longrightarrow> Signup (sysNow s) teamID memberID newCode ctx contestID teamName (sysDB s) = Inr (team, db) \<Longrightarrow>
     contest_step hash8 sandbox_ref s (s\<lparr>sysDB := db\<rparr>)"
| join: "JoinTeam (sysNow s) memberID ctx contestID code (sysDB s) = Inr (team, db) \<Longrightarrow>
     contest_step hash8 sandbox_ref s (s\<lparr>sysDB := db\<rparr>)"
| lock: "LockTeam ctx teamID (sysDB s) = Inr (team, db) \<Longrightarrow>
     contest_step hash8 sandbox_ref s (s\<lparr>sysDB := db\<rparr>)"
| env_read: "resolveContestEnvContext hash8 ctx contestID problemID requestRef (sysDB s) = Inr env \<Longrightarrow>
     contest_step hash8 sandbox_ref s (s\<lparr>sysEnvs := env # sysEnvs s\<rparr>)"
| env_grants: "env \<in> set (sysEnvs s) \<Longrightarrow> sandbox_ref sandboxID = envSourceRef env \<Longrightarrow>
     CreateEnv_commit (sysNow s) newIDs env sandboxID (envSourceRef env) capabilities (sysDB s) = Inr db \<Longrightarrow>
     contest_step hash8 sandbox_ref s (s\<lparr>sysDB := db\<rparr>)"
| env_recycle: "env \<in> set (sysEnvs s) \<Longrightarrow> recycleFailedContestEnv (sysNow s) env sandboxID (sysDB s) = (revoked, db) \<Longrightarrow>
     contest_step hash8 sandbox_ref s (s\<lparr>sysDB := db\<rparr>)"
| scoring: "solve_step (sysDB s) db \<Longrightarrow> contest_step hash8 sandbox_ref s (s\<lparr>sysDB := db\<rparr>)"

definition empty_store :: contest_store where
  "empty_store = \<lparr>dbContests = [], dbProblems = [], dbTeams = [], dbMembers = [], dbGrants = [], dbSubmissions = [],
     dbLadder = [], dbSnapshots = [], dbCheats = []\<rparr>"

definition contest_started :: "contest_system \<Rightarrow> bool" where
  "contest_started s \<longleftrightarrow> sysDB s = empty_store \<and> sysEnvs s = []"

subsection \<open>What holds in every reachable state\<close>

definition contest_ok :: "int \<Rightarrow> Contest \<Rightarrow> bool" where
  "contest_ok now c \<longleftrightarrow>
     ctSignupStart c < ctSignupEnd c \<and> ctSignupEnd c \<le> ctStartAt c \<and> ctStartAt c < ctEndAt c \<and> 0 \<le> ctFreezeMinutes c \<and>
     1 \<le> ctStatus c \<and> ctStatus c \<le> 6 \<and>
     (ctStatus c \<in> {3, 4} \<longrightarrow> ctStartAt c \<le> now) \<and> (ctStatus c \<in> {5, 6} \<longrightarrow> ctEndAt c \<le> now)"

definition contests_ok :: "int \<Rightarrow> contest_store \<Rightarrow> bool" where
  "contests_ok now db \<longleftrightarrow> distinct (map ctID (dbContests db)) \<and> (\<forall>c \<in> set (dbContests db). contest_ok now c)"

definition has_member :: "contest_store \<Rightarrow> Team \<Rightarrow> int \<Rightarrow> int \<Rightarrow> bool" where
  "has_member db t memberTenantID accountID \<longleftrightarrow>
     (\<exists>m \<in> set (dbMembers db). tmTenantID m = teTenantID t \<and> tmTeamID m = teID t \<and> is_member memberTenantID accountID m)"

text \<open>Team identifiers are positive and unique, members belong to a team, an account to one team per contest.\<close>

definition teams_ok :: "contest_store \<Rightarrow> bool" where
  "teams_ok db \<longleftrightarrow>
     distinct (map teID (dbTeams db)) \<and> (\<forall>t \<in> set (dbTeams db). 0 < teID t) \<and>
     (\<forall>m \<in> set (dbMembers db). \<exists>t \<in> set (dbTeams db). teID t = tmTeamID m \<and> teTenantID t = tmTenantID m) \<and>
     (\<forall>t \<in> set (dbTeams db). \<forall>u \<in> set (dbTeams db). \<forall>mt a.
        teTenantID t = teTenantID u \<longrightarrow> teContestID t = teContestID u \<longrightarrow> has_member db t mt a \<longrightarrow> has_member db u mt a \<longrightarrow> teID t = teID u)"

text \<open>A team and a begun contest of the same tenant, as a grant or an environment names them.\<close>

definition placed :: "contest_store \<Rightarrow> int \<Rightarrow> int \<Rightarrow> int \<Rightarrow> int \<Rightarrow> bool" where
  "placed db tenantID contestID teamID endAt \<longleftrightarrow>
     (\<exists>c \<in> set (dbContests db). ctTenantID c = tenantID \<and> ctID c = contestID \<and> 3 \<le> ctStatus c \<and> ctEndAt c = endAt) \<and>
     (\<exists>t \<in> set (dbTeams db). teTenantID t = tenantID \<and> teID t = teamID \<and> teContestID t = contestID)"

definition seated :: "contest_store \<Rightarrow> int \<Rightarrow> int \<Rightarrow> int \<Rightarrow> int \<Rightarrow> bool" where
  "seated db tenantID teamID memberTenantID accountID \<longleftrightarrow>
     (\<exists>m \<in> set (dbMembers db). tmTenantID m = tenantID \<and> tmTeamID m = teamID \<and> is_member memberTenantID accountID m)"

definition env_tail :: "int \<Rightarrow> string \<Rightarrow> string \<Rightarrow> bool" where
  "env_tail teamID digest ref \<longleftrightarrow> (\<exists>pre. ref = pre @ CHR ''-'' # Format teamID @ CHR ''-'' # digest)"

definition grant_ok :: "(int \<Rightarrow> string) \<Rightarrow> contest_store \<Rightarrow> ContestAccessGrant \<Rightarrow> bool" where
  "grant_ok sandbox_ref db g \<longleftrightarrow>
     placed db (cgTenantID g) (cgContestID g) (cgTeamID g) (cgExpiresAt g) \<and>
     seated db (cgTenantID g) (cgTeamID g) (cgMemberTenantID g) (cgMemberAccountID g) \<and>
     (\<exists>digest. CHR ''-'' \<notin> set digest \<and> env_tail (cgTeamID g) digest (sandbox_ref (cgSandboxID g)))"

definition env_ok :: "contest_store \<Rightarrow> contestEnvContext \<Rightarrow> bool" where
  "env_ok db env \<longleftrightarrow>
     placed db (envOrganizerTenantID env) (ctID (envContest env)) (teID (envTeam env)) (ctEndAt (envContest env)) \<and>
     (\<forall>m \<in> set (teMembers (envTeam env)).
        seated db (envOrganizerTenantID env) (teID (envTeam env)) (tmMemberTenantID m) (tmAccountID m)) \<and>
     (\<exists>digest. CHR ''-'' \<notin> set digest \<and> env_tail (teID (envTeam env)) digest (envSourceRef env))"

definition system_ok :: "(int \<Rightarrow> string) \<Rightarrow> contest_system \<Rightarrow> bool" where
  "system_ok sandbox_ref s \<longleftrightarrow>
     contests_ok (sysNow s) (sysDB s) \<and> teams_ok (sysDB s) \<and>
     (\<forall>g \<in> set (dbGrants (sysDB s)). grant_ok sandbox_ref (sysDB s) g) \<and>
     (\<forall>env \<in> set (sysEnvs s). env_ok (sysDB s) env)"

subsection \<open>Changes of rows\<close>

text \<open>
  The abstract specification of a handler's transaction: a sequence of changes of rows, each of which
  keeps what the others rely on. A contest that has begun keeps its end, team and membership rows
  stay, an account enters a team only when it has none in the contest, grants are only revoked. A
  contest that has ended stays ended: archiving it is not among these handlers.
\<close>

inductive row_change :: "int \<Rightarrow> contest_store \<Rightarrow> contest_store \<Rightarrow> bool" for now where
  contest_added: "ctID c \<notin> ctID ` set (dbContests db) \<Longrightarrow> contest_ok now c \<Longrightarrow> ctStatus c \<le> 2 \<Longrightarrow>
     row_change now db (db\<lparr>dbContests := dbContests db @ [c]\<rparr>)"
| contests_changed: "(\<And>c. c \<in> set (dbContests db) \<Longrightarrow> p c \<Longrightarrow> ctID (f c) = ctID c \<and> ctTenantID (f c) = ctTenantID c \<and>
        (contest_ok now c \<longrightarrow> contest_ok now (f c)) \<and>
        (3 \<le> ctStatus c \<longrightarrow> 3 \<le> ctStatus (f c) \<and> ctEndAt (f c) = ctEndAt c) \<and>
        (5 \<le> ctStatus c \<longrightarrow> ctStatus (f c) = ctStatus c) \<and> (ctStatus c \<le> 4 \<longrightarrow> ctStatus (f c) \<le> 5)) \<Longrightarrow>
     row_change now db (db\<lparr>dbContests := upd_rows p f (dbContests db)\<rparr>)"
| teams_changed: "(\<And>t. teID (f t) = teID t \<and> teTenantID (f t) = teTenantID t \<and> teContestID (f t) = teContestID t) \<Longrightarrow>
     row_change now db (db\<lparr>dbTeams := upd_rows p f (dbTeams db)\<rparr>)"
| team_added: "teID t \<notin> teID ` set (dbTeams db) \<Longrightarrow> 0 < teID t \<Longrightarrow>
     row_change now db (db\<lparr>dbTeams := dbTeams db @ [t]\<rparr>)"
| member_added: "t \<in> set (dbTeams db) \<Longrightarrow> tmTeamID m = teID t \<Longrightarrow> tmTenantID m = teTenantID t \<Longrightarrow>
     (\<And>u. u \<in> set (dbTeams db) \<Longrightarrow> teTenantID u = teTenantID t \<Longrightarrow> teContestID u = teContestID t \<Longrightarrow>
        \<not> has_member db u (tmMemberTenantID m) (tmAccountID m)) \<Longrightarrow>
     row_change now db (db\<lparr>dbMembers := dbMembers db @ [m]\<rparr>)"
| grants_revoked: "row_change now db (db\<lparr>dbGrants := upd_rows p (revoke_row now) (dbGrants db)\<rparr>)"
| other_rows: "dbContests db' = dbContests db \<Longrightarrow> dbTeams db' = dbTeams db \<Longrightarrow> dbMembers db' = dbMembers db \<Longrightarrow>
     dbGrants db' = dbGrants db \<Longrightarrow> row_change now db db'"

lemma row_change_contests:
  assumes "row_change now db db'" and "contests_ok now db"
  shows "contests_ok now db'"
  using assms
proof cases
  case (contests_changed p f)
  have "map ctID (upd_rows p f (dbContests db)) = map ctID (dbContests db)"
    using contests_changed(2) by (auto simp: upd_rows_def)
  moreover have "contest_ok now c" if "c \<in> set (upd_rows p f (dbContests db))" for c
    using upd_rows_set [OF that] contests_changed(2) assms(2) by (auto simp: contests_ok_def)
  ultimately show ?thesis using assms(2) contests_changed(1) by (simp add: contests_ok_def)
qed (auto simp: contests_ok_def)

lemma teams_map:
  assumes "\<And>t. teID (f t) = teID t \<and> teTenantID (f t) = teTenantID t \<and> teContestID (f t) = teContestID t"
  shows "map teID (upd_rows p f ts) = map teID ts"
    and "t \<in> set (upd_rows p f ts) \<Longrightarrow> \<exists>u \<in> set ts. teID u = teID t \<and> teTenantID u = teTenantID t \<and> teContestID u = teContestID t"
    and "u \<in> set ts \<Longrightarrow> \<exists>t \<in> set (upd_rows p f ts). teID t = teID u \<and> teTenantID t = teTenantID u \<and> teContestID t = teContestID u"
  using assms by (auto simp: upd_rows_def)

lemma has_member_rows: "dbMembers db' = dbMembers db \<Longrightarrow> has_member db' = has_member db"
  by (intro ext) (simp add: has_member_def)

lemma has_member_team: "teTenantID t = teTenantID u \<Longrightarrow> teID t = teID u \<Longrightarrow> has_member db t = has_member db u"
  by (intro ext) (simp add: has_member_def)

lemma row_change_teams:
  assumes "row_change now db db'" and "teams_ok db"
  shows "teams_ok db'"
  using assms(1)
proof cases
  case (teams_changed f p)
  note tm = teams_map [of f, OF teams_changed(2)]
  have hm: "has_member db' = has_member db" by (rule has_member_rows) (simp add: teams_changed(1))
  have "\<exists>t \<in> set (dbTeams db'). teID t = tmTeamID m \<and> teTenantID t = tmTenantID m" if m: "m \<in> set (dbMembers db')" for m
  proof -
    obtain u where u: "u \<in> set (dbTeams db)" "teID u = tmTeamID m" "teTenantID u = tmTenantID m"
      using m assms(2) teams_changed(1) by (auto simp: teams_ok_def)
    from tm(3) [OF u(1), of p] u show ?thesis unfolding teams_changed(1) by auto
  qed
  moreover have "teID t = teID u"
    if tu: "t \<in> set (dbTeams db')" "u \<in> set (dbTeams db')" "teTenantID t = teTenantID u" "teContestID t = teContestID u"
      "has_member db' t mt a" "has_member db' u mt a" for t u mt a
  proof -
    obtain t0 u0 where 0: "t0 \<in> set (dbTeams db)" "teID t0 = teID t" "teTenantID t0 = teTenantID t" "teContestID t0 = teContestID t"
        "u0 \<in> set (dbTeams db)" "teID u0 = teID u" "teTenantID u0 = teTenantID u" "teContestID u0 = teContestID u"
      using tm(2) [of t p "dbTeams db"] tm(2) [of u p "dbTeams db"] tu(1,2) teams_changed(1) by auto
    then have "has_member db t0 mt a" "has_member db u0 mt a" using tu(5,6) hm has_member_team by metis+
    with 0 tu(3,4) assms(2) show ?thesis unfolding teams_ok_def by metis
  qed
  moreover have "\<forall>t \<in> set (dbTeams db'). 0 < teID t"
    using tm(2) [of _ p "dbTeams db"] assms(2) teams_changed(1) by (fastforce simp: teams_ok_def)
  moreover have "distinct (map teID (dbTeams db'))" using tm(1) [of p "dbTeams db"] assms(2) teams_changed(1)
    by (simp add: teams_ok_def)
  ultimately show ?thesis unfolding teams_ok_def by blast
next
  case (team_added t)
  have none: "\<not> has_member db t mt a" for mt a
    using team_added(2) assms(2) unfolding has_member_def teams_ok_def by (metis image_eqI)
  have hm: "has_member db' = has_member db" by (rule has_member_rows) (simp add: team_added(1))
  have rows: "dbTeams db' = dbTeams db @ [t]" "dbMembers db' = dbMembers db" using team_added(1) by simp_all
  have "teID x = teID y"
    if xy: "x \<in> set (dbTeams db')" "y \<in> set (dbTeams db')" "teTenantID x = teTenantID y" "teContestID x = teContestID y"
      "has_member db x mt a" "has_member db y mt a" for x y mt a
  proof -
    have "x \<in> set (dbTeams db)" "y \<in> set (dbTeams db)" using xy none rows by auto
    with xy(3-6) assms(2) show ?thesis unfolding teams_ok_def by blast
  qed
  moreover have "\<forall>n \<in> set (dbMembers db'). \<exists>t \<in> set (dbTeams db'). teID t = tmTeamID n \<and> teTenantID t = tmTenantID n"
    using assms(2) unfolding rows teams_ok_def by auto
  moreover have "distinct (map teID (dbTeams db'))" "\<forall>t \<in> set (dbTeams db'). 0 < teID t"
    using assms(2) team_added(2,3) by (auto simp: rows teams_ok_def)
  ultimately show ?thesis unfolding teams_ok_def hm by blast
next
  case (member_added t m)
  have hm: "has_member db' u mt a \<longleftrightarrow> has_member db u mt a
      \<or> (teTenantID u = teTenantID t \<and> teID u = teID t \<and> is_member mt a m)" for u mt a
    using member_added(1,3,4) by (auto simp: has_member_def)
  have "teID x = teID y"
    if xy: "x \<in> set (dbTeams db)" "y \<in> set (dbTeams db)" "teTenantID x = teTenantID y" "teContestID x = teContestID y"
      "has_member db' x mt a" "has_member db' y mt a" for x y mt a
  proof -
    have same: "u = t" if "u \<in> set (dbTeams db)" "teID u = teID t" for u
      using that member_added(2) assms(2) by (auto simp: teams_ok_def distinct_map inj_on_def)
    have no: "\<not> has_member db u mt a"
      if "is_member mt a m" "u \<in> set (dbTeams db)" "teTenantID u = teTenantID t" "teContestID u = teContestID t" for u
      using member_added(5) [OF that(2-4)] that(1) by (simp add: is_member_def)
    show ?thesis
    proof (cases "is_member mt a m \<and> (teID x = teID t \<or> teID y = teID t)")
      case True
      then have "x = t \<or> y = t" using same xy(1,2) by blast
      then have "\<not> has_member db x mt a" "\<not> has_member db y mt a" using no True xy(1-4) by metis+
      then show ?thesis using xy(5,6) hm by simp
    next
      case False
      then have "has_member db x mt a" "has_member db y mt a" using xy(5,6) hm by blast+
      then show ?thesis using xy(1-4) assms(2) unfolding teams_ok_def by blast
    qed
  qed
  moreover have "\<forall>n \<in> set (dbMembers db'). \<exists>t \<in> set (dbTeams db'). teID t = tmTeamID n \<and> teTenantID t = tmTenantID n"
  proof
    fix n assume "n \<in> set (dbMembers db')"
    then consider "n = m" | "n \<in> set (dbMembers db)" using member_added(1) by auto
    then show "\<exists>t \<in> set (dbTeams db'). teID t = tmTeamID n \<and> teTenantID t = tmTenantID n"
    proof cases
      case 1
      have "t \<in> set (dbTeams db')" using member_added(1,2) by simp
      then show ?thesis using 1 member_added(3,4) by (intro bexI [of _ t]) simp_all
    next
      case 2
      then show ?thesis using assms(2) unfolding teams_ok_def member_added(1) by simp
    qed
  qed
  moreover have rows: "dbTeams db' = dbTeams db" using member_added(1) by simp
  ultimately show ?thesis using assms(2) unfolding teams_ok_def rows by blast
qed (use assms(2) in \<open>simp_all add: teams_ok_def has_member_def\<close>)

lemma row_change_placed:
  assumes "row_change now db db'" and "placed db t c te e"
  shows "placed db' t c te e"
proof -
  obtain k u where k: "k \<in> set (dbContests db)" "ctTenantID k = t" "ctID k = c" "3 \<le> ctStatus k" "ctEndAt k = e"
    and u: "u \<in> set (dbTeams db)" "teTenantID u = t" "teID u = te" "teContestID u = c"
    using assms(2) by (auto simp: placed_def)
  have "\<exists>k \<in> set (dbContests db'). ctTenantID k = t \<and> ctID k = c \<and> 3 \<le> ctStatus k \<and> ctEndAt k = e"
    using assms(1)
  proof cases
    case (contests_changed p f)
    have "(if p k then f k else k) \<in> set (dbContests db')"
      using upd_rows_mem [OF k(1), of p f] contests_changed(1) by simp
    then show ?thesis using contests_changed(2) [OF k(1)] k by (intro bexI) auto
  qed (use k in auto)
  moreover have "\<exists>u \<in> set (dbTeams db'). teTenantID u = t \<and> teID u = te \<and> teContestID u = c"
    using assms(1)
  proof cases
    case (teams_changed f p)
    have "(if p u then f u else u) \<in> set (dbTeams db')"
      using upd_rows_mem [OF u(1), of p f] teams_changed(1) by simp
    then show ?thesis using teams_changed(2) [of u] u by (intro bexI) auto
  qed (use u in auto)
  ultimately show ?thesis by (simp add: placed_def)
qed

lemma row_change_seated: "row_change now db db' \<Longrightarrow> seated db t te mt a \<Longrightarrow> seated db' t te mt a"
  by (erule row_change.cases) (auto simp: seated_def)

definition same_grant :: "ContestAccessGrant \<Rightarrow> ContestAccessGrant \<Rightarrow> bool" where
  "same_grant g h \<longleftrightarrow> cgTenantID g = cgTenantID h \<and> cgContestID g = cgContestID h \<and> cgTeamID g = cgTeamID h
     \<and> cgSandboxID g = cgSandboxID h \<and> cgMemberTenantID g = cgMemberTenantID h
     \<and> cgMemberAccountID g = cgMemberAccountID h \<and> cgExpiresAt g = cgExpiresAt h"

lemma row_change_grants:
  "row_change now db db' \<Longrightarrow> g \<in> set (dbGrants db') \<Longrightarrow> \<exists>h \<in> set (dbGrants db). same_grant g h"
  by (erule row_change.cases) (auto simp: same_grant_def revoke_row_def dest!: upd_rows_set split: if_splits)

abbreviation row_changes :: "int \<Rightarrow> contest_store \<Rightarrow> contest_store \<Rightarrow> bool" where
  "row_changes now \<equiv> (row_change now)\<^sup>*\<^sup>*"

lemma row_changes_system:
  assumes "row_changes (sysNow s) (sysDB s) db" and "system_ok sandbox_ref s"
  shows "system_ok sandbox_ref (s\<lparr>sysDB := db\<rparr>)"
  using assms(1)
proof (induction rule: rtranclp_induct)
  case base
  then show ?case using assms(2) by simp
next
  case (step d e)
  have g: "grant_ok sandbox_ref e g" if "g \<in> set (dbGrants e)" for g
  proof -
    obtain h where h: "h \<in> set (dbGrants d)" "same_grant g h" using row_change_grants [OF step(2) \<open>g \<in> set (dbGrants e)\<close>] by blast
    then have "grant_ok sandbox_ref d h" using step(3) by (simp add: system_ok_def)
    then show ?thesis using h(2) row_change_placed [OF step(2)] row_change_seated [OF step(2)]
      by (simp add: grant_ok_def same_grant_def)
  qed
  have "env_ok e env" if "env \<in> set (sysEnvs s)" for env
    using that step(3) row_change_placed [OF step(2)] row_change_seated [OF step(2)]
    by (auto simp: system_ok_def env_ok_def)
  then show ?case using step(3) g row_change_contests [OF step(2)] row_change_teams [OF step(2)]
    by (simp add: system_ok_def)
qed

subsection \<open>Every handler is such a sequence\<close>

lemma rows_step: "row_change now db db' \<Longrightarrow> row_changes now db db'"
  by (rule r_into_rtranclp)

lemma CreateContest_rows:
  assumes "CreateContest now newID ctx req db = Inr (c, db')"
  shows "row_changes now db db'"
proof -
  obtain i q where q: "validateContestRequest req = Inr q" and ins: "insertContest now db (contest_of i newID q) = Inr (c, db')"
    using assms by (auto simp: CreateContest_def bindR_Inr)
  have c: "ctID c \<notin> ctID ` set (dbContests db)" "db' = db\<lparr>dbContests := dbContests db @ [c]\<rparr>"
      "c = (contest_of i newID q)\<lparr>ctStatus := 1, ctCreatedAt := now, ctUpdatedAt := now\<rparr>"
    using ins by (auto simp: insertContest_def Let_def split: if_splits)
  have "contest_ok now c"
    using q unfolding validateContestRequest_Inr by (auto simp: c(3) contest_ok_def contest_of_def)
  moreover have "ctStatus c \<le> 2" by (simp add: c(3))
  ultimately show ?thesis using c(1,2) by (auto intro!: rows_step contest_added)
qed

lemma UpdateContest_rows:
  assumes "UpdateContest now roles ctx contestID req db = Inr (c, db')"
  shows "row_changes now db db'"
proof -
  obtain q item where q: "validateContestRequest req = Inr q" and up: "updateContestRow now db item = Inr (c, db')"
    and item: "ctSignupStart item = cqSignupStart q" "ctSignupEnd item = cqSignupEnd q" "ctStartAt item = cqStartAt q"
      "ctEndAt item = cqEndAt q" "ctFreezeMinutes item = cqFreezeMinutes q"
    using assms by (auto simp: UpdateContest_def bindR_Inr)
  let ?p = "\<lambda>c. contest_key (ctTenantID item) (ctID item) c \<and> ctStatus c \<in> {1, 2}"
  have db': "db' = db\<lparr>dbContests := upd_rows ?p (contest_fields item now) (dbContests db)\<rparr>"
    using up by (auto simp: updateContestRow_def Let_def split: option.splits)
  have w: "cqSignupStart q < cqSignupEnd q \<and> cqSignupEnd q \<le> cqStartAt q \<and> cqStartAt q < cqEndAt q \<and> 0 \<le> cqFreezeMinutes q"
    using q unfolding validateContestRequest_Inr by auto
  have f: "contest_ok now k \<Longrightarrow> contest_ok now (contest_fields item now k)" if "ctStatus k \<in> {1, 2}" for k
    using that w by (auto simp: contest_ok_def contest_fields_def item)
  have "row_change now db (db\<lparr>dbContests := upd_rows ?p (contest_fields item now) (dbContests db)\<rparr>)"
  proof (rule contests_changed)
    fix k assume "?p k"
    then show "ctID (contest_fields item now k) = ctID k \<and> ctTenantID (contest_fields item now k) = ctTenantID k \<and>
        (contest_ok now k \<longrightarrow> contest_ok now (contest_fields item now k)) \<and>
        (3 \<le> ctStatus k \<longrightarrow> 3 \<le> ctStatus (contest_fields item now k) \<and> ctEndAt (contest_fields item now k) = ctEndAt k) \<and>
        (5 \<le> ctStatus k \<longrightarrow> ctStatus (contest_fields item now k) = ctStatus k) \<and>
        (ctStatus k \<le> 4 \<longrightarrow> ctStatus (contest_fields item now k) \<le> 5)"
      using f [of k] by (auto simp: contest_fields_def)
  qed
  then show ?thesis unfolding db' by (rule rows_step)
qed

lemma SetContestStatus_rows:
  assumes "SetContestStatus now db t i next = Inr (c, db')"
    and "\<And>k. k \<in> set (dbContests db) \<Longrightarrow> contest_key t i k \<Longrightarrow>
      (contest_ok now k \<longrightarrow> contest_ok now (set_status next now k)) \<and> (3 \<le> ctStatus k \<longrightarrow> 3 \<le> next) \<and>
      ctStatus k \<le> 4 \<and> next \<le> 5"
  shows "row_change now db db'"
proof -
  have db': "db' = db\<lparr>dbContests := upd_rows (contest_key t i) (set_status next now) (dbContests db)\<rparr>"
    using assms(1) by (auto simp: SetContestStatus_def split: option.splits)
  show ?thesis unfolding db'
  proof (rule contests_changed)
    fix k assume "k \<in> set (dbContests db)" and "contest_key t i k"
    from assms(2) [OF this] show "ctID (set_status next now k) = ctID k \<and> ctTenantID (set_status next now k) = ctTenantID k \<and>
        (contest_ok now k \<longrightarrow> contest_ok now (set_status next now k)) \<and>
        (3 \<le> ctStatus k \<longrightarrow> 3 \<le> ctStatus (set_status next now k) \<and> ctEndAt (set_status next now k) = ctEndAt k) \<and>
        (5 \<le> ctStatus k \<longrightarrow> ctStatus (set_status next now k) = ctStatus k) \<and>
        (ctStatus k \<le> 4 \<longrightarrow> ctStatus (set_status next now k) \<le> 5)"
      by (simp add: set_status_def)
  qed
qed

lemma LockContestTeams_rows: "row_change now db (LockContestTeams db t c)"
  unfolding LockContestTeams_def by (rule teams_changed) (simp add: lock_row_def)

lemma Revoke_rows: "row_change now db (RevokeContestAccessGrantsForSandbox now db t sb)"
  unfolding RevokeContestAccessGrantsForSandbox_def by (rule grants_revoked)

lemma revoke_all:
  assumes "revokeContestSandboxGrants now db t c = (gs, db')"
  shows "row_changes now db db' \<and> dbContests db' = dbContests db"
proof -
  have "row_changes now d (foldl (\<lambda>db sb. RevokeContestAccessGrantsForSandbox now db t sb) d sbs) \<and>
      dbContests (foldl (\<lambda>db sb. RevokeContestAccessGrantsForSandbox now db t sb) d sbs) = dbContests d" for d sbs
  proof (induction sbs arbitrary: d)
    case (Cons sb sbs)
    have "dbContests (RevokeContestAccessGrantsForSandbox now d t sb) = dbContests d"
      by (simp add: RevokeContestAccessGrantsForSandbox_def)
    with Cons.IH [of "RevokeContestAccessGrantsForSandbox now d t sb"] show ?case
      using Revoke_rows [of now d t sb] by (auto intro: converse_rtranclp_into_rtranclp)
  qed simp
  then show ?thesis using assms by (auto simp: revokeContestSandboxGrants_def Let_def)
qed

lemma saveLadderSnapshot_rows:
  assumes "saveLadderSnapshot now newID db t c st ranks = Inr db'"
  shows "row_change now db db' \<and> dbContests db' = dbContests db"
proof -
  have "dbContests db' = dbContests db \<and> dbTeams db' = dbTeams db \<and> dbMembers db' = dbMembers db \<and> dbGrants db' = dbGrants db"
    using assms by (auto simp: saveLadderSnapshot_def UpsertLadderSnapshot_def split: if_splits)
  then show ?thesis by (auto intro: other_rows)
qed

lemma AddProblem_rows:
  assumes "AddProblem_commit roles newID i contestID contest req snapshot db = Inr (p, db')"
  shows "row_changes now db db'"
proof -
  have "dbContests db' = dbContests db \<and> dbTeams db' = dbTeams db \<and> dbMembers db' = dbMembers db \<and> dbGrants db' = dbGrants db"
    using assms by (auto simp: AddProblem_commit_def UpsertContestProblem_def bindR_Inr thenR_Inr split: option.splits if_splits)
  then show ?thesis by (auto intro!: rows_step other_rows)
qed

lemma GetContest_row:
  assumes "GetContest db t i = Inr c" and "contests_ok now db"
  shows "c \<in> set (dbContests db) \<and> ctTenantID c = t \<and> ctID c = i
    \<and> (\<forall>k \<in> set (dbContests db). contest_key t i k \<longrightarrow> k = c)"
proof -
  have c: "c \<in> set (dbContests db)" "contest_key t i c"
    using assms(1) by (auto simp: GetContest_def one_row_Inr dest: find_SomeD)
  then show ?thesis using assms(2) by (auto simp: contests_ok_def contest_key_def distinct_map inj_on_def)
qed

lemma manage_row:
  "lockContestForManage roles db t a i = Inr c \<Longrightarrow> GetContest db t i = Inr c"
  "loadContestForManage roles db t a i = Inr c \<Longrightarrow> GetContest db t i = Inr c"
  by (auto simp: lockContestForManage_def loadContestForManage_def bindR_Inr thenR_Inr)

lemma window_status:
  assumes "validateContestTransitionWindow c next now = Inr ()" and "next \<noteq> ContestStatusArchived"
  shows "(contest_ok now c \<longrightarrow> contest_ok now (set_status next now c)) \<and> (3 \<le> ctStatus c \<longrightarrow> 3 \<le> next) \<and>
    ctStatus c \<le> 4 \<and> next \<le> 5"
  using assms unfolding window_Inr validateContestTransition_Inr
  by (auto simp: contest_ok_def set_status_def transition_window_def failIf_Inr contest_status_defs split: if_splits)

lemma enter_status_rows:
  assumes "enter_status now newID pageSize t c next db = Inr (gs, db')"
  shows "row_changes now db db' \<and> dbContests db' = dbContests db"
proof -
  define db1 where "db1 = (if next = ContestStatusRunning then LockContestTeams db t c else db)"
  have 1: "row_changes now db db1" "dbContests db1 = dbContests db"
    using LockContestTeams_rows [of now db t c] by (auto simp: db1_def LockContestTeams_def intro: rows_step)
  obtain db2 where snap: "(if next = ContestStatusFrozen
                then bindR (listAllContestLadder pageSize db1 t c) (\<lambda>ranks.
                       saveLadderSnapshot now newID db1 t c ContestStatusFrozen ranks)
                else Inr db1) = Inr db2"
    and rev: "(if next = ContestStatusEnded then revokeContestSandboxGrants now db2 t c else ([], db2)) = (gs, db')"
    using assms unfolding enter_status_def db1_def Let_def bindR_Inr [of _ "\<lambda>db. Inr (_ db)"] by blast
  have 2: "row_changes now db1 db2" "dbContests db2 = dbContests db1"
    using snap by (auto simp: bindR_Inr intro: rows_step dest: saveLadderSnapshot_rows split: if_splits)
  have 3: "row_changes now db2 db'" "dbContests db' = dbContests db2"
    using rev by (auto dest: revoke_all split: if_splits)
  show ?thesis using 1 2 3 by (auto intro: rtranclp_trans)
qed

lemma transition_rows:
  assumes "transition_commit now newID pageSize roles i contestID next req item problems db = Inr (r, db')"
    and "contests_ok now db" and "next \<noteq> ContestStatusArchived"
  shows "row_changes now db db'"
proof -
  obtain current gs db3 c where
      cur: "lockContestForManage roles db (idTenantID i) (idAccountID i) contestID = Inr current"
      "validateContestTransitionWindow current next now = Inr ()"
    and enter: "enter_status now newID pageSize (idTenantID i) contestID next db = Inr (gs, db3)"
    and set: "SetContestStatus now db3 (idTenantID i) contestID next = Inr (c, db')"
    using assms(1) unfolding transition_commit_def by (auto simp: bindR_Inr thenR_Inr)
  note row = GetContest_row [OF manage_row(1) [OF cur(1)] assms(2)]
  note db3 = enter_status_rows [OF enter]
  have "row_change now db3 db'"
    by (rule SetContestStatus_rows [OF set]) (use row window_status [OF cur(2) assms(3)] db3 in auto)
  with db3 show ?thesis by (meson rtranclp.rtrancl_into_rtrancl)
qed

text \<open>The scan: the contests of a list are handled one by one, each while its row is still the listed one.\<close>

lemma scan_rows:
  assumes step: "\<And>st c st'. due st c = Inr st' \<Longrightarrow> c \<in> set (dbContests (snd st)) \<Longrightarrow> P c \<Longrightarrow> contests_ok now (snd st) \<Longrightarrow>
      row_changes now (snd st) (snd st') \<and> (\<forall>d \<in> set (dbContests (snd st)). ctID d \<noteq> ctID c \<longrightarrow> d \<in> set (dbContests (snd st')))"
    and keep: "\<And>st c st'. due st c = Inr st' \<Longrightarrow> c \<in> set (dbContests (snd st)) \<Longrightarrow> P c \<Longrightarrow> contests_ok now (snd st) \<Longrightarrow>
      J (snd st) \<Longrightarrow> J (snd st')"
    and "foldR due st cs = Inr st'" and "distinct (map ctID cs)"
    and "\<And>c. c \<in> set cs \<Longrightarrow> c \<in> set (dbContests (snd st)) \<and> P c" and "contests_ok now (snd st)"
    and "J (snd st)"
  shows "row_changes now (snd st) (snd st') \<and> contests_ok now (snd st') \<and> J (snd st')"
  using assms(3-7)
proof (induction cs arbitrary: st)
  case (Cons c cs)
  then obtain st1 where st1: "due st c = Inr st1" "foldR due st1 cs = Inr st'" by (auto simp: bindR_Inr)
  have s: "row_changes now (snd st) (snd st1)"
      "\<forall>d \<in> set (dbContests (snd st)). ctID d \<noteq> ctID c \<longrightarrow> d \<in> set (dbContests (snd st1))"
    using step [OF st1(1)] Cons.prems(3,4) by auto
  have ok: "contests_ok now (snd st1)"
    using s(1) Cons.prems(4) by (induction rule: rtranclp_induct) (auto intro: row_change_contests)
  have j: "J (snd st1)" using keep [OF st1(1)] Cons.prems(3-5) by auto
  have "row_changes now (snd st1) (snd st') \<and> contests_ok now (snd st') \<and> J (snd st')"
    by (rule Cons.IH [OF st1(2)]) (use Cons.prems(2,3) s(2) ok j in \<open>auto simp: image_iff\<close>)
  then show ?case using s(1) by (meson rtranclp_trans)
qed simp

text \<open>What setting the status of a listed contest does.\<close>

lemma due_status:
  assumes "SetContestStatus now db (ctTenantID c) (ctID c) next = Inr (u, db')"
    and "c \<in> set (dbContests db)" and "contests_ok now db"
    and "contest_ok now c \<longrightarrow> contest_ok now (set_status next now c)" and "3 \<le> next \<and> next \<le> 5 \<and> ctStatus c \<le> 4"
  shows "row_change now db db' \<and> (\<forall>d \<in> set (dbContests db). ctID d \<noteq> ctID c \<longrightarrow> d \<in> set (dbContests db'))"
proof -
  have only: "k = c" if "k \<in> set (dbContests db)" "contest_key (ctTenantID c) (ctID c) k" for k
    using that assms(2,3) by (auto simp: contests_ok_def contest_key_def distinct_map inj_on_def)
  have "dbContests db' = upd_rows (contest_key (ctTenantID c) (ctID c)) (set_status next now) (dbContests db)"
    using assms(1) by (auto simp: SetContestStatus_def split: option.splits)
  then have "d \<in> set (dbContests db')" if "d \<in> set (dbContests db)" "ctID d \<noteq> ctID c" for d
    using upd_rows_mem [OF that(1), of "contest_key (ctTenantID c) (ctID c)" "set_status next now"] that(2)
    by (simp add: contest_key_def)
  moreover have "row_change now db db'"
    by (rule SetContestStatus_rows [OF assms(1)]) (use only assms(4,5) in blast)
  ultimately show ?thesis by blast
qed

lemma end_due_rows:
  assumes "end_due now st c = Inr st'" and "c \<in> set (dbContests (snd st))"
    and "ctStatus c \<in> {2, 3, 4} \<and> ctEndAt c \<le> now" and "contests_ok now (snd st)"
  shows "row_changes now (snd st) (snd st') \<and>
    (\<forall>d \<in> set (dbContests (snd st)). ctID d \<noteq> ctID c \<longrightarrow> d \<in> set (dbContests (snd st')))"
proof -
  obtain gs db1 u db2 where 1: "revokeContestSandboxGrants now (snd st) (ctTenantID c) (ctID c) = (gs, db1)"
    and 2: "SetContestStatus now db1 (ctTenantID c) (ctID c) ContestStatusEnded = Inr (u, db2)" and "snd st' = db2"
    using assms(1) by (auto simp: end_due_def Let_def bindR_Inr split: prod.splits)
  note r = revoke_all [OF 1]
  have ok: "contests_ok now db1" "c \<in> set (dbContests db1)" using r assms(2,4) by (simp_all add: contests_ok_def)
  have "contest_ok now c \<longrightarrow> contest_ok now (set_status ContestStatusEnded now c)"
    using assms(3) by (auto simp: contest_ok_def set_status_def contest_status_defs)
  then have "row_change now db1 db2 \<and> (\<forall>d \<in> set (dbContests db1). ctID d \<noteq> ctID c \<longrightarrow> d \<in> set (dbContests db2))"
    by (rule due_status [OF 2 ok(2,1)]) (use assms(3) in \<open>auto simp: contest_status_defs\<close>)
  then show ?thesis using r \<open>snd st' = db2\<close> by (auto intro: rtranclp.rtrancl_into_rtrancl)
qed

lemma run_due_rows:
  assumes "run_due now st c = Inr st'" and "c \<in> set (dbContests (snd st))"
    and "ctStatus c = 2 \<and> ctStartAt c \<le> now \<and> now < ctEndAt c" and "contests_ok now (snd st)"
  shows "row_changes now (snd st) (snd st') \<and>
    (\<forall>d \<in> set (dbContests (snd st)). ctID d \<noteq> ctID c \<longrightarrow> d \<in> set (dbContests (snd st')))"
proof -
  define db1 where "db1 = LockContestTeams (snd st) (ctTenantID c) (ctID c)"
  obtain u db2 where 2: "SetContestStatus now db1 (ctTenantID c) (ctID c) ContestStatusRunning = Inr (u, db2)" and "snd st' = db2"
    using assms(1) by (auto simp: run_due_def Let_def bindR_Inr db1_def split: prod.splits)
  have r: "row_change now (snd st) db1" "dbContests db1 = dbContests (snd st)"
    using LockContestTeams_rows [of now "snd st"] by (auto simp: db1_def LockContestTeams_def)
  have ok: "contests_ok now db1" "c \<in> set (dbContests db1)" using r assms(2,4) by (simp_all add: contests_ok_def)
  have "contest_ok now c \<longrightarrow> contest_ok now (set_status ContestStatusRunning now c)"
    using assms(3) by (auto simp: contest_ok_def set_status_def contest_status_defs)
  then have "row_change now db1 db2 \<and> (\<forall>d \<in> set (dbContests db1). ctID d \<noteq> ctID c \<longrightarrow> d \<in> set (dbContests db2))"
    by (rule due_status [OF 2 ok(2,1)]) (use assms(3) in \<open>auto simp: contest_status_defs\<close>)
  then show ?thesis using r \<open>snd st' = db2\<close> by (auto intro: converse_rtranclp_into_rtranclp)
qed

lemma freeze_due_rows:
  assumes "freeze_due now pageSize newID st c = Inr st'" and "c \<in> set (dbContests (snd st))"
    and "ctStatus c = 3" and "contests_ok now (snd st)"
  shows "row_changes now (snd st) (snd st') \<and>
    (\<forall>d \<in> set (dbContests (snd st)). ctID d \<noteq> ctID c \<longrightarrow> d \<in> set (dbContests (snd st')))"
proof -
  obtain ranks db1 u db2 where 1: "saveLadderSnapshot now (newID c) (snd st) (ctTenantID c) (ctID c) ContestStatusFrozen ranks = Inr db1"
    and 2: "SetContestStatus now db1 (ctTenantID c) (ctID c) ContestStatusFrozen = Inr (u, db2)" and "snd st' = db2"
    using assms(1) by (auto simp: freeze_due_def Let_def bindR_Inr split: prod.splits)
  note r = saveLadderSnapshot_rows [OF 1]
  have ok: "contests_ok now db1" "c \<in> set (dbContests db1)" using r assms(2,4) by (simp_all add: contests_ok_def)
  have "contest_ok now c \<longrightarrow> contest_ok now (set_status ContestStatusFrozen now c)"
    using assms(3) by (auto simp: contest_ok_def set_status_def contest_status_defs)
  then have "row_change now db1 db2 \<and> (\<forall>d \<in> set (dbContests db1). ctID d \<noteq> ctID c \<longrightarrow> d \<in> set (dbContests db2))"
    by (rule due_status [OF 2 ok(2,1)]) (use assms(3) in \<open>auto simp: contest_status_defs\<close>)
  then show ?thesis using r \<open>snd st' = db2\<close> by (auto intro: converse_rtranclp_into_rtranclp)
qed

lemma distinct_sorted_ids: "distinct (map f xs) \<Longrightarrow> distinct (map f (sort_key k (filter p xs)))"
  by (simp add: distinct_map inj_on_def)

definition overdue :: "int \<Rightarrow> Contest \<Rightarrow> bool" where
  "overdue now c \<longleftrightarrow> ctEndAt c \<le> now \<and> ctStatus c \<in> {2, 3, 4}"

lemma SetContestStatus_mem:
  assumes "SetContestStatus now db t i next = Inr (u, db')" and "k \<in> set (dbContests db')"
  shows "k \<in> set (dbContests db) \<and> \<not> contest_key t i k \<or> (\<exists>c \<in> set (dbContests db). contest_key t i c \<and> k = set_status next now c)"
proof -
  have "dbContests db' = upd_rows (contest_key t i) (set_status next now) (dbContests db)"
    using assms(1) by (auto simp: SetContestStatus_def split: option.splits)
  then show ?thesis using upd_rows_set [of k "contest_key t i" "set_status next now" "dbContests db"] assms(2)
    by (auto split: if_splits)
qed

lemma end_loop:
  assumes "foldR (end_due now) st cs = Inr st'" and "k \<in> set (dbContests (snd st'))" and "overdue now k"
  shows "k \<in> set (dbContests (snd st)) \<and> (\<forall>c \<in> set cs. \<not> contest_key (ctTenantID c) (ctID c) k)"
  using assms
proof (induction cs arbitrary: st)
  case (Cons c cs)
  then obtain st1 where st1: "end_due now st c = Inr st1" "foldR (end_due now) st1 cs = Inr st'" by (auto simp: bindR_Inr)
  obtain gs db1 u where 1: "revokeContestSandboxGrants now (snd st) (ctTenantID c) (ctID c) = (gs, db1)"
    and 2: "SetContestStatus now db1 (ctTenantID c) (ctID c) ContestStatusEnded = Inr (u, snd st1)"
    using st1(1) by (auto simp: end_due_def Let_def bindR_Inr split: prod.splits)
  have "k \<in> set (dbContests (snd st1)) \<and> (\<forall>c \<in> set cs. \<not> contest_key (ctTenantID c) (ctID c) k)"
    using Cons.IH [OF st1(2)] Cons.prems(2,3) by blast
  then show ?case using SetContestStatus_mem [OF 2, of k] revoke_all [OF 1] Cons.prems(3)
    by (auto simp: overdue_def set_status_def contest_status_defs)
qed simp

definition none_overdue :: "int \<Rightarrow> contest_store \<Rightarrow> bool" where
  "none_overdue now db \<longleftrightarrow> (\<forall>k \<in> set (dbContests db). \<not> overdue now k)"

lemma due_not_overdue:
  assumes "SetContestStatus now db1 (ctTenantID c) (ctID c) next = Inr (u, db')" and "dbContests db1 = dbContests db"
    and "c \<in> set (dbContests db)" and "contests_ok now db" and "now < ctEndAt c" and "none_overdue now db"
  shows "none_overdue now db'"
proof -
  have only: "k = c" if "k \<in> set (dbContests db)" "contest_key (ctTenantID c) (ctID c) k" for k
    using that assms(3,4) by (auto simp: contests_ok_def contest_key_def distinct_map inj_on_def)
  have "\<not> overdue now k" if k: "k \<in> set (dbContests db')" for k
  proof -
    from SetContestStatus_mem [OF assms(1) k] assms(2) consider "k \<in> set (dbContests db)"
      | d where "d \<in> set (dbContests db)" "contest_key (ctTenantID c) (ctID c) d" "k = set_status next now d" by auto
    then show ?thesis
    proof cases
      case 1
      then show ?thesis using assms(6) by (simp add: none_overdue_def)
    next
      case 2
      then show ?thesis using only [OF 2(1,2)] assms(5) by (simp add: overdue_def set_status_def)
    qed
  qed
  then show ?thesis by (simp add: none_overdue_def)
qed

lemma run_due_overdue:
  assumes "run_due now st c = Inr st'" and "c \<in> set (dbContests (snd st))" and "now < ctEndAt c"
    and "contests_ok now (snd st)" and "none_overdue now (snd st)"
  shows "none_overdue now (snd st')"
proof -
  obtain u where 2: "SetContestStatus now (LockContestTeams (snd st) (ctTenantID c) (ctID c)) (ctTenantID c) (ctID c)
      ContestStatusRunning = Inr (u, snd st')"
    using assms(1) by (auto simp: run_due_def Let_def bindR_Inr split: prod.splits)
  show ?thesis by (rule due_not_overdue [OF 2 _ assms(2,4,3,5)]) (simp add: LockContestTeams_def)
qed

lemma freeze_due_overdue:
  assumes "freeze_due now pageSize newID st c = Inr st'" and "c \<in> set (dbContests (snd st))" and "now < ctEndAt c"
    and "contests_ok now (snd st)" and "none_overdue now (snd st)"
  shows "none_overdue now (snd st')"
proof -
  obtain ranks db1 u where 1: "saveLadderSnapshot now (newID c) (snd st) (ctTenantID c) (ctID c) ContestStatusFrozen ranks = Inr db1"
    and 2: "SetContestStatus now db1 (ctTenantID c) (ctID c) ContestStatusFrozen = Inr (u, snd st')"
    using assms(1) by (auto simp: freeze_due_def Let_def bindR_Inr split: prod.splits)
  show ?thesis by (rule due_not_overdue [OF 2 _ assms(2,4,3,5)]) (simp add: saveLadderSnapshot_rows [OF 1])
qed

lemma contests_ok_ids: "contests_ok now db \<Longrightarrow> distinct (map ctID (dbContests db))"
  by (simp add: contests_ok_def)

lemma scan_end:
  assumes "foldR (end_due now) st (ListContestsDueToEnd (snd st) now) = Inr st'" and "contests_ok now (snd st)"
  shows "row_changes now (snd st) (snd st') \<and> contests_ok now (snd st')"
proof -
  have "row_changes now (snd st) (snd st') \<and> contests_ok now (snd st') \<and> True"
    by (rule scan_rows [where P = "\<lambda>c. ctStatus c \<in> {2, 3, 4} \<and> ctEndAt c \<le> now" and J = "\<lambda>_. True",
          OF end_due_rows _ assms(1)])
      (use assms(2) contests_ok_ids in \<open>auto simp: ListContestsDueToEnd_def intro: distinct_sorted_ids\<close>)
  then show ?thesis by simp
qed

lemma scan_run:
  assumes "foldR (run_due now) st (ListContestsDueToRun (snd st) now) = Inr st'" and "contests_ok now (snd st)"
    and "none_overdue now (snd st)"
  shows "row_changes now (snd st) (snd st') \<and> contests_ok now (snd st') \<and> none_overdue now (snd st')"
  by (rule scan_rows [where P = "\<lambda>c. ctStatus c = 2 \<and> ctStartAt c \<le> now \<and> now < ctEndAt c" and J = "none_overdue now",
        OF run_due_rows run_due_overdue assms(1)])
    (use assms(2,3) contests_ok_ids in \<open>auto simp: ListContestsDueToRun_def intro: distinct_sorted_ids\<close>)

lemma scan_freeze:
  assumes "foldR (freeze_due now pageSize newIDs) st (ListContestsDueToFreeze (snd st) now) = Inr st'"
    and "contests_ok now (snd st)" and "none_overdue now (snd st)"
  shows "row_changes now (snd st) (snd st') \<and> contests_ok now (snd st') \<and> none_overdue now (snd st')"
  by (rule scan_rows [where P = "\<lambda>c. ctStatus c = 3 \<and> now < ctEndAt c" and J = "none_overdue now",
        OF freeze_due_rows freeze_due_overdue assms(1)])
    (use assms(2,3) contests_ok_ids in \<open>auto simp: ListContestsDueToFreeze_def intro: distinct_sorted_ids\<close>)

lemma scan_all:
  assumes "AdvanceContestStatusesOnce now pageSize newIDs db = Inr (ms, db')" and "contests_ok now db"
  shows "row_changes now db db' \<and> none_overdue now db'"
proof -
  obtain st1 st2 where 1: "foldR (end_due now) ([], db) (ListContestsDueToEnd db now) = Inr st1"
    and 2: "foldR (run_due now) st1 (ListContestsDueToRun (snd st1) now) = Inr st2"
    and 3: "foldR (freeze_due now pageSize newIDs) st2 (ListContestsDueToFreeze (snd st2) now) = Inr (ms, db')"
    using assms(1) by (auto simp: AdvanceContestStatusesOnce_def bindR_Inr)
  have "\<not> overdue now k" if k: "k \<in> set (dbContests (snd st1))" for k
  proof
    assume o: "overdue now k"
    then have "k \<in> set (ListContestsDueToEnd db now)"
      using end_loop [OF 1 k o] by (auto simp: overdue_def ListContestsDueToEnd_def)
    then show False using end_loop [OF 1 k o] by (auto simp: contest_key_def)
  qed
  then have n1: "none_overdue now (snd st1)" by (simp add: none_overdue_def)
  have r1: "row_changes now db (snd st1) \<and> contests_ok now (snd st1)" using scan_end [of now "([], db)"] 1 assms(2) by simp
  have r2: "row_changes now (snd st1) (snd st2) \<and> contests_ok now (snd st2) \<and> none_overdue now (snd st2)"
    using scan_run 2 r1 n1 by blast
  have r3: "row_changes now (snd st2) db' \<and> contests_ok now db' \<and> none_overdue now db'" using scan_freeze [OF 3] r2 by simp
  show ?thesis using r1 r2 r3 by auto
qed

lemma no_team:
  "GetTeamForAccount db t c mt a = None \<Longrightarrow> u \<in> set (dbTeams db) \<Longrightarrow> teTenantID u = t \<Longrightarrow> teContestID u = c \<Longrightarrow> \<not> has_member db u mt a"
  "AccountTeamIDs db t c mt a = [] \<Longrightarrow> u \<in> set (dbTeams db) \<Longrightarrow> teTenantID u = t \<Longrightarrow> teContestID u = c \<Longrightarrow> \<not> has_member db u mt a"
proof -
  have b: "belongs db t c mt a u" if "teTenantID u = t" "teContestID u = c" "has_member db u mt a"
    using that by (auto simp: belongs_def has_member_def list_ex_iff)
  show "GetTeamForAccount db t c mt a = None \<Longrightarrow> u \<in> set (dbTeams db) \<Longrightarrow> teTenantID u = t \<Longrightarrow> teContestID u = c \<Longrightarrow> \<not> has_member db u mt a"
    using b by (auto simp: GetTeamForAccount_def filter_empty_conv split: list.splits dest: arg_cong [of _ _ set])
  show "AccountTeamIDs db t c mt a = [] \<Longrightarrow> u \<in> set (dbTeams db) \<Longrightarrow> teTenantID u = t \<Longrightarrow> teContestID u = c \<Longrightarrow> \<not> has_member db u mt a"
    using b by (auto simp: AccountTeamIDs_def filter_empty_conv)
qed

text \<open>A new member of a team whose account has no team in the contest.\<close>

lemma AddTeamMember_rows:
  assumes "AddTeamMember now db (new_member newID (teTenantID t) (teID t) i leader) = Inr db'" and "t \<in> set (dbTeams db)"
    and "\<And>u. u \<in> set (dbTeams db) \<Longrightarrow> teTenantID u = teTenantID t \<Longrightarrow> teContestID u = teContestID t \<Longrightarrow>
        \<not> has_member db u (idTenantID i) (idAccountID i)"
  shows "row_change now db db'"
proof -
  have "\<not> list_ex (member_key (new_member newID (teTenantID t) (teID t) i leader)) (dbMembers db)"
    using assms(3) [OF assms(2)] by (auto simp: list_ex_iff has_member_def member_key_def new_member_def is_member_def)
  then have "db' = db\<lparr>dbMembers := dbMembers db @ [(new_member newID (teTenantID t) (teID t) i leader)\<lparr>tmJoinedAt := now\<rparr>]\<rparr>"
    using assms(1) by (auto simp: AddTeamMember_def split: if_splits)
  then show ?thesis
    using member_added [OF assms(2), of "(new_member newID (teTenantID t) (teID t) i leader)\<lparr>tmJoinedAt := now\<rparr>" now] assms(3)
    by (simp add: new_member_def)
qed

lemma Signup_rows:
  assumes "Signup now teamID memberID newCode ctx contestID teamName db = Inr (team, db')" and "0 < teamID" and "teams_ok db"
  shows "row_changes now db db'"
proof -
  obtain i org where tx: "Signup_tx now teamID memberID newCode i org contestID teamName db = Inr (team, db')"
    using assms(1) by (auto simp: Signup_def bindR_Inr)
  show ?thesis
  proof (cases "GetTeamForAccount db org contestID (idTenantID i) (idAccountID i)")
    case (Some e)
    then show ?thesis using tx by (auto simp: Signup_tx_def bindR_Inr thenR_Inr)
  next
    case None
    then obtain name code t db1 where
        1: "CreateTeam now db \<lparr>teID = teamID, teTenantID = org, teContestID = contestID, teName = name,
              teInviteCode = code, teStatus = 0, teCreatedAt = 0, teMembers = []\<rparr> = Inr (t, db1)"
      and 2: "AddTeamMember now db1 (new_member memberID org (teID t) i True) = Inr db'"
      using tx unfolding Signup_tx_def Let_def by (auto simp: bindR_Inr thenR_Inr)
    have t: "db1 = db\<lparr>dbTeams := dbTeams db @ [t]\<rparr>" "teID t = teamID" "teTenantID t = org" "teContestID t = contestID"
        "teamID \<notin> teID ` set (dbTeams db)"
      using 1 by (auto simp: CreateTeam_def Let_def split: if_splits)
    have c: "row_change now db db1" using t assms(2) by (auto intro: team_added)
    have none: "\<not> has_member db1 t mt a" for mt a
    proof
      assume "has_member db1 t mt a"
      then obtain m where "m \<in> set (dbMembers db)" "tmTeamID m = teamID" using t(1,2) by (auto simp: has_member_def)
      then show False using assms(3) t(5) unfolding teams_ok_def by (metis image_eqI)
    qed
    have "\<not> has_member db1 u (idTenantID i) (idAccountID i)"
      if "u \<in> set (dbTeams db1)" "teTenantID u = teTenantID t" "teContestID u = teContestID t" for u
    proof (cases "u = t")
      case False
      then have "\<not> has_member db u (idTenantID i) (idAccountID i)" using no_team(1) [OF None] that t by auto
      then show ?thesis using t(1) by (simp add: has_member_def)
    qed (use none in simp)
    then have "row_change now db1 db'" using AddTeamMember_rows [of now db1 memberID t i True db'] 2 t by simp
    then show ?thesis using c by (meson rtranclp.rtrancl_into_rtrancl rows_step)
  qed
qed

lemma JoinTeam_rows:
  assumes "JoinTeam now memberID ctx contestID code db = Inr (team, db')"
  shows "row_changes now db db'"
proof -
  obtain i org t where 1: "AccountTeamIDs db org contestID (idTenantID i) (idAccountID i) = []"
    and 2: "GetTeamByInviteCode db org (ToUpper (TrimSpace code)) = Inr t" "teContestID t = contestID"
    and 3: "AddTeamMember now db (new_member memberID org (teID t) i False) = Inr db'"
    using assms unfolding JoinTeam_def Let_def by (auto simp: bindR_Inr thenR_Inr failIf_Inr split: if_splits)
  have t: "t \<in> set (dbTeams db)" "teTenantID t = org"
    using 2(1) by (auto simp: GetTeamByInviteCode_def one_row_Inr dest: find_SomeD)
  have "row_change now db db'"
    using AddTeamMember_rows [of now db memberID t i False db'] 3 t no_team(2) [OF 1] 2(2) by simp
  then show ?thesis by (rule rows_step)
qed

lemma LockTeam_rows:
  assumes "LockTeam ctx teamID db = Inr (team, db')"
  shows "row_changes now db db'"
proof -
  obtain org t where "LockTeamRow db org teamID = Inr (t, db')"
    using assms unfolding LockTeam_def by (auto simp: bindR_Inr thenR_Inr)
  then have db': "db' = db\<lparr>dbTeams := upd_rows (team_key org teamID) lock_row (dbTeams db)\<rparr>"
    by (auto simp: LockTeamRow_def split: option.splits)
  have "row_change now db db'" unfolding db' by (rule teams_changed) (simp add: lock_row_def)
  then show ?thesis by (rule rows_step)
qed

subsection \<open>Environments\<close>

lemma last_sep:
  assumes "xs @ c # ys = us @ c # vs" and "c \<notin> set ys" and "c \<notin> set vs"
  shows "xs = us \<and> ys = vs"
proof -
  have t: "takeWhile (\<lambda>x. x \<noteq> c) (rev zs @ c # ws) = rev zs" if "c \<notin> set zs" for zs ws
    using that by (subst takeWhile_append2) auto
  have "rev (xs @ c # ys) = rev (us @ c # vs)" by (rule arg_cong [OF assms(1)])
  then have "takeWhile (\<lambda>x. x \<noteq> c) (rev ys @ c # rev xs) = takeWhile (\<lambda>x. x \<noteq> c) (rev vs @ c # rev us)" by simp
  then have "ys = vs" using t assms(2,3) by simp
  then show ?thesis using assms(1) by simp
qed

text \<open>The team of an environment can be read off its source reference.\<close>

lemma env_tail_team:
  assumes "env_tail t d r" and "env_tail u e r" and "CHR ''-'' \<notin> set d" and "CHR ''-'' \<notin> set e" and "0 \<le> t" and "0 \<le> u"
  shows "t = u"
proof -
  obtain p q where "(p @ CHR ''-'' # Format t) @ CHR ''-'' # d = (q @ CHR ''-'' # Format u) @ CHR ''-'' # e"
    using assms(1,2) by (auto simp: env_tail_def)
  then have "p @ CHR ''-'' # Format t = q @ CHR ''-'' # Format u" using last_sep [OF _ assms(3,4)] by simp
  moreover have "CHR ''-'' \<notin> set (Format t)" "CHR ''-'' \<notin> set (Format u)"
    using Format_no [OF assms(5)] Format_no [OF assms(6)] by simp_all
  ultimately have "Format t = Format u" by (elim last_sep [THEN conjunct2])
  then show ?thesis using Format_eq [OF assms(5,6)] by simp
qed

lemma env_read_ok:
  assumes "resolveContestEnvContext hash8 ctx contestID problemID requestRef db = Inr env"
    and "teams_ok db" and "\<And>r. CHR ''-'' \<notin> set (hash8 r)"
  shows "env_ok db env"
proof -
  obtain i :: Identity and org contest problem team where
      g: "GetContest db org contestID = Inr contest" and run: "validateContestRunning contest = Inr ()"
    and t: "currentAccountTeam db org (idTenantID i) contestID (idAccountID i) = Inr team"
    and env: "env = \<lparr>envOrganizerTenantID = org, envMemberTenantID = idTenantID i, envMemberAccountID = idAccountID i,
        envContest = contest, envProblem = problem, envTeam = team,
        envSourceRef = contestEnvSourceRefPrefix (YearOf (ctCreatedAt contest)) problemID (teID team) @ hash8 (TrimSpace requestRef)\<rparr>"
    using assms(1) unfolding resolveContestEnvContext_def Let_def by (auto simp: bindR_Inr thenR_Inr split: if_splits)
  have c: "contest \<in> set (dbContests db)" "ctTenantID contest = org" "ctID contest = contestID" "3 \<le> ctStatus contest"
    using g run by (auto simp: GetContest_def one_row_Inr contest_key_def validateContestRunning_def failIf_Inr
        contest_status_defs dest!: find_SomeD)
  obtain u where u: "GetTeamForAccount db org contestID (idTenantID i) (idAccountID i) = Some u"
      "GetTeam db org (teID u) = Inr team"
    using t by (auto simp: currentAccountTeam_def split: option.splits)
  have "u \<in> set (filter (belongs db org contestID (idTenantID i) (idAccountID i)) (dbTeams db))"
    using u(1) by (metis (no_types, lifting) GetTeamForAccount_def list.case_eq_if list.set_sel(1) option.inject option.simps(3) set_sort)
  then have u': "u \<in> set (dbTeams db)" "teTenantID u = org" "teContestID u = contestID" by (auto simp: belongs_def)
  obtain w where w: "find (team_key org (teID u)) (dbTeams db) = Some w"
      "team = w\<lparr>teMembers := ListTeamMembers db org (teID u)\<rparr>"
    using u(2) by (auto simp: GetTeam_def split: option.splits)
  have "w = u" using find_SomeD [OF w(1)] u'(1) assms(2)
    by (auto simp: team_key_def teams_ok_def distinct_map inj_on_def)
  then have tm: "teID team = teID u" "teMembers team = ListTeamMembers db org (teID u)" using w(2) by simp_all
  have "placed db org contestID (teID team) (ctEndAt contest)"
    using c u' tm by (auto simp: placed_def)
  moreover have "seated db org (teID team) (tmMemberTenantID m) (tmAccountID m)" if "m \<in> set (teMembers team)" for m
    using that by (auto simp: tm ListTeamMembers_def seated_def is_member_def)
  moreover have "env_tail (teID team) (hash8 (TrimSpace requestRef)) (envSourceRef env)"
    by (auto simp: env env_tail_def contestEnvSourceRefPrefix_def)
  ultimately show ?thesis using assms(3) c unfolding env_ok_def env by auto
qed

lemma env_grants_ok:
  assumes "UpsertContestAccessGrant now db (env_grant env sandboxID (envSourceRef env) caps newID m) = Inr db'"
    and "env_ok db env" and "m \<in> set (teMembers (envTeam env))" and "sandbox_ref sandboxID = envSourceRef env"
    and "teams_ok db" and "\<forall>g \<in> set (dbGrants db). grant_ok sandbox_ref db g"
  shows "dbContests db' = dbContests db \<and> dbTeams db' = dbTeams db \<and> dbMembers db' = dbMembers db \<and>
    (\<forall>g \<in> set (dbGrants db'). grant_ok sandbox_ref db' g)"
proof -
  let ?item = "env_grant env sandboxID (envSourceRef env) caps newID m"
  have same: "dbContests db' = dbContests db" "dbTeams db' = dbTeams db" "dbMembers db' = dbMembers db"
    using assms(1) by (auto simp: UpsertContestAccessGrant_def split: if_splits)
  then have frame: "grant_ok sandbox_ref db' = grant_ok sandbox_ref db"
    by (intro ext) (simp add: grant_ok_def placed_def seated_def)
  have env: "placed db (envOrganizerTenantID env) (ctID (envContest env)) (teID (envTeam env)) (ctEndAt (envContest env))"
      "seated db (envOrganizerTenantID env) (teID (envTeam env)) (tmMemberTenantID m) (tmAccountID m)"
    using assms(2,3) by (auto simp: env_ok_def)
  obtain d where d: "CHR ''-'' \<notin> set d" "env_tail (teID (envTeam env)) d (envSourceRef env)"
    using assms(2) by (auto simp: env_ok_def)
  have pos: "0 < te" if "placed db t c te e" for t c te e
    using that assms(5) by (auto simp: placed_def teams_ok_def)
  have re: "grant_ok sandbox_ref db (regrant now ?item g)" if g: "g \<in> set (dbGrants db)" "grant_key ?item g" for g
  proof -
    have gk: "grant_ok sandbox_ref db g" using g(1) assms(6) by blast
    have k: "cgTenantID g = envOrganizerTenantID env" "cgSandboxID g = sandboxID"
      using g(2) by (auto simp: grant_key_def env_grant_def)
    obtain e where e: "CHR ''-'' \<notin> set e" "env_tail (cgTeamID g) e (envSourceRef env)"
      using gk k(2) assms(4) by (auto simp: grant_ok_def)
    have pg: "placed db (cgTenantID g) (cgContestID g) (cgTeamID g) (cgExpiresAt g)" using gk by (simp add: grant_ok_def)
    have team: "cgTeamID g = teID (envTeam env)"
      using env_tail_team [OF e(2) d(2) e(1) d(1)] pos [OF pg] pos [OF env(1)] by simp
    have "cgContestID g = ctID (envContest env)"
      using pg env(1) assms(5) team unfolding placed_def teams_ok_def by (auto simp: distinct_map inj_on_def)
    then show ?thesis using gk env(1) k team
      by (simp add: grant_ok_def regrant_def Let_def env_grant_def)
  qed
  have new: "grant_ok sandbox_ref db (?item\<lparr>cgGrantVersion := 1, cgStatus := 1, cgCreatedAt := now, cgUpdatedAt := now\<rparr>)"
    using env d assms(4) by (auto simp: grant_ok_def env_grant_def)
  have "grant_ok sandbox_ref db g" if g: "g \<in> set (dbGrants db')" for g
  proof (cases "list_ex (grant_key ?item) (dbGrants db)")
    case True
    then have "g \<in> set (upd_rows (grant_key ?item) (regrant now ?item) (dbGrants db))"
      using assms(1) g by (auto simp: UpsertContestAccessGrant_def)
    from upd_rows_set [OF this] obtain h where h: "h \<in> set (dbGrants db)"
        "g = (if grant_key ?item h then regrant now ?item h else h)" by (elim bexE)
    then show ?thesis using re [OF h(1)] assms(6) by (cases "grant_key ?item h") simp_all
  next
    case False
    then have "g \<in> set (dbGrants db) \<or> g = ?item\<lparr>cgGrantVersion := 1, cgStatus := 1, cgCreatedAt := now, cgUpdatedAt := now\<rparr>"
      using assms(1) g by (auto simp: UpsertContestAccessGrant_def split: if_splits)
    then show ?thesis using new assms(6) by blast
  qed
  then show ?thesis using same frame by simp
qed

subsection \<open>The invariant\<close>

lemma contest_ok_later: "contest_ok now c \<Longrightarrow> now \<le> later \<Longrightarrow> contest_ok later c"
  by (auto simp: contest_ok_def)

lemma env_commit_ok:
  assumes "foldR (\<lambda>db m. UpsertContestAccessGrant now db (env_grant env sandboxID (envSourceRef env) caps newID m)) db ms = Inr db'"
    and "set ms \<subseteq> set (teMembers (envTeam env))" and "env_ok db env" and "sandbox_ref sandboxID = envSourceRef env"
    and "teams_ok db" and "\<forall>g \<in> set (dbGrants db). grant_ok sandbox_ref db g"
  shows "dbContests db' = dbContests db \<and> dbTeams db' = dbTeams db \<and> dbMembers db' = dbMembers db \<and>
    (\<forall>g \<in> set (dbGrants db'). grant_ok sandbox_ref db' g)"
  using assms
proof (induction ms arbitrary: db)
  case (Cons m ms)
  then obtain d where d: "UpsertContestAccessGrant now db (env_grant env sandboxID (envSourceRef env) caps newID m) = Inr d"
      "foldR (\<lambda>db m. UpsertContestAccessGrant now db (env_grant env sandboxID (envSourceRef env) caps newID m)) d ms = Inr db'"
    by (auto simp: bindR_Inr)
  have k: "dbContests d = dbContests db" "dbTeams d = dbTeams db" "dbMembers d = dbMembers db"
      "\<forall>g \<in> set (dbGrants d). grant_ok sandbox_ref d g"
    using env_grants_ok [OF d(1), of sandbox_ref] Cons.prems by auto
  have "env_ok d env" "teams_ok d"
    using Cons.prems(3,5) k by (simp_all add: env_ok_def placed_def seated_def teams_ok_def has_member_def)
  from Cons.IH [OF d(2) _ this(1) Cons.prems(4) this(2) k(4)] Cons.prems(2) k(1-3) show ?case by simp
qed simp

text \<open>A step is a sequence of changes of rows, passes time, reads an environment or writes its grants.\<close>

lemma contest_step_kinds:
  assumes "contest_step hash8 sandbox_ref s s'" and "contests_ok (sysNow s) (sysDB s)" and "teams_ok (sysDB s)"
  obtains (rows) db where "s' = s\<lparr>sysDB := db\<rparr>" and "row_changes (sysNow s) (sysDB s) db"
    | (clock) now where "s' = s\<lparr>sysNow := now\<rparr>" and "sysNow s \<le> now"
    | (env_read) ctx contestID problemID requestRef env where "s' = s\<lparr>sysEnvs := env # sysEnvs s\<rparr>"
        and "resolveContestEnvContext hash8 ctx contestID problemID requestRef (sysDB s) = Inr env"
    | (env_grants) env sandboxID newIDs capabilities db where "s' = s\<lparr>sysDB := db\<rparr>" and "env \<in> set (sysEnvs s)"
        and "sandbox_ref sandboxID = envSourceRef env"
        and "foldR (\<lambda>db m. UpsertContestAccessGrant (sysNow s) db (env_grant env sandboxID (envSourceRef env) capabilities newIDs m))
               (sysDB s) (teMembers (envTeam env)) = Inr db"
  using assms(1)
proof cases
  case (clock now)
  then show ?thesis by (rule that(2))
next
  case (create newID ctx req c' db)
  then show ?thesis using that(1) CreateContest_rows by blast
next
  case (update roles ctx contestID req c' db)
  then show ?thesis using that(1) UpdateContest_rows by blast
next
  case (problem roles newID i contestID contest preq snapshot p db)
  then show ?thesis using that(1) AddProblem_rows by blast
next
  case (transition newID pageSize roles i contestID "next" requireProblems item problems moved db)
  then show ?thesis using that(1) transition_rows [OF transition(3) assms(2) transition(2)] by blast
next
  case (advance pageSize newIDs advanced db)
  then show ?thesis using that(1) scan_all assms(2) by blast
next
  case (signup teamID memberID newCode ctx contestID teamName team db)
  then show ?thesis using that(1) Signup_rows assms(3) by blast
next
  case (join memberID ctx contestID code team db)
  then show ?thesis using that(1) JoinTeam_rows assms(3) by blast
next
  case (lock ctx teamID team db)
  then show ?thesis using that(1) LockTeam_rows by blast
next
  case (env_read ctx contestID problemID requestRef env)
  then show ?thesis by (rule that(3))
next
  case (env_grants env sandboxID newIDs capabilities db)
  then show ?thesis using that(4) by (simp add: CreateEnv_commit_def withCause_Inr)
next
  case (env_recycle env sandboxID revoked db)
  then have "row_change (sysNow s) (sysDB s) db"
    using Revoke_rows [of "sysNow s" "sysDB s"] by (auto simp: recycleFailedContestEnv_def)
  then show ?thesis using that(1) [OF _ rows_step] env_recycle(1) by blast
next
  case (scoring db)
  then have "same_tables db (sysDB s)" using solve_step_views by blast
  then have "row_change (sysNow s) (sysDB s) db" by (auto simp: same_tables_def intro: other_rows)
  then show ?thesis using that(1) [OF _ rows_step] scoring(1) by blast
qed

lemma contest_step_ok:
  assumes "contest_step hash8 sandbox_ref s s'" and "system_ok sandbox_ref s" and hex: "\<And>r. CHR ''-'' \<notin> set (hash8 r)"
  shows "system_ok sandbox_ref s'"
proof -
  have c: "contests_ok (sysNow s) (sysDB s)" and t: "teams_ok (sysDB s)"
    and g: "\<forall>g \<in> set (dbGrants (sysDB s)). grant_ok sandbox_ref (sysDB s) g"
    and e: "\<forall>env \<in> set (sysEnvs s). env_ok (sysDB s) env"
    using assms(2) by (auto simp: system_ok_def)
  show ?thesis using assms(1) c t
  proof (cases rule: contest_step_kinds)
    case (rows db)
    then show ?thesis using row_changes_system assms(2) by blast
  next
    case (clock now)
    then show ?thesis using c t g e by (auto simp: system_ok_def contests_ok_def intro: contest_ok_later)
  next
    case (env_read ctx contestID problemID requestRef env)
    then show ?thesis using env_read_ok [OF env_read(2) t hex] assms(2) by (auto simp: system_ok_def)
  next
    case (env_grants env sandboxID newIDs capabilities db)
    have k: "dbContests db = dbContests (sysDB s)" "dbTeams db = dbTeams (sysDB s)" "dbMembers db = dbMembers (sysDB s)"
        "\<forall>g \<in> set (dbGrants db). grant_ok sandbox_ref db g"
      using env_commit_ok [OF env_grants(4) subset_refl _ env_grants(3) t g] e env_grants(2) by auto
    then show ?thesis using c t e env_grants(1)
      by (auto simp: system_ok_def contests_ok_def teams_ok_def has_member_def env_ok_def placed_def seated_def)
  qed
qed

lemma reachable_ok:
  assumes "(contest_step hash8 sandbox_ref)\<^sup>*\<^sup>* s0 s" and "contest_started s0" and "\<And>r. CHR ''-'' \<notin> set (hash8 r)"
  shows "system_ok sandbox_ref s"
  using assms(1)
proof (induction rule: rtranclp_induct)
  case base
  then show ?case using assms(2)
    by (simp add: contest_started_def system_ok_def contests_ok_def teams_ok_def empty_store_def)
next
  case (step s s')
  then show ?case using contest_step_ok assms(3) by blast
qed

lemma teams_ok_one:
  assumes "teams_ok db" and "t \<in> set (dbTeams db)" and "u \<in> set (dbTeams db)" and "teTenantID t = teTenantID u"
    and "teContestID t = teContestID u" and "has_member db t mt a" and "has_member db u mt a"
  shows "teID t = teID u"
  using assms unfolding teams_ok_def by blast

lemma distinct_one:
  assumes "distinct (map f xs)" and "\<And>x y. x \<in> set xs \<Longrightarrow> y \<in> set xs \<Longrightarrow> f x = f y"
  shows "length xs \<le> 1"
proof (cases xs)
  case (Cons x ys)
  then show ?thesis using assms(1) assms(2) [of x "hd ys"] by (cases ys) simp_all
qed simp





subsection \<open>A run of the system\<close>

definition after :: "contest_error + 'a \<times> contest_store \<Rightarrow> contest_store" where
  "after r = (case r of Inl _ \<Rightarrow> empty_store | Inr (_, db) \<Rightarrow> db)"

definition teacher :: Identity where "teacher = \<lparr>idTenantID = 1, idAccountID = 2\<rparr>"
definition student :: Identity where "student = \<lparr>idTenantID = 3, idAccountID = 8\<rparr>"

definition sampleHash :: "string \<Rightarrow> string" where "sampleHash r = ''0123456789abcdef''"

definition sampleRef :: "int \<Rightarrow> string" where
  "sampleRef i = ''contest:0001:solve-env:5-4-0123456789abcdef''"

definition run1 :: contest_store where
  "run1 = after (CreateContest 10 1 (Some teacher) sampleContestRequest empty_store)"
definition run2 :: contest_store where
  "run2 = after (AddProblem_commit (Inr False) 5 teacher 1 sampleContest
     (sampleProblemRequest\<lparr>prDynamicScore := None\<rparr>) None run1)"
definition run3 :: contest_store where
  "run3 = after (transition_commit 10 0 50 (Inr False) teacher 1 ContestStatusSignup False sampleContest [] run2)"
definition run4 :: contest_store where
  "run4 = after (Signup 11 4 6 (Inr ''CODE'') (Some student) 1 ''red'' run3)"
definition run5 :: contest_store where
  "run5 = after (transition_commit 25 0 50 (Inr False) teacher 1 ContestStatusRunning False sampleContest [] run4)"
definition runEnv :: "contest_error + contestEnvContext" where
  "runEnv = resolveContestEnvContext sampleHash (Some student) 1 5 ''r'' run5"
definition run6 :: contest_store where
  "run6 = (case runEnv of Inl _ \<Rightarrow> empty_store | Inr env \<Rightarrow>
     (case CreateEnv_commit 26 tmID env 7 (envSourceRef env) [''files''] run5 of Inl _ \<Rightarrow> empty_store | Inr db \<Rightarrow> db))"

lemma run_checks:
  "\<not> isl (CreateContest 10 1 (Some teacher) sampleContestRequest empty_store)"
  "\<not> isl (AddProblem_commit (Inr False) 5 teacher 1 sampleContest (sampleProblemRequest\<lparr>prDynamicScore := None\<rparr>) None run1)"
  "\<not> isl (transition_commit 10 0 50 (Inr False) teacher 1 ContestStatusSignup False sampleContest [] run2)"
  "\<not> isl (Signup 11 4 6 (Inr ''CODE'') (Some student) 1 ''red'' run3)"
  "\<not> isl (transition_commit 25 0 50 (Inr False) teacher 1 ContestStatusRunning False sampleContest [] run4)"
  "\<not> isl runEnv"
  by code_simp+

lemma after_Inr: "\<not> isl r \<Longrightarrow> \<exists>x. r = Inr (x, after r)"
  by (cases r) (auto simp: after_def)

definition runState :: "contest_store \<Rightarrow> int \<Rightarrow> contestEnvContext list \<Rightarrow> contest_system" where
  "runState db now envs = \<lparr>sysDB = db, sysNow = now, sysEnvs = envs\<rparr>"

lemma run_until:
  "(contest_step sampleHash sampleRef)\<^sup>*\<^sup>* (runState empty_store 10 []) (runState run5 26 [])"
proof -
  obtain c1 c2 c3 c4 c5 where r: "CreateContest 10 1 (Some teacher) sampleContestRequest empty_store = Inr (c1, run1)"
      "AddProblem_commit (Inr False) 5 teacher 1 sampleContest (sampleProblemRequest\<lparr>prDynamicScore := None\<rparr>) None run1 = Inr (c2, run2)"
      "transition_commit 10 0 50 (Inr False) teacher 1 ContestStatusSignup False sampleContest [] run2 = Inr (c3, run3)"
      "Signup 11 4 6 (Inr ''CODE'') (Some student) 1 ''red'' run3 = Inr (c4, run4)"
      "transition_commit 25 0 50 (Inr False) teacher 1 ContestStatusRunning False sampleContest [] run4 = Inr (c5, run5)"
    using after_Inr [OF run_checks(1)] after_Inr [OF run_checks(2)] after_Inr [OF run_checks(3)] after_Inr [OF run_checks(4)]
      after_Inr [OF run_checks(5)]
    unfolding run1_def [symmetric] run2_def [symmetric] run3_def [symmetric] run4_def [symmetric] run5_def [symmetric]
    by blast
  let ?step = "contest_step sampleHash sampleRef"
  have s1: "?step (runState empty_store 10 []) (runState run1 10 [])"
    using contest_step.create [of "runState empty_store 10 []"] r(1) by (simp add: runState_def)
  have s2: "?step (runState run1 10 []) (runState run2 10 [])"
    using contest_step.problem [of _ _ _ _ _ _ _ "runState run1 10 []"] r(2) by (simp add: runState_def)
  have s3: "?step (runState run2 10 []) (runState run3 10 [])"
    using contest_step.transition [of ContestStatusSignup "runState run2 10 []"] r(3) by (simp add: runState_def contest_status_defs)
  have s4: "?step (runState run3 10 []) (runState run3 11 [])"
    using contest_step.clock [of "runState run3 10 []" 11] by (simp add: runState_def)
  have s5: "?step (runState run3 11 []) (runState run4 11 [])"
    using contest_step.signup [of 4 "runState run3 11 []"] r(4) by (simp add: runState_def)
  have s6: "?step (runState run4 11 []) (runState run4 25 [])"
    using contest_step.clock [of "runState run4 11 []" 25] by (simp add: runState_def)
  have s7: "?step (runState run4 25 []) (runState run5 25 [])"
    using contest_step.transition [of ContestStatusRunning "runState run4 25 []"] r(5) by (simp add: runState_def contest_status_defs)
  have s8: "?step (runState run5 25 []) (runState run5 26 [])"
    using contest_step.clock [of "runState run5 25 []" 26] by (simp add: runState_def)
  show ?thesis
    by (rule converse_rtranclp_into_rtranclp, rule s1, rule converse_rtranclp_into_rtranclp, rule s2, rule converse_rtranclp_into_rtranclp, rule s3, rule converse_rtranclp_into_rtranclp, rule s4, rule converse_rtranclp_into_rtranclp, rule s5, rule converse_rtranclp_into_rtranclp, rule s6, rule converse_rtranclp_into_rtranclp, rule s7, rule converse_rtranclp_into_rtranclp, rule s8,
      rule rtranclp.rtrancl_refl)
qed

lemma run_env:
  "\<exists>env. (contest_step sampleHash sampleRef)\<^sup>*\<^sup>* (runState empty_store 10 []) (runState run6 26 [env])"
proof -
  obtain env where env: "runEnv = Inr env" using sum.collapse(2) [OF run_checks(6)] by metis
  have ref: "map_sum id envSourceRef runEnv = Inr (sampleRef 7)" by code_simp
  then have refe: "sampleRef 7 = envSourceRef env" by (simp add: env)
  have ok: "\<not> isl (bindR runEnv (\<lambda>env. CreateEnv_commit 26 tmID env 7 (envSourceRef env) [''files''] run5))" by code_simp
  then have c: "CreateEnv_commit 26 tmID env 7 (envSourceRef env) [''files''] run5 = Inr run6"
    by (cases "CreateEnv_commit 26 tmID env 7 (envSourceRef env) [''files''] run5") (simp_all add: env run6_def)
  have "contest_step sampleHash sampleRef (runState run5 26 []) (runState run5 26 [env])"
    using contest_step.env_read [of sampleHash _ _ _ _ "runState run5 26 []"] env by (simp add: runState_def runEnv_def)
  moreover have "contest_step sampleHash sampleRef (runState run5 26 [env]) (runState run6 26 [env])"
    using contest_step.env_grants [of env "runState run5 26 [env]" sampleRef 7 tmID "[''files'']" run6 sampleHash] c refe
    by (simp add: runState_def)
  ultimately show ?thesis
    by (intro exI [of _ env] rtranclp.rtrancl_into_rtrancl [OF rtranclp.rtrancl_into_rtrancl [OF run_until]])
qed

lemma run_started: "contest_started (runState empty_store 10 [])"
  by (simp add: contest_started_def runState_def)

lemma sampleHash_hex: "CHR ''-'' \<notin> set (sampleHash r)"
  by (simp add: sampleHash_def)





subsection \<open>What the atomicity of a signup rests on\<close>

text \<open>
  No constraint of the tables keeps an account from a second team: the writes of a signup whose check
  ran before another signup of the same account committed succeed, and the account is in two teams.
\<close>

lemma second_team_not_refused:
  "let create = CreateTeam 12 run4 \<lparr>teID = 9, teTenantID = 1, teContestID = 1, teName = ''blue'', teInviteCode = ''CODE2'',
         teStatus = 0, teCreatedAt = 0, teMembers = []\<rparr>;
       add = AddTeamMember 12 (after create) (new_member 10 1 9 student True)
   in map_sum id (\<lambda>db. sort (AccountTeamIDs db 1 1 3 8)) add = Inr [4, 9]"
  by code_simp

text \<open>
  \<open>UpdateContest\<close> is documented to change drafts; the row is also changed while signup is open, so a
  contest whose problems were checked for one mode may be turned into the other.
\<close>

lemma mode_changed_after_publication:
  "map_sum id (\<lambda>(c, db). (ctStatus c, ctMode c))
     (UpdateContest 12 (Inr False) (Some teacher) 1 (sampleContestRequest\<lparr>cqMode := 2\<rparr>) run3)
   = Inr (ContestStatusSignup, ContestModeBattle)"
  by code_simp

end
