(* ===== verification/JsonPrivacy.thy ===== *)
theory JsonPrivacy
  imports Workload
begin

section \<open>JSON values, sensitive fields and chain assertions\<close>

text \<open>
  The readers of \<open>platform/jsonx\<close> on decoded JSON, the field names \<open>pkg/privacy\<close> treats as
  secrets, and the assertions of \<open>pkg/chainassert\<close>. A Go \<open>map[string]any\<close> is an association
  list with distinct keys (the order stands for the iteration order of a loop over it), a missing
  entry reads as nil, which is \<open>JNull\<close>. The text of a number is the one \<open>strconv.FormatFloat\<close>
  prints with format f and shortest precision, which determines the \<open>float64\<close> (and \<open>0\<close> is
  the only zero: JSON decoding of \<open>-0\<close> is not considered). \<open>json.Marshal\<close> and \<open>fmt.Sprint\<close>
  are parameters.
\<close>

subsection \<open>Readers\<close>

definition obj_get :: "(string \<times> json) list \<Rightarrow> string \<Rightarrow> json" where
  "obj_get m k = (case map_of m k of None \<Rightarrow> JNull | Some v \<Rightarrow> v)"

definition StringFromAny :: "json \<Rightarrow> string" where
  "StringFromAny v = (case v of JStr s \<Rightarrow> s | JNum n \<Rightarrow> n | _ \<Rightarrow> [])"

definition ObjectFromAny :: "json \<Rightarrow> (string \<times> json) list" where
  "ObjectFromAny v = (case v of JObj m \<Rightarrow> m | _ \<Rightarrow> [])"

definition SliceFromAny :: "json \<Rightarrow> json list" where
  "SliceFromAny v = (case v of JArr xs \<Rightarrow> xs | _ \<Rightarrow> [])"

text \<open>\<open>reflect.DeepEqual\<close> on decoded values: maps are equal when they have the same keys and equal values.\<close>

fun DeepEqual :: "json \<Rightarrow> json \<Rightarrow> bool" where
  "DeepEqual JNull v \<longleftrightarrow> v = JNull"
| "DeepEqual (JBool b) v \<longleftrightarrow> v = JBool b"
| "DeepEqual (JNum n) v \<longleftrightarrow> v = JNum n"
| "DeepEqual (JStr s) v \<longleftrightarrow> v = JStr s"
| "DeepEqual (JArr xs) v \<longleftrightarrow> (case v of JArr ys \<Rightarrow> list_all2 DeepEqual xs ys | _ \<Rightarrow> False)"
| "DeepEqual (JObj m) v \<longleftrightarrow>
     (case v of
        JObj n \<Rightarrow> length m = length n \<and>
          list_all (\<lambda>(k, x). case map_of n k of None \<Rightarrow> False | Some y \<Rightarrow> DeepEqual x y) m
      | _ \<Rightarrow> False)"

text \<open>\<open>reflect.ValueOf(v).IsZero()\<close>; on nil the call panics, which is \<open>None\<close>.\<close>

definition valueIsZero :: "json \<Rightarrow> bool option" where
  "valueIsZero v =
     (case v of JNull \<Rightarrow> None | JBool b \<Rightarrow> Some (\<not> b) | JNum n \<Rightarrow> Some (n = ''0'') | JStr s \<Rightarrow> Some (s = [])
      | JArr _ \<Rightarrow> Some False | JObj _ \<Rightarrow> Some False)"

subsection \<open>Sensitive names and texts\<close>

definition credentialKeyMarkers :: "string list" where
  "credentialKeyMarkers =
     [''password'', ''passwd'', ''private_key'', ''privatekey'', ''access_key'', ''accesskey'', ''signing_key'',
      ''signingkey'', ''session_secret'', ''sessionsecret'', ''secret'', ''token'', ''credential'', ''authorization'',
      ''api_key'', ''apikey'']"

definition resultSensitiveKeyMarkers :: "string list" where
  "resultSensitiveKeyMarkers =
     credentialKeyMarkers @
     [''answer'', ''answers'', ''correct_answer'', ''solution'', ''judge_config'', ''testcases'', ''hidden_testcases'',
      ''flag'', ''flags'', ''answer_source'', ''suite_source'']"

definition containsKeyMarker :: "string \<Rightarrow> string list \<Rightarrow> bool" where
  "containsKeyMarker key markers = list_ex (\<lambda>marker. Contains (ToLower (TrimSpace key)) marker) markers"

definition IsCredentialKey :: "string \<Rightarrow> bool" where
  "IsCredentialKey key = containsKeyMarker key credentialKeyMarkers"

definition IsResultSensitiveKey :: "string \<Rightarrow> bool" where
  "IsResultSensitiveKey key = containsKeyMarker key resultSensitiveKeyMarkers"

definition ContainsResultSensitiveText :: "string \<Rightarrow> bool" where
  "ContainsResultSensitiveText value =
     (let lower = ToLower value
      in list_ex (\<lambda>marker. Contains lower marker) [''flag{'', ''-----begin'', ''answer_source'', ''suite_source''] \<or>
         IsResultSensitiveKey lower)"

lemma credential_is_sensitive: "IsCredentialKey key \<Longrightarrow> IsResultSensitiveKey key"
  by (auto simp: IsCredentialKey_def IsResultSensitiveKey_def containsKeyMarker_def resultSensitiveKeyMarkers_def list_ex_iff)

subsection \<open>Short summaries\<close>

text \<open>
  \<open>textx.TruncateRunes\<close> on valid UTF-8, which every output of \<open>json.Marshal\<close> is: a byte that is
  no continuation byte starts a rune.
\<close>

definition rune_start :: "char \<Rightarrow> bool" where
  "rune_start c \<longleftrightarrow> \<not> (CHR 0x80 \<le> c \<and> c \<le> CHR 0xBF)"

fun take_runes :: "nat \<Rightarrow> string \<Rightarrow> string" where
  "take_runes n [] = []"
| "take_runes n (c # s) =
     (if rune_start c then (case n of 0 \<Rightarrow> [] | Suc k \<Rightarrow> c # take_runes k s) else c # take_runes n s)"

definition TruncateRunes :: "string \<Rightarrow> int \<Rightarrow> string" where
  "TruncateRunes text limit = (if limit \<le> 0 then [] else take_runes (nat limit) text)"

definition redactedValue :: string where
  "redactedValue = [CHR ''['', CHR 0xE5, CHR 0xB7, CHR 0xB2, CHR 0xE8, CHR 0x84, CHR 0xB1, CHR 0xE6, CHR 0x95, CHR 0x8F, CHR '']'']"

fun redactSensitiveValues :: "json \<Rightarrow> json" where
  "redactSensitiveValues (JObj m) =
     JObj (map (\<lambda>(key, value). (key, if IsResultSensitiveKey key then JStr redactedValue else redactSensitiveValues value)) m)"
| "redactSensitiveValues (JArr xs) = JArr (map redactSensitiveValues xs)"
| "redactSensitiveValues v = v"

definition ShortJSON :: "(json \<Rightarrow> string) \<Rightarrow> json \<Rightarrow> string" where
  "ShortJSON marshal v = TruncateRunes (marshal (redactSensitiveValues v)) 256"

text \<open>Two values that differ only below sensitive keys.\<close>

fun public_eq :: "json \<Rightarrow> json \<Rightarrow> bool" where
  "public_eq (JObj m) v \<longleftrightarrow>
     (case v of
        JObj n \<Rightarrow> list_all2 (\<lambda>(k, x) (k', y). k = k' \<and> (IsResultSensitiveKey k \<or> public_eq x y)) m n
      | _ \<Rightarrow> False)"
| "public_eq (JArr xs) v \<longleftrightarrow> (case v of JArr ys \<Rightarrow> list_all2 public_eq xs ys | _ \<Rightarrow> False)"
| "public_eq u v \<longleftrightarrow> u = v"

lemma map_eq_all2: "list_all2 (\<lambda>x y. f x = g y) xs ys \<Longrightarrow> map f xs = map g ys"
  by (induction rule: list_all2_induct) auto

lemma redact_public: "public_eq u v \<Longrightarrow> redactSensitiveValues u = redactSensitiveValues v"
proof (induction u arbitrary: v rule: redactSensitiveValues.induct)
  case (1 m)
  then obtain n where v: "v = JObj n"
    and n: "list_all2 (\<lambda>(k, x) (k', y). k = k' \<and> (IsResultSensitiveKey k \<or> public_eq x y)) m n"
    by (cases v) auto
  have "list_all2 (\<lambda>e f.
      (case e of (k, x) \<Rightarrow> (k, if IsResultSensitiveKey k then JStr redactedValue else redactSensitiveValues x)) =
      (case f of (k, x) \<Rightarrow> (k, if IsResultSensitiveKey k then JStr redactedValue else redactSensitiveValues x))) m n"
    using n by (rule list.rel_mono_strong) (use 1(1) in force)
  from map_eq_all2 [OF this] show ?case unfolding v by simp
next
  case (2 xs)
  then obtain ys where v: "v = JArr ys" and ys: "list_all2 public_eq xs ys" by (cases v) auto
  have "list_all2 (\<lambda>x y. redactSensitiveValues x = redactSensitiveValues y) xs ys"
    using ys by (rule list.rel_mono_strong) (use 2(1) in blast)
  from map_eq_all2 [OF this] show ?case unfolding v by simp
qed auto

subsection \<open>Chain assertions\<close>

record Assertion =
  axLabel :: string
  axTarget :: string
  axField :: string
  axOp :: string
  axValue :: json
  axExpectedLabel :: string
  axHint :: string

record AssertionResult =
  arCase :: string
  arPassed :: bool
  arExpectedLabel :: string
  arActual :: string
  arHint :: string

definition OperationEq :: string where "OperationEq = ''eq''"
definition OperationNe :: string where "OperationNe = ''ne''"
definition OperationContains :: string where "OperationContains = ''contains''"
definition OperationExists :: string where "OperationExists = ''exists''"

lemmas operation_defs = OperationEq_def OperationNe_def OperationContains_def OperationExists_def

text \<open>Their errors are texts for the log: \<open>None\<close>.\<close>

definition optionalString :: "(string \<times> json) list \<Rightarrow> string \<Rightarrow> string option" where
  "optionalString raw key =
     (case obj_get raw key of JNull \<Rightarrow> Some [] | JStr text \<Rightarrow> Some (TrimSpace text) | _ \<Rightarrow> None)"

definition FromMap :: "(string \<times> json) list \<Rightarrow> Assertion option" where
  "FromMap raw =
     Option.bind (optionalString raw ''label'') (\<lambda>label.
     Option.bind (optionalString raw ''target'') (\<lambda>target.
     if target = [] then None else
     Option.bind (optionalString raw ''field'') (\<lambda>field.
     Option.bind (optionalString raw ''op'') (\<lambda>op0.
     let op = (if op0 = [] then OperationEq else op0)
     in if op \<notin> {OperationEq, OperationNe, OperationContains, OperationExists} then None else
     Option.bind (optionalString raw ''expected_label'') (\<lambda>expectedLabel.
     Option.bind (optionalString raw ''hint'') (\<lambda>hint.
       Some \<lparr>axLabel = label, axTarget = target, axField = field, axOp = op, axValue = obj_get raw ''value'',
              axExpectedLabel = expectedLabel, axHint = hint\<rparr>))))))"

definition Check ::
  "(json \<Rightarrow> string) \<Rightarrow> (json \<Rightarrow> string) \<Rightarrow> Assertion \<Rightarrow> (string \<times> json) list \<Rightarrow> AssertionResult option" where
  "Check marshal sprint assertion actual =
     (let field = (if axField assertion = [] then axTarget assertion else axField assertion);
          actualValue = obj_get actual field;
          passed =
            (if axOp assertion = OperationEq \<or> axOp assertion = [] then Some (DeepEqual actualValue (axValue assertion))
             else if axOp assertion = OperationNe then Some (\<not> DeepEqual actualValue (axValue assertion))
             else if axOp assertion = OperationContains then Some (Contains (sprint actualValue) (sprint (axValue assertion)))
             else if axOp assertion = OperationExists then Some (map_of actual field \<noteq> None)
             else None)
      in Option.bind passed (\<lambda>passed.
           Some \<lparr>arCase = axLabel assertion, arPassed = passed, arExpectedLabel = axExpectedLabel assertion,
                  arActual = ShortJSON marshal (JObj actual), arHint = axHint assertion\<rparr>))"

lemma FromMap_op: "FromMap raw = Some a \<Longrightarrow> axOp a \<in> {OperationEq, OperationNe, OperationContains, OperationExists}"
  by (auto simp: FromMap_def Let_def bind_eq_Some_conv split: if_splits)

lemma Check_total: "FromMap raw = Some a \<Longrightarrow> \<exists>r. Check marshal sprint a actual = Some r"
  using FromMap_op [of raw a] by (auto simp: Check_def Let_def operation_defs)

subsection \<open>Replay traces\<close>

text \<open>
  \<open>sanitizeReplayMap\<close> and \<open>sanitizeReplayValue\<close> of \<open>judge/rules.go\<close>. On decoded JSON the
  default branch (a value of another Go type) is not reached, so the flag is always true.
\<close>

definition keepReplayEntries :: "(string \<times> json) list \<Rightarrow> (string \<times> json) list" where
  "keepReplayEntries m =
     foldl (\<lambda>out (k, clean).
        let key = TrimSpace k
        in if key = [] \<or> HasPrefix key ''_'' \<or> IsResultSensitiveKey key then out else AList.update key clean out) [] m"

fun sanitizeReplayValue :: "json \<Rightarrow> json" where
  "sanitizeReplayValue (JObj m) = JObj (keepReplayEntries (map (\<lambda>(k, v). (k, sanitizeReplayValue v)) m))"
| "sanitizeReplayValue (JArr xs) = JArr (map sanitizeReplayValue xs)"
| "sanitizeReplayValue v = v"

definition sanitizeReplayMap :: "(string \<times> json) list \<Rightarrow> (string \<times> json) list" where
  "sanitizeReplayMap input = keepReplayEntries (map (\<lambda>(k, v). (k, sanitizeReplayValue v)) input)"

fun all_keys :: "json \<Rightarrow> string set" where
  "all_keys (JObj m) = (\<Union>(k, v) \<in> set m. insert k (all_keys v))"
| "all_keys (JArr xs) = (\<Union>x \<in> set xs. all_keys x)"
| "all_keys _ = {}"

definition public_key :: "string \<Rightarrow> bool" where
  "public_key k \<longleftrightarrow> k \<noteq> [] \<and> \<not> HasPrefix k ''_'' \<and> \<not> IsResultSensitiveKey k"

lemma update_set: "set (AList.update k v xs) \<subseteq> insert (k, v) (set xs)"
  by (induction xs) auto

lemma keepReplayEntries_set:
  "(k, v) \<in> set (keepReplayEntries m) \<Longrightarrow> public_key k \<and> (\<exists>k'. (k', v) \<in> set m)"
proof -
  have "(k, v) \<in> set (foldl (\<lambda>out (k, clean). let key = TrimSpace k
          in if key = [] \<or> HasPrefix key ''_'' \<or> IsResultSensitiveKey key then out else AList.update key clean out) acc m) \<Longrightarrow>
        (k, v) \<in> set acc \<or> public_key k \<and> (\<exists>k'. (k', v) \<in> set m)" for acc
  proof (induction m arbitrary: acc)
    case (Cons e m)
    from Cons.IH [OF Cons.prems [unfolded foldl.simps]] show ?case
      using update_set [of "TrimSpace (fst e)" "snd e" acc]
      by (cases e) (auto simp: Let_def public_key_def split: if_splits)
  qed simp
  from this [of "[]"] show "(k, v) \<in> set (keepReplayEntries m) \<Longrightarrow> ?thesis"
    by (auto simp: keepReplayEntries_def)
qed

lemma sanitizeReplayValue_keys: "k \<in> all_keys (sanitizeReplayValue v) \<Longrightarrow> public_key k"
proof (induction v rule: sanitizeReplayValue.induct)
  case (1 m)
  from 1(2) obtain a b where ab: "(a, b) \<in> set (keepReplayEntries (map (\<lambda>(k, v). (k, sanitizeReplayValue v)) m))"
    and k: "k = a \<or> k \<in> all_keys b" by auto
  from keepReplayEntries_set [OF ab] obtain c where a: "public_key a" and c: "c \<in> snd ` set m" "b = sanitizeReplayValue c"
    by force
  from k show ?case
  proof
    assume "k \<in> all_keys b"
    with c 1(1) show ?thesis by force
  qed (use a in simp)
qed auto

end
