(* ===== verification/JudgeModel.thy ===== *)
theory JudgeModel
  imports ContestModel JsonPrivacy Complex_Main
begin

section \<open>Judge module: data\<close>

text \<open>
  The enumerations of \<open>judge/enum.go\<close>, the records of \<open>judge/model.go\<close>, \<open>service_spec.go\<close> and
  \<open>dto.go\<close>, and the contract types of \<open>contracts/engine_judge.go\<close> and \<open>engine_content.go\<close> that
  the contest model does not have already. \<open>json.RawMessage\<close> is its text; an outbox payload, which
  the code stores as the JSON of an event, is the event.
\<close>

datatype judge_error =
    ErrJudgeSubmitInvalid | ErrJudgeTaskNotFound | ErrJudgeTaskForbidden | ErrJudgeTaskStateInvalid
  | ErrJudgeTaskPersistFailed | ErrJudgeTaskEnqueueFailed | ErrJudgeSpecUnavailable | ErrJudgerConfigInvalid
  | ErrJudgerNotFound | ErrJudgerUnavailable | ErrJudgerPersistFailed | ErrJudgerSelftestFailed
  | ErrJudgeWorkerFailed | ErrJudgeTimeout | ErrJudgeInputArchiveInvalid | ErrJudgeManualScoreInvalid
  | ErrJudgeEventPublishFailed | ErrJudgeSubmitRateLimited | ErrJudgePathIDInvalid | ErrTenantModuleDisabled
  | ErrFingerprintSimilarityFailed | ErrFingerprintRequestInvalid | ErrFingerprintNotFound
  | ErrFromSandbox | PanicZeroValue

definition JudgerTypeTestcase :: int where "JudgerTypeTestcase = 1"
definition JudgerTypeOnchainAssert :: int where "JudgerTypeOnchainAssert = 2"
definition JudgerTypeFlag :: int where "JudgerTypeFlag = 3"
definition JudgerTypeStaticScan :: int where "JudgerTypeStaticScan = 4"
definition JudgerTypeSimCheckpoint :: int where "JudgerTypeSimCheckpoint = 5"
definition JudgerTypeManual :: int where "JudgerTypeManual = 6"

lemmas judger_type_defs =
  JudgerTypeTestcase_def JudgerTypeOnchainAssert_def JudgerTypeFlag_def JudgerTypeStaticScan_def
  JudgerTypeSimCheckpoint_def JudgerTypeManual_def

definition JudgerSelftestPending :: int where "JudgerSelftestPending = 1"
definition JudgerSelftestPassed :: int where "JudgerSelftestPassed = 2"
definition JudgerSelftestFailed :: int where "JudgerSelftestFailed = 3"

definition JudgerStatusAvailable :: int where "JudgerStatusAvailable = 1"
definition JudgerStatusDisabled :: int where "JudgerStatusDisabled = 2"

definition ModeFresh :: int where "ModeFresh = 1"
definition ModeReuse :: int where "ModeReuse = 2"

definition TaskQueued :: int where "TaskQueued = 1"
definition TaskJudging :: int where "TaskJudging = 2"
definition TaskDone :: int where "TaskDone = 3"
definition TaskFailed :: int where "TaskFailed = 4"
definition TaskCancelled :: int where "TaskCancelled = 5"

lemmas task_status_defs = TaskQueued_def TaskJudging_def TaskDone_def TaskFailed_def TaskCancelled_def

definition TaskStateAll :: string where "TaskStateAll = ''''"
definition TaskStateActive :: string where "TaskStateActive = ''active''"
definition TaskStateAbnormal :: string where "TaskStateAbnormal = ''abnormal''"

definition SubjectJudgeCompleted :: string where "SubjectJudgeCompleted = ''judge.completed''"
definition SubjectJudgeFailed :: string where "SubjectJudgeFailed = ''judge.failed''"

type_synonym json_obj = "(string \<times> json) list"

subsection \<open>Judgers\<close>

record JudgerExecutionSpec =
  jeGenesisRef :: string
  jeInitScriptRef :: string
  jeCommand :: "string list"
  jeExecTarget :: string
  jeExecutionSidecars :: "ComponentSpec list"
  jeTimeoutSec :: int
  jeMaxRetries :: int
  jeSuiteArchiveName :: string
  jeSelftest :: json_obj

record JudgerResourceSpec =
  jsDisabledReason :: string
  jsCompositionSnapshot :: SandboxCompositionSnapshot
  jsGenesisRef :: string
  jsInitScriptRef :: string
  jsCommand :: "string list"
  jsExecTarget :: string
  jsExecutionSidecars :: "ComponentSpec list"
  jsTimeoutSec :: int
  jsMaxRetries :: int
  jsSuiteArchiveName :: string
  jsSelftest :: json_obj

record Judger =
  jgID :: int
  jgCode :: string
  jgName :: string
  jgType :: int
  jgExecutorRef :: string
  jgRuntimeRequired :: bool
  jgDefaultTimeoutSec :: int
  jgResourceSpec :: JudgerResourceSpec
  jgSelftestStatus :: int
  jgStatus :: int
  jgCreatedAt :: int
  jgUpdatedAt :: int

record JudgerRequest =
  jqCode :: string
  jqName :: string
  jqType :: int
  jqExecutorRef :: string
  jqRuntimeRequired :: bool
  jqDefaultTimeoutSec :: int
  jqComposition :: SandboxCompositionSpec
  jqResourceSpec :: string
  jqStatus :: int

subsection \<open>Submissions, tasks and results\<close>

record JudgeSubmitRequest =
  sqTenantID :: int
  sqJudgerCode :: string
  sqItemCode :: string
  sqItemVersion :: string
  sqCodeStorageKey :: string
  sqCodeHash :: string
  sqSubmitterTenantID :: int
  sqSubmitterID :: int
  sqSourceRef :: string
  sqSourceOwnerID :: int
  sqSourceCourseID :: int
  sqSourceScope :: string
  sqSandboxMode :: string
  sqTargetSandboxRef :: string
  sqSandboxSourceRef :: string
  sqExtraInput :: json_obj
  sqPriority :: int

record ContentJudgeSpec =
  csItemCode :: string
  csItemVersion :: string
  csJudgerCode :: string
  csMaxScore :: int
  csSuiteRef :: string
  csExpectation :: json_obj
  csVersionHash :: string

record JudgeInputSnapshot =
  inItemCode :: string
  inItemVersion :: string
  inTraceID :: string
  inJudgerCode :: string
  inJudgerType :: int
  inJudgerVersion :: string
  inSuiteRef :: string
  inSuiteArchiveName :: string
  inVersionHash :: string
  inCodeHash :: string
  inCompositionSnapshot :: SandboxCompositionSnapshot
  inSandboxSourceRef :: string
  inGenesisRef :: string
  inInitScriptRef :: string
  inCommand :: "string list"
  inExecTarget :: string
  inExecutionSidecars :: "ComponentSpec list"
  inTimeoutSec :: int
  inMaxRetries :: int
  inMaxScore :: int
  inExpectation :: json_obj
  inExtraInput :: json_obj
  inRejudge :: bool
  inSanitizedCodeArchiveName :: string
  inSanitizedCodeArchiveRef :: string

record JudgeTask =
  tkID :: int
  tkTenantID :: int
  tkJudgerID :: int
  tkSourceRef :: string
  tkSourceOwnerID :: int
  tkSourceCourseID :: int
  tkSourceScope :: string
  tkSubmitterTenantID :: int
  tkSubmitterID :: int
  tkProblemRef :: string
  tkCodeStorageKey :: string
  tkCodeHash :: string
  tkInputSnapshot :: JudgeInputSnapshot
  tkSandboxMode :: int
  tkTargetSandboxRef :: string
  tkPriority :: int
  tkStatus :: int
  tkRetryCount :: int
  tkMaxRetries :: int
  tkLastError :: string
  tkCreatedAt :: int
  tkUpdatedAt :: int
  tkLeaseToken :: string
  tkLeaseUntil :: "int option"

record ResultDetail =
  rdCase :: string
  rdSource :: string
  rdTarget :: string
  rdPassed :: bool
  rdExpectedLabel :: string
  rdActual :: string
  rdHint :: string

record JudgeResult =
  reID :: int
  reTaskID :: int
  reTenantID :: int
  reVersion :: int
  rePassed :: bool
  reScore :: int
  reMaxScore :: int
  reDetails :: "ResultDetail list"
  reReplay :: JudgeReplayTrace
  reJudgeSandboxRef :: string
  reJudgedAt :: int
  reIsRejudge :: bool

record TaskInfo =
  tiTask :: JudgeTask
  tiResult :: "JudgeResult option"
  tiExisting :: bool

record JudgeExecutionResult =
  exPassed :: bool
  exScore :: int
  exMaxScore :: int
  exDetails :: "ResultDetail list"
  exReplay :: JudgeReplayTrace
  exJudgeSandboxRef :: string

record SubmissionFingerprint =
  fpID :: int
  fpTenantID :: int
  fpSourceRef :: string
  fpProblemRef :: string
  fpSubmitterTenantID :: int
  fpSubmitterID :: int
  fpCodeHash :: string
  fpSimVector :: "(string \<times> real) list"
  fpCreatedAt :: int

datatype judge_event = CompletedEvent JudgeCompletedEvent | FailedEvent JudgeFailedEvent

record JudgeEventOutbox =
  obID :: int
  obTenantID :: int
  obTaskID :: int
  obSubject :: string
  obPayload :: judge_event
  obStatus :: int
  obRetryCount :: int
  obNextAttemptAt :: int
  obLastError :: string
  obCreatedAt :: int
  obUpdatedAt :: int
  obLeaseToken :: string
  obLeaseUntil :: "int option"

record ManualScoreRequest =
  mqScore :: int
  mqMaxScore :: int
  mqPassed :: bool
  mqComment :: string

record SourceOwnership =
  soOwnerID :: int
  soCourseID :: int
  soScope :: string

text \<open>The part of \<open>config.JudgeConfig\<close> the modelled code reads.\<close>

record JudgeConfig =
  jcfWorkerBatchSize :: "64 word"
  jcfSubmitRateLimitSec :: "64 word"
  jcfDefaultMaxRetries :: "64 word"
  jcfResultDetailsMaxBytes :: int
  jcfTaskLeaseDurationMs :: int
  jcfOutboxLeaseDurationMs :: int
  jcfOutboxMaxAttempts :: "64 word"
  jcfSandboxReadyGraceSeconds :: "64 word"

end
