(* ===== verification/JudgeRules.thy ===== *)
theory JudgeRules
  imports JudgeModel SandboxQuota "HOL-Library.List_Lexorder"
begin

section \<open>Judge module: rules\<close>

text \<open>
  The pure decisions of the judge: \<open>rules.go\<close>, \<open>service_spec.go\<close>, the snapshots of
  \<open>service.go\<close> and \<open>service_judgers.go\<close>, the access rule of \<open>service_task.go\<close> and the conversions of
  \<open>convert.go\<close>. The strict JSON decoder, \<open>json.Marshal\<close>, the digest of a composition
  (\<open>contracts.CanonicalSnapshotDigest\<close>) and the keyed hash are parameters; \<open>None\<close> is their error.
\<close>

subsection \<open>Checks of rules.go\<close>

definition codePattern :: "string \<Rightarrow> bool" where
  "codePattern s \<longleftrightarrow>
     3 \<le> length s \<and> length s \<le> 64 \<and> low_num (hd s) \<and> low_num (last s) \<and> list_all low_num_dash (butlast (tl s))"

definition validTaskState :: "string \<Rightarrow> bool" where
  "validTaskState state \<longleftrightarrow> state \<in> {TaskStateAll, TaskStateActive, TaskStateAbnormal}"

definition validateManualScore :: "ManualScoreRequest \<Rightarrow> judge_error + unit" where
  "validateManualScore req =
     failIf (mqMaxScore req \<le> 0 \<or> mqScore req < 0 \<or> mqScore req > mqMaxScore req \<or> TrimSpace (mqComment req) = [])
       ErrJudgeManualScoreInvalid"

definition containsSensitiveMaterial :: "string \<Rightarrow> bool" where
  "containsSensitiveMaterial value = ContainsResultSensitiveText value"

definition result_detail_check :: "ResultDetail \<Rightarrow> judge_error + unit" where
  "result_detail_check item =
     thenR (failIf (TrimSpace (rdCase item) = [] \<and> TrimSpace (rdSource item) = [] \<and> TrimSpace (rdTarget item) = [])
              ErrJudgeWorkerFailed)
       (failIf (containsSensitiveMaterial (rdExpectedLabel item) \<or> containsSensitiveMaterial (rdActual item) \<or>
                containsSensitiveMaterial (rdHint item)) ErrJudgeWorkerFailed)"

definition validateResultDetails :: "ResultDetail list \<Rightarrow> judge_error + unit" where
  "validateResultDetails details =
     (if details = [] then Inl ErrJudgeWorkerFailed else eachR result_detail_check details)"

definition statusText :: "int \<Rightarrow> string" where
  "statusText status =
     (if status = TaskQueued then ''queued'' else if status = TaskJudging then ''judging''
      else if status = TaskDone then ''done'' else if status = TaskFailed then ''failed''
      else if status = TaskCancelled then ''cancelled'' else ''error'')"

subsection \<open>Digests (pkg/crypto)\<close>

definition hex_value :: "char \<Rightarrow> nat option" where
  "hex_value c =
     (let n = of_char c :: nat
      in if 48 \<le> n \<and> n \<le> 57 then Some (n - 48) else if 97 \<le> n \<and> n \<le> 102 then Some (n - 87)
         else if 65 \<le> n \<and> n \<le> 70 then Some (n - 55) else None)"

fun hexDecode :: "string \<Rightarrow> nat list option" where
  "hexDecode [] = Some []"
| "hexDecode [c] = None"
| "hexDecode (c # d # s) =
     (case (hex_value c, hex_value d) of
        (Some h, Some l) \<Rightarrow> map_option ((#) (16 * h + l)) (hexDecode s)
      | _ \<Rightarrow> None)"

definition ValidSHA256Hex :: "string \<Rightarrow> bool" where
  "ValidSHA256Hex value = (let value = TrimSpace value in length value = 64 \<and> hexDecode value \<noteq> None)"

definition EqualHexHMAC :: "string \<Rightarrow> string \<Rightarrow> bool" where
  "EqualHexHMAC a b = (case (hexDecode a, hexDecode b) of (Some l, Some r) \<Rightarrow> l = r | _ \<Rightarrow> False)"

subsection \<open>Judger declarations (service_spec.go)\<close>

definition emptyExecutionSpec :: JudgerExecutionSpec where
  "emptyExecutionSpec = \<lparr>jeGenesisRef = [], jeInitScriptRef = [], jeCommand = [], jeExecTarget = [],
     jeExecutionSidecars = [], jeTimeoutSec = 0, jeMaxRetries = 0, jeSuiteArchiveName = [], jeSelftest = []\<rparr>"

definition judgerNeedsSandbox :: "int \<Rightarrow> bool \<Rightarrow> bool" where
  "judgerNeedsSandbox typ runtimeRequired \<longleftrightarrow>
     runtimeRequired \<or> typ = JudgerTypeTestcase \<or> typ = JudgerTypeOnchainAssert \<or> typ = JudgerTypeStaticScan"

definition safeExecTarget :: "string \<Rightarrow> bool" where
  "safeExecTarget target =
     (let parts = Split (TrimSpace target) (CHR ''/'') in length parts = 2 \<and> codePattern (parts ! 0) \<and> codePattern (parts ! 1))"

definition parseJudgerExecutionSpec ::
  "(string \<Rightarrow> JudgerExecutionSpec option) \<Rightarrow> string \<Rightarrow> int \<Rightarrow> bool \<Rightarrow> judge_error + JudgerExecutionSpec" where
  "parseJudgerExecutionSpec decode raw typ runtimeRequired =
     bindR (if raw = [] then Inr emptyExecutionSpec
            else (case decode raw of None \<Rightarrow> Inl ErrJudgerConfigInvalid | Some spec \<Rightarrow> Inr spec)) (\<lambda>spec.
       if jeTimeoutSec spec < 0 \<or> jeMaxRetries spec < 0 then Inl ErrJudgerConfigInvalid
       else if judgerNeedsSandbox typ runtimeRequired \<and> TrimSpace (jeGenesisRef spec) = [] then Inl ErrJudgerConfigInvalid
       else thenR
         (if typ = JudgerTypeTestcase \<or> typ = JudgerTypeStaticScan
          then if \<not> ValidNonShellCommand (jeCommand spec) then Inl ErrJudgerConfigInvalid
               else if TrimSpace (jeExecTarget spec) = [] \<or> jeExecutionSidecars spec = [] then Inl ErrJudgerConfigInvalid
               else failIf (\<not> safeExecTarget (jeExecTarget spec)) ErrJudgerConfigInvalid
          else Inr ())
         (if typ = JudgerTypeManual \<and> jeCommand spec \<noteq> [] then Inl ErrJudgerConfigInvalid else Inr spec))"

definition parseJudgerResourceSpec ::
  "(string \<Rightarrow> JudgerResourceSpec option) \<Rightarrow> JudgerResourceSpec \<Rightarrow> (SandboxCompositionSnapshot \<Rightarrow> string option) \<Rightarrow>
     string \<Rightarrow> int \<Rightarrow> bool \<Rightarrow> judge_error + JudgerResourceSpec" where
  "parseJudgerResourceSpec decode zero digest raw typ runtimeRequired =
     (if raw = [] then Inr zero else
      case decode raw of
        None \<Rightarrow> Inl ErrJudgerConfigInvalid
      | Some spec \<Rightarrow>
          if jsTimeoutSec spec < 0 \<or> jsMaxRetries spec < 0 then Inl ErrJudgerConfigInvalid
          else if \<not> judgerNeedsSandbox typ runtimeRequired
          then if typ = JudgerTypeManual \<and>
                  (jsCommand spec \<noteq> [] \<or> jsExecutionSidecars spec \<noteq> [] \<or> snDigest (jsCompositionSnapshot spec) \<noteq> [])
               then Inl ErrJudgerConfigInvalid else Inr spec
          else if TrimSpace (snDigest (jsCompositionSnapshot spec)) = [] then Inr spec
          else if digest (jsCompositionSnapshot spec) \<noteq> Some (snDigest (jsCompositionSnapshot spec)) \<or>
                  scAccessProfile (snSpec (jsCompositionSnapshot spec)) \<noteq> SandboxAccessJudgePrivate \<or>
                  TrimSpace (jsGenesisRef spec) = []
          then Inl ErrJudgerConfigInvalid
          else if (typ = JudgerTypeTestcase \<or> typ = JudgerTypeStaticScan) \<and>
                  (\<not> ValidNonShellCommand (jsCommand spec) \<or> \<not> safeExecTarget (jsExecTarget spec) \<or> jsExecutionSidecars spec = [])
          then Inl ErrJudgerConfigInvalid else Inr spec)"

definition judger_runtime_check :: "CompositionRuntimeRef \<Rightarrow> judge_error + unit" where
  "judger_runtime_check runtime =
     failIf (TrimSpace (crInstanceCode runtime) = [] \<or> TrimSpace (crCode runtime) = [] \<or>
             TrimSpace (crImageVersion runtime) = []) ErrJudgerConfigInvalid"

definition validateJudgerRequest ::
  "(string \<Rightarrow> JudgerExecutionSpec option) \<Rightarrow> JudgerRequest \<Rightarrow> judge_error + JudgerExecutionSpec" where
  "validateJudgerRequest decode req =
     (if \<not> codePattern (TrimSpace (jqCode req)) \<or> TrimSpace (jqName req) = [] \<or> TrimSpace (jqExecutorRef req) = []
      then Inl ErrJudgerConfigInvalid
      else if jqType req < JudgerTypeTestcase \<or> jqType req > JudgerTypeManual then Inl ErrJudgerConfigInvalid
      else if jqDefaultTimeoutSec req \<le> 0 then Inl ErrJudgerConfigInvalid
      else if jqStatus req \<noteq> JudgerStatusAvailable \<and> jqStatus req \<noteq> JudgerStatusDisabled then Inl ErrJudgerConfigInvalid
      else thenR
        (if judgerNeedsSandbox (jqType req) (jqRuntimeRequired req)
         then if TrimSpace (scID (jqComposition req)) = [] \<or> scRuntimes (jqComposition req) = [] \<or>
                 scAccessProfile (jqComposition req) \<noteq> SandboxAccessJudgePrivate
              then Inl ErrJudgerConfigInvalid else eachR judger_runtime_check (scRuntimes (jqComposition req))
         else failIf (TrimSpace (scID (jqComposition req)) \<noteq> [] \<or> scRuntimes (jqComposition req) \<noteq> []) ErrJudgerConfigInvalid)
        (parseJudgerExecutionSpec decode (jqResourceSpec req) (jqType req) (jqRuntimeRequired req)))"

definition normalizeJudgerRequest :: "JudgerRequest \<Rightarrow> JudgerRequest" where
  "normalizeJudgerRequest req =
     req\<lparr>jqCode := TrimSpace (jqCode req), jqName := TrimSpace (jqName req), jqExecutorRef := TrimSpace (jqExecutorRef req),
         jqStatus := (if jqStatus req = 0 then JudgerStatusDisabled else jqStatus req)\<rparr>"

definition validateJudgerResourceSpecForUse ::
  "(SandboxCompositionSnapshot \<Rightarrow> string option) \<Rightarrow> Judger \<Rightarrow> judge_error + unit" where
  "validateJudgerResourceSpecForUse digest j =
     (let snapshot = jsCompositionSnapshot (jgResourceSpec j)
      in if \<not> judgerNeedsSandbox (jgType j) (jgRuntimeRequired j) then Inr ()
         else if scAccessProfile (snSpec snapshot) \<noteq> SandboxAccessJudgePrivate then Inl ErrJudgeSpecUnavailable
         else if TrimSpace (snDigest snapshot) = [] then Inl ErrJudgeSpecUnavailable
         else failIf (digest snapshot \<noteq> Some (snDigest snapshot)) ErrJudgeSpecUnavailable)"

definition maxRetriesForJudger :: "Judger \<Rightarrow> 64 word \<Rightarrow> int" where
  "maxRetriesForJudger j defaultMax =
     (if jsMaxRetries (jgResourceSpec j) > 0 then jsMaxRetries (jgResourceSpec j)
      else if sint defaultMax < 0 then 0
      else (case Int32 defaultMax of (maxRetries, ok) \<Rightarrow> if \<not> ok then 0 else sint maxRetries))"

definition timeoutForSnapshot :: "Judger \<Rightarrow> int" where
  "timeoutForSnapshot j =
     (if jsTimeoutSec (jgResourceSpec j) > 0 then jsTimeoutSec (jgResourceSpec j) else jgDefaultTimeoutSec j)"

definition judgerComposition :: "Judger \<Rightarrow> SandboxCompositionSpec option" where
  "judgerComposition item =
     (let composition = snSpec (jsCompositionSnapshot (jgResourceSpec item))
      in if TrimSpace (scID composition) = [] \<or> scRuntimes composition = [] \<or>
            scAccessProfile composition \<noteq> SandboxAccessJudgePrivate then None else Some composition)"

definition compositionReferencesRuntime :: "SandboxCompositionSpec \<Rightarrow> string \<Rightarrow> bool" where
  "compositionReferencesRuntime spec runtimeCode =
     list_ex (\<lambda>runtime. EqualFold (TrimSpace (crCode runtime)) (TrimSpace runtimeCode)) (scRuntimes spec)"

subsection \<open>Submissions\<close>

definition normalizedSandboxMode :: "string \<Rightarrow> judge_error + int" where
  "normalizedSandboxMode mode =
     (let mode = TrimSpace mode
      in if mode = [] \<or> mode = ''fresh'' then Inr ModeFresh
         else if mode = ''reuse'' then Inr ModeReuse else Inl ErrJudgeSubmitInvalid)"

definition validateSubmitRequest :: "JudgeSubmitRequest \<Rightarrow> judge_error + unit" where
  "validateSubmitRequest req =
     (if sqTenantID req \<le> 0 \<or> sqSubmitterTenantID req \<le> 0 \<or> sqSubmitterID req \<le> 0 \<or>
         TrimSpace (sqItemCode req) = [] \<or> TrimSpace (sqItemVersion req) = [] \<or> \<not> ValidSourceRef (sqSourceRef req)
      then Inl ErrJudgeSubmitInvalid
      else if TrimSpace (sqCodeHash req) \<noteq> [] \<and> \<not> ValidSHA256Hex (sqCodeHash req) then Inl ErrJudgeSubmitInvalid
      else bindR (normalizedSandboxMode (sqSandboxMode req)) (\<lambda>mode.
        if mode = ModeReuse \<and> TrimSpace (sqTargetSandboxRef req) = [] then Inl ErrJudgeSubmitInvalid
        else if mode = ModeReuse \<and> TrimSpace (sqSandboxSourceRef req) = [] then Inl ErrJudgeSubmitInvalid
        else if mode = ModeFresh \<and> TrimSpace (sqTargetSandboxRef req) \<noteq> [] then Inl ErrJudgeSubmitInvalid
        else if mode = ModeFresh \<and> TrimSpace (sqSandboxSourceRef req) \<noteq> [] then Inl ErrJudgeSubmitInvalid
        else Inr ()))"

definition validateJudgerSupportsSandboxMode :: "int \<Rightarrow> int \<Rightarrow> judge_error + unit" where
  "validateJudgerSupportsSandboxMode typ mode =
     failIf (mode = ModeReuse \<and> typ \<noteq> JudgerTypeOnchainAssert) ErrJudgeSubmitInvalid"

definition validateJudgerSandboxMode :: "int \<Rightarrow> int \<Rightarrow> string \<Rightarrow> judge_error + unit" where
  "validateJudgerSandboxMode typ mode targetRef =
     thenR (validateJudgerSupportsSandboxMode typ mode)
       (if mode = ModeReuse \<and> TrimSpace targetRef = [] then Inl ErrJudgeSubmitInvalid
        else failIf (mode \<noteq> ModeReuse \<and> TrimSpace targetRef \<noteq> []) ErrJudgeSubmitInvalid)"

definition judgerRequiresCode :: "int \<Rightarrow> int \<Rightarrow> bool" where
  "judgerRequiresCode typ mode \<longleftrightarrow>
     typ = JudgerTypeTestcase \<or> typ = JudgerTypeStaticScan \<or> typ = JudgerTypeOnchainAssert \<and> mode = ModeFresh"

definition normalizePriority :: "int \<Rightarrow> int" where
  "normalizePriority priority = (if priority < 1 then 1 else if priority > 9 then 9 else priority)"

definition sourceOwnershipFromRequest :: "JudgeSubmitRequest \<Rightarrow> SourceOwnership" where
  "sourceOwnershipFromRequest req =
     \<lparr>soOwnerID = sqSourceOwnerID req, soCourseID = sqSourceCourseID req, soScope = TrimSpace (sqSourceScope req)\<rparr>"

definition validateSourceOwnership :: "SourceOwnership \<Rightarrow> judge_error + unit" where
  "validateSourceOwnership ownership =
     (let scope = TrimSpace (soScope ownership)
      in if soOwnerID ownership \<le> 0 \<or> scope = [] then Inl ErrJudgeTaskForbidden
         else if scope \<notin> {''teaching'', ''experiment'', ''contest''} then Inl ErrJudgeTaskForbidden
         else failIf (scope = ''teaching'' \<and> soCourseID ownership \<le> 0) ErrJudgeTaskForbidden)"

subsection \<open>What is frozen of a problem\<close>

fun deterministic_keys :: "json_obj \<Rightarrow> string list \<Rightarrow> judge_error + bool" where
  "deterministic_keys expectation [] = Inr True"
| "deterministic_keys expectation (key # keys) =
     (case map_of expectation key of
        None \<Rightarrow> deterministic_keys expectation keys
      | Some value \<Rightarrow>
          (case valueIsZero value of
             None \<Rightarrow> Inl PanicZeroValue
           | Some zero \<Rightarrow> if \<not> zero then Inr False else deterministic_keys expectation keys))"

definition hasDeterministicExpectation :: "json_obj \<Rightarrow> judge_error + bool" where
  "hasDeterministicExpectation expectation = deterministic_keys expectation [''random'', ''wall_clock'', ''external_network'']"

definition deterministic_or_fail :: "json_obj \<Rightarrow> judge_error + unit" where
  "deterministic_or_fail out =
     bindR (hasDeterministicExpectation out) (\<lambda>ok. failIf (\<not> ok) ErrJudgerConfigInvalid)"

definition firstNonEmptyString :: "json list \<Rightarrow> string" where
  "firstNonEmptyString values =
     (case find (\<lambda>text. text \<noteq> []) (map (\<lambda>v. TrimSpace (StringFromAny v)) values) of None \<Rightarrow> [] | Some text \<Rightarrow> text)"

definition uniqueSortedStrings :: "string list \<Rightarrow> string list" where
  "uniqueSortedStrings values = sort (remdups (filter (\<lambda>v. v \<noteq> []) values))"

definition assertion_label :: "json \<Rightarrow> string" where
  "assertion_label raw =
     (let assertion = ObjectFromAny raw
      in firstNonEmptyString [obj_get assertion ''expected_label'', obj_get assertion ''label'', obj_get assertion ''target''])"

definition assertion_text :: "string \<Rightarrow> json \<Rightarrow> string" where
  "assertion_text key raw = TrimSpace (StringFromAny (obj_get (ObjectFromAny raw) key))"

definition jstrings :: "string list \<Rightarrow> json" where
  "jstrings xs = JArr (map JStr xs)"

definition some_strings :: "string \<Rightarrow> string list \<Rightarrow> json_obj" where
  "some_strings key xs = (if xs = [] then [] else [(key, jstrings xs)])"

definition summarizeOnchainExpectation :: "json_obj \<Rightarrow> json_obj" where
  "summarizeOnchainExpectation expectation =
     (let assertions = SliceFromAny (obj_get expectation ''assertions'');
          steps = SliceFromAny (obj_get expectation ''chain_steps'');
          labels = filter (\<lambda>l. l \<noteq> []) (map assertion_label assertions);
          targets = uniqueSortedStrings (filter (\<lambda>t. t \<noteq> []) (map (assertion_text ''target'') assertions));
          operators = uniqueSortedStrings (filter (\<lambda>t. t \<noteq> []) (map (assertion_text ''op'') assertions))
      in [(''assertion_count'', JNum (FormatInt (int (length assertions))))] @
         (if steps = [] then [] else [(''chain_step_count'', JNum (FormatInt (int (length steps))))]) @
         some_strings ''expected_labels'' labels @ some_strings ''targets'' targets @ some_strings ''operators'' operators)"

definition summarizeSimCheckpointExpectation :: "json_obj \<Rightarrow> json_obj" where
  "summarizeSimCheckpointExpectation expectation =
     (let label = TrimSpace (StringFromAny (obj_get expectation ''expected_label''))
      in (if label = [] then [] else [(''expected_label'', JStr label)]) @
         (case obj_get expectation ''checkpoint'' of
            JObj m \<Rightarrow> [(''checkpoint_kind'', JStr ''object''), (''checkpoint_field_count'', JNum (FormatInt (int (length m))))]
          | JArr xs \<Rightarrow> [(''checkpoint_kind'', JStr ''array''), (''checkpoint_item_count'', JNum (FormatInt (int (length xs))))]
          | _ \<Rightarrow> [(''checkpoint_kind'', JStr ''scalar'')]))"

definition containsSensitiveExpectationMaterial :: "(json \<Rightarrow> string) \<Rightarrow> json_obj \<Rightarrow> bool" where
  "containsSensitiveExpectationMaterial marshal v = ContainsResultSensitiveText (ToLower (ShortJSON marshal (JObj v)))"

definition snapshotExpectationForJudger :: "(json \<Rightarrow> string) \<Rightarrow> int \<Rightarrow> json_obj \<Rightarrow> judge_error + json_obj" where
  "snapshotExpectationForJudger marshal typ out =
     (if typ = JudgerTypeFlag then
        (let hash = TrimSpace (StringFromAny (obj_get out ''flag_hash''));
             inputKey = TrimSpace (StringFromAny (obj_get out ''flag_input_key''));
             target = TrimSpace (StringFromAny (obj_get out ''flag_chain_target''))
         in if \<not> ValidSHA256Hex hash then Inl ErrJudgerConfigInvalid
            else if inputKey = [] then Inl ErrJudgerConfigInvalid
            else Inr ([(''flag_hash'', JStr hash), (''flag_input_key'', JStr inputKey)] @
              (if target = [] then []
               else [(''flag_chain_target'', JStr target),
                     (''flag_chain_field'', JStr (TrimSpace (StringFromAny (obj_get out ''flag_chain_field''))))])))
      else if typ = JudgerTypeOnchainAssert then
        (if SliceFromAny (obj_get out ''assertions'') = [] then Inl ErrJudgerConfigInvalid
         else thenR (deterministic_or_fail out) (Inr (summarizeOnchainExpectation out)))
      else if typ = JudgerTypeSimCheckpoint then
        (if map_of out ''checkpoint'' = None then Inl ErrJudgerConfigInvalid
         else thenR (deterministic_or_fail out) (Inr (summarizeSimCheckpointExpectation out)))
      else if containsSensitiveExpectationMaterial marshal out then Inl ErrJudgerConfigInvalid
      else thenR (deterministic_or_fail out) (Inr out))"

definition executionExpectationForJudger :: "int \<Rightarrow> ContentJudgeSpec \<Rightarrow> json_obj \<Rightarrow> judge_error + json_obj" where
  "executionExpectationForJudger typ spec snapshot =
     (let out = csExpectation spec
      in if typ = JudgerTypeOnchainAssert then
           (if SliceFromAny (obj_get out ''assertions'') = [] then Inl ErrJudgerConfigInvalid
            else thenR (deterministic_or_fail out) (Inr out))
         else if typ = JudgerTypeSimCheckpoint then
           (if map_of out ''checkpoint'' = None then Inl ErrJudgerConfigInvalid
            else thenR (deterministic_or_fail out) (Inr out))
         else Inr snapshot)"

definition snapshotExtraInputForJudger ::
  "(string \<Rightarrow> string option) \<Rightarrow> int \<Rightarrow> json_obj \<Rightarrow> json_obj \<Rightarrow> judge_error + json_obj" where
  "snapshotExtraInputForJudger hmac typ expectation extra =
     (if typ = JudgerTypeFlag then
        (if TrimSpace (StringFromAny (obj_get expectation ''flag_chain_target'')) \<noteq> [] then Inr []
         else let key = TrimSpace (StringFromAny (obj_get expectation ''flag_input_key''));
                  value = TrimSpace (StringFromAny (obj_get extra key))
              in if key = [] then Inl ErrJudgerConfigInvalid
                 else if value = [] then Inl ErrJudgerConfigInvalid
                 else (case hmac (TrimSpace value) of
                         None \<Rightarrow> Inl ErrJudgerConfigInvalid
                       | Some submittedHash \<Rightarrow> Inr [(''submitted_flag_hash'', JStr submittedHash)]))
      else if typ = JudgerTypeSimCheckpoint then
        (case map_of extra ''checkpoint'' of
           None \<Rightarrow> Inl ErrJudgerConfigInvalid | Some checkpoint \<Rightarrow> Inr [(''checkpoint'', checkpoint)])
      else Inr [])"

definition buildInputSnapshot ::
  "(json \<Rightarrow> string) \<Rightarrow> (string \<Rightarrow> string option) \<Rightarrow> (SandboxCompositionSnapshot \<Rightarrow> string option) \<Rightarrow> 64 word \<Rightarrow>
     Judger \<Rightarrow> ContentJudgeSpec \<Rightarrow> json_obj \<Rightarrow> judge_error + JudgeInputSnapshot" where
  "buildInputSnapshot marshal hmac digest defaultMax j spec extra =
     (if csJudgerCode spec \<noteq> [] \<and> csJudgerCode spec \<noteq> jgCode j then Inl ErrJudgeSpecUnavailable
      else bindR (snapshotExpectationForJudger marshal (jgType j) (csExpectation spec)) (\<lambda>expectation.
           bindR (snapshotExtraInputForJudger hmac (jgType j) expectation extra) (\<lambda>safeExtra.
           thenR (validateJudgerResourceSpecForUse digest j)
             (let rs = jgResourceSpec j
              in Inr \<lparr>inItemCode = csItemCode spec, inItemVersion = csItemVersion spec, inTraceID = [],
                inJudgerCode = jgCode j, inJudgerType = jgType j, inJudgerVersion = jgExecutorRef j,
                inSuiteRef = csSuiteRef spec, inSuiteArchiveName = jsSuiteArchiveName rs, inVersionHash = csVersionHash spec,
                inCodeHash = [], inCompositionSnapshot = jsCompositionSnapshot rs, inSandboxSourceRef = [],
                inGenesisRef = jsGenesisRef rs, inInitScriptRef = jsInitScriptRef rs, inCommand = jsCommand rs,
                inExecTarget = TrimSpace (jsExecTarget rs), inExecutionSidecars = jsExecutionSidecars rs,
                inTimeoutSec = timeoutForSnapshot j, inMaxRetries = maxRetriesForJudger j defaultMax,
                inMaxScore = csMaxScore spec, inExpectation = expectation, inExtraInput = safeExtra, inRejudge = False,
                inSanitizedCodeArchiveName = [], inSanitizedCodeArchiveRef = []\<rparr>))))"

subsection \<open>Access to tasks\<close>

definition ensureAccountCanAccessTask :: "JudgeTask \<Rightarrow> int \<Rightarrow> judge_error + unit" where
  "ensureAccountCanAccessTask task accountID =
     (if accountID \<le> 0 then Inl ErrJudgeTaskForbidden
      else if tkSourceOwnerID task > 0
      then if tkSourceOwnerID task = accountID \<or> tkSubmitterID task = accountID then Inr () else Inl ErrJudgeTaskForbidden
      else if tkSubmitterID task = accountID \<and> tkSourceScope task \<noteq> [] then Inr ()
      else Inl ErrJudgeTaskForbidden)"

definition TenantModules :: "string list" where
  "TenantModules = [''teaching'', ''experiment'', ''contest'', ''sim'', ''grade'']"

definition TenantModuleFromSourceRef :: "string \<Rightarrow> string" where
  "TenantModuleFromSourceRef sourceRef =
     (case SplitN2 sourceRef (CHR '':'') of
        [m, _] \<Rightarrow> if m \<in> set TenantModules then m else []
      | _ \<Rightarrow> [])"

text \<open>\<open>enabled\<close> answers \<open>IdentityService.RequireTenantModules\<close>.\<close>

definition requireTaskModule :: "(int \<Rightarrow> string \<Rightarrow> bool) \<Rightarrow> JudgeTask \<Rightarrow> judge_error + unit" where
  "requireTaskModule enabled task =
     (let m = TenantModuleFromSourceRef (tkSourceRef task)
      in if m = [] then Inl ErrJudgeTaskForbidden else failIf (\<not> enabled (tkTenantID task) m) ErrTenantModuleDisabled)"

subsection \<open>Conversions\<close>

definition judgeSandboxRef :: "int \<Rightarrow> string" where
  "judgeSandboxRef i = (if i \<le> 0 then [] else ''sandbox:'' @ Format i)"

definition parseSandboxRef :: "string \<Rightarrow> judge_error + int" where
  "parseSandboxRef raw = (case Parse (TrimSpace raw) of (i, ok) \<Rightarrow> if \<not> ok then Inl ErrJudgeSubmitInvalid else Inr i)"

definition contractStatus :: "int \<Rightarrow> int" where
  "contractStatus status =
     (if status = TaskQueued then JudgeTaskStatusQueued else if status = TaskJudging then JudgeTaskStatusRunning
      else if status = TaskDone then JudgeTaskStatusDone else if status = TaskCancelled then JudgeTaskStatusCanceled
      else JudgeTaskStatusFailed)"

definition resultRef :: "JudgeTask \<Rightarrow> string" where
  "resultRef task = ''judge:'' @ pad04 (YearOf (tkCreatedAt task)) @ '':result:'' @ Format (tkID task)"

definition contract_detail :: "ResultDetail \<Rightarrow> JudgeResultDetail" where
  "contract_detail detail = \<lparr>jdCase = rdCase detail, jdPassed = rdPassed detail, jdExpectedLabel = rdExpectedLabel detail,
     jdActual = rdActual detail, jdHint = rdHint detail\<rparr>"

definition contractResult :: "JudgeTask \<Rightarrow> JudgeResult option \<Rightarrow> JudgeTaskResult" where
  "contractResult task result =
     (case result of
        None \<Rightarrow> \<lparr>jtPassed = False, jtScore = 0, jtMaxScore = 0, jtDetails = [], jtResultRef = [], jtReplay = \<lparr>jrActions = []\<rparr>\<rparr>
      | Some r \<Rightarrow> \<lparr>jtPassed = rePassed r, jtScore = reScore r, jtMaxScore = reMaxScore r,
          jtDetails = map contract_detail (reDetails r), jtResultRef = resultRef task, jtReplay = reReplay r\<rparr>)"

definition contractTaskInfoFromModel :: "TaskInfo \<Rightarrow> JudgeTaskInfo" where
  "contractTaskInfoFromModel info =
     (let task = tiTask info;
          submitterTenantID = (if tkSubmitterTenantID task \<le> 0 then tkTenantID task else tkSubmitterTenantID task)
      in \<lparr>jiTaskID = tkID task, jiTenantID = tkTenantID task, jiSubmitterTenantID = submitterTenantID,
          jiSourceRef = tkSourceRef task, jiSubmitterID = tkSubmitterID task, jiStatus = contractStatus (tkStatus task),
          jiResult = contractResult task (tiResult info)\<rparr>)"

end
