(* ===== verification/JudgeExec.thy ===== *)
theory JudgeExec
  imports JudgeRules
begin

section \<open>Judge module: execution of one task\<close>

text \<open>
  \<open>service_worker.go\<close> and \<open>service_judgers.go\<close>: the choice of an execution path, the judging
  strategies and the checks on a result before it is stored. The sandbox engine is a state \<open>'s\<close> and the
  operations of \<open>SandboxService\<close> on it; the request checks with which its chain operations begin
  (\<open>sandbox/service_chain.go\<close>) are part of the model. An error of the content service, the object
  store or the command is an answer of the environment.
\<close>

subsection \<open>Computations on the sandbox engine\<close>

type_synonym ('s, 'a) run = "'s \<Rightarrow> (judge_error + 'a) \<times> 's"

definition ret :: "'a \<Rightarrow> ('s, 'a) run" where "ret x = (\<lambda>s. (Inr x, s))"
definition failS :: "judge_error \<Rightarrow> ('s, 'a) run" where "failS e = (\<lambda>s. (Inl e, s))"
definition lift :: "judge_error + 'a \<Rightarrow> ('s, 'a) run" where "lift r = (\<lambda>s. (r, s))"

definition bindS :: "('s, 'a) run \<Rightarrow> ('a \<Rightarrow> ('s, 'b) run) \<Rightarrow> ('s, 'b) run" where
  "bindS m f = (\<lambda>s. case m s of (r, s') \<Rightarrow> (case r of Inl e \<Rightarrow> (Inl e, s') | Inr x \<Rightarrow> f x s'))"

lemma bindS_Inr: "bindS m f s = (Inr y, t) \<longleftrightarrow> (\<exists>x u. m s = (Inr x, u) \<and> f x u = (Inr y, t))"
  by (auto simp: bindS_def split: prod.splits sum.splits)

lemma bindS_fails: "fst (m s) = Inl e \<Longrightarrow> fst (bindS m f s) = Inl e"
  by (cases "m s") (simp add: bindS_def)

lemma run_simps [simp]:
  "ret x s = (r, t) \<longleftrightarrow> r = Inr x \<and> t = s" "failS e s = (r, t) \<longleftrightarrow> r = Inl e \<and> t = s" "lift q s = (r, t) \<longleftrightarrow> r = q \<and> t = s"
  by (auto simp: ret_def failS_def lift_def)

subsection \<open>Requests to the sandbox engine\<close>

record ChainRequest =
  chTenantID :: int
  chSandboxID :: int
  chSourceRef :: string
  chRuntimeInstance :: string
  chPayload :: json_obj
  chTarget :: string

record 's chain_ops =
  opDeploy :: "ChainRequest \<Rightarrow> 's \<Rightarrow> json_obj option \<times> 's"
  opSendTx :: "ChainRequest \<Rightarrow> 's \<Rightarrow> json_obj option \<times> 's"
  opReset :: "ChainRequest \<Rightarrow> 's \<Rightarrow> bool \<times> 's"
  opQuery :: "ChainRequest \<Rightarrow> 's \<Rightarrow> json_obj option \<times> 's"

definition chain_request_bad :: "ChainRequest \<Rightarrow> bool" where
  "chain_request_bad req \<longleftrightarrow>
     chTenantID req \<le> 0 \<or> chSandboxID req \<le> 0 \<or> TrimSpace (chRuntimeInstance req) = [] \<or> \<not> ValidSourceRef (chSourceRef req)"

definition ChainDeploy :: "'s chain_ops \<Rightarrow> ChainRequest \<Rightarrow> 's \<Rightarrow> json_obj option \<times> 's" where
  "ChainDeploy ops req s = (if chain_request_bad req \<or> chPayload req = [] then (None, s) else opDeploy ops req s)"

definition ChainSendTx :: "'s chain_ops \<Rightarrow> ChainRequest \<Rightarrow> 's \<Rightarrow> json_obj option \<times> 's" where
  "ChainSendTx ops req s = (if chain_request_bad req \<or> chPayload req = [] then (None, s) else opSendTx ops req s)"

definition ChainReset :: "'s chain_ops \<Rightarrow> ChainRequest \<Rightarrow> 's \<Rightarrow> bool \<times> 's" where
  "ChainReset ops req s = (if chain_request_bad req then (False, s) else opReset ops req s)"

definition ChainQuery :: "'s chain_ops \<Rightarrow> ChainRequest \<Rightarrow> 's \<Rightarrow> json_obj option \<times> 's" where
  "ChainQuery ops req s = (if chain_request_bad req \<or> chTarget req = [] then (None, s) else opQuery ops req s)"

definition answered :: "judge_error \<Rightarrow> ('s \<Rightarrow> 'a option \<times> 's) \<Rightarrow> ('s, 'a) run" where
  "answered e call = (\<lambda>s. case call s of (None, t) \<Rightarrow> (Inl e, t) | (Some x, t) \<Rightarrow> (Inr x, t))"

definition sandboxSourceRef :: "JudgeTask \<Rightarrow> string" where
  "sandboxSourceRef task =
     (if tkSandboxMode task = ModeReuse \<and> TrimSpace (inSandboxSourceRef (tkInputSnapshot task)) \<noteq> []
      then inSandboxSourceRef (tkInputSnapshot task) else tkSourceRef task)"

definition chain_request :: "JudgeTask \<Rightarrow> int \<Rightarrow> string \<Rightarrow> json_obj \<Rightarrow> string \<Rightarrow> ChainRequest" where
  "chain_request task sandboxID runtimeInstance payload target =
     \<lparr>chTenantID = tkTenantID task, chSandboxID = sandboxID, chSourceRef = sandboxSourceRef task,
      chRuntimeInstance = runtimeInstance, chPayload = payload, chTarget = target\<rparr>"

definition privateSidecar :: "ComponentSpec \<Rightarrow> SandboxPrivateSidecarSpec" where
  "privateSidecar item =
     \<lparr>psName = cName item, psImageURL = cImageURL item, psCommand = cCommand item, psArgs = cArgs item,
      psPrepullCommand = cPrepullCommand item, psPrepullHold = cPrepullHold item, psEnv = cEnv item,
      psResources = cResources item, psWorkdir = cWorkdir item, psReadOnlyRootFilesystem = cReadOnlyRootFilesystem item,
      psLabels = cLabels item, psMountWorkspace = cMountWorkspace item, psMountDomains = cMountDomains item,
      psEphemeralMounts = cEphemeralMounts item\<rparr>"

definition privateSidecarsForSandbox :: "ComponentSpec list \<Rightarrow> SandboxPrivateSidecarSpec list" where
  "privateSidecarsForSandbox items = map privateSidecar items"

text \<open>\<open>sandbox/convert.go\<close> on the other side of the contract.\<close>

definition noProbe :: ProbeSpec where
  "noProbe = \<lparr>probeType = [], probePath = [], probePort = [], probeCommand = [], periodSeconds = 0, failureThreshold = 0\<rparr>"

definition privateComponent :: "SandboxPrivateSidecarSpec \<Rightarrow> ComponentSpec" where
  "privateComponent item =
     \<lparr>cName = psName item, cImageURL = psImageURL item, cCommand = psCommand item, cArgs = psArgs item,
      cEnv = psEnv item, cSecretEnv = [], cPorts = [], cResources = psResources item, cReadinessProbe = noProbe,
      cLivenessProbe = noProbe, cWorkdir = psWorkdir item, cReadOnlyRootFilesystem = psReadOnlyRootFilesystem item,
      cLabels = psLabels item, cMountWorkspace = psMountWorkspace item, cMountDomains = psMountDomains item,
      cWritableMountDomains = [], cEphemeralMounts = psEphemeralMounts item, cPrepullCommand = psPrepullCommand item,
      cPrepullHold = psPrepullHold item, cRunAsUser = None, cRunAsGroup = None\<rparr>"

definition privateSidecarsFromContract :: "SandboxPrivateSidecarSpec list \<Rightarrow> ComponentSpec list" where
  "privateSidecarsFromContract items = map privateComponent items"

record SandboxCreateRequest =
  crqTenantID :: int
  crqCompositionSnapshot :: SandboxCompositionSnapshot
  crqInitCodeRef :: string
  crqInitScriptRef :: string
  crqOwnerAccountID :: int
  crqAuthorizedAccountIDs :: "int list"
  crqSourceRef :: string
  crqScopeRef :: string
  crqKeepAlive :: bool
  crqSnapshotEnabled :: bool
  crqKeepAliveMinutes :: int
  crqSnapshotRetentionMinutes :: int
  crqPrivateSidecars :: "SandboxPrivateSidecarSpec list"

definition createInputFromContract :: "SandboxCreateRequest \<Rightarrow> CreateSandboxInputModel" where
  "createInputFromContract req =
     \<lparr>ciTenantID = crqTenantID req, ciCompositionSnapshot = crqCompositionSnapshot req,
      ciInitCodeRef = TrimSpace (crqInitCodeRef req), ciInitScriptRef = TrimSpace (crqInitScriptRef req),
      ciOwnerAccountID = crqOwnerAccountID req, ciAuthorizedAccountIDs = crqAuthorizedAccountIDs req,
      ciSourceRef = TrimSpace (crqSourceRef req), ciScopeRef = TrimSpace (crqScopeRef req),
      ciKeepAlive = crqKeepAlive req, ciSnapshotEnabled = crqSnapshotEnabled req,
      ciKeepAliveMinutes = crqKeepAliveMinutes req, ciSnapshotRetentionMinutes = crqSnapshotRetentionMinutes req,
      ciPrivateSidecars = privateSidecarsFromContract (crqPrivateSidecars req)\<rparr>"

definition judge_create_request :: "JudgeTask \<Rightarrow> SandboxCreateRequest" where
  "judge_create_request task =
     \<lparr>crqTenantID = tkTenantID task, crqCompositionSnapshot = inCompositionSnapshot (tkInputSnapshot task),
      crqInitCodeRef = [], crqInitScriptRef = inInitScriptRef (tkInputSnapshot task), crqOwnerAccountID = tkSubmitterID task,
      crqAuthorizedAccountIDs = [], crqSourceRef = tkSourceRef task, crqScopeRef = tkSourceRef task, crqKeepAlive = False,
      crqSnapshotEnabled = False, crqKeepAliveMinutes = 0, crqSnapshotRetentionMinutes = 0,
      crqPrivateSidecars = privateSidecarsForSandbox (inExecutionSidecars (tkInputSnapshot task))\<rparr>"

subsection \<open>Judging strategies\<close>

record judge_codec =
  cdMarshal :: "json \<Rightarrow> string"
  cdSprint :: "json \<Rightarrow> string"
  cdDetails :: "ResultDetail list \<Rightarrow> string"
  cdReplay :: "JudgeReplayTrace \<Rightarrow> string"
  cdResult :: "string \<Rightarrow> JudgeExecutionResult option"
  cdHmac :: "string \<Rightarrow> string option"

definition flagCaseText :: string where
  "flagCaseText = [CHR ''F'', CHR ''l'', CHR ''a'', CHR ''g'', CHR '' '', CHR 0xE6, CHR 0xA0, CHR 0xA1, CHR 0xE9, CHR 0xAA, CHR 0x8C]"

definition flagExpectedText :: string where
  "flagExpectedText = [CHR 0xE5, CHR 0xBA, CHR 0x94, CHR 0xE6, CHR 0x8F, CHR 0x90, CHR 0xE4, CHR 0xBA, CHR 0xA4, CHR 0xE6,
     CHR 0xAD, CHR 0xA3, CHR 0xE7, CHR 0xA1, CHR 0xAE, CHR 0xE5, CHR 0x87, CHR 0xAD, CHR 0xE8, CHR 0xAF, CHR 0x81]"

definition flagActualText :: "bool \<Rightarrow> string" where
  "flagActualText passed =
     (if passed then [CHR 0xE5, CHR 0x87, CHR 0xAD, CHR 0xE8, CHR 0xAF, CHR 0x81, CHR 0xE6, CHR 0xAD, CHR 0xA3, CHR 0xE7, CHR 0xA1, CHR 0xAE]
      else [CHR 0xE5, CHR 0x87, CHR 0xAD, CHR 0xE8, CHR 0xAF, CHR 0x81, CHR 0xE4, CHR 0xB8, CHR 0x8D, CHR 0xE6, CHR 0xAD, CHR 0xA3,
            CHR 0xE7, CHR 0xA1, CHR 0xAE])"

definition checkpointCaseText :: string where
  "checkpointCaseText = [CHR 0xE4, CHR 0xBB, CHR 0xBF, CHR 0xE7, CHR 0x9C, CHR 0x9F, CHR 0xE6, CHR 0xA3, CHR 0x80, CHR 0xE6,
     CHR 0x9F, CHR 0xA5, CHR 0xE7, CHR 0x82, CHR 0xB9]"

definition judgeRuntimeInstance :: "JudgeTask \<Rightarrow> judge_error + string" where
  "judgeRuntimeInstance task =
     (let inst = TrimSpace (scWorkspaceRuntimeInstance (snSpec (inCompositionSnapshot (tkInputSnapshot task))))
      in if inst = [] then Inl ErrJudgerConfigInvalid else Inr inst)"

definition runChainStep ::
  "'s chain_ops \<Rightarrow> JudgeTask \<Rightarrow> int \<Rightarrow> string \<Rightarrow> json_obj \<Rightarrow> ('s, JudgeReplayAction option) run" where
  "runChainStep ops task sandboxID runtimeInstance step =
     (let op = TrimSpace (StringFromAny (obj_get step ''op''));
          raw = ObjectFromAny (obj_get step ''payload'');
          payload = sanitizeReplayMap raw;
          req = chain_request task sandboxID runtimeInstance raw [];
          call = (\<lambda>f. bindS (answered ErrFromSandbox (f ops req)) (\<lambda>output.
                    ret (Some \<lparr>jaSeq = 0, jaOp = op, jaPayload = payload, jaOutput = sanitizeReplayMap output\<rparr>)))
      in if op = ''deploy'' then call ChainDeploy
         else if op = ''tx'' then call ChainSendTx
         else if op = ''reset''
         then (\<lambda>s. case ChainReset ops req s of
                 (ok, t) \<Rightarrow> if ok then (Inr (Some \<lparr>jaSeq = 0, jaOp = op, jaPayload = [], jaOutput = []\<rparr>), t)
                            else (Inl ErrFromSandbox, t))
         else if op = ''query'' \<or> op = [] then ret None
         else failS ErrJudgerConfigInvalid)"

fun run_chain_steps ::
  "'s chain_ops \<Rightarrow> JudgeTask \<Rightarrow> int \<Rightarrow> string \<Rightarrow> int \<Rightarrow> json list \<Rightarrow> ('s, JudgeReplayAction list) run" where
  "run_chain_steps ops task sandboxID runtimeInstance seq [] = ret []"
| "run_chain_steps ops task sandboxID runtimeInstance seq (raw # steps) =
     bindS (runChainStep ops task sandboxID runtimeInstance (ObjectFromAny raw)) (\<lambda>action.
     bindS (case action of
              None \<Rightarrow> ret []
            | Some a \<Rightarrow> if seq + 1 > 2147483647 then failS ErrJudgerConfigInvalid else ret [a\<lparr>jaSeq := seq + 1\<rparr>]) (\<lambda>head.
     bindS (run_chain_steps ops task sandboxID runtimeInstance (seq + 1) steps) (\<lambda>rest. ret (head @ rest))))"

definition check_detail :: "AssertionResult \<Rightarrow> ResultDetail" where
  "check_detail r = \<lparr>rdCase = arCase r, rdSource = [], rdTarget = [], rdPassed = arPassed r,
     rdExpectedLabel = arExpectedLabel r, rdActual = arActual r, rdHint = arHint r\<rparr>"

definition run_assertion ::
  "judge_codec \<Rightarrow> 's chain_ops \<Rightarrow> JudgeTask \<Rightarrow> int \<Rightarrow> string \<Rightarrow> json \<Rightarrow> ('s, ResultDetail) run" where
  "run_assertion codec ops task sandboxID runtimeInstance raw =
     (case FromMap (ObjectFromAny raw) of
        None \<Rightarrow> failS ErrJudgerConfigInvalid
      | Some a \<Rightarrow>
          bindS (answered ErrJudgeWorkerFailed (ChainQuery ops (chain_request task sandboxID runtimeInstance [] (axTarget a)))) (\<lambda>actual.
            (case Check (cdMarshal codec) (cdSprint codec) a actual of
               None \<Rightarrow> failS ErrJudgeWorkerFailed | Some r \<Rightarrow> ret (check_detail r))))"

fun run_assertions ::
  "judge_codec \<Rightarrow> 's chain_ops \<Rightarrow> JudgeTask \<Rightarrow> int \<Rightarrow> string \<Rightarrow> json list \<Rightarrow> ('s, ResultDetail list) run" where
  "run_assertions codec ops task sandboxID runtimeInstance [] = ret []"
| "run_assertions codec ops task sandboxID runtimeInstance (raw # raws) =
     bindS (run_assertion codec ops task sandboxID runtimeInstance raw) (\<lambda>d.
     bindS (run_assertions codec ops task sandboxID runtimeInstance raws) (\<lambda>ds. ret (d # ds)))"

definition strategy_result :: "JudgeTask \<Rightarrow> bool \<Rightarrow> ResultDetail list \<Rightarrow> JudgeReplayAction list \<Rightarrow> JudgeExecutionResult" where
  "strategy_result task passed details actions =
     \<lparr>exPassed = passed, exScore = (if passed then inMaxScore (tkInputSnapshot task) else 0),
      exMaxScore = inMaxScore (tkInputSnapshot task), exDetails = details, exReplay = \<lparr>jrActions = actions\<rparr>,
      exJudgeSandboxRef = []\<rparr>"

definition judgeOnchainAssertions ::
  "judge_codec \<Rightarrow> 's chain_ops \<Rightarrow> JudgeTask \<Rightarrow> int \<Rightarrow> ('s, JudgeExecutionResult) run" where
  "judgeOnchainAssertions codec ops task sandboxID =
     (let expectation = inExpectation (tkInputSnapshot task);
          steps = SliceFromAny (obj_get expectation ''chain_steps'');
          assertions = SliceFromAny (obj_get expectation ''assertions'')
      in if assertions = [] then failS ErrJudgerConfigInvalid
         else bindS (lift (judgeRuntimeInstance task)) (\<lambda>runtimeInstance.
              bindS (run_chain_steps ops task sandboxID runtimeInstance 0 steps) (\<lambda>actions.
              bindS (run_assertions codec ops task sandboxID runtimeInstance assertions) (\<lambda>details.
                ret (strategy_result task (list_all rdPassed details) details actions)))))"

definition flag_detail :: "bool \<Rightarrow> ResultDetail" where
  "flag_detail passed = \<lparr>rdCase = flagCaseText, rdSource = [], rdTarget = [], rdPassed = passed,
     rdExpectedLabel = flagExpectedText, rdActual = flagActualText passed, rdHint = []\<rparr>"

text \<open>The digest of the value found on the chain: the named field, or a summary of the whole answer.\<close>

definition chain_flag_hash :: "judge_codec \<Rightarrow> json_obj \<Rightarrow> json_obj \<Rightarrow> judge_error + string" where
  "chain_flag_hash codec expectation actual =
     (let field = TrimSpace (StringFromAny (obj_get expectation ''flag_chain_field''));
          submitted = TrimSpace (StringFromAny (obj_get actual field));
          hmac = (\<lambda>text. case cdHmac codec text of None \<Rightarrow> Inl ErrJudgerConfigInvalid | Some h \<Rightarrow> Inr h)
      in bindR (if submitted = [] then Inr [] else hmac (TrimSpace submitted)) (\<lambda>h.
           if h = [] then hmac (ShortJSON (cdMarshal codec) (JObj actual)) else Inr h))"

definition judgeFlag :: "judge_codec \<Rightarrow> 's chain_ops \<Rightarrow> JudgeTask \<Rightarrow> int \<Rightarrow> ('s, JudgeExecutionResult) run" where
  "judgeFlag codec ops task sandboxID =
     (let expectation = inExpectation (tkInputSnapshot task);
          hash = TrimSpace (StringFromAny (obj_get expectation ''flag_hash''));
          inputKey = TrimSpace (StringFromAny (obj_get expectation ''flag_input_key''));
          target = TrimSpace (StringFromAny (obj_get expectation ''flag_chain_target''))
      in if hash = [] \<or> inputKey = [] then failS ErrJudgerConfigInvalid
         else bindS
           (if target = [] then ret (TrimSpace (StringFromAny (obj_get (inExtraInput (tkInputSnapshot task)) ''submitted_flag_hash'')))
            else bindS (answered ErrJudgeWorkerFailed (ChainQuery ops (chain_request task sandboxID [] [] target))) (\<lambda>actual.
                   lift (chain_flag_hash codec expectation actual))) (\<lambda>submittedHash.
           if submittedHash = [] then failS ErrJudgerConfigInvalid
           else (let passed = EqualHexHMAC submittedHash hash
                 in ret (strategy_result task passed [flag_detail passed] []))))"

definition checkpoint_detail :: "judge_codec \<Rightarrow> JudgeTask \<Rightarrow> json \<Rightarrow> bool \<Rightarrow> ResultDetail" where
  "checkpoint_detail codec task actual passed =
     \<lparr>rdCase = checkpointCaseText, rdSource = [], rdTarget = [], rdPassed = passed,
      rdExpectedLabel = TrimSpace (StringFromAny (obj_get (inExpectation (tkInputSnapshot task)) ''expected_label'')),
      rdActual = ShortJSON (cdMarshal codec) actual, rdHint = []\<rparr>"

definition judgeSimCheckpoint :: "judge_codec \<Rightarrow> JudgeTask \<Rightarrow> JudgeExecutionResult" where
  "judgeSimCheckpoint codec task =
     (let expected = obj_get (inExpectation (tkInputSnapshot task)) ''checkpoint'';
          actual = obj_get (inExtraInput (tkInputSnapshot task)) ''checkpoint'';
          passed = DeepEqual expected actual
      in strategy_result task passed [checkpoint_detail codec task actual passed] [])"

text \<open>\<open>None\<close>: the judger is not one of the built-in strategies.\<close>

definition executeJudgerStrategy ::
  "judge_codec \<Rightarrow> 's chain_ops \<Rightarrow> JudgeTask \<Rightarrow> int \<Rightarrow> ('s, JudgeExecutionResult) run option" where
  "executeJudgerStrategy codec ops task sandboxID =
     (let typ = inJudgerType (tkInputSnapshot task)
      in if typ = JudgerTypeOnchainAssert then Some (judgeOnchainAssertions codec ops task sandboxID)
         else if typ = JudgerTypeFlag then Some (judgeFlag codec ops task sandboxID)
         else if typ = JudgerTypeSimCheckpoint then Some (ret (judgeSimCheckpoint codec task))
         else None)"

subsection \<open>Checks on a result\<close>

definition decodeCommandResult :: "judge_codec \<Rightarrow> string \<Rightarrow> int \<Rightarrow> judge_error + JudgeExecutionResult" where
  "decodeCommandResult codec stdout maxBytes =
     (if maxBytes \<le> 0 then Inl ErrJudgeWorkerFailed
      else if stdout = [] \<or> int (length stdout) > maxBytes then Inl ErrJudgeWorkerFailed
      else (case cdResult codec stdout of None \<Rightarrow> Inl ErrJudgeWorkerFailed | Some out \<Rightarrow> Inr out))"

definition normalizeExecutionResult ::
  "judge_codec \<Rightarrow> JudgeExecutionResult \<Rightarrow> int \<Rightarrow> int \<Rightarrow> judge_error + JudgeExecutionResult" where
  "normalizeExecutionResult codec result0 snapshotMax maxDetailsBytes =
     (let result = (if exMaxScore result0 \<le> 0 then result0\<lparr>exMaxScore := snapshotMax\<rparr> else result0)
      in if exMaxScore result \<le> 0 \<or> exScore result < 0 \<or> exScore result > exMaxScore result then Inl ErrJudgeWorkerFailed
         else thenR (validateResultDetails (exDetails result))
           (if int (length (cdDetails codec (exDetails result))) > maxDetailsBytes then Inl ErrJudgeWorkerFailed
            else if int (length (cdReplay codec (exReplay result))) > maxDetailsBytes then Inl ErrJudgeWorkerFailed
            else Inr result))"

subsection \<open>One execution\<close>

definition SandboxPhaseReady :: int where "SandboxPhaseReady = 2"
definition SandboxPhaseFullyReady :: int where "SandboxPhaseFullyReady = 4"

text \<open>The fields of \<open>contracts.SandboxInfo\<close> the judge reads.\<close>

record SandboxView =
  svTenantID :: int
  svSourceRef :: string
  svPhase :: int
  svStatus :: int

datatype exec_outcome = ExecTimeout | ExecFailed | ExecStdout string

record 's judge_env =
  jvCodec :: judge_codec
  jvOps :: "'s chain_ops"
  jvSpec :: "ContentJudgeSpec option"
  jvView :: "int \<Rightarrow> SandboxView option"
  jvCreate :: "SandboxCreateRequest \<Rightarrow> 's \<Rightarrow> int option \<times> 's"
  jvReady :: "judge_error + unit"
  jvInjectCode :: "judge_error + unit"
  jvInjectSuite :: "judge_error + unit"
  jvExec :: "JudgeTask \<Rightarrow> int \<Rightarrow> 's \<Rightarrow> exec_outcome \<times> 's"
  jvMaxBytes :: int

definition needsSandbox :: "JudgeTask \<Rightarrow> bool" where
  "needsSandbox task =
     (let typ = inJudgerType (tkInputSnapshot task)
      in if typ = JudgerTypeFlag
         then TrimSpace (StringFromAny (obj_get (inExpectation (tkInputSnapshot task)) ''flag_chain_target'')) \<noteq> []
         else typ \<noteq> JudgerTypeSimCheckpoint)"

definition taskWithExecutionExpectation :: "'s judge_env \<Rightarrow> JudgeTask \<Rightarrow> judge_error + JudgeTask" where
  "taskWithExecutionExpectation env task =
     (let input = tkInputSnapshot task
      in if inJudgerType input \<noteq> JudgerTypeOnchainAssert \<and> inJudgerType input \<noteq> JudgerTypeSimCheckpoint then Inr task
         else if TrimSpace (inItemCode input) = [] \<or> TrimSpace (inItemVersion input) = [] then Inr task
         else (case jvSpec env of
             None \<Rightarrow> Inl ErrJudgeSpecUnavailable
           | Some spec \<Rightarrow>
               if TrimSpace (csVersionHash spec) \<noteq> [] \<and> TrimSpace (csVersionHash spec) \<noteq> TrimSpace (inVersionHash input)
               then Inl ErrJudgeSpecUnavailable
               else if csJudgerCode spec \<noteq> [] \<and> csJudgerCode spec \<noteq> inJudgerCode input then Inl ErrJudgeSpecUnavailable
               else bindR (executionExpectationForJudger (inJudgerType input) spec (inExpectation input)) (\<lambda>expectation.
                      Inr (task\<lparr>tkInputSnapshot := input\<lparr>inExpectation := expectation\<rparr>\<rparr>))))"

text \<open>
  The polling loop of \<open>waitSandboxReady\<close> on the readings of the sandbox and the clock; \<open>None\<close> means
  it still waits when the readings end. The products stay below \<open>2 ^ 63\<close>: both summands are \<open>int32\<close> seconds.
\<close>

datatype poll = Poll "SandboxView option" int | PollCancelled

definition sandbox_up :: "SandboxView \<Rightarrow> bool" where
  "sandbox_up info \<longleftrightarrow>
     svStatus info \<in> {SandboxStatusReady, SandboxStatusRunning, SandboxStatusIdle} \<and>
     (svPhase info = SandboxPhaseReady \<or> svPhase info = SandboxPhaseFullyReady)"

fun poll_ready :: "int \<Rightarrow> poll list \<Rightarrow> (judge_error + unit) option" where
  "poll_ready deadline [] = None"
| "poll_ready deadline (PollCancelled # polls) = Some (Inl ErrJudgeWorkerFailed)"
| "poll_ready deadline (Poll info now # polls) =
     (case info of
        None \<Rightarrow> Some (Inl ErrJudgeWorkerFailed)
      | Some view \<Rightarrow>
          if svStatus view = SandboxStatusFailed \<or> svStatus view = SandboxStatusDestroyed then Some (Inl ErrJudgeWorkerFailed)
          else if sandbox_up view then Some (Inr ())
          else if now > deadline then Some (Inl ErrJudgeTimeout)
          else poll_ready deadline polls)"

definition waitSandboxReady :: "JudgeConfig \<Rightarrow> JudgeTask \<Rightarrow> int \<Rightarrow> poll list \<Rightarrow> (judge_error + unit) option" where
  "waitSandboxReady cfg task start polls =
     (case Int32 (jcfSandboxReadyGraceSeconds cfg) of
        (grace, ok) \<Rightarrow>
          if \<not> ok \<or> sint grace < 0 then Some (Inl ErrJudgeTimeout)
          else let timeoutSeconds = inTimeoutSec (tkInputSnapshot task) + sint grace
               in if timeoutSeconds \<le> 0 then Some (Inl ErrJudgeTimeout)
                  else poll_ready (start + timeoutSeconds * 1000000000) polls)"

lemma poll_ready_returns: "Poll info now \<in> set polls \<Longrightarrow> deadline < now \<Longrightarrow> poll_ready deadline polls \<noteq> None"
  by (induction polls rule: poll_ready.induct) (auto split: option.splits)

definition reuse_sandbox :: "'s judge_env \<Rightarrow> JudgeTask \<Rightarrow> judge_error + int" where
  "reuse_sandbox env task =
     bindR (parseSandboxRef (tkTargetSandboxRef task)) (\<lambda>i.
       (case jvView env i of
          None \<Rightarrow> Inl ErrJudgeWorkerFailed
        | Some info \<Rightarrow>
            if svTenantID info \<noteq> tkTenantID task \<or> svStatus info = SandboxStatusDestroyed \<or> svStatus info = SandboxStatusFailed
            then Inl ErrJudgeTaskStateInvalid
            else if svSourceRef info \<noteq> TrimSpace (inSandboxSourceRef (tkInputSnapshot task)) then Inl ErrJudgeTaskStateInvalid
            else Inr i))"

definition injectStudentCode :: "'s judge_env \<Rightarrow> JudgeTask \<Rightarrow> judge_error + unit" where
  "injectStudentCode env task =
     (if TrimSpace (inSanitizedCodeArchiveRef (tkInputSnapshot task)) = [] then Inl ErrJudgeInputArchiveInvalid
      else jvInjectCode env)"

definition injectPrivateSuite :: "'s judge_env \<Rightarrow> JudgeTask \<Rightarrow> judge_error + unit" where
  "injectPrivateSuite env task =
     (if TrimSpace (inSuiteRef (tkInputSnapshot task)) = [] then Inr () else jvInjectSuite env)"

text \<open>The sandbox, whether it was created for this execution, and the error.\<close>

definition resolveSandbox :: "'s judge_env \<Rightarrow> JudgeTask \<Rightarrow> 's \<Rightarrow> (int \<times> bool \<times> (judge_error + unit)) \<times> 's" where
  "resolveSandbox env task s =
     (if tkSandboxMode task = ModeReuse
      then (case reuse_sandbox env task of Inl e \<Rightarrow> ((0, False, Inl e), s) | Inr i \<Rightarrow> ((i, False, Inr ()), s))
      else (case jvCreate env (judge_create_request task) s of
              (None, t) \<Rightarrow> ((0, False, Inl ErrJudgeWorkerFailed), t)
            | (Some i, t) \<Rightarrow>
                ((i, True,
                  thenR (jvReady env)
                    (thenR (if judgerRequiresCode (inJudgerType (tkInputSnapshot task)) (tkSandboxMode task)
                            then injectStudentCode env task else Inr ())
                       (injectPrivateSuite env task))), t)))"

definition runJudgeCommand :: "'s judge_env \<Rightarrow> JudgeTask \<Rightarrow> int \<Rightarrow> ('s, JudgeExecutionResult) run" where
  "runJudgeCommand env task sandboxID =
     (if inCommand (tkInputSnapshot task) = [] then failS ErrJudgerConfigInvalid
      else (\<lambda>s. case jvExec env task sandboxID s of
              (ExecTimeout, t) \<Rightarrow> (Inl ErrJudgeTimeout, t)
            | (ExecFailed, t) \<Rightarrow> (Inl ErrJudgeWorkerFailed, t)
            | (ExecStdout out, t) \<Rightarrow>
                (bindR (decodeCommandResult (jvCodec env) out (jvMaxBytes env)) (\<lambda>result.
                   normalizeExecutionResult (jvCodec env) (result\<lparr>exJudgeSandboxRef := judgeSandboxRef sandboxID\<rparr>)
                     (inMaxScore (tkInputSnapshot task)) (jvMaxBytes env)), t)))"

text \<open>After the sandbox is there. A command is run for test cases and static scans only.\<close>

definition judge_in_sandbox :: "'s judge_env \<Rightarrow> JudgeTask \<Rightarrow> int \<Rightarrow> ('s, JudgeExecutionResult) run" where
  "judge_in_sandbox env task sandboxID =
     (case executeJudgerStrategy (jvCodec env) (jvOps env) task sandboxID of
        Some run \<Rightarrow>
          bindS run (\<lambda>result. lift (normalizeExecutionResult (jvCodec env)
            (result\<lparr>exJudgeSandboxRef := judgeSandboxRef sandboxID\<rparr>) (inMaxScore (tkInputSnapshot task)) (jvMaxBytes env)))
      | None \<Rightarrow>
          if inJudgerType (tkInputSnapshot task) \<noteq> JudgerTypeTestcase \<and> inJudgerType (tkInputSnapshot task) \<noteq> JudgerTypeStaticScan
          then failS ErrJudgerConfigInvalid
          else runJudgeCommand env task sandboxID)"

text \<open>The result of an execution and the sandboxes it destroys when it returns.\<close>

definition executeTask ::
  "'s judge_env \<Rightarrow> JudgeTask \<Rightarrow> 's \<Rightarrow> (judge_error + JudgeExecutionResult) \<times> int list \<times> 's" where
  "executeTask env task s =
     (if inJudgerType (tkInputSnapshot task) = JudgerTypeManual then (Inl ErrJudgeTaskStateInvalid, [], s)
      else (case taskWithExecutionExpectation env task of
          Inl e \<Rightarrow> (Inl e, [], s)
        | Inr executionTask \<Rightarrow>
            (case if needsSandbox task then None else executeJudgerStrategy (jvCodec env) (jvOps env) executionTask 0 of
               Some run \<Rightarrow>
                 (case bindS run (\<lambda>result. lift (normalizeExecutionResult (jvCodec env) result
                         (inMaxScore (tkInputSnapshot executionTask)) (jvMaxBytes env))) s of (r, t) \<Rightarrow> (r, [], t))
             | None \<Rightarrow>
                 (case resolveSandbox env executionTask s of
                    ((sandboxID, fresh, ready), t) \<Rightarrow>
                      (case (case ready of Inl e \<Rightarrow> (Inl e, t) | Inr _ \<Rightarrow> judge_in_sandbox env executionTask sandboxID t) of
                         (r, u) \<Rightarrow> (r, if fresh \<and> sandboxID > 0 then [sandboxID] else [], u))))))"

end
