(* ===== verification/JudgeProps.thy ===== *)
theory JudgeProps
  imports JudgeExec
begin

section \<open>Judge module: what a snapshot reveals and a verdict means\<close>

text \<open>
  Lemmas and properties of \<open>JudgeRules\<close> and \<open>JudgeExec\<close>: frozen snapshots do not depend on the
  answers, replays and details carry no secret, a verdict agrees with the checks behind it, and the
  sandboxes of an execution are released.
\<close>

subsection \<open>Snapshots and answers\<close>

text \<open>
  Two problem configurations with the same public part: the same assertions up to their expected
  values, the same number of chain steps, a checkpoint of the same shape, the same digest of a flag.
\<close>

definition same_text :: "string \<Rightarrow> json_obj \<Rightarrow> json_obj \<Rightarrow> bool" where
  "same_text key a b \<longleftrightarrow> TrimSpace (StringFromAny (obj_get a key)) = TrimSpace (StringFromAny (obj_get b key))"

definition same_entry :: "string \<Rightarrow> json_obj \<Rightarrow> json_obj \<Rightarrow> bool" where
  "same_entry key a b \<longleftrightarrow> map_of a key = map_of b key"

definition same_determinism :: "json_obj \<Rightarrow> json_obj \<Rightarrow> bool" where
  "same_determinism a b \<longleftrightarrow> same_entry ''random'' a b \<and> same_entry ''wall_clock'' a b \<and> same_entry ''external_network'' a b"

definition same_assertion :: "json \<Rightarrow> json \<Rightarrow> bool" where
  "same_assertion x y \<longleftrightarrow>
     (\<forall>key \<in> {''expected_label'', ''label'', ''target'', ''op''}. same_text key (ObjectFromAny x) (ObjectFromAny y))"

definition same_shape :: "json \<Rightarrow> json \<Rightarrow> bool" where
  "same_shape x y \<longleftrightarrow>
     (case (x, y) of (JObj m, JObj n) \<Rightarrow> length m = length n | (JArr xs, JArr ys) \<Rightarrow> length xs = length ys
      | (JObj _, _) \<Rightarrow> False | (_, JObj _) \<Rightarrow> False | (JArr _, _) \<Rightarrow> False | (_, JArr _) \<Rightarrow> False | _ \<Rightarrow> True)"

definition same_public_problem :: "int \<Rightarrow> json_obj \<Rightarrow> json_obj \<Rightarrow> bool" where
  "same_public_problem typ a b \<longleftrightarrow>
     (if typ = JudgerTypeFlag
      then same_text ''flag_hash'' a b \<and> same_text ''flag_input_key'' a b \<and> same_text ''flag_chain_target'' a b \<and>
           same_text ''flag_chain_field'' a b
      else if typ = JudgerTypeOnchainAssert
      then list_all2 same_assertion (SliceFromAny (obj_get a ''assertions'')) (SliceFromAny (obj_get b ''assertions'')) \<and>
           length (SliceFromAny (obj_get a ''chain_steps'')) = length (SliceFromAny (obj_get b ''chain_steps'')) \<and>
           same_determinism a b
      else if typ = JudgerTypeSimCheckpoint
      then same_text ''expected_label'' a b \<and> (map_of a ''checkpoint'' = None \<longleftrightarrow> map_of b ''checkpoint'' = None) \<and>
           same_shape (obj_get a ''checkpoint'') (obj_get b ''checkpoint'') \<and> same_determinism a b
      else a = b)"

lemma deterministic_keys_cong:
  "\<forall>k \<in> set ks. map_of a k = map_of b k \<Longrightarrow> deterministic_keys a ks = deterministic_keys b ks"
  by (induction ks) (simp_all split: option.split)

lemma same_determinism: "same_determinism a b \<Longrightarrow> deterministic_or_fail a = deterministic_or_fail b"
  unfolding same_determinism_def same_entry_def deterministic_or_fail_def hasDeterministicExpectation_def
  using deterministic_keys_cong [of "[''random'', ''wall_clock'', ''external_network'']" a b] by simp

lemma same_assertion_label: "same_assertion x y \<Longrightarrow> assertion_label x = assertion_label y"
  by (simp add: same_assertion_def same_text_def assertion_label_def firstNonEmptyString_def Let_def)

lemma same_assertion_text:
  "same_assertion x y \<Longrightarrow> key \<in> {''target'', ''op''} \<Longrightarrow> assertion_text key x = assertion_text key y"
  by (auto simp: same_assertion_def same_text_def assertion_text_def)

lemma same_summary:
  assumes "list_all2 same_assertion (SliceFromAny (obj_get a ''assertions'')) (SliceFromAny (obj_get b ''assertions''))"
    and "length (SliceFromAny (obj_get a ''chain_steps'')) = length (SliceFromAny (obj_get b ''chain_steps''))"
  shows "summarizeOnchainExpectation a = summarizeOnchainExpectation b"
proof -
  let ?x = "SliceFromAny (obj_get a ''assertions'')" and ?y = "SliceFromAny (obj_get b ''assertions'')"
  have "length ?x = length ?y" using assms(1) by (rule list_all2_lengthD)
  moreover have "map assertion_label ?x = map assertion_label ?y"
    using assms(1) by (intro map_eq_all2) (auto elim: list.rel_mono_strong simp: same_assertion_label)
  moreover have "map (assertion_text ''target'') ?x = map (assertion_text ''target'') ?y"
    using assms(1) by (intro map_eq_all2) (auto elim: list.rel_mono_strong simp: same_assertion_text)
  moreover have "map (assertion_text ''op'') ?x = map (assertion_text ''op'') ?y"
    using assms(1) by (intro map_eq_all2) (auto elim: list.rel_mono_strong simp: same_assertion_text)
  moreover have "SliceFromAny (obj_get a ''chain_steps'') = [] \<longleftrightarrow> SliceFromAny (obj_get b ''chain_steps'') = []"
    using assms(2) by (simp flip: length_0_conv)
  ultimately show ?thesis unfolding summarizeOnchainExpectation_def Let_def using assms(2) by simp
qed

lemma same_checkpoint:
  assumes "same_text ''expected_label'' a b" and "same_shape (obj_get a ''checkpoint'') (obj_get b ''checkpoint'')"
  shows "summarizeSimCheckpointExpectation a = summarizeSimCheckpointExpectation b"
  using assms
  by (cases "obj_get a ''checkpoint''"; cases "obj_get b ''checkpoint''")
    (simp_all add: summarizeSimCheckpointExpectation_def same_shape_def same_text_def Let_def)

lemma snapshotExpectation_public:
  assumes "same_public_problem typ a b"
  shows "snapshotExpectationForJudger marshal typ a = snapshotExpectationForJudger marshal typ b"
proof -
  consider (f) "typ = JudgerTypeFlag" | (o) "typ = JudgerTypeOnchainAssert" | (s) "typ = JudgerTypeSimCheckpoint"
    | (d) "typ \<notin> {JudgerTypeFlag, JudgerTypeOnchainAssert, JudgerTypeSimCheckpoint}" by blast
  then show ?thesis
  proof cases
    case f
    then show ?thesis using assms by (simp add: snapshotExpectationForJudger_def same_public_problem_def same_text_def Let_def)
  next
    case o
    then have p: "list_all2 same_assertion (SliceFromAny (obj_get a ''assertions'')) (SliceFromAny (obj_get b ''assertions''))"
      "length (SliceFromAny (obj_get a ''chain_steps'')) = length (SliceFromAny (obj_get b ''chain_steps''))"
      "same_determinism a b"
      using assms by (auto simp: same_public_problem_def judger_type_defs)
    moreover have "SliceFromAny (obj_get a ''assertions'') = [] \<longleftrightarrow> SliceFromAny (obj_get b ''assertions'') = []"
      using p(1) by (auto dest: list_all2_lengthD)
    ultimately show ?thesis using o same_summary [OF p(1,2)] same_determinism [OF p(3)]
      by (simp add: snapshotExpectationForJudger_def judger_type_defs)
  next
    case s
    then have p: "same_text ''expected_label'' a b" "map_of a ''checkpoint'' = None \<longleftrightarrow> map_of b ''checkpoint'' = None"
      "same_shape (obj_get a ''checkpoint'') (obj_get b ''checkpoint'')" "same_determinism a b"
      using assms by (auto simp: same_public_problem_def judger_type_defs)
    then show ?thesis using s same_checkpoint [OF p(1,3)] same_determinism [OF p(4)]
      by (simp add: snapshotExpectationForJudger_def judger_type_defs)
  next
    case d
    then show ?thesis using assms by (simp add: same_public_problem_def)
  qed
qed


text \<open>Two problems that expect different balances after different transactions.\<close>

definition chainProblem :: "string \<Rightarrow> string \<Rightarrow> json_obj" where
  "chainProblem amount expected =
     [(''chain_steps'', JArr [JObj [(''op'', JStr ''tx''), (''payload'', JObj [(''amount'', JNum amount)])]]),
      (''assertions'', JArr [JObj [(''target'', JStr ''balance''), (''op'', JStr ''eq''), (''value'', JNum expected)]])]"

definition chainJudger :: Judger where
  "chainJudger = \<lparr>jgID = 1, jgCode = ''onchain'', jgName = ''Chain'', jgType = JudgerTypeOnchainAssert, jgExecutorRef = ''v1'',
     jgRuntimeRequired = False, jgDefaultTimeoutSec = 60,
     jgResourceSpec = \<lparr>jsDisabledReason = [],
       jsCompositionSnapshot = zeroSnapshot\<lparr>snDigest := ''d'',
         snSpec := zeroSpec\<lparr>scAccessProfile := SandboxAccessJudgePrivate, scWorkspaceRuntimeInstance := ''main''\<rparr>\<rparr>,
       jsGenesisRef = ''g'', jsInitScriptRef = [], jsCommand = [], jsExecTarget = [], jsExecutionSidecars = [],
       jsTimeoutSec = 0, jsMaxRetries = 0, jsSuiteArchiveName = [], jsSelftest = []\<rparr>,
     jgSelftestStatus = JudgerSelftestPassed, jgStatus = JudgerStatusAvailable, jgCreatedAt = 0, jgUpdatedAt = 0\<rparr>"

definition chainSpec :: ContentJudgeSpec where
  "chainSpec = \<lparr>csItemCode = ''q1'', csItemVersion = ''1'', csJudgerCode = ''onchain'', csMaxScore = 100, csSuiteRef = [],
     csExpectation = [], csVersionHash = ''h''\<rparr>"

definition chain_snapshot :: "json_obj \<Rightarrow> judge_error + JudgeInputSnapshot" where
  "chain_snapshot expectation =
     buildInputSnapshot (\<lambda>_. []) (\<lambda>_. None) (\<lambda>_. Some ''d'') 3 chainJudger (chainSpec\<lparr>csExpectation := expectation\<rparr>) []"

lemma chain_snapshot_frozen: "case chain_snapshot (chainProblem ''5'' ''100'') of Inl _ \<Rightarrow> False | Inr s \<Rightarrow>
    inExpectation s = [(''assertion_count'', JNum ''1''), (''chain_step_count'', JNum ''1''),
      (''expected_labels'', JArr [JStr ''balance'']), (''targets'', JArr [JStr ''balance'']), (''operators'', JArr [JStr ''eq''])]"
  by code_simp


subsection \<open>What a verdict means\<close>

definition replay_public :: "JudgeReplayAction \<Rightarrow> bool" where
  "replay_public a \<longleftrightarrow> (\<forall>k \<in> all_keys (JObj (jaPayload a)) \<union> all_keys (JObj (jaOutput a)). public_key k)"

lemma sanitizeReplayMap_keys: "k \<in> all_keys (JObj (sanitizeReplayMap m)) \<Longrightarrow> public_key k"
  using sanitizeReplayValue_keys [of k "JObj m"] by (simp add: sanitizeReplayMap_def del: all_keys.simps)

lemma empty_keys [simp]: "all_keys (JObj []) = {}"
  by simp

lemma answered_Inr: "answered e call s = (Inr x, t) \<longleftrightarrow> call s = (Some x, t)"
  by (auto simp: answered_def split: prod.splits option.splits)

lemma runChainStep_public: "runChainStep ops task i inst step s = (Inr (Some a), t) \<Longrightarrow> replay_public a"
  by (auto simp: runChainStep_def Let_def bindS_Inr replay_public_def sanitizeReplayMap_keys
      simp del: all_keys.simps split: if_splits prod.splits)

lemma run_chain_steps_public:
  "run_chain_steps ops task i inst seq steps s = (Inr actions, t) \<Longrightarrow> \<forall>a \<in> set actions. replay_public a"
proof (induction steps arbitrary: seq s actions)
  case Nil
  then show ?case by simp
next
  case (Cons raw steps)
  from Cons.prems obtain action u head v rest where a: "runChainStep ops task i inst (ObjectFromAny raw) s = (Inr action, u)"
    and h: "(case action of None \<Rightarrow> ret [] | Some a \<Rightarrow>
      if seq + 1 > 2147483647 then failS ErrJudgerConfigInvalid else ret [a\<lparr>jaSeq := seq + 1\<rparr>]) u = (Inr head, v)"
    and r: "run_chain_steps ops task i inst (seq + 1) steps v = (Inr rest, t)" and "actions = head @ rest"
    by (auto simp: bindS_Inr)
  moreover have "\<forall>a \<in> set head. replay_public a"
    using h a runChainStep_public [of ops task i inst "ObjectFromAny raw" s _ u]
    by (auto simp: replay_public_def simp del: all_keys.simps split: option.splits if_splits)
  ultimately show ?case using Cons.IH [OF r] by auto
qed

lemma run_assertions_length: "run_assertions codec ops task i inst raws s = (Inr ds, t) \<Longrightarrow> length ds = length raws"
  by (induction raws arbitrary: s ds) (auto simp: bindS_Inr)

lemma strategy_evidence:
  assumes "executeJudgerStrategy codec ops task i = Some run" and "run s = (Inr r, t)"
  shows "\<exists>details actions. r = strategy_result task (list_all rdPassed details) details actions \<and> details \<noteq> [] \<and>
    (\<forall>a \<in> set actions. replay_public a)"
proof -
  consider (o) "run = judgeOnchainAssertions codec ops task i" | (f) "run = judgeFlag codec ops task i"
    | (c) "run = ret (judgeSimCheckpoint codec task)"
    using assms(1) by (auto simp: executeJudgerStrategy_def Let_def split: if_splits)
  then show ?thesis
  proof cases
    case o
    with assms(2) obtain inst actions u details where
      a: "run_chain_steps ops task i inst 0 (SliceFromAny (obj_get (inExpectation (tkInputSnapshot task)) ''chain_steps'')) s = (Inr actions, u)"
      and d: "run_assertions codec ops task i inst (SliceFromAny (obj_get (inExpectation (tkInputSnapshot task)) ''assertions'')) u = (Inr details, t)"
      and n: "SliceFromAny (obj_get (inExpectation (tkInputSnapshot task)) ''assertions'') \<noteq> []"
      and r: "r = strategy_result task (list_all rdPassed details) details actions"
      by (auto simp: judgeOnchainAssertions_def Let_def bindS_Inr split: if_splits)
    from run_assertions_length [OF d] n have "details \<noteq> []" by auto
    with r run_chain_steps_public [OF a] show ?thesis by blast
  next
    case f
    with assms(2) obtain passed where "r = strategy_result task passed [flag_detail passed] []"
      by (auto simp: judgeFlag_def Let_def bindS_Inr split: if_splits)
    then have "r = strategy_result task (list_all rdPassed [flag_detail passed]) [flag_detail passed] []"
      by (simp add: flag_detail_def)
    then show ?thesis by (intro exI [of _ "[flag_detail passed]"] exI [of _ "[]"]) simp
  next
    case c
    with assms(2) obtain actual passed where "r = strategy_result task passed [checkpoint_detail codec task actual passed] []"
      by (simp add: judgeSimCheckpoint_def Let_def)
    then have "r = strategy_result task (list_all rdPassed [checkpoint_detail codec task actual passed])
        [checkpoint_detail codec task actual passed] []"
      by (simp add: checkpoint_detail_def)
    then show ?thesis by (intro exI [of _ "[checkpoint_detail codec task actual passed]"] exI [of _ "[]"]) simp
  qed
qed

lemma normalizeExecutionResult_ok:
  assumes "normalizeExecutionResult codec r m limit = Inr n"
  shows "n = (if exMaxScore r \<le> 0 then r\<lparr>exMaxScore := m\<rparr> else r) \<and> 0 < exMaxScore n \<and> 0 \<le> exScore n \<and> exScore n \<le> exMaxScore n \<and>
    validateResultDetails (exDetails n) = Inr ()"
  using assms by (auto simp: normalizeExecutionResult_def Let_def res_simps split: if_splits)

text \<open>What \<open>validateResultDetails\<close> leaves visible.\<close>

definition detail_public :: "ResultDetail \<Rightarrow> bool" where
  "detail_public d \<longleftrightarrow> \<not> ContainsResultSensitiveText (rdExpectedLabel d) \<and> \<not> ContainsResultSensitiveText (rdActual d) \<and>
     \<not> ContainsResultSensitiveText (rdHint d)"

lemma validateResultDetails_ok: "validateResultDetails ds = Inr () \<Longrightarrow> ds \<noteq> [] \<and> (\<forall>d \<in> set ds. detail_public d)"
  by (auto simp: validateResultDetails_def res_simps result_detail_check_def detail_public_def containsSensitiveMaterial_def
      split: if_splits)

definition builtin_type :: "int \<Rightarrow> bool" where
  "builtin_type typ \<longleftrightarrow> typ = JudgerTypeOnchainAssert \<or> typ = JudgerTypeFlag \<or> typ = JudgerTypeSimCheckpoint"

definition builtin_verdict :: "JudgeTask \<Rightarrow> JudgeExecutionResult \<Rightarrow> bool" where
  "builtin_verdict task r \<longleftrightarrow>
     (exPassed r \<longleftrightarrow> list_all rdPassed (exDetails r)) \<and> exMaxScore r = inMaxScore (tkInputSnapshot task) \<and>
     exScore r = (if exPassed r then exMaxScore r else 0) \<and> (\<forall>a \<in> set (jrActions (exReplay r)). replay_public a)"

lemma builtin_normalized:
  assumes "executeJudgerStrategy codec ops task i = Some run" and "run s = (Inr r, t)"
    and "normalizeExecutionResult codec (r\<lparr>exJudgeSandboxRef := x\<rparr>) (inMaxScore (tkInputSnapshot task)) limit = Inr n"
  shows "builtin_verdict task n"
proof -
  from strategy_evidence [OF assms(1,2)] obtain details actions
    where "r = strategy_result task (list_all rdPassed details) details actions" "\<forall>a \<in> set actions. replay_public a" by blast
  with normalizeExecutionResult_ok [OF assms(3)] show ?thesis
    by (auto simp: strategy_result_def builtin_verdict_def split: if_splits)
qed

lemma execution_task:
  "taskWithExecutionExpectation env task = Inr u \<Longrightarrow>
     inJudgerType (tkInputSnapshot u) = inJudgerType (tkInputSnapshot task) \<and>
     inMaxScore (tkInputSnapshot u) = inMaxScore (tkInputSnapshot task) \<and> tkSandboxMode u = tkSandboxMode task \<and>
     judge_create_request u = judge_create_request task"
  by (auto simp: taskWithExecutionExpectation_def Let_def res_simps judge_create_request_def split: if_splits option.splits)

lemma executeJudgerStrategy_builtin:
  "builtin_type (inJudgerType (tkInputSnapshot task)) \<Longrightarrow> \<exists>run. executeJudgerStrategy codec ops task i = Some run"
  by (auto simp: executeJudgerStrategy_def builtin_type_def Let_def)

lemma normalized_checked:
  "normalizeExecutionResult codec r m limit = Inr n \<Longrightarrow>
     0 < exMaxScore n \<and> 0 \<le> exScore n \<and> exScore n \<le> exMaxScore n \<and> exDetails n \<noteq> [] \<and> (\<forall>d \<in> set (exDetails n). detail_public d)"
  using normalizeExecutionResult_ok [of codec r m limit n] validateResultDetails_ok [of "exDetails n"] by blast

lemma judge_in_sandbox_checked:
  assumes "judge_in_sandbox env task i s = (Inr r, t)"
  shows "\<exists>r0. normalizeExecutionResult (jvCodec env) r0 (inMaxScore (tkInputSnapshot task)) (jvMaxBytes env) = Inr r \<and>
    (builtin_type (inJudgerType (tkInputSnapshot task)) \<longrightarrow> builtin_verdict task r)"
proof (cases "executeJudgerStrategy (jvCodec env) (jvOps env) task i")
  case None
  then have "\<not> builtin_type (inJudgerType (tkInputSnapshot task))"
    using executeJudgerStrategy_builtin [of task "jvCodec env" "jvOps env" i] by auto
  moreover have "runJudgeCommand env task i s = (Inr r, t)"
    using assms None by (simp add: judge_in_sandbox_def split: if_splits)
  ultimately show ?thesis
    by (auto simp: runJudgeCommand_def res_simps split: if_splits prod.splits exec_outcome.splits)
next
  case (Some run)
  with assms obtain r0 u where "run s = (Inr r0, u)"
    "normalizeExecutionResult (jvCodec env) (r0\<lparr>exJudgeSandboxRef := judgeSandboxRef i\<rparr>) (inMaxScore (tkInputSnapshot task))
       (jvMaxBytes env) = Inr r"
    by (auto simp: judge_in_sandbox_def bindS_Inr)
  with builtin_normalized [OF Some] show ?thesis by blast
qed

lemma executeTask_checked:
  assumes "executeTask env task s = (Inr r, destroyed, t)"
  shows "\<exists>r0 u. taskWithExecutionExpectation env task = Inr u \<and>
    normalizeExecutionResult (jvCodec env) r0 (inMaxScore (tkInputSnapshot u)) (jvMaxBytes env) = Inr r \<and>
    (builtin_type (inJudgerType (tkInputSnapshot u)) \<longrightarrow> builtin_verdict u r)"
proof -
  obtain u where u: "taskWithExecutionExpectation env task = Inr u"
    using assms by (cases "taskWithExecutionExpectation env task") (auto simp: executeTask_def split: if_splits)
  show ?thesis
  proof (cases "if needsSandbox task then None else executeJudgerStrategy (jvCodec env) (jvOps env) u 0")
    case None
    then obtain i v where "judge_in_sandbox env u i v = (Inr r, t)"
      using assms u by (auto simp: executeTask_def split: if_splits prod.splits sum.splits)
    from judge_in_sandbox_checked [OF this] u show ?thesis by blast
  next
    case (Some run)
    then have e: "executeJudgerStrategy (jvCodec env) (jvOps env) u 0 = Some run" by (simp split: if_splits)
    obtain r0 v where r: "run s = (Inr r0, v)"
      and n: "normalizeExecutionResult (jvCodec env) r0 (inMaxScore (tkInputSnapshot u)) (jvMaxBytes env) = Inr r"
      using assms u Some by (auto simp: executeTask_def bindS_Inr split: if_splits prod.splits)
    have "r0 = r0\<lparr>exJudgeSandboxRef := exJudgeSandboxRef r0\<rparr>" by simp
    with n have "normalizeExecutionResult (jvCodec env) (r0\<lparr>exJudgeSandboxRef := exJudgeSandboxRef r0\<rparr>)
        (inMaxScore (tkInputSnapshot u)) (jvMaxBytes env) = Inr r" by simp
    from builtin_normalized [OF e r this] n u show ?thesis by blast
  qed
qed


subsection \<open>Sandboxes of an execution\<close>

lemma resolve_destroyed:
  assumes "resolveSandbox env task s = ((i, fresh, ready), t)" and "fresh"
  shows "tkSandboxMode task \<noteq> ModeReuse \<and> jvCreate env (judge_create_request task) s = (Some i, t)"
  using assms by (auto simp: resolveSandbox_def split: if_splits sum.splits prod.splits option.splits)

lemma resolve_created:
  "tkSandboxMode task \<noteq> ModeReuse \<Longrightarrow> jvCreate env (judge_create_request task) s = (Some i, t) \<Longrightarrow>
     \<exists>ready. resolveSandbox env task s = ((i, True, ready), t)"
  by (auto simp: resolveSandbox_def)

lemma executeTask_sandbox:
  assumes "inJudgerType (tkInputSnapshot task) \<noteq> JudgerTypeManual" and u: "taskWithExecutionExpectation env task = Inr u"
    and "needsSandbox task \<or> executeJudgerStrategy (jvCodec env) (jvOps env) u 0 = None"
    and r: "resolveSandbox env u s = ((i, fresh, ready), v)"
  shows "fst (snd (executeTask env task s)) = (if fresh \<and> i > 0 then [i] else [])"
proof -
  have n: "(if needsSandbox task then None else executeJudgerStrategy (jvCodec env) (jvOps env) u 0) = None" using assms(3) by auto
  show ?thesis
    by (simp only: executeTask_def u sum.case n option.case r prod.case assms(1) if_False) (simp split: prod.split)
qed


text \<open>A simulation task that reaches its checkpoint, and a test run whose sandbox never gets ready.\<close>

definition sampleCodec :: judge_codec where
  "sampleCodec = \<lparr>cdMarshal = (\<lambda>_. ''{}''), cdSprint = (\<lambda>_. ''1''), cdDetails = (\<lambda>_. ''[]''), cdReplay = (\<lambda>_. ''{}''),
     cdResult = (\<lambda>_. None), cdHmac = (\<lambda>_. Some ''ab'')\<rparr>"

definition sampleOps :: "unit chain_ops" where
  "sampleOps = \<lparr>opDeploy = (\<lambda>_ s. (Some [], s)), opSendTx = (\<lambda>_ s. (Some [], s)), opReset = (\<lambda>_ s. (True, s)),
     opQuery = (\<lambda>_ s. (Some [], s))\<rparr>"

definition sampleEnv :: "judge_error + unit \<Rightarrow> unit judge_env" where
  "sampleEnv ready = \<lparr>jvCodec = sampleCodec, jvOps = sampleOps,
     jvSpec = Some (chainSpec\<lparr>csExpectation := [(''checkpoint'', JObj [(''block'', JNum ''3'')])]\<rparr>),
     jvView = (\<lambda>_. None), jvCreate = (\<lambda>_ s. (Some 7, s)), jvReady = ready, jvInjectCode = Inr (), jvInjectSuite = Inr (),
     jvExec = (\<lambda>_ _ s. (ExecFailed, s)), jvMaxBytes = 1000\<rparr>"

definition sampleInput :: "int \<Rightarrow> JudgeInputSnapshot" where
  "sampleInput typ = \<lparr>inItemCode = ''q1'', inItemVersion = ''1'', inTraceID = ''t'', inJudgerCode = ''onchain'', inJudgerType = typ,
     inJudgerVersion = ''v1'', inSuiteRef = [], inSuiteArchiveName = [], inVersionHash = ''h'', inCodeHash = [],
     inCompositionSnapshot = zeroSnapshot, inSandboxSourceRef = [], inGenesisRef = [], inInitScriptRef = [], inCommand = [],
     inExecTarget = [], inExecutionSidecars = [], inTimeoutSec = 60, inMaxRetries = 1, inMaxScore = 100, inExpectation = [],
     inExtraInput = [(''checkpoint'', JObj [(''block'', JNum ''3'')])], inRejudge = False, inSanitizedCodeArchiveName = [],
     inSanitizedCodeArchiveRef = []\<rparr>"

definition sampleTask :: "int \<Rightarrow> JudgeTask" where
  "sampleTask typ = \<lparr>tkID = 11, tkTenantID = 1, tkJudgerID = 1, tkSourceRef = ''contest:2026:solve:5'', tkSourceOwnerID = 9,
     tkSourceCourseID = 0, tkSourceScope = ''contest'', tkSubmitterTenantID = 1, tkSubmitterID = 3, tkProblemRef = ''q1:1'',
     tkCodeStorageKey = [], tkCodeHash = [], tkInputSnapshot = sampleInput typ, tkSandboxMode = ModeFresh,
     tkTargetSandboxRef = [], tkPriority = 1, tkStatus = TaskJudging, tkRetryCount = 0, tkMaxRetries = 1, tkLastError = [],
     tkCreatedAt = 0, tkUpdatedAt = 0, tkLeaseToken = ''a'', tkLeaseUntil = Some 100\<rparr>"

definition sampleVerdict :: JudgeExecutionResult where
  "sampleVerdict = \<lparr>exPassed = True, exScore = 100, exMaxScore = 100,
     exDetails = [\<lparr>rdCase = checkpointCaseText, rdSource = [], rdTarget = [], rdPassed = True, rdExpectedLabel = [],
       rdActual = ''{}'', rdHint = []\<rparr>],
     exReplay = \<lparr>jrActions = []\<rparr>, exJudgeSandboxRef = []\<rparr>"



text \<open>The converse: a created sandbox is destroyed even when the execution fails.\<close>

lemma created_is_destroyed:
  assumes "inJudgerType (tkInputSnapshot task) \<noteq> JudgerTypeManual" and u: "taskWithExecutionExpectation env task = Inr u"
    and "needsSandbox task" and "tkSandboxMode task \<noteq> ModeReuse"
    and "jvCreate env (judge_create_request task) s = (Some i, t)" and "0 < i"
  shows "fst (snd (executeTask env task s)) = [i]"
proof -
  from resolve_created [of u env s i t] assms execution_task [OF u]
  obtain ready where "resolveSandbox env u s = ((i, True, ready), t)" by auto
  from executeTask_sandbox [OF assms(1) u _ this] assms show ?thesis by simp
qed

subsection \<open>Flags on a chain\<close>

text \<open>
  A flag that has to be read from a chain can never be judged: the query that reads it names no
  runtime instance, the sandbox engine refuses such a query, and so every execution of a flag task
  with a chain target fails, whatever the submission and the chain hold (\<open>judgeFlag\<close> in
  \<open>service_judgers.go\<close>, \<open>chainQueryContract\<close> in \<open>sandbox/service_chain.go\<close>).
\<close>

theorem chain_flag_never_judged:
  assumes "inJudgerType (tkInputSnapshot task) = JudgerTypeFlag"
    and "TrimSpace (StringFromAny (obj_get (inExpectation (tkInputSnapshot task)) ''flag_chain_target'')) \<noteq> []"
  shows "\<exists>e. fst (executeTask env task s) = Inl e"
proof -
  have t: "taskWithExecutionExpectation env task = Inr task"
    using assms(1) by (simp add: taskWithExecutionExpectation_def judger_type_defs)
  have n: "needsSandbox task" using assms by (simp add: needsSandbox_def)
  have q: "ChainQuery ops (chain_request task i [] [] target) v = (None, v)" for ops :: "'b chain_ops" and i target v
    by (simp add: ChainQuery_def chain_request_bad_def chain_request_def)
  have f: "\<exists>e. fst (judgeFlag codec ops task i v) = Inl e" for codec and ops :: "'b chain_ops" and i v
  proof -
    let ?target = "TrimSpace (StringFromAny (obj_get (inExpectation (tkInputSnapshot task)) ''flag_chain_target''))"
    have "fst (answered ErrJudgeWorkerFailed (ChainQuery ops (chain_request task i [] [] ?target)) v) = Inl ErrJudgeWorkerFailed"
      by (simp add: answered_def q)
    then show ?thesis using assms(2) by (auto simp: judgeFlag_def Let_def failS_def intro!: exI bindS_fails)
  qed
  have j: "\<exists>e. fst (judge_in_sandbox env task i v) = Inl e" for env :: "'b judge_env" and i v
    using f [of "jvCodec env" "jvOps env" i v] assms(1)
    by (auto simp: judge_in_sandbox_def executeJudgerStrategy_def judger_type_defs intro: bindS_fails)
  obtain i fresh ready v where r: "resolveSandbox env task s = ((i, fresh, ready), v)" by (metis prod.collapse)
  have "inJudgerType (tkInputSnapshot task) \<noteq> JudgerTypeManual" using assms(1) by (simp add: judger_type_defs)
  then show ?thesis using j [of env i v] t n r
    by (cases ready) (auto simp: executeTask_def split: prod.splits)
qed

definition chainFlagTask :: JudgeTask where
  "chainFlagTask = (sampleTask JudgerTypeFlag)\<lparr>tkInputSnapshot := (sampleInput JudgerTypeFlag)\<lparr>inExpectation :=
     [(''flag_hash'', JStr ''ab''), (''flag_input_key'', JStr ''flag''), (''flag_chain_target'', JStr ''vault'')]\<rparr>\<rparr>"

theorem chain_flag_never_judged_witness: "\<exists>e. fst (executeTask (sampleEnv (Inr ())) chainFlagTask ()) = Inl e"
proof -
  have "inJudgerType (tkInputSnapshot chainFlagTask) = JudgerTypeFlag" by code_simp
  moreover have "TrimSpace (StringFromAny (obj_get (inExpectation (tkInputSnapshot chainFlagTask)) ''flag_chain_target'')) \<noteq> []"
    by code_simp
  ultimately show ?thesis by (rule chain_flag_never_judged)
qed

subsection \<open>Redaction against the check on details\<close>

text \<open>
  \<open>ShortJSON\<close> hides the value of a sensitive field and keeps its name, and the check on details
  refuses a text with such a name: the answer of a chain query that has, say, a field \<open>token\<close> is
  redacted and then still refused, so the task fails whatever was asserted.
\<close>

definition redactedToken :: string where
  "redactedToken = [CHR ''{'', CHR 0x22] @ ''token'' @ [CHR 0x22, CHR '':'', CHR 0x22] @ redactedValue @ [CHR 0x22, CHR ''}'']"

lemma redactedToken_sensitive: "ContainsResultSensitiveText (TruncateRunes redactedToken 256)"
  by code_simp

lemma redacted_answer_refused:
  assumes "marshal (JObj [(''token'', JStr redactedValue)]) = redactedToken"
    and "Check marshal sprint a [(''token'', v)] = Some r"
  shows "validateResultDetails [check_detail r] = Inl ErrJudgeWorkerFailed"
proof -
  have "IsResultSensitiveKey ''token''" by code_simp
  then have "arActual r = TruncateRunes redactedToken 256"
    using assms by (auto simp: Check_def Let_def ShortJSON_def bind_eq_Some_conv)
  with redactedToken_sensitive show ?thesis
    by (simp add: validateResultDetails_def result_detail_check_def check_detail_def containsSensitiveMaterial_def
      thenR_def failIf_def)
qed

end
