(* ===== verification/JudgeQueue.thy ===== *)
theory JudgeQueue
  imports JudgeProps Tables "HOL-Library.Product_Lexorder"
begin

section \<open>Judge module: queue, results and outbox\<close>

text \<open>
  The tables of the judge module and the queries of \<open>judge/repo.go\<close> (SQL text in
  \<open>internal/sqlcgen/judge.sql.go\<close>). \<open>now\<close> is the database clock. A query for one row returns
  \<open>None\<close> when no row meets its condition. Transactions are atomic, so no row is locked when
  \<open>FOR UPDATE SKIP LOCKED\<close> selects, and none is skipped.
\<close>

record judge_store =
  jdJudgers :: "Judger list"
  jdTasks :: "JudgeTask list"
  jdResults :: "JudgeResult list"
  jdOutbox :: "JudgeEventOutbox list"
  jdPrints :: "SubmissionFingerprint list"

subsection \<open>Tasks\<close>

definition judge_task_key :: "int \<Rightarrow> int \<Rightarrow> JudgeTask \<Rightarrow> bool" where
  "judge_task_key tenantID i t \<longleftrightarrow> tkTenantID t = tenantID \<and> tkID t = i"

definition update_task ::
  "(JudgeTask \<Rightarrow> bool) \<Rightarrow> (JudgeTask \<Rightarrow> JudgeTask) \<Rightarrow> judge_store \<Rightarrow> (JudgeTask \<times> judge_store) option" where
  "update_task p f db =
     (case find p (jdTasks db) of
        None \<Rightarrow> None | Some t \<Rightarrow> Some (f t, db\<lparr>jdTasks := upd_rows p f (jdTasks db)\<rparr>))"

text \<open>\<open>lease_until > now()\<close>; a lease that is NULL meets no comparison.\<close>

definition leased :: "int \<Rightarrow> string \<Rightarrow> JudgeTask \<Rightarrow> bool" where
  "leased now token t \<longleftrightarrow>
     tkStatus t = 2 \<and> tkLeaseToken t = token \<and> (case tkLeaseUntil t of None \<Rightarrow> False | Some u \<Rightarrow> now < u)"

definition task_lease_expired :: "int \<Rightarrow> JudgeTask \<Rightarrow> bool" where
  "task_lease_expired staleBefore t \<longleftrightarrow>
     tkStatus t = 2 \<and> (case tkLeaseUntil t of None \<Rightarrow> False | Some u \<Rightarrow> u \<le> staleBefore)"

definition free_task :: "int \<Rightarrow> int \<Rightarrow> string \<Rightarrow> JudgeTask \<Rightarrow> JudgeTask" where
  "free_task now status reason t =
     t\<lparr>tkStatus := status, tkLastError := reason, tkUpdatedAt := now, tkLeaseToken := [], tkLeaseUntil := None\<rparr>"

definition GetJudgeTask :: "judge_store \<Rightarrow> int \<Rightarrow> int \<Rightarrow> JudgeTask option" where
  "GetJudgeTask db tenantID i = find (judge_task_key tenantID i) (jdTasks db)"

definition same_source :: "int \<Rightarrow> string \<Rightarrow> string \<Rightarrow> JudgeTask \<Rightarrow> bool" where
  "same_source tenantID sourceRef problemRef t \<longleftrightarrow>
     tkTenantID t = tenantID \<and> tkSourceRef t = sourceRef \<and> tkProblemRef t = problemRef"

definition GetJudgeTaskBySourceRef :: "judge_store \<Rightarrow> int \<Rightarrow> string \<Rightarrow> string \<Rightarrow> JudgeTask option" where
  "GetJudgeTaskBySourceRef db tenantID sourceRef problemRef = find (same_source tenantID sourceRef problemRef) (jdTasks db)"

text \<open>\<open>ON CONFLICT DO NOTHING\<close> over tenant, source and problem: the row that is there is returned.\<close>

definition CreateJudgeTask :: "int \<Rightarrow> judge_store \<Rightarrow> JudgeTask \<Rightarrow> (JudgeTask \<times> judge_store) option" where
  "CreateJudgeTask now db task =
     (case GetJudgeTaskBySourceRef db (tkTenantID task) (tkSourceRef task) (tkProblemRef task) of
        Some t \<Rightarrow> Some (t, db)
      | None \<Rightarrow>
          if tkID task \<in> tkID ` set (jdTasks db) then None
          else let row = task\<lparr>tkRetryCount := 0, tkLastError := [], tkCreatedAt := now, tkUpdatedAt := now,
                              tkLeaseToken := [], tkLeaseUntil := None\<rparr>
               in Some (row, db\<lparr>jdTasks := jdTasks db @ [row]\<rparr>))"

definition CancelQueuedJudgeTask :: "int \<Rightarrow> judge_store \<Rightarrow> int \<Rightarrow> int \<Rightarrow> (JudgeTask \<times> judge_store) option" where
  "CancelQueuedJudgeTask now db tenantID i =
     update_task (\<lambda>t. judge_task_key tenantID i t \<and> tkStatus t = 1) (\<lambda>t. t\<lparr>tkStatus := 5, tkUpdatedAt := now\<rparr>) db"

definition ResetJudgeTaskForRejudge ::
  "int \<Rightarrow> judge_store \<Rightarrow> int \<Rightarrow> int \<Rightarrow> JudgeInputSnapshot \<Rightarrow> (JudgeTask \<times> judge_store) option" where
  "ResetJudgeTaskForRejudge now db tenantID i snapshot =
     update_task (\<lambda>t. judge_task_key tenantID i t \<and> tkStatus t \<in> {3, 4})
       (\<lambda>t. t\<lparr>tkStatus := 1, tkRetryCount := 0, tkInputSnapshot := snapshot, tkLastError := [], tkUpdatedAt := now\<rparr>) db"

definition dequeue_order :: "JudgeTask \<Rightarrow> int \<times> int \<times> int" where
  "dequeue_order t = (- tkPriority t, tkCreatedAt t, tkID t)"

definition selected_ids :: "(JudgeTask \<Rightarrow> bool) \<Rightarrow> int \<Rightarrow> judge_store \<Rightarrow> int set" where
  "selected_ids p limit db = tkID ` set (take (nat limit) (sort_key dequeue_order (filter p (jdTasks db))))"

definition update_selected ::
  "int set \<Rightarrow> (JudgeTask \<Rightarrow> JudgeTask) \<Rightarrow> judge_store \<Rightarrow> JudgeTask list \<times> judge_store" where
  "update_selected ids f db =
     (map f (filter (\<lambda>t. tkID t \<in> ids) (jdTasks db)), db\<lparr>jdTasks := upd_rows (\<lambda>t. tkID t \<in> ids) f (jdTasks db)\<rparr>)"

definition claimable :: "int \<Rightarrow> JudgeTask \<Rightarrow> bool" where
  "claimable staleBefore t \<longleftrightarrow>
     tkStatus t = 1 \<or> task_lease_expired staleBefore t \<and> tkRetryCount t < tkMaxRetries t"

definition claim_task :: "int \<Rightarrow> string \<Rightarrow> int \<Rightarrow> JudgeTask \<Rightarrow> JudgeTask" where
  "claim_task now token leaseUntil t =
     t\<lparr>tkStatus := 2, tkRetryCount := tkRetryCount t + (if tkStatus t = 2 then 1 else 0), tkUpdatedAt := now,
       tkLeaseToken := token, tkLeaseUntil := Some leaseUntil\<rparr>"

definition DequeueJudgeTasks ::
  "int \<Rightarrow> judge_store \<Rightarrow> int \<Rightarrow> int \<Rightarrow> int \<Rightarrow> string \<Rightarrow> JudgeTask list \<times> judge_store" where
  "DequeueJudgeTasks now db limit staleBefore leaseUntil token =
     update_selected (selected_ids (claimable staleBefore) limit db) (claim_task now token leaseUntil) db"

definition leaseExhaustedText :: string where "leaseExhaustedText = ''worker lease expired after retry limit''"

definition exhausted :: "int \<Rightarrow> JudgeTask \<Rightarrow> bool" where
  "exhausted staleBefore t \<longleftrightarrow> task_lease_expired staleBefore t \<and> tkRetryCount t \<ge> tkMaxRetries t"

definition FailExpiredJudgeTasks :: "int \<Rightarrow> judge_store \<Rightarrow> int \<Rightarrow> int \<Rightarrow> JudgeTask list \<times> judge_store" where
  "FailExpiredJudgeTasks now db limit staleBefore =
     update_selected (selected_ids (exhausted staleBefore) limit db) (free_task now 4 leaseExhaustedText) db"

definition RenewJudgeTaskLease :: "int \<Rightarrow> judge_store \<Rightarrow> int \<Rightarrow> int \<Rightarrow> string \<Rightarrow> int \<Rightarrow> (JudgeTask \<times> judge_store) option" where
  "RenewJudgeTaskLease now db tenantID i token leaseUntil =
     update_task (\<lambda>t. judge_task_key tenantID i t \<and> leased now token t)
       (\<lambda>t. t\<lparr>tkLeaseUntil := Some leaseUntil, tkUpdatedAt := now\<rparr>) db"

definition CompleteJudgeTask :: "int \<Rightarrow> judge_store \<Rightarrow> int \<Rightarrow> int \<Rightarrow> string \<Rightarrow> (JudgeTask \<times> judge_store) option" where
  "CompleteJudgeTask now db tenantID i token =
     update_task (\<lambda>t. judge_task_key tenantID i t \<and> leased now token t) (free_task now 3 []) db"

text \<open>\<open>last_error\<close> is a \<open>VARCHAR(255)\<close>: a longer text fails the statement; \<open>pgtypex.Text\<close> trims it.\<close>

definition fits255 :: "string \<Rightarrow> bool" where
  "fits255 text \<longleftrightarrow> length (filter rune_start text) \<le> 255"

definition RetryJudgeTask ::
  "int \<Rightarrow> judge_store \<Rightarrow> int \<Rightarrow> int \<Rightarrow> string \<Rightarrow> string \<Rightarrow> (JudgeTask \<times> judge_store) option" where
  "RetryJudgeTask now db tenantID i reason token =
     (if \<not> fits255 (TrimSpace reason) then None
      else update_task (\<lambda>t. judge_task_key tenantID i t \<and> leased now token t)
             (\<lambda>t. (free_task now 1 (TrimSpace reason) t)\<lparr>tkRetryCount := tkRetryCount t + 1\<rparr>) db)"

definition FailJudgeTask ::
  "int \<Rightarrow> judge_store \<Rightarrow> int \<Rightarrow> int \<Rightarrow> string \<Rightarrow> string \<Rightarrow> (JudgeTask \<times> judge_store) option" where
  "FailJudgeTask now db tenantID i reason token =
     (if \<not> fits255 (TrimSpace reason) then None
      else update_task (\<lambda>t. judge_task_key tenantID i t \<and> leased now token t) (free_task now 4 (TrimSpace reason)) db)"

definition CompleteManualJudgeTask :: "int \<Rightarrow> judge_store \<Rightarrow> int \<Rightarrow> int \<Rightarrow> (JudgeTask \<times> judge_store) option" where
  "CompleteManualJudgeTask now db tenantID i =
     update_task (\<lambda>t. judge_task_key tenantID i t \<and> tkStatus t = 2 \<and> tkLeaseToken t = [] \<and> tkLeaseUntil t = None)
       (\<lambda>t. t\<lparr>tkStatus := 3, tkLastError := [], tkUpdatedAt := now\<rparr>) db"

definition ListJudgeTasksBySourceRef :: "judge_store \<Rightarrow> int \<Rightarrow> string \<Rightarrow> JudgeTask list" where
  "ListJudgeTasksBySourceRef db tenantID sourceRef =
     sort_key (\<lambda>t. (- tkCreatedAt t, - tkID t)) (filter (\<lambda>t. tkTenantID t = tenantID \<and> tkSourceRef t = sourceRef) (jdTasks db))"

definition ListRecentJudgeTasksBySubmitterProblem ::
  "int \<Rightarrow> judge_store \<Rightarrow> int \<Rightarrow> int \<Rightarrow> int \<Rightarrow> string \<Rightarrow> int \<Rightarrow> JudgeTask list" where
  "ListRecentJudgeTasksBySubmitterProblem now db tenantID submitterTenantID submitterID problemRef windowSeconds =
     sort_key (\<lambda>t. (- tkCreatedAt t, - tkID t))
       (filter (\<lambda>t. tkTenantID t = tenantID \<and> tkSubmitterTenantID t = submitterTenantID \<and> tkSubmitterID t = submitterID \<and>
                    tkProblemRef t = problemRef \<and> tkCreatedAt t \<ge> now - windowSeconds * 1000000000) (jdTasks db))"

subsection \<open>Results\<close>

definition result_of :: "int \<Rightarrow> int \<Rightarrow> JudgeResult \<Rightarrow> bool" where
  "result_of tenantID taskID r \<longleftrightarrow> reTenantID r = tenantID \<and> reTaskID r = taskID"

definition next_version :: "judge_store \<Rightarrow> int \<Rightarrow> int \<Rightarrow> int" where
  "next_version db tenantID taskID =
     (let vs = map reVersion (filter (result_of tenantID taskID) (jdResults db))
      in if vs = [] then 1 else Max (set vs) + 1)"

definition UpsertJudgeResult :: "int \<Rightarrow> judge_store \<Rightarrow> JudgeResult \<Rightarrow> (JudgeResult \<times> judge_store) option" where
  "UpsertJudgeResult now db item =
     (if reID item \<in> reID ` set (jdResults db) then None
      else let row = item\<lparr>reVersion := next_version db (reTenantID item) (reTaskID item), reJudgedAt := now\<rparr>
           in Some (row, db\<lparr>jdResults := jdResults db @ [row]\<rparr>))"

definition latest_result :: "judge_store \<Rightarrow> int \<Rightarrow> int \<Rightarrow> JudgeResult option" where
  "latest_result db tenantID taskID =
     (let rs = sort_key (\<lambda>r. - reVersion r) (filter (result_of tenantID taskID) (jdResults db))
      in if rs = [] then None else Some (hd rs))"

definition GetJudgeTaskWithResult :: "judge_store \<Rightarrow> int \<Rightarrow> int \<Rightarrow> TaskInfo option" where
  "GetJudgeTaskWithResult db tenantID i =
     (case GetJudgeTask db tenantID i of
        None \<Rightarrow> None
      | Some t \<Rightarrow> Some \<lparr>tiTask = t, tiResult = latest_result db (tkTenantID t) (tkID t), tiExisting = False\<rparr>)"

definition source_module :: "string \<Rightarrow> string" where
  "source_module sourceRef = hd (Split sourceRef (CHR '':''))"

definition listed_task ::
  "judge_store \<Rightarrow> int \<Rightarrow> string \<Rightarrow> bool \<Rightarrow> int \<Rightarrow> string \<Rightarrow> string list \<Rightarrow> JudgeTask \<Rightarrow> bool" where
  "listed_task db tenantID sourceRef pendingManual ownerID state enabled t \<longleftrightarrow>
     tkTenantID t = tenantID \<and> source_module (tkSourceRef t) \<in> set enabled \<and>
     (sourceRef = [] \<or> tkSourceRef t = sourceRef) \<and>
     (\<exists>j \<in> set (jdJudgers db). jgID j = tkJudgerID t \<and> (pendingManual \<longrightarrow> tkStatus t = 2 \<and> jgType j = 6)) \<and>
     (ownerID = 0 \<or> tkSourceOwnerID t = ownerID \<or> tkSubmitterID t = ownerID) \<and>
     (state = [] \<or> state = ''active'' \<and> tkStatus t \<in> {1, 2} \<or> state = ''abnormal'' \<and> tkStatus t = 4)"

definition ListJudgeTasksPage ::
  "judge_store \<Rightarrow> int \<Rightarrow> string \<Rightarrow> bool \<Rightarrow> int \<Rightarrow> string \<Rightarrow> string list \<Rightarrow> nat \<Rightarrow> nat \<Rightarrow> TaskInfo list" where
  "ListJudgeTasksPage db tenantID sourceRef pendingManual ownerID state enabled limit offset =
     map (\<lambda>t. \<lparr>tiTask = t, tiResult = latest_result db (tkTenantID t) (tkID t), tiExisting = False\<rparr>)
       (take limit (drop offset (sort_key (\<lambda>t. (- tkCreatedAt t, - tkID t))
          (filter (listed_task db tenantID sourceRef pendingManual ownerID state enabled) (jdTasks db)))))"

definition CountJudgeTasks :: "judge_store \<Rightarrow> int \<Rightarrow> string \<Rightarrow> bool \<Rightarrow> int \<Rightarrow> string \<Rightarrow> string list \<Rightarrow> nat" where
  "CountJudgeTasks db tenantID sourceRef pendingManual ownerID state enabled =
     length (filter (listed_task db tenantID sourceRef pendingManual ownerID state enabled) (jdTasks db))"

lemma page_within_count:
  "length (ListJudgeTasksPage db tenantID sourceRef pendingManual ownerID state enabled limit offset) =
     min limit (CountJudgeTasks db tenantID sourceRef pendingManual ownerID state enabled - offset)"
  by (simp add: ListJudgeTasksPage_def CountJudgeTasks_def)

subsection \<open>Outbox\<close>

definition event_meta :: "judge_event \<Rightarrow> int \<times> string" where
  "event_meta e = (case e of CompletedEvent c \<Rightarrow> (jcTenantID c, jcTraceID c) | FailedEvent f \<Rightarrow> (jfTenantID f, jfTraceID f))"

definition validateJudgeOutboxPayload :: "judge_event \<Rightarrow> int \<Rightarrow> judge_error + unit" where
  "validateJudgeOutboxPayload payload tenantID =
     failIf (fst (event_meta payload) \<noteq> tenantID \<or> TrimSpace (snd (event_meta payload)) = []) ErrJudgeEventPublishFailed"

definition CreateOutbox ::
  "int \<Rightarrow> judge_store \<Rightarrow> int \<Rightarrow> int \<Rightarrow> int \<Rightarrow> string \<Rightarrow> judge_event \<Rightarrow> (JudgeEventOutbox \<times> judge_store) option" where
  "CreateOutbox now db i tenantID taskID subject payload =
     (if validateJudgeOutboxPayload payload tenantID \<noteq> Inr () \<or> i \<in> obID ` set (jdOutbox db) then None
      else let row = \<lparr>obID = i, obTenantID = tenantID, obTaskID = taskID, obSubject = subject, obPayload = payload, obStatus = 1,
                      obRetryCount = 0, obNextAttemptAt = now, obLastError = [], obCreatedAt = now, obUpdatedAt = now,
                      obLeaseToken = [], obLeaseUntil = None\<rparr>
           in Some (row, db\<lparr>jdOutbox := jdOutbox db @ [row]\<rparr>))"

definition outbox_lease_expired :: "int \<Rightarrow> JudgeEventOutbox \<Rightarrow> bool" where
  "outbox_lease_expired staleBefore item \<longleftrightarrow>
     obStatus item = 2 \<and> (case obLeaseUntil item of None \<Rightarrow> False | Some u \<Rightarrow> u \<le> staleBefore)"

definition outbox_claimable :: "int \<Rightarrow> int \<Rightarrow> int \<Rightarrow> JudgeEventOutbox \<Rightarrow> bool" where
  "outbox_claimable now maxAttempts staleBefore item \<longleftrightarrow>
     (obStatus item \<in> {1, 4} \<and> obNextAttemptAt item \<le> now \<or> outbox_lease_expired staleBefore item) \<and> obRetryCount item < maxAttempts"

definition claim_outbox :: "int \<Rightarrow> string \<Rightarrow> int \<Rightarrow> JudgeEventOutbox \<Rightarrow> JudgeEventOutbox" where
  "claim_outbox now token leaseUntil item =
     item\<lparr>obStatus := 2, obRetryCount := obRetryCount item + 1, obUpdatedAt := now, obLeaseToken := token, obLeaseUntil := Some leaseUntil\<rparr>"

definition outbox_selected :: "int \<Rightarrow> judge_store \<Rightarrow> int \<Rightarrow> int \<Rightarrow> int \<Rightarrow> int set" where
  "outbox_selected now db limit maxAttempts staleBefore =
     obID ` set (take (nat limit) (sort_key (\<lambda>item. (obNextAttemptAt item, obCreatedAt item, obID item))
       (filter (outbox_claimable now maxAttempts staleBefore) (jdOutbox db))))"

definition ClaimPendingOutbox ::
  "int \<Rightarrow> judge_store \<Rightarrow> int \<Rightarrow> int \<Rightarrow> int \<Rightarrow> int \<Rightarrow> string \<Rightarrow> JudgeEventOutbox list \<times> judge_store" where
  "ClaimPendingOutbox now db limit maxAttempts staleBefore leaseUntil token =
     (let ids = outbox_selected now db limit maxAttempts staleBefore
      in (map (claim_outbox now token leaseUntil) (filter (\<lambda>item. obID item \<in> ids) (jdOutbox db)),
          db\<lparr>jdOutbox := upd_rows (\<lambda>item. obID item \<in> ids) (claim_outbox now token leaseUntil) (jdOutbox db)\<rparr>))"

definition eventExhaustedText :: string where "eventExhaustedText = ''event lease expired after retry limit''"

definition free_outbox :: "int \<Rightarrow> int \<Rightarrow> string \<Rightarrow> JudgeEventOutbox \<Rightarrow> JudgeEventOutbox" where
  "free_outbox now status reason item =
     item\<lparr>obStatus := status, obLastError := reason, obUpdatedAt := now, obLeaseToken := [], obLeaseUntil := None\<rparr>"

definition ExhaustExpiredEventOutbox :: "int \<Rightarrow> judge_store \<Rightarrow> int \<Rightarrow> int \<Rightarrow> judge_store" where
  "ExhaustExpiredEventOutbox now db maxAttempts staleBefore =
     db\<lparr>jdOutbox := upd_rows (\<lambda>item. outbox_lease_expired staleBefore item \<and> obRetryCount item \<ge> maxAttempts)
         (free_outbox now 4 eventExhaustedText) (jdOutbox db)\<rparr>"

definition outbox_leased :: "int \<Rightarrow> int \<Rightarrow> int \<Rightarrow> string \<Rightarrow> JudgeEventOutbox \<Rightarrow> bool" where
  "outbox_leased now tenantID i token item \<longleftrightarrow>
     obTenantID item = tenantID \<and> obID item = i \<and> obStatus item = 2 \<and> obLeaseToken item = token \<and>
     (case obLeaseUntil item of None \<Rightarrow> False | Some u \<Rightarrow> now < u)"

definition update_outbox ::
  "(JudgeEventOutbox \<Rightarrow> bool) \<Rightarrow> (JudgeEventOutbox \<Rightarrow> JudgeEventOutbox) \<Rightarrow> judge_store \<Rightarrow> judge_store option" where
  "update_outbox p f db =
     (case find p (jdOutbox db) of None \<Rightarrow> None | Some _ \<Rightarrow> Some (db\<lparr>jdOutbox := upd_rows p f (jdOutbox db)\<rparr>))"

definition MarkOutboxPublished :: "int \<Rightarrow> judge_store \<Rightarrow> int \<Rightarrow> int \<Rightarrow> string \<Rightarrow> judge_store option" where
  "MarkOutboxPublished now db tenantID i token =
     update_outbox (outbox_leased now tenantID i token) (\<lambda>item. free_outbox now 3 (obLastError item) item) db"

definition outbox_backoff :: "int \<Rightarrow> int" where
  "outbox_backoff retryCount = min 300 (2 ^ nat (min retryCount 8))"

definition MarkOutboxFailed :: "int \<Rightarrow> judge_store \<Rightarrow> int \<Rightarrow> int \<Rightarrow> string \<Rightarrow> string \<Rightarrow> judge_store option" where
  "MarkOutboxFailed now db tenantID i reason token =
     (if \<not> fits255 (TrimSpace reason) then None
      else update_outbox (outbox_leased now tenantID i token)
        (\<lambda>item. (free_outbox now 4 (TrimSpace reason) item)\<lparr>obNextAttemptAt := now + outbox_backoff (obRetryCount item) * 1000000000\<rparr>) db)"

subsection \<open>Fingerprints and judgers\<close>

definition CreateFingerprint :: "int \<Rightarrow> judge_store \<Rightarrow> SubmissionFingerprint \<Rightarrow> judge_store option" where
  "CreateFingerprint now db fp =
     (if fpID fp \<in> fpID ` set (jdPrints db) then None
      else Some (db\<lparr>jdPrints := jdPrints db @ [fp\<lparr>fpCreatedAt := now\<rparr>]\<rparr>))"

definition FindExactFingerprints :: "judge_store \<Rightarrow> int \<Rightarrow> string \<Rightarrow> string \<Rightarrow> SubmissionFingerprint list" where
  "FindExactFingerprints db tenantID problemRef codeHash =
     sort_key (\<lambda>f. (- fpCreatedAt f, - fpID f))
       (filter (\<lambda>f. fpTenantID f = tenantID \<and> fpProblemRef f = problemRef \<and> fpCodeHash f = codeHash) (jdPrints db))"

definition ListFingerprintsForProblem :: "judge_store \<Rightarrow> int \<Rightarrow> string \<Rightarrow> string \<Rightarrow> SubmissionFingerprint list" where
  "ListFingerprintsForProblem db tenantID problemRef excludeSourceRef =
     sort_key (\<lambda>f. (- fpCreatedAt f, - fpID f))
       (filter (\<lambda>f. fpTenantID f = tenantID \<and> fpProblemRef f = problemRef \<and>
                    (excludeSourceRef = [] \<or> fpSourceRef f \<noteq> excludeSourceRef)) (jdPrints db))"

definition GetJudgerByCode :: "judge_store \<Rightarrow> string \<Rightarrow> Judger option" where
  "GetJudgerByCode db code = find (\<lambda>j. jgCode j = code) (jdJudgers db)"

definition GetJudgerByID :: "judge_store \<Rightarrow> int \<Rightarrow> Judger option" where
  "GetJudgerByID db i = find (\<lambda>j. jgID j = i) (jdJudgers db)"

definition ListCatalogJudgers :: "judge_store \<Rightarrow> (string \<times> string \<times> int) list" where
  "ListCatalogJudgers db =
     map (\<lambda>j. (jgCode j, jgName j, jgType j)) (sort_key jgCode (filter (\<lambda>j. jgStatus j = 1) (jdJudgers db)))"

definition upserted :: "int \<Rightarrow> JudgerRequest \<Rightarrow> JudgerResourceSpec \<Rightarrow> int \<Rightarrow> Judger \<Rightarrow> Judger" where
  "upserted now req spec selftestStatus j =
     j\<lparr>jgName := jqName req, jgType := jqType req, jgExecutorRef := jqExecutorRef req,
       jgRuntimeRequired := jqRuntimeRequired req, jgDefaultTimeoutSec := jqDefaultTimeoutSec req, jgResourceSpec := spec,
       jgSelftestStatus := selftestStatus, jgStatus := jqStatus req, jgUpdatedAt := now\<rparr>"

definition UpsertJudger ::
  "int \<Rightarrow> judge_store \<Rightarrow> int \<Rightarrow> JudgerRequest \<Rightarrow> JudgerResourceSpec \<Rightarrow> int \<Rightarrow> (Judger \<times> judge_store) option" where
  "UpsertJudger now db i req spec selftestStatus =
     (case GetJudgerByCode db (jqCode req) of
        Some j \<Rightarrow> Some (upserted now req spec selftestStatus j,
          db\<lparr>jdJudgers := upd_rows (\<lambda>j. jgCode j = jqCode req) (upserted now req spec selftestStatus) (jdJudgers db)\<rparr>)
      | None \<Rightarrow>
          if i \<in> jgID ` set (jdJudgers db) then None
          else let row = \<lparr>jgID = i, jgCode = jqCode req, jgName = jqName req, jgType = jqType req, jgExecutorRef = jqExecutorRef req,
                          jgRuntimeRequired = jqRuntimeRequired req, jgDefaultTimeoutSec = jqDefaultTimeoutSec req,
                          jgResourceSpec = spec, jgSelftestStatus = selftestStatus, jgStatus = jqStatus req,
                          jgCreatedAt = now, jgUpdatedAt = now\<rparr>
               in Some (row, db\<lparr>jdJudgers := jdJudgers db @ [row]\<rparr>))"

text \<open>The update is refused when the row was changed since \<open>original\<close> was read.\<close>

definition UpdateJudgerExecutionState ::
  "int \<Rightarrow> judge_store \<Rightarrow> Judger \<Rightarrow> JudgerResourceSpec \<Rightarrow> int \<Rightarrow> int \<Rightarrow> (Judger \<times> judge_store) option" where
  "UpdateJudgerExecutionState now db original spec selftestStatus status =
     (let p = (\<lambda>j. jgID j = jgID original \<and> jgUpdatedAt j = jgUpdatedAt original);
          f = (\<lambda>j. j\<lparr>jgResourceSpec := spec, jgSelftestStatus := selftestStatus, jgStatus := status, jgUpdatedAt := now\<rparr>)
      in case find p (jdJudgers db) of
           None \<Rightarrow> None | Some j \<Rightarrow> Some (f j, db\<lparr>jdJudgers := upd_rows p f (jdJudgers db)\<rparr>))"

end
