(* ===== verification/JudgeService.thy ===== *)
theory JudgeService
  imports JudgeQueue
begin

section \<open>Judge module: handlers\<close>

text \<open>
  The operations of \<open>service_contract.go\<close>, \<open>service_task.go\<close>, \<open>service_worker.go\<close> and
  \<open>service.go\<close> that change the tables. Every database transaction is one function of the store; what
  a handler does between transactions (reading objects, executing a task, publishing) is not part of
  it. A failing transaction leaves the store as it was. \<open>gen k\<close> is the k-th identifier the
  generator returns to the transaction, \<open>token\<close> the random lease token.
\<close>

definition persisted :: "judge_error \<Rightarrow> 'a option \<Rightarrow> judge_error + 'a" where
  "persisted e r = (case r of None \<Rightarrow> Inl e | Some x \<Rightarrow> Inr x)"

lemma persisted_Inr: "persisted e r = Inr x \<longleftrightarrow> r = Some x"
  by (simp add: persisted_def split: option.splits)

subsection \<open>Submission\<close>

record submit_env =
  seMarshal :: "json \<Rightarrow> string"
  seHmac :: "string \<Rightarrow> string option"
  seDigest :: "SandboxCompositionSnapshot \<Rightarrow> string option"
  seContent :: "ContentJudgeSpec option"
  seTraceID :: string
  seCodeHash :: "string \<Rightarrow> judge_error + string"
  seVector :: "judge_error + (string \<times> real) list"
  seStored :: "judge_error + string"
  seTaskID :: int

definition loadAvailableJudger :: "(SandboxCompositionSnapshot \<Rightarrow> string option) \<Rightarrow> judge_store \<Rightarrow> string \<Rightarrow> judge_error + Judger" where
  "loadAvailableJudger digest db code =
     bindR (persisted ErrJudgerNotFound (GetJudgerByCode db (TrimSpace code))) (\<lambda>j.
       if jgStatus j \<noteq> JudgerStatusAvailable \<or> jgSelftestStatus j \<noteq> JudgerSelftestPassed then Inl ErrJudgerUnavailable
       else thenR (withCause ErrJudgerUnavailable (validateJudgerResourceSpecForUse digest j)) (Inr j))"

text \<open>The digest of the submitted code and its feature vector; empty when the judger takes no code.\<close>

definition prepareSubmittedCode ::
  "submit_env \<Rightarrow> JudgeSubmitRequest \<Rightarrow> bool \<Rightarrow> judge_error + string \<times> (string \<times> real) list" where
  "prepareSubmittedCode env req required =
     (if \<not> required
      then if TrimSpace (sqCodeStorageKey req) \<noteq> [] \<or> TrimSpace (sqCodeHash req) \<noteq> [] then Inl ErrJudgeSubmitInvalid
           else Inr ([], [])
      else if TrimSpace (sqCodeStorageKey req) = [] \<or> \<not> ValidSHA256Hex (sqCodeHash req) then Inl ErrJudgeSubmitInvalid
      else bindR (seCodeHash env (sqCodeStorageKey req)) (\<lambda>codeHash.
           if \<not> EqualFold (TrimSpace (sqCodeHash req)) codeHash then Inl ErrJudgeSubmitInvalid
           else bindR (seVector env) (\<lambda>vector. Inr (codeHash, vector))))"

definition checkSubmitRate :: "JudgeConfig \<Rightarrow> int \<Rightarrow> judge_store \<Rightarrow> JudgeTask \<Rightarrow> judge_error + unit" where
  "checkSubmitRate cfg now db task =
     (if sint (jcfSubmitRateLimitSec cfg) \<le> 0 then Inr ()
      else (case Int32 (jcfSubmitRateLimitSec cfg) of
        (window, ok) \<Rightarrow>
          if \<not> ok \<or> sint window \<le> 0 then Inl ErrJudgeTaskEnqueueFailed
          else failIf (list_ex (\<lambda>item. tkSourceRef item \<noteq> tkSourceRef task \<and>
                         now - tkCreatedAt item < sint (jcfSubmitRateLimitSec cfg) * 1000000000)
                 (ListRecentJudgeTasksBySubmitterProblem now db (tkTenantID task) (tkSubmitterTenantID task)
                    (tkSubmitterID task) (tkProblemRef task) (sint window))) ErrJudgeSubmitRateLimited))"

definition problem_ref :: "JudgeSubmitRequest \<Rightarrow> string" where
  "problem_ref req = sqItemCode req @ '':'' @ sqItemVersion req"

definition submitted_task ::
  "JudgeConfig \<Rightarrow> submit_env \<Rightarrow> JudgeSubmitRequest \<Rightarrow> Judger \<Rightarrow> int \<Rightarrow> JudgeInputSnapshot \<Rightarrow> string \<Rightarrow> JudgeTask" where
  "submitted_task cfg env req j mode snapshot codeHash =
     (let ownership = sourceOwnershipFromRequest req
      in \<lparr>tkID = seTaskID env, tkTenantID = sqTenantID req, tkJudgerID = jgID j, tkSourceRef = sqSourceRef req,
          tkSourceOwnerID = soOwnerID ownership, tkSourceCourseID = soCourseID ownership, tkSourceScope = soScope ownership,
          tkSubmitterTenantID = sqSubmitterTenantID req, tkSubmitterID = sqSubmitterID req, tkProblemRef = problem_ref req,
          tkCodeStorageKey = sqCodeStorageKey req, tkCodeHash = codeHash,
          tkInputSnapshot = snapshot\<lparr>inTraceID := seTraceID env, inSandboxSourceRef := TrimSpace (sqSandboxSourceRef req),
                                     inCodeHash := codeHash\<rparr>,
          tkSandboxMode = mode, tkTargetSandboxRef = TrimSpace (sqTargetSandboxRef req),
          tkPriority = normalizePriority (sqPriority req),
          tkStatus = (if jgType j = JudgerTypeManual then TaskJudging else TaskQueued), tkRetryCount = 0,
          tkMaxRetries = maxRetriesForJudger j (jcfDefaultMaxRetries cfg), tkLastError = [], tkCreatedAt = 0, tkUpdatedAt = 0,
          tkLeaseToken = [], tkLeaseUntil = None\<rparr>)"

text \<open>Everything before the last transaction: the task that exists already, or the one to insert.\<close>

datatype prepared = Existing JudgeTask | Fresh JudgeTask "(string \<times> real) list" bool

definition prepare_task ::
  "JudgeConfig \<Rightarrow> submit_env \<Rightarrow> int \<Rightarrow> judge_store \<Rightarrow> JudgeSubmitRequest \<Rightarrow> ContentJudgeSpec \<Rightarrow> Judger \<Rightarrow> int \<Rightarrow>
     judge_error + prepared" where
  "prepare_task cfg env now db req spec j mode =
     thenR (validateJudgerSandboxMode (jgType j) mode (sqTargetSandboxRef req))
     (bindR (buildInputSnapshot (seMarshal env) (seHmac env) (seDigest env) (jcfDefaultMaxRetries cfg) j spec (sqExtraInput req))
       (\<lambda>snapshot.
      if TrimSpace (seTraceID env) = [] then Inl ErrJudgeSubmitInvalid
      else let requiresCode = judgerRequiresCode (jgType j) mode
      in bindR (prepareSubmittedCode env req requiresCode) (\<lambda>(codeHash, vector).
         thenR (validateSourceOwnership (sourceOwnershipFromRequest req))
         (let task = submitted_task cfg env req j mode snapshot codeHash
          in thenR (checkSubmitRate cfg now db task)
             (if requiresCode
              then bindR (seStored env) (\<lambda>archiveRef.
                     Inr (Fresh (task\<lparr>tkInputSnapshot := (tkInputSnapshot task)
                       \<lparr>inSanitizedCodeArchiveName := ''submission.tar'', inSanitizedCodeArchiveRef := archiveRef\<rparr>\<rparr>) vector True))
              else Inr (Fresh task vector False))))))"

definition SubmitJudgeTask_prepare ::
  "JudgeConfig \<Rightarrow> submit_env \<Rightarrow> int \<Rightarrow> judge_store \<Rightarrow> JudgeSubmitRequest \<Rightarrow> judge_error + prepared" where
  "SubmitJudgeTask_prepare cfg env now db req =
     thenR (validateSubmitRequest req)
       (case GetJudgeTaskBySourceRef db (sqTenantID req) (sqSourceRef req) (problem_ref req) of
          Some existing \<Rightarrow> Inr (Existing existing)
        | None \<Rightarrow>
            bindR (persisted ErrJudgeSpecUnavailable (seContent env)) (\<lambda>spec.
            let asked = TrimSpace (sqJudgerCode req); judgerCode = (if asked = [] then csJudgerCode spec else asked)
            in if judgerCode = [] \<or> asked \<noteq> [] \<and> asked \<noteq> csJudgerCode spec then Inl ErrJudgeSubmitInvalid
               else bindR (loadAvailableJudger (seDigest env) db judgerCode) (\<lambda>j.
               bindR (normalizedSandboxMode (sqSandboxMode req)) (\<lambda>mode.
                 prepare_task cfg env now db req spec j (if jgType j = JudgerTypeManual then ModeFresh else mode)))))"

definition task_print :: "int \<Rightarrow> JudgeTask \<Rightarrow> (string \<times> real) list \<Rightarrow> SubmissionFingerprint" where
  "task_print i task vector =
     \<lparr>fpID = i, fpTenantID = tkTenantID task, fpSourceRef = tkSourceRef task, fpProblemRef = tkProblemRef task,
      fpSubmitterTenantID = tkSubmitterTenantID task, fpSubmitterID = tkSubmitterID task, fpCodeHash = tkCodeHash task,
      fpSimVector = vector, fpCreatedAt = 0\<rparr>"

text \<open>The last transaction. The row that is there wins over a concurrent submission with the same key.\<close>

definition SubmitJudgeTask_commit ::
  "int \<Rightarrow> int \<Rightarrow> judge_store \<Rightarrow> JudgeTask \<Rightarrow> (string \<times> real) list \<Rightarrow> bool \<Rightarrow> judge_error + (JudgeTask \<times> bool) \<times> judge_store" where
  "SubmitJudgeTask_commit now printID db task vector requiresCode =
     bindR (persisted ErrJudgeTaskEnqueueFailed (CreateJudgeTask now db task)) (\<lambda>(created, db).
       let createdNew = (tkID created = tkID task)
       in if \<not> createdNew then Inr ((created, True), db)
          else if requiresCode
          then bindR (persisted ErrFingerprintSimilarityFailed (CreateFingerprint now db (task_print printID created vector))) (\<lambda>db.
                 Inr ((created, False), db))
          else Inr ((created, False), db))"

subsection \<open>Claiming tasks\<close>

text \<open>
  \<open>here\<close> is the worker's own clock, from which it computes leases and what is stale; \<open>now\<close> is the
  database's. The two need not agree. A worker keeps the rows it claimed, lease token included.
\<close>

definition worker_limit :: "JudgeConfig \<Rightarrow> int \<Rightarrow> int" where
  "worker_limit cfg fallback =
     (case Int32 (jcfWorkerBatchSize cfg) of (limit, ok) \<Rightarrow> if \<not> ok \<or> sint limit \<le> 0 then fallback else sint limit)"

definition failed_event :: "int \<Rightarrow> JudgeTask \<Rightarrow> string \<Rightarrow> judge_event" where
  "failed_event time task reason =
     FailedEvent \<lparr>jfTenantID = tkTenantID task, jfTraceID = inTraceID (tkInputSnapshot task), jfTaskID = tkID task,
       jfSourceRef = tkSourceRef task, jfReason = reason, jfFailedAt = time\<rparr>"

definition completed_event :: "string \<Rightarrow> JudgeTask \<Rightarrow> JudgeResult \<Rightarrow> judge_event" where
  "completed_event traceID task saved =
     CompletedEvent \<lparr>jcTenantID = tkTenantID task, jcTraceID = traceID, jcTaskID = tkID task, jcSourceRef = tkSourceRef task,
       jcStatus = JudgeTaskStatusDone, jcScore = reScore saved, jcPassed = rePassed saved, jcFinishedAt = reJudgedAt saved\<rparr>"

definition announce ::
  "int \<Rightarrow> int \<Rightarrow> JudgeTask \<Rightarrow> string \<Rightarrow> judge_event \<Rightarrow> judge_store \<Rightarrow> judge_error + judge_store" where
  "announce now i task subject event db =
     bindR (persisted ErrJudgeTaskPersistFailed (CreateOutbox now db i (tkTenantID task) (tkID task) subject event))
       (\<lambda>(row, db). Inr db)"

definition announce_expired :: "int \<Rightarrow> int \<Rightarrow> judge_store \<Rightarrow> int \<times> JudgeTask \<Rightarrow> judge_error + judge_store" where
  "announce_expired now here db = (\<lambda>(i, task).
     announce now i task SubjectJudgeFailed (failed_event here task (tkLastError task)) db)"

definition RunWorkerOnce_claim ::
  "JudgeConfig \<Rightarrow> int \<Rightarrow> int \<Rightarrow> (nat \<Rightarrow> int) \<Rightarrow> string \<Rightarrow> judge_store \<Rightarrow>
     judge_error + (JudgeTask list \<times> JudgeTask list) \<times> judge_store" where
  "RunWorkerOnce_claim cfg now here gen token db =
     (let limit = worker_limit cfg 1;
          leaseUntil = here + jcfTaskLeaseDurationMs cfg * 1000000
      in case FailExpiredJudgeTasks now db limit here of (expired, db) \<Rightarrow>
           bindR (foldR (announce_expired now here) db (zip (map gen [0..<length expired]) expired)) (\<lambda>db.
             case DequeueJudgeTasks now db limit here leaseUntil token of (tasks, db) \<Rightarrow> Inr ((expired, tasks), db)))"

subsection \<open>The end of an execution\<close>

definition renewTaskLease :: "JudgeConfig \<Rightarrow> int \<Rightarrow> int \<Rightarrow> JudgeTask \<Rightarrow> judge_store \<Rightarrow> (JudgeTask \<times> judge_store) option" where
  "renewTaskLease cfg now here task db =
     RenewJudgeTaskLease now db (tkTenantID task) (tkID task) (tkLeaseToken task) (here + jcfTaskLeaseDurationMs cfg * 1000000)"

definition executed_row :: "int \<Rightarrow> JudgeTask \<Rightarrow> JudgeExecutionResult \<Rightarrow> JudgeResult" where
  "executed_row i task result =
     \<lparr>reID = i, reTaskID = tkID task, reTenantID = tkTenantID task, reVersion = 0, rePassed = exPassed result,
      reScore = exScore result, reMaxScore = exMaxScore result, reDetails = exDetails result, reReplay = exReplay result,
      reJudgeSandboxRef = exJudgeSandboxRef result, reJudgedAt = 0, reIsRejudge = inRejudge (tkInputSnapshot task)\<rparr>"

definition completeTask ::
  "int \<Rightarrow> int \<Rightarrow> int \<Rightarrow> JudgeTask \<Rightarrow> JudgeExecutionResult \<Rightarrow> judge_store \<Rightarrow> judge_error + JudgeTask \<times> judge_store" where
  "completeTask now resultID outboxID task result db =
     bindR (persisted ErrJudgeTaskPersistFailed (UpsertJudgeResult now db (executed_row resultID task result))) (\<lambda>(saved, db).
     bindR (persisted ErrJudgeTaskPersistFailed (CompleteJudgeTask now db (tkTenantID task) (tkID task) (tkLeaseToken task)))
       (\<lambda>(completed, db).
     bindR (announce now outboxID task SubjectJudgeCompleted
              (completed_event (inTraceID (tkInputSnapshot task)) task saved) db) (\<lambda>db.
       Inr (completed, db))))"

definition retryOrFail ::
  "int \<Rightarrow> int \<Rightarrow> int \<Rightarrow> JudgeTask \<Rightarrow> string \<Rightarrow> judge_store \<Rightarrow> judge_error + JudgeTask \<times> judge_store" where
  "retryOrFail now here outboxID task reason db =
     (if tkRetryCount task < tkMaxRetries task
      then persisted ErrJudgeTaskPersistFailed
             (RetryJudgeTask now db (tkTenantID task) (tkID task) reason (tkLeaseToken task))
      else bindR (persisted ErrJudgeTaskPersistFailed
             (FailJudgeTask now db (tkTenantID task) (tkID task) reason (tkLeaseToken task))) (\<lambda>(failed, db).
           bindR (announce now outboxID task SubjectJudgeFailed (failed_event here task reason) db) (\<lambda>db.
             Inr (failed, db))))"

subsection \<open>Requests on a task\<close>

definition CancelTask :: "int \<Rightarrow> int \<Rightarrow> int \<Rightarrow> judge_store \<Rightarrow> judge_error + JudgeTask \<times> judge_store" where
  "CancelTask now tenantID taskID db =
     (if tenantID \<le> 0 \<or> taskID \<le> 0 then Inl ErrJudgeSubmitInvalid
      else persisted ErrJudgeTaskStateInvalid (CancelQueuedJudgeTask now db tenantID taskID))"

definition rejudged :: "JudgeTask \<Rightarrow> JudgeInputSnapshot" where
  "rejudged task = (tkInputSnapshot task)\<lparr>inRejudge := True\<rparr>"

definition rejudgeTask :: "int \<Rightarrow> int \<Rightarrow> int \<Rightarrow> judge_store \<Rightarrow> judge_error + JudgeTask \<times> judge_store" where
  "rejudgeTask now tenantID taskID db =
     (if tenantID \<le> 0 \<or> taskID \<le> 0 then Inl ErrJudgeSubmitInvalid
      else bindR (persisted ErrJudgeTaskNotFound (GetJudgeTask db tenantID taskID)) (\<lambda>existing.
             persisted ErrJudgeTaskStateInvalid (ResetJudgeTaskForRejudge now db tenantID taskID (rejudged existing))))"

definition rejudge_one :: "int \<Rightarrow> int \<Rightarrow> JudgeTask list \<times> judge_store \<Rightarrow> JudgeTask \<Rightarrow> judge_error + JudgeTask list \<times> judge_store" where
  "rejudge_one now tenantID = (\<lambda>(changed, db) item.
     if tkStatus item \<noteq> TaskDone \<and> tkStatus item \<noteq> TaskFailed then Inr (changed, db)
     else bindR (persisted ErrJudgeTaskStateInvalid (ResetJudgeTaskForRejudge now db tenantID (tkID item) (rejudged item)))
            (\<lambda>(updated, db). Inr (changed @ [updated], db)))"

text \<open>The transaction commits before the batch is found to be empty; then it has changed nothing.\<close>

definition RejudgeBatch :: "int \<Rightarrow> int \<Rightarrow> string \<Rightarrow> judge_store \<Rightarrow> judge_error + JudgeTask list \<times> judge_store" where
  "RejudgeBatch now tenantID sourceRef0 db =
     (let sourceRef = TrimSpace sourceRef0
      in if tenantID \<le> 0 \<or> \<not> ValidSourceRef sourceRef then Inl ErrJudgeSubmitInvalid
         else bindR (foldR (rejudge_one now tenantID) ([], db) (ListJudgeTasksBySourceRef db tenantID sourceRef)) (\<lambda>(changed, db).
                if changed = [] then Inl ErrJudgeTaskStateInvalid else Inr (changed, db)))"

definition getTaskInfo :: "judge_store \<Rightarrow> int \<Rightarrow> int \<Rightarrow> judge_error + TaskInfo" where
  "getTaskInfo db tenantID taskID = persisted ErrJudgeTaskNotFound (GetJudgeTaskWithResult db tenantID taskID)"

definition ensureUserCanAccessTask ::
  "(int \<Rightarrow> string \<Rightarrow> bool) \<Rightarrow> judge_store \<Rightarrow> int \<Rightarrow> int \<Rightarrow> int \<Rightarrow> judge_error + unit" where
  "ensureUserCanAccessTask enabled db tenantID accountID taskID =
     bindR (getTaskInfo db tenantID taskID) (\<lambda>info.
       thenR (ensureAccountCanAccessTask (tiTask info) accountID) (requireTaskModule enabled (tiTask info)))"

definition GetTaskInfoForUser ::
  "(int \<Rightarrow> string \<Rightarrow> bool) \<Rightarrow> judge_store \<Rightarrow> int \<Rightarrow> int \<Rightarrow> int \<Rightarrow> judge_error + TaskInfo" where
  "GetTaskInfoForUser enabled db tenantID accountID taskID =
     bindR (getTaskInfo db tenantID taskID) (\<lambda>info.
       thenR (ensureAccountCanAccessTask (tiTask info) accountID)
         (thenR (requireTaskModule enabled (tiTask info)) (Inr info)))"

definition RejudgeTaskForUser ::
  "(int \<Rightarrow> string \<Rightarrow> bool) \<Rightarrow> int \<Rightarrow> int \<Rightarrow> int \<Rightarrow> int \<Rightarrow> judge_store \<Rightarrow> judge_error + JudgeTask \<times> judge_store" where
  "RejudgeTaskForUser enabled now tenantID accountID taskID db =
     thenR (ensureUserCanAccessTask enabled db tenantID accountID taskID) (rejudgeTask now tenantID taskID db)"

definition GetJudgeTaskInfo :: "judge_store \<Rightarrow> int \<Rightarrow> int \<Rightarrow> judge_error + JudgeTaskInfo" where
  "GetJudgeTaskInfo db tenantID taskID =
     bindR (getTaskInfo db tenantID taskID) (\<lambda>info. Inr (contractTaskInfoFromModel info))"

definition ListTasks ::
  "(int \<Rightarrow> string list) \<Rightarrow> (int \<Rightarrow> string \<Rightarrow> bool) \<Rightarrow> judge_store \<Rightarrow> int \<Rightarrow> int \<Rightarrow> string \<Rightarrow> bool \<Rightarrow> string \<Rightarrow> 64 word \<Rightarrow> 64 word \<Rightarrow>
     judge_error + TaskInfo list \<times> nat \<times> 64 word \<times> 64 word" where
  "ListTasks modules enabled db tenantID accountID sourceRef pendingManual state page0 size0 =
     (if tenantID \<le> 0 \<or> accountID \<le> 0 then Inl ErrJudgeSubmitInvalid
      else if \<not> validTaskState state then Inl ErrJudgeSubmitInvalid
      else case Normalize page0 size0 of (page, perPage) \<Rightarrow>
        thenR (if TrimSpace sourceRef = [] then Inr ()
               else let m = TenantModuleFromSourceRef (TrimSpace sourceRef)
                    in if m = [] then Inl ErrJudgeTaskForbidden else failIf (\<not> enabled tenantID m) ErrTenantModuleDisabled)
          (case LimitOffset page perPage of (limit, offset) \<Rightarrow>
             Inr (ListJudgeTasksPage db tenantID (TrimSpace sourceRef) pendingManual accountID state (modules tenantID)
                    (nat (sint limit)) (nat (sint offset)),
                  CountJudgeTasks db tenantID (TrimSpace sourceRef) pendingManual accountID state (modules tenantID), page, perPage)))"

subsection \<open>Manual scores\<close>

definition manualCaseText :: string where
  "manualCaseText = [CHR 0xE4, CHR 0xBA, CHR 0xBA, CHR 0xE5, CHR 0xB7, CHR 0xA5, CHR 0xE8, CHR 0xAF, CHR 0x84, CHR 0xE5, CHR 0x88, CHR 0x86]"

definition manualExpectedText :: string where
  "manualExpectedText = [CHR 0xE6, CHR 0x95, CHR 0x99, CHR 0xE5, CHR 0xB8, CHR 0x88] @ manualCaseText"

definition manual_row :: "int \<Rightarrow> JudgeTask \<Rightarrow> ManualScoreRequest \<Rightarrow> JudgeResult" where
  "manual_row i task req =
     \<lparr>reID = i, reTaskID = tkID task, reTenantID = tkTenantID task, reVersion = 0, rePassed = mqPassed req,
      reScore = mqScore req, reMaxScore = mqMaxScore req,
      reDetails = [\<lparr>rdCase = manualCaseText, rdSource = [], rdTarget = [], rdPassed = mqPassed req,
        rdExpectedLabel = manualExpectedText, rdActual = TrimSpace (mqComment req), rdHint = []\<rparr>],
      reReplay = \<lparr>jrActions = []\<rparr>, reJudgeSandboxRef = [], reJudgedAt = 0,
      reIsRejudge = inRejudge (tkInputSnapshot task)\<rparr>"

definition ManualScore ::
  "(int \<Rightarrow> string \<Rightarrow> bool) \<Rightarrow> int \<Rightarrow> int \<Rightarrow> int \<Rightarrow> string \<Rightarrow> int \<Rightarrow> int \<Rightarrow> int \<Rightarrow> ManualScoreRequest \<Rightarrow> judge_store \<Rightarrow>
     judge_error + TaskInfo \<times> judge_store" where
  "ManualScore enabled now resultID outboxID traceID tenantID taskID scorerID req db =
     (if tenantID \<le> 0 \<or> taskID \<le> 0 \<or> scorerID \<le> 0 then Inl ErrJudgeSubmitInvalid
      else thenR (validateManualScore req)
      (bindR (persisted ErrJudgeTaskNotFound (GetJudgeTask db tenantID taskID)) (\<lambda>task.
       thenR (ensureAccountCanAccessTask task scorerID)
       (thenR (requireTaskModule enabled task)
       (if tkStatus task \<noteq> TaskJudging \<or> inJudgerType (tkInputSnapshot task) \<noteq> JudgerTypeManual then Inl ErrJudgeTaskStateInvalid
        else let result = manual_row resultID task req
        in thenR (validateResultDetails (reDetails result))
        (bindR (persisted ErrJudgeTaskPersistFailed (UpsertJudgeResult now db result)) (\<lambda>(saved, db).
         bindR (persisted ErrJudgeTaskPersistFailed (CompleteManualJudgeTask now db tenantID taskID)) (\<lambda>(task, db).
         if TrimSpace traceID = [] then Inl ErrJudgeTaskStateInvalid
         else bindR (announce now outboxID task SubjectJudgeCompleted (completed_event traceID task saved) db) (\<lambda>db.
           Inr (\<lparr>tiTask = task, tiResult = Some saved, tiExisting = False\<rparr>, db))))))))))"

subsection \<open>Publication of the outbox\<close>

definition publishPendingOutbox_claim ::
  "JudgeConfig \<Rightarrow> int \<Rightarrow> int \<Rightarrow> string \<Rightarrow> judge_store \<Rightarrow> judge_error + JudgeEventOutbox list \<times> judge_store" where
  "publishPendingOutbox_claim cfg now here token db =
     (case Int32 (jcfOutboxMaxAttempts cfg) of (maxAttempts, ok) \<Rightarrow>
        if \<not> ok \<or> sint maxAttempts \<le> 0 then Inl ErrJudgeEventPublishFailed
        else Inr (ClaimPendingOutbox now (ExhaustExpiredEventOutbox now db (sint maxAttempts) here) (worker_limit cfg 10)
                    (sint maxAttempts) here (here + jcfOutboxLeaseDurationMs cfg * 1000000) token))"

definition markOutboxPublished :: "int \<Rightarrow> JudgeEventOutbox \<Rightarrow> judge_store \<Rightarrow> judge_error + judge_store" where
  "markOutboxPublished now o1 db =
     persisted ErrJudgeEventPublishFailed (MarkOutboxPublished now db (obTenantID o1) (obID o1) (obLeaseToken o1))"

definition markOutboxFailed :: "int \<Rightarrow> JudgeEventOutbox \<Rightarrow> string \<Rightarrow> judge_store \<Rightarrow> judge_error + judge_store" where
  "markOutboxFailed now o1 reason db =
     persisted ErrJudgeEventPublishFailed (MarkOutboxFailed now db (obTenantID o1) (obID o1) reason (obLeaseToken o1))"

end
