(* ===== verification/JudgeSystem.thy ===== *)
theory JudgeSystem
  imports JudgeService EventBus
begin

section \<open>Judge module: the running system\<close>

text \<open>
  Workers, publishers and requests as interleaved transactions on one store. A worker holds the rows
  it claimed until it settles them or dies; a publisher holds the announcements it claimed. Lease tokens
  are fresh (\<open>pkgcrypto.RandomToken(48)\<close>), a worker's own clock is an arbitrary reading. \<open>runs\<close> relates a
  task to the results its execution may return. The last three fields are a log: the lease tokens drawn
  so far, the claims that were settled, and the announcements the bus has accepted.
\<close>

record judge_system =
  jsDB :: judge_store
  jsNow :: int
  jsHeld :: "JudgeTask list"
  jsOut :: "JudgeEventOutbox list"
  jsTokens :: "string set"
  jsSettled :: "(string \<times> int) list"
  jsSent :: "JudgeEventOutbox list"

inductive judge_step ::
  "JudgeConfig \<Rightarrow> (JudgeTask \<Rightarrow> JudgeExecutionResult \<Rightarrow> bool) \<Rightarrow> judge_system \<Rightarrow> judge_system \<Rightarrow> bool" for cfg runs where
  clock: "jsNow s \<le> now \<Longrightarrow> judge_step cfg runs s (s\<lparr>jsNow := now\<rparr>)"
| submit: "SubmitJudgeTask_prepare cfg env past seen req = Inr (Fresh task vector code) \<Longrightarrow>
     SubmitJudgeTask_commit (jsNow s) printID (jsDB s) task vector code = Inr (answer, db) \<Longrightarrow>
     judge_step cfg runs s (s\<lparr>jsDB := db\<rparr>)"
| claim: "token \<notin> jsTokens s \<Longrightarrow> token \<noteq> [] \<Longrightarrow>
     RunWorkerOnce_claim cfg (jsNow s) here gen token (jsDB s) = Inr ((expired, tasks), db) \<Longrightarrow>
     judge_step cfg runs s (s\<lparr>jsDB := db, jsHeld := tasks @ jsHeld s, jsTokens := insert token (jsTokens s)\<rparr>)"
| renew: "task \<in> set (jsHeld s) \<Longrightarrow> renewTaskLease cfg (jsNow s) here task (jsDB s) = Some (row, db) \<Longrightarrow>
     judge_step cfg runs s (s\<lparr>jsDB := db\<rparr>)"
| complete: "task \<in> set (jsHeld s) \<Longrightarrow> runs task result \<Longrightarrow>
     completeTask (jsNow s) resultID outboxID task result (jsDB s) = Inr (row, db) \<Longrightarrow>
     judge_step cfg runs s (s\<lparr>jsDB := db, jsSettled := (tkLeaseToken task, tkID task) # jsSettled s\<rparr>)"
| giveup: "task \<in> set (jsHeld s) \<Longrightarrow>
     retryOrFail (jsNow s) here outboxID task reason (jsDB s) = Inr (row, db) \<Longrightarrow>
     judge_step cfg runs s (s\<lparr>jsDB := db, jsSettled := (tkLeaseToken task, tkID task) # jsSettled s\<rparr>)"
| cancel: "CancelTask (jsNow s) tenantID taskID (jsDB s) = Inr (row, db) \<Longrightarrow> judge_step cfg runs s (s\<lparr>jsDB := db\<rparr>)"
| rejudge: "rejudgeTask (jsNow s) tenantID taskID (jsDB s) = Inr (row, db) \<Longrightarrow> judge_step cfg runs s (s\<lparr>jsDB := db\<rparr>)"
| batch: "RejudgeBatch (jsNow s) tenantID sourceRef (jsDB s) = Inr (changed, db) \<Longrightarrow> judge_step cfg runs s (s\<lparr>jsDB := db\<rparr>)"
| manual: "ManualScore enabled (jsNow s) resultID outboxID traceID tenantID taskID scorerID req (jsDB s) = Inr (info, db) \<Longrightarrow>
     judge_step cfg runs s (s\<lparr>jsDB := db\<rparr>)"
| take_out: "token \<notin> jsTokens s \<Longrightarrow> token \<noteq> [] \<Longrightarrow>
     publishPendingOutbox_claim cfg (jsNow s) here token (jsDB s) = Inr (rows, db) \<Longrightarrow>
     judge_step cfg runs s (s\<lparr>jsDB := db, jsOut := rows @ jsOut s, jsTokens := insert token (jsTokens s)\<rparr>)"
| send: "o1 \<in> set (jsOut s) \<Longrightarrow> judge_step cfg runs s (s\<lparr>jsSent := o1 # jsSent s\<rparr>)"
| sent: "o1 \<in> set (jsSent s) \<Longrightarrow> markOutboxPublished (jsNow s) o1 (jsDB s) = Inr db \<Longrightarrow>
     judge_step cfg runs s (s\<lparr>jsDB := db\<rparr>)"
| unsent: "o1 \<in> set (jsOut s) \<Longrightarrow> markOutboxFailed (jsNow s) o1 reason (jsDB s) = Inr db \<Longrightarrow>
     judge_step cfg runs s (s\<lparr>jsDB := db\<rparr>)"

definition judge_started :: "judge_system \<Rightarrow> bool" where
  "judge_started s \<longleftrightarrow>
     jdTasks (jsDB s) = [] \<and> jdResults (jsDB s) = [] \<and> jdOutbox (jsDB s) = [] \<and> jdPrints (jsDB s) = [] \<and>
     jsHeld s = [] \<and> jsOut s = [] \<and> jsSettled s = [] \<and> jsSent s = []"

subsection \<open>Moves of one task\<close>

text \<open>
  What a transaction does to one row of the task table, with the results and announcements it adds for
  that task. \<open>token\<close> is the lease token the transaction hands out, if it does.
\<close>

definition task_verdict :: "JudgeTask \<Rightarrow> JudgeResult \<Rightarrow> judge_event \<Rightarrow> bool" where
  "task_verdict t r e \<longleftrightarrow> (\<exists>traceID. e = completed_event traceID t r) \<and> reTaskID r = tkID t \<and> reTenantID r = tkTenantID t"

inductive task_move :: "string option \<Rightarrow> JudgeTask \<Rightarrow> JudgeTask \<Rightarrow> JudgeResult list \<Rightarrow> judge_event list \<Rightarrow> bool" for token where
  same: "task_move token t t [] []"
| claimed: "token = Some k \<Longrightarrow> tkStatus t = 1 \<or> tkStatus t = 2 \<and> tkLeaseUntil t \<noteq> None \<and> tkRetryCount t < tkMaxRetries t \<Longrightarrow>
     task_move token t (claim_task now k leaseUntil t) [] []"
| renewed: "tkStatus t = 2 \<Longrightarrow> tkLeaseUntil t \<noteq> None \<Longrightarrow>
     task_move token t (t\<lparr>tkLeaseUntil := Some u, tkUpdatedAt := now\<rparr>) [] []"
| completed: "tkStatus t = 2 \<Longrightarrow> tkLeaseUntil t \<noteq> None \<Longrightarrow> task_verdict t r e \<Longrightarrow> task_move token t (free_task now 3 [] t) [r] [e]"
| retried: "tkStatus t = 2 \<Longrightarrow> tkLeaseUntil t \<noteq> None \<Longrightarrow> tkRetryCount t < tkMaxRetries t \<Longrightarrow>
     task_move token t ((free_task now 1 reason t)\<lparr>tkRetryCount := tkRetryCount t + 1\<rparr>) [] []"
| failed: "tkStatus t = 2 \<Longrightarrow> tkLeaseUntil t \<noteq> None \<Longrightarrow>
     task_move token t (free_task now 4 reason t) [] [failed_event time t text]"
| scored: "tkStatus t = 2 \<Longrightarrow> tkLeaseUntil t = None \<Longrightarrow> task_verdict t r e \<Longrightarrow>
     task_move token t (t\<lparr>tkStatus := 3, tkLastError := [], tkUpdatedAt := now\<rparr>) [r] [e]"
| cancelled: "tkStatus t = 1 \<Longrightarrow> task_move token t (t\<lparr>tkStatus := 5, tkUpdatedAt := now\<rparr>) [] []"
| queued_again: "tkStatus t \<in> {3, 4} \<Longrightarrow>
     task_move token t (t\<lparr>tkStatus := 1, tkRetryCount := 0, tkInputSnapshot := rejudged t, tkLastError := [], tkUpdatedAt := now\<rparr>) [] []"

inductive_cases task_moveE: "task_move token t u rs es"

definition of_task :: "int \<Rightarrow> JudgeResult list \<Rightarrow> JudgeResult list" where
  "of_task i rs = filter (\<lambda>r. reTaskID r = i) rs"

definition said_of :: "int \<Rightarrow> JudgeEventOutbox list \<Rightarrow> judge_event list" where
  "said_of i rows = map obPayload (filter (\<lambda>o1. obTaskID o1 = i) rows)"

text \<open>A new row of the outbox: unclaimed, with an event the bus will accept.\<close>

definition new_row :: "JudgeEventOutbox \<Rightarrow> bool" where
  "new_row o1 \<longleftrightarrow> obStatus o1 = 1 \<and> obRetryCount o1 = 0 \<and> obLeaseToken o1 = [] \<and> obLeaseUntil o1 = None \<and>
     fst (event_meta (obPayload o1)) = obTenantID o1 \<and> TrimSpace (snd (event_meta (obPayload o1))) \<noteq> []"

definition task_moves :: "string option \<Rightarrow> judge_store \<Rightarrow> judge_store \<Rightarrow> bool" where
  "task_moves token db db' \<longleftrightarrow> (\<exists>g rs os.
     jdTasks db' = map g (jdTasks db) \<and> jdResults db' = jdResults db @ rs \<and> jdOutbox db' = jdOutbox db @ os \<and>
     (\<forall>t \<in> set (jdTasks db). task_move token t (g t) (of_task (tkID t) rs) (said_of (tkID t) os)) \<and>
     (\<forall>r \<in> set rs. reTaskID r \<in> tkID ` set (jdTasks db)) \<and> (\<forall>o1 \<in> set os. obTaskID o1 \<in> tkID ` set (jdTasks db) \<and> new_row o1) \<and>
     distinct (map obID os) \<and> obID ` set os \<inter> obID ` set (jdOutbox db) = {})"

subsection \<open>Handlers as moves\<close>

lemma update_task_Some:
  assumes "update_task p f db = Some (row, db')"
  obtains t where "t \<in> set (jdTasks db)" "p t" "row = f t" "db' = db\<lparr>jdTasks := upd_rows p f (jdTasks db)\<rparr>"
  using assms by (auto simp: update_task_def split: option.splits dest: find_SomeD)

lemma CreateOutbox_Some:
  assumes "CreateOutbox now db i tenantID taskID subject payload = Some (row, db')"
  shows "db' = db\<lparr>jdOutbox := jdOutbox db @ [row]\<rparr>" "new_row row" "obTaskID row = taskID" "obPayload row = payload"
    "obID row = i" "obTenantID row = tenantID" "i \<notin> obID ` set (jdOutbox db)" "obSubject row = subject"
  using assms
  by (auto simp: CreateOutbox_def Let_def validateJudgeOutboxPayload_def failIf_def new_row_def split: if_splits)

lemma announce_Inr:
  assumes "announce now i task subject event db = Inr db'"
  obtains row where "db' = db\<lparr>jdOutbox := jdOutbox db @ [row]\<rparr>" "new_row row" "obTaskID row = tkID task" "obPayload row = event"
    "obID row = i" "obTenantID row = tkTenantID task" "i \<notin> obID ` set (jdOutbox db)"
proof -
  from assms obtain row where r: "CreateOutbox now db i (tkTenantID task) (tkID task) subject event = Some (row, db')"
    by (auto simp: announce_def persisted_Inr res_simps)
  show thesis by (rule that) (rule CreateOutbox_Some [OF r])+
qed

lemma UpsertJudgeResult_Some:
  assumes "UpsertJudgeResult now db r = Some (row, db')"
  shows "db' = db\<lparr>jdResults := jdResults db @ [row]\<rparr>" "reTaskID row = reTaskID r" "reTenantID row = reTenantID r"
    "rePassed row = rePassed r" "reScore row = reScore r" "reVersion row = next_version db (reTenantID r) (reTaskID r)"
    "reMaxScore row = reMaxScore r" "reDetails row = reDetails r" "reID row = reID r"
  using assms by (auto simp: UpsertJudgeResult_def Let_def split: if_splits)

lemma same_id: "distinct (map tkID ts) \<Longrightarrow> t \<in> set ts \<Longrightarrow> u \<in> set ts \<Longrightarrow> tkID t = tkID u \<Longrightarrow> t = u"
  by (auto simp: distinct_map dest: inj_onD)

lemma update_moves:
  assumes up: "update_task p f db1 = Some (row, db2)" and d: "distinct (map tkID (jdTasks db))"
    and db1: "jdTasks db1 = jdTasks db" and p: "\<And>u. p u \<Longrightarrow> tkID u = i"
    and move: "\<And>t. t \<in> set (jdTasks db) \<Longrightarrow> p t \<Longrightarrow> task_move token t (f t) rs (map obPayload os)"
    and rs: "\<And>r. r \<in> set rs \<Longrightarrow> reTaskID r = i" and os: "\<And>o1. o1 \<in> set os \<Longrightarrow> obTaskID o1 = i \<and> new_row o1"
    and ids: "distinct (map obID os)" "obID ` set os \<inter> obID ` set (jdOutbox db) = {}"
    and db: "jdTasks db' = jdTasks db2" "jdResults db' = jdResults db @ rs" "jdOutbox db' = jdOutbox db @ os"
  shows "task_moves token db db'"
proof -
  from up obtain t where t: "t \<in> set (jdTasks db)" "p t" and db2: "jdTasks db2 = upd_rows p f (jdTasks db)"
    by (elim update_task_Some) (simp add: db1)
  then have i: "i = tkID t" using p by simp
  have "task_move token u (if p u then f u else u) (of_task (tkID u) rs) (said_of (tkID u) os)" if u: "u \<in> set (jdTasks db)" for u
  proof (cases "u = t")
    case True
    have "of_task (tkID t) rs = rs" "said_of (tkID t) os = map obPayload os"
      using rs os i by (auto simp: of_task_def said_of_def intro!: filter_True arg_cong [where f="map obPayload"])
    with True t move show ?thesis by simp
  next
    case False
    then have "tkID u \<noteq> tkID t" using same_id [OF d u t(1)] by blast
    moreover from this have "of_task (tkID u) rs = []" "said_of (tkID u) os = []"
      using rs os i by (auto simp: of_task_def said_of_def filter_empty_conv)
    ultimately show ?thesis using p [of u] i by (auto intro: task_move.same)
  qed
  then show ?thesis
    unfolding task_moves_def db db2 upd_rows_def
    using t rs os ids i by (intro exI [of _ "\<lambda>r. if p r then f r else r"] exI [of _ rs] exI [of _ os]) auto
qed

lemma moves_refl: "task_moves token db db"
  unfolding task_moves_def
  by (intro exI [of _ id] exI [of _ "[]"]) (auto simp: of_task_def said_of_def intro: task_move.same)

lemma leased_until: "leased now token t \<Longrightarrow> tkStatus t = 2 \<and> tkLeaseUntil t \<noteq> None \<and> tkLeaseToken t = token"
  by (auto simp: leased_def split: option.splits)

lemma CancelTask_moves:
  assumes "CancelTask now tenantID taskID db = Inr (row, db')" and d: "distinct (map tkID (jdTasks db))"
  shows "task_moves token db db'"
proof -
  have up: "CancelQueuedJudgeTask now db tenantID taskID = Some (row, db')"
    using assms(1) by (simp add: CancelTask_def persisted_Inr res_simps)
  then have "jdResults db' = jdResults db" "jdOutbox db' = jdOutbox db"
    by (auto simp: CancelQueuedJudgeTask_def elim!: update_task_Some)
  with up show ?thesis unfolding CancelQueuedJudgeTask_def
    by (elim update_moves [where i=taskID and rs="[]" and os="[]" and db=db and db'=db', OF _ d])
      (auto simp: judge_task_key_def intro: task_move.cancelled)
qed

lemma Reset_moves:
  assumes up: "ResetJudgeTaskForRejudge now db tenantID taskID snapshot = Some (row, db')" and d: "distinct (map tkID (jdTasks db))"
    and s: "\<And>t. t \<in> set (jdTasks db) \<Longrightarrow> judge_task_key tenantID taskID t \<Longrightarrow> snapshot = rejudged t"
  shows "task_moves token db db'"
proof -
  have "jdResults db' = jdResults db" "jdOutbox db' = jdOutbox db"
    using up by (auto simp: ResetJudgeTaskForRejudge_def elim!: update_task_Some)
  with up show ?thesis unfolding ResetJudgeTaskForRejudge_def
    by (elim update_moves [where i=taskID and rs="[]" and os="[]" and db=db and db'=db', OF _ d])
      (auto simp: judge_task_key_def dest!: s intro: task_move.queued_again)
qed

lemma find_key:
  assumes "distinct (map tkID (jdTasks db))" and "GetJudgeTask db tenantID i = Some u"
    and "t \<in> set (jdTasks db)" and "judge_task_key tenantID i t"
  shows "u = t"
proof -
  from assms(2) have "judge_task_key tenantID i u" "u \<in> set (jdTasks db)"
    by (auto simp: GetJudgeTask_def dest: find_SomeD)
  with assms same_id show ?thesis by (metis judge_task_key_def)
qed

lemma rejudgeTask_moves:
  assumes "rejudgeTask now tenantID taskID db = Inr (row, db')" and d: "distinct (map tkID (jdTasks db))"
  shows "task_moves token db db'"
proof -
  from assms(1) obtain u where u: "GetJudgeTask db tenantID taskID = Some u"
    and r: "ResetJudgeTaskForRejudge now db tenantID taskID (rejudged u) = Some (row, db')"
    by (auto simp: rejudgeTask_def persisted_Inr res_simps)
  show ?thesis by (rule Reset_moves [OF r d]) (use find_key [OF d u] in blast)
qed

text \<open>A claim is the row as it was handed out: while the row has the claim's token, it still is that row.\<close>

definition same_claim :: "JudgeTask \<Rightarrow> JudgeTask \<Rightarrow> bool" where
  "same_claim h t \<longleftrightarrow> tkID t = tkID h \<and> tkTenantID t = tkTenantID h \<and> tkSourceRef t = tkSourceRef h \<and>
     tkInputSnapshot t = tkInputSnapshot h \<and> tkRetryCount t = tkRetryCount h \<and> tkMaxRetries t = tkMaxRetries h"

definition held_ok :: "judge_store \<Rightarrow> JudgeTask \<Rightarrow> bool" where
  "held_ok db h \<longleftrightarrow> tkLeaseToken h \<noteq> [] \<and>
     (\<forall>t \<in> set (jdTasks db). tkID t = tkID h \<longrightarrow> tkLeaseToken t = tkLeaseToken h \<longrightarrow> same_claim h t)"

lemma claim_events:
  "same_claim h t \<Longrightarrow> failed_event time h text = failed_event time t text"
  "same_claim h t \<Longrightarrow> completed_event traceID h r = completed_event traceID t r"
  by (simp_all add: same_claim_def failed_event_def completed_event_def)

lemma held_row:
  "held_ok db h \<Longrightarrow> t \<in> set (jdTasks db) \<Longrightarrow> judge_task_key (tkTenantID h) (tkID h) t \<Longrightarrow> leased now (tkLeaseToken h) t \<Longrightarrow>
     same_claim h t \<and> tkStatus t = 2 \<and> tkLeaseUntil t \<noteq> None"
  by (auto simp: held_ok_def judge_task_key_def dest!: leased_until)

lemma update_task_other:
  "update_task p f db = Some (row, db') \<Longrightarrow> jdResults db' = jdResults db \<and> jdOutbox db' = jdOutbox db"
  by (auto elim: update_task_Some)

lemma renew_moves:
  assumes up: "renewTaskLease cfg now here h db = Some (row, db')" and d: "distinct (map tkID (jdTasks db))"
  shows "task_moves token db db'"
proof -
  have "jdResults db' = jdResults db \<and> jdOutbox db' = jdOutbox db"
    using up unfolding renewTaskLease_def RenewJudgeTaskLease_def by (rule update_task_other)
  with up show ?thesis unfolding renewTaskLease_def RenewJudgeTaskLease_def
    by (elim update_moves [where i="tkID h" and rs="[]" and os="[]" and db=db and db'=db', OF _ d])
      (auto simp: judge_task_key_def intro!: task_move.renewed dest: leased_until)
qed

lemma completeTask_parts:
  assumes "completeTask now resultID outboxID h result db = Inr (row, db')"
  obtains r db1 db2 o1 where "jdTasks db1 = jdTasks db"
    "CompleteJudgeTask now db1 (tkTenantID h) (tkID h) (tkLeaseToken h) = Some (row, db2)"
    "r = (executed_row resultID h result)\<lparr>reVersion := next_version db (tkTenantID h) (tkID h), reJudgedAt := now\<rparr>"
    "resultID \<notin> reID ` set (jdResults db)"
    "obPayload o1 = completed_event (inTraceID (tkInputSnapshot h)) h r" "obTaskID o1 = tkID h" "new_row o1"
    "obTenantID o1 = tkTenantID h" "obID o1 \<notin> obID ` set (jdOutbox db)"
    "jdTasks db' = jdTasks db2" "jdResults db' = jdResults db @ [r]" "jdOutbox db' = jdOutbox db @ [o1]"
proof -
  from assms obtain r db1 db2 where r: "UpsertJudgeResult now db (executed_row resultID h result) = Some (r, db1)"
    and c: "CompleteJudgeTask now db1 (tkTenantID h) (tkID h) (tkLeaseToken h) = Some (row, db2)"
    and a: "announce now outboxID h SubjectJudgeCompleted (completed_event (inTraceID (tkInputSnapshot h)) h r) db2 = Inr db'"
    by (auto simp: completeTask_def persisted_Inr res_simps)
  from a obtain o1 where o1: "db' = db2\<lparr>jdOutbox := jdOutbox db2 @ [o1]\<rparr>" "new_row o1" "obTaskID o1 = tkID h"
    "obPayload o1 = completed_event (inTraceID (tkInputSnapshot h)) h r" "obID o1 = outboxID"
    "obTenantID o1 = tkTenantID h" "outboxID \<notin> obID ` set (jdOutbox db2)" by (rule announce_Inr)
  have keep: "jdResults db2 = jdResults db1 \<and> jdOutbox db2 = jdOutbox db1"
    using c unfolding CompleteJudgeTask_def by (rule update_task_other)
  have r': "r = (executed_row resultID h result)\<lparr>reVersion := next_version db (tkTenantID h) (tkID h), reJudgedAt := now\<rparr>"
    "db1 = db\<lparr>jdResults := jdResults db @ [r]\<rparr>" "resultID \<notin> reID ` set (jdResults db)"
    using r by (auto simp: UpsertJudgeResult_def Let_def executed_row_def split: if_splits)
  show thesis by (rule that [OF _ c r'(1,3) o1(4,3,2,6)]) (use o1 keep r' in auto)
qed

lemma completeTask_moves:
  assumes c: "completeTask now resultID outboxID h result db = Inr (row, db')" and d: "distinct (map tkID (jdTasks db))"
    and h: "held_ok db h"
  shows "task_moves token db db'"
proof -
  from c obtain r db1 db2 o1 where p: "jdTasks db1 = jdTasks db"
    "CompleteJudgeTask now db1 (tkTenantID h) (tkID h) (tkLeaseToken h) = Some (row, db2)"
    "r = (executed_row resultID h result)\<lparr>reVersion := next_version db (tkTenantID h) (tkID h), reJudgedAt := now\<rparr>"
    "obPayload o1 = completed_event (inTraceID (tkInputSnapshot h)) h r" "obTaskID o1 = tkID h" "new_row o1"
    "obID o1 \<notin> obID ` set (jdOutbox db)"
    "jdTasks db' = jdTasks db2" "jdResults db' = jdResults db @ [r]" "jdOutbox db' = jdOutbox db @ [o1]"
    by (rule completeTask_parts)
  have "task_move token t (free_task now 3 [] t) [r] (map obPayload [o1])"
    if "t \<in> set (jdTasks db)" "judge_task_key (tkTenantID h) (tkID h) t \<and> leased now (tkLeaseToken h) t" for t
  proof -
    from held_row [OF h that(1)] that(2) have s: "same_claim h t" "tkStatus t = 2" "tkLeaseUntil t \<noteq> None" by auto
    then have "task_verdict t r (obPayload o1)"
      using p(3,4) claim_events(2) [OF s(1)] that(2) by (auto simp: task_verdict_def executed_row_def judge_task_key_def)
    with s show ?thesis by (auto intro: task_move.completed)
  qed
  with p show ?thesis unfolding CompleteJudgeTask_def
    by (elim update_moves [where i="tkID h" and rs="[r]" and os="[o1]" and db=db and db'=db', OF _ d])
      (auto simp: judge_task_key_def executed_row_def)
qed

lemma retryOrFail_moves:
  assumes r: "retryOrFail now here outboxID h reason db = Inr (row, db')" and d: "distinct (map tkID (jdTasks db))"
    and h: "held_ok db h"
  shows "task_moves token db db'"
proof (cases "tkRetryCount h < tkMaxRetries h")
  case True
  let ?p = "\<lambda>t. judge_task_key (tkTenantID h) (tkID h) t \<and> leased now (tkLeaseToken h) t"
  let ?f = "\<lambda>t. (free_task now 1 (TrimSpace reason) t)\<lparr>tkRetryCount := tkRetryCount t + 1\<rparr>"
  have up: "update_task ?p ?f db = Some (row, db')"
    using r True by (simp add: retryOrFail_def persisted_Inr RetryJudgeTask_def split: if_splits)
  have "task_move token t (?f t) [] (map obPayload [])" if "t \<in> set (jdTasks db)" "?p t" for t
  proof -
    from held_row [OF h that(1), of now] that(2) True
    have "tkStatus t = 2" "tkLeaseUntil t \<noteq> None" "tkRetryCount t < tkMaxRetries t" by (auto simp: same_claim_def)
    then show ?thesis using task_move.retried [of t token now "TrimSpace reason"] by simp
  qed
  with up update_task_other [OF up] show ?thesis
    by (elim update_moves [where i="tkID h" and rs="[]" and os="[]" and db=db and db'=db', OF _ d]) (auto simp: judge_task_key_def)
next
  case False
  let ?p = "\<lambda>t. judge_task_key (tkTenantID h) (tkID h) t \<and> leased now (tkLeaseToken h) t"
  from r False obtain db1 where up: "update_task ?p (free_task now 4 (TrimSpace reason)) db = Some (row, db1)"
    and a: "announce now outboxID h SubjectJudgeFailed (failed_event here h reason) db1 = Inr db'"
    by (auto simp: retryOrFail_def persisted_Inr FailJudgeTask_def res_simps split: if_splits)
  from a obtain o1 where o1: "db' = db1\<lparr>jdOutbox := jdOutbox db1 @ [o1]\<rparr>" "new_row o1" "obTaskID o1 = tkID h"
    "obPayload o1 = failed_event here h reason" "obID o1 = outboxID" "obTenantID o1 = tkTenantID h"
    "outboxID \<notin> obID ` set (jdOutbox db1)" by (rule announce_Inr)
  have "task_move token t (free_task now 4 (TrimSpace reason) t) [] (map obPayload [o1])" if "t \<in> set (jdTasks db)" "?p t" for t
    using held_row [OF h that(1), of now] that(2) o1(4) claim_events(1) by (auto intro!: task_move.failed)
  with up o1 update_task_other [OF up] show ?thesis
    by (elim update_moves [where i="tkID h" and rs="[]" and os="[o1]" and db=db and db'=db', OF _ d]) (auto simp: judge_task_key_def)
qed

lemma ManualScore_parts:
  assumes "ManualScore enabled now resultID outboxID traceID tenantID taskID scorerID req db = Inr (info, db')"
  obtains u r db1 db2 row o1 where "GetJudgeTask db tenantID taskID = Some u" "tkStatus u = 2"
    "inJudgerType (tkInputSnapshot u) = JudgerTypeManual" "validateManualScore req = Inr ()"
    "validateResultDetails (reDetails r) = Inr ()" "jdTasks db1 = jdTasks db"
    "CompleteManualJudgeTask now db1 tenantID taskID = Some (row, db2)"
    "r = (manual_row resultID u req)\<lparr>reVersion := next_version db (tkTenantID u) (tkID u), reJudgedAt := now\<rparr>"
    "resultID \<notin> reID ` set (jdResults db)"
    "obPayload o1 = completed_event traceID row r" "obTaskID o1 = tkID row" "new_row o1" "obTenantID o1 = tkTenantID row"
    "obID o1 \<notin> obID ` set (jdOutbox db)"
    "jdTasks db' = jdTasks db2" "jdResults db' = jdResults db @ [r]" "jdOutbox db' = jdOutbox db @ [o1]"
proof -
  from assms obtain u r db1 row db2 where u: "GetJudgeTask db tenantID taskID = Some u" "tkStatus u = 2"
      "inJudgerType (tkInputSnapshot u) = JudgerTypeManual" "validateManualScore req = Inr ()"
    and v: "validateResultDetails (reDetails (manual_row resultID u req)) = Inr ()"
    and r: "UpsertJudgeResult now db (manual_row resultID u req) = Some (r, db1)"
    and c: "CompleteManualJudgeTask now db1 tenantID taskID = Some (row, db2)"
    and a: "announce now outboxID row SubjectJudgeCompleted (completed_event traceID row r) db2 = Inr db'"
    by (auto simp: ManualScore_def persisted_Inr res_simps Let_def task_status_defs)
  from a obtain o1 where o1: "db' = db2\<lparr>jdOutbox := jdOutbox db2 @ [o1]\<rparr>" "new_row o1" "obTaskID o1 = tkID row"
    "obPayload o1 = completed_event traceID row r" "obID o1 = outboxID"
    "obTenantID o1 = tkTenantID row" "outboxID \<notin> obID ` set (jdOutbox db2)" by (rule announce_Inr)
  have keep: "jdResults db2 = jdResults db1 \<and> jdOutbox db2 = jdOutbox db1"
    using c unfolding CompleteManualJudgeTask_def by (rule update_task_other)
  have r': "r = (manual_row resultID u req)\<lparr>reVersion := next_version db (tkTenantID u) (tkID u), reJudgedAt := now\<rparr>"
    "db1 = db\<lparr>jdResults := jdResults db @ [r]\<rparr>" "resultID \<notin> reID ` set (jdResults db)"
    using r by (auto simp: UpsertJudgeResult_def Let_def manual_row_def split: if_splits)
  have "reDetails r = reDetails (manual_row resultID u req)" using r'(1) by simp
  with v have v': "validateResultDetails (reDetails r) = Inr ()" by simp
  show thesis by (rule that [OF u v' _ c r'(1,3) o1(4,3,2,6)]) (use o1 keep r' in auto)
qed

lemma ManualScore_moves:
  assumes m: "ManualScore enabled now resultID outboxID traceID tenantID taskID scorerID req db = Inr (info, db')"
    and d: "distinct (map tkID (jdTasks db))"
  shows "task_moves token db db'"
proof -
  let ?p = "\<lambda>t. judge_task_key tenantID taskID t \<and> tkStatus t = 2 \<and> tkLeaseToken t = [] \<and> tkLeaseUntil t = None"
  let ?f = "\<lambda>t. t\<lparr>tkStatus := 3, tkLastError := [], tkUpdatedAt := now\<rparr>"
  from m obtain u r db1 db2 row o1 where p: "GetJudgeTask db tenantID taskID = Some u" "jdTasks db1 = jdTasks db"
    "CompleteManualJudgeTask now db1 tenantID taskID = Some (row, db2)"
    "r = (manual_row resultID u req)\<lparr>reVersion := next_version db (tkTenantID u) (tkID u), reJudgedAt := now\<rparr>"
    "obPayload o1 = completed_event traceID row r" "obTaskID o1 = tkID row" "new_row o1"
    "obID o1 \<notin> obID ` set (jdOutbox db)"
    "jdTasks db' = jdTasks db2" "jdResults db' = jdResults db @ [r]" "jdOutbox db' = jdOutbox db @ [o1]"
    by (rule ManualScore_parts)
  from p(3) have up: "update_task ?p ?f db1 = Some (row, db2)" by (simp add: CompleteManualJudgeTask_def)
  then obtain t0 where t0: "t0 \<in> set (jdTasks db)" "?p t0" "row = ?f t0" using p(2) by (auto elim: update_task_Some)
  have "task_move token t (?f t) [r] (map obPayload [o1])" if t: "t \<in> set (jdTasks db)" "?p t" for t
  proof -
    from find_key [OF d p(1) t(1)] t(2) have ut: "u = t" by blast
    from same_id [OF d t0(1) t(1)] t0(2) t(2) have "t0 = t" by (simp add: judge_task_key_def)
    with t0(3) have "completed_event traceID row r = completed_event traceID t r" by (simp add: completed_event_def)
    then have "task_verdict t r (obPayload o1)" using p(4,5) ut by (auto simp: task_verdict_def manual_row_def)
    with t(2) show ?thesis by (auto intro: task_move.scored)
  qed
  moreover have "reTaskID r = taskID" "tkID row = taskID"
    using p(1,4) t0 by (auto simp: manual_row_def GetJudgeTask_def judge_task_key_def dest!: find_SomeD)
  ultimately show ?thesis using up p
    by (elim update_moves [where i=taskID and rs="[r]" and os="[o1]" and db=db and db'=db', OF _ d]) (auto simp: judge_task_key_def)
qed

subsection \<open>Transactions that touch several tasks\<close>

lemma task_movesE:
  assumes "task_moves token db db'"
  obtains g rs os where "jdTasks db' = map g (jdTasks db)" "jdResults db' = jdResults db @ rs" "jdOutbox db' = jdOutbox db @ os"
    "\<And>t. t \<in> set (jdTasks db) \<Longrightarrow> task_move token t (g t) (of_task (tkID t) rs) (said_of (tkID t) os)"
    "\<And>r. r \<in> set rs \<Longrightarrow> reTaskID r \<in> tkID ` set (jdTasks db)"
    "\<And>o1. o1 \<in> set os \<Longrightarrow> obTaskID o1 \<in> tkID ` set (jdTasks db) \<and> new_row o1"
    "distinct (map obID os)" "obID ` set os \<inter> obID ` set (jdOutbox db) = {}"
  using assms unfolding task_moves_def by (elim exE conjE) (rule that; blast)

lemma move_frame:
  "task_move token t u rs es \<Longrightarrow>
     tkID u = tkID t \<and> tkTenantID u = tkTenantID t \<and> tkSourceRef u = tkSourceRef t \<and> tkProblemRef u = tkProblemRef t \<and> tkMaxRetries u = tkMaxRetries t"
  by (erule task_move.cases) (auto simp: claim_task_def free_task_def)

lemma moves_ids:
  assumes "task_moves token db db'"
  shows "map tkID (jdTasks db') = map tkID (jdTasks db)"
proof -
  from assms obtain g rs os where g: "jdTasks db' = map g (jdTasks db)"
    "\<And>t. t \<in> set (jdTasks db) \<Longrightarrow> task_move token t (g t) (of_task (tkID t) rs) (said_of (tkID t) os)"
    by (rule task_movesE) (rule that)
  have "tkID (g t) = tkID t" if "t \<in> set (jdTasks db)" for t using move_frame [OF g(2) [OF that]] by simp
  with g(1) show ?thesis by simp
qed

lemma moves_many_ids: "(task_moves token)\<^sup>*\<^sup>* db db' \<Longrightarrow> map tkID (jdTasks db') = map tkID (jdTasks db)"
  by (induction rule: rtranclp_induct) (auto dest: moves_ids)

text \<open>The rows that a batch reads are still as it read them when it comes to them.\<close>

lemma rejudge_fold:
  "foldR (rejudge_one now tenantID) (changed, db) items = Inr (changed', db') \<Longrightarrow> distinct (map tkID (jdTasks db)) \<Longrightarrow>
   distinct (map tkID items) \<Longrightarrow> set items \<subseteq> set (jdTasks db) \<Longrightarrow> (task_moves token)\<^sup>*\<^sup>* db db'"
proof (induction items arbitrary: changed db)
  case (Cons item items)
  show ?case
  proof (cases "tkStatus item \<noteq> TaskDone \<and> tkStatus item \<noteq> TaskFailed")
    case True
    with Cons show ?thesis by (auto simp: rejudge_one_def)
  next
    case False
    with Cons.prems(1) obtain row db1 where
      r: "ResetJudgeTaskForRejudge now db tenantID (tkID item) (rejudged item) = Some (row, db1)"
      and rest: "foldR (rejudge_one now tenantID) (changed @ [row], db1) items = Inr (changed', db')"
      by (auto simp: rejudge_one_def persisted_Inr res_simps)
    have m: "task_moves token db db1"
      by (rule Reset_moves [OF r Cons.prems(2)])
        (use same_id [OF Cons.prems(2)] Cons.prems(4) in \<open>auto simp: judge_task_key_def\<close>)
    have "set items \<subseteq> set (jdTasks db1)"
    proof
      fix x assume x: "x \<in> set items"
      then have "tkID x \<noteq> tkID item" using Cons.prems(3) by (auto simp: image_iff)
      moreover from r obtain f where "jdTasks db1 = upd_rows (\<lambda>t. judge_task_key tenantID (tkID item) t \<and> tkStatus t \<in> {3, 4}) f (jdTasks db)"
        by (auto simp: ResetJudgeTaskForRejudge_def elim!: update_task_Some)
      ultimately show "x \<in> set (jdTasks db1)" using x Cons.prems(4) by (force simp: upd_rows_def judge_task_key_def)
    qed
    from Cons.IH [OF rest _ _ this] moves_ids [OF m] Cons.prems(2,3)
    have "(task_moves token)\<^sup>*\<^sup>* db1 db'" by simp
    with m show ?thesis by (rule converse_rtranclp_into_rtranclp)
  qed
qed simp

lemma RejudgeBatch_moves:
  assumes "RejudgeBatch now tenantID sourceRef db = Inr (changed, db')" and d: "distinct (map tkID (jdTasks db))"
  shows "(task_moves token)\<^sup>*\<^sup>* db db'"
proof -
  let ?items = "ListJudgeTasksBySourceRef db tenantID (TrimSpace sourceRef)"
  from assms(1) have f: "foldR (rejudge_one now tenantID) ([], db) ?items = Inr (changed, db')"
    by (auto simp: RejudgeBatch_def Let_def res_simps)
  have "distinct (map tkID ?items)" using d
    by (simp add: ListJudgeTasksBySourceRef_def distinct_map inj_on_def)
  moreover have "set ?items \<subseteq> set (jdTasks db)" by (auto simp: ListJudgeTasksBySourceRef_def)
  ultimately show ?thesis by (rule rejudge_fold [OF f d])
qed

lemma announce_fold:
  "foldR (announce_expired now here) db items = Inr db' \<Longrightarrow>
   \<exists>os. db' = db\<lparr>jdOutbox := jdOutbox db @ os\<rparr> \<and> distinct (map obID os) \<and> obID ` set os \<inter> obID ` set (jdOutbox db) = {} \<and>
     list_all2 (\<lambda>o1 e. new_row o1 \<and> obTaskID o1 = tkID e \<and> obPayload o1 = failed_event here e (tkLastError e)) os (map snd items)"
proof (induction items arbitrary: db)
  case Nil
  then show ?case by (intro exI [of _ "[]"]) simp
next
  case (Cons item items)
  obtain i e where item: "item = (i, e)" by fastforce
  from Cons.prems obtain db1 where "announce_expired now here db item = Inr db1"
    and rest: "foldR (announce_expired now here) db1 items = Inr db'" by (auto simp: res_simps)
  then have a: "announce now i e SubjectJudgeFailed (failed_event here e (tkLastError e)) db = Inr db1"
    by (simp add: announce_expired_def item)
  from a obtain o1 where o1: "db1 = db\<lparr>jdOutbox := jdOutbox db @ [o1]\<rparr>" "new_row o1" "obTaskID o1 = tkID e"
    "obPayload o1 = failed_event here e (tkLastError e)" "obID o1 = i" "obTenantID o1 = tkTenantID e" "i \<notin> obID ` set (jdOutbox db)"
    by (rule announce_Inr)
  from Cons.IH [OF rest] obtain os where "db' = db1\<lparr>jdOutbox := jdOutbox db1 @ os\<rparr>" "distinct (map obID os)"
    "obID ` set os \<inter> obID ` set (jdOutbox db1) = {}"
    "list_all2 (\<lambda>o1 e. new_row o1 \<and> obTaskID o1 = tkID e \<and> obPayload o1 = failed_event here e (tkLastError e)) os (map snd items)"
    by blast
  with o1 item show ?case by (intro exI [of _ "o1 # os"]) auto
qed

lemma said_of_expired:
  "list_all2 (\<lambda>o1 e. new_row o1 \<and> obTaskID o1 = tkID e \<and> obPayload o1 = ev e) os es \<Longrightarrow>
     said_of i os = map ev (filter (\<lambda>e. tkID e = i) es)"
  unfolding said_of_def by (induction os es rule: list_all2_induct) auto

lemma filter_id: "distinct (map tkID ts) \<Longrightarrow> t \<in> set ts \<Longrightarrow> filter (\<lambda>e. tkID e = tkID t) ts = [t]"
  by (induction ts) (auto simp: filter_empty_conv image_iff)

lemma selected_row:
  "distinct (map tkID (jdTasks db)) \<Longrightarrow> t \<in> set (jdTasks db) \<Longrightarrow> tkID t \<in> selected_ids p limit db \<Longrightarrow> p t"
  unfolding selected_ids_def using same_id by (fastforce dest: in_set_takeD)

lemma expired_said:
  assumes d: "distinct (map tkID ts)" and t: "t \<in> set ts" and f: "\<And>u. tkID (f u) = tkID u"
    and os: "list_all2 (\<lambda>o1 e. new_row o1 \<and> obTaskID o1 = tkID e \<and> obPayload o1 = ev e) os (map f (filter (\<lambda>u. tkID u \<in> ids) ts))"
  shows "said_of (tkID t) os = (if tkID t \<in> ids then [ev (f t)] else [])"
proof -
  have "filter (\<lambda>e. tkID e = tkID t) (map f (filter (\<lambda>u. tkID u \<in> ids) ts)) =
      map f (filter (\<lambda>u. tkID u \<in> ids) (filter (\<lambda>e. tkID e = tkID t) ts))"
    by (simp add: filter_map o_def f conj_commute)
  also have "\<dots> = (if tkID t \<in> ids then [f t] else [])" using filter_id [OF d t] by simp
  finally show ?thesis unfolding said_of_expired [OF os] by simp
qed

lemma fail_expired_moves:
  assumes e: "FailExpiredJudgeTasks now db limit here = (expired, db1)"
    and f: "foldR (announce_expired now here) db1 (zip (map gen [0..<length expired]) expired) = Inr db'"
    and d: "distinct (map tkID (jdTasks db))"
  shows "task_moves token db db'"
proof -
  let ?ids = "selected_ids (exhausted here) limit db" and ?f = "free_task now 4 leaseExhaustedText"
  let ?ev = "\<lambda>e. failed_event here e (tkLastError e)"
  have exp: "expired = map ?f (filter (\<lambda>u. tkID u \<in> ?ids) (jdTasks db))"
    and db1: "db1 = db\<lparr>jdTasks := upd_rows (\<lambda>t. tkID t \<in> ?ids) ?f (jdTasks db)\<rparr>"
    using e by (auto simp: FailExpiredJudgeTasks_def update_selected_def)
  have z: "map snd (zip (map gen [0..<length expired]) expired) = expired" by simp
  from announce_fold [OF f, unfolded z] obtain os where os: "db' = db1\<lparr>jdOutbox := jdOutbox db1 @ os\<rparr>" "distinct (map obID os)"
    "obID ` set os \<inter> obID ` set (jdOutbox db1) = {}"
    "list_all2 (\<lambda>o1 e. new_row o1 \<and> obTaskID o1 = tkID e \<and> obPayload o1 = ?ev e) os expired" by blast
  let ?g = "\<lambda>t. if tkID t \<in> ?ids then ?f t else t"
  have "task_move token t (?g t) [] (said_of (tkID t) os)" if t: "t \<in> set (jdTasks db)" for t
  proof -
    have said: "said_of (tkID t) os = (if tkID t \<in> ?ids then [?ev (?f t)] else [])"
      by (rule expired_said [OF d t _ os(4) [unfolded exp]]) (simp add: free_task_def)
    show ?thesis
    proof (cases "tkID t \<in> ?ids")
      case True
      then have "tkStatus t = 2 \<and> tkLeaseUntil t \<noteq> None"
        using selected_row [OF d t True] by (auto simp: exhausted_def task_lease_expired_def split: option.splits)
      moreover have "?ev (?f t) = failed_event here t leaseExhaustedText" by (simp add: failed_event_def free_task_def)
      ultimately show ?thesis using True said by (auto intro: task_move.failed)
    qed (use said in \<open>auto intro: task_move.same\<close>)
  qed
  moreover have "obTaskID o1 \<in> tkID ` set (jdTasks db) \<and> new_row o1" if "o1 \<in> set os" for o1
  proof -
    from that obtain k where k: "k < length os" "o1 = os ! k" by (auto simp: in_set_conv_nth)
    with list_all2_nthD [OF os(4) k(1)] list_all2_lengthD [OF os(4)]
    have "expired ! k \<in> set expired \<and> obTaskID o1 = tkID (expired ! k) \<and> new_row o1" by simp
    then show ?thesis using exp by (auto simp: free_task_def)
  qed
  ultimately show ?thesis unfolding task_moves_def
    using os(1-3) db1 by (intro exI [of _ ?g] exI [of _ "[]"] exI [of _ os]) (auto simp: upd_rows_def of_task_def)
qed

lemma dequeue_moves:
  assumes q: "DequeueJudgeTasks now db limit here leaseUntil token = (tasks, db')" and d: "distinct (map tkID (jdTasks db))"
  shows "task_moves (Some token) db db'"
proof -
  let ?ids = "selected_ids (claimable here) limit db" and ?f = "claim_task now token leaseUntil"
  let ?g = "\<lambda>t. if tkID t \<in> ?ids then ?f t else t"
  have db': "db' = db\<lparr>jdTasks := upd_rows (\<lambda>t. tkID t \<in> ?ids) ?f (jdTasks db)\<rparr>"
    using q by (auto simp: DequeueJudgeTasks_def update_selected_def)
  have "task_move (Some token) t (?g t) [] []" if t: "t \<in> set (jdTasks db)" for t
  proof (cases "tkID t \<in> ?ids")
    case True
    then have "tkStatus t = 1 \<or> tkStatus t = 2 \<and> tkLeaseUntil t \<noteq> None \<and> tkRetryCount t < tkMaxRetries t"
      using selected_row [OF d t True] by (auto simp: claimable_def task_lease_expired_def split: option.splits)
    with True show ?thesis by (auto intro: task_move.claimed)
  qed (auto intro: task_move.same)
  then show ?thesis unfolding task_moves_def
    by (intro exI [of _ ?g] exI [of _ "[]"]) (auto simp: db' upd_rows_def of_task_def said_of_def)
qed

lemma claim_parts:
  assumes "RunWorkerOnce_claim cfg now here gen token db = Inr ((expired, tasks), db')"
  obtains db1 db2 where "FailExpiredJudgeTasks now db (worker_limit cfg 1) here = (expired, db1)"
    "foldR (announce_expired now here) db1 (zip (map gen [0..<length expired]) expired) = Inr db2"
    "DequeueJudgeTasks now db2 (worker_limit cfg 1) here (here + jcfTaskLeaseDurationMs cfg * 1000000) token = (tasks, db')"
proof -
  let ?limit = "worker_limit cfg 1"
  obtain ex db1 where e: "FailExpiredJudgeTasks now db ?limit here = (ex, db1)" by fastforce
  with assms obtain db2 where f: "foldR (announce_expired now here) db1 (zip (map gen [0..<length ex]) ex) = Inr db2"
    and q: "(case DequeueJudgeTasks now db2 ?limit here (here + jcfTaskLeaseDurationMs cfg * 1000000) token of
       (tasks, db) \<Rightarrow> Inr ((ex, tasks), db)) = (Inr ((expired, tasks), db') :: judge_error + _)"
    by (auto simp: RunWorkerOnce_claim_def Let_def res_simps)
  obtain ts db3 where "DequeueJudgeTasks now db2 ?limit here (here + jcfTaskLeaseDurationMs cfg * 1000000) token = (ts, db3)"
    by fastforce
  with q e f show thesis by (intro that [of db1 db2]) auto
qed

lemma claim_moves:
  assumes c: "RunWorkerOnce_claim cfg now here gen token db = Inr ((expired, tasks), db')" and d: "distinct (map tkID (jdTasks db))"
  shows "(task_moves (Some token))\<^sup>*\<^sup>* db db'"
  using c
proof (rule claim_parts)
  fix db1 db2
  assume "FailExpiredJudgeTasks now db (worker_limit cfg 1) here = (expired, db1)"
    "foldR (announce_expired now here) db1 (zip (map gen [0..<length expired]) expired) = Inr db2"
    and q: "DequeueJudgeTasks now db2 (worker_limit cfg 1) here (here + jcfTaskLeaseDurationMs cfg * 1000000) token = (tasks, db')"
  then have m: "task_moves (Some token) db db2" using d by (intro fail_expired_moves)
  with d have "distinct (map tkID (jdTasks db2))" by (simp add: moves_ids)
  from dequeue_moves [OF q this] m show ?thesis by (meson r_into_rtranclp rtranclp.rtrancl_into_rtrancl)
qed

end
