(* ===== verification/JudgeLife.thy ===== *)
theory JudgeLife
  imports JudgeSystem
begin

section \<open>Judge module: the life of a task\<close>

text \<open>
  The abstract specification of the judge module: the life of one task as its clients see it (where it
  is, what was announced on the bus about it, which verdicts are recorded), and the proof that every
  transaction of the running system of \<open>JudgeSystem\<close> takes every task along that life.
\<close>

subsection \<open>Abstract lives\<close>

datatype phase = Waiting | Running | Decided | Broken | Withdrawn

datatype said = SaidVerdict bool int | SaidFailure

record life =
  lfPhase :: phase
  lfSaid :: "said list"
  lfVerdicts :: "(bool \<times> int) list"

inductive life_step :: "life \<Rightarrow> life \<Rightarrow> bool" where
  taken: "lfPhase l = Waiting \<Longrightarrow> life_step l (l\<lparr>lfPhase := Running\<rparr>)"
| returned: "lfPhase l = Running \<Longrightarrow> life_step l (l\<lparr>lfPhase := Waiting\<rparr>)"
| decided: "lfPhase l = Running \<Longrightarrow>
     life_step l \<lparr>lfPhase = Decided, lfSaid = lfSaid l @ [SaidVerdict p n], lfVerdicts = lfVerdicts l @ [(p, n)]\<rparr>"
| broken: "lfPhase l = Running \<Longrightarrow> life_step l (l\<lparr>lfPhase := Broken, lfSaid := lfSaid l @ [SaidFailure]\<rparr>)"
| withdrawn: "lfPhase l = Waiting \<Longrightarrow> life_step l (l\<lparr>lfPhase := Withdrawn\<rparr>)"
| again: "lfPhase l \<in> {Decided, Broken} \<Longrightarrow> life_step l (l\<lparr>lfPhase := Waiting\<rparr>)"

definition born :: "life \<Rightarrow> bool" where
  "born l \<longleftrightarrow> lfPhase l \<in> {Waiting, Running} \<and> lfSaid l = [] \<and> lfVerdicts l = []"

definition verdict_said :: "said \<Rightarrow> (bool \<times> int) list" where
  "verdict_said e = (case e of SaidVerdict p n \<Rightarrow> [(p, n)] | SaidFailure \<Rightarrow> [])"

text \<open>What the clients of the judge rely on.\<close>

definition life_honest :: "life \<Rightarrow> bool" where
  "life_honest l \<longleftrightarrow>
     concat (map verdict_said (lfSaid l)) = lfVerdicts l \<and>
     (lfPhase l = Decided \<longrightarrow> lfVerdicts l \<noteq> [] \<and> last (lfSaid l) = SaidVerdict (fst (last (lfVerdicts l))) (snd (last (lfVerdicts l)))) \<and>
     (lfPhase l = Broken \<longrightarrow> lfSaid l \<noteq> [] \<and> last (lfSaid l) = SaidFailure)"

lemma born_honest: "born l \<Longrightarrow> life_honest l"
  by (auto simp: born_def life_honest_def)

lemma life_step_honest: "life_step l m \<Longrightarrow> life_honest l \<Longrightarrow> life_honest m"
  by (induction rule: life_step.induct) (auto simp: life_honest_def verdict_said_def)

subsection \<open>The life of a task in the store\<close>

definition phase_of :: "int \<Rightarrow> phase" where
  "phase_of status =
     (if status = 1 then Waiting else if status = 2 then Running else if status = 3 then Decided
      else if status = 4 then Broken else Withdrawn)"

definition said_event :: "judge_event \<Rightarrow> said" where
  "said_event e = (case e of CompletedEvent c \<Rightarrow> SaidVerdict (jcPassed c) (jcScore c) | FailedEvent f \<Rightarrow> SaidFailure)"

definition life_of :: "judge_store \<Rightarrow> int \<Rightarrow> life option" where
  "life_of db i =
     (case find (\<lambda>t. tkID t = i) (jdTasks db) of
        None \<Rightarrow> None
      | Some t \<Rightarrow> Some \<lparr>lfPhase = phase_of (tkStatus t), lfSaid = map said_event (said_of i (jdOutbox db)),
          lfVerdicts = map (\<lambda>r. (rePassed r, reScore r)) (of_task i (jdResults db))\<rparr>)"

definition lives_on :: "judge_store \<Rightarrow> judge_store \<Rightarrow> bool" where
  "lives_on db db' \<longleftrightarrow> (\<forall>i. case life_of db i of
     None \<Rightarrow> (case life_of db' i of None \<Rightarrow> True | Some l \<Rightarrow> born l)
   | Some l \<Rightarrow> (\<exists>m. life_of db' i = Some m \<and> life_step\<^sup>*\<^sup>* l m))"

lemma of_task_append: "of_task i (rs @ qs) = of_task i rs @ of_task i qs" and
  said_of_append: "said_of i (os @ ps) = said_of i os @ said_of i ps"
  by (simp_all add: of_task_def said_of_def)

lemma find_append: "find p (xs @ ys) = (case find p xs of None \<Rightarrow> find p ys | Some x \<Rightarrow> Some x)"
  by (induction xs) auto

lemma find_map_id:
  "(\<And>t. t \<in> set ts \<Longrightarrow> tkID (g t) = tkID t) \<Longrightarrow>
     find (\<lambda>t. tkID t = i) (map g ts) = map_option g (find (\<lambda>t. tkID t = i) ts)"
  by (induction ts) auto

lemma move_life:
  assumes "task_move token t u rs es"
  shows "life_step\<^sup>*\<^sup>* \<lparr>lfPhase = phase_of (tkStatus t), lfSaid = ss, lfVerdicts = vs\<rparr>
     \<lparr>lfPhase = phase_of (tkStatus u), lfSaid = ss @ map said_event es, lfVerdicts = vs @ map (\<lambda>r. (rePassed r, reScore r)) rs\<rparr>"
  (is "life_step\<^sup>*\<^sup>* ?l ?m")
  using assms
proof cases
  case (claimed k now leaseUntil)
  then show ?thesis
    using life_step.taken [of ?l] by (auto simp: claim_task_def phase_of_def)
next
  case (completed r e now)
  then show ?thesis
    using life_step.decided [of ?l "rePassed r" "reScore r"]
    by (auto simp: free_task_def phase_of_def task_verdict_def completed_event_def said_event_def)
next
  case (retried reason now)
  then show ?thesis using life_step.returned [of ?l] by (auto simp: free_task_def phase_of_def)
next
  case (failed time _ reason now)
  then show ?thesis using life_step.broken [of ?l] by (auto simp: free_task_def phase_of_def failed_event_def said_event_def)
next
  case (scored r e now)
  then show ?thesis
    using life_step.decided [of ?l "rePassed r" "reScore r"]
    by (auto simp: phase_of_def task_verdict_def completed_event_def said_event_def)
next
  case (cancelled now)
  then show ?thesis using life_step.withdrawn [of ?l] by (auto simp: phase_of_def)
next
  case (queued_again now)
  then show ?thesis using life_step.again [of ?l] by (auto simp: phase_of_def)
qed auto

lemma moves_live:
  assumes "task_moves token db db'" shows "lives_on db db'"
proof -
  from assms obtain g rs os where g: "jdTasks db' = map g (jdTasks db)" "jdResults db' = jdResults db @ rs"
    "jdOutbox db' = jdOutbox db @ os"
    "\<And>t. t \<in> set (jdTasks db) \<Longrightarrow> task_move token t (g t) (of_task (tkID t) rs) (said_of (tkID t) os)"
    by (rule task_movesE) (rule that)
  have f: "find (\<lambda>t. tkID t = i) (jdTasks db') = map_option g (find (\<lambda>t. tkID t = i) (jdTasks db))" for i
    unfolding g(1) by (rule find_map_id) (use move_frame [OF g(4)] in simp)
  have "case life_of db i of None \<Rightarrow> (case life_of db' i of None \<Rightarrow> True | Some l \<Rightarrow> born l)
     | Some l \<Rightarrow> (\<exists>m. life_of db' i = Some m \<and> life_step\<^sup>*\<^sup>* l m)" for i
  proof (cases "find (\<lambda>t. tkID t = i) (jdTasks db)")
    case None
    then show ?thesis using f [of i] by (simp add: life_of_def)
  next
    case (Some t)
    then have t: "t \<in> set (jdTasks db)" "tkID t = i" by (auto dest: find_SomeD)
    from move_life [OF g(4) [OF t(1)]] show ?thesis
      using f [of i] Some t(2) by (simp add: life_of_def g(2,3) of_task_append said_of_append)
  qed
  then show ?thesis by (simp add: lives_on_def)
qed

lemma lives_on_Some: "lives_on db db' \<Longrightarrow> life_of db i = Some l \<Longrightarrow> \<exists>m. life_of db' i = Some m \<and> life_step\<^sup>*\<^sup>* l m"
  unfolding lives_on_def by (drule spec [of _ i]) simp

lemma lives_on_None: "lives_on db db' \<Longrightarrow> life_of db i = None \<Longrightarrow> life_of db' i = Some m \<Longrightarrow> born m"
  unfolding lives_on_def by (drule spec [of _ i]) simp

lemma lives_onI:
  assumes "\<And>i l. life_of db i = Some l \<Longrightarrow> \<exists>m. life_of db' i = Some m \<and> life_step\<^sup>*\<^sup>* l m"
    and "\<And>i m. life_of db i = None \<Longrightarrow> life_of db' i = Some m \<Longrightarrow> born m"
  shows "lives_on db db'"
  unfolding lives_on_def by (auto simp: assms split: option.splits)

lemma life_of_None: "life_of db i = None \<longleftrightarrow> i \<notin> tkID ` set (jdTasks db)"
  by (auto simp: life_of_def find_None_iff split: option.splits dest: find_SomeD)

lemma moves_many_live: "(task_moves token)\<^sup>*\<^sup>* db db' \<Longrightarrow> lives_on db db'"
proof (induction rule: rtranclp_induct)
  case base
  show ?case by (rule lives_onI) auto
next
  case (step db1 db2)
  show ?case
  proof (rule lives_onI)
    fix i l assume "life_of db i = Some l"
    from lives_on_Some [OF step.IH this] lives_on_Some [OF moves_live [OF step.hyps(2)]]
    show "\<exists>m. life_of db2 i = Some m \<and> life_step\<^sup>*\<^sup>* l m" by (meson rtranclp_trans)
  next
    fix i m assume "life_of db i = None" "life_of db2 i = Some m"
    moreover have "tkID ` set (jdTasks db2) = tkID ` set (jdTasks db)"
      using moves_many_ids [of token db db2] step.hyps by (metis list.set_map rtranclp.rtrancl_into_rtrancl)
    ultimately show "born m" by (metis life_of_None option.distinct(1))
  qed
qed

subsection \<open>What holds of every row\<close>

definition task_ok :: "string set \<Rightarrow> JudgeTask \<Rightarrow> bool" where
  "task_ok tokens t \<longleftrightarrow>
     tkStatus t \<in> {1, 2, 3, 4, 5} \<and> 0 \<le> tkRetryCount t \<and> tkRetryCount t \<le> tkMaxRetries t \<and>
     (tkLeaseUntil t = None \<longleftrightarrow> tkLeaseToken t = []) \<and> (tkStatus t \<noteq> 2 \<longrightarrow> tkLeaseToken t = []) \<and>
     (tkLeaseToken t \<noteq> [] \<longrightarrow> tkLeaseToken t \<in> tokens) \<and>
     (tkStatus t = 2 \<and> tkLeaseToken t = [] \<longrightarrow> inJudgerType (tkInputSnapshot t) = JudgerTypeManual) \<and>
     TrimSpace (inTraceID (tkInputSnapshot t)) \<noteq> [] \<and> 0 < tkTenantID t"

definition tasks_ok :: "string set \<Rightarrow> judge_store \<Rightarrow> bool" where
  "tasks_ok tokens db \<longleftrightarrow>
     distinct (map tkID (jdTasks db)) \<and> distinct (map (\<lambda>t. (tkTenantID t, tkSourceRef t, tkProblemRef t)) (jdTasks db)) \<and>
     (\<forall>t \<in> set (jdTasks db). task_ok tokens t) \<and> (\<forall>r \<in> set (jdResults db). reTaskID r \<in> tkID ` set (jdTasks db)) \<and>
     (\<forall>o1 \<in> set (jdOutbox db). obTaskID o1 \<in> tkID ` set (jdTasks db))"

text \<open>A claim that was settled: its token is not on the task any more.\<close>

definition settled_ok :: "string set \<Rightarrow> judge_store \<Rightarrow> string \<times> int \<Rightarrow> bool" where
  "settled_ok tokens db c \<longleftrightarrow> fst c \<noteq> [] \<and> fst c \<in> tokens \<and>
     (\<forall>t \<in> set (jdTasks db). tkID t = snd c \<longrightarrow> tkLeaseToken t \<noteq> fst c)"

lemma move_task_ok:
  "task_move token t u rs es \<Longrightarrow> task_ok tokens t \<Longrightarrow> (\<And>k. token = Some k \<Longrightarrow> k \<noteq> []) \<Longrightarrow> task_ok (tokens \<union> set_option token) u"
  by (erule task_move.cases) (auto simp: task_ok_def claim_task_def free_task_def rejudged_def)

lemma move_token:
  "task_move token t u rs es \<Longrightarrow> task_ok tokens t \<Longrightarrow> tkLeaseToken u = k \<Longrightarrow> k \<noteq> [] \<Longrightarrow> token \<noteq> Some k \<Longrightarrow>
     tkLeaseToken t = k \<and> same_claim t u"
  by (erule task_move.cases) (auto simp: task_ok_def claim_task_def free_task_def same_claim_def)

lemma same_claim_trans: "same_claim h t \<Longrightarrow> same_claim t u \<Longrightarrow> same_claim h u"
  by (simp add: same_claim_def)

lemma moves_tasks_ok:
  assumes m: "task_moves token db db'" and ok: "tasks_ok tokens db" and k: "\<And>k. token = Some k \<Longrightarrow> k \<noteq> []"
  shows "tasks_ok (tokens \<union> set_option token) db'"
proof -
  from m obtain g rs os where g: "jdTasks db' = map g (jdTasks db)" "jdResults db' = jdResults db @ rs"
    "jdOutbox db' = jdOutbox db @ os"
    "\<And>t. t \<in> set (jdTasks db) \<Longrightarrow> task_move token t (g t) (of_task (tkID t) rs) (said_of (tkID t) os)"
    "\<And>r. r \<in> set rs \<Longrightarrow> reTaskID r \<in> tkID ` set (jdTasks db)"
    "\<And>o1. o1 \<in> set os \<Longrightarrow> obTaskID o1 \<in> tkID ` set (jdTasks db) \<and> new_row o1" by (rule task_movesE) (rule that)
  have f: "tkID (g t) = tkID t \<and> tkTenantID (g t) = tkTenantID t \<and> tkSourceRef (g t) = tkSourceRef t \<and> tkProblemRef (g t) = tkProblemRef t"
    if "t \<in> set (jdTasks db)" for t using move_frame [OF g(4) [OF that]] by simp
  have ids: "map tkID (jdTasks db') = map tkID (jdTasks db)" by (rule moves_ids [OF m])
  have keys: "map (\<lambda>t. (tkTenantID t, tkSourceRef t, tkProblemRef t)) (jdTasks db') =
      map (\<lambda>t. (tkTenantID t, tkSourceRef t, tkProblemRef t)) (jdTasks db)" using f by (simp add: g(1))
  have idset: "tkID ` set (jdTasks db') = tkID ` set (jdTasks db)" using ids by (metis list.set_map)
  have "task_ok (tokens \<union> set_option token) u" if "u \<in> set (jdTasks db')" for u
    using that ok move_task_ok [OF g(4) _ k] by (auto simp: g(1) tasks_ok_def)
  with ok g(5,6) show ?thesis unfolding tasks_ok_def ids keys idset by (auto simp: g(2,3))
qed

lemma moves_held_ok:
  assumes m: "task_moves token db db'" and ok: "tasks_ok tokens db" and h: "held_ok db h" "token \<noteq> Some (tkLeaseToken h)"
  shows "held_ok db' h"
proof -
  from m obtain g rs os where g: "jdTasks db' = map g (jdTasks db)"
    "\<And>t. t \<in> set (jdTasks db) \<Longrightarrow> task_move token t (g t) (of_task (tkID t) rs) (said_of (tkID t) os)"
    by (rule task_movesE) (rule that)
  have "same_claim h (g t)" if t: "t \<in> set (jdTasks db)" "tkID (g t) = tkID h" "tkLeaseToken (g t) = tkLeaseToken h" for t
  proof -
    have "tkLeaseToken t = tkLeaseToken h \<and> same_claim t (g t)"
      by (rule move_token [OF g(2) [OF t(1)] _ t(3)]) (use ok h t(1) in \<open>auto simp: tasks_ok_def held_ok_def\<close>)
    moreover from this have "same_claim h t" using h(1) t move_frame [OF g(2) [OF t(1)]] by (simp add: held_ok_def)
    ultimately show ?thesis using same_claim_trans by blast
  qed
  with h(1) show ?thesis by (auto simp: held_ok_def g(1))
qed

lemma moves_settled_ok:
  assumes m: "task_moves token db db'" and ok: "tasks_ok tokens db" and c: "settled_ok tokens db c" "token \<noteq> Some (fst c)"
  shows "settled_ok (tokens \<union> set_option token) db' c"
proof -
  from m obtain g rs os where g: "jdTasks db' = map g (jdTasks db)"
    "\<And>t. t \<in> set (jdTasks db) \<Longrightarrow> task_move token t (g t) (of_task (tkID t) rs) (said_of (tkID t) os)"
    by (rule task_movesE) (rule that)
  have "tkLeaseToken (g t) \<noteq> fst c" if t: "t \<in> set (jdTasks db)" "tkID (g t) = snd c" for t
  proof
    assume e: "tkLeaseToken (g t) = fst c"
    have "tkLeaseToken t = fst c \<and> same_claim t (g t)"
      by (rule move_token [OF g(2) [OF t(1)] _ e]) (use ok c t(1) in \<open>auto simp: tasks_ok_def settled_ok_def\<close>)
    then show False using c(1) t move_frame [OF g(2) [OF t(1)]] by (simp add: settled_ok_def)
  qed
  with c(1) show ?thesis by (auto simp: settled_ok_def g(1))
qed

definition claims_ok :: "string set \<Rightarrow> judge_store \<Rightarrow> JudgeTask list \<Rightarrow> (string \<times> int) list \<Rightarrow> bool" where
  "claims_ok tokens db held settled \<longleftrightarrow>
     tasks_ok tokens db \<and> (\<forall>h \<in> set held. held_ok db h \<and> tkLeaseToken h \<in> tokens) \<and> (\<forall>c \<in> set settled. settled_ok tokens db c)"

lemma moves_claims_ok:
  assumes "(task_moves token)\<^sup>*\<^sup>* db db'" and ok: "claims_ok tokens db held settled"
    and k: "\<And>k. token = Some k \<Longrightarrow> k \<noteq> [] \<and> (\<forall>h \<in> set held. tkLeaseToken h \<noteq> k) \<and> (\<forall>c \<in> set settled. fst c \<noteq> k)"
  shows "claims_ok (tokens \<union> set_option token) db' held settled"
  using assms(1)
proof (induction rule: rtranclp_induct)
  case base
  from ok show ?case by (auto simp: claims_ok_def tasks_ok_def task_ok_def settled_ok_def)
next
  case (step db1 db2)
  let ?tokens = "tokens \<union> set_option token"
  have u: "?tokens \<union> set_option token = ?tokens" by auto
  from step.IH have ok1: "tasks_ok ?tokens db1" by (simp add: claims_ok_def)
  have "tasks_ok ?tokens db2" using moves_tasks_ok [OF step.hyps(2) ok1] k by (simp add: u)
  moreover have "held_ok db2 h \<and> tkLeaseToken h \<in> ?tokens" if "h \<in> set held" for h
    using moves_held_ok [OF step.hyps(2) ok1] step.IH k that by (auto simp: claims_ok_def)
  moreover have "settled_ok ?tokens db2 c" if "c \<in> set settled" for c
    using moves_settled_ok [OF step.hyps(2) ok1, of c] step.IH k that by (auto simp: claims_ok_def u)
  ultimately show ?case by (simp add: claims_ok_def)
qed

subsection \<open>Submissions\<close>

definition new_task :: "JudgeTask \<Rightarrow> bool" where
  "new_task t \<longleftrightarrow> tkRetryCount t = 0 \<and> tkLeaseToken t = [] \<and> tkLeaseUntil t = None \<and> 0 \<le> tkMaxRetries t \<and>
     (tkStatus t = 1 \<or> tkStatus t = 2 \<and> inJudgerType (tkInputSnapshot t) = JudgerTypeManual) \<and>
     TrimSpace (inTraceID (tkInputSnapshot t)) \<noteq> [] \<and> 0 < tkTenantID t"

lemma new_task_ok: "new_task t \<Longrightarrow> task_ok tokens t"
  by (auto simp: new_task_def task_ok_def)

lemma maxRetries_nonneg: "0 \<le> maxRetriesForJudger j n"
  by (auto simp: maxRetriesForJudger_def Int32_def sint_ucast_narrow split: prod.splits if_splits)

lemma prepare_task_parts:
  assumes "prepare_task cfg env now db req spec j mode = Inr (Fresh task vector code)"
  obtains snapshot codeHash archive where
    "buildInputSnapshot (seMarshal env) (seHmac env) (seDigest env) (jcfDefaultMaxRetries cfg) j spec (sqExtraInput req) = Inr snapshot"
    "TrimSpace (seTraceID env) \<noteq> []"
    "task = (submitted_task cfg env req j mode snapshot codeHash)\<lparr>tkInputSnapshot :=
       archive (tkInputSnapshot (submitted_task cfg env req j mode snapshot codeHash))\<rparr>"
    "\<And>i. inTraceID (archive i) = inTraceID i \<and> inJudgerType (archive i) = inJudgerType i"
proof -
  from assms obtain snapshot codeHash where
    s: "buildInputSnapshot (seMarshal env) (seHmac env) (seDigest env) (jcfDefaultMaxRetries cfg) j spec (sqExtraInput req) = Inr snapshot"
    "TrimSpace (seTraceID env) \<noteq> []"
    and t: "task = submitted_task cfg env req j mode snapshot codeHash \<or> (\<exists>ref. task = (submitted_task cfg env req j mode snapshot codeHash)
       \<lparr>tkInputSnapshot := (tkInputSnapshot (submitted_task cfg env req j mode snapshot codeHash))
          \<lparr>inSanitizedCodeArchiveName := ''submission.tar'', inSanitizedCodeArchiveRef := ref\<rparr>\<rparr>)"
    by (auto simp: prepare_task_def bindR_Inr thenR_Inr Let_def split: if_split_asm)
  from t show thesis
  proof
    assume "task = submitted_task cfg env req j mode snapshot codeHash"
    then show thesis by (intro that [where codeHash=codeHash and archive=id, OF s]) auto
  next
    assume "\<exists>ref. task = (submitted_task cfg env req j mode snapshot codeHash)
       \<lparr>tkInputSnapshot := (tkInputSnapshot (submitted_task cfg env req j mode snapshot codeHash))
          \<lparr>inSanitizedCodeArchiveName := ''submission.tar'', inSanitizedCodeArchiveRef := ref\<rparr>\<rparr>"
    then obtain ref where "task = (submitted_task cfg env req j mode snapshot codeHash)
       \<lparr>tkInputSnapshot := (tkInputSnapshot (submitted_task cfg env req j mode snapshot codeHash))
          \<lparr>inSanitizedCodeArchiveName := ''submission.tar'', inSanitizedCodeArchiveRef := ref\<rparr>\<rparr>" ..
    then show thesis
      by (intro that [where codeHash=codeHash and archive="\<lambda>i. i\<lparr>inSanitizedCodeArchiveName := ''submission.tar'', inSanitizedCodeArchiveRef := ref\<rparr>", OF s]) auto
  qed
qed

lemma prepared_parts:
  assumes "SubmitJudgeTask_prepare cfg env now db req = Inr (Fresh task vector code)"
  obtains spec j mode where "validateSubmitRequest req = Inr ()" "prepare_task cfg env now db req spec j mode = Inr (Fresh task vector code)"
  using assms by (auto simp: SubmitJudgeTask_prepare_def bindR_Inr thenR_Inr Let_def split: option.split_asm if_split_asm)

lemma prepared_task:
  assumes "SubmitJudgeTask_prepare cfg env now db req = Inr (Fresh task vector code)"
  shows "tkRetryCount task = 0 \<and> 0 \<le> tkMaxRetries task \<and>
    (tkStatus task = 1 \<or> tkStatus task = 2 \<and> inJudgerType (tkInputSnapshot task) = JudgerTypeManual) \<and>
    TrimSpace (inTraceID (tkInputSnapshot task)) \<noteq> [] \<and> 0 < tkTenantID task"
proof -
  from assms obtain spec j mode where v: "validateSubmitRequest req = Inr ()"
    and p: "prepare_task cfg env now db req spec j mode = Inr (Fresh task vector code)" by (rule prepared_parts)
  from p obtain snapshot codeHash archive where
    snap: "buildInputSnapshot (seMarshal env) (seHmac env) (seDigest env) (jcfDefaultMaxRetries cfg) j spec (sqExtraInput req) = Inr snapshot"
    and tr: "TrimSpace (seTraceID env) \<noteq> []"
    and t: "task = (submitted_task cfg env req j mode snapshot codeHash)\<lparr>tkInputSnapshot :=
       archive (tkInputSnapshot (submitted_task cfg env req j mode snapshot codeHash))\<rparr>"
      "\<And>i. inTraceID (archive i) = inTraceID i \<and> inJudgerType (archive i) = inJudgerType i" by (rule prepare_task_parts) (rule that)
  from v have "0 < sqTenantID req" by (simp add: validateSubmitRequest_def split: if_split_asm)
  moreover from snap have "inJudgerType snapshot = jgType j"
    by (auto simp: buildInputSnapshot_def bindR_Inr thenR_Inr Let_def split: if_split_asm)
  ultimately show ?thesis using t tr maxRetries_nonneg
    by (simp add: submitted_task_def Let_def task_status_defs)
qed

lemma commit_rows:
  assumes c: "SubmitJudgeTask_commit now printID db task vector code = Inr (answer, db')"
  obtains (kept) "jdTasks db' = jdTasks db" "jdResults db' = jdResults db" "jdOutbox db' = jdOutbox db" "fst answer \<in> set (jdTasks db)"
      "tkSourceRef (fst answer) = tkSourceRef task" "tkProblemRef (fst answer) = tkProblemRef task"
  | (added) row where "jdTasks db' = jdTasks db @ [row]" "jdResults db' = jdResults db" "jdOutbox db' = jdOutbox db" "fst answer = row"
      "row = task\<lparr>tkRetryCount := 0, tkLastError := [], tkCreatedAt := now, tkUpdatedAt := now, tkLeaseToken := [], tkLeaseUntil := None\<rparr>"
      "tkID task \<notin> tkID ` set (jdTasks db)"
      "GetJudgeTaskBySourceRef db (tkTenantID task) (tkSourceRef task) (tkProblemRef task) = None"
proof -
  from c obtain created db1 where k: "CreateJudgeTask now db task = Some (created, db1)"
    and a: "fst answer = created" and r: "jdTasks db' = jdTasks db1" "jdResults db' = jdResults db1" "jdOutbox db' = jdOutbox db1"
    by (auto simp: SubmitJudgeTask_commit_def persisted_Inr res_simps Let_def CreateFingerprint_def split: if_splits)
  show thesis
  proof (cases "GetJudgeTaskBySourceRef db (tkTenantID task) (tkSourceRef task) (tkProblemRef task)")
    case None
    with k have "tkID task \<notin> tkID ` set (jdTasks db)" "created = task\<lparr>tkRetryCount := 0, tkLastError := [],
        tkCreatedAt := now, tkUpdatedAt := now, tkLeaseToken := [], tkLeaseUntil := None\<rparr>"
      "db1 = db\<lparr>jdTasks := jdTasks db @ [created]\<rparr>"
      by (auto simp: CreateJudgeTask_def Let_def split: if_splits)
    with r a None show thesis by (intro added [of created]) auto
  next
    case (Some t)
    then have "t \<in> set (jdTasks db)" "tkSourceRef t = tkSourceRef task" "tkProblemRef t = tkProblemRef task"
      by (auto simp: GetJudgeTaskBySourceRef_def same_source_def dest: find_SomeD)
    with k r a Some show thesis by (intro kept) (auto simp: CreateJudgeTask_def)
  qed
qed

lemma submit_claims:
  assumes p: "SubmitJudgeTask_prepare cfg env past seen req = Inr (Fresh task vector code)"
    and c: "SubmitJudgeTask_commit now printID db task vector code = Inr (answer, db')"
    and ok: "claims_ok tokens db held settled"
  shows "claims_ok tokens db' held settled"
  using c
proof (cases rule: commit_rows)
  case kept
  with ok show ?thesis by (auto simp: claims_ok_def tasks_ok_def held_ok_def settled_ok_def)
next
  case (added row)
  from prepared_task [OF p] added(5) have n: "new_task row" "tkID row = tkID task" by (auto simp: new_task_def)
  from added(7) have "(tkTenantID row, tkSourceRef row, tkProblemRef row) \<notin>
      (\<lambda>t. (tkTenantID t, tkSourceRef t, tkProblemRef t)) ` set (jdTasks db)"
    by (auto simp: GetJudgeTaskBySourceRef_def same_source_def find_None_iff added(5))
  then have "tasks_ok tokens db'" using ok n new_task_ok [OF n(1), of tokens] added(6)
    by (auto simp: claims_ok_def tasks_ok_def added(1-3))
  then show ?thesis using ok n by (auto simp: claims_ok_def held_ok_def settled_ok_def added(1) new_task_def)
qed

lemma submit_lives:
  assumes p: "SubmitJudgeTask_prepare cfg env past seen req = Inr (Fresh task vector code)"
    and c: "SubmitJudgeTask_commit now printID db task vector code = Inr (answer, db')"
    and ok: "tasks_ok tokens db"
  shows "lives_on db db'"
  using c
proof (cases rule: commit_rows)
  case kept
  then show ?thesis by (auto simp: lives_on_def life_of_def split: option.splits)
next
  case (added row)
  show ?thesis
  proof (rule lives_onI)
    fix i l assume "life_of db i = Some l"
    moreover from this have "i \<noteq> tkID row" using added(5,6) life_of_None [of db i] by (auto simp: image_iff)
    ultimately show "\<exists>m. life_of db' i = Some m \<and> life_step\<^sup>*\<^sup>* l m"
      by (auto simp: life_of_def added(1-3) find_append split: option.splits)
  next
    fix i m assume none: "life_of db i = None" and m: "life_of db' i = Some m"
    then have "of_task i (jdResults db) = []" "said_of i (jdOutbox db) = []"
      using ok by (auto simp: life_of_None tasks_ok_def of_task_def said_of_def filter_empty_conv)
    moreover have "tkStatus row = 1 \<or> tkStatus row = 2" using prepared_task [OF p] added(5) by auto
    ultimately show "born m" using none m
      by (auto simp: life_of_def added(1-3) born_def phase_of_def find_append split: option.splits if_splits)
  qed
qed

subsection \<open>Announcements\<close>

definition same_message :: "JudgeEventOutbox \<Rightarrow> JudgeEventOutbox \<Rightarrow> bool" where
  "same_message o1 q \<longleftrightarrow> obID q = obID o1 \<and> obTenantID q = obTenantID o1 \<and> obTaskID q = obTaskID o1 \<and>
     obSubject q = obSubject o1 \<and> obPayload q = obPayload o1"

lemma same_message_refl [simp]: "same_message q q"
  by (simp add: same_message_def)

lemma same_message_trans: "same_message a b \<Longrightarrow> same_message b c \<Longrightarrow> same_message a c"
  by (simp add: same_message_def)

lemma same_message_sym: "same_message a b \<Longrightarrow> same_message b a"
  by (simp add: same_message_def)

inductive out_move :: "string option \<Rightarrow> int \<Rightarrow> JudgeEventOutbox list \<Rightarrow> JudgeEventOutbox \<Rightarrow> JudgeEventOutbox \<Rightarrow> bool"
  for token attempts sent where
  same: "out_move token attempts sent q q"
| claimed: "token = Some k \<Longrightarrow> obStatus q \<in> {1, 2, 4} \<Longrightarrow> obRetryCount q < attempts \<Longrightarrow>
     out_move token attempts sent q (claim_outbox now k until q)"
| published: "obStatus q = 2 \<Longrightarrow> m \<in> set sent \<Longrightarrow> same_message q m \<Longrightarrow>
     out_move token attempts sent q (free_outbox now 3 reason q)"
| failed: "obStatus q = 2 \<Longrightarrow> out_move token attempts sent q ((free_outbox now 4 reason q)\<lparr>obNextAttemptAt := due\<rparr>)"

definition out_moves :: "string option \<Rightarrow> int \<Rightarrow> JudgeEventOutbox list \<Rightarrow> judge_store \<Rightarrow> judge_store \<Rightarrow> bool" where
  "out_moves token attempts sent db db' \<longleftrightarrow> (\<exists>g. db' = db\<lparr>jdOutbox := map g (jdOutbox db)\<rparr> \<and>
     (\<forall>q \<in> set (jdOutbox db). out_move token attempts sent q (g q)))"

definition out_ok :: "string set \<Rightarrow> int \<Rightarrow> JudgeEventOutbox list \<Rightarrow> JudgeEventOutbox \<Rightarrow> bool" where
  "out_ok tokens attempts sent q \<longleftrightarrow>
     obStatus q \<in> {1, 2, 3, 4} \<and> 0 \<le> obRetryCount q \<and> obRetryCount q \<le> max 0 attempts \<and>
     (obLeaseUntil q = None \<longleftrightarrow> obLeaseToken q = []) \<and> (obStatus q = 2 \<longleftrightarrow> obLeaseToken q \<noteq> []) \<and>
     (obLeaseToken q \<noteq> [] \<longrightarrow> obLeaseToken q \<in> tokens) \<and>
     (obStatus q = 3 \<longrightarrow> (\<exists>m \<in> set sent. same_message q m)) \<and>
     0 < obTenantID q \<and> fst (event_meta (obPayload q)) = obTenantID q \<and> TrimSpace (snd (event_meta (obPayload q))) \<noteq> []"

definition outs_ok :: "string set \<Rightarrow> int \<Rightarrow> JudgeEventOutbox list \<Rightarrow> JudgeEventOutbox list \<Rightarrow> judge_store \<Rightarrow> bool" where
  "outs_ok tokens attempts sent out db \<longleftrightarrow>
     distinct (map obID (jdOutbox db)) \<and> (\<forall>q \<in> set (jdOutbox db). out_ok tokens attempts sent q) \<and>
     (\<forall>m \<in> set sent \<union> set out. \<exists>q \<in> set (jdOutbox db). same_message q m)"

lemma out_move_message: "out_move token attempts sent q r \<Longrightarrow> same_message q r"
  by (erule out_move.cases) (auto simp: same_message_def claim_outbox_def free_outbox_def)

lemma out_move_ok:
  assumes "out_move token attempts sent q r" and "out_ok tokens attempts sent q" and "\<And>k. token = Some k \<Longrightarrow> k \<noteq> []"
  shows "out_ok (tokens \<union> set_option token) attempts sent r"
  using assms(1)
proof cases
  case (published m now reason)
  then have "same_message (free_outbox now 3 reason q) m" by (simp add: same_message_def free_outbox_def)
  with published assms(2) show ?thesis by (auto simp: out_ok_def free_outbox_def)
qed (use assms(2,3) in \<open>auto simp: out_ok_def claim_outbox_def free_outbox_def same_message_def\<close>)

lemma out_moves_ok:
  assumes m: "out_moves token attempts sent db db'" and ok: "outs_ok tokens attempts sent out db"
    and k: "\<And>k. token = Some k \<Longrightarrow> k \<noteq> []"
  shows "outs_ok (tokens \<union> set_option token) attempts sent out db'"
proof -
  from m obtain g where g: "db' = db\<lparr>jdOutbox := map g (jdOutbox db)\<rparr>"
    "\<And>q. q \<in> set (jdOutbox db) \<Longrightarrow> out_move token attempts sent q (g q)" by (auto simp: out_moves_def)
  have msg: "same_message q (g q)" if "q \<in> set (jdOutbox db)" for q by (rule out_move_message [OF g(2) [OF that]])
  have "map obID (jdOutbox db') = map obID (jdOutbox db)" using msg by (simp add: g(1) same_message_def)
  then have "distinct (map obID (jdOutbox db'))" using ok by (simp add: outs_ok_def)
  moreover have "\<forall>q \<in> set (jdOutbox db'). out_ok (tokens \<union> set_option token) attempts sent q"
    using out_move_ok [OF g(2) _ k] ok by (auto simp: outs_ok_def g(1))
  moreover have "\<exists>q \<in> set (jdOutbox db'). same_message q m" if "m \<in> set sent \<union> set out" for m
  proof -
    from ok that obtain q where q: "q \<in> set (jdOutbox db)" "same_message q m" unfolding outs_ok_def by blast
    have "same_message (g q) m" by (rule same_message_trans [OF same_message_sym [OF msg [OF q(1)]] q(2)])
    with q(1) show ?thesis by (auto simp: g(1))
  qed
  ultimately show ?thesis unfolding outs_ok_def by blast
qed

lemma out_moves_tasks:
  assumes "out_moves token attempts sent db db'"
  shows "jdTasks db' = jdTasks db" "jdResults db' = jdResults db" "said_of i (jdOutbox db') = said_of i (jdOutbox db)"
    "obTaskID ` set (jdOutbox db') = obTaskID ` set (jdOutbox db)"
proof -
  from assms obtain g where g0: "db' = db\<lparr>jdOutbox := map g (jdOutbox db)\<rparr>"
    "\<forall>q \<in> set (jdOutbox db). out_move token attempts sent q (g q)" by (auto simp: out_moves_def)
  then have g: "db' = db\<lparr>jdOutbox := map g (jdOutbox db)\<rparr>" "\<And>q. q \<in> set (jdOutbox db) \<Longrightarrow> same_message q (g q)"
    by (blast intro: out_move_message)+
  from g show "jdTasks db' = jdTasks db" "jdResults db' = jdResults db" by auto
  have "said_of i (map g qs) = said_of i qs" if "\<And>q. q \<in> set qs \<Longrightarrow> same_message q (g q)" for qs
    using that by (induction qs) (auto simp: said_of_def same_message_def)
  with g show "said_of i (jdOutbox db') = said_of i (jdOutbox db)" by simp
  show "obTaskID ` set (jdOutbox db') = obTaskID ` set (jdOutbox db)" using g by (force simp: same_message_def image_iff)
qed

lemma out_moves_lives: "out_moves token attempts sent db db' \<Longrightarrow> lives_on db db'"
  using out_moves_tasks by (intro lives_onI) (auto simp: life_of_def split: option.splits)

lemma tasks_ok_more: "tasks_ok tokens db \<Longrightarrow> tasks_ok (tokens \<union> extra) db"
  by (auto simp: tasks_ok_def task_ok_def)

lemma out_moves_claims: 
  assumes "out_moves token attempts sent db db'" and "claims_ok tokens db held settled"
  shows "claims_ok (tokens \<union> extra) db' held settled"
proof -
  have "obTaskID ` set (jdOutbox db') \<subseteq> tkID ` set (jdTasks db)"
    using assms(2) out_moves_tasks(4) [OF assms(1)] by (auto simp: claims_ok_def tasks_ok_def)
  then have "tasks_ok tokens db'" using assms(2) out_moves_tasks(1,2) [OF assms(1)]
    by (auto simp: claims_ok_def tasks_ok_def)
  then show ?thesis using assms(2) out_moves_tasks(1) [OF assms(1)] tasks_ok_more
    by (auto simp: claims_ok_def held_ok_def settled_ok_def)
qed

text \<open>New rows are appended by the moves of tasks.\<close>

lemma move_meta:
  "task_move token t u rs es \<Longrightarrow> e \<in> set es \<Longrightarrow> fst (event_meta e) = tkTenantID t"
  by (erule task_move.cases) (auto simp: task_verdict_def completed_event_def failed_event_def event_meta_def)

lemma new_row_ok: "new_row q \<Longrightarrow> 0 < obTenantID q \<Longrightarrow> out_ok tokens attempts sent q"
  by (auto simp: new_row_def out_ok_def)

lemma moves_outs_ok:
  assumes m: "task_moves token db db'" and ok: "tasks_ok tokens db" and o: "outs_ok tokens' attempts sent out db"
  shows "outs_ok tokens' attempts sent out db'"
proof -
  from m obtain g rs os where g: "jdOutbox db' = jdOutbox db @ os"
    "\<And>t. t \<in> set (jdTasks db) \<Longrightarrow> task_move token t (g t) (of_task (tkID t) rs) (said_of (tkID t) os)"
    "\<And>o1. o1 \<in> set os \<Longrightarrow> obTaskID o1 \<in> tkID ` set (jdTasks db) \<and> new_row o1"
    "distinct (map obID os)" "obID ` set os \<inter> obID ` set (jdOutbox db) = {}"
    by (rule task_movesE) (rule that)
  have "out_ok tokens' attempts sent q" if q: "q \<in> set os" for q
  proof -
    from g(3) [OF q] obtain t where t: "t \<in> set (jdTasks db)" "obTaskID q = tkID t" "new_row q" by auto
    then have "obPayload q \<in> set (said_of (tkID t) os)" using q by (auto simp: said_of_def)
    from move_meta [OF g(2) [OF t(1)] this] t have "obTenantID q = tkTenantID t" by (simp add: new_row_def)
    then show ?thesis using ok t by (auto simp: tasks_ok_def task_ok_def intro: new_row_ok)
  qed
  then show ?thesis using o g(1,4,5) by (auto simp: outs_ok_def)
qed

end
