(* ===== verification/JudgeRuns.thy ===== *)
theory JudgeRuns
  imports JudgeLife
begin

section \<open>Judge module: reachable states\<close>

text \<open>
  The transactions of the publisher as moves of the outbox, the invariant of all reachable states of
  \<open>judge_step\<close>, and the properties that follow from it.
\<close>

subsection \<open>The publisher\<close>

definition attempts :: "JudgeConfig \<Rightarrow> int" where
  "attempts cfg = (case Int32 (jcfOutboxMaxAttempts cfg) of (n, ok) \<Rightarrow> if ok then sint n else 0)"

lemma upd_out_moves:
  assumes "db' = db\<lparr>jdOutbox := upd_rows p f (jdOutbox db)\<rparr>"
    and "\<And>q. q \<in> set (jdOutbox db) \<Longrightarrow> p q \<Longrightarrow> out_move token n sent q (f q)"
  shows "out_moves token n sent db db'"
  unfolding out_moves_def
  by (rule exI [of _ "\<lambda>q. if p q then f q else q"]) (use assms in \<open>auto simp: upd_rows_def intro: out_move.same\<close>)

lemma failed_same: "obStatus q = 2 \<Longrightarrow> out_move token n sent q (free_outbox now 4 reason q)"
  using out_move.failed [where q=q and token=token and attempts=n and sent=sent and now=now and reason=reason and due="obNextAttemptAt q"] by (simp add: free_outbox_def)

lemma exhaust_moves: "out_moves token n sent db (ExhaustExpiredEventOutbox now db n here)"
  by (rule upd_out_moves [OF ExhaustExpiredEventOutbox_def]) (auto simp: outbox_lease_expired_def intro: failed_same)

lemma same_out: "distinct (map obID qs) \<Longrightarrow> q \<in> set qs \<Longrightarrow> r \<in> set qs \<Longrightarrow> obID q = obID r \<Longrightarrow> q = r"
  by (auto simp: distinct_map dest: inj_onD)

lemma claimed_out:
  "distinct (map obID (jdOutbox db)) \<Longrightarrow> q \<in> set (jdOutbox db) \<Longrightarrow> obID q \<in> outbox_selected now db limit n here \<Longrightarrow>
     outbox_claimable now n here q"
  unfolding outbox_selected_def using same_out by (fastforce dest: in_set_takeD)

lemma claim_out_moves:
  assumes "ClaimPendingOutbox now db limit n here until token = (rows, db')" and d: "distinct (map obID (jdOutbox db))"
  shows "out_moves (Some token) n sent db db'"
    and "\<And>q. q \<in> set rows \<Longrightarrow> q \<in> set (jdOutbox db')"
proof -
  let ?ids = "outbox_selected now db limit n here"
  have db': "db' = db\<lparr>jdOutbox := upd_rows (\<lambda>q. obID q \<in> ?ids) (claim_outbox now token until) (jdOutbox db)\<rparr>"
    and rows: "rows = map (claim_outbox now token until) (filter (\<lambda>q. obID q \<in> ?ids) (jdOutbox db))"
    using assms(1) by (auto simp: ClaimPendingOutbox_def Let_def)
  have "out_move (Some token) n sent q (claim_outbox now token until q)" if "q \<in> set (jdOutbox db)" "obID q \<in> ?ids" for q
  proof -
    from claimed_out [OF d that] have "obStatus q \<in> {1, 2, 4}" "obRetryCount q < n"
      by (auto simp: outbox_claimable_def outbox_lease_expired_def)
    then show ?thesis by (intro out_move.claimed) auto
  qed
  then show "out_moves (Some token) n sent db db'" by (rule upd_out_moves [OF db'])
  show "q \<in> set (jdOutbox db')" if "q \<in> set rows" for q using that by (auto simp: db' rows upd_rows_def)
qed

lemma take_out_moves:
  assumes t: "publishPendingOutbox_claim cfg now here token db = Inr (rows, db')" and o: "outs_ok tokens (attempts cfg) sent out db"
    and k: "token \<noteq> []"
  shows "\<exists>db1. out_moves (Some token) (attempts cfg) sent db db1 \<and> out_moves (Some token) (attempts cfg) sent db1 db'"
    and "\<And>q. q \<in> set rows \<Longrightarrow> q \<in> set (jdOutbox db')"
proof -
  obtain n where n: "Int32 (jcfOutboxMaxAttempts cfg) = (n, True)" "attempts cfg = sint n"
    using t by (auto simp: publishPendingOutbox_claim_def attempts_def split: prod.splits if_splits)
  let ?db1 = "ExhaustExpiredEventOutbox now db (attempts cfg) here"
  have c: "ClaimPendingOutbox now ?db1 (worker_limit cfg 10) (attempts cfg) here
      (here + jcfOutboxLeaseDurationMs cfg * 1000000) token = (rows, db')"
    using t n by (simp add: publishPendingOutbox_claim_def split: if_splits)
  have m: "out_moves (Some token) (attempts cfg) sent db ?db1" by (rule exhaust_moves)
  from out_moves_ok [OF m o] k have "distinct (map obID (jdOutbox ?db1))" by (simp add: outs_ok_def)
  from claim_out_moves [OF c this] m
  show "\<exists>db1. out_moves (Some token) (attempts cfg) sent db db1 \<and> out_moves (Some token) (attempts cfg) sent db1 db'"
    "\<And>q. q \<in> set rows \<Longrightarrow> q \<in> set (jdOutbox db')" by blast+
qed

lemma update_outbox_Some:
  "update_outbox p f db = Some db' \<Longrightarrow> db' = db\<lparr>jdOutbox := upd_rows p f (jdOutbox db)\<rparr>"
  by (simp add: update_outbox_def split: option.splits)

lemma leased_out: "outbox_leased now tenantID i token q \<Longrightarrow> obID q = i \<and> obStatus q = 2"
  by (simp add: outbox_leased_def)

lemma published_moves:
  assumes "markOutboxPublished now m db = Inr db'" and "m \<in> set sent" and o: "outs_ok tokens n sent out db"
  shows "out_moves None n sent db db'"
proof -
  from assms(1) have "update_outbox (outbox_leased now (obTenantID m) (obID m) (obLeaseToken m))
      (\<lambda>item. free_outbox now 3 (obLastError item) item) db = Some db'"
    by (simp add: markOutboxPublished_def persisted_Inr MarkOutboxPublished_def)
  from update_outbox_Some [OF this] show ?thesis
  proof (rule upd_out_moves)
    fix q assume q: "q \<in> set (jdOutbox db)" "outbox_leased now (obTenantID m) (obID m) (obLeaseToken m) q"
    from o assms(2) obtain r where r: "r \<in> set (jdOutbox db)" "same_message r m" by (auto simp: outs_ok_def)
    from same_out [OF _ q(1) r(1)] o leased_out [OF q(2)] r(2) have "q = r" by (auto simp: outs_ok_def same_message_def)
    with q r assms(2) leased_out [OF q(2)] show "out_move None n sent q (free_outbox now 3 (obLastError q) q)"
      by (auto intro: out_move.published)
  qed
qed

lemma unsent_moves:
  assumes "markOutboxFailed now m reason db = Inr db'"
  shows "out_moves None n sent db db'"
proof -
  from assms have "update_outbox (outbox_leased now (obTenantID m) (obID m) (obLeaseToken m))
      (\<lambda>item. (free_outbox now 4 (TrimSpace reason) item)\<lparr>obNextAttemptAt := now + outbox_backoff (obRetryCount item) * 1000000000\<rparr>)
      db = Some db'"
    by (simp add: markOutboxFailed_def persisted_Inr MarkOutboxFailed_def split: if_splits)
  from update_outbox_Some [OF this] show ?thesis
    by (rule upd_out_moves) (auto dest: leased_out intro: out_move.failed)
qed

subsection \<open>Settling a claim\<close>

lemma freed:
  assumes "update_task (\<lambda>t. judge_task_key tenantID i t \<and> leased now k t) f db = Some (row, db')"
    and d: "distinct (map tkID (jdTasks db))" and f: "\<And>t. tkLeaseToken (f t) = []"
  shows "\<exists>t \<in> set (jdTasks db). tkID t = i \<and> tkLeaseToken t = k" "\<forall>t \<in> set (jdTasks db'). tkID t = i \<longrightarrow> tkLeaseToken t = []"
proof -
  from assms(1) obtain t where t: "t \<in> set (jdTasks db)" "judge_task_key tenantID i t \<and> leased now k t"
    and db': "jdTasks db' = upd_rows (\<lambda>t. judge_task_key tenantID i t \<and> leased now k t) f (jdTasks db)"
    by (elim update_task_Some) simp
  then show "\<exists>t \<in> set (jdTasks db). tkID t = i \<and> tkLeaseToken t = k" by (auto simp: judge_task_key_def dest: leased_until)
  show "\<forall>t \<in> set (jdTasks db'). tkID t = i \<longrightarrow> tkLeaseToken t = []"
  proof (intro ballI impI)
    fix u assume u: "u \<in> set (jdTasks db')" "tkID u = i"
    then obtain v where v: "v \<in> set (jdTasks db)" "u = (if judge_task_key tenantID i v \<and> leased now k v then f v else v)"
      by (auto simp: db' upd_rows_def)
    show "tkLeaseToken u = []"
    proof (cases "judge_task_key tenantID i v \<and> leased now k v")
      case False
      with v u(2) t same_id [OF d v(1) t(1)] show ?thesis by (auto simp: judge_task_key_def)
    qed (use v(2) f in simp)
  qed
qed

lemma completeTask_frees:
  assumes c: "completeTask now resultID outboxID h result db = Inr (row, db')" and d: "distinct (map tkID (jdTasks db))"
  shows "\<exists>t \<in> set (jdTasks db). tkID t = tkID h \<and> tkLeaseToken t = tkLeaseToken h"
    "\<forall>t \<in> set (jdTasks db'). tkID t = tkID h \<longrightarrow> tkLeaseToken t = []"
proof -
  from c obtain db1 db2 where p: "jdTasks db1 = jdTasks db" "jdTasks db' = jdTasks db2"
    "CompleteJudgeTask now db1 (tkTenantID h) (tkID h) (tkLeaseToken h) = Some (row, db2)" by (rule completeTask_parts)
  have "distinct (map tkID (jdTasks db1))" "\<And>t. tkLeaseToken (free_task now 3 [] t) = []" using d p(1) by (simp_all add: free_task_def)
  from freed [OF p(3) [unfolded CompleteJudgeTask_def] this] p(1,2)
  show "\<exists>t \<in> set (jdTasks db). tkID t = tkID h \<and> tkLeaseToken t = tkLeaseToken h"
    "\<forall>t \<in> set (jdTasks db'). tkID t = tkID h \<longrightarrow> tkLeaseToken t = []" by simp_all
qed

lemma retryOrFail_frees:
  assumes r: "retryOrFail now here outboxID h reason db = Inr (row, db')" and d: "distinct (map tkID (jdTasks db))"
  shows "\<exists>t \<in> set (jdTasks db). tkID t = tkID h \<and> tkLeaseToken t = tkLeaseToken h"
    "\<forall>t \<in> set (jdTasks db'). tkID t = tkID h \<longrightarrow> tkLeaseToken t = []"
proof -
  let ?p = "\<lambda>t. judge_task_key (tkTenantID h) (tkID h) t \<and> leased now (tkLeaseToken h) t"
  have "\<exists>f row1 db1. update_task ?p f db = Some (row1, db1) \<and> (\<forall>t. tkLeaseToken (f t) = []) \<and> jdTasks db' = jdTasks db1"
  proof (cases "tkRetryCount h < tkMaxRetries h")
    case True
    with r have "update_task ?p (\<lambda>t. (free_task now 1 (TrimSpace reason) t)\<lparr>tkRetryCount := tkRetryCount t + 1\<rparr>) db = Some (row, db')"
      by (simp add: retryOrFail_def persisted_Inr RetryJudgeTask_def split: if_splits)
    then show ?thesis by (intro exI conjI) (auto simp: free_task_def)
  next
    case False
    with r obtain db1 where up: "update_task ?p (free_task now 4 (TrimSpace reason)) db = Some (row, db1)"
      and a: "announce now outboxID h SubjectJudgeFailed (failed_event here h reason) db1 = Inr db'"
      by (auto simp: retryOrFail_def persisted_Inr FailJudgeTask_def res_simps split: if_splits)
    from a have "jdTasks db' = jdTasks db1" by (rule announce_Inr) simp
    with up show ?thesis by (intro exI conjI) (auto simp: free_task_def)
  qed
  then obtain f row1 db1 where "update_task ?p f db = Some (row1, db1)" "\<And>t. tkLeaseToken (f t) = []" "jdTasks db' = jdTasks db1" by blast
  from freed [OF this(1) d this(2)] this(3)
  show "\<exists>t \<in> set (jdTasks db). tkID t = tkID h \<and> tkLeaseToken t = tkLeaseToken h"
    "\<forall>t \<in> set (jdTasks db'). tkID t = tkID h \<longrightarrow> tkLeaseToken t = []" by auto
qed

subsection \<open>Every reachable state\<close>

definition all_honest :: "judge_store \<Rightarrow> bool" where
  "all_honest db \<longleftrightarrow> (\<forall>i l. life_of db i = Some l \<longrightarrow> life_honest l)"

definition parts_ok ::
  "JudgeConfig \<Rightarrow> string set \<Rightarrow> JudgeTask list \<Rightarrow> JudgeEventOutbox list \<Rightarrow> (string \<times> int) list \<Rightarrow> JudgeEventOutbox list \<Rightarrow>
     judge_store \<Rightarrow> bool" where
  "parts_ok cfg tokens held out settled sent db \<longleftrightarrow>
     claims_ok tokens db held settled \<and> outs_ok tokens (attempts cfg) sent out db \<and> distinct settled \<and> all_honest db"

definition system_fine :: "JudgeConfig \<Rightarrow> judge_system \<Rightarrow> bool" where
  "system_fine cfg s \<longleftrightarrow> parts_ok cfg (jsTokens s) (jsHeld s) (jsOut s) (jsSettled s) (jsSent s) (jsDB s)"

lemma life_steps_honest: "life_step\<^sup>*\<^sup>* l m \<Longrightarrow> life_honest l \<Longrightarrow> life_honest m"
  by (induction rule: rtranclp_induct) (auto intro: life_step_honest)

lemma lives_on_honest:
  assumes "lives_on db db'" and "all_honest db" shows "all_honest db'"
  unfolding all_honest_def
proof (intro allI impI)
  fix i m assume m: "life_of db' i = Some m"
  show "life_honest m"
  proof (cases "life_of db i")
    case None
    from born_honest [OF lives_on_None [OF assms(1) None m]] show ?thesis .
  next
    case (Some l)
    with lives_on_Some [OF assms(1) Some] m have "life_step\<^sup>*\<^sup>* l m" by auto
    moreover have "life_honest l" using assms(2) Some by (auto simp: all_honest_def)
    ultimately show ?thesis by (rule life_steps_honest)
  qed
qed

lemma outs_ok_more: "outs_ok tokens n sent out db \<Longrightarrow> outs_ok (tokens \<union> extra) n sent out db"
  by (auto simp: outs_ok_def out_ok_def)

lemma out_ok_sent: "out_ok tokens n sent q \<Longrightarrow> out_ok tokens n (m # sent) q"
  by (auto simp: out_ok_def)

lemma moves_parts:
  assumes m: "(task_moves token)\<^sup>*\<^sup>* db db'" and ok: "parts_ok cfg tokens held out settled sent db"
    and k: "\<And>k. token = Some k \<Longrightarrow> k \<noteq> [] \<and> k \<notin> tokens"
  shows "parts_ok cfg (tokens \<union> set_option token) held out settled sent db' \<and> lives_on db db'"
proof -
  have fresh: "k \<noteq> [] \<and> (\<forall>h \<in> set held. tkLeaseToken h \<noteq> k) \<and> (\<forall>c \<in> set settled. fst c \<noteq> k)" if "token = Some k" for k
    using k [OF that] ok by (auto simp: parts_ok_def claims_ok_def settled_ok_def)
  have c: "claims_ok tokens db held settled" and o: "outs_ok tokens (attempts cfg) sent out db" using ok by (simp_all add: parts_ok_def)
  from m have "outs_ok (tokens \<union> set_option token) (attempts cfg) sent out db'"
  proof (induction rule: rtranclp_induct)
    case base
    from o show ?case by (rule outs_ok_more)
  next
    case (step db1 db2)
    have "tasks_ok (tokens \<union> set_option token) db1"
      using moves_claims_ok [OF step.hyps(1) c fresh] by (simp add: claims_ok_def)
    from moves_outs_ok [OF step.hyps(2) this step.IH] show ?case .
  qed
  with moves_claims_ok [OF m c fresh] moves_many_live [OF m] ok lives_on_honest show ?thesis
    by (auto simp: parts_ok_def)
qed

lemma move_parts:
  assumes "task_moves None db db'" and "parts_ok cfg tokens held out settled sent db"
  shows "parts_ok cfg tokens held out settled sent db' \<and> lives_on db db'"
  using moves_parts [OF r_into_rtranclp [of "task_moves None", OF assms(1)] assms(2)] by simp

lemma out_moves_parts:
  assumes m: "out_moves token (attempts cfg) sent db db'" and ok: "parts_ok cfg tokens held out settled sent db"
    and k: "\<And>k. token = Some k \<Longrightarrow> k \<noteq> []"
  shows "parts_ok cfg (tokens \<union> set_option token) held out settled sent db' \<and> lives_on db db'"
  using out_moves_claims [OF m] out_moves_ok [OF m _ k] out_moves_lives [OF m] lives_on_honest ok
  by (auto simp: parts_ok_def)

lemma settled_parts:
  assumes ok: "parts_ok cfg tokens held out settled sent db'" and old: "claims_ok tokens db held settled"
    and h: "h \<in> set held" "\<exists>t \<in> set (jdTasks db). tkID t = tkID h \<and> tkLeaseToken t = tkLeaseToken h"
      "\<forall>t \<in> set (jdTasks db'). tkID t = tkID h \<longrightarrow> tkLeaseToken t = []"
  shows "parts_ok cfg tokens held out ((tkLeaseToken h, tkID h) # settled) sent db'"
proof -
  have "tkLeaseToken h \<noteq> []" "tkLeaseToken h \<in> tokens" using old h(1) by (auto simp: claims_ok_def held_ok_def)
  moreover have "(tkLeaseToken h, tkID h) \<notin> set settled" using old h(2) by (auto simp: claims_ok_def settled_ok_def)
  ultimately show ?thesis using ok h(3) by (auto simp: parts_ok_def claims_ok_def settled_ok_def)
qed

lemma dequeued_held:
  assumes q: "DequeueJudgeTasks now db limit here until token = (tasks, db')" and d: "distinct (map tkID (jdTasks db'))"
    and k: "token \<noteq> []" and h: "h \<in> set tasks"
  shows "held_ok db' h \<and> tkLeaseToken h = token"
proof -
  let ?ids = "selected_ids (claimable here) limit db"
  have "h \<in> set (jdTasks db') \<and> tkLeaseToken h = token"
    using q h by (auto simp: DequeueJudgeTasks_def update_selected_def upd_rows_def claim_task_def)
  moreover from this have "same_claim h t" if "t \<in> set (jdTasks db')" "tkID t = tkID h" for t
    using same_id [OF d] that by (metis same_claim_def)
  ultimately show ?thesis using k by (auto simp: held_ok_def)
qed

lemma claim_parts_ok:
  assumes c: "RunWorkerOnce_claim cfg now here gen token db = Inr ((expired, tasks), db')"
    and ok: "parts_ok cfg tokens held out settled sent db" and k: "token \<noteq> []" "token \<notin> tokens"
  shows "parts_ok cfg (insert token tokens) (tasks @ held) out settled sent db' \<and> lives_on db db'"
proof -
  from ok have d: "distinct (map tkID (jdTasks db))" by (simp add: parts_ok_def claims_ok_def tasks_ok_def)
  note m = moves_parts [OF claim_moves [OF c d] ok] 
  have r: "parts_ok cfg (insert token tokens) held out settled sent db'" "lives_on db db'" using m k by simp_all
  then have d': "distinct (map tkID (jdTasks db'))" by (simp add: parts_ok_def claims_ok_def tasks_ok_def)
  from c obtain db1 db2 where "DequeueJudgeTasks now db2 (worker_limit cfg 1) here (here + jcfTaskLeaseDurationMs cfg * 1000000) token = (tasks, db')"
    by (rule claim_parts)
  from dequeued_held [OF this d' k(1)] r show ?thesis by (auto simp: parts_ok_def claims_ok_def)
qed

lemma submit_parts:
  assumes p: "SubmitJudgeTask_prepare cfg env past seen req = Inr (Fresh task vector code)"
    and c: "SubmitJudgeTask_commit now printID db task vector code = Inr (answer, db')"
    and ok: "parts_ok cfg tokens held out settled sent db"
  shows "parts_ok cfg tokens held out settled sent db' \<and> lives_on db db'"
proof -
  have cl: "claims_ok tokens db held settled" and t: "tasks_ok tokens db" using ok by (simp_all add: parts_ok_def claims_ok_def)
  have "jdOutbox db' = jdOutbox db" using c by (cases rule: commit_rows) auto
  then have "outs_ok tokens (attempts cfg) sent out db'" using ok by (simp add: parts_ok_def outs_ok_def)
  with submit_claims [OF p c cl] submit_lives [OF p c t] lives_on_honest ok show ?thesis by (auto simp: parts_ok_def)
qed

lemma judge_step_fine:
  assumes "judge_step cfg runs s s'" and "system_fine cfg s"
  shows "system_fine cfg s' \<and> lives_on (jsDB s) (jsDB s')"
proof -
  from assms(2) have ok: "parts_ok cfg (jsTokens s) (jsHeld s) (jsOut s) (jsSettled s) (jsSent s) (jsDB s)"
    and cl: "claims_ok (jsTokens s) (jsDB s) (jsHeld s) (jsSettled s)" and d: "distinct (map tkID (jdTasks (jsDB s)))"
    by (simp_all add: system_fine_def parts_ok_def claims_ok_def tasks_ok_def)
  have held: "held_ok (jsDB s) h" if "h \<in> set (jsHeld s)" for h using cl that by (simp add: claims_ok_def)
  show ?thesis using assms(1)
  proof cases
    case (clock now)
    then show ?thesis using ok by (auto simp: system_fine_def intro!: lives_onI)
  next
    case (submit env past seen req task vector code printID answer db)
    with submit_parts [OF submit(2,3) ok] show ?thesis by (simp add: system_fine_def)
  next
    case (claim token here gen expired tasks db)
    with claim_parts_ok [OF claim(4) ok] show ?thesis by (simp add: system_fine_def)
  next
    case (renew task here row db)
    with move_parts [OF renew_moves [OF renew(3) d] ok] show ?thesis by (simp add: system_fine_def)
  next
    case (complete task result resultID outboxID row db)
    from move_parts [OF completeTask_moves [OF complete(4) d held [OF complete(2)]] ok] complete
      settled_parts [OF _ cl complete(2) completeTask_frees [OF complete(4) d]]
    show ?thesis by (auto simp: system_fine_def)
  next
    case (giveup task here outboxID reason row db)
    from move_parts [OF retryOrFail_moves [OF giveup(3) d held [OF giveup(2)]] ok] giveup
      settled_parts [OF _ cl giveup(2) retryOrFail_frees [OF giveup(3) d]]
    show ?thesis by (auto simp: system_fine_def)
  next
    case (cancel tenantID taskID row db)
    with move_parts [OF CancelTask_moves [OF cancel(2) d] ok] show ?thesis by (simp add: system_fine_def)
  next
    case (rejudge tenantID taskID row db)
    with move_parts [OF rejudgeTask_moves [OF rejudge(2) d] ok] show ?thesis by (simp add: system_fine_def)
  next
    case (batch tenantID sourceRef changed db)
    have "(task_moves None)\<^sup>*\<^sup>* (jsDB s) db" by (rule RejudgeBatch_moves [OF batch(2) d])
    from moves_parts [OF this ok] batch show ?thesis by (simp add: system_fine_def)
  next
    case (manual enabled resultID outboxID traceID tenantID taskID scorerID req info db)
    with move_parts [OF ManualScore_moves [OF manual(2) d] ok] show ?thesis by (simp add: system_fine_def)
  next
    case (take_out token here rows db)
    from ok have o: "outs_ok (jsTokens s) (attempts cfg) (jsSent s) (jsOut s) (jsDB s)" by (simp add: parts_ok_def)
    from take_out_moves [OF take_out(4) o take_out(3)] obtain db1 where
      m: "out_moves (Some token) (attempts cfg) (jsSent s) (jsDB s) db1" "out_moves (Some token) (attempts cfg) (jsSent s) db1 db"
      and rows: "\<And>q. q \<in> set rows \<Longrightarrow> q \<in> set (jdOutbox db)" by blast
    have p1: "parts_ok cfg (insert token (jsTokens s)) (jsHeld s) (jsOut s) (jsSettled s) (jsSent s) db1 \<and> lives_on (jsDB s) db1"
      using out_moves_parts [OF m(1) ok] take_out(3) by simp
    have p2: "parts_ok cfg (insert token (jsTokens s)) (jsHeld s) (jsOut s) (jsSettled s) (jsSent s) db \<and> lives_on db1 db"
      using out_moves_parts [OF m(2)] p1 take_out(3) by fastforce
    have "lives_on (jsDB s) db"
      using out_moves_tasks [OF m(1)] out_moves_tasks [OF m(2)] by (intro lives_onI) (auto simp: life_of_def split: option.splits)
    moreover have "outs_ok (insert token (jsTokens s)) (attempts cfg) (jsSent s) (rows @ jsOut s) db"
      using p2 rows by (auto simp: parts_ok_def outs_ok_def intro: same_message_refl)
    ultimately show ?thesis using p2 take_out(1) by (simp add: system_fine_def parts_ok_def)
  next
    case (send o1)
    then have "outs_ok (jsTokens s) (attempts cfg) (o1 # jsSent s) (jsOut s) (jsDB s)"
      using ok by (auto simp: parts_ok_def outs_ok_def intro: out_ok_sent)
    with send ok show ?thesis by (auto simp: system_fine_def parts_ok_def intro!: lives_onI)
  next
    case (sent o1 db)
    have o: "outs_ok (jsTokens s) (attempts cfg) (jsSent s) (jsOut s) (jsDB s)" using ok by (simp add: parts_ok_def)
    from out_moves_parts [OF published_moves [OF sent(3,2) o] ok] sent show ?thesis by (simp add: system_fine_def)
  next
    case (unsent o1 reason db)
    from out_moves_parts [OF unsent_moves [OF unsent(3)] ok] unsent show ?thesis by (simp add: system_fine_def)
  qed
qed

lemma started_fine: "judge_started s \<Longrightarrow> system_fine cfg s"
  by (auto simp: judge_started_def system_fine_def parts_ok_def claims_ok_def tasks_ok_def outs_ok_def all_honest_def life_of_def)

lemma reachable_fine:
  assumes "judge_started s0" and "(judge_step cfg runs)\<^sup>*\<^sup>* s0 s" shows "system_fine cfg s"
  using assms(2) by (induction rule: rtranclp_induct) (auto intro: started_fine assms(1) dest: judge_step_fine)

end
