(* ===== verification/JudgeSample.thy ===== *)
theory JudgeSample
  imports JudgeSystem JudgeProps
begin

section \<open>Judge module: a run of the system\<close>

text \<open>
  A simulation task (11) is submitted, claimed, executed and announced; a manual task (12) is submitted,
  scored and judged again.
\<close>

definition runConfig :: JudgeConfig where
  "runConfig = \<lparr>jcfWorkerBatchSize = 5, jcfSubmitRateLimitSec = 0, jcfDefaultMaxRetries = 2, jcfResultDetailsMaxBytes = 1000,
     jcfTaskLeaseDurationMs = 60000, jcfOutboxLeaseDurationMs = 60000, jcfOutboxMaxAttempts = 3, jcfSandboxReadyGraceSeconds = 5\<rparr>"

definition runJudger :: "int \<Rightarrow> string \<Rightarrow> int \<Rightarrow> Judger" where
  "runJudger i code typ = chainJudger\<lparr>jgID := i, jgCode := code, jgType := typ\<rparr>"

definition runStart :: judge_store where
  "runStart = \<lparr>jdJudgers = [runJudger 1 ''onchain'' JudgerTypeSimCheckpoint, runJudger 2 ''manual'' JudgerTypeManual], jdTasks = [],
     jdResults = [], jdOutbox = [], jdPrints = []\<rparr>"

definition runSpec :: "string \<Rightarrow> ContentJudgeSpec" where
  "runSpec code = chainSpec\<lparr>csJudgerCode := code, csExpectation := [(''checkpoint'', JObj [(''block'', JNum ''3'')])]\<rparr>"

definition runEnv :: "string \<Rightarrow> int \<Rightarrow> submit_env" where
  "runEnv code i = \<lparr>seMarshal = (\<lambda>_. ''{}''), seHmac = (\<lambda>_. None), seDigest = (\<lambda>_. Some ''d''), seContent = Some (runSpec code),
     seTraceID = ''t'', seCodeHash = (\<lambda>_. Inl ErrJudgeSubmitInvalid), seVector = Inl ErrJudgeSubmitInvalid,
     seStored = Inl ErrJudgeSubmitInvalid, seTaskID = i\<rparr>"

definition runRequest :: "string \<Rightarrow> JudgeSubmitRequest" where
  "runRequest source = \<lparr>sqTenantID = 1, sqJudgerCode = [], sqItemCode = ''q1'', sqItemVersion = ''1'', sqCodeStorageKey = [], sqCodeHash = [],
     sqSubmitterTenantID = 1, sqSubmitterID = 3, sqSourceRef = source, sqSourceOwnerID = 9, sqSourceCourseID = 4,
     sqSourceScope = ''teaching'', sqSandboxMode = ''fresh'', sqTargetSandboxRef = [], sqSandboxSourceRef = [],
     sqExtraInput = [(''checkpoint'', JObj [(''block'', JNum ''3'')])], sqPriority = 1\<rparr>"

definition runPrepared :: "string \<Rightarrow> int \<Rightarrow> string \<Rightarrow> judge_error + prepared" where
  "runPrepared code i source = SubmitJudgeTask_prepare runConfig (runEnv code i) 10 runStart (runRequest source)"

definition runSubmit :: "judge_error + prepared \<Rightarrow> judge_store \<Rightarrow> judge_error + (JudgeTask \<times> bool) \<times> judge_store" where
  "runSubmit p db = (case p of Inr (Fresh task vector code) \<Rightarrow> SubmitJudgeTask_commit 10 1 db task vector code | _ \<Rightarrow> Inl ErrJudgeSubmitInvalid)"

definition stored :: "judge_error + 'a \<times> judge_store \<Rightarrow> judge_store" where
  "stored r = (case r of Inl _ \<Rightarrow> runStart | Inr (_, db) \<Rightarrow> db)"

text \<open>The tasks as the submissions store them, and the first as its worker claims it.\<close>

definition runInput :: JudgeInputSnapshot where
  "runInput = (sampleInput JudgerTypeSimCheckpoint)\<lparr>inCompositionSnapshot := zeroSnapshot\<lparr>snDigest := ''d'',
       snSpec := (snSpec zeroSnapshot)\<lparr>scWorkspaceRuntimeInstance := ''main'', scAccessProfile := ''judge-private''\<rparr>\<rparr>,
     inGenesisRef := ''g'', inMaxRetries := 2,
     inExpectation := [(''checkpoint_kind'', JStr ''object''), (''checkpoint_field_count'', JNum ''1'')]\<rparr>"

definition simTask :: JudgeTask where
  "simTask = (sampleTask JudgerTypeSimCheckpoint)\<lparr>tkSourceRef := ''teaching:2026:assignment:5'', tkSourceCourseID := 4,
     tkSourceScope := ''teaching'', tkInputSnapshot := runInput, tkStatus := TaskQueued, tkMaxRetries := 2,
     tkCreatedAt := 10, tkUpdatedAt := 10, tkLeaseToken := [], tkLeaseUntil := None\<rparr>"

definition manualTask :: JudgeTask where
  "manualTask = simTask\<lparr>tkID := 12, tkJudgerID := 2, tkSourceRef := ''teaching:2026:assignment:6'',
     tkInputSnapshot := runInput\<lparr>inJudgerCode := ''manual'', inJudgerType := JudgerTypeManual,
       inExpectation := [(''checkpoint'', JObj [(''block'', JNum ''3'')])], inExtraInput := []\<rparr>, tkStatus := TaskJudging\<rparr>"

definition heldTask :: JudgeTask where "heldTask = claim_task 10 ''a'' 60000000010 simTask"

definition run1 :: judge_store where "run1 = runStart\<lparr>jdTasks := [simTask]\<rparr>"
definition run2 :: judge_store where "run2 = runStart\<lparr>jdTasks := [simTask, manualTask]\<rparr>"
definition run3 :: judge_store where "run3 = runStart\<lparr>jdTasks := [heldTask, manualTask]\<rparr>"

definition claimed :: "judge_store \<Rightarrow> string \<Rightarrow> judge_error + (JudgeTask list \<times> JudgeTask list) \<times> judge_store" where
  "claimed db token = RunWorkerOnce_claim runConfig 10 10 int token db"

definition claimed_rows :: "judge_error + (JudgeTask list \<times> JudgeTask list) \<times> judge_store \<Rightarrow> JudgeTask list" where
  "claimed_rows r = (case r of Inl _ \<Rightarrow> [] | Inr ((expired, tasks), db) \<Rightarrow> tasks)"

text \<open>The workers complete with results of \<open>executeTask\<close> in the sample environment.\<close>

definition sampleRuns :: "JudgeTask \<Rightarrow> JudgeExecutionResult \<Rightarrow> bool" where
  "sampleRuns task result \<longleftrightarrow> fst (executeTask (JudgeProps.sampleEnv (Inr ())) task ()) = Inr result"

definition run4 :: judge_store where "run4 = stored (completeTask 10 21 31 heldTask sampleVerdict run3)"

definition runScore :: ManualScoreRequest where
  "runScore = \<lparr>mqScore = 80, mqMaxScore = 100, mqPassed = True, mqComment = ''good''\<rparr>"

definition manualScored :: "judge_error + TaskInfo \<times> judge_store" where
  "manualScored = ManualScore (\<lambda>_ _. True) 10 22 32 ''t'' 1 12 9 runScore run4"

definition run5 :: judge_store where "run5 = stored manualScored"

definition takenOut :: "judge_error + JudgeEventOutbox list \<times> judge_store" where
  "takenOut = publishPendingOutbox_claim runConfig 10 10 ''b'' run5"

definition run6 :: judge_store where "run6 = stored takenOut"
definition runOut :: "JudgeEventOutbox list" where "runOut = (case takenOut of Inl _ \<Rightarrow> [] | Inr (rows, _) \<Rightarrow> rows)"

definition run7 :: judge_store where
  "run7 = (case markOutboxPublished 10 (hd runOut) run6 of Inl _ \<Rightarrow> runStart | Inr db \<Rightarrow> db)"
definition run8 :: judge_store where "run8 = stored (rejudgeTask 10 1 12 run7)"
definition run9 :: judge_store where "run9 = stored (claimed run8 ''c'')"

lemma sample_queues:
  "runSubmit (runPrepared ''onchain'' 11 ''teaching:2026:assignment:5'') runStart = Inr ((simTask, False), run1)"
  "runSubmit (runPrepared ''manual'' 12 ''teaching:2026:assignment:6'') run1 = Inr ((manualTask, False), run2)"
  by code_simp+

lemma sample_checks:
  "claimed run2 ''a'' = Inr (([], [heldTask]), run3)"
  "sampleRuns heldTask sampleVerdict"
  "\<not> isl (completeTask 10 21 31 heldTask sampleVerdict run3)"
  by code_simp+

lemma sample_checks2:
  "\<not> isl manualScored"
  "\<not> isl takenOut"
  "map obID runOut = [31, 32]"
  "\<not> isl (markOutboxPublished 10 (hd runOut) run6)"
  "\<not> isl (rejudgeTask 10 1 12 run7)"
  "\<not> isl (claimed run8 ''c'')"
  "map (\<lambda>t. (tkID t, tkStatus t)) (jdTasks run9) = [(11, 3), (12, 2)]"
  by code_simp+

lemma stored_Inr: "\<not> isl r \<Longrightarrow> \<exists>x. r = Inr (x, stored r)"
  by (cases r) (auto simp: stored_def)

definition sys ::
  "judge_store \<Rightarrow> JudgeTask list \<Rightarrow> JudgeEventOutbox list \<Rightarrow> string set \<Rightarrow> (string \<times> int) list \<Rightarrow> JudgeEventOutbox list \<Rightarrow>
     judge_system" where
  "sys db held out tokens settled sent =
     \<lparr>jsDB = db, jsNow = 10, jsHeld = held, jsOut = out, jsTokens = tokens, jsSettled = settled, jsSent = sent\<rparr>"

lemma sample_queue:
  assumes "runSubmit (runPrepared code i source) db = Inr (answer, db')"
  shows "judge_step runConfig sampleRuns (sys db held out tokens settled sent) (sys db' held out tokens settled sent)"
proof -
  obtain task vector c where p: "runPrepared code i source = Inr (Fresh task vector c)"
    using assms by (auto simp: runSubmit_def split: sum.splits prepared.splits)
  have "SubmitJudgeTask_commit 10 1 db task vector c = Inr (answer, db')"
    using assms by (simp add: runSubmit_def p)
  then show ?thesis
    using judge_step.submit [of runConfig "runEnv code i" 10 runStart "runRequest source" task vector c
        "sys db held out tokens settled sent" 1 answer] p
    by (simp add: runPrepared_def sys_def)
qed

lemma sample_claim:
  assumes "\<not> isl (claimed db token)" and "token \<notin> tokens" and "token \<noteq> []"
  shows "judge_step runConfig sampleRuns (sys db held out tokens settled sent)
    (sys (stored (claimed db token)) (claimed_rows (claimed db token) @ held) out (insert token tokens) settled sent)"
proof -
  obtain expired tasks where r: "claimed db token = Inr ((expired, tasks), stored (claimed db token))"
    using stored_Inr [OF assms(1)] by auto
  then have "claimed_rows (claimed db token) = tasks" by (metis (no_types, lifting) claimed_rows_def old.prod.case sum.case(2))
  then show ?thesis
    using judge_step.claim [of token "sys db held out tokens settled sent" runConfig 10 int expired tasks] assms(2,3) r
    by (simp add: claimed_def sys_def)
qed

definition sample1 :: judge_system where "sample1 = sys run3 [heldTask] [] {''a''} [] []"
definition sample2 :: judge_system where
  "sample2 = sys run7 [heldTask] runOut {''b'', ''a''} [(tkLeaseToken heldTask, tkID heldTask)] [hd runOut]"
definition sample3 :: judge_system where "sample3 = sample2\<lparr>jsDB := run8\<rparr>"
definition sample4 :: judge_system where
  "sample4 = sample3\<lparr>jsDB := run9, jsHeld := claimed_rows (claimed run8 ''c'') @ [heldTask], jsTokens := {''c'', ''b'', ''a''}\<rparr>"

lemma sample_started: "judge_started (sys runStart [] [] {} [] [])"
  by (simp add: judge_started_def sys_def runStart_def)

lemma step_then:
  "judge_step cfg runs s t \<Longrightarrow> (judge_step cfg runs)\<^sup>*\<^sup>* t u \<Longrightarrow> (judge_step cfg runs)\<^sup>*\<^sup>* s u"
  by (rule converse_rtranclp_into_rtranclp)

lemma sample_reach1: "(judge_step runConfig sampleRuns)\<^sup>*\<^sup>* (sys runStart [] [] {} [] []) sample1"
proof -
  let ?sys = "\<lambda>db. sys db [] [] {} [] []"
  have s1: "judge_step runConfig sampleRuns (?sys runStart) (?sys run1)" by (rule sample_queue [OF sample_queues(1)])
  have s2: "judge_step runConfig sampleRuns (?sys run1) (?sys run2)" by (rule sample_queue [OF sample_queues(2)])
  have s3: "judge_step runConfig sampleRuns (?sys run2) sample1"
    using sample_claim [of run2 "''a''" "{}" "[]" "[]" "[]" "[]"] sample_checks(1)
    by (simp add: sample1_def stored_def claimed_rows_def)
  show ?thesis
    by (rule step_then [OF s1 step_then [OF s2 step_then [OF s3 rtranclp.rtrancl_refl]]])
qed

lemma sample_reach2: "(judge_step runConfig sampleRuns)\<^sup>*\<^sup>* sample1 sample2"
proof -
  let ?step = "judge_step runConfig sampleRuns" and ?c = "[(tkLeaseToken heldTask, tkID heldTask)]"
  have out: "hd runOut \<in> set runOut" using sample_checks2(3) by (intro hd_in_set) auto
  have s1: "?step sample1 (sys run4 [heldTask] [] {''a''} ?c [])"
    using stored_Inr [OF sample_checks(3)] sample_checks(2)
      judge_step.complete [of "heldTask" sample1 sampleRuns sampleVerdict 21 31 _ _ runConfig]
    by (auto simp: sample1_def sys_def run4_def)
  have s2: "?step (sys run4 [heldTask] [] {''a''} ?c []) (sys run5 [heldTask] [] {''a''} ?c [])"
    using stored_Inr [OF sample_checks2(1)]
      judge_step.manual [of "\<lambda>_ _. True" "sys run4 [heldTask] [] {''a''} ?c []" 22 32 "''t''" 1 12 9 runScore]
    by (auto simp: sys_def run5_def manualScored_def)
  obtain rows where taken: "takenOut = Inr (rows, run6)" using stored_Inr [OF sample_checks2(2)] unfolding run6_def by blast
  have rows: "takenOut = Inr (runOut, run6)" unfolding runOut_def taken by simp
  have s3: "?step (sys run5 [heldTask] [] {''a''} ?c []) (sys run6 [heldTask] runOut {''b'', ''a''} ?c [])"
    using judge_step.take_out [of "''b''" "sys run5 [heldTask] [] {''a''} ?c []" runConfig 10] rows
    by (simp add: sys_def takenOut_def)
  have s4: "?step (sys run6 [heldTask] runOut {''b'', ''a''} ?c []) (sys run6 [heldTask] runOut {''b'', ''a''} ?c [hd runOut])"
    using judge_step.send [of "hd runOut" "sys run6 [heldTask] runOut {''b'', ''a''} ?c []"] out by (simp add: sys_def)
  have "markOutboxPublished 10 (hd runOut) run6 = Inr run7"
    using sample_checks2(4) by (cases "markOutboxPublished 10 (hd runOut) run6") (auto simp: run7_def)
  then have s5: "?step (sys run6 [heldTask] runOut {''b'', ''a''} ?c [hd runOut]) sample2"
    using judge_step.sent [of "hd runOut" "sys run6 [heldTask] runOut {''b'', ''a''} ?c [hd runOut]" run7] by (simp add: sys_def sample2_def)
  show ?thesis
    by (rule step_then [OF s1 step_then [OF s2 step_then [OF s3 step_then [OF s4 step_then [OF s5 rtranclp.rtrancl_refl]]]]])
qed

lemma sample_reach3: "judge_step runConfig sampleRuns sample2 sample3"
  using stored_Inr [OF sample_checks2(5)] judge_step.rejudge [of sample2 1 12]
  by (auto simp: sample3_def sample2_def sys_def run8_def)

lemma sample_reach4: "judge_step runConfig sampleRuns sample3 sample4"
  using sample_claim [OF sample_checks2(6), of "{''b'', ''a''}"]
  by (simp add: sample4_def sample3_def sample2_def sys_def run9_def)

lemma sample_reached3: "(judge_step runConfig sampleRuns)\<^sup>*\<^sup>* (sys runStart [] [] {} [] []) sample3"
  using sample_reach1 sample_reach2 sample_reach3 by (meson rtranclp.rtrancl_into_rtrancl rtranclp_trans)

lemma sample_reached4: "(judge_step runConfig sampleRuns)\<^sup>*\<^sup>* (sys runStart [] [] {} [] []) sample4"
  using sample_reached3 sample_reach4 by (rule rtranclp.rtrancl_into_rtrancl)

lemma sample_executed: "sampleRuns task result \<Longrightarrow> \<exists>w destroyed v. executeTask (JudgeProps.sampleEnv (Inr ())) task w = (Inr result, destroyed, v)"
  by (metis (full_types) sampleRuns_def prod.collapse)

subsection \<open>Facts of the run\<close>

lemma sample_fields:
  "jsDB sample1 = run3" "jsNow sample1 = 10" "jsHeld sample1 = [heldTask]" "jsDB sample3 = run8" "jsNow sample3 = 10"
  "jsDB sample4 = run9" "jsSettled sample4 = [(''a'', 11)]"
  by (simp_all add: sample1_def sample2_def sample3_def sample4_def sys_def heldTask_def claim_task_def simTask_def sampleTask_def)

definition doneTask :: JudgeTask where "doneTask = hd (jdTasks run8)"
definition againTask :: JudgeTask where "againTask = last (jdTasks run8)"

lemma sample_tasks:
  "tkID doneTask = 11" "tkStatus doneTask = TaskDone" "tkID againTask = 12" "tkStatus againTask = TaskQueued"
  "inJudgerType (tkInputSnapshot againTask) = JudgerTypeManual" "jdTasks run8 \<noteq> []"
  by code_simp+

lemma sample_in: "doneTask \<in> set (jdTasks run8)" "againTask \<in> set (jdTasks run8)"
  using sample_tasks(6) by (simp_all add: doneTask_def againTask_def)

end
