(* ===== verification/JudgeTheorems.thy ===== *)
theory JudgeTheorems
  imports JudgeRuns JudgeSample
begin

section \<open>Judge module: properties of the running system\<close>

text \<open>
  What clients of the judge module can rely on in every reachable state of \<open>judge_step\<close>, whatever the
  interleaving of workers, publishers and requests, and a concrete run on which each property is applied.
\<close>

subsection \<open>Refinement\<close>



subsection \<open>Verdicts are announced\<close>

lemma find_id: "distinct (map tkID ts) \<Longrightarrow> t \<in> set ts \<Longrightarrow> find (\<lambda>u. tkID u = tkID t) ts = Some t"
  by (induction ts) (auto simp: image_iff)

lemma life_of_task:
  "distinct (map tkID (jdTasks db)) \<Longrightarrow> t \<in> set (jdTasks db) \<Longrightarrow>
     life_of db (tkID t) = Some \<lparr>lfPhase = phase_of (tkStatus t), lfSaid = map said_event (said_of (tkID t) (jdOutbox db)),
       lfVerdicts = map (\<lambda>r. (rePassed r, reScore r)) (of_task (tkID t) (jdResults db))\<rparr>"
  by (simp add: life_of_def find_id)

lemma reachable_tasks:
  assumes "judge_started s0" and "(judge_step cfg runs)\<^sup>*\<^sup>* s0 s"
  shows "claims_ok (jsTokens s) (jsDB s) (jsHeld s) (jsSettled s)" "tasks_ok (jsTokens s) (jsDB s)"
    "outs_ok (jsTokens s) (attempts cfg) (jsSent s) (jsOut s) (jsDB s)" "distinct (jsSettled s)" "all_honest (jsDB s)"
    "t \<in> set (jdTasks (jsDB s)) \<Longrightarrow> task_ok (jsTokens s) t" "distinct (map tkID (jdTasks (jsDB s)))"
  using reachable_fine [OF assms] by (auto simp: system_fine_def parts_ok_def claims_ok_def tasks_ok_def)

lemma said_verdict: "said_event e = SaidVerdict p n \<longleftrightarrow> (\<exists>c. e = CompletedEvent c \<and> jcPassed c = p \<and> jcScore c = n)" and
  said_failure: "said_event e = SaidFailure \<longleftrightarrow> (\<exists>f. e = FailedEvent f)"
  by (auto simp: said_event_def split: judge_event.splits)

text \<open>
  C1: Every verdict is recorded and announced, and nothing else is: in every reachable state, for
  each task, the verdicts among its announcements are its recorded results in order (score and
  outcome); a task that is done has a recorded result, and its latest announcement is that of its
  latest result; and the latest announcement of a task that is marked failed is its failure.
\<close>

theorem every_verdict_announced:
  assumes "judge_started s0" and "(judge_step cfg runs)\<^sup>*\<^sup>* s0 s" and "t \<in> set (jdTasks (jsDB s))"
  defines "rs \<equiv> of_task (tkID t) (jdResults (jsDB s))" and "es \<equiv> said_of (tkID t) (jdOutbox (jsDB s))"
  shows "concat (map (verdict_said \<circ> said_event) es) = map (\<lambda>r. (rePassed r, reScore r)) rs \<and>
    (tkStatus t = TaskDone \<longrightarrow> rs \<noteq> [] \<and> (\<exists>c. last es = CompletedEvent c \<and> jcPassed c = rePassed (last rs) \<and> jcScore c = reScore (last rs))) \<and>
    (tkStatus t = TaskFailed \<longrightarrow> es \<noteq> [] \<and> (\<exists>f. last es = FailedEvent f))"
proof -
  note r = reachable_tasks [OF assms(1,2)]
  from r(5) life_of_task [OF r(7) assms(3)]
  have h: "life_honest \<lparr>lfPhase = phase_of (tkStatus t), lfSaid = map said_event es, lfVerdicts = map (\<lambda>r. (rePassed r, reScore r)) rs\<rparr>"
    unfolding rs_def es_def all_honest_def by blast
  have v: "concat (map (verdict_said \<circ> said_event) es) = map (\<lambda>r. (rePassed r, reScore r)) rs"
    using h by (simp add: life_honest_def)
  have "rs \<noteq> [] \<and> (\<exists>c. last es = CompletedEvent c \<and> jcPassed c = rePassed (last rs) \<and> jcScore c = reScore (last rs))"
    if "tkStatus t = TaskDone"
  proof -
    from h that have rs: "rs \<noteq> []" and l: "last (map said_event es) = SaidVerdict (rePassed (last rs)) (reScore (last rs))"
      by (auto simp: life_honest_def phase_of_def task_status_defs last_map)
    from v rs have "es \<noteq> []" by auto
    with l rs show ?thesis by (simp add: last_map said_verdict)
  qed
  moreover have "es \<noteq> [] \<and> (\<exists>f. last es = FailedEvent f)" if "tkStatus t = TaskFailed"
    using h that by (auto simp: life_honest_def phase_of_def task_status_defs last_map said_failure)
  ultimately show ?thesis using v by blast
qed

theorem every_verdict_announced_witness:
  "tkStatus doneTask = TaskDone \<and> of_task 11 (jdResults run8) \<noteq> [] \<and>
   (\<exists>c. last (said_of 11 (jdOutbox run8)) = CompletedEvent c \<and> jcPassed c = rePassed (last (of_task 11 (jdResults run8))))"
  using every_verdict_announced [OF sample_started sample_reached3, of doneTask] sample_in(1) sample_tasks(1,2)
  by (auto simp: sample_fields)

subsection \<open>Claims\<close>

text \<open>
  C3: A claim of a task is settled at most once: in every reachable state no claim (lease token and
  task) occurs twice among the completions, retries and failures that took effect, and no settled claim
  is still on its task; so a worker whose lease ran out can never overwrite the outcome of the worker
  that took the task over, whatever the clocks of the workers show.
\<close>

theorem claim_settles_once:
  assumes "judge_started s0" and "(judge_step cfg runs)\<^sup>*\<^sup>* s0 s"
  shows "distinct (jsSettled s) \<and>
    (\<forall>(token, i) \<in> set (jsSettled s). \<forall>t \<in> set (jdTasks (jsDB s)). tkID t = i \<longrightarrow> tkLeaseToken t \<noteq> token)"
proof -
  have "\<forall>c \<in> set (jsSettled s). settled_ok (jsTokens s) (jsDB s) c"
    using reachable_tasks(1) [OF assms] by (simp add: claims_ok_def)
  then show ?thesis using reachable_tasks(4) [OF assms] by (fastforce simp: settled_ok_def)
qed

theorem claim_settles_once_witness:
  "jsSettled sample4 = [(''a'', 11)] \<and> distinct (jsSettled sample4) \<and> tkLeaseToken (hd (jdTasks run9)) \<noteq> ''a''"
proof -
  have "jdTasks run9 \<noteq> []" "tkID (hd (jdTasks run9)) = 11" by code_simp+
  then show ?thesis
    using claim_settles_once [OF sample_started sample_reached4] by (auto simp: sample_fields)
qed

text \<open>
  C6: No task is stuck and retries are bounded: in every reachable state each task has used between
  0 and its maximum of retries, and it is done, failed or cancelled, or waits for a manual score, or
  the next worker after a definite time may claim it or mark it failed.
\<close>

theorem no_task_stuck:
  assumes "judge_started s0" and "(judge_step cfg runs)\<^sup>*\<^sup>* s0 s" and "t \<in> set (jdTasks (jsDB s))"
  shows "0 \<le> tkRetryCount t \<and> tkRetryCount t \<le> tkMaxRetries t \<and>
    (tkStatus t \<in> {TaskDone, TaskFailed, TaskCancelled} \<or>
     tkStatus t = TaskJudging \<and> tkLeaseUntil t = None \<and> inJudgerType (tkInputSnapshot t) = JudgerTypeManual \<or>
     (\<exists>time. \<forall>here. time \<le> here \<longrightarrow> claimable here t \<or> exhausted here t))"
proof -
  have ok: "task_ok (jsTokens s) t" using reachable_tasks(6) [OF assms] .
  show ?thesis
  proof (cases "tkStatus t = 2 \<and> tkLeaseUntil t \<noteq> None")
    case True
    then obtain u where "tkLeaseUntil t = Some u" "tkStatus t = 2" by auto
    then have "\<forall>here. u \<le> here \<longrightarrow> claimable here t \<or> exhausted here t"
      by (auto simp: claimable_def exhausted_def task_lease_expired_def)
    with ok show ?thesis by (auto simp: task_ok_def)
  next
    case False
    moreover have "\<forall>here. 0 \<le> here \<longrightarrow> claimable here t \<or> exhausted here t" if "tkStatus t = 1" using that by (simp add: claimable_def)
    ultimately show ?thesis using ok unfolding task_ok_def task_status_defs by auto
  qed
qed

theorem no_task_stuck_witness:
  "tkStatus againTask = TaskQueued \<and> tkRetryCount againTask \<le> tkMaxRetries againTask \<and>
   (\<exists>here. claimable here againTask \<or> exhausted here againTask)"
  using no_task_stuck [OF sample_started sample_reached3, of againTask] sample_in(2) sample_tasks(4)
  by (auto simp: sample_fields task_status_defs)

text \<open>
  C20: A worker with a live lease can always record its result: in every reachable state, if the
  database still has the lease of a claimed task and the two identifiers are new, the completion takes
  effect; in particular the announcement is never refused for its tenant or trace.
\<close>

theorem live_claim_settles:
  assumes "judge_started s0" and "(judge_step cfg runs)\<^sup>*\<^sup>* s0 s" and "h \<in> set (jsHeld s)"
    and "t \<in> set (jdTasks (jsDB s))" and "judge_task_key (tkTenantID h) (tkID h) t" and "leased (jsNow s) (tkLeaseToken h) t"
    and "resultID \<notin> reID ` set (jdResults (jsDB s))" and "outboxID \<notin> obID ` set (jdOutbox (jsDB s))"
  shows "\<exists>row db. completeTask (jsNow s) resultID outboxID h result (jsDB s) = Inr (row, db) \<and> tkID row = tkID h \<and> tkStatus row = TaskDone"
proof -
  note r = reachable_tasks [OF assms(1,2)]
  have "held_ok (jsDB s) h" using r(1) assms(3) by (auto simp: claims_ok_def)
  then have c: "same_claim h t" using held_row [OF _ assms(4-6)] by blast
  have ok: "task_ok (jsTokens s) t" by (rule r(6) [OF assms(4)])
  let ?p = "\<lambda>t. judge_task_key (tkTenantID h) (tkID h) t \<and> leased (jsNow s) (tkLeaseToken h) t"
  have "find ?p (jdTasks (jsDB s)) \<noteq> None" using assms(4-6) by (auto simp: find_None_iff)
  then obtain u where u: "find ?p (jdTasks (jsDB s)) = Some u" by blast
  then have pu: "?p u" by (auto dest: find_SomeD)
  have "tkTenantID h = tkTenantID t" "inTraceID (tkInputSnapshot h) = inTraceID (tkInputSnapshot t)" using c by (auto simp: same_claim_def)
  with ok have "TrimSpace (inTraceID (tkInputSnapshot h)) \<noteq> []" by (simp add: task_ok_def)
  then show ?thesis using u pu assms(7,8)
    by (auto simp: completeTask_def UpsertJudgeResult_def executed_row_def persisted_def Let_def CompleteJudgeTask_def update_task_def
        announce_def CreateOutbox_def validateJudgeOutboxPayload_def event_meta_def completed_event_def free_task_def
        judge_task_key_def task_status_defs)
qed

theorem live_claim_settles_witness:
  "\<exists>row db. completeTask 10 21 31 heldTask sampleVerdict run3 = Inr (row, db) \<and> tkID row = 11 \<and> tkStatus row = TaskDone"
proof -
  have "judge_task_key (tkTenantID heldTask) 11 heldTask \<and> leased 10 (tkLeaseToken heldTask) heldTask \<and>
      jdResults run3 = [] \<and> jdOutbox run3 = [] \<and> tkID heldTask = 11" by code_simp
  moreover have "heldTask \<in> set (jdTasks run3)" by (simp add: run3_def)
  ultimately show ?thesis
    using live_claim_settles [OF sample_started sample_reach1, of heldTask heldTask 21 31 sampleVerdict]
    by (simp add: sample_fields)
qed

subsection \<open>Delivery of announcements\<close>

text \<open>
  C13: The outbox delivers at least once, within its attempts: in every reachable state an announcement
  marked published is one the bus has accepted with the same subject and payload, no announcement was
  attempted more often than configured, and an announcement that is not published has used all its
  attempts, or the next publisher after a definite time takes it; and each carries its tenant and a
  trace, so the bus does not refuse it.
\<close>

theorem announcement_delivered:
  assumes "judge_started s0" and "(judge_step cfg runs)\<^sup>*\<^sup>* s0 s" and "q \<in> set (jdOutbox (jsDB s))"
  shows "(obStatus q = 3 \<longrightarrow> (\<exists>m \<in> set (jsSent s). same_message q m)) \<and>
    obRetryCount q \<le> max 0 (attempts cfg) \<and>
    (obStatus q = 3 \<or> attempts cfg \<le> obRetryCount q \<or>
     (\<exists>time. \<forall>now here. time \<le> now \<longrightarrow> time \<le> here \<longrightarrow> outbox_claimable now (attempts cfg) here q)) \<and>
    0 < fst (event_meta (obPayload q)) \<and> TrimSpace (snd (event_meta (obPayload q))) \<noteq> []"
proof -
  have ok: "out_ok (jsTokens s) (attempts cfg) (jsSent s) q" using reachable_tasks(3) [OF assms(1,2)] assms(3) by (auto simp: outs_ok_def)
  have "\<exists>time. \<forall>now here. time \<le> now \<longrightarrow> time \<le> here \<longrightarrow> outbox_claimable now (attempts cfg) here q"
    if "obStatus q \<noteq> 3" "obRetryCount q < attempts cfg"
  proof (cases "obStatus q = 2")
    case True
    then obtain u where "obLeaseUntil q = Some u" using ok by (auto simp: out_ok_def)
    with True that show ?thesis by (auto simp: outbox_claimable_def outbox_lease_expired_def intro!: exI [of _ u])
  next
    case False
    with ok that have "obStatus q \<in> {1, 4}" by (auto simp: out_ok_def)
    with that show ?thesis by (auto simp: outbox_claimable_def intro!: exI [of _ "obNextAttemptAt q"])
  qed
  moreover have "obStatus q = 3 \<or> attempts cfg \<le> obRetryCount q \<or> obStatus q \<noteq> 3 \<and> obRetryCount q < attempts cfg" by linarith
  ultimately show ?thesis using ok unfolding out_ok_def by metis
qed

theorem announcement_delivered_witness:
  "\<exists>q \<in> set (jdOutbox run8). obStatus q = 3 \<and> (\<exists>m \<in> set (jsSent sample3). same_message q m)"
proof -
  have "jdOutbox run8 \<noteq> [] \<and> obStatus (hd (jdOutbox run8)) = 3" by code_simp
  then show ?thesis
    using announcement_delivered [OF sample_started sample_reached3, of "hd (jdOutbox run8)"]
    by (intro bexI [of _ "hd (jdOutbox run8)"]) (simp_all add: sample_fields)
qed

subsection \<open>Submissions\<close>

text \<open>
  C14: A submission is judged once: in every reachable state there is at most one task for a tenant,
  source and problem, and a submission whose task exists already is answered with that task and changes
  no task, result or announcement, even when its preparation had not seen the task yet.
\<close>

theorem submission_judged_once:
  assumes "judge_started s0" and "(judge_step cfg runs)\<^sup>*\<^sup>* s0 s" and "t \<in> set (jdTasks (jsDB s))"
  shows "(u \<in> set (jdTasks (jsDB s)) \<longrightarrow> tkTenantID u = tkTenantID t \<longrightarrow> tkSourceRef u = tkSourceRef t \<longrightarrow>
       tkProblemRef u = tkProblemRef t \<longrightarrow> u = t) \<and>
    (SubmitJudgeTask_commit (jsNow s) printID (jsDB s) task vector code = Inr (answer, db) \<longrightarrow>
       tkTenantID task = tkTenantID t \<longrightarrow> tkSourceRef task = tkSourceRef t \<longrightarrow> tkProblemRef task = tkProblemRef t \<longrightarrow>
       fst answer = t \<and> jdTasks db = jdTasks (jsDB s) \<and> jdResults db = jdResults (jsDB s) \<and> jdOutbox db = jdOutbox (jsDB s))"
proof -
  have d: "distinct (map (\<lambda>t. (tkTenantID t, tkSourceRef t, tkProblemRef t)) (jdTasks (jsDB s)))"
    using reachable_tasks(2) [OF assms(1,2)] by (simp add: tasks_ok_def)
  have one: "u = t" if "u \<in> set (jdTasks (jsDB s))" "tkTenantID u = tkTenantID t" "tkSourceRef u = tkSourceRef t"
      "tkProblemRef u = tkProblemRef t" for u
    using d that assms(3) by (auto simp: distinct_map inj_on_def)
  have "fst answer = t \<and> jdTasks db = jdTasks (jsDB s) \<and> jdResults db = jdResults (jsDB s) \<and> jdOutbox db = jdOutbox (jsDB s)"
    if c: "SubmitJudgeTask_commit (jsNow s) printID (jsDB s) task vector code = Inr (answer, db)"
      and k: "tkTenantID task = tkTenantID t" "tkSourceRef task = tkSourceRef t" "tkProblemRef task = tkProblemRef t"
  proof -
    have "find (same_source (tkTenantID t) (tkSourceRef t) (tkProblemRef t)) (jdTasks (jsDB s)) \<noteq> None"
      using assms(3) by (auto simp: find_None_iff same_source_def)
    then obtain v where v: "find (same_source (tkTenantID t) (tkSourceRef t) (tkProblemRef t)) (jdTasks (jsDB s)) = Some v" by blast
    then have "v = t" using one by (auto simp: same_source_def dest!: find_SomeD)
    with v have g: "GetJudgeTaskBySourceRef (jsDB s) (tkTenantID task) (tkSourceRef task) (tkProblemRef task) = Some t"
      by (simp add: GetJudgeTaskBySourceRef_def k)
    then have "fst answer = t" using c
      by (auto simp: SubmitJudgeTask_commit_def CreateJudgeTask_def persisted_Inr res_simps Let_def split: if_splits)
    with c g show ?thesis by (cases rule: commit_rows) auto
  qed
  with one show ?thesis by blast
qed

theorem submission_judged_once_witness:
  "\<exists>answer db. SubmitJudgeTask_commit 10 1 run8 (simTask\<lparr>tkID := 13\<rparr>) [] False = Inr (answer, db) \<and>
     fst answer = doneTask \<and> jdTasks db = jdTasks run8"
proof -
  have "\<not> isl (SubmitJudgeTask_commit 10 1 run8 (simTask\<lparr>tkID := 13\<rparr>) [] False)" by code_simp
  then obtain answer db where "SubmitJudgeTask_commit 10 1 run8 (simTask\<lparr>tkID := 13\<rparr>) [] False = Inr (answer, db)"
    using stored_Inr by blast
  moreover have "tkTenantID doneTask = tkTenantID simTask \<and> tkSourceRef doneTask = tkSourceRef simTask \<and>
      tkProblemRef doneTask = tkProblemRef simTask" by code_simp
  ultimately show ?thesis
    using submission_judged_once [OF sample_started sample_reached3, of doneTask _ 1 "simTask\<lparr>tkID := 13\<rparr>" "[]" False answer db]
      sample_in(1) by (auto simp: sample_fields)
qed

subsection \<open>Recorded results\<close>

text \<open>Where a result that a step records comes from.\<close>

definition executed_result :: "(JudgeTask \<Rightarrow> JudgeExecutionResult \<Rightarrow> bool) \<Rightarrow> judge_system \<Rightarrow> JudgeResult \<Rightarrow> bool" where
  "executed_result runs s r \<longleftrightarrow> (\<exists>h result. h \<in> set (jsHeld s) \<and> runs h result \<and> reTaskID r = tkID h \<and>
     rePassed r = exPassed result \<and> reScore r = exScore result \<and> reMaxScore r = exMaxScore result \<and> reDetails r = exDetails result \<and>
     (\<exists>t \<in> set (jdTasks (jsDB s)). tkID t = tkID h \<and> tkLeaseToken t = tkLeaseToken h))"

definition manual_result :: "judge_system \<Rightarrow> JudgeResult \<Rightarrow> bool" where
  "manual_result s r \<longleftrightarrow> 0 < reMaxScore r \<and> 0 \<le> reScore r \<and> reScore r \<le> reMaxScore r \<and>
     validateResultDetails (reDetails r) = Inr () \<and>
     (\<exists>t \<in> set (jdTasks (jsDB s)). tkID t = reTaskID r \<and> tkStatus t = 2 \<and> tkLeaseToken t = [])"

lemma retryOrFail_results: "retryOrFail now here i h reason db = Inr (row, db') \<Longrightarrow> jdResults db' = jdResults db"
proof (cases "tkRetryCount h < tkMaxRetries h")
  case True
  assume "retryOrFail now here i h reason db = Inr (row, db')"
  with True have "RetryJudgeTask now db (tkTenantID h) (tkID h) reason (tkLeaseToken h) = Some (row, db')"
    by (simp add: retryOrFail_def persisted_Inr)
  then show ?thesis by (auto simp: RetryJudgeTask_def split: if_splits elim: update_task_Some)
next
  case False
  assume "retryOrFail now here i h reason db = Inr (row, db')"
  with False obtain db1 where "FailJudgeTask now db (tkTenantID h) (tkID h) reason (tkLeaseToken h) = Some (row, db1)"
    and "announce now i h SubjectJudgeFailed (failed_event here h reason) db1 = Inr db'"
    by (auto simp: retryOrFail_def persisted_Inr res_simps)
  then show ?thesis by (auto simp: FailJudgeTask_def split: if_splits elim!: update_task_Some announce_Inr)
qed

lemma rejudge_fold_results:
  "foldR (rejudge_one now tenantID) (changed, db) items = Inr (changed', db') \<Longrightarrow> jdResults db' = jdResults db"
proof (induction items arbitrary: changed db)
  case (Cons item items)
  from Cons.prems obtain c1 db1 where "rejudge_one now tenantID (changed, db) item = Inr (c1, db1)"
    and rest: "foldR (rejudge_one now tenantID) (c1, db1) items = Inr (changed', db')" by (auto simp: res_simps)
  then have "jdResults db1 = jdResults db"
    by (auto simp: rejudge_one_def persisted_Inr res_simps ResetJudgeTaskForRejudge_def split: if_splits elim!: update_task_Some)
  with Cons.IH [OF rest] show ?case by simp
qed simp

lemma claim_results:
  assumes "RunWorkerOnce_claim cfg now here gen token db = Inr ((expired, tasks), db')" shows "jdResults db' = jdResults db"
  using assms
proof (rule claim_parts)
  fix db1 db2
  assume e: "FailExpiredJudgeTasks now db (worker_limit cfg 1) here = (expired, db1)"
    and f: "foldR (announce_expired now here) db1 (zip (map gen [0..<length expired]) expired) = Inr db2"
    and q: "DequeueJudgeTasks now db2 (worker_limit cfg 1) here (here + jcfTaskLeaseDurationMs cfg * 1000000) token = (tasks, db')"
  from announce_fold [OF f] have "jdResults db2 = jdResults db1" by auto
  with e q show "jdResults db' = jdResults db" by (auto simp: FailExpiredJudgeTasks_def DequeueJudgeTasks_def update_selected_def)
qed

lemma step_results:
  assumes "judge_step cfg runs s s'"
  shows "\<exists>rs. jdResults (jsDB s') = jdResults (jsDB s) @ rs \<and> (\<forall>r \<in> set rs. executed_result runs s r \<or> manual_result s r)"
  using assms
proof cases
  case (submit env past seen req task vector code printID answer db)
  from submit(3) have "jdResults db = jdResults (jsDB s)" by (cases rule: commit_rows) auto
  with submit(1) show ?thesis by simp
next
  case (claim token here gen expired tasks db)
  with claim_results [OF claim(4)] show ?thesis by simp
next
  case (renew task here row db)
  then show ?thesis using update_task_other by (fastforce simp: renewTaskLease_def RenewJudgeTaskLease_def)
next
  case (complete task result resultID outboxID row db)
  from complete(4) obtain r db1 db2 o1 where p: "jdTasks db1 = jdTasks (jsDB s)"
    "CompleteJudgeTask (jsNow s) db1 (tkTenantID task) (tkID task) (tkLeaseToken task) = Some (row, db2)"
    "r = (executed_row resultID task result)\<lparr>reVersion := next_version (jsDB s) (tkTenantID task) (tkID task), reJudgedAt := jsNow s\<rparr>"
    "jdResults db = jdResults (jsDB s) @ [r]" by (rule completeTask_parts)
  have "\<exists>t \<in> set (jdTasks (jsDB s)). tkID t = tkID task \<and> tkLeaseToken t = tkLeaseToken task"
    using p(1,2) by (auto simp: CompleteJudgeTask_def judge_task_key_def elim!: update_task_Some dest!: leased_until)
  then have "executed_result runs s r" using complete(2,3) p(3) by (auto simp: executed_result_def executed_row_def)
  with p(4) complete(1) show ?thesis by simp
next
  case (giveup task here outboxID reason row db)
  with retryOrFail_results [OF giveup(3)] show ?thesis by simp
next
  case (cancel tenantID taskID row db)
  then show ?thesis using update_task_other
    by (fastforce simp: CancelTask_def CancelQueuedJudgeTask_def persisted_Inr split: if_splits)
next
  case (rejudge tenantID taskID row db)
  then show ?thesis using update_task_other
    by (fastforce simp: rejudgeTask_def ResetJudgeTaskForRejudge_def persisted_Inr res_simps split: if_splits)
next
  case (batch tenantID sourceRef changed db)
  then have "jdResults db = jdResults (jsDB s)"
    by (auto simp: RejudgeBatch_def Let_def res_simps dest!: rejudge_fold_results)
  with batch(1) show ?thesis by simp
next
  case (manual enabled resultID outboxID traceID tenantID taskID scorerID req info db)
  from manual(2) obtain u r db1 db2 row where p: "GetJudgeTask (jsDB s) tenantID taskID = Some u" "validateManualScore req = Inr ()"
    "validateResultDetails (reDetails r) = Inr ()" "jdTasks db1 = jdTasks (jsDB s)"
    "CompleteManualJudgeTask (jsNow s) db1 tenantID taskID = Some (row, db2)"
    "r = (manual_row resultID u req)\<lparr>reVersion := next_version (jsDB s) (tkTenantID u) (tkID u), reJudgedAt := jsNow s\<rparr>"
    "jdResults db = jdResults (jsDB s) @ [r]" by (rule ManualScore_parts)
  have "tkID u = taskID" using p(1) by (auto simp: GetJudgeTask_def judge_task_key_def dest: find_SomeD)
  moreover from p(4,5) obtain t where "t \<in> set (jdTasks (jsDB s))" "tkID t = taskID" "tkStatus t = 2" "tkLeaseToken t = []"
    by (auto simp: CompleteManualJudgeTask_def judge_task_key_def elim!: update_task_Some)
  ultimately have "manual_result s r" using p(2,3,6)
    by (auto simp: manual_result_def manual_row_def validateManualScore_def failIf_def split: if_splits)
  with p(7) manual(1) show ?thesis by simp
next
  case (take_out token here rows db)
  then show ?thesis by (auto simp: publishPendingOutbox_claim_def ClaimPendingOutbox_def ExhaustExpiredEventOutbox_def Let_def
      split: prod.splits if_splits)
next
  case (sent o1 db)
  then show ?thesis
    by (auto simp: markOutboxPublished_def MarkOutboxPublished_def persisted_Inr dest!: update_outbox_Some)
next
  case (unsent o1 reason db)
  then show ?thesis
    by (auto simp: markOutboxFailed_def MarkOutboxFailed_def persisted_Inr split: if_splits dest!: update_outbox_Some)
qed auto

definition sound_result :: "JudgeResult \<Rightarrow> bool" where
  "sound_result r \<longleftrightarrow> 0 < reMaxScore r \<and> 0 \<le> reScore r \<and> reScore r \<le> reMaxScore r \<and> reDetails r \<noteq> [] \<and>
     (\<forall>d \<in> set (reDetails r). detail_public d)"

lemma executed_sound:
  assumes "executeTask env task w = (Inr result, destroyed, v)"
    and "reScore r = exScore result" "reMaxScore r = exMaxScore result" "reDetails r = exDetails result"
  shows "sound_result r"
proof -
  from executeTask_checked [OF assms(1)] obtain r0 and u :: JudgeTask where
    "normalizeExecutionResult (jvCodec env) r0 (inMaxScore (tkInputSnapshot u)) (jvMaxBytes env) = Inr result" by blast
  from normalized_checked [OF this] assms(2-4) show ?thesis by (simp add: sound_result_def)
qed

lemma manual_sound: "manual_result s r \<Longrightarrow> sound_result r"
  using validateResultDetails_ok by (auto simp: manual_result_def sound_result_def)



subsection \<open>Manual tasks that were judged again\<close>

text \<open>A task for manual scores that left the state in which it can be scored.\<close>

definition unscorable :: "JudgeTask \<Rightarrow> bool" where
  "unscorable t \<longleftrightarrow> inJudgerType (tkInputSnapshot t) = JudgerTypeManual \<and>
     (tkStatus t = 1 \<or> tkStatus t = 2 \<and> tkLeaseToken t \<noteq> [] \<or> tkStatus t = 4 \<or> tkStatus t = 5)"

lemma move_unscorable:
  "task_move token t u rs es \<Longrightarrow> rs = [] \<Longrightarrow> unscorable t \<Longrightarrow> token \<noteq> Some [] \<Longrightarrow> unscorable u"
  by (erule task_move.cases) (auto simp: unscorable_def claim_task_def free_task_def rejudged_def)

text \<open>Every step is a sequence of moves of tasks, or leaves the task rows as they are, or adds one.\<close>

lemma step_tasks:
  assumes "judge_step cfg runs s s'" and "system_fine cfg s"
  shows "(\<exists>token. token \<noteq> Some [] \<and> (task_moves token)\<^sup>*\<^sup>* (jsDB s) (jsDB s')) \<or>
     (\<exists>rows. jdTasks (jsDB s') = jdTasks (jsDB s) @ rows)"
proof -
  from assms(2) have cl: "claims_ok (jsTokens s) (jsDB s) (jsHeld s) (jsSettled s)" and d: "distinct (map tkID (jdTasks (jsDB s)))"
    and o: "outs_ok (jsTokens s) (attempts cfg) (jsSent s) (jsOut s) (jsDB s)"
    by (simp_all add: system_fine_def parts_ok_def claims_ok_def tasks_ok_def)
  have held: "held_ok (jsDB s) h" if "h \<in> set (jsHeld s)" for h using cl that by (simp add: claims_ok_def)
  have one: ?thesis if "task_moves None (jsDB s) (jsDB s')" using that by (intro disjI1 exI [of _ None]) auto
  have out: ?thesis if "out_moves token (attempts cfg) (jsSent s) (jsDB s) (jsDB s')" for token
    using out_moves_tasks(1) [OF that] by auto
  show ?thesis using assms(1)
  proof cases
    case (submit env past seen req task vector code printID answer db)
    from submit(3) have "\<exists>rows. jdTasks db = jdTasks (jsDB s) @ rows" by (cases rule: commit_rows) auto
    with submit(1) show ?thesis by simp
  next
    case (claim token here gen expired tasks db)
    with claim_moves [OF claim(4) d] show ?thesis by (intro disjI1 exI [of _ "Some token"]) simp
  next
    case (renew task here row db)
    with one renew_moves [OF renew(3) d] show ?thesis by simp
  next
    case (complete task result resultID outboxID row db)
    with one completeTask_moves [OF complete(4) d held [OF complete(2)]] show ?thesis by simp
  next
    case (giveup task here outboxID reason row db)
    with one retryOrFail_moves [OF giveup(3) d held [OF giveup(2)]] show ?thesis by simp
  next
    case (cancel tenantID taskID row db)
    with one CancelTask_moves [OF cancel(2) d] show ?thesis by simp
  next
    case (rejudge tenantID taskID row db)
    with one rejudgeTask_moves [OF rejudge(2) d] show ?thesis by simp
  next
    case (batch tenantID sourceRef changed db)
    have "(task_moves None)\<^sup>*\<^sup>* (jsDB s) db" by (rule RejudgeBatch_moves [OF batch(2) d])
    with batch(1) show ?thesis by (intro disjI1 exI [of _ None]) simp
  next
    case (manual enabled resultID outboxID traceID tenantID taskID scorerID req info db)
    with one ManualScore_moves [OF manual(2) d] show ?thesis by simp
  next
    case (take_out token here rows db)
    from take_out_moves(1) [OF take_out(4) o take_out(3)] out_moves_tasks(1) have "jdTasks db = jdTasks (jsDB s)" by metis
    with take_out(1) show ?thesis by simp
  next
    case (sent o1 db)
    with out published_moves [OF sent(3,2) o] show ?thesis by simp
  next
    case (unsent o1 reason db)
    with out [of None] unsent_moves [OF unsent(3)] show ?thesis by simp
  qed auto
qed

lemma of_task_prefix:
  "(task_moves token)\<^sup>*\<^sup>* db db' \<Longrightarrow> \<exists>rs. jdResults db' = jdResults db @ rs"
  by (induction rule: rtranclp_induct) (auto elim!: task_movesE)

lemma moves_unscorable:
  assumes "(task_moves token)\<^sup>*\<^sup>* db db'" and "token \<noteq> Some []"
    and "\<exists>t \<in> set (jdTasks db). tkID t = i \<and> unscorable t" and "of_task i (jdResults db') = of_task i (jdResults db)"
  shows "\<exists>t \<in> set (jdTasks db'). tkID t = i \<and> unscorable t"
  using assms
proof (induction rule: rtranclp_induct)
  case (step db1 db2)
  from step.hyps(2) obtain g rs os where g: "jdTasks db2 = map g (jdTasks db1)" "jdResults db2 = jdResults db1 @ rs"
    "\<And>t. t \<in> set (jdTasks db1) \<Longrightarrow> task_move token t (g t) (of_task (tkID t) rs) (said_of (tkID t) os)"
    by (rule task_movesE) (rule that)
  from of_task_prefix [OF step.hyps(1)] obtain qs where "jdResults db1 = jdResults db @ qs" by blast
  with step.prems(3) g(2) have e: "of_task i (jdResults db1) = of_task i (jdResults db)" "of_task i rs = []" by (auto simp: of_task_append)
  with step.IH step.prems obtain t where t: "t \<in> set (jdTasks db1)" "tkID t = i" "unscorable t" by blast
  have "unscorable (g t)" using move_unscorable [OF g(3) [OF t(1)]] t e(2) step.prems(1) by simp
  moreover have "tkID (g t) = i" using move_frame [OF g(3) [OF t(1)]] t(2) by simp
  ultimately show ?case using t(1) g(1) by auto
qed simp

text \<open>
  C21: A manual task that is judged again can never be scored: the rejudgement queues it like an
  automatic task, the workers, whose executions refuse manual tasks, only retry and fail it, and the
  manual score is refused; from any reachable state in which a manual task is queued (or failed, or
  claimed by a worker) no result is ever added to it, whatever happens afterwards.
\<close>

theorem rejudged_manual_never_scored:
  fixes env :: "JudgeTask \<Rightarrow> JudgeExecutionResult \<Rightarrow> 'w judge_env"
  assumes "judge_started s0" and "(judge_step cfg runs)\<^sup>*\<^sup>* s0 s"
    and runs: "\<And>task result. runs task result \<Longrightarrow> \<exists>w destroyed v. executeTask (env task result) task w = (Inr result, destroyed, v)"
    and "t \<in> set (jdTasks (jsDB s))" and "unscorable t" and "(judge_step cfg runs)\<^sup>*\<^sup>* s s'"
  shows "of_task (tkID t) (jdResults (jsDB s')) = of_task (tkID t) (jdResults (jsDB s)) \<and>
    (\<exists>u \<in> set (jdTasks (jsDB s')). tkID u = tkID t \<and> unscorable u)"
  using assms(6)
proof (induction rule: rtranclp_induct)
  case base
  with assms(4,5) show ?case by blast
next
  case (step y z)
  have "(judge_step cfg runs)\<^sup>*\<^sup>* s0 y" using assms(2) step.hyps(1) by simp
  then have fine: "system_fine cfg y" by (rule reachable_fine [OF assms(1)])
  then have cl: "claims_ok (jsTokens y) (jsDB y) (jsHeld y) (jsSettled y)" and d: "distinct (map tkID (jdTasks (jsDB y)))"
    by (simp_all add: system_fine_def parts_ok_def claims_ok_def tasks_ok_def)
  from step.IH obtain u where u: "u \<in> set (jdTasks (jsDB y))" "tkID u = tkID t" "unscorable u" by blast
  from step_results [OF step.hyps(2)] obtain rs where rs: "jdResults (jsDB z) = jdResults (jsDB y) @ rs"
    "\<forall>r \<in> set rs. executed_result runs y r \<or> manual_result y r" by blast
  have "reTaskID r \<noteq> tkID t" if r: "r \<in> set rs" for r
  proof
    assume i: "reTaskID r = tkID t"
    from rs(2) r show False
    proof (elim ballE disjE)
      assume "executed_result runs y r"
      then obtain h result v where h: "h \<in> set (jsHeld y)" "runs h result" "tkID h = tkID t"
        and v: "v \<in> set (jdTasks (jsDB y))" "tkID v = tkID h" "tkLeaseToken v = tkLeaseToken h" using i by (auto simp: executed_result_def)
      have "u = v" using same_id [OF d u(1) v(1)] u(2) v(2) h(3) by simp
      moreover have "same_claim h v" using cl h(1) v by (auto simp: claims_ok_def held_ok_def)
      ultimately have "inJudgerType (tkInputSnapshot h) = JudgerTypeManual" using u(3) by (simp add: unscorable_def same_claim_def)
      with runs [OF h(2)] show False by (auto simp: executeTask_def)
    next
      assume "manual_result y r"
      then obtain v where "v \<in> set (jdTasks (jsDB y))" "tkID v = tkID t" "tkStatus v = 2" "tkLeaseToken v = []"
        using i by (auto simp: manual_result_def)
      with same_id [OF d u(1)] u(2,3) show False by (auto simp: unscorable_def)
    qed auto
  qed
  then have "of_task (tkID t) rs = []" by (auto simp: of_task_def filter_empty_conv)
  then have e: "of_task (tkID t) (jdResults (jsDB z)) = of_task (tkID t) (jdResults (jsDB y))" by (simp add: rs(1) of_task_append)
  from step_tasks [OF step.hyps(2) fine] have "\<exists>u \<in> set (jdTasks (jsDB z)). tkID u = tkID t \<and> unscorable u"
  proof
    assume "\<exists>token. token \<noteq> Some [] \<and> (task_moves token)\<^sup>*\<^sup>* (jsDB y) (jsDB z)"
    then show ?thesis using moves_unscorable [OF _ _ _ e] u by blast
  qed (use u in auto)
  with e step.IH show ?case by simp
qed

theorem rejudged_manual_never_scored_witness:
  "unscorable againTask \<and> of_task 12 (jdResults run9) = of_task 12 (jdResults run8) \<and>
   (\<exists>u \<in> set (jdTasks run9). tkID u = 12 \<and> unscorable u)"
proof -
  have u: "unscorable againTask" using sample_tasks(4,5) by (simp add: unscorable_def task_status_defs)
  then show ?thesis
    using rejudged_manual_never_scored [OF sample_started sample_reached3, of "\<lambda>_ _. JudgeProps.sampleEnv (Inr ())" againTask sample4]
      sample_executed sample_in(2) sample_reach4 sample_tasks(3) by (auto simp: sample_fields)
qed

end
