(* ===== verification/BattleStore.thy ===== *)
theory BattleStore
  imports ContestSystem Complex_Main
begin

section \<open>Contest module: battles, the store\<close>

text \<open>
  The tables \<open>battle_entry\<close> and \<open>battle_match\<close>, the archive lease of a contest (its columns
  \<open>archive_lease_token\<close> and \<open>archive_lease_until\<close> as a table: no row is the empty lease) and their
  queries. In a battle contest the ladder column \<open>score NUMERIC(10,2)\<close> is counted in hundredths.
  \<open>now\<close> is the database clock, \<open>here\<close> that of the worker; a lease is live until its end by the
  database clock and stale by the worker's.
\<close>

record BattleEntry =
  bnID :: int
  bnTenantID :: int
  bnContestID :: int
  bnProblemID :: int
  bnTeamID :: int
  bnRole :: int
  bnArtifactRef :: string
  bnArtifactHash :: string
  bnVersionNo :: int
  bnIsActive :: bool
  bnSubmittedAt :: int

record BattleScoreDelta =
  sdTeamAID :: int
  sdTeamBID :: int
  sdRatingABefore :: real
  sdRatingBBefore :: real
  sdRatingAAfter :: real
  sdRatingBAfter :: real
  sdDeltaA :: real
  sdDeltaB :: real
  sdKFactor :: real
  sdResult :: int

record BattleMatch =
  bmID :: int
  bmTenantID :: int
  bmContestID :: int
  bmProblemID :: int
  bmEntryAID :: int
  bmEntryBID :: int
  bmSourceRef :: string
  bmScopeRef :: string
  bmSandboxRef :: string
  bmJudgeTaskRef :: string
  bmResult :: int
  bmScoreDelta :: "BattleScoreDelta option"
  bmReplayRef :: string
  bmStatus :: int
  bmMatchedAt :: int
  bmFinishedAt :: int
  bmLeaseToken :: string
  bmLeaseUntil :: "int option"
  bmAttemptCount :: int
  bmFinalizedAt :: "int option"

record ContestArchiveClaim =
  acID :: int
  acTenantID :: int
  acCreatedAt :: int
  acLeaseToken :: string
  acLeaseUntil :: int

record archive_lease =
  alTenantID :: int
  alContestID :: int
  alToken :: string
  alUntil :: int

record battle_store =
  bsBase :: contest_store
  bsEntries :: "BattleEntry list"
  bsMatches :: "BattleMatch list"
  bsLeases :: "archive_lease list"

subsection \<open>Numbers\<close>

text \<open>
  Go's floats are idealised as reals. \<open>%.4f\<close> and \<open>FormatFloat(v, 'f', 2)\<close> print the nearest decimal,
  the even one on a tie; \<open>NUMERIC(10,2)\<close> rounds away from zero on a tie and refuses larger numbers.
\<close>

definition nearest_even :: "real \<Rightarrow> int" where
  "nearest_even x = (let f = \<lfloor>x\<rfloor>; d = x - of_int f
     in if d < 1 / 2 then f else if 1 / 2 < d then f + 1 else if even f then f else f + 1)"

definition numeric_hundredths :: "int \<Rightarrow> int" where
  "numeric_hundredths n = (if n < 0 then - ((- n + 50) div 100) else (n + 50) div 100)"

definition stored_score :: "real \<Rightarrow> int" where
  "stored_score x = numeric_hundredths (nearest_even (x * 10000))"

definition score_fits :: "int \<Rightarrow> bool" where
  "score_fits h \<longleftrightarrow> \<bar>h\<bar> < 10 ^ 10"

definition hundredths :: "int \<Rightarrow> real" where
  "hundredths h = of_int h / 100"

subsection \<open>Entries\<close>

definition entry_slot :: "int \<Rightarrow> int \<Rightarrow> int \<Rightarrow> int \<Rightarrow> int \<Rightarrow> BattleEntry \<Rightarrow> bool" where
  "entry_slot tenantID contestID problemID teamID role e \<longleftrightarrow>
     bnTenantID e = tenantID \<and> bnContestID e = contestID \<and> bnProblemID e = problemID \<and> bnTeamID e = teamID \<and> bnRole e = role"

definition NextBattleVersion :: "battle_store \<Rightarrow> int \<Rightarrow> int \<Rightarrow> int \<Rightarrow> int \<Rightarrow> int \<Rightarrow> int" where
  "NextBattleVersion bs tenantID contestID problemID teamID role =
     (let vs = map bnVersionNo (filter (entry_slot tenantID contestID problemID teamID role) (bsEntries bs))
      in (if vs = [] then 0 else Max (set vs)) + 1)"

definition DeactivateBattleEntries :: "battle_store \<Rightarrow> int \<Rightarrow> int \<Rightarrow> int \<Rightarrow> int \<Rightarrow> int \<Rightarrow> battle_store" where
  "DeactivateBattleEntries bs tenantID contestID problemID teamID role =
     bs\<lparr>bsEntries := upd_rows (entry_slot tenantID contestID problemID teamID role) (\<lambda>e. e\<lparr>bnIsActive := False\<rparr>) (bsEntries bs)\<rparr>"

definition CreateBattleEntry :: "int \<Rightarrow> battle_store \<Rightarrow> BattleEntry \<Rightarrow> contest_error + BattleEntry \<times> battle_store" where
  "CreateBattleEntry now bs item =
     (let row = item\<lparr>bnIsActive := True, bnSubmittedAt := now\<rparr>
      in if list_ex (\<lambda>e. bnID e = bnID row \<or> entry_slot (bnTenantID row) (bnContestID row) (bnProblemID row) (bnTeamID row) (bnRole row) e
                         \<and> bnVersionNo e = bnVersionNo row) (bsEntries bs) \<or> bnVersionNo row \<le> 0 \<or> bnRole row \<notin> {0, 1, 2}
         then Inl ErrContestBattleEntryInvalid
         else Inr (row, bs\<lparr>bsEntries := bsEntries bs @ [row]\<rparr>))"

definition GetBattleEntry :: "battle_store \<Rightarrow> int \<Rightarrow> int \<Rightarrow> contest_error + BattleEntry" where
  "GetBattleEntry bs tenantID i =
     one_row ErrContestBattleEntryInvalid (find (\<lambda>e. bnTenantID e = tenantID \<and> bnID e = i) (bsEntries bs))"

definition GetLadderByTeam :: "contest_store \<Rightarrow> int \<Rightarrow> int \<Rightarrow> int \<Rightarrow> LadderRank option" where
  "GetLadderByTeam db tenantID contestID teamID = find (ladder_key tenantID contestID teamID) (dbLadder db)"

text \<open>Opponents: closest rating first in ELO contests, then oldest; the page is cut before roles are compared.\<close>

definition rating_of :: "contest_store \<Rightarrow> int \<Rightarrow> int \<Rightarrow> int \<Rightarrow> int \<Rightarrow> int" where
  "rating_of db initial tenantID contestID teamID =
     (case GetLadderByTeam db tenantID contestID teamID of None \<Rightarrow> initial | Some r \<Rightarrow> lrScore r)"

definition opponent_order :: "battle_store \<Rightarrow> int \<Rightarrow> int \<Rightarrow> int \<Rightarrow> BattleEntry \<Rightarrow> int \<times> int \<times> int" where
  "opponent_order bs matchMode initial teamID e =
     (if matchMode = 2
      then \<bar>rating_of (bsBase bs) initial (bnTenantID e) (bnContestID e) (bnTeamID e)
            - rating_of (bsBase bs) initial (bnTenantID e) (bnContestID e) teamID\<bar> else 0,
      bnSubmittedAt e, bnID e)"

definition ListActiveBattleOpponents ::
  "battle_store \<Rightarrow> int \<Rightarrow> int \<Rightarrow> int \<Rightarrow> int \<Rightarrow> int \<Rightarrow> int \<Rightarrow> 64 word \<Rightarrow> real \<Rightarrow> contest_error + BattleEntry list" where
  "ListActiveBattleOpponents bs tenantID contestID problemID excludeEntryID excludeTeamID matchMode limit initialScore =
     (case Int32 limit of (limit32, ok) \<Rightarrow>
        if \<not> ok \<or> sint limit32 \<le> 0 then Inl ErrContestBattleEntryInvalid
        else Inr (take (nat (sint limit32))
          (sort_key (opponent_order bs matchMode (nearest_even (initialScore * 100)) excludeTeamID)
            (filter (\<lambda>e. bnTenantID e = tenantID \<and> bnContestID e = contestID \<and> bnProblemID e = problemID \<and> bnIsActive e
                          \<and> bnID e \<noteq> excludeEntryID \<and> bnTeamID e \<noteq> excludeTeamID) (bsEntries bs)))))"

subsection \<open>Archive leases\<close>

definition lease_key :: "int \<Rightarrow> int \<Rightarrow> archive_lease \<Rightarrow> bool" where
  "lease_key tenantID contestID l \<longleftrightarrow> alTenantID l = tenantID \<and> alContestID l = contestID"

definition archive_lease_of :: "battle_store \<Rightarrow> int \<Rightarrow> int \<Rightarrow> archive_lease option" where
  "archive_lease_of bs tenantID contestID = find (lease_key tenantID contestID) (bsLeases bs)"

definition set_lease :: "archive_lease \<Rightarrow> battle_store \<Rightarrow> battle_store" where
  "set_lease l bs = bs\<lparr>bsLeases := l # filter (Not \<circ> lease_key (alTenantID l) (alContestID l)) (bsLeases bs)\<rparr>"

definition clear_lease :: "int \<Rightarrow> int \<Rightarrow> battle_store \<Rightarrow> battle_store" where
  "clear_lease tenantID contestID bs = bs\<lparr>bsLeases := filter (Not \<circ> lease_key tenantID contestID) (bsLeases bs)\<rparr>"

text \<open>\<open>c.status IN (3, 4) OR (c.status = 5 AND c.archive_lease_token = '')\<close>\<close>

definition accepts_battles :: "battle_store \<Rightarrow> int \<Rightarrow> int \<Rightarrow> bool" where
  "accepts_battles bs tenantID contestID \<longleftrightarrow>
     list_ex (\<lambda>c. contest_key tenantID contestID c \<and>
                  (ctStatus c \<in> {3, 4} \<or> ctStatus c = 5 \<and> archive_lease_of bs tenantID contestID = None))
       (dbContests (bsBase bs))"

subsection \<open>Matches\<close>

definition match_key :: "int \<Rightarrow> int \<Rightarrow> BattleMatch \<Rightarrow> bool" where
  "match_key tenantID i m \<longleftrightarrow> bmTenantID m = tenantID \<and> bmID m = i"

definition unfinished :: "BattleMatch \<Rightarrow> bool" where
  "unfinished m \<longleftrightarrow> bmStatus m \<in> {1, 2}"

definition open_battles :: "battle_store \<Rightarrow> int \<Rightarrow> int \<Rightarrow> bool" where
  "open_battles bs tenantID contestID \<longleftrightarrow>
     list_ex (\<lambda>m. bmTenantID m = tenantID \<and> bmContestID m = contestID \<and> unfinished m) (bsMatches bs)"

definition update_matches :: "(BattleMatch \<Rightarrow> bool) \<Rightarrow> (BattleMatch \<Rightarrow> BattleMatch) \<Rightarrow> battle_store \<Rightarrow> BattleMatch list \<times> battle_store" where
  "update_matches p f bs = (map f (filter p (bsMatches bs)), bs\<lparr>bsMatches := upd_rows p f (bsMatches bs)\<rparr>)"

definition update_match :: "(BattleMatch \<Rightarrow> bool) \<Rightarrow> (BattleMatch \<Rightarrow> BattleMatch) \<Rightarrow> battle_store \<Rightarrow> (BattleMatch \<times> battle_store) option" where
  "update_match p f bs =
     (case find p (bsMatches bs) of None \<Rightarrow> None | Some m \<Rightarrow> Some (f m, bs\<lparr>bsMatches := upd_rows p f (bsMatches bs)\<rparr>))"

definition CreateBattleMatch :: "int \<Rightarrow> battle_store \<Rightarrow> BattleMatch \<Rightarrow> contest_error + BattleMatch \<times> battle_store" where
  "CreateBattleMatch now bs item =
     (let row = item\<lparr>bmScopeRef := bmSourceRef item, bmSandboxRef := [], bmJudgeTaskRef := [], bmResult := 0, bmScoreDelta := None,
                     bmReplayRef := [], bmStatus := 1, bmMatchedAt := now, bmFinishedAt := 0, bmLeaseToken := [], bmLeaseUntil := None,
                     bmAttemptCount := 0, bmFinalizedAt := None\<rparr>
      in if \<not> list_ex (\<lambda>c. contest_key (bmTenantID row) (bmContestID row) c \<and> ctStatus c \<in> {3, 4} \<and> now < ctEndAt c) (dbContests (bsBase bs))
            \<or> list_ex (\<lambda>m. bmID m = bmID row \<or> bmTenantID m = bmTenantID row \<and> (bmSourceRef m = bmSourceRef row \<or> bmScopeRef m = bmScopeRef row))
                (bsMatches bs)
         then Inl ErrContestBattleMatchFailed
         else Inr (row, bs\<lparr>bsMatches := bsMatches bs @ [row]\<rparr>))"

definition no_task :: "BattleMatch \<Rightarrow> bool" where "no_task m \<longleftrightarrow> bmJudgeTaskRef m = []"

definition stale :: "int \<Rightarrow> BattleMatch \<Rightarrow> bool" where
  "stale before m \<longleftrightarrow> (case bmLeaseUntil m of None \<Rightarrow> False | Some u \<Rightarrow> u \<le> before)"

definition live :: "int \<Rightarrow> string \<Rightarrow> BattleMatch \<Rightarrow> bool" where
  "live now token m \<longleftrightarrow> bmLeaseToken m = token \<and> (case bmLeaseUntil m of None \<Rightarrow> False | Some u \<Rightarrow> now < u)"

definition fail_match :: "int \<Rightarrow> BattleMatch \<Rightarrow> BattleMatch" where
  "fail_match now m = m\<lparr>bmStatus := 4, bmFinishedAt := now, bmLeaseToken := [], bmLeaseUntil := None\<rparr>"

definition start_exhausted :: "int \<Rightarrow> int \<Rightarrow> BattleMatch \<Rightarrow> bool" where
  "start_exhausted maxAttempts before m \<longleftrightarrow>
     bmStatus m = 2 \<and> no_task m \<and> stale before m \<and> maxAttempts \<le> bmAttemptCount m"

definition ExhaustUnstartedBattleMatches :: "int \<Rightarrow> battle_store \<Rightarrow> int \<Rightarrow> int \<Rightarrow> BattleMatch list \<times> battle_store" where
  "ExhaustUnstartedBattleMatches now bs maxAttempts before = update_matches (start_exhausted maxAttempts before) (fail_match now) bs"

definition start_claimable :: "battle_store \<Rightarrow> int \<Rightarrow> int \<Rightarrow> BattleMatch \<Rightarrow> bool" where
  "start_claimable bs maxAttempts before m \<longleftrightarrow>
     accepts_battles bs (bmTenantID m) (bmContestID m) \<and> bmAttemptCount m < maxAttempts \<and>
     (bmStatus m = 1 \<or> bmStatus m = 2 \<and> no_task m \<and> stale before m)"

definition claim_match :: "string \<Rightarrow> int \<Rightarrow> BattleMatch \<Rightarrow> BattleMatch" where
  "claim_match token leaseUntil m =
     m\<lparr>bmStatus := 2, bmLeaseToken := token, bmLeaseUntil := Some leaseUntil, bmAttemptCount := bmAttemptCount m + 1\<rparr>"

definition ClaimPendingBattleMatches ::
  "battle_store \<Rightarrow> 64 word \<Rightarrow> int \<Rightarrow> int \<Rightarrow> int \<Rightarrow> string \<Rightarrow> contest_error + BattleMatch list \<times> battle_store" where
  "ClaimPendingBattleMatches bs limit maxAttempts before leaseUntil token =
     (case Int32 limit of (limit32, ok) \<Rightarrow>
        if \<not> ok \<or> sint limit32 \<le> 0 then Inl ErrContestBattleMatchFailed
        else let ids = set (map bmID (take (nat (sint limit32)) (sort_key bmMatchedAt (filter (start_claimable bs maxAttempts before) (bsMatches bs)))))
             in Inr (update_matches (\<lambda>m. bmID m \<in> ids) (claim_match token leaseUntil) bs))"

definition RenewBattleMatchStartLease :: "int \<Rightarrow> battle_store \<Rightarrow> int \<Rightarrow> int \<Rightarrow> string \<Rightarrow> int \<Rightarrow> bool \<times> battle_store" where
  "RenewBattleMatchStartLease now bs tenantID i token leaseUntil =
     (case update_match (\<lambda>m. match_key tenantID i m \<and> bmStatus m = 2 \<and> no_task m \<and> live now token m)
             (\<lambda>m. m\<lparr>bmLeaseUntil := Some leaseUntil\<rparr>) bs of None \<Rightarrow> (False, bs) | Some (m, bs) \<Rightarrow> (True, bs))"

definition StartBattleMatch :: "int \<Rightarrow> battle_store \<Rightarrow> int \<Rightarrow> int \<Rightarrow> string \<Rightarrow> string \<Rightarrow> string \<Rightarrow> bool \<times> battle_store" where
  "StartBattleMatch now bs tenantID i sandboxRef judgeTaskRef token =
     (case update_match (\<lambda>m. match_key tenantID i m \<and> bmStatus m = 2 \<and> live now token m)
             (\<lambda>m. m\<lparr>bmSandboxRef := sandboxRef, bmJudgeTaskRef := judgeTaskRef, bmStatus := 2, bmLeaseToken := [], bmLeaseUntil := None\<rparr>) bs
      of None \<Rightarrow> (False, bs) | Some (m, bs) \<Rightarrow> (True, bs))"

definition FailBattleMatchStart :: "int \<Rightarrow> battle_store \<Rightarrow> int \<Rightarrow> int \<Rightarrow> string \<Rightarrow> bool \<times> battle_store" where
  "FailBattleMatchStart now bs tenantID i token =
     (case update_match (\<lambda>m. match_key tenantID i m \<and> bmStatus m = 2 \<and> live now token m \<and> no_task m) (fail_match now) bs of
        None \<Rightarrow> (False, bs) | Some (m, bs) \<Rightarrow> (True, bs))"

definition GetBattleMatch :: "battle_store \<Rightarrow> int \<Rightarrow> int \<Rightarrow> contest_error + BattleMatch" where
  "GetBattleMatch bs tenantID i = one_row ErrContestBattleMatchNotFound (find (match_key tenantID i) (bsMatches bs))"

definition FindBattleMatchTenant :: "battle_store \<Rightarrow> int \<Rightarrow> contest_error + int" where
  "FindBattleMatchTenant bs i =
     (case find (\<lambda>m. bmID m = i) (bsMatches bs) of None \<Rightarrow> Inl ErrContestBattleMatchNotFound | Some m \<Rightarrow> Inr (bmTenantID m))"

definition LockBattleMatchByJudgeTask :: "battle_store \<Rightarrow> int \<Rightarrow> string \<Rightarrow> BattleMatch option" where
  "LockBattleMatchByJudgeTask bs tenantID judgeTaskRef =
     find (\<lambda>m. bmTenantID m = tenantID \<and> bmJudgeTaskRef m = judgeTaskRef \<and> bmJudgeTaskRef m \<noteq> [] \<and>
              list_ex (contest_key (bmTenantID m) (bmContestID m)) (dbContests (bsBase bs))) (bsMatches bs)"

definition FinishBattleMatch :: "int \<Rightarrow> battle_store \<Rightarrow> BattleMatch \<Rightarrow> contest_error + BattleMatch \<times> battle_store" where
  "FinishBattleMatch now bs item =
     one_row ErrContestBattleMatchFailed
       (update_match (\<lambda>m. match_key (bmTenantID item) (bmID item) m \<and> bmStatus m = 2 \<and> bmJudgeTaskRef m = bmJudgeTaskRef item
                          \<and> bmJudgeTaskRef item \<noteq> [] \<and> accepts_battles bs (bmTenantID m) (bmContestID m))
         (\<lambda>m. m\<lparr>bmSandboxRef := bmSandboxRef item, bmResult := bmResult item, bmScoreDelta := bmScoreDelta item,
                bmReplayRef := bmReplayRef item, bmStatus := 3, bmFinishedAt := now, bmLeaseToken := [], bmLeaseUntil := None\<rparr>) bs)"

definition FailBattleMatchByJudgeTask :: "int \<Rightarrow> battle_store \<Rightarrow> int \<Rightarrow> int \<Rightarrow> string \<Rightarrow> contest_error + BattleMatch \<times> battle_store" where
  "FailBattleMatchByJudgeTask now bs tenantID i judgeTaskRef =
     one_row ErrContestBattleMatchFailed
       (update_match (\<lambda>m. match_key tenantID i m \<and> bmStatus m = 2 \<and> bmJudgeTaskRef m = judgeTaskRef \<and> judgeTaskRef \<noteq> []
                          \<and> accepts_battles bs (bmTenantID m) (bmContestID m)) (fail_match now) bs)"

subsection \<open>Reconciliation and delivery of final states\<close>

definition to_reconcile :: "int \<Rightarrow> int \<Rightarrow> BattleMatch \<Rightarrow> bool" where
  "to_reconcile afterID matchedBefore m \<longleftrightarrow>
     (bmStatus m = 2 \<and> \<not> no_task m \<or> bmStatus m \<in> {3, 4} \<and> bmFinalizedAt m = None) \<and> afterID < bmID m \<and> bmMatchedAt m \<le> matchedBefore"

definition ListBattleMatchesToReconcile :: "battle_store \<Rightarrow> 64 word \<Rightarrow> int \<Rightarrow> int \<Rightarrow> contest_error + BattleMatch list" where
  "ListBattleMatchesToReconcile bs limit afterID matchedBefore =
     (case Int32 limit of (limit32, ok) \<Rightarrow>
        if \<not> ok \<or> sint limit32 \<le> 0 then Inl ErrContestBattleMatchFailed
        else Inr (take (nat (sint limit32)) (sort_key bmID (filter (to_reconcile afterID matchedBefore) (bsMatches bs)))))"

definition ClaimBattleMatchFinalization :: "int \<Rightarrow> battle_store \<Rightarrow> int \<Rightarrow> int \<Rightarrow> string \<Rightarrow> int \<Rightarrow> bool \<times> battle_store" where
  "ClaimBattleMatchFinalization now bs tenantID i token until =
     (case update_match (\<lambda>m. match_key tenantID i m \<and> bmStatus m \<in> {3, 4} \<and> bmFinalizedAt m = None \<and> (bmLeaseToken m = [] \<or> stale now m))
             (\<lambda>m. m\<lparr>bmLeaseToken := token, bmLeaseUntil := Some until\<rparr>) bs of None \<Rightarrow> (False, bs) | Some (m, bs) \<Rightarrow> (True, bs))"

definition CompleteBattleMatchFinalization :: "int \<Rightarrow> battle_store \<Rightarrow> int \<Rightarrow> int \<Rightarrow> string \<Rightarrow> bool \<times> battle_store" where
  "CompleteBattleMatchFinalization now bs tenantID i token =
     (case update_match (\<lambda>m. match_key tenantID i m \<and> bmStatus m \<in> {3, 4} \<and> bmFinalizedAt m = None \<and> live now token m)
             (\<lambda>m. m\<lparr>bmFinalizedAt := Some now, bmLeaseToken := [], bmLeaseUntil := None\<rparr>) bs of None \<Rightarrow> (False, bs) | Some (m, bs) \<Rightarrow> (True, bs))"

subsection \<open>Archiving\<close>

definition ListActiveBattleSourceRefsForArchive :: "battle_store \<Rightarrow> int \<Rightarrow> int \<Rightarrow> string list" where
  "ListActiveBattleSourceRefsForArchive bs tenantID contestID =
     remdups (map bmSourceRef (filter (\<lambda>m. bmTenantID m = tenantID \<and> bmContestID m = contestID \<and> bmSourceRef m \<noteq> [] \<and> unfinished m) (bsMatches bs)))"

definition lease_free :: "int \<Rightarrow> battle_store \<Rightarrow> Contest \<Rightarrow> bool" where
  "lease_free before bs c \<longleftrightarrow>
     (case archive_lease_of bs (ctTenantID c) (ctID c) of None \<Rightarrow> True | Some l \<Rightarrow> alUntil l \<le> before)"

definition archive_claim :: "string \<Rightarrow> int \<Rightarrow> Contest \<Rightarrow> ContestArchiveClaim" where
  "archive_claim token leaseUntil c =
     \<lparr>acID = ctID c, acTenantID = ctTenantID c, acCreatedAt = ctCreatedAt c, acLeaseToken = token, acLeaseUntil = leaseUntil\<rparr>"

definition lease_for :: "string \<Rightarrow> int \<Rightarrow> Contest \<Rightarrow> archive_lease" where
  "lease_for token leaseUntil c = \<lparr>alTenantID = ctTenantID c, alContestID = ctID c, alToken = token, alUntil = leaseUntil\<rparr>"

definition set_contests :: "(Contest \<Rightarrow> bool) \<Rightarrow> int \<Rightarrow> int \<Rightarrow> battle_store \<Rightarrow> battle_store" where
  "set_contests p status now bs =
     bs\<lparr>bsBase := (bsBase bs)\<lparr>dbContests := upd_rows p (set_status status now) (dbContests (bsBase bs))\<rparr>\<rparr>"

definition ClaimManualArchiveContest ::
  "int \<Rightarrow> battle_store \<Rightarrow> int \<Rightarrow> int \<Rightarrow> int \<Rightarrow> int \<Rightarrow> string \<Rightarrow> contest_error + ContestArchiveClaim \<times> battle_store" where
  "ClaimManualArchiveContest now bs tenantID contestID before leaseUntil token =
     (let p = (\<lambda>c. contest_key tenantID contestID c \<and> ctStatus c = 5 \<and> lease_free before bs c \<and> \<not> open_battles bs tenantID contestID)
      in case find p (dbContests (bsBase bs)) of
           None \<Rightarrow> Inl ErrContestStateInvalid
         | Some c \<Rightarrow> Inr (archive_claim token leaseUntil c, set_lease (lease_for token leaseUntil c) (set_contests p 5 now bs)))"

definition archive_due :: "int \<Rightarrow> int \<Rightarrow> battle_store \<Rightarrow> Contest \<Rightarrow> bool" where
  "archive_due now before bs c \<longleftrightarrow>
     (ctStatus c \<in> {3, 4} \<and> ctEndAt c \<le> now \<or> ctStatus c = 5 \<and> lease_free before bs c) \<and> \<not> open_battles bs (ctTenantID c) (ctID c)"

definition ClaimAutoArchiveContests ::
  "int \<Rightarrow> battle_store \<Rightarrow> 64 word \<Rightarrow> int \<Rightarrow> int \<Rightarrow> string \<Rightarrow> contest_error + ContestArchiveClaim list \<times> battle_store" where
  "ClaimAutoArchiveContests now bs limit before leaseUntil token =
     (case Int32 limit of (limit32, ok) \<Rightarrow>
        if \<not> ok \<or> sint limit32 \<le> 0 then Inl ErrContestStateInvalid
        else let due = take (nat (sint limit32)) (sort_key ctEndAt (filter (archive_due now before bs) (dbContests (bsBase bs))))
             in Inr (map (archive_claim token leaseUntil) due,
                  fold (\<lambda>c. set_lease (lease_for token leaseUntil c)) due (set_contests (\<lambda>c. ctID c \<in> ctID ` set due) 5 now bs)))"

definition CompleteAutoArchiveContest :: "int \<Rightarrow> battle_store \<Rightarrow> int \<Rightarrow> int \<Rightarrow> string \<Rightarrow> contest_error + battle_store" where
  "CompleteAutoArchiveContest now bs tenantID contestID token =
     (let p = (\<lambda>c. contest_key tenantID contestID c \<and> ctStatus c = 5 \<and>
                   (case archive_lease_of bs tenantID contestID of None \<Rightarrow> False | Some l \<Rightarrow> alToken l = token \<and> now < alUntil l) \<and>
                   \<not> open_battles bs tenantID contestID)
      in if list_ex p (dbContests (bsBase bs)) then Inr (clear_lease tenantID contestID (set_contests p 6 now bs))
         else Inl ErrContestStateInvalid)"

end
