(* ===== verification/BattleService.thy ===== *)
theory BattleService
  imports BattleStore JudgeModel
begin

section \<open>Contest module: battles, the services\<close>

text \<open>
  The handlers of \<open>contest/service_battle.go\<close>, \<open>service_battle_replay.go\<close>,
  \<open>service_battle_finalization.go\<close> and the archive of \<open>service_contest.go\<close>. A handler with several
  transactions around calls of other modules is one function per transaction; the answers of the
  sandbox engine, the judge and the object store, the clock and fresh identifiers are arguments.
\<close>

record battle_config =
  bcBatchSize :: "64 word"
  bcMaxAttempts :: "64 word"
  bcLeaseDurationMs :: int
  bcArchiveLeaseDurationMs :: int
  bcELOInitialScore :: real
  bcELOKFactor :: real

subsection \<open>Entries and pairing\<close>

definition loadBattleEntryContext ::
  "battle_store \<Rightarrow> int \<Rightarrow> int \<Rightarrow> BattleEntryRequest \<Rightarrow> int \<Rightarrow> int \<Rightarrow> contest_error + Contest \<times> ContestProblem \<times> Team" where
  "loadBattleEntryContext bs tenantID contestID req memberTenantID accountID =
     bindR (GetContest (bsBase bs) tenantID contestID) (\<lambda>contest.
     thenR (failIf (ctMode contest \<noteq> ContestModeBattle) ErrContestBattleEntryInvalid)
     (thenR (validateContestRunning contest)
     (bindR (GetContestProblem (bsBase bs) tenantID (beProblemID req)) (\<lambda>problem.
      thenR (failIf (cpContestID problem \<noteq> contestID) ErrContestProblemInvalid)
      (thenR (validateBattleEntryRole (cpBattleRule problem) (beRole req))
      (bindR (currentAccountTeam (bsBase bs) tenantID memberTenantID contestID accountID) (\<lambda>team.
       Inr (contest, problem, team))))))))"

definition new_match :: "int \<Rightarrow> int \<Rightarrow> BattleEntry \<Rightarrow> BattleEntry \<Rightarrow> BattleMatch" where
  "new_match now i entry opponent =
     \<lparr>bmID = i, bmTenantID = bnTenantID entry, bmContestID = bnContestID entry, bmProblemID = bnProblemID entry,
      bmEntryAID = bnID entry, bmEntryBID = bnID opponent, bmSourceRef = battleSourceRef i now, bmScopeRef = [],
      bmSandboxRef = [], bmJudgeTaskRef = [], bmResult = 0, bmScoreDelta = None, bmReplayRef = [], bmStatus = 0,
      bmMatchedAt = 0, bmFinishedAt = 0, bmLeaseToken = [], bmLeaseUntil = None, bmAttemptCount = 0, bmFinalizedAt = None\<rparr>"

definition pair_step ::
  "int \<Rightarrow> (BattleEntry \<Rightarrow> int) \<Rightarrow> int \<Rightarrow> BattleEntry \<Rightarrow> battle_store \<Rightarrow> BattleEntry \<Rightarrow> contest_error + battle_store" where
  "pair_step now matchID rule entry bs opponent =
     (if \<not> battleRolesCompatible rule (bnRole entry) (bnRole opponent) then Inr bs
      else bindR (CreateBattleMatch now bs (new_match now (matchID opponent) entry opponent)) (\<lambda>(m, bs). Inr bs))"

definition same_problem :: "ContestProblem \<Rightarrow> ContestProblem \<Rightarrow> bool" where
  "same_problem p q \<longleftrightarrow> cpItemCode p = cpItemCode q \<and> cpItemVersion p = cpItemVersion q
     \<and> cpCompositionDigest p = cpCompositionDigest q"

text \<open>
  The transaction of \<open>SubmitBattleEntry\<close>: \<open>problem\<close> and \<open>team\<close> are what the first transaction read,
  \<open>artifactRef\<close> and \<open>hash\<close> what the sandbox engine saved in between.
\<close>

definition SubmitBattleEntry_commit ::
  "battle_config \<Rightarrow> int \<Rightarrow> int \<Rightarrow> (BattleEntry \<Rightarrow> int) \<Rightarrow> int \<Rightarrow> Identity \<Rightarrow> int \<Rightarrow> BattleEntryRequest \<Rightarrow> ContestProblem \<Rightarrow> Team \<Rightarrow>
     string \<Rightarrow> string \<Rightarrow> battle_store \<Rightarrow> contest_error + BattleEntry \<times> battle_store" where
  "SubmitBattleEntry_commit cfg now entryID matchID tenantID i contestID req problem team artifactRef hash bs =
     bindR (loadBattleEntryContext bs tenantID contestID req (idTenantID i) (idAccountID i)) (\<lambda>(currentContest, currentProblem, currentTeam).
     thenR (failIf (\<not> same_problem currentProblem problem) ErrContestProblemInvalid)
     (thenR (failIf (teID currentTeam \<noteq> teID team) ErrContestTeamAccessDenied)
     (let version = NextBattleVersion bs tenantID contestID (beProblemID req) (teID currentTeam) (beRole req);
          bs = DeactivateBattleEntries bs tenantID contestID (beProblemID req) (teID currentTeam) (beRole req)
      in bindR (CreateBattleEntry now bs \<lparr>bnID = entryID, bnTenantID = tenantID, bnContestID = contestID, bnProblemID = beProblemID req,
                  bnTeamID = teID currentTeam, bnRole = beRole req, bnArtifactRef = artifactRef, bnArtifactHash = hash,
                  bnVersionNo = version, bnIsActive = True, bnSubmittedAt = 0\<rparr>) (\<lambda>(entry, bs).
         bindR (ListActiveBattleOpponents bs tenantID contestID (beProblemID req) (bnID entry) (teID currentTeam)
                  (ctMatchMode currentContest) (bcBatchSize cfg) (bcELOInitialScore cfg)) (\<lambda>opponents.
         bindR (foldR (pair_step now matchID (cpBattleRule currentProblem) entry) bs opponents) (\<lambda>bs.
           Inr (entry, bs)))))))"

subsection \<open>The matchmaker\<close>

definition RunMatchmakerOnce_claim ::
  "battle_config \<Rightarrow> int \<Rightarrow> int \<Rightarrow> string \<Rightarrow> battle_store \<Rightarrow> contest_error + (BattleMatch list \<times> BattleMatch list) \<times> battle_store" where
  "RunMatchmakerOnce_claim cfg now here token bs =
     (case Int32 (bcMaxAttempts cfg) of (maxAttempts, ok) \<Rightarrow>
        if \<not> ok \<or> sint maxAttempts \<le> 0 then Inl ErrContestBattleMatchFailed
        else case ExhaustUnstartedBattleMatches now bs (sint maxAttempts) here of (exhausted, bs) \<Rightarrow>
          bindR (ClaimPendingBattleMatches bs (bcBatchSize cfg) (sint maxAttempts) here
                   (here + bcLeaseDurationMs cfg * 1000000) token) (\<lambda>(matches, bs).
            Inr ((exhausted, matches), bs)))"

definition team_leader :: "contest_store \<Rightarrow> int \<Rightarrow> int \<Rightarrow> contest_error + int" where
  "team_leader db tenantID teamID = bindR (GetTeam db tenantID teamID) teamLeaderID"

definition executeBattleMatch_load :: "battle_store \<Rightarrow> BattleMatch \<Rightarrow> contest_error + ContestProblem \<times> BattleEntry \<times> BattleEntry \<times> int" where
  "executeBattleMatch_load bs match =
     bindR (GetContestProblem (bsBase bs) (bmTenantID match) (bmProblemID match)) (\<lambda>problem.
     bindR (GetBattleEntry bs (bmTenantID match) (bmEntryAID match)) (\<lambda>entryA.
     bindR (GetBattleEntry bs (bmTenantID match) (bmEntryBID match)) (\<lambda>entryB.
     bindR (team_leader (bsBase bs) (bmTenantID match) (bnTeamID entryA)) (\<lambda>ownerID.
       Inr (problem, entryA, entryB, ownerID)))))"

text \<open>\<open>digest\<close> is the canonical digest of a snapshot, \<open>None\<close> when it cannot be computed.\<close>

definition compositionFromProblem ::
  "(SandboxCompositionSnapshot \<Rightarrow> string option) \<Rightarrow> ContestProblem \<Rightarrow> string \<Rightarrow> contest_error + SandboxCompositionSnapshot" where
  "compositionFromProblem digest problem profile =
     (case cpCompositionSnapshot problem of
        None \<Rightarrow> Inl ErrContestProblemInvalid
      | Some snapshot \<Rightarrow>
          if TrimSpace (cpCompositionDigest problem) = [] \<or> scAccessProfile (snSpec snapshot) \<noteq> profile
             \<or> snDigest snapshot \<noteq> cpCompositionDigest problem \<or> digest snapshot \<noteq> Some (cpCompositionDigest problem)
          then Inl ErrContestProblemInvalid else Inr snapshot)"

definition battleRuntimeSpecFromProblem ::
  "(SandboxCompositionSnapshot \<Rightarrow> string option) \<Rightarrow> ContestProblem \<Rightarrow> contest_error + SandboxCompositionSnapshot" where
  "battleRuntimeSpecFromProblem digest problem =
     (case cpBattleConfig problem of
        None \<Rightarrow> Inl ErrContestProblemInvalid
      | Some cfg \<Rightarrow> thenR (BattleRuntimeConfig_Validate cfg) (compositionFromProblem digest problem SandboxAccessContestBattle))"

text \<open>The answers a worker gets while it starts a match.\<close>

record start_answers =
  saDigest :: "SandboxCompositionSnapshot \<Rightarrow> string option"
  saSandbox :: "contest_error + int \<times> string"
  saReady :: "contest_error + unit"
  saRestore :: "BattleEntry \<Rightarrow> string \<Rightarrow> contest_error + unit"
  saJudge :: "JudgeSubmitRequest \<Rightarrow> contest_error + int"
  saRecycle :: "contest_error + unit"

definition prepareBattleSandbox :: "start_answers \<Rightarrow> BattleEntry \<Rightarrow> BattleEntry \<Rightarrow> contest_error + unit" where
  "prepareBattleSandbox ans entryA entryB =
     bindR (battleArtifactDirectories (bnRole entryA) (bnRole entryB)) (\<lambda>(dirA, dirB).
     thenR (saReady ans) (thenR (saRestore ans entryA dirA) (saRestore ans entryB dirB)))"

definition battle_request :: "BattleMatch \<Rightarrow> ContestProblem \<Rightarrow> BattleEntry \<Rightarrow> BattleEntry \<Rightarrow> int \<Rightarrow> int \<times> string \<Rightarrow> JudgeSubmitRequest" where
  "battle_request match problem entryA entryB ownerID info =
     \<lparr>sqTenantID = bmTenantID match, sqJudgerCode = [], sqItemCode = cpItemCode problem, sqItemVersion = cpItemVersion problem,
      sqCodeStorageKey = [], sqCodeHash = [], sqSubmitterTenantID = bmTenantID match, sqSubmitterID = ownerID,
      sqSourceRef = bmSourceRef match, sqSourceOwnerID = ownerID, sqSourceCourseID = 0, sqSourceScope = ''contest'',
      sqSandboxMode = ''reuse'', sqTargetSandboxRef = Format (fst info), sqSandboxSourceRef = snd info,
      sqExtraInput = [(''entry_a'', JStr (bnArtifactRef entryA)), (''entry_b'', JStr (bnArtifactRef entryB)),
        (''entry_a_hash'', JStr (bnArtifactHash entryA)), (''entry_b_hash'', JStr (bnArtifactHash entryB)),
        (''role_a'', JNum (Format (bnRole entryA))), (''role_b'', JNum (Format (bnRole entryB)))],
      sqPriority = 9\<rparr>"

text \<open>
  What the worker found out before its last transaction: the match cannot be started (with whether its
  sandbox has to be recycled), or it can, with a sandbox and a judge task.
\<close>

datatype start_finding = CannotStart contest_error bool | CanStart int int

definition start_finding :: "start_answers \<Rightarrow> BattleMatch \<Rightarrow> ContestProblem \<times> BattleEntry \<times> BattleEntry \<times> int \<Rightarrow> start_finding" where
  "start_finding ans match = (\<lambda>(problem, entryA, entryB, ownerID).
     case battleRuntimeSpecFromProblem (saDigest ans) problem of
       Inl e \<Rightarrow> CannotStart e False
     | Inr snapshot \<Rightarrow> (case saSandbox ans of
         Inl e \<Rightarrow> CannotStart ErrContestSandboxUnavailable False
       | Inr info \<Rightarrow> (case prepareBattleSandbox ans entryA entryB of
           Inl e \<Rightarrow> CannotStart ErrContestSandboxUnavailable True
         | Inr _ \<Rightarrow> (case saJudge ans (battle_request match problem entryA entryB ownerID info) of
             Inl e \<Rightarrow> CannotStart ErrContestJudgeUnavailable True
           | Inr taskID \<Rightarrow> CanStart (fst info) taskID))))"

text \<open>The last transaction; a worker that lost its lease changes nothing and reports nothing.\<close>

definition markBattleFailed :: "int \<Rightarrow> BattleMatch \<Rightarrow> battle_store \<Rightarrow> bool \<times> battle_store" where
  "markBattleFailed now match bs = FailBattleMatchStart now bs (bmTenantID match) (bmID match) (bmLeaseToken match)"

definition executeBattleMatch_end :: "start_answers \<Rightarrow> int \<Rightarrow> BattleMatch \<Rightarrow> start_finding \<Rightarrow> battle_store \<Rightarrow> (contest_error + unit) \<times> battle_store" where
  "executeBattleMatch_end ans now match finding bs =
     (case finding of
        CannotStart e recycle \<Rightarrow> (case markBattleFailed now match bs of (marked, bs) \<Rightarrow>
          (if \<not> marked then Inr ()
           else if recycle then thenR (withCause ErrContestBattleMatchFailed (saRecycle ans)) (Inl e)
           else Inl e, bs))
      | CanStart sandboxID taskID \<Rightarrow>
          (Inr (), snd (StartBattleMatch now bs (bmTenantID match) (bmID match) (Format sandboxID) (Format taskID) (bmLeaseToken match))))"

definition renewBattleStart :: "battle_config \<Rightarrow> int \<Rightarrow> int \<Rightarrow> BattleMatch \<Rightarrow> battle_store \<Rightarrow> bool \<times> battle_store" where
  "renewBattleStart cfg now here match bs =
     RenewBattleMatchStartLease now bs (bmTenantID match) (bmID match) (bmLeaseToken match) (here + bcLeaseDurationMs cfg * 1000000)"

subsection \<open>Ratings\<close>

text \<open>The standard ELO formula.\<close>

definition battleScoreDelta :: "int \<Rightarrow> real \<Rightarrow> real \<Rightarrow> real \<Rightarrow> real \<times> real" where
  "battleScoreDelta result ratingA ratingB kFactor =
     (let expectedA = 1 / (1 + 10 powr ((ratingB - ratingA) / 400));
          actualA = (if result = BattleResultAWin then 1 else if result = BattleResultBWin then 0 else 1 / 2);
          deltaA = kFactor * (actualA - expectedA)
      in (deltaA, - deltaA))"

definition battleRatingForTeam :: "real \<Rightarrow> contest_store \<Rightarrow> int \<Rightarrow> int \<Rightarrow> int \<Rightarrow> real" where
  "battleRatingForTeam initial db tenantID contestID teamID =
     (case GetLadderByTeam db tenantID contestID teamID of None \<Rightarrow> initial | Some rank \<Rightarrow> hundredths (lrScore rank))"

definition applyBattleRankDelta ::
  "int \<Rightarrow> int \<Rightarrow> real \<Rightarrow> contest_store \<Rightarrow> int \<Rightarrow> int \<Rightarrow> int \<Rightarrow> real \<Rightarrow> contest_error + contest_store" where
  "applyBattleRankDelta now newID initial db tenantID contestID teamID delta =
     (let score = stored_score (battleRatingForTeam initial db tenantID contestID teamID + delta)
      in if \<not> score_fits score then Inl ErrContestSubmissionInvalid
         else UpsertLadder now db \<lparr>lrID = newID, lrTenantID = tenantID, lrContestID = contestID, lrTeamID = teamID, lrScore = score,
                lrSolvedCount = 0, lrLastSolveAt = 0, lrRank = 0, lrUpdatedAt = 0\<rparr>)"

subsection \<open>Verdicts of the judge\<close>

text \<open>What a completed event means once the judge was asked for the task.\<close>

definition battle_verdict :: "JudgeCompletedEvent \<Rightarrow> contest_error + JudgeTaskInfo \<Rightarrow> contest_error + JudgeTaskResult" where
  "battle_verdict event answer =
     (if jcTenantID event \<le> 0 \<or> jcTaskID event \<le> 0 \<or> \<not> validContestSourceRef (jcSourceRef event)
      then Inl ErrContestEventPayloadInvalid
      else bindR (withCause ErrContestJudgeUnavailable answer) (\<lambda>task.
        if jiSourceRef task \<noteq> jcSourceRef event then Inl ErrContestEventSourceMismatch
        else if jiStatus task \<noteq> JudgeTaskStatusDone then Inl ErrContestBattleMatchFailed
        else Inr (jiResult task)))"

text \<open>
  \<open>prepareBattleReplay\<close>: the reference of the replay and whether the match was finished before.
  \<open>stored\<close> is the reference of the archive that was put into the object store.
\<close>

definition finished_before :: "BattleMatch \<Rightarrow> bool" where
  "finished_before m \<longleftrightarrow> bmStatus m = BattleMatchStatusDone \<and> TrimSpace (bmReplayRef m) \<noteq> []"

definition prepareBattleReplay ::
  "battle_store \<Rightarrow> int \<Rightarrow> int \<Rightarrow> JudgeTaskResult \<Rightarrow> string \<Rightarrow> contest_error + string \<Rightarrow> contest_error + string \<times> bool" where
  "prepareBattleReplay bs tenantID taskID result sourceRef stored =
     bindR (one_row ErrContestBattleMatchNotFound (LockBattleMatchByJudgeTask bs tenantID (Format taskID))) (\<lambda>m.
       if bmSourceRef m \<noteq> sourceRef then Inl ErrContestEventSourceMismatch
       else if finished_before m then Inr (bmReplayRef m, True)
       else if bmStatus m \<noteq> BattleMatchStatusRunning then Inl ErrContestBattleMatchFailed
       else bindR (GetContestProblem (bsBase bs) tenantID (bmProblemID m)) (\<lambda>problem.
            bindR (GetBattleEntry bs tenantID (bmEntryAID m)) (\<lambda>a.
            bindR (GetBattleEntry bs tenantID (bmEntryBID m)) (\<lambda>b.
              if jrActions (jtReplay result) = [] then Inl ErrContestReplayUnavailable
              else bindR (withCause ErrContestReplayUnavailable stored) (\<lambda>ref. Inr (ref, False))))))"

definition score_delta :: "battle_config \<Rightarrow> BattleEntry \<Rightarrow> BattleEntry \<Rightarrow> real \<Rightarrow> real \<Rightarrow> int \<Rightarrow> BattleScoreDelta" where
  "score_delta cfg a b ratingA ratingB result =
     (case battleScoreDelta result ratingA ratingB (bcELOKFactor cfg) of (deltaA, deltaB) \<Rightarrow>
        \<lparr>sdTeamAID = bnTeamID a, sdTeamBID = bnTeamID b, sdRatingABefore = ratingA, sdRatingBBefore = ratingB,
         sdRatingAAfter = ratingA + deltaA, sdRatingBAfter = ratingB + deltaB, sdDeltaA = deltaA, sdDeltaB = deltaB,
         sdKFactor = bcELOKFactor cfg, sdResult = result\<rparr>)"

text \<open>The settlement: the match with the flag whether this transaction settled it.\<close>

definition settle_running ::
  "battle_config \<Rightarrow> int \<Rightarrow> int \<Rightarrow> int \<Rightarrow> int \<Rightarrow> JudgeTaskResult \<Rightarrow> string \<Rightarrow> BattleMatch \<Rightarrow> battle_store \<Rightarrow>
     contest_error + (BattleMatch \<times> bool) \<times> battle_store" where
  "settle_running cfg now idA idB tenantID taskResult replayRef current bs =
     bindR (GetContestProblem (bsBase bs) tenantID (bmProblemID current)) (\<lambda>problem.
     bindR (GetBattleEntry bs tenantID (bmEntryAID current)) (\<lambda>a.
     bindR (GetBattleEntry bs tenantID (bmEntryBID current)) (\<lambda>b.
     bindR (battleResultFromTask taskResult (cpBattleRule problem) (bnRole a) (bnRole b)) (\<lambda>result.
     let initial = bcELOInitialScore cfg; contestID = bmContestID current;
         delta = score_delta cfg a b (battleRatingForTeam initial (bsBase bs) tenantID contestID (bnTeamID a))
                   (battleRatingForTeam initial (bsBase bs) tenantID contestID (bnTeamID b)) result
     in bindR (FinishBattleMatch now bs (current\<lparr>bmResult := result, bmScoreDelta := Some delta, bmReplayRef := replayRef\<rparr>)) (\<lambda>(match, bs).
        bindR (applyBattleRankDelta now idA initial (bsBase bs) tenantID contestID (bnTeamID a) (sdDeltaA delta)) (\<lambda>db.
        bindR (applyBattleRankDelta now idB initial db tenantID contestID (bnTeamID b) (sdDeltaB delta)) (\<lambda>db.
          Inr ((match, True), bs\<lparr>bsBase := RefreshContestRanks now db tenantID contestID\<rparr>))))))))"

definition HandleBattleJudgeCompleted_settle ::
  "battle_config \<Rightarrow> int \<Rightarrow> int \<Rightarrow> int \<Rightarrow> JudgeCompletedEvent \<Rightarrow> JudgeTaskResult \<Rightarrow> string \<Rightarrow> battle_store \<Rightarrow>
     contest_error + (BattleMatch \<times> bool) \<times> battle_store" where
  "HandleBattleJudgeCompleted_settle cfg now idA idB event taskResult replayRef bs =
     bindR (one_row ErrContestBattleMatchNotFound (LockBattleMatchByJudgeTask bs (jcTenantID event) (Format (jcTaskID event)))) (\<lambda>current.
       if bmSourceRef current \<noteq> jcSourceRef event then Inl ErrContestEventSourceMismatch
       else if bmStatus current = BattleMatchStatusDone \<and> bmReplayRef current \<noteq> [] then Inr ((current, False), bs)
       else if bmStatus current \<noteq> BattleMatchStatusRunning then Inl ErrContestBattleMatchFailed
       else settle_running cfg now idA idB (jcTenantID event) taskResult replayRef current bs)"

definition HandleBattleJudgeFailed :: "int \<Rightarrow> JudgeFailedEvent \<Rightarrow> battle_store \<Rightarrow> contest_error + BattleMatch \<times> battle_store" where
  "HandleBattleJudgeFailed now event bs =
     (if jfTenantID event \<le> 0 \<or> jfTaskID event \<le> 0 \<or> \<not> validContestSourceRef (jfSourceRef event)
      then Inl ErrContestEventPayloadInvalid
      else bindR (one_row ErrContestBattleMatchNotFound (LockBattleMatchByJudgeTask bs (jfTenantID event) (Format (jfTaskID event)))) (\<lambda>current.
        if bmSourceRef current \<noteq> jfSourceRef event then Inl ErrContestEventSourceMismatch
        else if bmStatus current = BattleMatchStatusFailed then Inr (current, bs)
        else if bmStatus current \<noteq> BattleMatchStatusRunning then Inl ErrContestBattleMatchFailed
        else FailBattleMatchByJudgeTask now bs (jfTenantID event) (bmID current) (Format (jfTaskID event))))"

text \<open>What the reconciliation does with a match: deliver its final state, or act as if an event had come.\<close>

datatype reconcile_action = Deliver | AsCompleted JudgeCompletedEvent | AsFailed JudgeFailedEvent | Wait

definition reconcileBattleMatch :: "int \<Rightarrow> (int \<Rightarrow> int \<Rightarrow> contest_error + JudgeTaskInfo) \<Rightarrow> BattleMatch \<Rightarrow> contest_error + reconcile_action" where
  "reconcileBattleMatch now judge match =
     (if bmStatus match = BattleMatchStatusDone \<or> bmStatus match = BattleMatchStatusFailed then Inr Deliver
      else case Parse (TrimSpace (bmJudgeTaskRef match)) of (taskID, ok) \<Rightarrow>
          if \<not> ok \<or> taskID \<le> 0 then Inl ErrContestBattleMatchFailed
          else bindR (withCause ErrContestJudgeUnavailable (judge (bmTenantID match) taskID)) (\<lambda>task.
            if jiStatus task = JudgeTaskStatusDone
            then Inr (AsCompleted \<lparr>jcTenantID = bmTenantID match, jcTraceID = [], jcTaskID = taskID, jcSourceRef = bmSourceRef match,
                   jcStatus = jiStatus task, jcScore = jtScore (jiResult task), jcPassed = jtPassed (jiResult task), jcFinishedAt = now\<rparr>)
            else if jiStatus task = JudgeTaskStatusFailed \<or> jiStatus task = JudgeTaskStatusCanceled
            then Inr (AsFailed \<lparr>jfTenantID = bmTenantID match, jfTraceID = [], jfTaskID = taskID, jfSourceRef = bmSourceRef match,
                   jfReason = ''judge_terminal_state'', jfFailedAt = now\<rparr>)
            else Inr Wait))"

subsection \<open>Delivery of final states, replays\<close>

definition finalizeBattleMatch_claim :: "battle_config \<Rightarrow> int \<Rightarrow> int \<Rightarrow> string \<Rightarrow> BattleMatch \<Rightarrow> battle_store \<Rightarrow> contest_error + bool \<times> battle_store" where
  "finalizeBattleMatch_claim cfg now here token match bs =
     (if bmStatus match \<noteq> BattleMatchStatusDone \<and> bmStatus match \<noteq> BattleMatchStatusFailed \<or> bcLeaseDurationMs cfg \<le> 0
      then Inl ErrContestBattleMatchFailed
      else Inr (ClaimBattleMatchFinalization now bs (bmTenantID match) (bmID match) token (here + bcLeaseDurationMs cfg * 1000000)))"

text \<open>\<open>outside\<close> tells whether the sandbox was recycled and, for a match that is done, the board pushed and the audit written.\<close>

definition finalizeBattleMatch_end :: "int \<Rightarrow> string \<Rightarrow> BattleMatch \<Rightarrow> contest_error + unit \<Rightarrow> battle_store \<Rightarrow> contest_error + battle_store" where
  "finalizeBattleMatch_end now token match outside bs =
     thenR outside
       (case CompleteBattleMatchFinalization now bs (bmTenantID match) (bmID match) token of (completed, bs) \<Rightarrow>
          if completed then Inr bs else Inl ErrContestBattleMatchFailed)"

definition resolveBattleMatchTenant :: "battle_store \<Rightarrow> int \<Rightarrow> contest_error + int" where
  "resolveBattleMatchTenant bs matchID =
     (if matchID \<le> 0 then Inl ErrContestBattleMatchNotFound
      else bindR (FindBattleMatchTenant bs matchID) (\<lambda>t. if t \<le> 0 then Inl ErrContestBattleMatchNotFound else Inr t))"

definition authorizedBattleReplay :: "battle_store \<Rightarrow> int \<Rightarrow> int \<Rightarrow> int \<Rightarrow> int \<Rightarrow> contest_error + BattleMatch" where
  "authorizedBattleReplay bs tenantID memberTenantID accountID matchID =
     bindR (GetBattleMatch bs tenantID matchID) (\<lambda>match.
     bindR (GetBattleEntry bs tenantID (bmEntryAID match)) (\<lambda>a.
     bindR (GetBattleEntry bs tenantID (bmEntryBID match)) (\<lambda>b.
     bindR (GetTeam (bsBase bs) tenantID (bnTeamID a)) (\<lambda>teamA.
     bindR (GetTeam (bsBase bs) tenantID (bnTeamID b)) (\<lambda>teamB.
       if ensureTeamAccess memberTenantID accountID teamA \<noteq> Inr () \<and> ensureTeamAccess memberTenantID accountID teamB \<noteq> Inr ()
       then Inl ErrContestTeamAccessDenied
       else if bmReplayRef match = [] then Inl ErrContestReplayUnavailable
       else Inr match)))))"

definition GetBattleReplay :: "Identity option \<Rightarrow> int \<Rightarrow> battle_store \<Rightarrow> contest_error + int" where
  "GetBattleReplay ctx matchID bs =
     bindR (currentIdentity ctx) (\<lambda>i.
     bindR (resolveBattleMatchTenant bs matchID) (\<lambda>tenantID.
     bindR (authorizedBattleReplay bs tenantID (idTenantID i) (idAccountID i) matchID) (\<lambda>match.
       if bmReplayRef match = [] then Inl ErrContestReplayUnavailable else Inr (bmID match))))"

subsection \<open>Archiving\<close>

definition ArchiveContest_claim ::
  "battle_config \<Rightarrow> int \<Rightarrow> int \<Rightarrow> string \<Rightarrow> Identity option \<Rightarrow> contest_error + bool \<Rightarrow> int \<Rightarrow> battle_store \<Rightarrow>
     contest_error + ContestArchiveClaim \<times> battle_store" where
  "ArchiveContest_claim cfg now here token ctx roles contestID bs =
     bindR (currentIdentity ctx) (\<lambda>i.
     bindR (loadContestForManage roles (bsBase bs) (idTenantID i) (idAccountID i) contestID) (\<lambda>contest.
     thenR (validateContestTransition (ctStatus contest) ContestStatusArchived)
       (ClaimManualArchiveContest now bs (idTenantID i) contestID here (here + bcArchiveLeaseDurationMs cfg * 1000000) token)))"

definition RunAutoArchiveOnce_claim ::
  "battle_config \<Rightarrow> int \<Rightarrow> int \<Rightarrow> string \<Rightarrow> battle_store \<Rightarrow> contest_error + ContestArchiveClaim list \<times> battle_store" where
  "RunAutoArchiveOnce_claim cfg now here token bs =
     ClaimAutoArchiveContests now bs (bcBatchSize cfg) here (here + bcArchiveLeaseDurationMs cfg * 1000000) token"

definition archiveContest_revoke :: "int \<Rightarrow> ContestArchiveClaim \<Rightarrow> battle_store \<Rightarrow> ContestAccessGrant list \<times> battle_store" where
  "archiveContest_revoke now item bs =
     (case revokeContestSandboxGrants now (bsBase bs) (acTenantID item) (acID item) of (grants, db) \<Rightarrow> (grants, bs\<lparr>bsBase := db\<rparr>))"

definition archive_refs :: "ContestArchiveClaim \<Rightarrow> battle_store \<Rightarrow> string list" where
  "archive_refs item bs =
     contestArchiveSourceRefs (acID item) (acCreatedAt item) (ListActiveBattleSourceRefsForArchive bs (acTenantID item) (acID item))"

definition archiveContest_end :: "battle_config \<Rightarrow> int \<Rightarrow> int \<Rightarrow> ContestArchiveClaim \<Rightarrow> battle_store \<Rightarrow> contest_error + battle_store" where
  "archiveContest_end cfg now newID item bs =
     bindR (listAllContestLadder (sint (bcBatchSize cfg)) (bsBase bs) (acTenantID item) (acID item)) (\<lambda>ranks.
     bindR (saveLadderSnapshot now newID (bsBase bs) (acTenantID item) (acID item) ContestStatusArchived ranks) (\<lambda>db.
       CompleteAutoArchiveContest now (bs\<lparr>bsBase := db\<rparr>) (acTenantID item) (acID item) (acLeaseToken item)))"

end
