(* ===== verification/BattleSystem.thy ===== *)
theory BattleSystem
  imports BattleService
begin

section \<open>Contest module: the running battles\<close>

text \<open>
  Battle entries, the matchmaker, verdicts of the judge, the delivery of final states and the archive as
  one system with the contest services (\<open>contest_step\<close>, all but the scoring of solve contests). Every
  transaction is atomic and may be done by any process at any time. \<open>yHeld\<close> are the matches as their
  workers claimed them, \<open>yPrepared\<close> the verdicts whose replay is stored, \<open>yClaims\<close> the archive claims, \<open>yTokens\<close> the lease tokens drawn so far (a fresh
  token differs from all of them), \<open>ySettled\<close> records the matches in the order of their settlement.
  \<open>judge\<close> tells which answers the judge may give for a task, \<open>source_of\<close> for which source a task was
  submitted (the judge has one task per source), \<open>failing\<close> for which tasks a failure may be announced.
\<close>

record battle_system =
  yStore :: battle_store
  yNow :: int
  yEnvs :: "contestEnvContext list"
  yHeld :: "BattleMatch list"
  yClaims :: "ContestArchiveClaim list"
  yTokens :: "string set"
  yPrepared :: "(JudgeCompletedEvent \<times> JudgeTaskResult \<times> string) list"
  ySettled :: "BattleMatch list"

record battle_world =
  wHash :: "string \<Rightarrow> string"
  wSandbox :: "int \<Rightarrow> string"
  wJudge :: "int \<Rightarrow> int \<Rightarrow> JudgeTaskInfo \<Rightarrow> bool"
  wSource :: "int \<Rightarrow> string"
  wFailing :: "int \<Rightarrow> int \<Rightarrow> bool"

definition contest_part :: "battle_system \<Rightarrow> contest_system" where
  "contest_part s = \<lparr>sysDB = bsBase (yStore s), sysNow = yNow s, sysEnvs = yEnvs s\<rparr>"

definition with_contest :: "contest_system \<Rightarrow> battle_system \<Rightarrow> battle_system" where
  "with_contest c s = s\<lparr>yStore := (yStore s)\<lparr>bsBase := sysDB c\<rparr>, yNow := sysNow c, yEnvs := sysEnvs c\<rparr>"

inductive battle_step :: "battle_world \<Rightarrow> battle_config \<Rightarrow> battle_system \<Rightarrow> battle_system \<Rightarrow> bool" for w cfg where
  contest: "contest_step (wHash w) (wSandbox w) (contest_part s) c \<Longrightarrow> dbLadder (sysDB c) = dbLadder (bsBase (yStore s)) \<Longrightarrow>
     battle_step w cfg s (with_contest c s)"
| entry: "SubmitBattleEntry_commit cfg (yNow s) entryID matchID tenantID i contestID req problem team ref hash (yStore s) = Inr (e, bs) \<Longrightarrow>
     battle_step w cfg s (s\<lparr>yStore := bs\<rparr>)"
| claim: "token \<notin> yTokens s \<Longrightarrow> token \<noteq> [] \<Longrightarrow>
     RunMatchmakerOnce_claim cfg (yNow s) here token (yStore s) = Inr ((spent, taken), bs) \<Longrightarrow>
     battle_step w cfg s (s\<lparr>yStore := bs, yHeld := taken @ yHeld s, yTokens := insert token (yTokens s)\<rparr>)"
| renew: "m \<in> set (yHeld s) \<Longrightarrow> renewBattleStart cfg (yNow s) here m (yStore s) = (renewed, bs) \<Longrightarrow>
     battle_step w cfg s (s\<lparr>yStore := bs\<rparr>)"
| begun: "m \<in> set (yHeld s) \<Longrightarrow> executeBattleMatch_end ans (yNow s) m finding (yStore s) = (res, bs) \<Longrightarrow>
     (\<And>sandboxID taskID. finding = CanStart sandboxID taskID \<Longrightarrow> wSource w taskID = bmSourceRef m) \<Longrightarrow>
     battle_step w cfg s (s\<lparr>yStore := bs\<rparr>)"
| prepare: "battle_verdict event (Inr task) = Inr result \<Longrightarrow> wJudge w (jcTenantID event) (jcTaskID event) task \<Longrightarrow>
     prepareBattleReplay (yStore s) (jcTenantID event) (jcTaskID event) result (jcSourceRef event) answer = Inr (replayRef, before) \<Longrightarrow>
     battle_step w cfg s (s\<lparr>yPrepared := (event, result, replayRef) # yPrepared s\<rparr>)"
| verdict: "(event, result, replayRef) \<in> set (yPrepared s) \<Longrightarrow>
     HandleBattleJudgeCompleted_settle cfg (yNow s) idA idB event result replayRef (yStore s) = Inr ((m, committed), bs) \<Longrightarrow>
     battle_step w cfg s (s\<lparr>yStore := bs, ySettled := ySettled s @ (if committed then [m] else [])\<rparr>)"
| failure: "wFailing w (jfTenantID event) (jfTaskID event) \<Longrightarrow> HandleBattleJudgeFailed (yNow s) event (yStore s) = Inr (m, bs) \<Longrightarrow>
     battle_step w cfg s (s\<lparr>yStore := bs\<rparr>)"
| deliver: "token \<notin> yTokens s \<Longrightarrow> token \<noteq> [] \<Longrightarrow>
     finalizeBattleMatch_claim cfg (yNow s) here token m (yStore s) = Inr (claimed, bs) \<Longrightarrow>
     battle_step w cfg s (s\<lparr>yStore := bs, yTokens := insert token (yTokens s)\<rparr>)"
| delivered: "finalizeBattleMatch_end (yNow s) token m delivery (yStore s) = Inr bs \<Longrightarrow> token \<noteq> [] \<Longrightarrow>
     battle_step w cfg s (s\<lparr>yStore := bs\<rparr>)"
| archive: "token \<notin> yTokens s \<Longrightarrow> token \<noteq> [] \<Longrightarrow>
     ArchiveContest_claim cfg (yNow s) here token ctx roles contestID (yStore s) = Inr (item, bs) \<Longrightarrow>
     battle_step w cfg s (s\<lparr>yStore := bs, yClaims := item # yClaims s, yTokens := insert token (yTokens s)\<rparr>)"
| auto_archive: "token \<notin> yTokens s \<Longrightarrow> token \<noteq> [] \<Longrightarrow>
     RunAutoArchiveOnce_claim cfg (yNow s) here token (yStore s) = Inr (items, bs) \<Longrightarrow>
     battle_step w cfg s (s\<lparr>yStore := bs, yClaims := items @ yClaims s, yTokens := insert token (yTokens s)\<rparr>)"
| revoke: "item \<in> set (yClaims s) \<Longrightarrow> archiveContest_revoke (yNow s) item (yStore s) = (grants, bs) \<Longrightarrow>
     battle_step w cfg s (s\<lparr>yStore := bs\<rparr>)"
| archived: "item \<in> set (yClaims s) \<Longrightarrow> archiveContest_end cfg (yNow s) newID item (yStore s) = Inr bs \<Longrightarrow>
     battle_step w cfg s (s\<lparr>yStore := bs\<rparr>)"

definition battle_started :: "battle_system \<Rightarrow> bool" where
  "battle_started s \<longleftrightarrow>
     contest_started (contest_part s) \<and> bsEntries (yStore s) = [] \<and> bsMatches (yStore s) = [] \<and> bsLeases (yStore s) = [] \<and>
     yHeld s = [] \<and> yClaims s = [] \<and> yPrepared s = [] \<and> ySettled s = []"

subsection \<open>Moves of one match\<close>

text \<open>
  What a transaction does to one row of \<open>battle_match\<close>: the abstract specification the handlers refine.
  \<open>token\<close> is the lease token that is handed out, \<open>most\<close> the number of attempts; only a settlement
  (\<open>fin\<close>) finishes a match.
\<close>

definition finish_match :: "int \<Rightarrow> BattleMatch \<Rightarrow> BattleMatch \<Rightarrow> BattleMatch" where
  "finish_match now item m = m\<lparr>bmSandboxRef := bmSandboxRef item, bmResult := bmResult item, bmScoreDelta := bmScoreDelta item,
     bmReplayRef := bmReplayRef item, bmStatus := 3, bmFinishedAt := now, bmLeaseToken := [], bmLeaseUntil := None\<rparr>"

inductive match_move :: "bool \<Rightarrow> (int \<Rightarrow> string) \<Rightarrow> int \<Rightarrow> string option \<Rightarrow> BattleMatch \<Rightarrow> BattleMatch \<Rightarrow> bool" for fin source_of most token where
  same: "match_move fin source_of most token m m"
| claimed: "token = Some k \<Longrightarrow> bmStatus m = 1 \<or> bmStatus m = 2 \<and> no_task m \<and> bmLeaseUntil m \<noteq> None \<Longrightarrow> bmAttemptCount m < most \<Longrightarrow>
     match_move fin source_of most token m (claim_match k u m)"
| renewed: "bmStatus m = 2 \<Longrightarrow> no_task m \<Longrightarrow> bmLeaseUntil m \<noteq> None \<Longrightarrow> match_move fin source_of most token m (m\<lparr>bmLeaseUntil := Some u\<rparr>)"
| begun: "bmStatus m = 2 \<Longrightarrow> bmLeaseUntil m \<noteq> None \<Longrightarrow> source_of taskID = bmSourceRef m \<Longrightarrow>
     match_move fin source_of most token m (m\<lparr>bmSandboxRef := sandbox, bmJudgeTaskRef := Format taskID, bmStatus := 2, bmLeaseToken := [], bmLeaseUntil := None\<rparr>)"
| failed: "bmStatus m = 2 \<Longrightarrow> match_move fin source_of most token m (fail_match now m)"
| finished: "fin \<Longrightarrow> bmStatus m = 2 \<Longrightarrow> \<not> no_task m \<Longrightarrow> bmScoreDelta item \<noteq> None \<Longrightarrow> match_move fin source_of most token m (finish_match now item m)"
| delivering: "token = Some k \<Longrightarrow> bmStatus m \<in> {3, 4} \<Longrightarrow> bmFinalizedAt m = None \<Longrightarrow>
     match_move fin source_of most token m (m\<lparr>bmLeaseToken := k, bmLeaseUntil := Some u\<rparr>)"
| delivered: "bmStatus m \<in> {3, 4} \<Longrightarrow> bmFinalizedAt m = None \<Longrightarrow>
     match_move fin source_of most token m (m\<lparr>bmFinalizedAt := Some now, bmLeaseToken := [], bmLeaseUntil := None\<rparr>)"

inductive_cases match_moveE: "match_move fin source_of most token m m'"

definition matches_move :: "bool \<Rightarrow> (int \<Rightarrow> string) \<Rightarrow> int \<Rightarrow> string option \<Rightarrow> battle_store \<Rightarrow> battle_store \<Rightarrow> bool" where
  "matches_move fin source_of most token bs bs' \<longleftrightarrow>
     list_all2 (match_move fin source_of most token) (bsMatches bs) (bsMatches bs') \<and>
     bsBase bs' = bsBase bs \<and> bsEntries bs' = bsEntries bs \<and> bsLeases bs' = bsLeases bs"

lemma matches_move_refl: "matches_move fin source_of most token bs bs"
  by (auto simp: matches_move_def intro: match_move.same list_all2_refl)

lemma upd_rows_move:
  "(\<And>m. m \<in> set ms \<Longrightarrow> p m \<Longrightarrow> match_move fin source_of most token m (f m)) \<Longrightarrow> list_all2 (match_move fin source_of most token) ms (upd_rows p f ms)"
  by (induction ms) (auto intro: match_move.same)

lemma update_match_move:
  assumes "update_match p f bs = Some (m, bs')" and "\<And>m. m \<in> set (bsMatches bs) \<Longrightarrow> p m \<Longrightarrow> match_move fin source_of most token m (f m)"
  shows "matches_move fin source_of most token bs bs' \<and> (\<exists>r \<in> set (bsMatches bs). p r \<and> m = f r)"
  using assms upd_rows_move [of "bsMatches bs" p fin source_of most token f]
  by (auto simp: update_match_def matches_move_def split: option.splits dest!: find_SomeD)

lemma update_matches_move:
  assumes "\<And>m. m \<in> set (bsMatches bs) \<Longrightarrow> p m \<Longrightarrow> match_move fin source_of most token m (f m)"
  shows "matches_move fin source_of most token bs (snd (update_matches p f bs))"
  using upd_rows_move [of "bsMatches bs" p fin source_of most token f] assms by (auto simp: update_matches_def matches_move_def)

lemma live_until: "live now token m \<Longrightarrow> bmLeaseUntil m \<noteq> None"
  by (simp add: live_def split: option.splits)

lemma stale_until: "stale before m \<Longrightarrow> bmLeaseUntil m \<noteq> None"
  by (simp add: stale_def split: option.splits)

lemma Exhaust_moves: "matches_move fin source_of most token bs (snd (ExhaustUnstartedBattleMatches now bs most before))"
  unfolding ExhaustUnstartedBattleMatches_def
  by (rule update_matches_move) (auto simp: start_exhausted_def intro: match_move.failed)

lemma selected_ids:
  assumes "distinct (map key xs)" and "x \<in> set xs" and "key x \<in> key ` set (take n (sort_key k (filter p xs)))"
  shows "p x"
proof -
  obtain y where y: "y \<in> set (take n (sort_key k (filter p xs)))" "key x = key y" using assms(3) by blast
  then have "y \<in> set xs" "p y" using set_take_subset [of n "sort_key k (filter p xs)"] by auto
  then show ?thesis using assms(1,2) y(2) by (auto simp: distinct_map inj_on_def)
qed

lemma Claim_moves:
  assumes "ClaimPendingBattleMatches bs limit most before until token = Inr (ms, bs')" and "distinct (map bmID (bsMatches bs))"
  shows "matches_move fin source_of most (Some token) bs bs'"
proof -
  obtain n where bs': "bs' = snd (update_matches (\<lambda>m. bmID m \<in> bmID ` set (take n (sort_key bmMatchedAt
      (filter (start_claimable bs most before) (bsMatches bs))))) (claim_match token until) bs)"
    using assms(1) by (auto simp: ClaimPendingBattleMatches_def Let_def update_matches_def split: prod.splits if_splits)
  show ?thesis unfolding bs'
  proof (rule update_matches_move)
    fix m assume "m \<in> set (bsMatches bs)"
      and "bmID m \<in> bmID ` set (take n (sort_key bmMatchedAt (filter (start_claimable bs most before) (bsMatches bs))))"
    from selected_ids [OF assms(2) this] have "start_claimable bs most before m" .
    then show "match_move fin source_of most (Some token) m (claim_match token until m)"
      by (auto simp: start_claimable_def dest: stale_until intro: match_move.claimed)
  qed
qed

lemma Renew_moves:
  assumes "RenewBattleMatchStartLease now bs t i k until = (r, bs')"
  shows "matches_move fin source_of most token bs bs'"
  using assms
  by (auto simp: RenewBattleMatchStartLease_def matches_move_refl split: option.splits prod.splits
      intro!: match_move.renewed dest!: update_match_move [of _ _ _ _ _ fin source_of most token] dest: live_until)

lemma Start_moves:
  assumes "StartBattleMatch now bs t i sandbox (Format taskID) k = (r, bs')"
    and "\<And>m. m \<in> set (bsMatches bs) \<Longrightarrow> match_key t i m \<Longrightarrow> bmStatus m = 2 \<Longrightarrow> live now k m \<Longrightarrow> source_of taskID = bmSourceRef m"
  shows "matches_move fin source_of most token bs bs'"
  using assms(1)
  by (auto simp: StartBattleMatch_def matches_move_refl split: option.splits prod.splits
      intro!: match_move.begun assms(2) dest!: update_match_move [of _ _ _ _ _ fin source_of most token] dest: live_until)

lemma FailStart_moves:
  assumes "FailBattleMatchStart now bs t i k = (r, bs')"
  shows "matches_move fin source_of most token bs bs'"
  using assms
  by (auto simp: FailBattleMatchStart_def matches_move_refl split: option.splits prod.splits
      intro!: match_move.failed dest!: update_match_move [of _ _ _ _ _ fin source_of most token])

lemma ClaimFinal_moves:
  assumes "ClaimBattleMatchFinalization now bs t i k until = (r, bs')"
  shows "matches_move fin source_of most (Some k) bs bs'"
  using assms
  by (auto simp: ClaimBattleMatchFinalization_def matches_move_refl split: option.splits prod.splits
      intro!: match_move.delivering dest!: update_match_move [of _ _ _ _ _ fin source_of most "Some k"])

lemma CompleteFinal_moves:
  assumes "CompleteBattleMatchFinalization now bs t i k = (r, bs')"
  shows "matches_move fin source_of most token bs bs'"
  using assms
  by (auto simp: CompleteBattleMatchFinalization_def matches_move_refl split: option.splits prod.splits
      intro!: match_move.delivered dest!: update_match_move [of _ _ _ _ _ fin source_of most token])

lemma FailJudge_moves:
  assumes "FailBattleMatchByJudgeTask now bs t i ref = Inr (m, bs')"
  shows "matches_move fin source_of most token bs bs'"
  using assms
  by (auto simp: FailBattleMatchByJudgeTask_def one_row_Inr intro!: match_move.failed
      dest!: update_match_move [of _ _ _ _ _ fin source_of most token])

lemma Finish_moves:
  assumes "FinishBattleMatch now bs item = Inr (m, bs')" and "bmScoreDelta item \<noteq> None"
  shows "matches_move True source_of most token bs bs' \<and>
    (\<exists>r \<in> set (bsMatches bs). match_key (bmTenantID item) (bmID item) r \<and> bmStatus r = 2 \<and> bmJudgeTaskRef r = bmJudgeTaskRef item \<and>
       accepts_battles bs (bmTenantID r) (bmContestID r) \<and> m = finish_match now item r)"
  using assms
  by (auto simp: FinishBattleMatch_def one_row_Inr finish_match_def [symmetric] no_task_def intro!: match_move.finished
      dest!: update_match_move [of _ _ _ _ _ True source_of most token])

end
