(* ===== verification/BattleInvariant.thy ===== *)
theory BattleInvariant
  imports BattleSystem
begin

section \<open>Contest module: what the battles keep\<close>

text \<open>
  The invariant of the running battles in parts: rows of matches and their leases, entries and pairings,
  the fence between archiving and battles, and the ladder as the replay of the settled matches.
\<close>

subsection \<open>Rows\<close>

definition row_ok :: "string set \<Rightarrow> int \<Rightarrow> BattleMatch \<Rightarrow> bool" where
  "row_ok tokens most m \<longleftrightarrow>
     bmStatus m \<in> {1, 2, 3, 4} \<and> 0 \<le> bmAttemptCount m \<and> bmAttemptCount m \<le> max 0 most \<and>
     (bmStatus m = 1 \<longrightarrow> no_task m \<and> bmAttemptCount m = 0) \<and>
     (bmStatus m = 2 \<and> no_task m \<longrightarrow> bmLeaseUntil m \<noteq> None \<and> bmLeaseToken m \<in> tokens) \<and>
     (bmStatus m = 2 \<and> \<not> no_task m \<longrightarrow> bmLeaseUntil m = None) \<and>
     (bmStatus m \<in> {3, 4} \<longrightarrow> bmLeaseToken m = [] \<or> bmLeaseUntil m \<noteq> None) \<and>
     (bmStatus m \<in> {1, 2} \<longrightarrow> bmFinalizedAt m = None) \<and> (bmStatus m = 3 \<longrightarrow> bmScoreDelta m \<noteq> None)"

text \<open>What no move changes, and what a finished match keeps.\<close>

definition core :: "BattleMatch \<Rightarrow> int \<times> int \<times> int \<times> int \<times> int \<times> int \<times> string" where
  "core m = (bmID m, bmTenantID m, bmContestID m, bmProblemID m, bmEntryAID m, bmEntryBID m, bmSourceRef m)"

definition outcome :: "BattleMatch \<Rightarrow> (int \<times> int \<times> int \<times> int \<times> int \<times> int \<times> string) \<times> int \<times> BattleScoreDelta option \<times> string" where
  "outcome m = (core m, bmResult m, bmScoreDelta m, bmReplayRef m)"

lemma Format_ne: "Format i \<noteq> []"
proof -
  have "digits_of n \<noteq> []" for n by (subst digits_of.simps) simp
  then show ?thesis by (simp add: Format_def FormatInt_def)
qed

lemma move_core: "match_move fin source_of most token m m' \<Longrightarrow> core m' = core m"
  by (erule match_move.cases) (auto simp: core_def claim_match_def fail_match_def finish_match_def)

lemma move_unfinished: "match_move fin source_of most token m m' \<Longrightarrow> unfinished m' \<Longrightarrow> unfinished m"
  by (erule match_move.cases) (auto simp: unfinished_def claim_match_def fail_match_def finish_match_def)

lemma move_row:
  assumes "match_move fin source_of most token m m'" and "row_ok tokens most m" and "set_option token \<subseteq> tokens'" and "tokens \<subseteq> tokens'"
  shows "row_ok tokens' most m'"
  using assms(1)
proof cases
  case same
  then show ?thesis using assms(2,4) by (auto simp: row_ok_def)
next
  case (claimed k u)
  then show ?thesis using assms(2,3) by (auto simp: row_ok_def claim_match_def no_task_def)
next
  case (renewed u)
  then show ?thesis using assms(2,4) by (simp add: row_ok_def no_task_def) blast
next
  case (begun taskID sandbox)
  then show ?thesis using assms(2) by (simp add: row_ok_def no_task_def Format_ne)
next
  case (failed now)
  then show ?thesis using assms(2) by (simp add: row_ok_def fail_match_def)
next
  case (finished item now)
  then show ?thesis using assms(2) by (simp add: row_ok_def finish_match_def)
next
  case (delivering k u)
  then show ?thesis using assms(2) by (auto simp: row_ok_def)
next
  case (delivered now)
  then show ?thesis using assms(2) by (auto simp: row_ok_def)
qed

lemma move_outcome:
  assumes "match_move False source_of most token m m'"
  shows "(bmStatus m' = 3 \<longleftrightarrow> bmStatus m = 3) \<and> (bmStatus m = 3 \<longrightarrow> outcome m' = outcome m)"
  using assms by (cases rule: match_move.cases) (auto simp: outcome_def core_def claim_match_def fail_match_def)

lemma move_done: "match_move fin source_of most token m m' \<Longrightarrow> bmStatus m = 3 \<Longrightarrow> bmStatus m' = 3 \<and> bmJudgeTaskRef m' = bmJudgeTaskRef m"
  by (erule match_move.cases) (auto simp: no_task_def)

definition task_source :: "(int \<Rightarrow> string) \<Rightarrow> BattleMatch \<Rightarrow> bool" where
  "task_source source_of m \<longleftrightarrow> no_task m \<or> (\<exists>taskID. bmJudgeTaskRef m = Format taskID \<and> source_of taskID = bmSourceRef m)"

lemma move_source: "match_move fin source_of most token m m' \<Longrightarrow> task_source source_of m \<Longrightarrow> task_source source_of m'"
  by (erule match_move.cases) (auto simp: task_source_def no_task_def claim_match_def fail_match_def finish_match_def)

definition rows_ok :: "(int \<Rightarrow> string) \<Rightarrow> string set \<Rightarrow> int \<Rightarrow> battle_store \<Rightarrow> bool" where
  "rows_ok source_of tokens most bs \<longleftrightarrow>
     distinct (map bmID (bsMatches bs)) \<and> distinct (map (\<lambda>m. (bmTenantID m, bmSourceRef m)) (bsMatches bs)) \<and>
     (\<forall>m \<in> set (bsMatches bs). row_ok tokens most m \<and> task_source source_of m)"

lemma all2_map: "list_all2 P xs ys \<Longrightarrow> (\<And>x y. P x y \<Longrightarrow> f y = f x) \<Longrightarrow> map f ys = map f xs"
  by (induction rule: list_all2_induct) auto

lemma all2_right: "list_all2 P xs ys \<Longrightarrow> y \<in> set ys \<Longrightarrow> \<exists>x \<in> set xs. P x y"
  by (induction rule: list_all2_induct) auto

lemma all2_left: "list_all2 P xs ys \<Longrightarrow> x \<in> set xs \<Longrightarrow> \<exists>y \<in> set ys. P x y"
  by (induction rule: list_all2_induct) auto

lemma moves_core:
  assumes "matches_move fin source_of most token bs bs'"
  shows "map core (bsMatches bs') = map core (bsMatches bs)"
  using assms by (auto simp: matches_move_def intro!: all2_map move_core)

lemma core_fields:
  "map core ms' = map core ms \<Longrightarrow> map bmID ms' = map bmID ms \<and>
     map (\<lambda>m. (bmTenantID m, bmSourceRef m)) ms' = map (\<lambda>m. (bmTenantID m, bmSourceRef m)) ms"
proof -
  assume *: "map core ms' = map core ms"
  have "map g ms' = map g ms" if "\<And>m. g m = f (core m)" for g :: "BattleMatch \<Rightarrow> 'a" and f
  proof -
    have "map g xs = map f (map core xs)" for xs using that by simp
    then show ?thesis by (simp only: *)
  qed
  from this [of bmID fst] this [of "\<lambda>m. (bmTenantID m, bmSourceRef m)" "\<lambda>(i, t, c, p, a, b, r). (t, r)"]
  show ?thesis by (simp add: core_def)
qed

lemma moves_rows:
  assumes "matches_move fin source_of most token bs bs'" and "rows_ok source_of tokens most bs"
    and "set_option token \<subseteq> tokens'" and "tokens \<subseteq> tokens'"
  shows "rows_ok source_of tokens' most bs'"
proof -
  have "row_ok tokens' most m \<and> task_source source_of m" if mem: "m \<in> set (bsMatches bs')" for m
  proof -
    obtain r where "r \<in> set (bsMatches bs)" "match_move fin source_of most token r m"
      using all2_right [OF conjunct1 [OF assms(1) [unfolded matches_move_def]] mem] by blast
    then show ?thesis using move_row [OF _ _ assms(3,4)] move_source assms(2) by (auto simp: rows_ok_def)
  qed
  then show ?thesis using assms(2) core_fields [OF moves_core [OF assms(1)]] by (simp add: rows_ok_def)
qed

subsection \<open>Entries and pairings\<close>

definition slot :: "BattleEntry \<Rightarrow> int \<times> int \<times> int \<times> int \<times> int" where
  "slot e = (bnTenantID e, bnContestID e, bnProblemID e, bnTeamID e, bnRole e)"

lemma entry_slot_iff: "entry_slot t c p te r e \<longleftrightarrow> slot e = (t, c, p, te, r)"
  by (auto simp: entry_slot_def slot_def)

definition entries_ok :: "BattleEntry list \<Rightarrow> bool" where
  "entries_ok es \<longleftrightarrow>
     distinct (map bnID es) \<and> distinct (map (\<lambda>e. (slot e, bnVersionNo e)) es) \<and>
     distinct (map slot (filter bnIsActive es)) \<and> (\<forall>e \<in> set es. 0 < bnVersionNo e)"

definition roles_pair :: "int \<Rightarrow> int \<Rightarrow> bool" where
  "roles_pair a b \<longleftrightarrow> (a, b) \<in> {(BattleRoleStrategy, BattleRoleStrategy), (BattleRoleAttack, BattleRoleDefense), (BattleRoleDefense, BattleRoleAttack)}"

definition paired :: "BattleEntry list \<Rightarrow> BattleMatch \<Rightarrow> bool" where
  "paired es m \<longleftrightarrow> (\<exists>a \<in> set es. \<exists>b \<in> set es. bnID a = bmEntryAID m \<and> bnID b = bmEntryBID m \<and>
     bnTenantID a = bmTenantID m \<and> bnTenantID b = bmTenantID m \<and> bnContestID a = bmContestID m \<and> bnContestID b = bmContestID m \<and>
     bnProblemID a = bmProblemID m \<and> bnProblemID b = bmProblemID m \<and> bnTeamID a \<noteq> bnTeamID b \<and> roles_pair (bnRole a) (bnRole b))"

lemma paired_core: "core m' = core m \<Longrightarrow> paired es m' = paired es m"
  by (simp add: core_def paired_def)

text \<open>An entry as the pairings see it.\<close>

definition entry_core :: "BattleEntry \<Rightarrow> int \<times> (int \<times> int \<times> int \<times> int \<times> int) \<times> int" where
  "entry_core e = (bnID e, slot e, bnVersionNo e)"

lemma paired_entries:
  assumes "entry_core ` set es \<subseteq> entry_core ` set es'" and "paired es m"
  shows "paired es' m"
proof -
  have mem: "\<exists>f \<in> set es'. entry_core f = entry_core e" if "e \<in> set es" for e
  proof -
    have "entry_core e \<in> entry_core ` set es'" using that assms(1) by blast
    then show ?thesis by (metis imageE)
  qed
  from assms(2) obtain a b where ab: "a \<in> set es" "b \<in> set es" "bnID a = bmEntryAID m" "bnID b = bmEntryBID m"
      "bnTenantID a = bmTenantID m" "bnTenantID b = bmTenantID m" "bnContestID a = bmContestID m" "bnContestID b = bmContestID m"
      "bnProblemID a = bmProblemID m" "bnProblemID b = bmProblemID m" "bnTeamID a \<noteq> bnTeamID b" "roles_pair (bnRole a) (bnRole b)"
    unfolding paired_def by blast
  obtain a' b' where "a' \<in> set es'" "entry_core a' = entry_core a" "b' \<in> set es'" "entry_core b' = entry_core b"
    using mem ab(1,2) by blast
  with ab show ?thesis unfolding paired_def by (intro bexI [of _ a'] bexI [of _ b']) (auto simp: entry_core_def slot_def)
qed

end
