(* ===== verification/BattleFence.thy ===== *)
theory BattleFence
  imports BattleInvariant
begin

section \<open>Contest module: battles and the life of their contest\<close>

text \<open>
  Which contest a match belongs to: a contest that is archived or leased for archiving has no
  unfinished match, and none is added. Then what a new entry adds to the tables.
\<close>

subsection \<open>Changes of contests\<close>

text \<open>What the handlers of the contest services do to the contests, as the battles see it.\<close>

definition contests_move :: "contest_store \<Rightarrow> contest_store \<Rightarrow> bool" where
  "contests_move db db' \<longleftrightarrow>
     (\<forall>c' \<in> set (dbContests db'). ctStatus c' \<le> 5 \<or>
        (\<exists>c \<in> set (dbContests db). contest_key (ctTenantID c') (ctID c') c \<and> ctStatus c = ctStatus c')) \<and>
     (\<forall>c \<in> set (dbContests db). \<exists>c' \<in> set (dbContests db'). contest_key (ctTenantID c) (ctID c) c' \<and>
        (5 \<le> ctStatus c \<longrightarrow> ctStatus c' = ctStatus c) \<and> (3 \<le> ctStatus c \<longrightarrow> 3 \<le> ctStatus c'))"

lemma contests_move_same: "dbContests db' = dbContests db \<Longrightarrow> contests_move db db'"
  by (auto simp: contests_move_def contest_key_def)

lemma contests_move_trans:
  assumes "contests_move db db'" and "contests_move db' db''"
  shows "contests_move db db''"
proof -
  have "ctStatus c'' \<le> 5 \<or> (\<exists>c \<in> set (dbContests db). contest_key (ctTenantID c'') (ctID c'') c \<and> ctStatus c = ctStatus c'')"
    if mem: "c'' \<in> set (dbContests db'')" for c''
    using assms mem unfolding contests_move_def contest_key_def by metis
  moreover have "\<exists>c'' \<in> set (dbContests db''). contest_key (ctTenantID c) (ctID c) c'' \<and>
        (5 \<le> ctStatus c \<longrightarrow> ctStatus c'' = ctStatus c) \<and> (3 \<le> ctStatus c \<longrightarrow> 3 \<le> ctStatus c'')"
    if mem: "c \<in> set (dbContests db)" for c
  proof -
    obtain c' where c': "c' \<in> set (dbContests db')" "contest_key (ctTenantID c) (ctID c) c'"
        "5 \<le> ctStatus c \<longrightarrow> ctStatus c' = ctStatus c" "3 \<le> ctStatus c \<longrightarrow> 3 \<le> ctStatus c'"
      using assms(1) mem unfolding contests_move_def by blast
    obtain c'' where "c'' \<in> set (dbContests db'')" "contest_key (ctTenantID c') (ctID c') c''"
        "5 \<le> ctStatus c' \<longrightarrow> ctStatus c'' = ctStatus c'" "3 \<le> ctStatus c' \<longrightarrow> 3 \<le> ctStatus c''"
      using assms(2) c'(1) unfolding contests_move_def by blast
    then show ?thesis using c' by (intro bexI [of _ c'']) (auto simp: contest_key_def)
  qed
  ultimately show ?thesis unfolding contests_move_def by blast
qed

lemma upd_contests_move:
  assumes "\<And>c. c \<in> set (dbContests db) \<Longrightarrow> p c \<Longrightarrow> ctID (f c) = ctID c \<and> ctTenantID (f c) = ctTenantID c \<and>
      (3 \<le> ctStatus c \<longrightarrow> 3 \<le> ctStatus (f c)) \<and> (5 \<le> ctStatus c \<longrightarrow> ctStatus (f c) = ctStatus c) \<and> (ctStatus c \<le> 4 \<longrightarrow> ctStatus (f c) \<le> 5)"
  shows "contests_move db (db\<lparr>dbContests := upd_rows p f (dbContests db)\<rparr>)"
proof -
  have "ctStatus c' \<le> 5 \<or> (\<exists>c \<in> set (dbContests db). contest_key (ctTenantID c') (ctID c') c \<and> ctStatus c = ctStatus c')"
    if mem: "c' \<in> set (upd_rows p f (dbContests db))" for c'
  proof -
    obtain c where c: "c \<in> set (dbContests db)" "c' = (if p c then f c else c)" using upd_rows_set [OF mem] by blast
    then show ?thesis using assms [OF c(1)] by (cases "p c \<and> ctStatus c \<le> 4") (auto simp: contest_key_def)
  qed
  moreover have "\<exists>c' \<in> set (upd_rows p f (dbContests db)). contest_key (ctTenantID c) (ctID c) c' \<and>
        (5 \<le> ctStatus c \<longrightarrow> ctStatus c' = ctStatus c) \<and> (3 \<le> ctStatus c \<longrightarrow> 3 \<le> ctStatus c')" if "c \<in> set (dbContests db)" for c
    using upd_rows_mem [OF that, of p f] assms [OF that] by (intro bexI) (auto simp: contest_key_def)
  ultimately show ?thesis unfolding contests_move_def by simp
qed

lemma row_change_move: "row_change now db db' \<Longrightarrow> contests_move db db'"
proof (erule row_change.cases)
  fix p f db0
  assume "db = db0" and "db' = db0\<lparr>dbContests := upd_rows p f (dbContests db0)\<rparr>" and
    "\<And>c. c \<in> set (dbContests db0) \<Longrightarrow> p c \<Longrightarrow> ctID (f c) = ctID c \<and> ctTenantID (f c) = ctTenantID c \<and>
        (contest_ok now c \<longrightarrow> contest_ok now (f c)) \<and> (3 \<le> ctStatus c \<longrightarrow> 3 \<le> ctStatus (f c) \<and> ctEndAt (f c) = ctEndAt c) \<and>
        (5 \<le> ctStatus c \<longrightarrow> ctStatus (f c) = ctStatus c) \<and> (ctStatus c \<le> 4 \<longrightarrow> ctStatus (f c) \<le> 5)"
  then show "contests_move db db'" using upd_contests_move by blast
next
  fix c db0
  assume "db = db0" and "db' = db0\<lparr>dbContests := dbContests db0 @ [c]\<rparr>" and "ctStatus c \<le> 2"
  then show "contests_move db db'" by (auto simp: contests_move_def contest_key_def)
qed (auto intro: contests_move_same)

lemma row_changes_move: "row_changes now db db' \<Longrightarrow> contests_move db db'"
  by (induction rule: rtranclp_induct) (auto intro: contests_move_same contests_move_trans row_change_move)

lemma grants_keep_contests:
  "foldR (\<lambda>db m. UpsertContestAccessGrant now db (item m)) db ms = Inr db' \<Longrightarrow> dbContests db' = dbContests db"
proof (induction ms arbitrary: db)
  case (Cons m ms)
  then obtain d where d: "UpsertContestAccessGrant now db (item m) = Inr d"
      "foldR (\<lambda>db m. UpsertContestAccessGrant now db (item m)) d ms = Inr db'"
    by (auto simp: bindR_Inr)
  then have "dbContests d = dbContests db" by (auto simp: UpsertContestAccessGrant_def split: if_splits)
  then show ?case using Cons.IH [OF d(2)] by simp
qed simp

lemma contest_step_move:
  assumes "contest_step hash8 sandbox_ref s s'" and "system_ok sandbox_ref s"
  shows "contests_move (sysDB s) (sysDB s')"
proof -
  have "contests_ok (sysNow s) (sysDB s)" "teams_ok (sysDB s)" using assms(2) by (simp_all add: system_ok_def)
  with assms(1) show ?thesis
  proof (cases rule: contest_step_kinds)
    case (env_grants env sandboxID newIDs capabilities db)
    then show ?thesis using grants_keep_contests [OF env_grants(4)] contests_move_same by simp
  qed (auto intro: row_changes_move contests_move_same)
qed

subsection \<open>The fence\<close>

definition fence :: "battle_store \<Rightarrow> bool" where
  "fence bs \<longleftrightarrow>
     (\<forall>c \<in> set (dbContests (bsBase bs)). ctStatus c = 6 \<longrightarrow> \<not> open_battles bs (ctTenantID c) (ctID c)) \<and>
     (\<forall>l \<in> set (bsLeases bs). \<not> open_battles bs (alTenantID l) (alContestID l) \<and>
        (\<exists>c \<in> set (dbContests (bsBase bs)). contest_key (alTenantID l) (alContestID l) c \<and> ctStatus c = 5)) \<and>
     (\<forall>m \<in> set (bsMatches bs). \<exists>c \<in> set (dbContests (bsBase bs)). contest_key (bmTenantID m) (bmContestID m) c \<and> 3 \<le> ctStatus c)"

lemma open_battles_mono:
  assumes "\<And>m'. m' \<in> set (bsMatches bs') \<Longrightarrow> unfinished m' \<Longrightarrow> \<exists>m \<in> set (bsMatches bs). core m = core m' \<and> unfinished m"
    and "open_battles bs' t c"
  shows "open_battles bs t c"
proof -
  obtain m' where m': "m' \<in> set (bsMatches bs')" "bmTenantID m' = t" "bmContestID m' = c" "unfinished m'"
    using assms(2) by (auto simp: open_battles_def list_ex_iff)
  then obtain m where "m \<in> set (bsMatches bs)" "core m = core m'" "unfinished m" using assms(1) by blast
  then show ?thesis using m' by (auto simp: open_battles_def list_ex_iff core_def)
qed

lemma moves_unfinished:
  assumes "matches_move fin source_of most token bs bs'" and "m' \<in> set (bsMatches bs')" and "unfinished m'"
  shows "\<exists>m \<in> set (bsMatches bs). core m = core m' \<and> unfinished m"
proof -
  obtain m where "m \<in> set (bsMatches bs)" "match_move fin source_of most token m m'"
    using all2_right [OF conjunct1 [OF assms(1) [unfolded matches_move_def]] assms(2)] by blast
  then show ?thesis using move_core move_unfinished assms(3) by metis
qed

lemma moves_fence:
  assumes "matches_move fin source_of most token bs bs'" and "fence bs"
  shows "fence bs'"
proof -
  have o: "open_battles bs' t c \<Longrightarrow> open_battles bs t c" for t c
    using open_battles_mono moves_unfinished [OF assms(1)] by blast
  have same: "bsBase bs' = bsBase bs" "bsLeases bs' = bsLeases bs" using assms(1) by (auto simp: matches_move_def)
  have "\<exists>c \<in> set (dbContests (bsBase bs)). contest_key (bmTenantID m) (bmContestID m) c \<and> 3 \<le> ctStatus c"
    if mem: "m \<in> set (bsMatches bs')" for m
  proof -
    obtain r where "r \<in> set (bsMatches bs)" "match_move fin source_of most token r m"
      using all2_right [OF conjunct1 [OF assms(1) [unfolded matches_move_def]] mem] by blast
    then show ?thesis using assms(2) move_core [of fin source_of most token r m] by (auto simp: fence_def core_def)
  qed
  then show ?thesis using assms(2) o unfolding fence_def same by blast
qed

lemma contests_fence:
  assumes "contests_move (bsBase bs) db" and "fence bs"
  shows "fence (bs\<lparr>bsBase := db\<rparr>)"
proof -
  have o: "open_battles (bs\<lparr>bsBase := db\<rparr>) t c = open_battles bs t c" for t c by (simp add: open_battles_def)
  have "\<not> open_battles bs (ctTenantID c') (ctID c')" if mem: "c' \<in> set (dbContests db)" "ctStatus c' = 6" for c'
  proof -
    obtain c where "c \<in> set (dbContests (bsBase bs))" "contest_key (ctTenantID c') (ctID c') c" "ctStatus c = 6"
      using assms(1) mem unfolding contests_move_def by fastforce
    then show ?thesis using assms(2) by (auto simp: fence_def contest_key_def)
  qed
  moreover have "\<exists>c' \<in> set (dbContests db). contest_key t i c' \<and> ctStatus c' = 5"
    if "c \<in> set (dbContests (bsBase bs))" and "contest_key t i c" and "ctStatus c = 5" for t i c
    using assms(1) that unfolding contests_move_def contest_key_def by fastforce
  moreover have "\<exists>c' \<in> set (dbContests db). contest_key t i c' \<and> 3 \<le> ctStatus c'"
    if "c \<in> set (dbContests (bsBase bs))" and "contest_key t i c" and "3 \<le> ctStatus c" for t i c
    using assms(1) that unfolding contests_move_def contest_key_def by fastforce
  ultimately show ?thesis using assms(2) unfolding fence_def o by simp blast
qed

end
