(* ===== verification/BattleSubmit.thy ===== *)
theory BattleSubmit
  imports BattleFence
begin

section \<open>Contest module: a new battle entry\<close>

text \<open>
  What the transaction of \<open>SubmitBattleEntry\<close> adds: an active entry that replaces the version before it,
  and a pending match against each compatible opponent.
\<close>

subsection \<open>New matches\<close>

definition grown :: "(BattleMatch \<Rightarrow> bool) \<Rightarrow> battle_store \<Rightarrow> battle_store \<Rightarrow> bool" where
  "grown P bs bs' \<longleftrightarrow>
     (\<exists>ms. bsMatches bs' = bsMatches bs @ ms \<and> (\<forall>m \<in> set ms. P m)) \<and>
     (distinct (map bmID (bsMatches bs)) \<longrightarrow> distinct (map bmID (bsMatches bs'))) \<and>
     (distinct (map (\<lambda>m. (bmTenantID m, bmSourceRef m)) (bsMatches bs)) \<longrightarrow>
       distinct (map (\<lambda>m. (bmTenantID m, bmSourceRef m)) (bsMatches bs'))) \<and>
     bsBase bs' = bsBase bs \<and> bsEntries bs' = bsEntries bs \<and> bsLeases bs' = bsLeases bs"

lemma grown_refl: "grown P bs bs"
  by (simp add: grown_def)

lemma grown_trans: "grown P bs bs' \<Longrightarrow> grown P bs' bs'' \<Longrightarrow> grown P bs bs''"
  by (auto simp: grown_def)

definition fresh_match :: "contest_store \<Rightarrow> BattleEntry \<Rightarrow> BattleEntry list \<Rightarrow> BattleMatch \<Rightarrow> bool" where
  "fresh_match db entry opponents m \<longleftrightarrow>
     bmStatus m = 1 \<and> no_task m \<and> bmAttemptCount m = 0 \<and> bmFinalizedAt m = None \<and>
     bmTenantID m = bnTenantID entry \<and> bmContestID m = bnContestID entry \<and> bmProblemID m = bnProblemID entry \<and>
     bmEntryAID m = bnID entry \<and> (\<exists>e \<in> set opponents. bmEntryBID m = bnID e \<and> roles_pair (bnRole entry) (bnRole e)) \<and>
     (\<exists>c \<in> set (dbContests db). contest_key (bmTenantID m) (bmContestID m) c \<and> ctStatus c \<in> {3, 4})"

lemma compatible_pair: "battleRolesCompatible rule a b \<Longrightarrow> roles_pair a b"
  by (auto simp: battleRolesCompatible_def roles_pair_def split: if_splits)

lemma CreateBattleMatch_grown:
  assumes "CreateBattleMatch now bs (new_match now i entry e) = Inr (m, bs')"
    and "battleRolesCompatible rule (bnRole entry) (bnRole e)" and "e \<in> set opponents"
  shows "grown (fresh_match (bsBase bs) entry opponents) bs bs'"
proof -
  have bs': "bs' = bs\<lparr>bsMatches := bsMatches bs @ [m]\<rparr>"
    and m: "bmID m = i" "bmTenantID m = bnTenantID entry" "bmContestID m = bnContestID entry" "bmProblemID m = bnProblemID entry"
      "bmEntryAID m = bnID entry" "bmEntryBID m = bnID e" "bmStatus m = 1" "no_task m" "bmAttemptCount m = 0" "bmFinalizedAt m = None"
      "bmSourceRef m = battleSourceRef i now"
    and c: "\<exists>c \<in> set (dbContests (bsBase bs)). contest_key (bnTenantID entry) (bnContestID entry) c \<and> ctStatus c \<in> {3, 4}"
    and fresh: "\<forall>r \<in> set (bsMatches bs). bmID r \<noteq> i \<and> \<not> (bmTenantID r = bnTenantID entry \<and> bmSourceRef r = battleSourceRef i now)"
    using assms(1) by (auto simp: CreateBattleMatch_def Let_def new_match_def no_task_def list_ex_iff split: if_splits)
  have "fresh_match (bsBase bs) entry opponents m"
    using m c assms(3) compatible_pair [OF assms(2)] by (auto simp: fresh_match_def)
  then show ?thesis using fresh m(1,2,11) by (auto simp: grown_def bs')
qed

lemma pairs_grown:
  assumes "foldR (pair_step now matchID rule entry) bs es = Inr bs'" and "set es \<subseteq> set opponents" and "bsBase bs = db"
  shows "grown (fresh_match db entry opponents) bs bs'"
  using assms
proof (induction es arbitrary: bs)
  case (Cons e es)
  then obtain bs1 where bs1: "pair_step now matchID rule entry bs e = Inr bs1" "foldR (pair_step now matchID rule entry) bs1 es = Inr bs'"
    by (auto simp: bindR_Inr)
  have g: "grown (fresh_match db entry opponents) bs bs1"
  proof (cases "battleRolesCompatible rule (bnRole entry) (bnRole e)")
    case True
    then obtain m where "CreateBattleMatch now bs (new_match now (matchID e) entry e) = Inr (m, bs1)"
      using bs1(1) by (auto simp: pair_step_def bindR_Inr)
    then show ?thesis using CreateBattleMatch_grown [OF _ True] Cons.prems by auto
  qed (use bs1(1) in \<open>simp add: pair_step_def grown_refl\<close>)
  then have "bsBase bs1 = db" using Cons.prems(3) by (simp add: grown_def)
  then show ?case using Cons.IH [OF bs1(2)] Cons.prems(2) grown_trans [OF g] by simp
qed (simp add: grown_refl)

subsection \<open>The entry\<close>

lemma NextBattleVersion_fresh:
  assumes "\<forall>e \<in> set (bsEntries bs). 0 < bnVersionNo e"
  shows "0 < NextBattleVersion bs t c p te r \<and>
    (\<forall>e \<in> set (bsEntries bs). entry_slot t c p te r e \<longrightarrow> bnVersionNo e < NextBattleVersion bs t c p te r)"
proof -
  define vs where "vs = map bnVersionNo (filter (entry_slot t c p te r) (bsEntries bs))"
  have n: "NextBattleVersion bs t c p te r = (if vs = [] then 0 else Max (set vs)) + 1"
    by (simp add: NextBattleVersion_def vs_def Let_def)
  have le: "v \<le> Max (set vs)" if "v \<in> set vs" for v using that by simp
  have pos: "0 < v" if "v \<in> set vs" for v using that assms by (auto simp: vs_def)
  show ?thesis
  proof (cases "vs = []")
    case True
    then show ?thesis by (auto simp: n vs_def filter_empty_conv)
  next
    case False
    then have "0 < Max (set vs)" using pos Max_in [of "set vs"] by simp
    moreover have "bnVersionNo e \<in> set vs" if "e \<in> set (bsEntries bs)" "entry_slot t c p te r e" for e
      using that by (auto simp: vs_def)
    ultimately show ?thesis using le False by (fastforce simp: n)
  qed
qed

lemma deactivated_core: "map entry_core (bsEntries (DeactivateBattleEntries bs t c p te r)) = map entry_core (bsEntries bs)"
  by (simp add: DeactivateBattleEntries_def upd_rows_map entry_core_def slot_def)

lemma active_filter_upd:
  "filter bnIsActive (upd_rows p (\<lambda>e. e\<lparr>bnIsActive := False\<rparr>) es) = filter (\<lambda>e. bnIsActive e \<and> \<not> p e) es"
  by (induction es) auto

lemma entry_added:
  assumes "CreateBattleEntry now (DeactivateBattleEntries bs t c p te r) item = Inr (row, bs1)"
    and "slot item = (t, c, p, te, r)" and "entries_ok (bsEntries bs)"
  shows "entries_ok (bsEntries bs1) \<and> entry_core ` set (bsEntries bs) \<subseteq> entry_core ` set (bsEntries bs1) \<and>
    row \<in> set (bsEntries bs1) \<and> bnID row = bnID item \<and> slot row = (t, c, p, te, r) \<and>
    map entry_core (bsEntries bs1) = map entry_core (bsEntries bs) @ [entry_core row] \<and>
    bsBase bs1 = bsBase bs \<and> bsMatches bs1 = bsMatches bs \<and> bsLeases bs1 = bsLeases bs"
proof -
  define bs0 where "bs0 = DeactivateBattleEntries bs t c p te r"
  have core: "map entry_core (bsEntries bs0) = map entry_core (bsEntries bs)" by (simp add: bs0_def deactivated_core)
  have row: "row = item\<lparr>bnIsActive := True, bnSubmittedAt := now\<rparr>" and bs1: "bs1 = bs0\<lparr>bsEntries := bsEntries bs0 @ [row]\<rparr>"
    and fresh: "\<And>e. e \<in> set (bsEntries bs0) \<Longrightarrow> bnID e \<noteq> bnID row \<and> \<not> (slot e = slot row \<and> bnVersionNo e = bnVersionNo row)"
    and pos: "0 < bnVersionNo row"
    using assms(1) unfolding bs0_def [symmetric]
    by (auto simp: CreateBattleEntry_def Let_def list_ex_iff entry_slot_iff slot_def entry_slot_def split: if_splits)
  have s: "slot row = (t, c, p, te, r)" using assms(2) by (simp add: row slot_def)
  have act: "filter bnIsActive (bsEntries bs1) = filter (\<lambda>e. bnIsActive e \<and> slot e \<noteq> slot row) (bsEntries bs) @ [row]"
    unfolding s by (simp add: bs1 bs0_def DeactivateBattleEntries_def active_filter_upd entry_slot_iff row)
  have "distinct (map slot (filter bnIsActive (bsEntries bs)))" using assms(3) by (simp add: entries_ok_def)
  then have "distinct (map slot (filter (\<lambda>e. slot e \<noteq> slot row) (filter bnIsActive (bsEntries bs))))" by (rule distinct_map_filter)
  then have a: "distinct (map slot (filter bnIsActive (bsEntries bs1)))" by (auto simp: act conj_commute)
  have eqs: "map bnID (bsEntries bs0) = map bnID (bsEntries bs)"
      "map (\<lambda>e. (slot e, bnVersionNo e)) (bsEntries bs0) = map (\<lambda>e. (slot e, bnVersionNo e)) (bsEntries bs)"
      "map bnVersionNo (bsEntries bs0) = map bnVersionNo (bsEntries bs)"
    by (simp_all add: bs0_def DeactivateBattleEntries_def upd_rows_map slot_def)
  have "\<forall>v \<in> set (map bnVersionNo (bsEntries bs0)). 0 < v" unfolding eqs using assms(3) by (simp add: entries_ok_def)
  moreover have "distinct (map bnID (bsEntries bs0))" "distinct (map (\<lambda>e. (slot e, bnVersionNo e)) (bsEntries bs0))"
    unfolding eqs using assms(3) by (simp_all add: entries_ok_def)
  ultimately have "entries_ok (bsEntries bs1)" using fresh pos a by (fastforce simp: entries_ok_def bs1)
  moreover have "entry_core ` set (bsEntries bs) \<subseteq> entry_core ` set (bsEntries bs1)"
    using core by (auto simp: bs1 simp flip: set_map)
  ultimately show ?thesis using s core by (simp add: bs1 row bs0_def DeactivateBattleEntries_def)
qed

lemma SubmitBattleEntry_shape:
  assumes "SubmitBattleEntry_commit cfg now entryID matchID tenantID i contestID req problem team ref hash bs = Inr (e, bs')"
    and "entries_ok (bsEntries bs)"
  obtains bs1 opponents where "entries_ok (bsEntries bs1)" and "entry_core ` set (bsEntries bs) \<subseteq> entry_core ` set (bsEntries bs1)"
    and "map entry_core (bsEntries bs1) = map entry_core (bsEntries bs) @ [entry_core e]"
    and "e \<in> set (bsEntries bs1)" and "bsBase bs1 = bsBase bs" and "bsMatches bs1 = bsMatches bs" and "bsLeases bs1 = bsLeases bs"
    and "\<forall>f \<in> set opponents. f \<in> set (bsEntries bs1) \<and> bnTenantID f = bnTenantID e \<and> bnContestID f = bnContestID e \<and>
           bnProblemID f = bnProblemID e \<and> bnTeamID f \<noteq> bnTeamID e"
    and "grown (fresh_match (bsBase bs) e opponents) bs1 bs'"
proof -
  obtain cc :: Contest and cp :: ContestProblem and ct :: Team and bs1 opponents where *: "CreateBattleEntry now (DeactivateBattleEntries bs tenantID contestID (beProblemID req) (teID ct) (beRole req))
        \<lparr>bnID = entryID, bnTenantID = tenantID, bnContestID = contestID, bnProblemID = beProblemID req,
         bnTeamID = teID ct, bnRole = beRole req, bnArtifactRef = ref, bnArtifactHash = hash,
         bnVersionNo = NextBattleVersion bs tenantID contestID (beProblemID req) (teID ct) (beRole req), bnIsActive = True, bnSubmittedAt = 0\<rparr> = Inr (e, bs1)"
      "ListActiveBattleOpponents bs1 tenantID contestID (beProblemID req) (bnID e) (teID ct) (ctMatchMode cc) (bcBatchSize cfg) (bcELOInitialScore cfg) = Inr opponents"
      "foldR (pair_step now matchID (cpBattleRule cp) e) bs1 opponents = Inr bs'"
    using assms(1) unfolding SubmitBattleEntry_commit_def Let_def bindR_Inr thenR_Inr split_paired_Ex prod.case sum.inject prod.inject by blast
  note added = entry_added [OF *(1) _ assms(2)]
  have a: "entries_ok (bsEntries bs1)" "entry_core ` set (bsEntries bs) \<subseteq> entry_core ` set (bsEntries bs1)" "e \<in> set (bsEntries bs1)"
      "slot e = (tenantID, contestID, beProblemID req, teID ct, beRole req)" "bsBase bs1 = bsBase bs" "bsMatches bs1 = bsMatches bs"
      "bsLeases bs1 = bsLeases bs" "map entry_core (bsEntries bs1) = map entry_core (bsEntries bs) @ [entry_core e]"
    using added by (simp_all add: slot_def)
  have "\<forall>f \<in> set opponents. f \<in> set (bsEntries bs1) \<and> bnTenantID f = bnTenantID e \<and> bnContestID f = bnContestID e \<and>
           bnProblemID f = bnProblemID e \<and> bnTeamID f \<noteq> bnTeamID e"
    using *(2) a(4) by (auto simp: ListActiveBattleOpponents_def slot_def split: prod.splits if_splits dest!: in_set_takeD)
  then show thesis using that [OF a(1,2,8,3,5,6,7) _ pairs_grown [OF *(3) order.refl a(5)]] by blast
qed

lemma fresh_paired:
  assumes "fresh_match db e opponents m" and "e \<in> set es"
    and "\<forall>f \<in> set opponents. f \<in> set es \<and> bnTenantID f = bnTenantID e \<and> bnContestID f = bnContestID e \<and>
           bnProblemID f = bnProblemID e \<and> bnTeamID f \<noteq> bnTeamID e"
  shows "paired es m"
proof -
  obtain f where "f \<in> set opponents" "bmEntryBID m = bnID f" "roles_pair (bnRole e) (bnRole f)"
    using assms(1) by (auto simp: fresh_match_def)
  then show ?thesis using assms unfolding paired_def fresh_match_def by (intro bexI [of _ e] bexI [of _ f]) auto
qed

lemma fresh_row: "fresh_match db e opponents m \<Longrightarrow> row_ok tokens most m \<and> task_source source_of m"
  by (auto simp: fresh_match_def row_ok_def task_source_def)

lemma grown_fence:
  assumes "grown (fresh_match (bsBase bs) e opponents) bs bs'" and "fence bs" and "contests_ok now (bsBase bs)"
  shows "fence bs'"
proof -
  obtain ms where ms: "bsMatches bs' = bsMatches bs @ ms" "\<And>m. m \<in> set ms \<Longrightarrow> fresh_match (bsBase bs) e opponents m"
    and same: "bsBase bs' = bsBase bs" "bsLeases bs' = bsLeases bs"
    using assms(1) by (auto simp: grown_def)
  have one: "c = d" if "c \<in> set (dbContests (bsBase bs))" "d \<in> set (dbContests (bsBase bs))" "ctID c = ctID d" for c d
    using that assms(3) by (auto simp: contests_ok_def distinct_map inj_on_def)
  have o: "open_battles bs t i" if op: "open_battles bs' t i" and c: "c \<in> set (dbContests (bsBase bs))" "contest_key t i c" "5 \<le> ctStatus c" for t i c
  proof (rule ccontr)
    assume "\<not> open_battles bs t i"
    then obtain m where "m \<in> set ms" "bmTenantID m = t" "bmContestID m = i"
      using op by (auto simp: open_battles_def list_ex_iff ms(1))
    then obtain d where "d \<in> set (dbContests (bsBase bs))" "contest_key t i d" "ctStatus d \<in> {3, 4}"
      using ms(2) unfolding fresh_match_def by blast
    then show False using one [of c d] c by (auto simp: contest_key_def)
  qed
  have "\<exists>c \<in> set (dbContests (bsBase bs)). contest_key (bmTenantID m) (bmContestID m) c \<and> 3 \<le> ctStatus c"
    if "m \<in> set (bsMatches bs')" for m
    using that ms assms(2) by (fastforce simp: fence_def fresh_match_def)
  moreover have "\<not> open_battles bs' (ctTenantID c) (ctID c)" if "c \<in> set (dbContests (bsBase bs))" "ctStatus c = 6" for c
    using o [of _ _ c] that assms(2) by (auto simp: fence_def contest_key_def)
  moreover have "\<not> open_battles bs' (alTenantID l) (alContestID l)" if leased: "l \<in> set (bsLeases bs)" for l
  proof -
    obtain c where "c \<in> set (dbContests (bsBase bs))" "contest_key (alTenantID l) (alContestID l) c" "ctStatus c = 5"
        "\<not> open_battles bs (alTenantID l) (alContestID l)"
      using assms(2) leased by (auto simp: fence_def)
    then show ?thesis using o [of _ _ c] by auto
  qed
  ultimately show ?thesis using assms(2) by (simp add: fence_def same)
qed

end
