(* ===== verification/BattleLadder.thy ===== *)
theory BattleLadder
  imports BattleSubmit
begin

section \<open>Contest module: the ladder of a battle contest\<close>

text \<open>
  The ladder as a function of the settled matches: a team's rating is the initial score with its deltas
  applied one after the other, each rounded to the column's hundredths.
\<close>

subsection \<open>Replaying matches\<close>

definition play :: "real \<Rightarrow> real list \<Rightarrow> real" where
  "play initial ds = foldl (\<lambda>s d. hundredths (stored_score (s + d))) initial ds"

definition team_delta :: "int \<Rightarrow> int \<Rightarrow> int \<Rightarrow> BattleMatch \<Rightarrow> real list" where
  "team_delta t c te m =
     (if bmTenantID m \<noteq> t \<or> bmContestID m \<noteq> c then [] else case bmScoreDelta m of None \<Rightarrow> []
      | Some d \<Rightarrow> if sdTeamAID d = te then [sdDeltaA d] else if sdTeamBID d = te then [sdDeltaB d] else [])"

definition team_deltas :: "int \<Rightarrow> int \<Rightarrow> int \<Rightarrow> BattleMatch list \<Rightarrow> real list" where
  "team_deltas t c te ms = concat (map (team_delta t c te) ms)"

lemma team_deltas_snoc: "team_deltas t c te (ms @ [m]) = team_deltas t c te ms @ team_delta t c te m"
  by (simp add: team_deltas_def)

lemma play_append: "play initial (xs @ ys) = play (play initial xs) ys"
  by (simp add: play_def)

lemma play_simps [simp]: "play initial [] = initial" "play initial [d] = hundredths (stored_score (initial + d))"
  by (simp_all add: play_def)

subsection \<open>One rating\<close>

lemma find_upd:
  assumes "\<And>r. q (f r) = q r"
  shows "find q (upd_rows p f rs) = map_option (\<lambda>r. if p r then f r else r) (find q rs)"
  by (induction rs) (auto simp: assms)

lemma find_app: "find p (xs @ ys) = (case find p xs of None \<Rightarrow> find p ys | Some x \<Rightarrow> Some x)"
  by (induction xs) auto

lemma find_distinct:
  assumes "distinct (map f xs)" and "x \<in> set xs" and "f x = i"
  shows "find (\<lambda>y. f y = i) xs = Some x"
  using assms by (induction xs) (auto simp: image_iff)

lemma rating_refresh: "battleRatingForTeam initial (RefreshContestRanks now db t' c') t c te = battleRatingForTeam initial db t c te"
proof -
  have "find (ladder_key t c te) (upd_rows p (\<lambda>r. r\<lparr>lrRank := g r, lrUpdatedAt := now\<rparr>) rs) =
      map_option (\<lambda>r. if p r then r\<lparr>lrRank := g r, lrUpdatedAt := now\<rparr> else r) (find (ladder_key t c te) rs)" for p g rs
    by (rule find_upd) (simp add: ladder_key_def)
  then show ?thesis
    by (simp add: battleRatingForTeam_def GetLadderByTeam_def RefreshContestRanks_def Let_def split: option.splits)
qed

lemma rating_upsert:
  assumes "UpsertLadder now db item = Inr db'"
  shows "battleRatingForTeam initial db' t c te =
    (if (t, c, te) = (lrTenantID item, lrContestID item, lrTeamID item) then hundredths (lrScore item)
     else battleRatingForTeam initial db t c te)"
proof (cases "list_ex (ladder_key (lrTenantID item) (lrContestID item) (lrTeamID item)) (dbLadder db)")
  case True
  let ?k = "ladder_key (lrTenantID item) (lrContestID item) (lrTeamID item)"
  have db': "db' = db\<lparr>dbLadder := upd_rows ?k (ladder_fields item now) (dbLadder db)\<rparr>"
    using assms True by (simp add: UpsertLadder_def)
  have f: "find (ladder_key t c te) (upd_rows ?k (ladder_fields item now) (dbLadder db)) =
      map_option (\<lambda>r. if ?k r then ladder_fields item now r else r) (find (ladder_key t c te) (dbLadder db))"
    by (rule find_upd) (simp add: ladder_key_def ladder_fields_def)
  show ?thesis
  proof (cases "find (ladder_key t c te) (dbLadder db)")
    case None
    then have "(t, c, te) \<noteq> (lrTenantID item, lrContestID item, lrTeamID item)"
      using True by (auto simp: find_None_iff list_ex_iff)
    then show ?thesis using None by (auto simp: battleRatingForTeam_def GetLadderByTeam_def db' f)
  next
    case (Some r)
    then have "ladder_key t c te r" by (auto dest: find_SomeD)
    then have "?k r \<longleftrightarrow> (t, c, te) = (lrTenantID item, lrContestID item, lrTeamID item)" by (auto simp: ladder_key_def)
    then show ?thesis using Some by (auto simp: battleRatingForTeam_def GetLadderByTeam_def db' f ladder_fields_def)
  qed
next
  case False
  then have db': "db' = db\<lparr>dbLadder := dbLadder db @ [item\<lparr>lrRank := 0, lrUpdatedAt := now\<rparr>]\<rparr>"
    using assms by (auto simp: UpsertLadder_def split: if_splits)
  have "find (ladder_key (lrTenantID item) (lrContestID item) (lrTeamID item)) (dbLadder db) = None"
    using False by (auto simp: find_None_iff list_ex_iff)
  then show ?thesis
    by (cases "find (ladder_key t c te) (dbLadder db)")
      (auto simp: battleRatingForTeam_def GetLadderByTeam_def db' find_app ladder_key_def split: option.splits)
qed

lemma rating_apply:
  assumes "applyBattleRankDelta now i initial db t c te delta = Inr db'"
  shows "battleRatingForTeam initial db' t' c' te' =
    (if (t', c', te') = (t, c, te) then hundredths (stored_score (battleRatingForTeam initial db t c te + delta))
     else battleRatingForTeam initial db t' c' te')"
  using assms rating_upsert [of now db "\<lparr>lrID = i, lrTenantID = t, lrContestID = c, lrTeamID = te,
      lrScore = stored_score (battleRatingForTeam initial db t c te + delta),
      lrSolvedCount = 0, lrLastSolveAt = 0, lrRank = 0, lrUpdatedAt = 0\<rparr>" db' initial t' c' te']
  by (auto simp: applyBattleRankDelta_def Let_def split: if_splits)

lemma upsert_other:
  "UpsertLadder now db item = Inr db' \<Longrightarrow> dbContests db' = dbContests db \<and> dbTeams db' = dbTeams db \<and> dbMembers db' = dbMembers db \<and>
     dbGrants db' = dbGrants db"
  by (auto simp: UpsertLadder_def Let_def split: if_splits)

lemma apply_other:
  "applyBattleRankDelta now i initial db t c te delta = Inr db' \<Longrightarrow> dbContests db' = dbContests db \<and> dbTeams db' = dbTeams db \<and>
     dbMembers db' = dbMembers db \<and> dbGrants db' = dbGrants db"
  by (auto simp: applyBattleRankDelta_def Let_def dest!: upsert_other split: if_splits)

subsection \<open>One settlement\<close>

definition team_of :: "BattleEntry list \<Rightarrow> int \<Rightarrow> int option" where
  "team_of es i = map_option bnTeamID (find (\<lambda>e. bnID e = i) es)"

lemma team_of_core: "team_of es i = map_option (\<lambda>(_, (_, _, _, te, _), _). te) (find (\<lambda>x. fst x = i) (map entry_core es))"
  by (induction es) (auto simp: team_of_def entry_core_def slot_def)

lemma team_of_grows:
  assumes "map entry_core es' = map entry_core es @ xs" and "team_of es i = Some te"
  shows "team_of es' i = Some te"
  using assms by (auto simp: team_of_core find_app)

lemma team_of_entry:
  assumes "GetBattleEntry bs t i = Inr e" and "entries_ok (bsEntries bs)"
  shows "team_of (bsEntries bs) i = Some (bnTeamID e) \<and> e \<in> set (bsEntries bs) \<and> bnID e = i"
proof -
  have "e \<in> set (bsEntries bs)" "bnID e = i" using assms(1) by (auto simp: GetBattleEntry_def one_row_Inr dest: find_SomeD)
  then show ?thesis using find_distinct [of bnID "bsEntries bs" e i] assms(2) by (simp add: team_of_def entries_ok_def)
qed

definition sound_settlement :: "battle_config \<Rightarrow> BattleEntry list \<Rightarrow> BattleMatch list \<Rightarrow> BattleMatch \<Rightarrow> bool" where
  "sound_settlement cfg es pre m \<longleftrightarrow>
     (\<exists>d. bmScoreDelta m = Some d \<and> team_of es (bmEntryAID m) = Some (sdTeamAID d) \<and> team_of es (bmEntryBID m) = Some (sdTeamBID d) \<and>
        sdTeamAID d \<noteq> sdTeamBID d \<and>
        sdRatingABefore d = play (bcELOInitialScore cfg) (team_deltas (bmTenantID m) (bmContestID m) (sdTeamAID d) pre) \<and>
        sdRatingBBefore d = play (bcELOInitialScore cfg) (team_deltas (bmTenantID m) (bmContestID m) (sdTeamBID d) pre) \<and>
        (sdDeltaA d, sdDeltaB d) = battleScoreDelta (bmResult m) (sdRatingABefore d) (sdRatingBBefore d) (bcELOKFactor cfg) \<and>
        sdResult d = bmResult m \<and> bmResult m \<in> {BattleResultAWin, BattleResultBWin, BattleResultDraw})"

definition rated :: "real \<Rightarrow> contest_store \<Rightarrow> BattleMatch list \<Rightarrow> bool" where
  "rated initial db settled \<longleftrightarrow> (\<forall>t c te. battleRatingForTeam initial db t c te = play initial (team_deltas t c te settled))"

lemma rated_ladder: "dbLadder db' = dbLadder db \<Longrightarrow> rated initial db' settled = rated initial db settled"
  by (simp add: rated_def battleRatingForTeam_def GetLadderByTeam_def)

text \<open>The rows of a settlement: the match, and the ladder of its two teams.\<close>

lemma game_result_range: "game_result ds = Inr r \<Longrightarrow> r \<in> {BattleResultAWin, BattleResultBWin, BattleResultDraw}"
  by (induction ds) (auto simp: Let_def split: if_splits)

lemma result_range: "battleResultFromTask result rule a b = Inr r \<Longrightarrow> r \<in> {BattleResultAWin, BattleResultBWin, BattleResultDraw}"
  by (auto simp: battleResultFromTask_def dest: game_result_range split: if_splits)

lemma settle_running_shape:
  assumes "settle_running cfg now idA idB t taskResult replayRef current bs = Inr ((m, committed), bs')"
  obtains a b result delta bs1 dbA dbB where "committed" and "GetBattleEntry bs t (bmEntryAID current) = Inr a"
    and "GetBattleEntry bs t (bmEntryBID current) = Inr b" and "result \<in> {BattleResultAWin, BattleResultBWin, BattleResultDraw}"
    and "delta = score_delta cfg a b (battleRatingForTeam (bcELOInitialScore cfg) (bsBase bs) t (bmContestID current) (bnTeamID a))
                   (battleRatingForTeam (bcELOInitialScore cfg) (bsBase bs) t (bmContestID current) (bnTeamID b)) result"
    and "FinishBattleMatch now bs (current\<lparr>bmResult := result, bmScoreDelta := Some delta, bmReplayRef := replayRef\<rparr>) = Inr (m, bs1)"
    and "applyBattleRankDelta now idA (bcELOInitialScore cfg) (bsBase bs1) t (bmContestID current) (bnTeamID a) (sdDeltaA delta) = Inr dbA"
    and "applyBattleRankDelta now idB (bcELOInitialScore cfg) dbA t (bmContestID current) (bnTeamID b) (sdDeltaB delta) = Inr dbB"
    and "bs' = bs1\<lparr>bsBase := RefreshContestRanks now dbB t (bmContestID current)\<rparr>"
proof -
  obtain problem :: ContestProblem and a b result bs1 dbA dbB where *: "GetBattleEntry bs t (bmEntryAID current) = Inr a"
      "GetBattleEntry bs t (bmEntryBID current) = Inr b" "battleResultFromTask taskResult (cpBattleRule problem) (bnRole a) (bnRole b) = Inr result"
      "FinishBattleMatch now bs (current\<lparr>bmResult := result, bmScoreDelta := Some
         (score_delta cfg a b (battleRatingForTeam (bcELOInitialScore cfg) (bsBase bs) t (bmContestID current) (bnTeamID a))
            (battleRatingForTeam (bcELOInitialScore cfg) (bsBase bs) t (bmContestID current) (bnTeamID b)) result), bmReplayRef := replayRef\<rparr>) = Inr (m, bs1)"
      "applyBattleRankDelta now idA (bcELOInitialScore cfg) (bsBase bs1) t (bmContestID current) (bnTeamID a)
         (sdDeltaA (score_delta cfg a b (battleRatingForTeam (bcELOInitialScore cfg) (bsBase bs) t (bmContestID current) (bnTeamID a))
            (battleRatingForTeam (bcELOInitialScore cfg) (bsBase bs) t (bmContestID current) (bnTeamID b)) result)) = Inr dbA"
      "applyBattleRankDelta now idB (bcELOInitialScore cfg) dbA t (bmContestID current) (bnTeamID b)
         (sdDeltaB (score_delta cfg a b (battleRatingForTeam (bcELOInitialScore cfg) (bsBase bs) t (bmContestID current) (bnTeamID a))
            (battleRatingForTeam (bcELOInitialScore cfg) (bsBase bs) t (bmContestID current) (bnTeamID b)) result)) = Inr dbB"
      "committed = True" "bs' = bs1\<lparr>bsBase := RefreshContestRanks now dbB t (bmContestID current)\<rparr>"
    using assms unfolding settle_running_def Let_def bindR_Inr split_paired_Ex prod.case sum.inject prod.inject by blast
  then show thesis using that [OF _ *(1,2) result_range [OF *(3)] refl *(4-6)] by blast
qed

end
