(* ===== verification/BattleReach.thy ===== *)
theory BattleReach
  imports BattleLadder
begin

section \<open>Contest module: the invariant of the running battles\<close>

text \<open>
  The parts of the invariant put together, every step of the system keeps it: each step is a move of
  matches, a change of contests, a new entry or a settlement.
\<close>

definition attempts :: "battle_config \<Rightarrow> int" where "attempts cfg = sint (fst (Int32 (bcMaxAttempts cfg)))"

definition done_matches :: "battle_store \<Rightarrow> BattleMatch set" where
  "done_matches bs = {m \<in> set (bsMatches bs). bmStatus m = 3}"

definition ladder_ok :: "battle_config \<Rightarrow> battle_store \<Rightarrow> BattleMatch list \<Rightarrow> bool" where
  "ladder_ok cfg bs settled \<longleftrightarrow>
     rated (bcELOInitialScore cfg) (bsBase bs) settled \<and> outcome ` set settled = outcome ` done_matches bs \<and>
     distinct (map bmID settled) \<and>
     (\<forall>pre m post. settled = pre @ m # post \<longrightarrow> sound_settlement cfg (bsEntries bs) pre m)"

definition held_ok :: "battle_store \<Rightarrow> BattleMatch list \<Rightarrow> bool" where
  "held_ok bs held \<longleftrightarrow> core ` set held \<subseteq> core ` set (bsMatches bs)"

text \<open>A verdict whose replay is stored is one the judge gave; without actions its match was done before.\<close>

definition done_task :: "battle_store \<Rightarrow> int \<Rightarrow> int \<Rightarrow> bool" where
  "done_task bs t taskID \<longleftrightarrow> (\<exists>m \<in> set (bsMatches bs). bmTenantID m = t \<and> bmJudgeTaskRef m = Format taskID \<and> bmStatus m = 3)"

definition prepared_ok :: "battle_world \<Rightarrow> battle_store \<Rightarrow> (JudgeCompletedEvent \<times> JudgeTaskResult \<times> string) list \<Rightarrow> bool" where
  "prepared_ok w bs prepared \<longleftrightarrow>
     (\<forall>(event, result, replayRef) \<in> set prepared. (\<exists>task. wJudge w (jcTenantID event) (jcTaskID event) task \<and> jiResult task = result) \<and>
        (jrActions (jtReplay result) \<noteq> [] \<or> done_task bs (jcTenantID event) (jcTaskID event)))"

lemma prepared_mono:
  assumes "prepared_ok w bs prepared" and "\<And>t i. done_task bs t i \<Longrightarrow> done_task bs' t i"
  shows "prepared_ok w bs' prepared"
  using assms unfolding prepared_ok_def by fast

lemma moves_done_task:
  assumes "matches_move fin source_of most token bs bs'" and "done_task bs t i"
  shows "done_task bs' t i"
proof -
  obtain m where m: "m \<in> set (bsMatches bs)" "bmTenantID m = t" "bmJudgeTaskRef m = Format i" "bmStatus m = 3"
    using assms(2) by (auto simp: done_task_def)
  obtain m' where "m' \<in> set (bsMatches bs')" "match_move fin source_of most token m m'"
    using all2_left [OF conjunct1 [OF assms(1) [unfolded matches_move_def]] m(1)] by blast
  then show ?thesis using move_done move_core m unfolding done_task_def core_def by fastforce
qed

definition battle_fine :: "battle_world \<Rightarrow> battle_config \<Rightarrow> battle_system \<Rightarrow> bool" where
  "battle_fine w cfg s \<longleftrightarrow>
     system_ok (wSandbox w) (contest_part s) \<and> rows_ok (wSource w) (yTokens s) (attempts cfg) (yStore s) \<and>
     entries_ok (bsEntries (yStore s)) \<and> (\<forall>m \<in> set (bsMatches (yStore s)). paired (bsEntries (yStore s)) m) \<and>
     fence (yStore s) \<and> held_ok (yStore s) (yHeld s) \<and> ladder_ok cfg (yStore s) (ySettled s) \<and>
     prepared_ok w (yStore s) (yPrepared s)"

lemma battles_started_fine: "battle_started s \<Longrightarrow> battle_fine w cfg s"
  by (simp add: battle_started_def contest_started_def contest_part_def battle_fine_def system_ok_def contests_ok_def teams_ok_def
      empty_store_def rows_ok_def entries_ok_def fence_def held_ok_def ladder_ok_def rated_def battleRatingForTeam_def
      GetLadderByTeam_def team_deltas_def done_matches_def prepared_ok_def)

subsection \<open>Moves of matches\<close>

lemma image_same:
  assumes "\<And>y. y \<in> A \<Longrightarrow> \<exists>x \<in> B. f y = f x" and "\<And>x. x \<in> B \<Longrightarrow> \<exists>y \<in> A. f y = f x"
  shows "f ` A = f ` B"
  using assms by (intro equalityI image_subsetI) (metis image_eqI)+

lemma moves_done:
  assumes "matches_move False source_of most token bs bs'"
  shows "outcome ` done_matches bs' = outcome ` done_matches bs"
proof -
  have rel: "list_all2 (match_move False source_of most token) (bsMatches bs) (bsMatches bs')"
    using assms by (simp add: matches_move_def)
  show ?thesis
  proof (rule image_same)
    fix y assume "y \<in> done_matches bs'"
    then show "\<exists>x \<in> done_matches bs. outcome y = outcome x"
      using all2_right [OF rel, of y] move_outcome unfolding done_matches_def by blast
  next
    fix x assume "x \<in> done_matches bs"
    then show "\<exists>y \<in> done_matches bs'. outcome y = outcome x"
      using all2_left [OF rel, of x] move_outcome unfolding done_matches_def by blast
  qed
qed

lemma paired_rows:
  assumes "map core ms' = map core ms" and "\<forall>m \<in> set ms. paired es m"
  shows "\<forall>m \<in> set ms'. paired es m"
proof
  fix m assume "m \<in> set ms'"
  then have "core m \<in> core ` set ms" using assms(1) by (metis image_eqI set_map)
  then obtain r where "r \<in> set ms" "core m = core r" by blast
  then show "paired es m" using assms(2) paired_core by blast
qed

lemma fine_moves:
  assumes "battle_fine w cfg s" and "matches_move False (wSource w) (attempts cfg) token (yStore s) (yStore s')"
    and "set_option token \<subseteq> yTokens s'" and "yTokens s \<subseteq> yTokens s'" and "held_ok (yStore s) (yHeld s')"
    and "ySettled s' = ySettled s" and "yNow s' = yNow s" and "yEnvs s' = yEnvs s" and "yPrepared s' = yPrepared s"
  shows "battle_fine w cfg s'"
proof -
  have same: "bsBase (yStore s') = bsBase (yStore s)" "bsEntries (yStore s') = bsEntries (yStore s)"
    using assms(2) by (simp_all add: matches_move_def)
  have core: "map core (bsMatches (yStore s')) = map core (bsMatches (yStore s))" using moves_core [OF assms(2)] .
  have "held_ok (yStore s') (yHeld s')" using assms(5) core unfolding held_ok_def by (metis set_map)
  moreover have "\<forall>m \<in> set (bsMatches (yStore s')). paired (bsEntries (yStore s)) m"
    using paired_rows [OF core] assms(1) by (simp add: battle_fine_def)
  moreover have "contest_part s' = contest_part s" by (simp add: contest_part_def same assms(7,8))
  moreover have "ladder_ok cfg (yStore s') (ySettled s')"
    using assms(1) moves_done [OF assms(2)] by (simp add: battle_fine_def ladder_ok_def same assms(6))
  moreover have "prepared_ok w (yStore s') (yPrepared s')"
  proof -
    have "prepared_ok w (yStore s) (yPrepared s)" using assms(1) by (simp add: battle_fine_def)
    then show ?thesis unfolding assms(9) by (rule prepared_mono) (rule moves_done_task [OF assms(2)])
  qed
  ultimately show ?thesis
    using assms(1) moves_rows [OF assms(2) _ assms(3,4)] moves_fence [OF assms(2)] by (simp add: battle_fine_def same)
qed

subsection \<open>Changes of contests\<close>

text \<open>Steps that leave matches, entries and the ladder alone.\<close>

lemma fine_contests:
  assumes "battle_fine w cfg s" and "bsMatches (yStore s') = bsMatches (yStore s)" and "bsEntries (yStore s') = bsEntries (yStore s)"
    and "dbLadder (bsBase (yStore s')) = dbLadder (bsBase (yStore s))" and "system_ok (wSandbox w) (contest_part s')"
    and "fence (yStore s')" and "yTokens s \<subseteq> yTokens s'" and "yHeld s' = yHeld s" and "ySettled s' = ySettled s" and "yPrepared s' = yPrepared s"
  shows "battle_fine w cfg s'"
proof -
  have "rows_ok (wSource w) (yTokens s') (attempts cfg) (yStore s')"
    using assms(1,7) unfolding battle_fine_def rows_ok_def row_ok_def assms(2) by (auto split: option.splits)
  then show ?thesis using assms rated_ladder [OF assms(4)]
    by (simp add: battle_fine_def held_ok_def ladder_ok_def done_matches_def prepared_ok_def done_task_def)
qed

lemma rows_base:
  assumes "row_changes (yNow s) (bsBase (yStore s)) db" and "system_ok ref (contest_part s)" and "bsBase (yStore s') = db"
    and "yNow s' = yNow s" and "yEnvs s' = yEnvs s"
  shows "system_ok ref (contest_part s')"
  using row_changes_system [of "contest_part s" db ref] assms by (simp add: contest_part_def)

lemma set_status_row:
  assumes "\<And>c. c \<in> set (dbContests db) \<Longrightarrow> p c \<Longrightarrow> ctStatus c \<in> {3, 4} \<and> ctEndAt c \<le> now \<or> ctStatus c = 5"
  shows "row_change now db (db\<lparr>dbContests := upd_rows p (set_status 5 now) (dbContests db)\<rparr>)"
  by (rule contests_changed) (use assms in \<open>fastforce simp: set_status_def contest_ok_def\<close>)

text \<open>A contest that is leased: the lease names its row, and no battle of it is open.\<close>

lemma set_lease_other: "bsMatches (set_lease l bs) = bsMatches bs" "bsEntries (set_lease l bs) = bsEntries bs" "bsBase (set_lease l bs) = bsBase bs"
  by (simp_all add: set_lease_def)

lemma lease_fence:
  assumes "fence bs" and "c \<in> set (dbContests (bsBase bs))" and "contest_key (alTenantID l) (alContestID l) c" and "ctStatus c = 5"
    and "\<not> open_battles bs (alTenantID l) (alContestID l)"
  shows "fence (set_lease l bs)"
proof -
  have "open_battles (set_lease l bs) t i = open_battles bs t i" for t i by (simp add: open_battles_def set_lease_other)
  then show ?thesis using assms unfolding fence_def set_lease_other by (auto simp: set_lease_def)
qed

lemma leases_fence:
  assumes "fence bs" and "\<forall>c \<in> set due. c' c \<in> set (dbContests (bsBase bs)) \<and> contest_key (ctTenantID c) (ctID c) (c' c) \<and>
      ctStatus (c' c) = 5 \<and> \<not> open_battles bs (ctTenantID c) (ctID c)"
  shows "fence (fold (\<lambda>c. set_lease (lease_for token until c)) due bs) \<and>
    bsBase (fold (\<lambda>c. set_lease (lease_for token until c)) due bs) = bsBase bs \<and>
    bsMatches (fold (\<lambda>c. set_lease (lease_for token until c)) due bs) = bsMatches bs \<and>
    bsEntries (fold (\<lambda>c. set_lease (lease_for token until c)) due bs) = bsEntries bs"
  using assms
proof (induction due arbitrary: bs)
  case (Cons c due)
  let ?bs = "set_lease (lease_for token until c) bs"
  have "fence ?bs" using Cons.prems lease_fence [of bs "c' c" "lease_for token until c"] by (simp add: lease_for_def)
  moreover have "open_battles ?bs t i = open_battles bs t i" for t i by (simp add: open_battles_def set_lease_other)
  ultimately show ?case using Cons.IH [of ?bs] Cons.prems(2) by (simp add: set_lease_other)
qed simp


subsection \<open>Archiving\<close>

lemma ClaimManual_fine:
  assumes "ClaimManualArchiveContest now bs t i here until token = Inr (item, bs')" and "fence bs"
  shows "row_changes now (bsBase bs) (bsBase bs') \<and> fence bs' \<and> bsMatches bs' = bsMatches bs \<and> bsEntries bs' = bsEntries bs \<and>
    dbLadder (bsBase bs') = dbLadder (bsBase bs)"
proof -
  define p where "p = (\<lambda>c. contest_key t i c \<and> ctStatus c = 5 \<and> lease_free here bs c \<and> \<not> open_battles bs t i)"
  obtain c where c: "find p (dbContests (bsBase bs)) = Some c"
    and bs': "bs' = set_lease (lease_for token until c) (set_contests p 5 now bs)"
    using assms(1) unfolding ClaimManualArchiveContest_def p_def [symmetric] by (auto split: option.splits)
  have pc: "p c" "c \<in> set (dbContests (bsBase bs))" using find_SomeD [OF c] by auto
  have r: "row_change now (bsBase bs) (bsBase (set_contests p 5 now bs))"
    unfolding set_contests_def by (simp, rule set_status_row) (simp add: p_def)
  have f: "fence (set_contests p 5 now bs)"
    using contests_fence [OF row_change_move [OF r] assms(2)] by (simp add: set_contests_def)
  have "set_status 5 now c \<in> set (dbContests (bsBase (set_contests p 5 now bs)))"
    using upd_rows_mem [OF pc(2), of p "set_status 5 now"] pc(1) by (simp add: set_contests_def)
  moreover have "\<not> open_battles (set_contests p 5 now bs) (ctTenantID c) (ctID c)"
    using pc(1) by (auto simp: p_def open_battles_def set_contests_def contest_key_def)
  ultimately have "fence bs'" unfolding bs' using f
    by (intro lease_fence [where c = "set_status 5 now c"]) (auto simp: lease_for_def set_status_def contest_key_def)
  then show ?thesis using r by (simp add: bs' set_lease_other, simp add: set_contests_def)
qed

lemma ClaimAuto_fine:
  assumes "ClaimAutoArchiveContests now bs limit here until token = Inr (items, bs')" and "fence bs" and "contests_ok now (bsBase bs)"
  shows "row_changes now (bsBase bs) (bsBase bs') \<and> fence bs' \<and> bsMatches bs' = bsMatches bs \<and> bsEntries bs' = bsEntries bs \<and>
    dbLadder (bsBase bs') = dbLadder (bsBase bs)"
proof -
  obtain n where n: "bs' = fold (\<lambda>c. set_lease (lease_for token until c)) (take n (sort_key ctEndAt (filter (archive_due now here bs) (dbContests (bsBase bs)))))
        (set_contests (\<lambda>c. ctID c \<in> ctID ` set (take n (sort_key ctEndAt (filter (archive_due now here bs) (dbContests (bsBase bs)))))) 5 now bs)"
    using assms(1) by (auto simp: ClaimAutoArchiveContests_def Let_def split: prod.splits if_splits)
  define due where "due = take n (sort_key ctEndAt (filter (archive_due now here bs) (dbContests (bsBase bs))))"
  define p where "p = (\<lambda>c :: Contest. ctID c \<in> ctID ` set due)"
  have bs': "bs' = fold (\<lambda>c. set_lease (lease_for token until c)) due (set_contests p 5 now bs)" by (simp add: n p_def due_def)
  have ids: "distinct (map ctID (dbContests (bsBase bs)))" using assms(3) by (simp add: contests_ok_def)
  have pd: "archive_due now here bs c" if "c \<in> set (dbContests (bsBase bs))" "p c" for c
    using selected_ids [OF ids that(1)] that(2) by (simp add: p_def due_def)
  have r: "row_change now (bsBase bs) (bsBase (set_contests p 5 now bs))"
    unfolding set_contests_def by (simp, rule set_status_row) (auto simp: archive_due_def dest: pd)
  have f: "fence (set_contests p 5 now bs)"
    using contests_fence [OF row_change_move [OF r] assms(2)] by (simp add: set_contests_def)
  have "set_status 5 now c \<in> set (dbContests (bsBase (set_contests p 5 now bs))) \<and> contest_key (ctTenantID c) (ctID c) (set_status 5 now c) \<and>
      ctStatus (set_status 5 now c) = 5 \<and> \<not> open_battles (set_contests p 5 now bs) (ctTenantID c) (ctID c)" if c: "c \<in> set due" for c
  proof -
    have m: "c \<in> set (dbContests (bsBase bs))" using in_set_takeD [OF c [unfolded due_def]] by simp
    have "p c" using c by (simp add: p_def)
    then show ?thesis using upd_rows_mem [OF m, of p "set_status 5 now"] pd [OF m]
      by (auto simp: set_contests_def set_status_def contest_key_def open_battles_def archive_due_def)
  qed
  then have "fence bs' \<and> bsBase bs' = bsBase (set_contests p 5 now bs) \<and> bsMatches bs' = bsMatches (set_contests p 5 now bs) \<and>
      bsEntries bs' = bsEntries (set_contests p 5 now bs)"
    unfolding bs' by (intro leases_fence [OF f, where c' = "set_status 5 now"]) blast
  then show ?thesis using r by (simp add: set_contests_def r_into_rtranclp)
qed

lemma teams_ok_cong: "dbTeams db' = dbTeams db \<Longrightarrow> dbMembers db' = dbMembers db \<Longrightarrow> teams_ok db' = teams_ok db"
  unfolding teams_ok_def has_member_def by simp

lemma archived_system:
  assumes "system_ok ref s" and "\<And>c. c \<in> set (dbContests (sysDB s)) \<Longrightarrow> p c \<Longrightarrow> ctStatus c = 5"
  shows "system_ok ref (s\<lparr>sysDB := (sysDB s)\<lparr>dbContests := upd_rows p (set_status 6 now) (dbContests (sysDB s))\<rparr>\<rparr>)"
proof -
  let ?db = "sysDB s" and ?db' = "(sysDB s)\<lparr>dbContests := upd_rows p (set_status 6 now) (dbContests (sysDB s))\<rparr>"
  have placed: "placed ?db' t c te e" if was: "placed ?db t c te e" for t c te e
  proof -
    obtain k where k: "k \<in> set (dbContests ?db)" "ctTenantID k = t" "ctID k = c" "3 \<le> ctStatus k" "ctEndAt k = e"
      using was by (auto simp: placed_def)
    have "\<exists>k \<in> set (dbContests ?db'). ctTenantID k = t \<and> ctID k = c \<and> 3 \<le> ctStatus k \<and> ctEndAt k = e"
      using upd_rows_mem [OF k(1), of p "set_status 6 now"] k
      by (intro bexI [of _ "if p k then set_status 6 now k else k"]) (auto simp: set_status_def)
    then show ?thesis using was unfolding placed_def by simp
  qed
  have "contests_ok (sysNow s) ?db'"
  proof -
    have "map ctID (upd_rows p (set_status 6 now) (dbContests ?db)) = map ctID (dbContests ?db)"
      by (rule upd_rows_map) (simp add: set_status_def)
    moreover have "contest_ok (sysNow s) c" if mem: "c \<in> set (upd_rows p (set_status 6 now) (dbContests ?db))" for c
    proof -
      obtain k where k: "k \<in> set (dbContests ?db)" "c = (if p k then set_status 6 now k else k)" using upd_rows_set [OF mem] by blast
      then have "contest_ok (sysNow s) k" using assms(1) by (simp add: system_ok_def contests_ok_def)
      then show ?thesis using k(2) assms(2) [OF k(1)] by (cases "p k") (simp_all add: contest_ok_def set_status_def)
    qed
    ultimately show ?thesis using assms(1) by (simp add: system_ok_def contests_ok_def)
  qed
  moreover have "seated ?db' = seated ?db" by (intro ext) (simp add: seated_def)
  moreover have "teams_ok ?db'" using assms(1) teams_ok_cong [of ?db' ?db] by (simp add: system_ok_def)
  moreover have "grant_ok ref ?db' g" if "grant_ok ref ?db g" for g using that placed calculation(2) by (simp add: grant_ok_def)
  moreover have "env_ok ?db' env" if "env_ok ?db env" for env using that placed calculation(2) by (simp add: env_ok_def)
  ultimately show ?thesis using assms(1) by (simp add: system_ok_def)
qed

lemma Complete_fine:
  assumes "CompleteAutoArchiveContest now bs t i token = Inr bs'" and "fence bs" and "system_ok ref \<lparr>sysDB = bsBase bs, sysNow = n, sysEnvs = es\<rparr>"
  shows "system_ok ref \<lparr>sysDB = bsBase bs', sysNow = n, sysEnvs = es\<rparr> \<and> fence bs' \<and> bsMatches bs' = bsMatches bs \<and>
    bsEntries bs' = bsEntries bs \<and> dbLadder (bsBase bs') = dbLadder (bsBase bs)"
proof -
  define p where "p = (\<lambda>c. contest_key t i c \<and> ctStatus c = 5 \<and>
      (case archive_lease_of bs t i of None \<Rightarrow> False | Some l \<Rightarrow> alToken l = token \<and> now < alUntil l) \<and> \<not> open_battles bs t i)"
  have bs': "bs' = clear_lease t i (set_contests p 6 now bs)"
    using assms(1) unfolding CompleteAutoArchiveContest_def p_def [symmetric] by (auto split: if_splits)
  have pD: "contest_key t i c \<and> ctStatus c = 5 \<and> \<not> open_battles bs t i" if "p c" for c using that by (auto simp: p_def)
  have o: "open_battles bs' a b = open_battles bs a b" for a b by (simp add: bs' clear_lease_def set_contests_def open_battles_def)
  have cs: "dbContests (bsBase bs') = upd_rows p (set_status 6 now) (dbContests (bsBase bs))"
      "bsMatches bs' = bsMatches bs" "bsLeases bs' = filter (Not \<circ> lease_key t i) (bsLeases bs)"
    by (simp_all add: bs' clear_lease_def set_contests_def)
  have six: "\<not> open_battles bs (ctTenantID c) (ctID c)" if c: "c \<in> set (dbContests (bsBase bs'))" "ctStatus c = 6" for c
  proof -
    obtain d where d: "d \<in> set (dbContests (bsBase bs))" "c = (if p d then set_status 6 now d else d)"
      using upd_rows_set [OF c(1) [unfolded cs]] by blast
    then show ?thesis using assms(2) c(2) pD [of d] by (cases "p d") (auto simp: fence_def set_status_def contest_key_def)
  qed
  have kept: "\<exists>c \<in> set (dbContests (bsBase bs')). contest_key a b c \<and> ctStatus c = 5"
    if c: "c \<in> set (dbContests (bsBase bs))" "contest_key a b c" "ctStatus c = 5" "(a, b) \<noteq> (t, i)" for a b c
    using upd_rows_mem [OF c(1), of p "set_status 6 now"] pD [of c] c unfolding cs by (cases "p c") (auto simp: contest_key_def)
  have begun: "\<exists>c \<in> set (dbContests (bsBase bs')). contest_key a b c \<and> 3 \<le> ctStatus c"
    if c: "c \<in> set (dbContests (bsBase bs))" "contest_key a b c" "3 \<le> ctStatus c" for a b c
    using upd_rows_mem [OF c(1), of p "set_status 6 now"] c unfolding cs
    by (intro bexI [of _ "if p c then set_status 6 now c else c"]) (auto simp: contest_key_def set_status_def)
  have "fence bs'"
    unfolding fence_def o using six begun kept assms(2) unfolding fence_def cs(2,3) by (fastforce simp: lease_key_def)
  moreover have "system_ok ref \<lparr>sysDB = bsBase bs', sysNow = n, sysEnvs = es\<rparr>"
    using archived_system [OF assms(3), of p now] pD by (simp add: bs' clear_lease_def set_contests_def)
  ultimately show ?thesis by (simp add: bs' clear_lease_def set_contests_def)
qed

end
