(* ===== verification/BattleSteps.thy ===== *)
theory BattleSteps
  imports BattleReach
begin

section \<open>Contest module: every step of the battles keeps the invariant\<close>

subsection \<open>Entries and settlements\<close>

lemma entry_fine:
  assumes "battle_fine w cfg s" and "SubmitBattleEntry_commit cfg now entryID matchID tenantID i contestID req problem team ref hash (yStore s) = Inr (e, bs)"
  shows "battle_fine w cfg (s\<lparr>yStore := bs\<rparr>)"
proof -
  let ?bs = "yStore s"
  have inv: "system_ok (wSandbox w) (contest_part s)" "rows_ok (wSource w) (yTokens s) (attempts cfg) ?bs" "entries_ok (bsEntries ?bs)"
      "\<forall>m \<in> set (bsMatches ?bs). paired (bsEntries ?bs) m" "fence ?bs" "held_ok ?bs (yHeld s)" "ladder_ok cfg ?bs (ySettled s)"
      "prepared_ok w ?bs (yPrepared s)"
    using assms(1) by (simp_all add: battle_fine_def)
  obtain bs1 opponents where sh: "entries_ok (bsEntries bs1)" "entry_core ` set (bsEntries ?bs) \<subseteq> entry_core ` set (bsEntries bs1)"
      "map entry_core (bsEntries bs1) = map entry_core (bsEntries ?bs) @ [entry_core e]"
      "e \<in> set (bsEntries bs1)" "bsBase bs1 = bsBase ?bs" "bsMatches bs1 = bsMatches ?bs" "bsLeases bs1 = bsLeases ?bs"
      "\<forall>f \<in> set opponents. f \<in> set (bsEntries bs1) \<and> bnTenantID f = bnTenantID e \<and> bnContestID f = bnContestID e \<and>
           bnProblemID f = bnProblemID e \<and> bnTeamID f \<noteq> bnTeamID e"
      "grown (fresh_match (bsBase ?bs) e opponents) bs1 bs"
    by (rule SubmitBattleEntry_shape [OF assms(2) inv(3)])
  obtain ms where ms: "bsMatches bs = bsMatches ?bs @ ms" "\<And>m. m \<in> set ms \<Longrightarrow> fresh_match (bsBase ?bs) e opponents m"
    and same: "bsBase bs = bsBase ?bs" "bsEntries bs = bsEntries bs1"
    using sh(5,6,9) by (auto simp: grown_def)
  have "rows_ok (wSource w) (yTokens s) (attempts cfg) bs"
    using inv(2) sh(6,9) ms fresh_row by (fastforce simp: rows_ok_def grown_def)
  moreover have "\<forall>m \<in> set (bsMatches bs). paired (bsEntries bs) m"
    using inv(4) paired_entries [OF sh(2)] fresh_paired [OF ms(2) sh(4,8)] by (auto simp: ms(1) same)
  moreover have "fence bs"
  proof -
    have "fence bs1" using inv(5) sh(5-7) by (simp add: fence_def open_battles_def)
    moreover have "contests_ok (yNow s) (bsBase bs1)" using inv(1) by (simp add: system_ok_def contest_part_def sh(5))
    ultimately show ?thesis using grown_fence [OF sh(9) [folded sh(5)]] by blast
  qed
  moreover have "held_ok bs (yHeld s)" using inv(6) by (auto simp: held_ok_def ms(1))
  moreover have "ladder_ok cfg bs (ySettled s)"
  proof -
    have "bmStatus m = 1" if "m \<in> set ms" for m using ms(2) [OF that] by (simp add: fresh_match_def)
    then have "done_matches bs = done_matches ?bs" by (auto simp: done_matches_def ms(1))
    moreover have "sound_settlement cfg (bsEntries bs1) pre m" if "sound_settlement cfg (bsEntries ?bs) pre m" for pre m
      using that team_of_grows [OF sh(3)] unfolding sound_settlement_def by blast
    ultimately show ?thesis using inv(7) by (auto simp: ladder_ok_def same)
  qed
  moreover have "prepared_ok w bs (yPrepared s)" by (rule prepared_mono [OF inv(8)]) (auto simp: done_task_def ms(1))
  ultimately show ?thesis using inv(1) sh(1) by (simp add: battle_fine_def contest_part_def same)
qed

text \<open>The settlement of a running match: its row is done, its two teams are rated, the order grows by it.\<close>

lemma Finish_rows:
  assumes "FinishBattleMatch now bs item = Inr (m, bs')" and "distinct (map bmID (bsMatches bs))"
  obtains r where "r \<in> set (bsMatches bs)" and "bmStatus r = 2" and "bmTenantID r = bmTenantID item" and "bmID r = bmID item"
    and "m = finish_match now item r" and "outcome ` done_matches bs' = insert (outcome m) (outcome ` done_matches bs)"
proof -
  define p where "p = (\<lambda>m. match_key (bmTenantID item) (bmID item) m \<and> bmStatus m = 2 \<and> bmJudgeTaskRef m = bmJudgeTaskRef item
      \<and> bmJudgeTaskRef item \<noteq> [] \<and> accepts_battles bs (bmTenantID m) (bmContestID m))"
  obtain r where r: "find p (bsMatches bs) = Some r" "m = finish_match now item r"
    and bs': "bsMatches bs' = upd_rows p (finish_match now item) (bsMatches bs)"
    using assms(1) unfolding FinishBattleMatch_def p_def [symmetric] finish_match_def [abs_def]
    by (auto simp: one_row_Inr update_match_def split: option.splits)
  have pr: "r \<in> set (bsMatches bs)" "p r" using find_SomeD [OF r(1)] by auto
  have only: "x = r" if "x \<in> set (bsMatches bs)" "p x" for x
    using that pr assms(2) by (auto simp: p_def match_key_def distinct_map inj_on_def)
  have "done_matches bs' = insert m (done_matches bs)"
  proof (intro equalityI subsetI)
    fix y assume "y \<in> done_matches bs'"
    then obtain x where "x \<in> set (bsMatches bs)" "y = (if p x then finish_match now item x else x)" "bmStatus y = 3"
      using upd_rows_set unfolding done_matches_def bs' by fastforce
    then show "y \<in> insert m (done_matches bs)" using only r(2) by (auto simp: done_matches_def)
  next
    fix y assume "y \<in> insert m (done_matches bs)"
    then show "y \<in> done_matches bs'"
      using upd_rows_mem [OF pr(1), of p "finish_match now item"] upd_rows_mem [of y "bsMatches bs" p "finish_match now item"] pr(2)
      by (auto simp: done_matches_def bs' r(2) finish_match_def p_def)
  qed
  then show thesis using that [OF pr(1) _ _ _ r(2)] pr(2) by (simp add: p_def match_key_def)
qed

lemma settlement_sound:
  assumes "rated (bcELOInitialScore cfg) (bsBase bs) settled"
    and "team_of es (bmEntryAID m) = Some (bnTeamID a)" and "team_of es (bmEntryBID m) = Some (bnTeamID b)" and "bnTeamID a \<noteq> bnTeamID b"
    and "delta = score_delta cfg a b (battleRatingForTeam (bcELOInitialScore cfg) (bsBase bs) (bmTenantID m) (bmContestID m) (bnTeamID a))
                   (battleRatingForTeam (bcELOInitialScore cfg) (bsBase bs) (bmTenantID m) (bmContestID m) (bnTeamID b)) (bmResult m)"
    and "bmScoreDelta m = Some delta" and "bmResult m \<in> {BattleResultAWin, BattleResultBWin, BattleResultDraw}"
  shows "sound_settlement cfg es settled m \<and> sdTeamAID delta = bnTeamID a \<and> sdTeamBID delta = bnTeamID b"
  using assms by (auto simp: sound_settlement_def rated_def score_delta_def Let_def battleScoreDelta_def)

lemma settled_rated:
  assumes "rated initial db settled" and "bmScoreDelta m = Some d" and "sdTeamAID d \<noteq> sdTeamBID d"
    and "applyBattleRankDelta now idA initial db (bmTenantID m) (bmContestID m) (sdTeamAID d) (sdDeltaA d) = Inr dbA"
    and "applyBattleRankDelta now idB initial dbA (bmTenantID m) (bmContestID m) (sdTeamBID d) (sdDeltaB d) = Inr dbB"
  shows "rated initial (RefreshContestRanks now dbB t' c') (settled @ [m])"
  unfolding rated_def rating_refresh rating_apply [OF assms(5)] rating_apply [OF assms(4)]
  using assms(1-3) by (auto simp: rated_def team_deltas_snoc play_append team_delta_def)

lemma snoc_split: "xs @ [x] = pre @ m # post \<longleftrightarrow> post = [] \<and> pre = xs \<and> m = x \<or> (\<exists>post'. post = post' @ [x] \<and> xs = pre @ m # post')"
  by (cases post rule: rev_cases) auto

lemma paired_teams:
  assumes "paired es m" and "entries_ok es"
  shows "team_of es (bmEntryAID m) \<noteq> team_of es (bmEntryBID m)"
proof -
  obtain a b where ab: "a \<in> set es" "b \<in> set es" "bnID a = bmEntryAID m" "bnID b = bmEntryBID m" "bnTeamID a \<noteq> bnTeamID b"
    using assms(1) unfolding paired_def by blast
  then show ?thesis using find_distinct [of bnID es] assms(2) by (simp add: team_of_def entries_ok_def)
qed

lemma settle_fine:
  assumes "battle_fine w cfg s" and "settle_running cfg now idA idB t taskResult replayRef current (yStore s) = Inr ((m, committed), bs)"
    and "current \<in> set (bsMatches (yStore s))" and "bmTenantID current = t"
  shows "battle_fine w cfg (s\<lparr>yStore := bs, ySettled := ySettled s @ (if committed then [m] else [])\<rparr>)"
proof -
  let ?bs = "yStore s" and ?i = "bcELOInitialScore cfg"
  have inv: "system_ok (wSandbox w) (contest_part s)" "rows_ok (wSource w) (yTokens s) (attempts cfg) ?bs" "entries_ok (bsEntries ?bs)"
      "\<forall>m \<in> set (bsMatches ?bs). paired (bsEntries ?bs) m" "fence ?bs" "held_ok ?bs (yHeld s)" "ladder_ok cfg ?bs (ySettled s)"
      "prepared_ok w ?bs (yPrepared s)"
    using assms(1) by (simp_all add: battle_fine_def)
  have ids: "distinct (map bmID (bsMatches ?bs))" using inv(2) by (simp add: rows_ok_def)
  obtain a b result delta bs1 dbA dbB where sh: "committed" "GetBattleEntry ?bs t (bmEntryAID current) = Inr a"
      "GetBattleEntry ?bs t (bmEntryBID current) = Inr b" "result \<in> {BattleResultAWin, BattleResultBWin, BattleResultDraw}"
      "delta = score_delta cfg a b (battleRatingForTeam ?i (bsBase ?bs) t (bmContestID current) (bnTeamID a))
                   (battleRatingForTeam ?i (bsBase ?bs) t (bmContestID current) (bnTeamID b)) result"
      "FinishBattleMatch now ?bs (current\<lparr>bmResult := result, bmScoreDelta := Some delta, bmReplayRef := replayRef\<rparr>) = Inr (m, bs1)"
      "applyBattleRankDelta now idA ?i (bsBase bs1) t (bmContestID current) (bnTeamID a) (sdDeltaA delta) = Inr dbA"
      "applyBattleRankDelta now idB ?i dbA t (bmContestID current) (bnTeamID b) (sdDeltaB delta) = Inr dbB"
      "bs = bs1\<lparr>bsBase := RefreshContestRanks now dbB t (bmContestID current)\<rparr>"
    by (rule settle_running_shape [OF assms(2)])
  let ?item = "current\<lparr>bmResult := result, bmScoreDelta := Some delta, bmReplayRef := replayRef\<rparr>"
  obtain r where r: "r \<in> set (bsMatches ?bs)" "bmStatus r = 2" "bmTenantID r = bmTenantID ?item" "bmID r = bmID ?item"
      "m = finish_match now ?item r" "outcome ` done_matches bs1 = insert (outcome m) (outcome ` done_matches ?bs)"
    by (rule Finish_rows [OF sh(6) ids])
  have rc: "r = current" using r(1,4) assms(3) ids by (auto simp: distinct_map inj_on_def)
  have m: "bmScoreDelta m = Some delta" "bmResult m = result" "bmTenantID m = t" "bmContestID m = bmContestID current"
      "bmEntryAID m = bmEntryAID current" "bmEntryBID m = bmEntryBID current" "bmID m = bmID current" "core m = core current"
    by (simp_all add: r(5) rc finish_match_def assms(4) core_def)
  have mv: "matches_move True (wSource w) (attempts cfg) None ?bs bs1"
    using Finish_moves [OF sh(6), of "wSource w" "attempts cfg" None] by simp
  have same: "bsBase bs1 = bsBase ?bs" "bsEntries bs1 = bsEntries ?bs" "bsLeases bs1 = bsLeases ?bs"
    using mv by (simp_all add: matches_move_def)
  have cores: "map core (bsMatches bs1) = map core (bsMatches ?bs)" by (rule moves_core [OF mv])
  have ea: "team_of (bsEntries ?bs) (bmEntryAID m) = Some (bnTeamID a)" and eb: "team_of (bsEntries ?bs) (bmEntryBID m) = Some (bnTeamID b)"
    using team_of_entry [OF sh(2) inv(3)] team_of_entry [OF sh(3) inv(3)] m(5,6) by simp_all
  have teams: "bnTeamID a \<noteq> bnTeamID b"
    using paired_teams [OF bspec [OF inv(4) assms(3)] inv(3)] ea eb m(5,6) by simp
  have sound: "sound_settlement cfg (bsEntries ?bs) (ySettled s) m" "sdTeamAID delta = bnTeamID a" "sdTeamBID delta = bnTeamID b"
    using settlement_sound [OF _ ea eb teams, of cfg ?bs "ySettled s" delta] inv(7) sh(4,5) m(1-4) by (simp_all add: ladder_ok_def)
  have "rated ?i (bsBase bs) (ySettled s @ [m])"
    using settled_rated [of ?i "bsBase ?bs" "ySettled s" m delta now idA dbA idB dbB] sh(7,8) m(1-4) sound(2,3) teams inv(7)
    by (simp add: sh(9) same ladder_ok_def)
  moreover have new: "bmID m \<notin> bmID ` set (ySettled s)"
  proof
    assume "bmID m \<in> bmID ` set (ySettled s)"
    then obtain x where "x \<in> set (ySettled s)" "bmID x = bmID m" by auto
    moreover from this have "outcome x \<in> outcome ` done_matches ?bs" using inv(7) unfolding ladder_ok_def by blast
    ultimately obtain y where "y \<in> set (bsMatches ?bs)" "bmStatus y = 3" "bmID y = bmID m"
      by (auto simp: done_matches_def outcome_def core_def)
    then show False using r(1,2) rc m(7) ids by (auto simp: distinct_map inj_on_def)
  qed
  moreover have "done_matches bs = done_matches bs1" by (simp add: done_matches_def sh(9))
  ultimately have lad: "ladder_ok cfg bs (ySettled s @ [m])"
    using inv(7) r(6) sound(1) by (auto simp: ladder_ok_def snoc_split sh(9) same)
  have base: "row_change (yNow s) (bsBase ?bs) (bsBase bs)" "dbContests (bsBase bs) = dbContests (bsBase ?bs)"
    using apply_other [OF sh(7)] apply_other [OF sh(8)] by (auto simp: sh(9) same intro!: other_rows)
  have "system_ok (wSandbox w) (contest_part (s\<lparr>yStore := bs, ySettled := ySettled s @ [m]\<rparr>))"
    by (rule rows_base [OF rows_step [OF base(1)] inv(1)]) simp_all
  moreover have "rows_ok (wSource w) (yTokens s) (attempts cfg) bs"
    using moves_rows [OF mv inv(2), of "yTokens s"] by (simp add: sh(9) rows_ok_def)
  moreover have "\<forall>m \<in> set (bsMatches bs). paired (bsEntries bs) m"
    using paired_rows [OF cores inv(4)] by (simp add: sh(9) same)
  moreover have "fence bs"
    using contests_fence [OF contests_move_same moves_fence [OF mv inv(5)], of "bsBase bs"] base(2) by (simp add: sh(9) same)
  moreover have "held_ok bs (yHeld s)" using inv(6) cores unfolding held_ok_def by (simp add: sh(9)) (metis set_map)
  moreover have "prepared_ok w bs (yPrepared s)"
  proof -
    have "prepared_ok w bs1 (yPrepared s)" by (rule prepared_mono [OF inv(8)]) (rule moves_done_task [OF mv])
    then show ?thesis by (simp add: sh(9) prepared_ok_def done_task_def)
  qed
  ultimately show ?thesis using lad sh(1) inv(3) by (simp add: battle_fine_def sh(9) same)
qed


lemma verdict_fine:
  assumes "battle_fine w cfg s" and "HandleBattleJudgeCompleted_settle cfg now idA idB event result replayRef (yStore s) = Inr ((m, committed), bs)"
  shows "battle_fine w cfg (s\<lparr>yStore := bs, ySettled := ySettled s @ (if committed then [m] else [])\<rparr>)"
proof -
  obtain current where l: "LockBattleMatchByJudgeTask (yStore s) (jcTenantID event) (Format (jcTaskID event)) = Some current"
    and c: "(committed = False \<and> bs = yStore s) \<or>
      settle_running cfg now idA idB (jcTenantID event) result replayRef current (yStore s) = Inr ((m, committed), bs)"
    using assms(2) unfolding HandleBattleJudgeCompleted_settle_def by (auto simp: bindR_Inr one_row_Inr split: if_splits)
  have "current \<in> set (bsMatches (yStore s))" "bmTenantID current = jcTenantID event"
    using find_SomeD [OF l [unfolded LockBattleMatchByJudgeTask_def]] by auto
  with c show ?thesis
  proof (elim disjE)
    assume "settle_running cfg now idA idB (jcTenantID event) result replayRef current (yStore s) = Inr ((m, committed), bs)"
    then show ?thesis using settle_fine [OF assms(1)] \<open>current \<in> set (bsMatches (yStore s))\<close> \<open>bmTenantID current = jcTenantID event\<close> by blast
  qed (use assms(1) in simp)
qed

lemma prepare_fine:
  assumes "battle_fine w cfg s" and "battle_verdict event (Inr task) = Inr result" and "wJudge w (jcTenantID event) (jcTaskID event) task"
    and "prepareBattleReplay (yStore s) (jcTenantID event) (jcTaskID event) result (jcSourceRef event) answer = Inr (replayRef, before)"
  shows "battle_fine w cfg (s\<lparr>yPrepared := (event, result, replayRef) # yPrepared s\<rparr>)"
proof -
  obtain m where m: "LockBattleMatchByJudgeTask (yStore s) (jcTenantID event) (Format (jcTaskID event)) = Some m"
    and "finished_before m \<or> jrActions (jtReplay result) \<noteq> []"
    using assms(4) unfolding prepareBattleReplay_def by (auto simp: bindR_Inr one_row_Inr split: if_splits)
  then have "jrActions (jtReplay result) \<noteq> [] \<or> done_task (yStore s) (jcTenantID event) (jcTaskID event)"
    using find_SomeD [OF m [unfolded LockBattleMatchByJudgeTask_def]]
    by (auto simp: done_task_def finished_before_def BattleMatchStatusDone_def)
  moreover have "jiResult task = result" using assms(2) by (auto simp: battle_verdict_def bindR_Inr withCause_Inr split: if_splits)
  ultimately show ?thesis using assms(1,3) by (auto simp: battle_fine_def prepared_ok_def contest_part_def)
qed

subsection \<open>Starts, failures, deliveries\<close>

lemma held_same: "matches_move fin source_of most token bs bs' \<Longrightarrow> held_ok bs' held = held_ok bs held"
  using moves_core unfolding held_ok_def by (metis set_map)

lemma claimed_cores:
  assumes "ClaimPendingBattleMatches bs limit most here until token = Inr (ms, bs')"
  shows "core ` set ms \<subseteq> core ` set (bsMatches bs)"
proof -
  have "core (claim_match token until m) = core m" for m by (simp add: core_def claim_match_def)
  then show ?thesis using assms by (auto simp: ClaimPendingBattleMatches_def Let_def update_matches_def split: prod.splits if_splits)
qed

lemma matchmaker_fine:
  assumes "battle_fine w cfg s" and "RunMatchmakerOnce_claim cfg now here token (yStore s) = Inr ((spent, taken), bs)"
  shows "battle_fine w cfg (s\<lparr>yStore := bs, yHeld := taken @ yHeld s, yTokens := insert token (yTokens s)\<rparr>)"
proof -
  let ?most = "attempts cfg"
  obtain bs1 where 1: "ExhaustUnstartedBattleMatches now (yStore s) ?most here = (spent, bs1)"
    and 2: "ClaimPendingBattleMatches bs1 (bcBatchSize cfg) ?most here (here + bcLeaseDurationMs cfg * 1000000) token = Inr (taken, bs)"
    using assms(2) by (auto simp: RunMatchmakerOnce_claim_def attempts_def bindR_Inr split: prod.splits if_splits)
  have "bs1 = snd (ExhaustUnstartedBattleMatches now (yStore s) ?most here)" using 1 by simp
  then have e: "matches_move False (wSource w) ?most None (yStore s) bs1" by (simp only: Exhaust_moves)
  have f1: "battle_fine w cfg (s\<lparr>yStore := bs1\<rparr>)"
    by (rule fine_moves [OF assms(1), where token = None]) (use e held_same [OF e] assms(1) in \<open>simp_all add: battle_fine_def\<close>)
  then have d: "distinct (map bmID (bsMatches bs1))" and h: "held_ok bs1 (yHeld s)" by (simp_all add: battle_fine_def rows_ok_def)
  have m: "matches_move False (wSource w) ?most (Some token) bs1 bs" by (rule Claim_moves [OF 2 d])
  have "held_ok bs1 (taken @ yHeld s)" using h claimed_cores [OF 2] by (simp add: held_ok_def image_Un)
  then show ?thesis by (intro fine_moves [OF f1, where token = "Some token"]) (use m in auto)
qed

lemma one_move_fine:
  assumes "battle_fine w cfg s" and "matches_move False (wSource w) (attempts cfg) token (yStore s) bs"
    and "set_option token \<subseteq> T" and "yTokens s \<subseteq> T"
  shows "battle_fine w cfg (s\<lparr>yStore := bs, yTokens := T\<rparr>)"
  by (rule fine_moves [OF assms(1), where token = token]) (use assms in \<open>simp_all add: battle_fine_def\<close>)

lemma same_tokens: "battle_fine w cfg (s\<lparr>yStore := bs, yTokens := yTokens s\<rparr>) \<Longrightarrow> battle_fine w cfg (s\<lparr>yStore := bs\<rparr>)"
  by simp

lemma begun_moves:
  assumes "battle_fine w cfg s" and "m \<in> set (yHeld s)" and "executeBattleMatch_end ans now m finding (yStore s) = (res, bs)"
    and "\<And>sandboxID taskID. finding = CanStart sandboxID taskID \<Longrightarrow> wSource w taskID = bmSourceRef m"
  shows "matches_move False (wSource w) (attempts cfg) None (yStore s) bs"
proof (cases finding)
  case (CannotStart e recycle)
  then show ?thesis using assms(3)
    by (auto simp: executeBattleMatch_end_def markBattleFailed_def split: prod.splits intro: FailStart_moves)
next
  case (CanStart sandboxID taskID)
  obtain r where r: "StartBattleMatch now (yStore s) (bmTenantID m) (bmID m) (Format sandboxID) (Format taskID) (bmLeaseToken m) = (r, bs)"
    using assms(3) CanStart by (cases "StartBattleMatch now (yStore s) (bmTenantID m) (bmID m) (Format sandboxID) (Format taskID) (bmLeaseToken m)")
      (auto simp: executeBattleMatch_end_def)
  have "core m \<in> core ` set (bsMatches (yStore s))" and d: "distinct (map bmID (bsMatches (yStore s)))"
    using assms(1,2) by (auto simp: battle_fine_def held_ok_def rows_ok_def)
  then obtain x where x: "x \<in> set (bsMatches (yStore s))" "core m = core x" by blast
  have "wSource w taskID = bmSourceRef y" if "y \<in> set (bsMatches (yStore s))" "match_key (bmTenantID m) (bmID m) y" for y
  proof -
    have "y = x" using that x d by (auto simp: match_key_def core_def distinct_map inj_on_def)
    then show ?thesis using assms(4) [OF CanStart] x(2) by (simp add: core_def)
  qed
  then show ?thesis by (intro Start_moves [OF r]) blast
qed

lemma failure_moves:
  assumes "HandleBattleJudgeFailed now event bs = Inr (m, bs')"
  shows "matches_move fin source_of most token bs bs'"
  using assms by (auto simp: HandleBattleJudgeFailed_def bindR_Inr matches_move_refl split: if_splits intro: FailJudge_moves)

lemma deliver_moves:
  assumes "finalizeBattleMatch_claim cfg now here token m bs = Inr (claimed, bs')"
  shows "matches_move fin source_of most (Some token) bs bs'"
  using assms by (auto simp: finalizeBattleMatch_claim_def split: if_splits intro: ClaimFinal_moves)

lemma delivered_moves:
  assumes "finalizeBattleMatch_end now token m delivery bs = Inr bs'"
  shows "matches_move fin source_of most tk bs bs'"
  using assms by (auto simp: finalizeBattleMatch_end_def thenR_Inr split: prod.splits if_splits intro: CompleteFinal_moves)

subsection \<open>Archiving and the contest services\<close>

lemma revoke_ladder:
  assumes "revokeContestSandboxGrants now db t c = (gs, db')"
  shows "dbLadder db' = dbLadder db"
proof -
  have "dbLadder (foldl (\<lambda>db sb. RevokeContestAccessGrantsForSandbox now db t sb) d sbs) = dbLadder d" for d sbs
    by (induction sbs arbitrary: d) (simp_all add: RevokeContestAccessGrantsForSandbox_def)
  then show ?thesis using assms by (auto simp: revokeContestSandboxGrants_def Let_def)
qed

lemma revoke_fine:
  assumes "battle_fine w cfg s" and "archiveContest_revoke (yNow s) item (yStore s) = (grants, bs)"
  shows "battle_fine w cfg (s\<lparr>yStore := bs\<rparr>)"
proof -
  obtain db where db: "revokeContestSandboxGrants (yNow s) (bsBase (yStore s)) (acTenantID item) (acID item) = (grants, db)"
    and bs: "bs = (yStore s)\<lparr>bsBase := db\<rparr>"
    using assms(2) by (auto simp: archiveContest_revoke_def split: prod.splits)
  have r: "row_changes (yNow s) (bsBase (yStore s)) db" using revoke_all [OF db] by blast
  have "system_ok (wSandbox w) (contest_part s)" "fence (yStore s)" using assms(1) by (simp_all add: battle_fine_def)
  then show ?thesis
    using rows_base [OF r, of "wSandbox w" "s\<lparr>yStore := bs\<rparr>"] contests_fence [OF row_changes_move [OF r]] revoke_ladder [OF db]
    by (intro fine_contests [OF assms(1)]) (simp_all add: bs)
qed

lemma claimed_fine:
  assumes "battle_fine w cfg s" and "row_changes (yNow s) (bsBase (yStore s)) (bsBase bs) \<and> fence bs \<and> bsMatches bs = bsMatches (yStore s) \<and>
    bsEntries bs = bsEntries (yStore s) \<and> dbLadder (bsBase bs) = dbLadder (bsBase (yStore s))"
  shows "battle_fine w cfg (s\<lparr>yStore := bs, yClaims := items, yTokens := insert token (yTokens s)\<rparr>)"
proof -
  let ?s = "s\<lparr>yStore := bs, yClaims := items, yTokens := insert token (yTokens s)\<rparr>"
  have "system_ok (wSandbox w) (contest_part ?s)"
    by (rule rows_base [OF conjunct1 [OF assms(2)]]) (use assms(1) in \<open>simp_all add: battle_fine_def\<close>)
  then show ?thesis using assms(2) by (intro fine_contests [OF assms(1)]) auto
qed

lemma archived_fine:
  assumes "battle_fine w cfg s" and "archiveContest_end cfg (yNow s) newID item (yStore s) = Inr bs"
  shows "battle_fine w cfg (s\<lparr>yStore := bs\<rparr>)"
proof -
  obtain ranks db where db: "saveLadderSnapshot (yNow s) newID (bsBase (yStore s)) (acTenantID item) (acID item) ContestStatusArchived ranks = Inr db"
    and c: "CompleteAutoArchiveContest (yNow s) ((yStore s)\<lparr>bsBase := db\<rparr>) (acTenantID item) (acID item) (acLeaseToken item) = Inr bs"
    using assms(2) by (auto simp: archiveContest_end_def bindR_Inr)
  have r: "row_change (yNow s) (bsBase (yStore s)) db" using saveLadderSnapshot_rows [OF db] by blast
  have l: "dbLadder db = dbLadder (bsBase (yStore s))"
    using db by (auto simp: saveLadderSnapshot_def UpsertLadderSnapshot_def split: if_splits)
  have ok: "system_ok (wSandbox w) (contest_part (s\<lparr>yStore := (yStore s)\<lparr>bsBase := db\<rparr>\<rparr>))"
    by (rule rows_base [OF rows_step [OF r]]) (use assms(1) in \<open>simp_all add: battle_fine_def\<close>)
  have f: "fence ((yStore s)\<lparr>bsBase := db\<rparr>)" using contests_fence [OF row_change_move [OF r]] assms(1) by (simp add: battle_fine_def)
  have "system_ok (wSandbox w) (contest_part (s\<lparr>yStore := bs\<rparr>)) \<and> fence bs \<and> bsMatches bs = bsMatches (yStore s) \<and>
      bsEntries bs = bsEntries (yStore s) \<and> dbLadder (bsBase bs) = dbLadder db"
    using Complete_fine [OF c f, of "wSandbox w" "yNow s" "yEnvs s"] ok by (simp add: contest_part_def)
  then show ?thesis using l by (intro fine_contests [OF assms(1)]) auto
qed

lemma contest_fine:
  assumes "battle_fine w cfg s" and "contest_step (wHash w) (wSandbox w) (contest_part s) c" and "dbLadder (sysDB c) = dbLadder (bsBase (yStore s))"
    and hex: "\<And>r. CHR ''-'' \<notin> set (wHash w r)"
  shows "battle_fine w cfg (with_contest c s)"
proof -
  have ok: "system_ok (wSandbox w) (contest_part s)" and f: "fence (yStore s)" using assms(1) by (simp_all add: battle_fine_def)
  have "contest_part (with_contest c s) = c" by (simp add: contest_part_def with_contest_def)
  then have "system_ok (wSandbox w) (contest_part (with_contest c s))" using contest_step_ok [OF assms(2) ok hex] by simp
  moreover have "fence ((yStore s)\<lparr>bsBase := sysDB c\<rparr>)"
    using contests_fence [OF contest_step_move [OF assms(2) ok, unfolded contest_part_def, simplified] f] .
  ultimately show ?thesis using assms(3) by (intro fine_contests [OF assms(1)]) (simp_all add: with_contest_def)
qed

lemma ArchiveContest_shape:
  "ArchiveContest_claim cfg now here token ctx roles contestID bs = Inr (item, bs') \<Longrightarrow>
     \<exists>t until. ClaimManualArchiveContest now bs t contestID here until token = Inr (item, bs')"
  by (auto simp: ArchiveContest_claim_def bindR_Inr thenR_Inr)

subsection \<open>Reachable states\<close>

lemma battle_step_fine:
  assumes "battle_step w cfg s s'" and "battle_fine w cfg s" and hex: "\<And>r. CHR ''-'' \<notin> set (wHash w r)"
  shows "battle_fine w cfg s'"
  using assms(1)
proof cases
  case (contest c)
  then show ?thesis using contest_fine [OF assms(2) _ _ hex] by blast
next
  case (entry entryID matchID tenantID i contestID req problem team ref hash e bs)
  then show ?thesis using entry_fine [OF assms(2)] by blast
next
  case (claim token here spent taken bs)
  then show ?thesis using matchmaker_fine [OF assms(2)] by blast
next
  case (renew m here renewed bs)
  then have "matches_move False (wSource w) (attempts cfg) None (yStore s) bs" by (auto simp: renewBattleStart_def intro: Renew_moves)
  then show ?thesis using one_move_fine [OF assms(2), where token = None and T = "yTokens s"] renew(1) by (simp add: same_tokens)
next
  case (begun m ans finding res bs)
  then show ?thesis using one_move_fine [OF assms(2) begun_moves [OF assms(2) begun(2,3,4)], where T = "yTokens s"] by (simp add: same_tokens)
next
  case (prepare event task result answer replayRef before)
  then show ?thesis using prepare_fine [OF assms(2)] by blast
next
  case (verdict event result replayRef idA idB m committed bs)
  then show ?thesis using verdict_fine [OF assms(2)] by blast
next
  case (failure event m bs)
  then show ?thesis using one_move_fine [OF assms(2) failure_moves, where token = None and T = "yTokens s"] by (simp add: same_tokens)
next
  case (deliver token here m claimed bs)
  then show ?thesis using one_move_fine [OF assms(2) deliver_moves [OF deliver(4)], where T = "insert token (yTokens s)"] by auto
next
  case (delivered token m delivery bs)
  then show ?thesis using one_move_fine [OF assms(2) delivered_moves, where token = None and T = "yTokens s"] by (simp add: same_tokens)
next
  case (archive token here ctx roles contestID item bs)
  then obtain t until where "ClaimManualArchiveContest (yNow s) (yStore s) t contestID here until token = Inr (item, bs)"
    using ArchiveContest_shape by blast
  moreover have "fence (yStore s)" using assms(2) by (simp add: battle_fine_def)
  ultimately show ?thesis using claimed_fine [OF assms(2)] ClaimManual_fine rows_step archive(1) by blast
next
  case (auto_archive token here items bs)
  have "fence (yStore s)" "contests_ok (yNow s) (bsBase (yStore s))" using assms(2) by (simp_all add: battle_fine_def system_ok_def contest_part_def)
  then show ?thesis using claimed_fine [OF assms(2)] ClaimAuto_fine [OF auto_archive(4) [unfolded RunAutoArchiveOnce_claim_def]] auto_archive(1) by blast
next
  case (revoke item grants bs)
  then show ?thesis using revoke_fine [OF assms(2)] by blast
next
  case (archived item newID bs)
  then show ?thesis using archived_fine [OF assms(2)] by blast
qed

lemma battles_reachable:
  assumes "(battle_step w cfg)\<^sup>*\<^sup>* s0 s" and "battle_started s0" and "\<And>r. CHR ''-'' \<notin> set (wHash w r)"
  shows "battle_fine w cfg s"
  using assms(1)
proof (induction rule: rtranclp_induct)
  case base
  then show ?case using assms(2) by (rule battles_started_fine)
next
  case (step s s')
  then show ?case using battle_step_fine assms(3) by blast
qed

end
