(* ===== verification/BattleSample.thy ===== *)
theory BattleSample
  imports BattleSteps
begin

section \<open>Contest module: a run of the battles\<close>

text \<open>
  Two teams enter a battle contest, the second entry is paired with the first, the match is started,
  judged and rated, the contest ends and is archived.
\<close>

definition rival :: Identity where "rival = \<lparr>idTenantID = 3, idAccountID = 9\<rparr>"

definition cupConfig :: battle_config where
  "cupConfig = \<lparr>bcBatchSize = 10, bcMaxAttempts = 3, bcLeaseDurationMs = 1, bcArchiveLeaseDurationMs = 1, bcELOInitialScore = 1500, bcELOKFactor = 32\<rparr>"

definition cup1 :: contest_store where
  "cup1 = after (CreateContest 10 1 (Some teacher) (sampleContestRequest\<lparr>cqMode := 2, cqMatchMode := 1\<rparr>) empty_store)"
definition cup2 :: contest_store where
  "cup2 = after (AddProblem_commit (Inr False) 5 teacher 1 (sampleContest\<lparr>ctMode := 2\<rparr>)
     (sampleProblemRequest\<lparr>prDynamicScore := None, prBattleRule := BattleRuleGame\<rparr>) None cup1)"
definition cup3 :: contest_store where
  "cup3 = after (transition_commit 10 0 50 (Inr False) teacher 1 ContestStatusSignup False (sampleContest\<lparr>ctMode := 2\<rparr>) [] cup2)"
definition cup4 :: contest_store where
  "cup4 = after (Signup 11 4 6 (Inr ''CODE'') (Some student) 1 ''red'' cup3)"
definition cup5 :: contest_store where
  "cup5 = after (Signup 11 14 16 (Inr ''CODE2'') (Some rival) 1 ''blue'' cup4)"
definition cup6 :: contest_store where
  "cup6 = after (transition_commit 25 0 50 (Inr False) teacher 1 ContestStatusRunning False (sampleContest\<lparr>ctMode := 2\<rparr>) [] cup5)"


definition cupStart :: contest_store where
  "cupStart = \<lparr>dbContests =
    [\<lparr>ctID = 1, ctTenantID = 1, ctOrganizerID = 2, ctName = ''cup'', ctMode = 2, ctMatchMode = 1, ctTeamMode = 2, ctSignupStart = 10,
        ctSignupEnd = 20, ctStartAt = 20, ctEndAt = 60, ctFreezeMinutes = 0, ctRules = Some [], ctStatus = 3, ctCreatedAt = 10, ctUpdatedAt = 25\<rparr>],
    dbProblems =
      [\<lparr>cpID = 5, cpTenantID = 1, cpContestID = 1, cpItemCode = ''p'', cpItemVersion = ''1'', cpScore = 100, cpDynamicScore = None,
          cpBattleConfig = None, cpBattleRule = 2, cpSeq = 1, cpCompositionDigest = [], cpCompositionSnapshot = None\<rparr>],
    dbTeams =
      [\<lparr>teID = 4, teTenantID = 1, teContestID = 1, teName = ''red'', teInviteCode = ''CODE'', teStatus = 2, teCreatedAt = 11, teMembers = []\<rparr>,
       \<lparr>teID = 14, teTenantID = 1, teContestID = 1, teName = ''blue'', teInviteCode = ''CODE2'', teStatus = 2, teCreatedAt = 11, teMembers = []\<rparr>],
    dbMembers =
      [\<lparr>tmID = 6, tmTenantID = 1, tmTeamID = 4, tmAccountID = 8, tmMemberTenantID = 3, tmIsLeader = True, tmJoinedAt = 11\<rparr>,
       \<lparr>tmID = 16, tmTenantID = 1, tmTeamID = 14, tmAccountID = 9, tmMemberTenantID = 3, tmIsLeader = True, tmJoinedAt = 11\<rparr>],
    dbGrants = [], dbSubmissions = [], dbLadder = [], dbSnapshots = [], dbCheats = []\<rparr>"

lemma cup6_eq: "cup6 = cupStart" by code_simp

definition entryRed :: BattleEntry where
  "entryRed = \<lparr>bnID = 21, bnTenantID = 1, bnContestID = 1, bnProblemID = 5, bnTeamID = 4, bnRole = 0, bnArtifactRef = ''ra'',
     bnArtifactHash = ''ha'', bnVersionNo = 1, bnIsActive = True, bnSubmittedAt = 26\<rparr>"
definition entryBlue :: BattleEntry where
  "entryBlue = entryRed\<lparr>bnID := 22, bnTeamID := 14, bnArtifactRef := ''rb'', bnArtifactHash := ''hb''\<rparr>"
definition matchNew :: BattleMatch where
  "matchNew = \<lparr>bmID = 32, bmTenantID = 1, bmContestID = 1, bmProblemID = 5, bmEntryAID = 22, bmEntryBID = 21,
     bmSourceRef = ''contest:0001:battle:32'', bmScopeRef = ''contest:0001:battle:32'', bmSandboxRef = [], bmJudgeTaskRef = [],
     bmResult = 0, bmScoreDelta = None, bmReplayRef = [], bmStatus = 1, bmMatchedAt = 26, bmFinishedAt = 0, bmLeaseToken = [],
     bmLeaseUntil = None, bmAttemptCount = 0, bmFinalizedAt = None\<rparr>"
definition matchClaimed :: BattleMatch where
  "matchClaimed = matchNew\<lparr>bmStatus := 2, bmLeaseToken := ''tok'', bmLeaseUntil := Some 1000027, bmAttemptCount := 1\<rparr>"
definition matchBegun :: BattleMatch where
  "matchBegun = matchNew\<lparr>bmStatus := 2, bmSandboxRef := ''7'', bmJudgeTaskRef := ''9'', bmAttemptCount := 1\<rparr>"
definition cupWith :: "contest_store \<Rightarrow> BattleEntry list \<Rightarrow> BattleMatch list \<Rightarrow> archive_lease list \<Rightarrow> battle_store" where
  "cupWith db es ms ls = \<lparr>bsBase = db, bsEntries = es, bsMatches = ms, bsLeases = ls\<rparr>"
definition strategyRequest :: BattleEntryRequest where "strategyRequest = \<lparr>beProblemID = 5, beSandboxID = 1, beRole = BattleRoleStrategy\<rparr>"

lemma entry_red:
  "SubmitBattleEntry_commit cupConfig 26 21 (\<lambda>_. 31) 1 student 1 strategyRequest (hd (dbProblems cupStart)) (hd (dbTeams cupStart)) ''ra'' ''ha''
     (cupWith cupStart [] [] []) = Inr (entryRed, cupWith cupStart [entryRed] [] [])"
  by code_simp
lemma entry_blue:
  "SubmitBattleEntry_commit cupConfig 26 22 (\<lambda>_. 32) 1 rival 1 strategyRequest (hd (dbProblems cupStart)) (dbTeams cupStart ! 1) ''rb'' ''hb''
     (cupWith cupStart [entryRed] [] []) = Inr (entryBlue, cupWith cupStart [entryRed, entryBlue] [matchNew] [])"
  by code_simp
lemma match_claim:
  "RunMatchmakerOnce_claim cupConfig 27 27 ''tok'' (cupWith cupStart [entryRed, entryBlue] [matchNew] []) =
     Inr (([], [matchClaimed]), cupWith cupStart [entryRed, entryBlue] [matchClaimed] [])"
  by code_simp
lemma match_begin:
  "executeBattleMatch_end ans 28 matchClaimed (CanStart 7 9) (cupWith cupStart [entryRed, entryBlue] [matchClaimed] []) =
     (Inr (), cupWith cupStart [entryRed, entryBlue] [matchBegun] [])"
  by code_simp

definition cupResult :: JudgeTaskResult where
  "cupResult = \<lparr>jtPassed = True, jtScore = 1, jtMaxScore = 1,
     jtDetails = [\<lparr>jdCase = ''game'', jdPassed = True, jdExpectedLabel = [], jdActual = '' A_WIN'', jdHint = []\<rparr>], jtResultRef = [],
     jtReplay = \<lparr>jrActions = [\<lparr>jaSeq = 1, jaOp = ''step'', jaPayload = [], jaOutput = []\<rparr>]\<rparr>\<rparr>"
definition cupTask :: JudgeTaskInfo where
  "cupTask = \<lparr>jiTaskID = 9, jiTenantID = 1, jiSubmitterTenantID = 1, jiSourceRef = ''contest:0001:battle:32'', jiSubmitterID = 9,
     jiStatus = JudgeTaskStatusDone, jiResult = cupResult\<rparr>"
definition cupEvent :: JudgeCompletedEvent where
  "cupEvent = \<lparr>jcTenantID = 1, jcTraceID = [], jcTaskID = 9, jcSourceRef = ''contest:0001:battle:32'', jcStatus = JudgeTaskStatusDone,
     jcScore = 1, jcPassed = True, jcFinishedAt = 29\<rparr>"

lemma cup_verdict: "battle_verdict cupEvent (Inr cupTask) = Inr cupResult" by code_simp
lemma cup_prepared:
  "prepareBattleReplay (cupWith cupStart [entryRed, entryBlue] [matchBegun] []) 1 9 cupResult ''contest:0001:battle:32'' (Inr ''replay'') = Inr (''replay'', False)"
  by code_simp


definition matchDone :: BattleMatch where
  "matchDone = matchBegun\<lparr>bmResult := 1, bmReplayRef := ''replay'', bmStatus := 3, bmFinishedAt := 29,
     bmScoreDelta := Some \<lparr>sdTeamAID = 14, sdTeamBID = 4, sdRatingABefore = 1500, sdRatingBBefore = 1500, sdRatingAAfter = 1516,
       sdRatingBAfter = 1484, sdDeltaA = 16, sdDeltaB = -16, sdKFactor = 32, sdResult = 1\<rparr>\<rparr>"
definition cupRated :: contest_store where
  "cupRated = cupStart\<lparr>dbLadder :=
     [\<lparr>lrID = 41, lrTenantID = 1, lrContestID = 1, lrTeamID = 14, lrScore = 151600, lrSolvedCount = 0, lrLastSolveAt = 0, lrRank = 1, lrUpdatedAt = 29\<rparr>,
      \<lparr>lrID = 42, lrTenantID = 1, lrContestID = 1, lrTeamID = 4, lrScore = 148400, lrSolvedCount = 0, lrLastSolveAt = 0, lrRank = 2, lrUpdatedAt = 29\<rparr>]\<rparr>"

lemma cup_settle:
  "HandleBattleJudgeCompleted_settle cupConfig 29 41 42 cupEvent cupResult ''replay'' (cupWith cupStart [entryRed, entryBlue] [matchBegun] []) =
     Inr ((matchDone, True), cupWith cupRated [entryRed, entryBlue] [matchDone] [])"
  by code_simp

definition cupEnded :: contest_store where
  "cupEnded = cupRated\<lparr>dbContests := map (set_status 5 60) (dbContests cupRated)\<rparr>"
definition cupLease :: archive_lease where "cupLease = \<lparr>alTenantID = 1, alContestID = 1, alToken = ''arc'', alUntil = 1000060\<rparr>"
definition cupClaim :: ContestArchiveClaim where
  "cupClaim = \<lparr>acID = 1, acTenantID = 1, acCreatedAt = 10, acLeaseToken = ''arc'', acLeaseUntil = 1000060\<rparr>"

lemma cup_claimed:
  "RunAutoArchiveOnce_claim cupConfig 60 60 ''arc'' (cupWith cupRated [entryRed, entryBlue] [matchDone] []) =
     Inr ([cupClaim], cupWith cupEnded [entryRed, entryBlue] [matchDone] [cupLease])"
  by code_simp

definition cupArchived :: contest_store where
  "cupArchived = (case archiveContest_end cupConfig 60 51 cupClaim (cupWith cupEnded [entryRed, entryBlue] [matchDone] [cupLease]) of
     Inr bs \<Rightarrow> bsBase bs | Inl _ \<Rightarrow> empty_store)"

lemma cup_archived:
  "archiveContest_end cupConfig 60 51 cupClaim (cupWith cupEnded [entryRed, entryBlue] [matchDone] [cupLease]) =
     Inr (cupWith cupArchived [entryRed, entryBlue] [matchDone] [])"
  by code_simp

subsection \<open>The run\<close>

definition cupWorld :: battle_world where
  "cupWorld = \<lparr>wHash = sampleHash, wSandbox = sampleRef, wJudge = (\<lambda>_ _ info. info = cupTask), wSource = (\<lambda>_. ''contest:0001:battle:32''),
     wFailing = (\<lambda>_ _. False)\<rparr>"

definition cupState :: "battle_store \<Rightarrow> int \<Rightarrow> battle_system" where
  "cupState bs now = \<lparr>yStore = bs, yNow = now, yEnvs = [], yHeld = [], yClaims = [], yTokens = {}, yPrepared = [], ySettled = []\<rparr>"

lemma cup_then:
  "(battle_step cupWorld cupConfig)\<^sup>*\<^sup>* s0 s \<Longrightarrow> battle_step cupWorld cupConfig s t \<Longrightarrow> (battle_step cupWorld cupConfig)\<^sup>*\<^sup>* s0 t"
  by (rule rtranclp.rtrancl_into_rtrancl)

lemma cup_contest:
  assumes "contest_step sampleHash sampleRef \<lparr>sysDB = db, sysNow = n, sysEnvs = []\<rparr> \<lparr>sysDB = db', sysNow = n', sysEnvs = []\<rparr>"
    and "dbLadder db' = dbLadder db"
  shows "battle_step cupWorld cupConfig (cupState (cupWith db [] [] []) n) (cupState (cupWith db' [] [] []) n')"
proof -
  have "contest_step (wHash cupWorld) (wSandbox cupWorld) (contest_part (cupState (cupWith db [] [] []) n)) \<lparr>sysDB = db', sysNow = n', sysEnvs = []\<rparr>"
    using assms(1) by (simp add: cupWorld_def contest_part_def cupState_def cupWith_def)
  from battle_step.contest [OF this] show ?thesis using assms(2) by (simp add: with_contest_def cupState_def cupWith_def)
qed

lemma cup_checks:
  "\<not> isl (CreateContest 10 1 (Some teacher) (sampleContestRequest\<lparr>cqMode := 2, cqMatchMode := 1\<rparr>) empty_store)"
  "\<not> isl (AddProblem_commit (Inr False) 5 teacher 1 (sampleContest\<lparr>ctMode := 2\<rparr>)
     (sampleProblemRequest\<lparr>prDynamicScore := None, prBattleRule := BattleRuleGame\<rparr>) None cup1)"
  "\<not> isl (transition_commit 10 0 50 (Inr False) teacher 1 ContestStatusSignup False (sampleContest\<lparr>ctMode := 2\<rparr>) [] cup2)"
  "\<not> isl (Signup 11 4 6 (Inr ''CODE'') (Some student) 1 ''red'' cup3)"
  "\<not> isl (Signup 11 14 16 (Inr ''CODE2'') (Some rival) 1 ''blue'' cup4)"
  "\<not> isl (transition_commit 25 0 50 (Inr False) teacher 1 ContestStatusRunning False (sampleContest\<lparr>ctMode := 2\<rparr>) [] cup5)"
  by code_simp+

lemma cup_ladders: "dbLadder cup1 = []" "dbLadder cup2 = []" "dbLadder cup3 = []" "dbLadder cup4 = []" "dbLadder cup5 = []" "dbLadder cup6 = []"
    "dbLadder empty_store = []"
  by code_simp+

lemma cup_opened: "(battle_step cupWorld cupConfig)\<^sup>*\<^sup>* (cupState (cupWith empty_store [] [] []) 10) (cupState (cupWith cupStart [] [] []) 26)"
proof -
  let ?c = "\<lambda>db n. \<lparr>sysDB = db, sysNow = n, sysEnvs = []\<rparr>" and ?step = "contest_step sampleHash sampleRef"
  obtain c1 c2 c3 c4 c5 c6 where r: "CreateContest 10 1 (Some teacher) (sampleContestRequest\<lparr>cqMode := 2, cqMatchMode := 1\<rparr>) empty_store = Inr (c1, cup1)"
      "AddProblem_commit (Inr False) 5 teacher 1 (sampleContest\<lparr>ctMode := 2\<rparr>)
         (sampleProblemRequest\<lparr>prDynamicScore := None, prBattleRule := BattleRuleGame\<rparr>) None cup1 = Inr (c2, cup2)"
      "transition_commit 10 0 50 (Inr False) teacher 1 ContestStatusSignup False (sampleContest\<lparr>ctMode := 2\<rparr>) [] cup2 = Inr (c3, cup3)"
      "Signup 11 4 6 (Inr ''CODE'') (Some student) 1 ''red'' cup3 = Inr (c4, cup4)"
      "Signup 11 14 16 (Inr ''CODE2'') (Some rival) 1 ''blue'' cup4 = Inr (c5, cup5)"
      "transition_commit 25 0 50 (Inr False) teacher 1 ContestStatusRunning False (sampleContest\<lparr>ctMode := 2\<rparr>) [] cup5 = Inr (c6, cup6)"
    using after_Inr [OF cup_checks(1)] after_Inr [OF cup_checks(2)] after_Inr [OF cup_checks(3)] after_Inr [OF cup_checks(4)]
      after_Inr [OF cup_checks(5)] after_Inr [OF cup_checks(6)]
    unfolding cup1_def [symmetric] cup2_def [symmetric] cup3_def [symmetric] cup4_def [symmetric] cup5_def [symmetric] cup6_def [symmetric]
    by blast
  have s: "?step (?c empty_store 10) (?c cup1 10)" "?step (?c cup1 10) (?c cup2 10)" "?step (?c cup2 10) (?c cup3 10)"
      "?step (?c cup3 10) (?c cup3 11)" "?step (?c cup3 11) (?c cup4 11)" "?step (?c cup4 11) (?c cup5 11)" "?step (?c cup5 11) (?c cup5 25)"
      "?step (?c cup5 25) (?c cup6 25)" "?step (?c cup6 25) (?c cup6 26)"
    using contest_step.create [of "?c empty_store 10"] contest_step.problem [of _ _ _ _ _ _ _ "?c cup1 10"]
      contest_step.transition [of ContestStatusSignup "?c cup2 10"] contest_step.clock [of "?c cup3 10" 11]
      contest_step.signup [of 4 "?c cup3 11"] contest_step.signup [of 14 "?c cup4 11"] contest_step.clock [of "?c cup5 11" 25]
      contest_step.transition [of ContestStatusRunning "?c cup5 25"] contest_step.clock [of "?c cup6 25" 26] r
    by (simp_all add: contest_status_defs)
  let ?b = "\<lambda>db n. cupState (cupWith db [] [] []) n"
  have b: "battle_step cupWorld cupConfig (?b empty_store 10) (?b cup1 10)" "battle_step cupWorld cupConfig (?b cup1 10) (?b cup2 10)"
      "battle_step cupWorld cupConfig (?b cup2 10) (?b cup3 10)" "battle_step cupWorld cupConfig (?b cup3 10) (?b cup3 11)"
      "battle_step cupWorld cupConfig (?b cup3 11) (?b cup4 11)" "battle_step cupWorld cupConfig (?b cup4 11) (?b cup5 11)"
      "battle_step cupWorld cupConfig (?b cup5 11) (?b cup5 25)" "battle_step cupWorld cupConfig (?b cup5 25) (?b cup6 25)"
      "battle_step cupWorld cupConfig (?b cup6 25) (?b cup6 26)"
    using s cup_ladders by (simp_all add: cup_contest)
  show ?thesis
    unfolding cup6_eq [symmetric]
    by (rule cup_then [OF cup_then [OF cup_then [OF cup_then [OF cup_then [OF cup_then [OF cup_then [OF cup_then [OF cup_then
      [OF rtranclp.rtrancl_refl b(1)] b(2)] b(3)] b(4)] b(5)] b(6)] b(7)] b(8)] b(9)])
qed

definition cupLater ::
  "battle_store \<Rightarrow> int \<Rightarrow> BattleMatch list \<Rightarrow> ContestArchiveClaim list \<Rightarrow> string set \<Rightarrow>
     (JudgeCompletedEvent \<times> JudgeTaskResult \<times> string) list \<Rightarrow> BattleMatch list \<Rightarrow> battle_system" where
  "cupLater bs now held claims tokens prepared settled =
     \<lparr>yStore = bs, yNow = now, yEnvs = [], yHeld = held, yClaims = claims, yTokens = tokens, yPrepared = prepared, ySettled = settled\<rparr>"

lemma cup_clock:
  assumes "n \<le> n'"
  shows "battle_step cupWorld cupConfig (cupLater bs n held claims tokens prepared settled) (cupLater bs n' held claims tokens prepared settled)"
proof -
  let ?s = "cupLater bs n held claims tokens prepared settled"
  have "contest_step (wHash cupWorld) (wSandbox cupWorld) (contest_part ?s) \<lparr>sysDB = bsBase bs, sysNow = n', sysEnvs = []\<rparr>"
    using contest_step.clock [of "contest_part ?s" n'] assms by (simp add: contest_part_def cupLater_def)
  from battle_step.contest [OF this] show ?thesis by (simp add: with_contest_def cupLater_def)
qed

lemma cup_paired:
  "(battle_step cupWorld cupConfig)\<^sup>*\<^sup>* (cupState (cupWith empty_store [] [] []) 10)
     (cupLater (cupWith cupStart [entryRed, entryBlue] [matchNew] []) 27 [] [] {} [] [])"
proof -
  let ?l = "\<lambda>es ms n. cupLater (cupWith cupStart es ms []) n [] [] {} [] []" and ?step = "battle_step cupWorld cupConfig"
  have 1: "?step (?l [] [] 26) (?l [entryRed] [] 26)"
    using battle_step.entry [of cupConfig "?l [] [] 26"] entry_red by (simp add: cupLater_def)
  have 2: "?step (?l [entryRed] [] 26) (?l [entryRed, entryBlue] [matchNew] 26)"
    using battle_step.entry [of cupConfig "?l [entryRed] [] 26"] entry_blue by (simp add: cupLater_def)
  have 3: "?step (?l [entryRed, entryBlue] [matchNew] 26) (?l [entryRed, entryBlue] [matchNew] 27)" by (rule cup_clock) simp
  have "cupState (cupWith cupStart [] [] []) 26 = ?l [] [] 26" by (simp add: cupState_def cupLater_def)
  with cup_opened have 0: "?step\<^sup>*\<^sup>* (cupState (cupWith empty_store [] [] []) 10) (?l [] [] 26)" by simp
  show ?thesis by (rule cup_then [OF cup_then [OF cup_then [OF 0 1] 2] 3])
qed

lemma cup_judged:
  "(battle_step cupWorld cupConfig)\<^sup>*\<^sup>* (cupState (cupWith empty_store [] [] []) 10)
     (cupLater (cupWith cupStart [entryRed, entryBlue] [matchBegun] []) 29 [matchClaimed] [] {''tok''} [(cupEvent, cupResult, ''replay'')] [])"
proof -
  let ?l = "\<lambda>ms n held tokens prepared. cupLater (cupWith cupStart [entryRed, entryBlue] ms []) n held [] tokens prepared []"
    and ?step = "battle_step cupWorld cupConfig"
  have 1: "?step (?l [matchNew] 27 [] {} []) (?l [matchClaimed] 27 [matchClaimed] {''tok''} [])"
    using battle_step.claim [of "''tok''" "?l [matchNew] 27 [] {} []" cupConfig 27] match_claim by (simp add: cupLater_def)
  have 2: "?step (?l [matchClaimed] 27 [matchClaimed] {''tok''} []) (?l [matchClaimed] 28 [matchClaimed] {''tok''} [])"
    by (rule cup_clock) simp
  have 3: "?step (?l [matchClaimed] 28 [matchClaimed] {''tok''} []) (?l [matchBegun] 28 [matchClaimed] {''tok''} [])"
    using battle_step.begun [of matchClaimed "?l [matchClaimed] 28 [matchClaimed] {''tok''} []" undefined "CanStart 7 9" "Inr ()" _ cupWorld cupConfig] match_begin
    by (simp add: cupLater_def cupWorld_def matchClaimed_def matchNew_def)
  have 4: "?step (?l [matchBegun] 28 [matchClaimed] {''tok''} []) (?l [matchBegun] 29 [matchClaimed] {''tok''} [])"
    by (rule cup_clock) simp
  have 5: "?step (?l [matchBegun] 29 [matchClaimed] {''tok''} []) (?l [matchBegun] 29 [matchClaimed] {''tok''} [(cupEvent, cupResult, ''replay'')])"
    using battle_step.prepare [OF cup_verdict, of cupWorld "?l [matchBegun] 29 [matchClaimed] {''tok''} []" "Inr ''replay''" "''replay''" False cupConfig]
      cup_prepared by (simp add: cupLater_def cupWorld_def cupEvent_def)
  show ?thesis by (rule cup_then [OF cup_then [OF cup_then [OF cup_then [OF cup_then [OF cup_paired 1] 2] 3] 4] 5])
qed

lemma cup_rated:
  "(battle_step cupWorld cupConfig)\<^sup>*\<^sup>* (cupState (cupWith empty_store [] [] []) 10)
     (cupLater (cupWith cupRated [entryRed, entryBlue] [matchDone] []) 29 [matchClaimed] [] {''tok''} [(cupEvent, cupResult, ''replay'')] [matchDone])"
proof -
  let ?s = "cupLater (cupWith cupStart [entryRed, entryBlue] [matchBegun] []) 29 [matchClaimed] [] {''tok''} [(cupEvent, cupResult, ''replay'')] []"
  have "battle_step cupWorld cupConfig ?s
     (cupLater (cupWith cupRated [entryRed, entryBlue] [matchDone] []) 29 [matchClaimed] [] {''tok''} [(cupEvent, cupResult, ''replay'')] [matchDone])"
    using battle_step.verdict [of cupEvent cupResult "''replay''" ?s cupConfig 41 42] cup_settle by (simp add: cupLater_def)
  then show ?thesis by (rule cup_then [OF cup_judged])
qed

lemma cup_claim_step:
  "(battle_step cupWorld cupConfig)\<^sup>*\<^sup>* (cupState (cupWith empty_store [] [] []) 10)
     (cupLater (cupWith cupEnded [entryRed, entryBlue] [matchDone] [cupLease]) 60 [matchClaimed] [cupClaim] {''arc'', ''tok''}
        [(cupEvent, cupResult, ''replay'')] [matchDone])"
proof -
  let ?l = "\<lambda>bs n. cupLater bs n [matchClaimed] [] {''tok''} [(cupEvent, cupResult, ''replay'')] [matchDone]"
    and ?bs = "cupWith cupRated [entryRed, entryBlue] [matchDone] []"
  have 1: "battle_step cupWorld cupConfig (?l ?bs 29) (?l ?bs 60)" by (rule cup_clock) simp
  have 2: "battle_step cupWorld cupConfig (?l ?bs 60)
     (cupLater (cupWith cupEnded [entryRed, entryBlue] [matchDone] [cupLease]) 60 [matchClaimed] [cupClaim] {''arc'', ''tok''}
        [(cupEvent, cupResult, ''replay'')] [matchDone])"
    using battle_step.auto_archive [of "''arc''" "?l ?bs 60" cupConfig 60] cup_claimed by (simp add: cupLater_def)
  show ?thesis by (rule cup_then [OF cup_then [OF cup_rated 1] 2])
qed

lemma cup_archived_step:
  "battle_step cupWorld cupConfig
     (cupLater (cupWith cupEnded [entryRed, entryBlue] [matchDone] [cupLease]) 60 [matchClaimed] [cupClaim] tokens prepared settled)
     (cupLater (cupWith cupArchived [entryRed, entryBlue] [matchDone] []) 60 [matchClaimed] [cupClaim] tokens prepared settled)"
  using battle_step.archived [of cupClaim "cupLater (cupWith cupEnded [entryRed, entryBlue] [matchDone] [cupLease]) 60 [matchClaimed] [cupClaim] tokens prepared settled"
      cupConfig 51] cup_archived by (simp add: cupLater_def)

lemma cup_started: "battle_started (cupState (cupWith empty_store [] [] []) 10)"
  by (simp add: battle_started_def contest_started_def contest_part_def cupState_def cupWith_def)

lemma cup_hash: "CHR ''-'' \<notin> set (wHash cupWorld r)"
  by (simp add: cupWorld_def sampleHash_def)

end
