(* ===== verification/BattleTheorems.thy ===== *)
theory BattleTheorems
  imports BattleSample
begin

section \<open>Contest module: what the battles guarantee\<close>

text \<open>
  Properties of every reachable state of \<open>battle_step\<close>, in which all handlers of battles, archive and
  contest services are interleaved in any order, and of single handlers. \<open>wHash\<close> has no dash (it is
  hexadecimal).
\<close>

subsection \<open>The ladder of a closed contest\<close>

text \<open>A contest that is archived or that a worker has claimed for archiving.\<close>

definition closing :: "battle_store \<Rightarrow> int \<Rightarrow> int \<Rightarrow> bool" where
  "closing bs tenantID contestID \<longleftrightarrow>
     list_ex (\<lambda>c. contest_key tenantID contestID c \<and> ctStatus c = ContestStatusArchived) (dbContests (bsBase bs)) \<or>
     archive_lease_of bs tenantID contestID \<noteq> None"

lemma closing_iff:
  "closing bs t i \<longleftrightarrow> (\<exists>c \<in> set (dbContests (bsBase bs)). contest_key t i c \<and> ctStatus c = 6) \<or> (\<exists>l \<in> set (bsLeases bs). lease_key t i l)"
  by (auto simp: closing_def list_ex_iff ContestStatusArchived_def archive_lease_of_def find_None_iff)

lemma closing_no_battles: "fence bs \<Longrightarrow> closing bs t i \<Longrightarrow> \<not> open_battles bs t i"
  by (auto simp: closing_iff fence_def contest_key_def lease_key_def)

lemma closing_same: "bsLeases bs' = bsLeases bs \<Longrightarrow> contests_move (bsBase bs) (bsBase bs') \<Longrightarrow> closing bs t i \<Longrightarrow> closing bs' t i"
  unfolding closing_iff contests_move_def contest_key_def by fastforce

lemma closing_lease: "closing bs t i \<Longrightarrow> closing (set_lease l bs) t i"
  by (auto simp: closing_iff set_lease_def lease_key_def)

lemma closing_leases: "closing bs t i \<Longrightarrow> closing (fold (\<lambda>c. set_lease (lease_for token until c)) due bs) t i"
  by (induction due arbitrary: bs) (simp_all add: closing_lease)

lemma closing_set: "(\<And>c. c \<in> set (dbContests (bsBase bs)) \<Longrightarrow> p c \<Longrightarrow> ctStatus c \<noteq> 6) \<Longrightarrow> closing bs t i \<Longrightarrow> closing (set_contests p st now bs) t i"
  using upd_rows_mem [of _ "dbContests (bsBase bs)" p "set_status st now"] unfolding closing_iff set_contests_def by fastforce

lemma closing_complete:
  assumes "CompleteAutoArchiveContest now bs t i token = Inr bs'" and "closing bs a b"
  shows "closing bs' a b"
proof -
  define p where "p = (\<lambda>c. contest_key t i c \<and> ctStatus c = 5 \<and>
      (case archive_lease_of bs t i of None \<Rightarrow> False | Some l \<Rightarrow> alToken l = token \<and> now < alUntil l) \<and> \<not> open_battles bs t i)"
  have bs': "bs' = clear_lease t i (set_contests p 6 now bs)" and ex: "list_ex p (dbContests (bsBase bs))"
    using assms(1) unfolding CompleteAutoArchiveContest_def p_def [symmetric] by (auto split: if_splits)
  obtain c where c: "c \<in> set (dbContests (bsBase bs))" "p c" using ex by (auto simp: list_ex_iff)
  have "set_status 6 now c \<in> set (dbContests (bsBase bs'))"
    using upd_rows_mem [OF c(1), of p "set_status 6 now"] c(2) by (simp add: bs' clear_lease_def set_contests_def)
  then have here: "closing bs' t i" using c(2) unfolding closing_iff p_def by (intro disjI1 bexI) (auto simp: contest_key_def set_status_def)
  have "closing (set_contests p 6 now bs) a b" by (rule closing_set [OF _ assms(2)]) (simp add: p_def)
  then show ?thesis using here by (cases "(a, b) = (t, i)") (auto simp: closing_iff bs' clear_lease_def lease_key_def)
qed

lemma closing_auto:
  assumes "ClaimAutoArchiveContests now bs limit here until token = Inr (items, bs')" and "contests_ok now (bsBase bs)" and "closing bs t i"
  shows "closing bs' t i"
proof -
  obtain due n where due: "due = take n (sort_key ctEndAt (filter (archive_due now here bs) (dbContests (bsBase bs))))"
    and bs': "bs' = fold (\<lambda>c. set_lease (lease_for token until c)) due (set_contests (\<lambda>c. ctID c \<in> ctID ` set due) 5 now bs)"
    using assms(1) by (auto simp: ClaimAutoArchiveContests_def Let_def split: prod.splits if_splits)
  have "ctStatus c \<noteq> 6" if "c \<in> set (dbContests (bsBase bs))" and "ctID c \<in> ctID ` set due" for c
    using selected_ids [OF contests_ok_ids [OF assms(2)] that(1) that(2) [unfolded due]] by (auto simp: archive_due_def)
  then show ?thesis unfolding bs' by (intro closing_leases closing_set [OF _ assms(3)])
qed

lemma entry_base:
  assumes "SubmitBattleEntry_commit cfg now entryID matchID tenantID i contestID req problem team ref hash bs = Inr (e, bs')"
    and "entries_ok (bsEntries bs)"
  shows "bsBase bs' = bsBase bs \<and> bsLeases bs' = bsLeases bs"
  by (rule SubmitBattleEntry_shape [OF assms]) (simp add: grown_def)

lemma moves_base: "matches_move fin source_of most token bs bs' \<Longrightarrow> bsBase bs' = bsBase bs \<and> bsLeases bs' = bsLeases bs"
  by (simp add: matches_move_def)

text \<open>A step that is not a settlement: a move of matches, a new entry, or one that leaves matches and ladder alone.\<close>

lemma settle_rating:
  assumes "settle_running cfg now idA idB t taskResult replayRef current bs = Inr ((m, committed), bs')"
    and "\<not> open_battles bs t' c'" and "distinct (map bmID (bsMatches bs))" and "current \<in> set (bsMatches bs)" and "bmTenantID current = t"
  shows "battleRatingForTeam (bcELOInitialScore cfg) (bsBase bs') t' c' te = battleRatingForTeam (bcELOInitialScore cfg) (bsBase bs) t' c' te \<and>
    dbContests (bsBase bs') = dbContests (bsBase bs) \<and> bsLeases bs' = bsLeases bs"
proof -
  obtain a b :: BattleEntry and result and delta :: BattleScoreDelta and bs1 dbA dbB where sh:
      "FinishBattleMatch now bs (current\<lparr>bmResult := result, bmScoreDelta := Some delta, bmReplayRef := replayRef\<rparr>) = Inr (m, bs1)"
      "applyBattleRankDelta now idA (bcELOInitialScore cfg) (bsBase bs1) t (bmContestID current) (bnTeamID a) (sdDeltaA delta) = Inr dbA"
      "applyBattleRankDelta now idB (bcELOInitialScore cfg) dbA t (bmContestID current) (bnTeamID b) (sdDeltaB delta) = Inr dbB"
      "bs' = bs1\<lparr>bsBase := RefreshContestRanks now dbB t (bmContestID current)\<rparr>"
    by (rule settle_running_shape [OF assms(1)])
  let ?item = "current\<lparr>bmResult := result, bmScoreDelta := Some delta, bmReplayRef := replayRef\<rparr>"
  obtain r where r: "r \<in> set (bsMatches bs)" "bmStatus r = 2" "bmTenantID r = bmTenantID ?item" "bmID r = bmID ?item"
    by (rule Finish_rows [OF sh(1) assms(3)])
  have "r = current" using r(1,4) assms(3,4) by (auto simp: distinct_map inj_on_def)
  then have "open_battles bs t (bmContestID current)" using r(1,2) assms(5) by (auto simp: open_battles_def list_ex_iff unfinished_def)
  then have other: "(t', c') \<noteq> (t, bmContestID current)" using assms(2) by auto
  have b: "bsBase bs1 = bsBase bs" "bsLeases bs1 = bsLeases bs"
    using Finish_moves [OF sh(1), of "\<lambda>_. []" 0 None] by (simp_all add: matches_move_def)
  have "battleRatingForTeam (bcELOInitialScore cfg) (bsBase bs') t' c' te = battleRatingForTeam (bcELOInitialScore cfg) (bsBase bs) t' c' te"
    using other by (auto simp: sh(4) rating_refresh rating_apply [OF sh(3)] rating_apply [OF sh(2)] b)
  moreover have "dbContests (bsBase bs') = dbContests (bsBase bs)" using apply_other [OF sh(2)] apply_other [OF sh(3)] by (simp add: sh(4) b)
  ultimately show ?thesis by (simp add: sh(4) b)
qed

lemma rating_ladder: "dbLadder db' = dbLadder db \<Longrightarrow> battleRatingForTeam i db' t c te = battleRatingForTeam i db t c te"
  by (simp add: battleRatingForTeam_def GetLadderByTeam_def)

lemma settle_closed:
  assumes "HandleBattleJudgeCompleted_settle cfg now idA idB event result replayRef bs = Inr ((m, committed), bs')"
    and "distinct (map bmID (bsMatches bs))" and "closing bs t c" and "fence bs"
  shows "closing bs' t c \<and> battleRatingForTeam (bcELOInitialScore cfg) (bsBase bs') t c te = battleRatingForTeam (bcELOInitialScore cfg) (bsBase bs) t c te"
proof -
  obtain current where l: "LockBattleMatchByJudgeTask bs (jcTenantID event) (Format (jcTaskID event)) = Some current"
    and d: "bs' = bs \<or> settle_running cfg now idA idB (jcTenantID event) result replayRef current bs = Inr ((m, committed), bs')"
    using assms(1) unfolding HandleBattleJudgeCompleted_settle_def by (auto simp: bindR_Inr one_row_Inr split: if_splits)
  have cur: "current \<in> set (bsMatches bs)" "bmTenantID current = jcTenantID event"
    using find_SomeD [OF l [unfolded LockBattleMatchByJudgeTask_def]] by auto
  have no: "\<not> open_battles bs t c" by (rule closing_no_battles [OF assms(4,3)])
  from d show ?thesis
  proof
    assume "settle_running cfg now idA idB (jcTenantID event) result replayRef current bs = Inr ((m, committed), bs')"
    from settle_rating [OF this no assms(2) cur] show ?thesis
      using closing_same [OF _ contests_move_same assms(3)] by blast
  qed (use assms(3) in simp)
qed

lemma closed_step:
  assumes "battle_step w cfg s s'" and "battle_fine w cfg s" and "closing (yStore s) t c"
  shows "closing (yStore s') t c \<and>
    battleRatingForTeam (bcELOInitialScore cfg) (bsBase (yStore s')) t c te = battleRatingForTeam (bcELOInitialScore cfg) (bsBase (yStore s)) t c te"
proof -
  have f: "fence (yStore s)" "entries_ok (bsEntries (yStore s))" "distinct (map bmID (bsMatches (yStore s)))"
    and ok: "system_ok (wSandbox w) (contest_part s)" "contests_ok (yNow s) (bsBase (yStore s))"
    using assms(2) by (simp_all add: battle_fine_def rows_ok_def system_ok_def contest_part_def)
  have quiet: ?thesis if "bsBase (yStore s') = bsBase (yStore s) \<and> bsLeases (yStore s') = bsLeases (yStore s)"
    using that closing_same [OF _ contests_move_same assms(3)] by simp
  have loud: ?thesis if "closing (yStore s') t c" "dbLadder (bsBase (yStore s')) = dbLadder (bsBase (yStore s))"
    using rating_ladder [OF that(2)] that(1) by blast
  show ?thesis using assms(1)
  proof cases
    case (contest db)
    have "contests_move (bsBase (yStore s)) (sysDB db)" using contest_step_move [OF contest(2) ok(1)] by (simp add: contest_part_def)
    then have "closing (yStore s') t c" using contest(1) assms(3) closing_same [of "yStore s'" "yStore s"] by (simp add: with_contest_def)
    then show ?thesis by (rule loud) (simp add: contest(1,3) with_contest_def)
  next
    case (entry entryID matchID tenantID i contestID req problem team ref hash e bs)
    then show ?thesis using quiet entry_base [OF entry(2) f(2)] by simp
  next
    case (claim token here spent taken bs)
    have "bsBase bs = bsBase (yStore s) \<and> bsLeases bs = bsLeases (yStore s)"
      using claim(4) by (auto simp: RunMatchmakerOnce_claim_def ExhaustUnstartedBattleMatches_def ClaimPendingBattleMatches_def Let_def
          update_matches_def bindR_Inr split: prod.splits if_splits)
    then show ?thesis using quiet claim(1) by simp
  next
    case (renew m here renewed bs)
    then show ?thesis using quiet moves_base [OF Renew_moves [of _ _ _ _ _ _ _ bs]] by (auto simp: renewBattleStart_def)
  next
    case (begun m ans finding res bs)
    then show ?thesis using quiet moves_base [OF begun_moves [OF assms(2) begun(2,3,4)]] by simp
  next
    case (prepare event task result answer replayRef before)
    then show ?thesis using quiet by simp
  next
    case (verdict event result replayRef idA idB m committed bs)
    then show ?thesis using settle_closed [OF verdict(3) f(3) assms(3) f(1)] by simp
  next
    case (failure event m bs)
    then show ?thesis using quiet moves_base [OF failure_moves] by simp
  next
    case (deliver token here m claimed bs)
    then show ?thesis using quiet moves_base [OF deliver_moves [OF deliver(4)]] by simp
  next
    case (delivered token m delivery bs)
    then show ?thesis using quiet moves_base [OF delivered_moves] by simp
  next
    case (archive token here ctx roles contestID item bs)
    obtain tt until where k: "ClaimManualArchiveContest (yNow s) (yStore s) tt contestID here until token = Inr (item, bs)"
      using ArchiveContest_shape archive(4) by blast
    then have "closing bs t c" using assms(3)
      by (auto simp: ClaimManualArchiveContest_def Let_def intro!: closing_lease closing_set split: option.splits)
    then show ?thesis using ClaimManual_fine [OF k f(1)] archive(1) by (intro loud) simp_all
  next
    case (auto_archive token here items bs)
    note k = auto_archive(4) [unfolded RunAutoArchiveOnce_claim_def]
    have "closing bs t c" by (rule closing_auto [OF k ok(2) assms(3)])
    then show ?thesis using ClaimAuto_fine [OF k f(1) ok(2)] auto_archive(1) by (intro loud) simp_all
  next
    case (revoke item grants bs)
    obtain db where db: "revokeContestSandboxGrants (yNow s) (bsBase (yStore s)) (acTenantID item) (acID item) = (grants, db)"
      and bs: "bs = (yStore s)\<lparr>bsBase := db\<rparr>"
      using revoke(3) by (auto simp: archiveContest_revoke_def split: prod.splits)
    have "closing bs t c"
      using closing_same [OF _ contests_move_same assms(3), of bs] revoke_all [OF db] by (simp add: bs)
    then show ?thesis using revoke_ladder [OF db] revoke(1) by (intro loud) (simp_all add: bs)
  next
    case (archived item newID bs)
    obtain ranks db where db: "saveLadderSnapshot (yNow s) newID (bsBase (yStore s)) (acTenantID item) (acID item) ContestStatusArchived ranks = Inr db"
      and k: "CompleteAutoArchiveContest (yNow s) ((yStore s)\<lparr>bsBase := db\<rparr>) (acTenantID item) (acID item) (acLeaseToken item) = Inr bs"
      using archived(3) by (auto simp: archiveContest_end_def bindR_Inr)
    have "closing ((yStore s)\<lparr>bsBase := db\<rparr>) t c"
      using closing_same [OF _ contests_move_same assms(3), of "(yStore s)\<lparr>bsBase := db\<rparr>"] saveLadderSnapshot_rows [OF db] by simp
    moreover have "dbLadder (bsBase bs) = dbLadder (bsBase (yStore s))"
      using k db by (auto simp: CompleteAutoArchiveContest_def Let_def clear_lease_def set_contests_def saveLadderSnapshot_def
          UpsertLadderSnapshot_def split: if_splits)
    ultimately show ?thesis using closing_complete [OF k] archived(1) by (intro loud) simp_all
  qed
qed


lemma cup_closed:
  "closing (yStore (cupLater (cupWith cupEnded [entryRed, entryBlue] [matchDone] [cupLease]) n held claims tokens prepared settled)) 1 1"
  by (simp add: closing_iff cupLater_def cupWith_def cupLease_def lease_key_def)


subsection \<open>Matches\<close>



text \<open>
  C8: No battle is stuck before it has a judge task: in every reachable state an unfinished match of any
  contest can be claimed by the matchmaker, or is given up because its attempts are spent, or its judge
  task is reconciled, from a definite time on; its attempts are counted and never exceed the bound, so
  its start is retried finitely often.
\<close>

theorem battle_never_stuck:
  assumes "(battle_step w cfg)\<^sup>*\<^sup>* s0 s" and "battle_started s0" and "\<And>r. CHR ''-'' \<notin> set (wHash w r)"
    and "m \<in> set (bsMatches (yStore s))" and "unfinished m" and "Int32 (bcMaxAttempts cfg) = (n, True)" and "0 < sint n"
  shows "0 \<le> bmAttemptCount m \<and> bmAttemptCount m \<le> sint n \<and>
    (\<exists>T. \<forall>here \<ge> T. start_claimable (yStore s) (sint n) here m \<or> start_exhausted (sint n) here m \<or>
       \<not> no_task m \<and> to_reconcile (bmID m - 1) here m)"
proof -
  have fine: "battle_fine w cfg s" by (rule battles_reachable [OF assms(1-3)])
  have n: "attempts cfg = sint n" by (simp add: attempts_def assms(6))
  have row: "row_ok (yTokens s) (sint n) m" and f: "fence (yStore s)" and ok: "contests_ok (yNow s) (bsBase (yStore s))"
    using fine assms(4) by (simp_all add: battle_fine_def rows_ok_def n system_ok_def contest_part_def)
  obtain c where c: "c \<in> set (dbContests (bsBase (yStore s)))" "contest_key (bmTenantID m) (bmContestID m) c" "3 \<le> ctStatus c"
    using f assms(4) by (auto simp: fence_def)
  have op: "open_battles (yStore s) (bmTenantID m) (bmContestID m)" using assms(4,5) by (auto simp: open_battles_def list_ex_iff)
  have "ctStatus c \<le> 6" using ok c(1) by (auto simp: contests_ok_def contest_ok_def)
  moreover have "ctStatus c \<noteq> 6" using f c(1,2) op by (auto simp: fence_def contest_key_def)
  ultimately have st: "ctStatus c \<in> {3, 4} \<or> ctStatus c = 5" using c(3) by auto
  have "archive_lease_of (yStore s) (bmTenantID m) (bmContestID m) = None"
    using f op by (auto simp: fence_def archive_lease_of_def find_None_iff lease_key_def)
  then have acc: "accepts_battles (yStore s) (bmTenantID m) (bmContestID m)"
    using c(1,2) st by (auto simp: accepts_battles_def list_ex_iff)
  have a: "0 \<le> bmAttemptCount m" "bmAttemptCount m \<le> sint n" using row assms(7) by (simp_all add: row_ok_def)
  consider (new) "bmStatus m = 1" | (starting) u where "bmStatus m = 2" "no_task m" "bmLeaseUntil m = Some u" | (judged) "bmStatus m = 2" "\<not> no_task m"
    using assms(5) row by (auto simp: unfinished_def row_ok_def)
  then have "\<exists>T. \<forall>here \<ge> T. start_claimable (yStore s) (sint n) here m \<or> start_exhausted (sint n) here m \<or>
       \<not> no_task m \<and> to_reconcile (bmID m - 1) here m"
  proof cases
    case new
    then show ?thesis using acc row assms(7) by (auto simp: start_claimable_def row_ok_def)
  next
    case starting
    then show ?thesis using acc by (intro exI [of _ u]) (auto simp: start_claimable_def start_exhausted_def stale_def)
  next
    case judged
    then show ?thesis by (intro exI [of _ "bmMatchedAt m"]) (auto simp: to_reconcile_def)
  qed
  then show ?thesis using a by blast
qed

lemma cup_new_match:
  "matchNew \<in> set (bsMatches (yStore (cupLater (cupWith cupStart es [matchNew] ls) n held claims tokens prepared settled)))"
  by (simp add: cupLater_def cupWith_def)

lemma cup_new_unfinished: "unfinished matchNew" and cup_attempts: "Int32 (bcMaxAttempts cupConfig) = (3, True)"
  by code_simp+

theorem battle_never_stuck_witness:
  "0 \<le> bmAttemptCount matchNew \<and> bmAttemptCount matchNew \<le> sint (3 :: 32 word)"
proof -
  have "0 < sint (3 :: 32 word)" by code_simp
  note b = battle_never_stuck [OF cup_paired cup_started cup_hash cup_new_match cup_new_unfinished cup_attempts this]
  show ?thesis by (intro conjI) (rule b [THEN conjunct1], rule b [THEN conjunct2, THEN conjunct1])
qed

text \<open>
  C9: Pairings are proper in every reachable state: a team has at most one active entry per problem and
  role, and every match pairs entries of two different teams for the same problem of its contest whose
  roles complement each other.
\<close>

theorem battles_paired:
  assumes "(battle_step w cfg)\<^sup>*\<^sup>* s0 s" and "battle_started s0" and "\<And>r. CHR ''-'' \<notin> set (wHash w r)"
    and "m \<in> set (bsMatches (yStore s))"
  shows "length (filter (\<lambda>e. bnIsActive e \<and> entry_slot t c p te r e) (bsEntries (yStore s))) \<le> 1 \<and>
    (\<exists>a \<in> set (bsEntries (yStore s)). \<exists>b \<in> set (bsEntries (yStore s)). bnID a = bmEntryAID m \<and> bnID b = bmEntryBID m \<and>
       bnTeamID a \<noteq> bnTeamID b \<and> bnContestID a = bmContestID m \<and> bnContestID b = bmContestID m \<and>
       bnProblemID a = bmProblemID m \<and> bnProblemID b = bmProblemID m \<and>
       (battleRolesCompatible BattleRuleGame (bnRole a) (bnRole b) \<or> battleRolesCompatible BattleRuleAttackDefense (bnRole a) (bnRole b)))"
proof -
  have fine: "battle_fine w cfg s" by (rule battles_reachable [OF assms(1-3)])
  have "distinct (map slot (filter (\<lambda>e. slot e = (t, c, p, te, r)) (filter bnIsActive (bsEntries (yStore s)))))"
    by (rule distinct_map_filter) (use fine in \<open>simp add: battle_fine_def entries_ok_def\<close>)
  then have "length (filter (\<lambda>e. bnIsActive e \<and> entry_slot t c p te r e) (bsEntries (yStore s))) \<le> 1"
    by (intro distinct_one [where f = slot]) (auto simp: entry_slot_iff conj_commute)
  moreover have "paired (bsEntries (yStore s)) m" using fine assms(4) by (simp add: battle_fine_def)
  moreover have "roles_pair x y \<Longrightarrow> battleRolesCompatible BattleRuleGame x y \<or> battleRolesCompatible BattleRuleAttackDefense x y" for x y
    by (auto simp: roles_pair_def battleRolesCompatible_def BattleRuleGame_def BattleRuleAttackDefense_def)
  ultimately show ?thesis unfolding paired_def by blast
qed

theorem battles_paired_witness:
  "\<exists>a \<in> {entryRed, entryBlue}. \<exists>b \<in> {entryRed, entryBlue}. bnID a = bmEntryAID matchNew \<and> bnID b = bmEntryBID matchNew \<and> bnTeamID a \<noteq> bnTeamID b"
proof -
  have e: "set (bsEntries (yStore (cupLater (cupWith cupStart [entryRed, entryBlue] [matchNew] []) 27 [] [] {} [] []))) = {entryRed, entryBlue}"
    by (simp add: cupLater_def cupWith_def)
  show ?thesis
    using battles_paired [OF cup_paired cup_started cup_hash cup_new_match, THEN conjunct2, unfolded e] by blast
qed

subsection \<open>Ratings\<close>



subsection \<open>Replays and verdicts\<close>

text \<open>
  C26: A replay is given only to a member of one of the two teams of its match, and only when the match
  has a replay.
\<close>

theorem battle_replay_members_only:
  assumes "GetBattleReplay ctx matchID bs = Inr i"
  shows "\<exists>who m e member. ctx = Some who \<and> m \<in> set (bsMatches bs) \<and> bmID m = i \<and> i = matchID \<and> bmReplayRef m \<noteq> [] \<and>
    e \<in> set (bsEntries bs) \<and> bnID e \<in> {bmEntryAID m, bmEntryBID m} \<and> member \<in> set (dbMembers (bsBase bs)) \<and>
    tmTeamID member = bnTeamID e \<and> tmAccountID member = idAccountID who \<and> tmMemberTenantID member = idTenantID who"
proof -
  have access: "\<exists>member \<in> set (dbMembers db). tmTeamID member = te \<and> tmAccountID member = acc \<and> tmMemberTenantID member = mt"
    if "GetTeam db t te = Inr team" and "ensureTeamAccess mt acc team = Inr ()" for db t te team mt acc
    using that by (auto simp: GetTeam_def ListTeamMembers_def ensureTeamAccess_def list_ex_iff is_member_def split: option.splits if_splits)
  have entry: "e \<in> set (bsEntries bs) \<and> bnID e = j" if "GetBattleEntry bs t j = Inr e" for t j e
    using that by (auto simp: GetBattleEntry_def one_row_Inr dest: find_SomeD)
  obtain who t m where w: "ctx = Some who" "authorizedBattleReplay bs t (idTenantID who) (idAccountID who) matchID = Inr m" "bmID m = i"
    using assms by (cases ctx) (auto simp: GetBattleReplay_def currentIdentity_def bindR_Inr split: if_splits)
  obtain a b teamA teamB where r: "GetBattleMatch bs t matchID = Inr m" "GetBattleEntry bs t (bmEntryAID m) = Inr a"
      "GetBattleEntry bs t (bmEntryBID m) = Inr b" "GetTeam (bsBase bs) t (bnTeamID a) = Inr teamA" "GetTeam (bsBase bs) t (bnTeamID b) = Inr teamB"
      "ensureTeamAccess (idTenantID who) (idAccountID who) teamA = Inr () \<or> ensureTeamAccess (idTenantID who) (idAccountID who) teamB = Inr ()"
      "bmReplayRef m \<noteq> []"
    using w(2) by (auto simp: authorizedBattleReplay_def bindR_Inr split: if_splits)
  have m: "m \<in> set (bsMatches bs)" "bmID m = matchID"
    using r(1) by (auto simp: GetBattleMatch_def one_row_Inr match_key_def dest: find_SomeD)
  show ?thesis using r(6) access [OF r(4)] access [OF r(5)] entry [OF r(2)] entry [OF r(3)] w(1,3) m r(7) by fastforce
qed

lemma cup_replay: "GetBattleReplay (Some student) 32 (cupWith cupRated [entryRed, entryBlue] [matchDone] []) = Inr 32"
  by code_simp

theorem battle_replay_members_only_witness:
  "\<exists>member. member \<in> set (dbMembers cupRated) \<and> tmAccountID member = idAccountID student \<and> tmMemberTenantID member = idTenantID student"
  using battle_replay_members_only [OF cup_replay] by (auto simp: cupWith_def)

text \<open>
  C25: A verdict without replay actions is never used: while the judge's result of a running match has no
  recorded actions, every delivery of the completed event is refused, the reconciliation only repeats the
  event, and neither the manual nor the automatic archive of its contest can be claimed.
\<close>

theorem unusable_verdict_blocks_archive:
  assumes "LockBattleMatchByJudgeTask bs tenantID (Format taskID) = Some m" and "bmStatus m = BattleMatchStatusRunning"
    and "jrActions (jtReplay (jiResult task)) = []" and "jiStatus task = JudgeTaskStatusDone" and "Parse (TrimSpace (Format taskID)) = (taskID, True)"
    and "0 < taskID" and "judge tenantID taskID = Inr task"
  shows "isl (prepareBattleReplay bs tenantID taskID (jiResult task) sourceRef stored) \<and>
    (\<exists>event. reconcileBattleMatch now judge m = Inr (AsCompleted event) \<and> jcTaskID event = taskID \<and> jcTenantID event = tenantID) \<and>
    ClaimManualArchiveContest now bs tenantID (bmContestID m) before until token = Inl ErrContestStateInvalid \<and>
    \<not> archive_due now before bs (contest\<lparr>ctTenantID := tenantID, ctID := bmContestID m\<rparr>)"
proof -
  have m: "m \<in> set (bsMatches bs)" "bmTenantID m = tenantID" "bmJudgeTaskRef m = Format taskID"
    using find_SomeD [OF assms(1) [unfolded LockBattleMatchByJudgeTask_def]] by auto
  have st: "bmStatus m = 2" using assms(2) by (simp add: BattleMatchStatusRunning_def)
  have op: "open_battles bs tenantID (bmContestID m)" using m st by (auto simp: open_battles_def list_ex_iff unfinished_def)
  have "isl (prepareBattleReplay bs tenantID taskID (jiResult task) sourceRef stored)"
    using assms(1-3) st
    by (auto simp: prepareBattleReplay_def one_row_def finished_before_def bindR_def BattleMatchStatusRunning_def BattleMatchStatusDone_def split: sum.splits)
  moreover have "\<exists>event. reconcileBattleMatch now judge m = Inr (AsCompleted event) \<and> jcTaskID event = taskID \<and> jcTenantID event = tenantID"
    using assms(4-7) m st by (simp add: reconcileBattleMatch_def withCause_def BattleMatchStatusDone_def BattleMatchStatusFailed_def)
  moreover have "ClaimManualArchiveContest now bs tenantID (bmContestID m) before until token = Inl ErrContestStateInvalid"
    using op by (auto simp: ClaimManualArchiveContest_def Let_def find_None_iff split: option.splits dest: find_SomeD)
  ultimately show ?thesis using op by (simp add: archive_due_def)
qed

definition mutedTask :: JudgeTaskInfo where
  "mutedTask = cupTask\<lparr>jiResult := cupResult\<lparr>jtReplay := \<lparr>jrActions = []\<rparr>\<rparr>\<rparr>"

theorem unusable_verdict_blocks_archive_witness:
  "ClaimManualArchiveContest 61 (cupWith cupStart [entryRed, entryBlue] [matchBegun] []) 1 (bmContestID matchBegun) 61 99 ''arc'' =
     Inl ErrContestStateInvalid"
proof -
  let ?bs = "cupWith cupStart [entryRed, entryBlue] [matchBegun] []"
  have "LockBattleMatchByJudgeTask ?bs 1 (Format 9) = Some matchBegun" "bmStatus matchBegun = BattleMatchStatusRunning"
    "jrActions (jtReplay (jiResult mutedTask)) = []" "jiStatus mutedTask = JudgeTaskStatusDone" "Parse (TrimSpace (Format 9)) = (9, True)"
    by code_simp+
  from unusable_verdict_blocks_archive [OF this, of "\<lambda>_ _. Inr mutedTask"] show ?thesis by simp
qed

end
