(* ===== verification/Spec2Isabelle.thy ===== *)
theory Spec2Isabelle
  imports PlatformNum PlatformIds Snowflake SandboxQuota ContestProps ContestSystem JudgeTheorems BattleTheorems
begin

text \<open>
  CHAIMIR is a teaching platform: a Go backend (\<open>src/backend\<close>) of one process per role (server,
  cron, migrate) with one PostgreSQL database, a Kubernetes cluster for sandboxes and a NATS JetStream
  bus. Its modules (\<open>internal/modules/*\<close>) own disjoint tables and call each other through the
  interfaces of \<open>internal/contracts\<close>; \<open>internal/platform\<close> and \<open>pkg\<close> are shared
  libraries. The sandbox module runs containers that are declared by administrators, the judge grades
  submissions in sandboxes and publishes its verdicts on the bus, the contest module consumes the
  verdicts and keeps the ladders.

  \<^bold>\<open>Theories and sources\<close> (paths below \<open>src/backend\<close>)

  \<^item> \<open>Prelude\<close>: Go's \<open>(T, error)\<close> results as \<open>error + 'a\<close>, early returns, \<open>for range\<close>
    loops that stop at the first error, folds over keyed lists.
  \<^item> \<open>GoStrings\<close>, \<open>GoPath\<close>, \<open>GoTime\<close>: what the code uses of Go's \<open>strings\<close>,
    \<open>strconv\<close>, \<open>path\<close>, \<open>time\<close>. A string is a list of bytes.
  \<^item> \<open>Tables\<close>: what the queries of the modules share: updates of the rows that satisfy a condition,
    one row or an error.
  \<^item> \<open>PlatformNum\<close> (\<open>platform/intx\<close>, \<open>platform/pagex\<close>), \<open>PlatformIds\<close>
    (\<open>platform/ids\<close>), \<open>Snowflake\<close> (\<open>pkg/snowflake\<close>), \<open>Workload\<close>
    (\<open>platform/workload\<close>), \<open>EventBus\<close> (\<open>platform/eventbus\<close>), \<open>JsonPrivacy\<close>
    (JSON values and \<open>pkg/privacy\<close>).
  \<^item> \<open>SandboxModel\<close> (\<open>sandbox/model.go\<close>, \<open>enum.go\<close>, errors), then the rules of
    \<open>sandbox/rules.go\<close> by subject: \<open>SandboxLifecycle\<close> (status machine, shared accounts,
    workspace paths), \<open>SandboxVolumes\<close> (security domains), \<open>SandboxContainers\<close>,
    \<open>SandboxImages\<close>, \<open>SandboxTopology\<close>, \<open>SandboxAdapter\<close> (which composes them),
    \<open>SandboxTools\<close> and \<open>SandboxQuota\<close> (admission of a creation).
  \<^item> \<open>ContestModel\<close> and \<open>ContestRules\<close> (\<open>contest/enum.go\<close>, \<open>model.go\<close>,
    \<open>rules.go\<close> and the pure decisions of the services), with their properties in \<open>ContestProps\<close>.
  \<^item> \<open>ContestStore\<close>: the tables and the queries of \<open>contest/repo.go\<close>
    (\<open>contest/internal/sqlcgen/contest.sql.go\<close>); \<open>ContestScoring\<close>: submissions, verdict
    consumers and the ladder (\<open>service_solve.go\<close>, \<open>events.go\<close>); \<open>ContestService\<close>: the
    handlers of \<open>service_contest.go\<close>, \<open>service_team.go\<close>, \<open>service_solve.go\<close>,
    \<open>service_sandbox.go\<close>; \<open>ContestSystem\<close>: all of them as one transition system.
  \<^item> Battles (\<open>service_battle*.go\<close>, the archive part of \<open>service_contest.go\<close>): \<open>BattleStore\<close> the
    tables \<open>battle_entry\<close>, \<open>battle_match\<close> and the archive leases with their queries,
    \<open>BattleService\<close> the handlers, \<open>BattleSystem\<close> the transition system in which they are interleaved
    with the steps of \<open>ContestSystem\<close>. Its invariant is proved in parts: \<open>BattleInvariant\<close> (rows of
    matches and entries), \<open>BattleFence\<close> (archived contests have no open match), \<open>BattleSubmit\<close> (a new
    entry), \<open>BattleLadder\<close> (ratings), put together in \<open>BattleReach\<close> and \<open>BattleSteps\<close>;
    \<open>BattleSample\<close> is a run from the empty database to an archived contest, \<open>BattleTheorems\<close> holds
    the properties.
  \<^item> Judge (\<open>judge/*.go\<close>): \<open>JudgeModel\<close> (\<open>model.go\<close>, \<open>enum.go\<close>), \<open>JudgeRules\<close>
    (\<open>rules.go\<close>, \<open>service_spec.go\<close>, snapshots), \<open>JudgeExec\<close> (one execution by a worker, a
    state-and-error computation over the calls of the sandbox engine, \<open>service_worker.go\<close>,
    \<open>service_judgers.go\<close>), \<open>JudgeQueue\<close> (\<open>judge.sql.go\<close>), \<open>JudgeService\<close>
    (\<open>service_contract.go\<close>, \<open>service_task.go\<close>, \<open>service_worker.go\<close>), \<open>JudgeSystem\<close> their
    interleaving, \<open>JudgeLife\<close> the abstract life of a task, \<open>JudgeRuns\<close> the reachable states,
    \<open>JudgeSample\<close> a run, \<open>JudgeProps\<close> and \<open>JudgeTheorems\<close> the properties.

  \<^bold>\<open>How code becomes definitions.\<close> A definition has the name of the Go function or query it
  translates, and its branches are the source's, in the source's order. A structure is a record, a Go
  map an association list or a function to options, a pointer an option, a table the list of its rows.
  A function that returns an error is a sum type; \<open>WithCause\<close> keeps the error's identity, so the
  attached cause is dropped. Integers are words or carry explicit wrap-around where the code can
  overflow, and are \<open>int\<close> where it only compares them. A loop over a slice is structural recursion
  or a fold of \<open>Prelude\<close>; the waiting loop of \<open>Snowflake\<close> consumes clock readings,
  \<open>ladder_pages\<close> (the paging of \<open>listAllContestLadder\<close>) terminates by a measure. No
  definition carries fuel.

  \<^bold>\<open>Parameters.\<close> What is not in the repository is an argument: the clock, fresh identifiers
  and random codes, digests, \<open>resource.ParseQuantity\<close> of Kubernetes, the strict JSON decoder, the
  broker's deliveries; for the judge also the results of the sandbox engine's operations,
  \<open>json.Marshal\<close>, \<open>fmt.Sprint\<close>, HMAC and SHA-256; lease tokens are fresh values, and the clock of
  every worker is free, not the database's. So is the answer of another module, wherever the handler of one module is
  modelled without the other.

  \<^bold>\<open>Idealisations.\<close> A database transaction is one atomic step (a handler that spans two
  transactions is two definitions and everything may happen in between); the places where the code
  relies on the isolation level are named in the lemmas about them; a handler that calls another module
  between two transactions gives any answer the parameters allow. Connections do not fail inside a
  transaction. Foreign keys are not enforced by the tables. Ladder scores of solve contests, a
  \<open>float64\<close> in the code, are whole numbers here: they are sums of \<open>int32\<close> scores. The ratings of battles, also \<open>float64\<close>, are
  real numbers that each write to the ladder rounds to hundredths, as its column does.

  \<^bold>\<open>What the lemmas show.\<close> Each theory first proves what its loops compute (a check as a
  bounded quantifier, a fold as a set or a sum), then the properties: the sandbox rules admit only
  adapters, tools, images and networks with the stated isolation; the generator never repeats an
  identifier; an event is never lost; a contest's life cycle follows the clock; an account has one team
  per contest; the ladder is the sum of the verdicts. A judge task has one verdict per life, which its events announce
  exactly, and no task is stuck; the steps of the judge refine the life of a task. A ladder of battles is
  the replay of the settled matches, and is final once its contest is archived. \<open>ContestSystem\<close> states, for every handler,
  the abstract change of the tables it makes and proves an invariant of all reachable states from it; \<open>JudgeSystem\<close> and \<open>BattleSystem\<close> do the
  same with relations on single rows (\<open>task_move\<close>, \<open>match_move\<close>).

  \<^bold>\<open>Not modelled\<close>: HTTP binding, wiring, seeds and migrations, the Kubernetes, Redis and object
  store clients, token cryptography, rendering of notifications and dashboards. The manifest lists
  every component with its status.
\<close>

end
